(* ===== verification/Lwa_Prelude.thy ===== *)
theory Lwa_Prelude
  imports Main "HOL-Library.Char_ord" "HOL-Library.List_Lexorder"
begin

text \<open>
  Vocabulary shared by every component of the development.

  \<^item> Python strings are lists of \<^typ>\<open>char\<close>, read as code points below 256; the string
    order (code point by code point) is the order of \<^theory_text>\<open>List_Lexorder\<close> over
    \<^theory_text>\<open>Char_ord\<close>, which is also the order of SQLite's BINARY collation.
  \<^item> Exceptions are the left summand of a sum; an operation that can fail after a change of
    state returns the result and the state.
  \<^item> SQLite tables are lists of rows (records) in rowid order. The statements the code issues
    are the generic operations of the second section: select by key, UPDATE ... WHERE,
    DELETE ... WHERE, and INSERT at the end.
  \<^item> The interfaces that several components rely on are the locales of the last section.
\<close>

named_theorems tbl "equations and rules about tables"

section \<open>Python strings\<close>

definition is_ws :: "char \<Rightarrow> bool" where
  "is_ws c \<longleftrightarrow> (let n = of_char c :: nat in
     (9 \<le> n \<and> n \<le> 13) \<or> (28 \<le> n \<and> n \<le> 32) \<or> n = 133 \<or> n = 160)"

definition is_digit :: "char \<Rightarrow> bool" where
  "is_digit c \<longleftrightarrow> (let n = of_char c :: nat in 48 \<le> n \<and> n \<le> 57)"

definition is_upper :: "char \<Rightarrow> bool" where
  "is_upper c \<longleftrightarrow> (let n = of_char c :: nat in 65 \<le> n \<and> n \<le> 90)"

definition is_lower :: "char \<Rightarrow> bool" where
  "is_lower c \<longleftrightarrow> (let n = of_char c :: nat in 97 \<le> n \<and> n \<le> 122)"

definition is_alnum :: "char \<Rightarrow> bool" where
  "is_alnum c \<longleftrightarrow> is_digit c \<or> is_upper c \<or> is_lower c"

definition digit_val :: "char \<Rightarrow> nat" where
  "digit_val c = of_char c - 48"

definition lstrip :: "string \<Rightarrow> string" where
  "lstrip s = dropWhile is_ws s"

definition rstrip :: "string \<Rightarrow> string" where
  "rstrip s = rev (dropWhile is_ws (rev s))"

definition strip :: "string \<Rightarrow> string" where
  "strip s = rstrip (lstrip s)"

definition starts_with :: "string \<Rightarrow> string \<Rightarrow> bool" where
  "starts_with p s \<longleftrightarrow> take (length p) s = p"

definition ends_with :: "string \<Rightarrow> string \<Rightarrow> bool" where
  "ends_with p s \<longleftrightarrow> starts_with (rev p) (rev s)"

fun contains :: "string \<Rightarrow> string \<Rightarrow> bool" where
  "contains p [] = (p = [])"
| "contains p (c # s) = (starts_with p (c # s) \<or> contains p s)"

definition removeprefix :: "string \<Rightarrow> string \<Rightarrow> string" where
  "removeprefix p s = (if starts_with p s then drop (length p) s else s)"

definition removesuffix :: "string \<Rightarrow> string \<Rightarrow> string" where
  "removesuffix p s =
     (if p \<noteq> [] \<and> ends_with p s then take (length s - length p) s else s)"

fun split_on :: "char \<Rightarrow> string \<Rightarrow> string list" where
  "split_on c [] = [[]]"
| "split_on c (x # s) =
     (if x = c then [] # split_on c s
      else (case split_on c s of [] \<Rightarrow> [[x]] | w # ws \<Rightarrow> (x # w) # ws))"

fun join_on :: "char \<Rightarrow> string list \<Rightarrow> string" where
  "join_on c [] = []"
| "join_on c [w] = w"
| "join_on c (w # v # ws) = w @ c # join_on c (v # ws)"

definition digits_val :: "string \<Rightarrow> nat" where
  "digits_val s = foldl (\<lambda>n c. 10 * n + digit_val c) 0 s"

definition truthy :: "string option \<Rightarrow> bool" where
  "truthy v \<longleftrightarrow> (case v of None \<Rightarrow> False | Some s \<Rightarrow> s \<noteq> [])"

definition or_else :: "string option \<Rightarrow> string option \<Rightarrow> string option" where
  "or_else a b = (if truthy a then a else b)"

lemma split_on_nonempty [simp]: "split_on c s \<noteq> []"
  by (induction s) (auto split: list.splits)

lemma split_on_sep [simp]: "c \<notin> set w \<Longrightarrow> split_on c (w @ c # s) = w # split_on c s"
  by (induction w) auto

lemma split_on_no_sep: "c \<notin> set w \<Longrightarrow> split_on c w = [w]"
  by (induction w) auto

lemma split_on_parts: "w \<in> set (split_on c s) \<Longrightarrow> c \<notin> set w \<and> set w \<subseteq> set s"
  by (induction s arbitrary: w) (fastforce split: if_splits list.splits)+

lemma join_split: "join_on c (split_on c s) = s"
proof (induction s)
  case (Cons x s)
  obtain w ws where "split_on c s = w # ws"
    by (meson neq_Nil_conv split_on_nonempty)
  with Cons show ?case by (cases ws) auto
qed simp

lemma split_join:
  "ws \<noteq> [] \<Longrightarrow> (\<And>w. w \<in> set ws \<Longrightarrow> c \<notin> set w) \<Longrightarrow> split_on c (join_on c ws) = ws"
  by (induction c ws rule: join_on.induct) (auto simp: split_on_no_sep)

lemma set_join: "set (join_on c ws) \<subseteq> insert c (\<Union> (set ` set ws))"
  by (induction c ws rule: join_on.induct) auto

lemma join_on_Nil_iff: "(\<And>w. w \<in> set ws \<Longrightarrow> w \<noteq> []) \<Longrightarrow> join_on c ws = [] \<longleftrightarrow> ws = []"
  by (induction c ws rule: join_on.induct) auto

lemma truthy_simps [simp]:
  "\<not> truthy None" "truthy (Some s) \<longleftrightarrow> s \<noteq> []"
  by (simp_all add: truthy_def)

lemma truthyE:
  assumes "truthy v" obtains s where "v = Some s" "s \<noteq> []"
  using assms by (cases v) auto

lemma starts_with_append [simp]: "starts_with p (p @ s)"
  by (simp add: starts_with_def)

lemma starts_with_iff: "starts_with p s \<longleftrightarrow> (\<exists>t. s = p @ t)"
proof
  assume "starts_with p s"
  then have "s = p @ drop (length p) s"
    by (metis append_take_drop_id starts_with_def)
  then show "\<exists>t. s = p @ t" ..
next
  assume "\<exists>t. s = p @ t"
  then show "starts_with p s" by auto
qed

lemma ends_with_append [simp]: "ends_with p (s @ p)"
  by (simp add: ends_with_def)

section \<open>JSON values\<close>

text \<open>Values that pass through \<^verbatim>\<open>json.dumps\<close> and \<^verbatim>\<open>json.loads\<close>; an object is its list
  of members. \<open>canonical\<close> is the \<open>sort_keys=True\<close> form: the members of every object sorted by
  key.\<close>

datatype json =
    JNull
  | JBool bool
  | JInt int
  | JStr string
  | JArr "json list"
  | JObj "(string \<times> json) list"

fun canonical :: "json \<Rightarrow> json" where
  "canonical (JArr xs) = JArr (map canonical xs)"
| "canonical (JObj ms) = JObj (sort_key fst (map (\<lambda>(k, v). (k, canonical v)) ms))"
| "canonical j = j"

fun obj_get :: "json \<Rightarrow> string \<Rightarrow> json option" where
  "obj_get (JObj ms) k = map_of ms k"
| "obj_get _ k = None"

section \<open>Tables\<close>

definition find_by :: "('r \<Rightarrow> 'k) \<Rightarrow> 'k \<Rightarrow> 'r list \<Rightarrow> 'r option" where
  "find_by key k t = find (\<lambda>r. key r = k) t"

definition upd_where :: "('r \<Rightarrow> bool) \<Rightarrow> ('r \<Rightarrow> 'r) \<Rightarrow> 'r list \<Rightarrow> 'r list" where
  "upd_where P f t = map (\<lambda>r. if P r then f r else r) t"

definition del_where :: "('r \<Rightarrow> bool) \<Rightarrow> 'r list \<Rightarrow> 'r list" where
  "del_where P t = filter (\<lambda>r. \<not> P r) t"

definition rowcount :: "('r \<Rightarrow> bool) \<Rightarrow> 'r list \<Rightarrow> nat" where
  "rowcount P t = length (filter P t)"

definition pk_ok :: "('r \<Rightarrow> 'k) \<Rightarrow> 'r list \<Rightarrow> bool" where
  "pk_ok key t \<longleftrightarrow> distinct (map key t)"

definition upsert_row :: "('r \<Rightarrow> 'k) \<Rightarrow> ('r \<Rightarrow> 'r \<Rightarrow> 'r) \<Rightarrow> 'r \<Rightarrow> 'r list \<Rightarrow> 'r list" where
  \<comment> \<open>INSERT ... ON CONFLICT(key) DO UPDATE: \<open>merge old excluded\<close> is the SET clause\<close>
  "upsert_row key merge r t =
     (if \<exists>x \<in> set t. key x = key r
      then upd_where (\<lambda>x. key x = key r) (\<lambda>x. merge x r) t
      else t @ [r])"

definition coalesce :: "'a option \<Rightarrow> 'a option \<Rightarrow> 'a option" where
  "coalesce a b = (case a of None \<Rightarrow> b | Some x \<Rightarrow> Some x)"

lemma coalesce_simps [simp]:
  "coalesce None b = b" "coalesce (Some x) b = Some x"
  by (simp_all add: coalesce_def)

lemma find_by_Nil [simp, tbl]: "find_by key k [] = None"
  by (simp add: find_by_def)

lemma find_by_Cons [simp, tbl]:
  "find_by key k (r # t) = (if key r = k then Some r else find_by key k t)"
  by (simp add: find_by_def)

lemma upd_where_simps [simp]:
  "upd_where P f [] = []"
  "upd_where P f (r # t) = (if P r then f r else r) # upd_where P f t"
  by (simp_all add: upd_where_def)

lemma del_where_simps [simp]:
  "del_where P [] = []"
  "del_where P (r # t) = (if P r then del_where P t else r # del_where P t)"
  by (simp_all add: del_where_def)

lemma find_by_None_iff [tbl]: "find_by key k t = None \<longleftrightarrow> (\<forall>r \<in> set t. key r \<noteq> k)"
  by (induction t) auto

lemma find_by_SomeD: "find_by key k t = Some r \<Longrightarrow> r \<in> set t \<and> key r = k"
  by (induction t) (auto split: if_splits)

lemma find_by_key: "find_by key k t = Some r \<Longrightarrow> key r = k"
  by (drule find_by_SomeD) simp

lemma find_by_append [tbl]:
  "find_by key k (t @ u) = (case find_by key k t of None \<Rightarrow> find_by key k u | Some r \<Rightarrow> Some r)"
  by (induction t) auto

lemma find_by_mem:
  "pk_ok key t \<Longrightarrow> r \<in> set t \<Longrightarrow> find_by key (key r) t = Some r"
  unfolding pk_ok_def by (induction t) (auto simp: rev_image_eqI)

lemma find_by_upd_where [tbl]:
  assumes "\<And>r. P r \<Longrightarrow> key (f r) = key r"
  shows "find_by key k (upd_where P f t) =
     map_option (\<lambda>r. if P r then f r else r) (find_by key k t)"
  using assms by (induction t) auto

lemma find_by_del_where:
  "pk_ok key t \<Longrightarrow> find_by key k (del_where P t) =
     (case find_by key k t of None \<Rightarrow> None | Some r \<Rightarrow> if P r then None else Some r)"
  unfolding pk_ok_def
proof (induction t)
  case (Cons r t)
  have "find_by key k (del_where P t) = None" if "key r = k"
    using Cons.prems that by (auto simp: find_by_None_iff del_where_def image_iff)
  with Cons show ?case by auto
qed simp

lemma find_by_del_key [tbl]:
  "find_by key k (del_where (\<lambda>r. key r = k') t) = (if k = k' then None else find_by key k t)"
  by (induction t) auto

lemma map_key_upd_where [tbl]:
  assumes "\<And>r. P r \<Longrightarrow> key (f r) = key r"
  shows "map key (upd_where P f t) = map key t"
  using assms by (induction t) auto

lemma set_upd_where: "set (upd_where P f t) = (\<lambda>r. if P r then f r else r) ` set t"
  by (simp add: upd_where_def)

lemma set_del_where [simp]: "set (del_where P t) = {r \<in> set t. \<not> P r}"
  by (auto simp: del_where_def)

lemma length_upd_where [simp]: "length (upd_where P f t) = length t"
  by (simp add: upd_where_def)

lemma pk_ok_upd_where [tbl]:
  assumes "\<And>r. P r \<Longrightarrow> key (f r) = key r"
  shows "pk_ok key (upd_where P f t) = pk_ok key t"
proof -
  have "map key (upd_where P f t) = map key t"
    by (rule map_key_upd_where) (rule assms)
  then show ?thesis by (simp add: pk_ok_def)
qed

lemma pk_ok_del_where [tbl]: "pk_ok key t \<Longrightarrow> pk_ok key (del_where P t)"
  by (simp add: pk_ok_def del_where_def distinct_map_filter)

lemma pk_ok_snoc [tbl]: "pk_ok key (t @ [r]) \<longleftrightarrow> pk_ok key t \<and> find_by key (key r) t = None"
  by (auto simp: pk_ok_def find_by_None_iff image_iff)

lemma pk_ok_Nil [simp]: "pk_ok key []"
  by (simp add: pk_ok_def)

lemma find_by_upsert [tbl]:
  assumes "\<And>x. key x = key r \<Longrightarrow> key (merge x r) = key r"
  shows "find_by key k (upsert_row key merge r t) =
     (if k = key r
      then (case find_by key k t of None \<Rightarrow> Some r | Some x \<Rightarrow> Some (merge x r))
      else find_by key k t)"
proof (cases "\<exists>x \<in> set t. key x = key r")
  case True
  have "find_by key k (upd_where (\<lambda>x. key x = key r) (\<lambda>x. merge x r) t) =
     map_option (\<lambda>x. if key x = key r then merge x r else x) (find_by key k t)"
    by (rule find_by_upd_where) (simp add: assms)
  moreover have "find_by key (key r) t \<noteq> None"
    using True by (auto simp: find_by_None_iff)
  ultimately show ?thesis
    using True by (cases "find_by key k t") (auto simp: upsert_row_def dest: find_by_key)
next
  case False
  then have "find_by key (key r) t = None"
    by (auto simp: find_by_None_iff)
  with False show ?thesis
    by (cases "find_by key k t") (auto simp: upsert_row_def find_by_append)
qed

lemma pk_ok_upsert [tbl]:
  assumes "pk_ok key t" "\<And>x. key x = key r \<Longrightarrow> key (merge x r) = key r"
  shows "pk_ok key (upsert_row key merge r t)"
proof -
  have "pk_ok key (upd_where (\<lambda>x. key x = key r) (\<lambda>x. merge x r) t) = pk_ok key t"
    by (rule pk_ok_upd_where) (simp add: assms(2))
  with assms(1) show ?thesis
    by (auto simp: upsert_row_def pk_ok_snoc find_by_None_iff)
qed

lemma rowcount_pk:
  "pk_ok key t \<Longrightarrow> rowcount (\<lambda>r. key r = k \<and> P r) t =
     (case find_by key k t of None \<Rightarrow> 0 | Some r \<Rightarrow> if P r then 1 else 0)"
  unfolding pk_ok_def rowcount_def
proof (induction t)
  case (Cons r t)
  have "filter (\<lambda>r. key r = k \<and> P r) t = []" if "key r = k"
    using Cons.prems that by (auto simp: filter_empty_conv image_iff)
  with Cons show ?case by auto
qed simp

lemma upd_where_none: "(\<And>r. r \<in> set t \<Longrightarrow> \<not> P r) \<Longrightarrow> upd_where P f t = t"
  by (induction t) auto

end
