(* ===== verification/Version_Requirements.thy ===== *)
theory Version_Requirements
  imports Lwa_Prelude
begin

text \<open>
  Models \<^verbatim>\<open>version_requirements.py\<close>: parsing of the version strings that Docker, Compose
  and Caddy print, their comparison with zero padding, and the minimum-version test with its
  rule for pre-releases. The two regular expressions are matched by hand: both are anchored at
  the start and deterministic, so the greedy prefix is the only match.
\<close>

section \<open>Parsing\<close>

definition drop_v :: "string \<Rightarrow> string" where
  "drop_v s = (case s of [] \<Rightarrow> [] | c # cs \<Rightarrow> if c = CHR ''v'' \<or> c = CHR ''V'' then cs else s)"

text \<open>\<open>\d+(?:\.\d+)*\<close>: the numeric parts and the text after the match; no match is \<open>[]\<close>.\<close>

function version_parts :: "string \<Rightarrow> nat list \<times> string" where
  "version_parts s =
     (let ds = takeWhile is_digit s; rest = dropWhile is_digit s in
      if ds = [] then ([], s)
      else (case rest of
          c # d # r \<Rightarrow>
            if c = CHR ''.'' \<and> is_digit d
            then (let (ps, r') = version_parts (d # r) in (digits_val ds # ps, r'))
            else ([digits_val ds], rest)
        | _ \<Rightarrow> ([digits_val ds], rest)))"
  by pat_completeness auto
termination
proof (relation "measure length", goal_cases)
  case (2 s ds rest c w d r)
  then have "dropWhile is_digit s = c # d # r" by simp
  then have "Suc (Suc (length r)) \<le> length s"
    using length_dropWhile_le [of is_digit s] by simp
  then show ?case by simp
qed auto

declare version_parts.simps [simp del]

definition parse_version_string :: "string \<Rightarrow> nat list" where
  "parse_version_string raw = fst (version_parts (drop_v (strip raw)))"

definition is_suffix_char :: "char \<Rightarrow> bool" where
  "is_suffix_char c \<longleftrightarrow> is_alnum c \<or> c = CHR ''.'' \<or> c = CHR ''+'' \<or> c = CHR ''-''"

definition is_prerelease :: "string \<Rightarrow> bool" where
  "is_prerelease raw \<longleftrightarrow>
     (case version_parts (drop_v (strip raw)) of
        ([], _) \<Rightarrow> False
      | (_, []) \<Rightarrow> False
      | (_, c # cs) \<Rightarrow> (c = CHR ''-'' \<or> c = CHR ''+'') \<and> list_all is_suffix_char cs)"

section \<open>Comparison\<close>

definition pad_to :: "nat \<Rightarrow> nat list \<Rightarrow> nat list" where
  "pad_to w a = a @ replicate (w - length a) 0"

definition compare_versions :: "nat list \<Rightarrow> nat list \<Rightarrow> int" where
  "compare_versions a b =
     (let width = max (length a) (length b);
          a_pad = pad_to width a; b_pad = pad_to width b in
      if a_pad < b_pad then -1 else if b_pad < a_pad then 1 else 0)"

definition version_ge :: "string \<Rightarrow> string \<Rightarrow> bool" where
  "version_ge raw minimum =
     (let parsed = parse_version_string raw; required = parse_version_string minimum in
      if parsed = [] \<or> required = [] then False
      else if compare_versions parsed required = 0 \<and> is_prerelease raw
              \<and> \<not> is_prerelease minimum then False
      else compare_versions parsed required \<ge> 0)"

definition version_gt :: "string \<Rightarrow> string \<Rightarrow> bool" where
  "version_gt raw minimum =
     (let parsed = parse_version_string raw; required = parse_version_string minimum in
      if parsed = [] \<or> required = [] then False
      else compare_versions parsed required > 0)"

section \<open>The comparison is independent of the padding width\<close>

lemma lexord_same_suffix:
  fixes a b z :: "nat list"
  assumes "length a = length b"
  shows "a @ z < b @ z \<longleftrightarrow> a < b"
  using assms
proof (induction a b rule: list_induct2)
  case Nil
  then show ?case by (simp add: order_less_irrefl)
next
  case (Cons x xs y ys)
  then show ?case by simp
qed

lemma pad_to_pad:
  assumes "length a \<le> w" "w \<le> w'"
  shows "pad_to w' a = pad_to w a @ replicate (w' - w) 0"
proof -
  have "w' - length a = (w - length a) + (w' - w)" using assms by simp
  then show ?thesis by (simp add: pad_to_def replicate_add)
qed

lemma length_pad_to: "length a \<le> w \<Longrightarrow> length (pad_to w a) = w"
  by (simp add: pad_to_def)

lemma pad_less_width:
  assumes "length a \<le> w" "length b \<le> w" "w \<le> w'"
  shows "pad_to w' a < pad_to w' b \<longleftrightarrow> pad_to w a < pad_to w b"
proof -
  have "length (pad_to w a) = length (pad_to w b)"
    using assms by (simp add: length_pad_to)
  then show ?thesis
    unfolding pad_to_pad [OF assms(1,3)] pad_to_pad [OF assms(2,3)]
    by (rule lexord_same_suffix)
qed

lemma compare_versions_wide:
  assumes "length a \<le> w" "length b \<le> w"
  shows "compare_versions a b =
     (if pad_to w a < pad_to w b then -1 else if pad_to w b < pad_to w a then 1 else 0)"
  using assms by (simp add: compare_versions_def Let_def
      pad_less_width [of a "max (length a) (length b)" b w]
      pad_less_width [of b "max (length a) (length b)" a w])

lemma compare_versions_cases:
  assumes "length a \<le> w" "length b \<le> w"
  shows "compare_versions a b \<ge> 0 \<longleftrightarrow> pad_to w b \<le> pad_to w a"
    and "compare_versions a b > 0 \<longleftrightarrow> pad_to w b < pad_to w a"
    and "compare_versions a b = 0 \<longleftrightarrow> pad_to w a = pad_to w b"
  using compare_versions_wide [OF assms] by (auto simp: not_less)

lemma compare_versions_trans:
  assumes "compare_versions a b \<ge> 0" "compare_versions b c \<ge> 0"
  shows "compare_versions a c \<ge> 0"
    and "compare_versions a c = 0 \<Longrightarrow> compare_versions a b = 0 \<and> compare_versions b c = 0"
proof -
  define w where "w = max (length a) (max (length b) (length c))"
  have w: "length a \<le> w" "length b \<le> w" "length c \<le> w" by (simp_all add: w_def)
  note cs = compare_versions_cases [OF w(1,2)] compare_versions_cases [OF w(2,3)]
    compare_versions_cases [OF w(1,3)]
  show "compare_versions a c \<ge> 0" using assms cs by (meson order_trans)
  show "compare_versions a b = 0 \<and> compare_versions b c = 0" if "compare_versions a c = 0"
    using assms cs that by (metis order_antisym)
qed

lemma version_geD:
  assumes "version_ge a b"
  shows "parse_version_string a \<noteq> []" "parse_version_string b \<noteq> []"
    "compare_versions (parse_version_string a) (parse_version_string b) \<ge> 0"
    "compare_versions (parse_version_string a) (parse_version_string b) = 0 \<Longrightarrow>
       is_prerelease a \<Longrightarrow> is_prerelease b"
  using assms by (auto simp: version_ge_def Let_def split: if_splits)

lemma version_geI:
  assumes "parse_version_string a \<noteq> []" "parse_version_string b \<noteq> []"
    "compare_versions (parse_version_string a) (parse_version_string b) \<ge> 0"
    "compare_versions (parse_version_string a) (parse_version_string b) = 0 \<Longrightarrow>
       is_prerelease a \<Longrightarrow> is_prerelease b"
  shows "version_ge a b"
  using assms by (auto simp: version_ge_def Let_def)

section \<open>Properties\<close>

text \<open>The minimum-version test is transitive: a tool that passes for one minimum passes for
  every minimum that one itself passes, also across pre-releases and different numbers of
  version components.\<close>

theorem version_ge_trans:
  assumes "version_ge a b" "version_ge b c"
  shows "version_ge a c"
proof (rule version_geI)
  note ab = version_geD [OF assms(1)] and bc = version_geD [OF assms(2)]
  show "parse_version_string a \<noteq> []" "parse_version_string c \<noteq> []" by (rule ab bc)+
  show "compare_versions (parse_version_string a) (parse_version_string c) \<ge> 0"
    by (rule compare_versions_trans(1) [OF ab(3) bc(3)])
  show "is_prerelease c"
    if "compare_versions (parse_version_string a) (parse_version_string c) = 0" "is_prerelease a"
    using compare_versions_trans(2) [OF ab(3) bc(3) that(1)] ab(4) bc(4) that(2) by blast
qed

theorem version_ge_trans_witness:
  "version_ge ''v2.40.2-rc1'' ''2.40.2-beta'' \<and> version_ge ''v2.40.2-rc1'' ''2.40''"
proof -
  have 1: "version_ge ''v2.40.2-rc1'' ''2.40.2-beta''" by code_simp
  have 2: "version_ge ''2.40.2-beta'' ''2.40''" by code_simp
  show ?thesis using 1 version_ge_trans [OF 1 2] by simp
qed

text \<open>On version strings that parse, the strict test and the minimum test are
  complementary up to the pre-release rule: exactly one of \<open>version_gt b a\<close>, \<open>version_ge a b\<close>
  and ``equal numbers, with \<open>a\<close> a pre-release of the release \<open>b\<close>'' holds.\<close>

theorem version_ge_gt_complement:
  assumes "parse_version_string a \<noteq> []" "parse_version_string b \<noteq> []"
  shows "version_ge a b \<longleftrightarrow>
     \<not> version_gt b a \<and>
     \<not> (\<not> version_gt a b \<and> \<not> version_gt b a \<and> is_prerelease a \<and> \<not> is_prerelease b)"
proof -
  let ?a = "parse_version_string a" and ?b = "parse_version_string b"
  define w where "w = max (length ?a) (length ?b)"
  have w: "length ?a \<le> w" "length ?b \<le> w" by (simp_all add: w_def)
  note cs = compare_versions_cases [OF w] compare_versions_cases [OF w(2,1)]
  show ?thesis
    using assms by (auto simp: version_ge_def version_gt_def Let_def cs)
qed

theorem version_ge_gt_complement_witness:
  "\<not> version_ge ''29.0.0-rc.2'' ''29.0'' \<and> \<not> version_gt ''29.0'' ''29.0.0-rc.2''"
proof -
  have 1: "parse_version_string ''29.0.0-rc.2'' \<noteq> []" "parse_version_string ''29.0'' \<noteq> []"
    by code_simp+
  have 2: "\<not> version_gt ''29.0'' ''29.0.0-rc.2''" "\<not> version_gt ''29.0.0-rc.2'' ''29.0''"
    "is_prerelease ''29.0.0-rc.2''" "\<not> is_prerelease ''29.0''"
    by code_simp+
  show ?thesis using 2 version_ge_gt_complement [OF 1] by simp
qed

end
