(* ===== verification/Paths.thy ===== *)
theory Paths
  imports Lwa_Prelude "HOL-Library.Sublist"
begin

text \<open>
  Models the validators of \<^verbatim>\<open>paths.py\<close>: instance ids, path aliases and the source
  subdirectory of an instance, and the resolution of that subdirectory below the source root.
  A POSIX path is the list of its segments; \<open>Path.resolve\<close> and \<open>Path.is_dir\<close> read the file
  system and are parameters.
\<close>

datatype path_error =
    Bad_instance_id string
  | Bad_alias string
  | Alias_too_long nat
  | Alias_reserved string
  | Alias_taken string
  | Subdir_illegal string
  | Subdir_not_relative string
  | Subdir_dotdot string
  | Subdir_escapes string

section \<open>Slugs\<close>

definition is_slug_char :: "char \<Rightarrow> bool" where
  "is_slug_char c \<longleftrightarrow> is_lower c \<or> is_digit c"

text \<open>\<open>^[a-z0-9]+(-[a-z0-9]+)*\Z\<close>: non-empty runs of slug characters between hyphens.\<close>

definition is_slug :: "string \<Rightarrow> bool" where
  "is_slug s \<longleftrightarrow> list_all (\<lambda>w. w \<noteq> [] \<and> list_all is_slug_char w) (split_on CHR ''-'' s)"

definition validate_instance_id :: "string \<Rightarrow> path_error + string" where
  "validate_instance_id i = (if \<not> is_slug i then Inl (Bad_instance_id i) else Inr i)"

definition PATH_ALIAS_MAX_LEN :: nat where "PATH_ALIAS_MAX_LEN = 63"

definition PATH_ALIAS_RESERVED :: "string list" where
  "PATH_ALIAS_RESERVED = [''api'', ''static-gateway'', ''inbox'', ''apps'', ''registry'', ''run'',
     ''manager'', ''logs'', ''skills'', ''templates'', ''health'']"

definition validate_path_alias :: "string \<Rightarrow> string list option \<Rightarrow> path_error + string" where
  "validate_path_alias alias existing =
     (if \<not> is_slug alias then Inl (Bad_alias alias)
      else if length alias > PATH_ALIAS_MAX_LEN then Inl (Alias_too_long (length alias))
      else if alias \<in> set PATH_ALIAS_RESERVED then Inl (Alias_reserved alias)
      else if (case existing of None \<Rightarrow> False | Some xs \<Rightarrow> alias \<in> set xs)
        then Inl (Alias_taken alias)
      else Inr alias)"

section \<open>The source subdirectory\<close>

definition NUL :: char where "NUL = CHR 0x00"

definition normalize_sep :: "string \<Rightarrow> string" where
  "normalize_sep s = map (\<lambda>c. if c = CHR 0x5C then CHR ''/'' else c) s"

definition has_drive :: "string \<Rightarrow> bool" where
  "has_drive s \<longleftrightarrow> (case s of _ # c # _ \<Rightarrow> c = CHR '':'' | _ \<Rightarrow> False)"

definition rel_parts :: "string \<Rightarrow> string list" where
  "rel_parts s = filter (\<lambda>p. p \<noteq> [] \<and> p \<noteq> ''.'') (split_on CHR ''/'' s)"

definition validate_source_subdir :: "string option \<Rightarrow> path_error + string option" where
  "validate_source_subdir source_subdir =
     (case source_subdir of
        None \<Rightarrow> Inr None
      | Some s \<Rightarrow>
          (let raw = strip s in
           if raw = [] then Inr None
           else if NUL \<in> set raw then Inl (Subdir_illegal s)
           else
             (let normalized = normalize_sep raw in
              if starts_with ''/'' raw \<or> starts_with ''/'' normalized
              then Inl (Subdir_not_relative s)
              else if has_drive normalized then Inl (Subdir_not_relative s)
              else
                (let parts = rel_parts normalized in
                 if parts = [] then Inr None
                 else if ''..'' \<in> set parts then Inl (Subdir_dotdot s)
                 else Inr (Some (join_on CHR ''/'' parts))))))"

definition resolve_source_workdir ::
  "(string list \<Rightarrow> string list) \<Rightarrow> (string list \<Rightarrow> bool) \<Rightarrow> string list \<Rightarrow> string option
     \<Rightarrow> path_error + string list" where
  "resolve_source_workdir resolve is_dir base source_subdir =
     (let base_resolved = resolve base in
      case validate_source_subdir source_subdir of
        Inl e \<Rightarrow> Inl e
      | Inr None \<Rightarrow> Inr base_resolved
      | Inr (Some sanitized) \<Rightarrow>
          (let candidate = resolve (base_resolved @ split_on CHR ''/'' sanitized) in
           if \<not> prefix base_resolved candidate then Inl (Subdir_escapes sanitized)
           else if is_dir candidate then Inr candidate
           else Inr base_resolved))"

section \<open>Facts\<close>

lemma is_slug_chars: "is_slug s \<Longrightarrow> c \<in> set s \<Longrightarrow> c = CHR ''-'' \<or> is_slug_char c"
proof -
  assume s: "is_slug s" "c \<in> set s"
  then have "c \<in> set (join_on CHR ''-'' (split_on CHR ''-'' s))"
    by (simp add: join_split)
  then have "c \<in> insert CHR ''-'' (\<Union> (set ` set (split_on CHR ''-'' s)))"
    using set_join by blast
  with s(1) show ?thesis by (auto simp: is_slug_def list_all_iff)
qed

lemma is_slug_nonempty: "is_slug s \<Longrightarrow> s \<noteq> []"
  by (auto simp: is_slug_def)

text \<open>A validated id is one plain path segment, so a path built from it stays below its parent.\<close>

definition plain_segment :: "string \<Rightarrow> bool" where
  "plain_segment s \<longleftrightarrow> s \<noteq> [] \<and> s \<noteq> ''.'' \<and> s \<noteq> ''..'' \<and> CHR ''/'' \<notin> set s
     \<and> CHR 0x5C \<notin> set s \<and> NUL \<notin> set s"

lemma plain_segment_slug:
  assumes "is_slug s" shows "plain_segment s"
proof -
  have n: "\<not> is_slug_char CHR ''.''" "\<not> is_slug_char CHR ''/''"
    "\<not> is_slug_char CHR 0x5C" "\<not> is_slug_char NUL"
    by code_simp+
  have d: "CHR ''.'' \<noteq> CHR ''-''" "CHR ''/'' \<noteq> CHR ''-''" "CHR 0x5C \<noteq> CHR ''-''" "NUL \<noteq> CHR ''-''"
    by code_simp+
  have "CHR ''.'' \<notin> set s" "CHR ''/'' \<notin> set s" "CHR 0x5C \<notin> set s" "NUL \<notin> set s"
    using is_slug_chars [OF assms] n d by metis+
  with is_slug_nonempty [OF assms] show ?thesis by (auto simp: plain_segment_def)
qed

lemma normalize_sep_no_bs: "CHR 0x5C \<notin> set (normalize_sep s)"
  by (auto simp: normalize_sep_def)

lemma normalize_sep_id: "CHR 0x5C \<notin> set s \<Longrightarrow> normalize_sep s = s"
  by (auto simp: normalize_sep_def intro: map_idI)

lemma rel_parts_mem:
  "p \<in> set (rel_parts s) \<Longrightarrow> p \<noteq> [] \<and> p \<noteq> ''.'' \<and> CHR ''/'' \<notin> set p \<and> set p \<subseteq> set s"
  by (auto simp: rel_parts_def dest: split_on_parts)

lemma rel_parts_join:
  assumes "ps = rel_parts s" "ps \<noteq> []"
  shows "rel_parts (join_on CHR ''/'' ps) = ps"
proof -
  have "split_on CHR ''/'' (join_on CHR ''/'' ps) = ps"
    using assms by (auto intro: split_join dest: rel_parts_mem)
  then show ?thesis
    using assms(1) by (simp add: rel_parts_def)
qed

lemma length_strip_le: "length (strip s) \<le> length s"
  unfolding strip_def lstrip_def rstrip_def
  by (metis length_dropWhile_le length_rev order_trans)

lemma dropWhile_eq_self: "length (dropWhile P xs) = length xs \<Longrightarrow> dropWhile P xs = xs"
  using length_dropWhile_le [of P] by (cases xs) (auto, metis Suc_n_not_le_n)

lemma strip_id:
  assumes "length (strip s) = length s" shows "strip s = s"
proof -
  have "length (rstrip (lstrip s)) \<le> length (lstrip s)" "length (lstrip s) \<le> length s"
    unfolding lstrip_def rstrip_def using length_dropWhile_le by (metis length_rev, metis)
  with assms have "length (lstrip s) = length s" "length (rstrip (lstrip s)) = length (lstrip s)"
    by (auto simp: strip_def)
  then have "lstrip s = s" "rstrip (lstrip s) = lstrip s"
    unfolding lstrip_def rstrip_def by (metis dropWhile_eq_self, metis dropWhile_eq_self length_rev rev_rev_ident)
  then show ?thesis by (simp add: strip_def)
qed

lemma length_join_Cons:
  "length (join_on c (w # us)) \<le> Suc (length w + length (join_on c us))"
  by (cases us) auto

lemma length_join_filter: "length (join_on c (filter P ws)) \<le> length (join_on c ws)"
proof (induction c ws rule: join_on.induct)
  case (3 c w v ws)
  have "length (join_on c (filter P (w # v # ws)))
      \<le> Suc (length w + length (join_on c (filter P (v # ws))))"
    using length_join_Cons [of c w "filter P (v # ws)"] by (cases "P w") auto
  with 3 show ?case by simp
qed auto

lemma length_rel_parts: "length (join_on CHR ''/'' (rel_parts s)) \<le> length s"
  using length_join_filter join_split [of "CHR ''/''" s] unfolding rel_parts_def by metis

lemma validate_source_subdir_SomeD:
  assumes "validate_source_subdir s = Inr (Some t)"
  obtains raw where "raw \<noteq> []" "NUL \<notin> set raw" "rel_parts (normalize_sep raw) \<noteq> []"
    "''..'' \<notin> set (rel_parts (normalize_sep raw))"
    "t = join_on CHR ''/'' (rel_parts (normalize_sep raw))"
  using assms by (auto simp: validate_source_subdir_def Let_def split: option.splits if_splits)

lemma validated_parts:
  assumes "validate_source_subdir s = Inr (Some t)"
  shows "rel_parts t = split_on CHR ''/'' t" "rel_parts t \<noteq> []" "list_all plain_segment (rel_parts t)"
    "CHR 0x5C \<notin> set t" "NUL \<notin> set t" "join_on CHR ''/'' (rel_parts t) = t" "t \<noteq> []"
proof -
  obtain raw where raw: "NUL \<notin> set raw" and ne: "rel_parts (normalize_sep raw) \<noteq> []"
    and dd: "''..'' \<notin> set (rel_parts (normalize_sep raw))"
    and t: "t = join_on CHR ''/'' (rel_parts (normalize_sep raw))"
    using validate_source_subdir_SomeD [OF assms] by metis
  let ?ps = "rel_parts (normalize_sep raw)"
  have mem: "p \<noteq> []" "p \<noteq> ''.''" "CHR ''/'' \<notin> set p" "set p \<subseteq> set (normalize_sep raw)"
    if "p \<in> set ?ps" for p
    using rel_parts_mem [OF that] by auto
  have nul: "NUL \<notin> set (normalize_sep raw)"
    using raw by (auto simp: normalize_sep_def NUL_def)
  have sp: "split_on CHR ''/'' t = ?ps"
    unfolding t using ne mem(3) by (rule split_join)
  show rp: "rel_parts t = split_on CHR ''/'' t"
    using rel_parts_join [OF refl ne] sp t by simp
  show "rel_parts t \<noteq> []" using rp sp ne by simp
  have "set p \<inter> {NUL, CHR 0x5C} = {}" if "p \<in> set ?ps" for p
    using mem(4) [OF that] nul normalize_sep_no_bs by auto
  then show "list_all plain_segment (rel_parts t)"
    using mem(1-3) dd by (auto simp: list_all_iff plain_segment_def rp sp)
  have "set t \<subseteq> insert CHR ''/'' (\<Union> (set ` set ?ps))"
    unfolding t by (rule set_join)
  then have "set t \<subseteq> insert CHR ''/'' (set (normalize_sep raw))"
    using mem(4) by blast
  then show "CHR 0x5C \<notin> set t" "NUL \<notin> set t"
    using nul normalize_sep_no_bs [of raw] by (auto simp: NUL_def)
  show "join_on CHR ''/'' (rel_parts t) = t" by (simp add: rp join_split)
  show "t \<noteq> []" unfolding t using join_on_Nil_iff mem(1) ne by blast
qed

lemma revalidate_subdir:
  assumes "validate_source_subdir s = Inr (Some t)"
  shows "validate_source_subdir (Some t) = Inr (Some t) \<longleftrightarrow> strip t = t \<and> \<not> has_drive t"
proof -
  note v = validated_parts [OF assms]
  have nz: "normalize_sep t = t" using v(4) by (rule normalize_sep_id)
  have dd: "''..'' \<notin> set (rel_parts t)"
    using v(3) by (auto simp: list_all_iff plain_segment_def)
  have hd: "\<not> starts_with ''/'' t"
  proof
    assume "starts_with ''/'' t"
    then obtain r where "t = CHR ''/'' # r" by (auto simp: starts_with_iff)
    with v(1,3) show False by (auto simp: plain_segment_def)
  qed
  show ?thesis
  proof
    assume again: "validate_source_subdir (Some t) = Inr (Some t)"
    then have j: "join_on CHR ''/'' (rel_parts (normalize_sep (strip t))) = t"
      and d: "\<not> has_drive (normalize_sep (strip t))"
      by (auto simp: validate_source_subdir_def Let_def split: if_splits)
    have "length t \<le> length (normalize_sep (strip t))"
      using length_rel_parts [of "normalize_sep (strip t)"] j by simp
    then have st: "strip t = t"
      using length_strip_le [of t] by (intro strip_id) (simp add: normalize_sep_def)
    with d nz show "strip t = t \<and> \<not> has_drive t" by simp
  next
    assume "strip t = t \<and> \<not> has_drive t"
    with v nz dd hd show "validate_source_subdir (Some t) = Inr (Some t)"
      by (simp add: validate_source_subdir_def Let_def)
  qed
qed

section \<open>Properties\<close>

text \<open>A source subdirectory that validation accepts is a relative path of one or more
  plain segments (no empty, \<open>.\<close> or \<open>..\<close> segment, no separator, backslash or NUL inside one), so
  joining it to a directory names something below that directory.\<close>

theorem validated_subdir_safe:
  assumes "validate_source_subdir s = Inr (Some t)"
  shows "split_on CHR ''/'' t \<noteq> [] \<and> list_all plain_segment (split_on CHR ''/'' t)
     \<and> strict_prefix base (base @ split_on CHR ''/'' t)"
  using validated_parts(1,2,3) [OF assms] by (simp add: strict_prefix_def)

theorem validated_subdir_safe_witness:
  "validate_source_subdir (Some '' ./backend//api/ '') = Inr (Some ''backend/api'')
   \<and> list_all plain_segment (split_on CHR ''/'' ''backend/api'')"
proof -
  have 1: "validate_source_subdir (Some '' ./backend//api/ '') = Inr (Some ''backend/api'')"
    by code_simp
  show ?thesis using 1 validated_subdir_safe [OF 1] by simp
qed

text \<open>Validating an accepted subdirectory again gives it back exactly when it neither
  begins nor ends with white space and its second character is no colon. The manifest validates
  the field on every load, so outside that condition a saved manifest is read back with another
  subdirectory or is refused.\<close>

theorem validate_source_subdir_again:
  assumes "validate_source_subdir s = Inr (Some t)"
  shows "validate_source_subdir (Some t) = Inr (Some t) \<longleftrightarrow> strip t = t \<and> \<not> has_drive t"
  using assms by (rule revalidate_subdir)

theorem validate_source_subdir_again_witness:
  "validate_source_subdir (Some ''./c:/x'') = Inr (Some ''c:/x'')
   \<and> validate_source_subdir (Some ''c:/x'') = Inl (Subdir_not_relative ''c:/x'')
   \<and> validate_source_subdir (Some ''./ x'') = Inr (Some '' x'')
   \<and> validate_source_subdir (Some '' x'') \<noteq> Inr (Some '' x'')"
proof -
  have 1: "validate_source_subdir (Some ''./c:/x'') = Inr (Some ''c:/x'')"
    "validate_source_subdir (Some ''c:/x'') = Inl (Subdir_not_relative ''c:/x'')" by code_simp+
  have 2: "validate_source_subdir (Some ''./ x'') = Inr (Some '' x'')" by code_simp
  have "strip '' x'' \<noteq> '' x''" by code_simp
  with 1 2 show ?thesis using validate_source_subdir_again [OF 2] by simp
qed

end
