(* ===== verification/Plan_Models.thy ===== *)
theory Plan_Models
  imports Paths
begin

text \<open>
  Models the part of \<^verbatim>\<open>models.py\<close> that the recognition of a project and its deployment plans
  share: the evidence, the flat candidates, the plans with their components and their capability
  contract. A plan that is stored in the manifest is the dictionary of its fields; a contract that
  is missing there is \<open>None\<close>. Texts meant for people are carried only where code reads them.
\<close>

section \<open>Commands and contracts\<close>

record entry_config =
  e_install :: "string option"
  e_build :: "string option"
  e_start :: "string option"
  e_buildOutputDir :: "string option"

definition no_entry :: entry_config where
  "no_entry = \<lparr>e_install = None, e_build = None, e_start = None, e_buildOutputDir = None\<rparr>"

record probe_spec =
  pr_path :: string
  pr_method :: string
  pr_expectedStatus :: int
  pr_isMandatory :: bool
  pr_source :: string
  pr_confidence :: string

record capability_contract =
  cc_servesUi :: bool
  cc_servesApi :: bool
  cc_requiresDatabase :: bool
  cc_requiresMigrations :: bool
  cc_requiredProbes :: "probe_spec list"

definition no_contract :: capability_contract where
  "no_contract = \<lparr>cc_servesUi = False, cc_servesApi = False, cc_requiresDatabase = False,
     cc_requiresMigrations = False, cc_requiredProbes = []\<rparr>"

datatype capability = Cap_ui | Cap_api | Cap_database | Cap_migrations

definition required_capabilities :: "capability_contract \<Rightarrow> capability set" where
  "required_capabilities c =
     (if cc_servesUi c then {Cap_ui} else {}) \<union> (if cc_servesApi c then {Cap_api} else {})
     \<union> (if cc_requiresDatabase c then {Cap_database} else {})
     \<union> (if cc_requiresMigrations c then {Cap_migrations} else {})"

record command_spec =
  cs_argv :: "string list option"
  cs_shell :: "string option"
  cs_workdir :: string

section \<open>Candidates and plans\<close>

record candidate =
  ca_kind :: string
  ca_runtime :: string
  ca_servingMode :: string
  ca_form :: string
  ca_resourceProfile :: string
  ca_entry :: entry_config
  ca_internalPort :: "int option"
  ca_sourceSubdir :: "string option"
  ca_confidenceTier :: string

record component =
  co_componentId :: string
  co_role :: string
  co_sourceSubdir :: "string option"
  co_buildCommand :: "command_spec option"
  co_startCommand :: "command_spec option"
  co_buildOutputDir :: "string option"
  co_artifactTarget :: "string option"
  co_internalPort :: "int option"

record plan =
  pl_planId :: string
  pl_components :: "component list"
  pl_capabilityContract :: "capability_contract option"
  pl_confidenceTier :: string

section \<open>Evidence\<close>

record subdir_signal =
  sg_path :: string
  sg_hasPackageJson :: bool
  sg_hasAlembicIni :: bool
  sg_pythonDeps :: "string list"
  sg_nodeDeps :: "string list"
  sg_nodeScripts :: "(string \<times> string) list"

record evidence =
  ev_rootFiles :: "string list"
  ev_subdirSignals :: "subdir_signal list"
  ev_pythonDeps :: "string list"
  ev_nodeDeps :: "string list"
  ev_nodeScripts :: "(string \<times> string) list"
  ev_hasAlembicIni :: bool
  ev_hasIndexHtml :: bool
  ev_hasHtml :: bool
  ev_hasPackageJson :: bool
  ev_sqliteFiles :: "string list"

end
