(* ===== verification/Models_Manifest.thy ===== *)
theory Models_Manifest
  imports Plan_Models
begin

text \<open>
  Models \<^verbatim>\<open>models.py\<close>: the enumerations, the nested configuration records and the instance
  manifest (\<^verbatim>\<open>local-web.json\<close>) with the validators that run when it is loaded. Field types are
  enforced by the HOL types, so \<open>validate_manifest\<close> is what the field validators and the model
  validators add to them. The record keeps the fields that the modelled code reads or writes;
  its network entry and the summaries of the Gate phases are not carried.
\<close>

section \<open>Enumerations\<close>

datatype kind = KIND_STATIC | KIND_NODE | KIND_PYTHON

datatype runtime = SHARED_STATIC | DOCKER_COMPOSE

datatype serving_mode = SERVE_SHARED_STATIC | SERVE_CONTAINER

datatype resource_profile = TINY | SMALL | MEDIUM | HEAVY

datatype desired_state = DESIRED_RUNNING | DESIRED_STOPPED

datatype status =
    PENDING | BUILDING | RUNNING | STOPPED | FAILED | QUEUED | CANCELLING | CANCELLED
  | GATEWAY_DOWN | CONFIG_INVALID | VERIFYING | DEGRADED

datatype route_mode = ROUTE_PORT | ROUTE_NAME

section \<open>Nested configuration\<close>

record database_config =
  d_type :: string
  d_connectionString :: "string option"
  d_dataDir :: "string option"
  d_dbFilename :: "string option"

record static_config =
  s_root :: string
  s_gateway :: string
  s_routeMode :: route_mode
  s_routeHost :: "string option"
  s_gatewayConfigPath :: "string option"
  s_hostPort :: "int option"
  s_enabled :: bool

record container_config =
  c_projectName :: string
  c_serviceName :: string
  c_image :: "string option"
  c_imageId :: "string option"
  c_containerId :: "string option"
  c_internalPort :: int
  c_hostPort :: "int option"
  c_composePath :: string
  c_dockerfilePath :: string
  c_memory :: string
  c_cpus :: string
  c_routeMode :: route_mode
  c_routeHost :: "string option"
  c_rebuildStrategy :: "string option"
  c_runAsNonRoot :: "bool option"

section \<open>The manifest\<close>

text \<open>The breaker fields come first, so that the operations of the circuit breaker apply to a
  manifest directly. A stored ISO string is kept as what it parses to.\<close>

datatype iso_value = Aware int | Naive_utc int | Unparsable string

record circuit =
  consecutiveReconcileFailures :: int
  reconcileNextRetryAt :: "iso_value option"
  reconcileCircuitManual :: bool

record manifest = circuit +
  m_id :: string
  m_name :: string
  m_version :: string
  m_kind :: kind
  m_stack :: "string list"
  m_runtime :: runtime
  m_servingMode :: serving_mode
  m_resourceProfile :: resource_profile
  m_hasDatabase :: bool
  m_database :: "database_config option"
  m_desiredState :: desired_state
  m_status :: status
  m_static :: "static_config option"
  m_container :: "container_config option"
  m_entry :: entry_config
  m_buildHooks :: "string list"
  m_preStart :: "string option"
  m_hostBuild :: "string option"
  m_preSync :: "string option"
  m_hostBuildPending :: bool
  m_systemDeps :: "string list"
  m_buildEnv :: "(string \<times> string) list option"
  m_sourceKind :: string
  m_sourceDirPath :: "string option"
  m_sourceSyncHash :: "string option"
  m_sourceGitUrl :: "string option"
  m_sourceGitRef :: "string option"
  m_sourceGitRefKind :: "string option"
  m_sourceGitCommit :: "string option"
  m_sourceGitSubdir :: "string option"
  m_sourceZipPath :: "string option"
  m_appPath :: "string option"
  m_createdAt :: string
  m_updatedAt :: string
  m_lastStartedAt :: "string option"
  m_lastHealthCheckAt :: "string option"
  m_lastError :: "string option"
  m_lastOperation :: "json option"
  m_sourceSubdir :: "string option"
  m_deploymentCandidates :: "candidate list"
  m_deploymentPlans :: "plan list"
  m_selectedPlanId :: "string option"
  m_selectedPlanHash :: "string option"
  m_capabilityContract :: "capability_contract option"
  m_deploymentFingerprints :: "(string \<times> json) list option"

definition touch :: "string \<Rightarrow> manifest \<Rightarrow> manifest" where
  "touch now m = m\<lparr>m_updatedAt := now\<rparr>"

section \<open>Field validators\<close>

datatype model_error =
    Empty_field string
  | Build_env_name
  | Build_env_value
  | Hook_newline
  | Host_build_chars
  | System_dep_name string
  | Subdir path_error
  | Static_needs_static_serving
  | Static_with_container
  | Compose_needs_container_serving
  | Compose_without_container
  | Host_build_and_pre_sync
  | Host_build_not_container
  | Database_missing
  | Database_unexpected

definition is_name_start :: "char \<Rightarrow> bool" where
  "is_name_start c \<longleftrightarrow> is_upper c \<or> is_lower c \<or> c = CHR ''_''"

definition is_env_name :: "string \<Rightarrow> bool" where
  "is_env_name s \<longleftrightarrow> (case s of [] \<Rightarrow> False
     | c # cs \<Rightarrow> is_name_start c \<and> list_all (\<lambda>c. is_name_start c \<or> is_digit c) cs)"

definition LF :: char where "LF = CHR 0x0A"
definition CR :: char where "CR = CHR 0x0D"

definition breaks_line :: "string \<Rightarrow> bool" where
  "breaks_line s \<longleftrightarrow> LF \<in> set s \<or> CR \<in> set s"

definition unsafe_line :: "string \<Rightarrow> bool" where
  "unsafe_line s \<longleftrightarrow> breaks_line s \<or> NUL \<in> set s"

fun check_env_items :: "(string \<times> string) list \<Rightarrow> model_error + unit" where
  "check_env_items [] = Inr ()"
| "check_env_items ((key, item) # rest) =
     (if \<not> is_env_name key then Inl Build_env_name
      else if unsafe_line item then Inl Build_env_value
      else check_env_items rest)"

definition validate_build_env ::
  "(string \<times> string) list option \<Rightarrow> model_error + (string \<times> string) list option" where
  "validate_build_env v =
     (case check_env_items (case v of None \<Rightarrow> [] | Some xs \<Rightarrow> xs) of
        Inl e \<Rightarrow> Inl e
      | Inr _ \<Rightarrow> Inr v)"

definition check_hooks_no_newline :: "string list \<Rightarrow> model_error + string list" where
  "check_hooks_no_newline vs = (if list_ex breaks_line vs then Inl Hook_newline else Inr vs)"

definition check_prestart_no_newline :: "string option \<Rightarrow> model_error + string option" where
  "check_prestart_no_newline v =
     (case v of None \<Rightarrow> Inr None
      | Some s \<Rightarrow> if breaks_line s then Inl Hook_newline else Inr v)"

definition check_host_build :: "string option \<Rightarrow> model_error + string option" where
  "check_host_build v =
     (case v of
        None \<Rightarrow> Inr None
      | Some s \<Rightarrow>
          if unsafe_line s then Inl Host_build_chars
          else (let command = strip s in Inr (if command = [] then None else Some command)))"

definition is_dep_char :: "char \<Rightarrow> bool" where
  "is_dep_char c \<longleftrightarrow> is_alnum c \<or> c = CHR ''.'' \<or> c = CHR ''+'' \<or> c = CHR ''-''"

definition is_dep_name :: "string \<Rightarrow> bool" where
  "is_dep_name s \<longleftrightarrow> (case s of [] \<Rightarrow> False | c # cs \<Rightarrow> is_alnum c \<and> list_all is_dep_char cs)"

fun clean_deps :: "string list \<Rightarrow> string list \<Rightarrow> model_error + string list" where
  "clean_deps [] cleaned = Inr cleaned"
| "clean_deps (item # rest) cleaned =
     (let name = strip item in
      if name = [] then clean_deps rest cleaned
      else if \<not> is_dep_name name then Inl (System_dep_name item)
      else if name \<in> set cleaned then clean_deps rest cleaned
      else clean_deps rest (cleaned @ [name]))"

definition check_system_deps :: "string list \<Rightarrow> model_error + string list" where
  "check_system_deps vs = clean_deps vs []"

definition check_source_subdir :: "string option \<Rightarrow> model_error + string option" where
  "check_source_subdir v =
     (case validate_source_subdir v of Inl e \<Rightarrow> Inl (Subdir e) | Inr r \<Rightarrow> Inr r)"

section \<open>Model validators\<close>

definition check_runtime_serving_consistency :: "manifest \<Rightarrow> model_error + manifest" where
  "check_runtime_serving_consistency m =
     (let host_build = truthy (m_hostBuild m); pre_sync = truthy (m_preSync m);
          hooks = (if host_build \<and> pre_sync then Inl Host_build_and_pre_sync
                   else if (host_build \<or> pre_sync) \<and> m_runtime m \<noteq> DOCKER_COMPOSE
                   then Inl Host_build_not_container
                   else Inr m) in
      case m_runtime m of
        SHARED_STATIC \<Rightarrow>
          (if m_servingMode m \<noteq> SERVE_SHARED_STATIC then Inl Static_needs_static_serving
           else if m_container m \<noteq> None then Inl Static_with_container
           else hooks)
      | DOCKER_COMPOSE \<Rightarrow>
          (if m_servingMode m \<noteq> SERVE_CONTAINER then Inl Compose_needs_container_serving
           else if m_container m = None then Inl Compose_without_container
           else hooks))"

definition check_database_consistency :: "manifest \<Rightarrow> model_error + manifest" where
  "check_database_consistency m =
     (if m_hasDatabase m \<and> m_database m = None then Inl Database_missing
      else if \<not> m_hasDatabase m \<and> m_database m \<noteq> None then Inl Database_unexpected
      else Inr m)"

text \<open>\<open>model_validate\<close>: the field validators in the order of the fields, then the two model
  validators in the order of their definition. Pydantic reports every field error; the first
  is enough here, since any error refuses the manifest. A validator that returns its argument
  is only checked.\<close>

definition check_min_length :: "string \<Rightarrow> string \<Rightarrow> model_error + string" where
  "check_min_length field v = (if v = [] then Inl (Empty_field field) else Inr v)"

definition sum_bind :: "'e + 'a \<Rightarrow> ('a \<Rightarrow> 'e + 'b) \<Rightarrow> 'e + 'b" where
  "sum_bind r f = (case r of Inl e \<Rightarrow> Inl e | Inr x \<Rightarrow> f x)"

definition validate_manifest :: "manifest \<Rightarrow> model_error + manifest" where
  "validate_manifest m =
     sum_bind (check_min_length ''id'' (m_id m)) (\<lambda>_.
     sum_bind (check_min_length ''name'' (m_name m)) (\<lambda>_.
     sum_bind (check_min_length ''version'' (m_version m)) (\<lambda>_.
     sum_bind (check_hooks_no_newline (m_buildHooks m)) (\<lambda>_.
     sum_bind (check_prestart_no_newline (m_preStart m)) (\<lambda>_.
     sum_bind (check_host_build (m_hostBuild m)) (\<lambda>hb.
     sum_bind (check_host_build (m_preSync m)) (\<lambda>ps.
     sum_bind (check_system_deps (m_systemDeps m)) (\<lambda>deps.
     sum_bind (validate_build_env (m_buildEnv m)) (\<lambda>_.
     sum_bind (check_source_subdir (m_sourceGitSubdir m)) (\<lambda>gsub.
     sum_bind (check_source_subdir (m_sourceSubdir m)) (\<lambda>sub.
     sum_bind (check_runtime_serving_consistency
       (m\<lparr>m_hostBuild := hb, m_preSync := ps, m_systemDeps := deps,
          m_sourceGitSubdir := gsub, m_sourceSubdir := sub\<rparr>))
     check_database_consistency)))))))))))"

section \<open>Facts\<close>

lemma sum_bind_Inr [simp]:
  "sum_bind r f = Inr y \<longleftrightarrow> (\<exists>x. r = Inr x \<and> f x = Inr y)"
  by (cases r) (auto simp: sum_bind_def)

lemma sum_bind_simps: "sum_bind (Inr x) f = f x" "sum_bind (Inl e) f = Inl e"
  by (simp_all add: sum_bind_def)

lemma check_id_results:
  "check_min_length f v = Inr v' \<longleftrightarrow> v' = v \<and> v \<noteq> []"
  "check_hooks_no_newline hs = Inr hs' \<longleftrightarrow> hs' = hs \<and> \<not> list_ex breaks_line hs"
  "check_prestart_no_newline p = Inr p' \<longleftrightarrow>
     p' = p \<and> (\<forall>s. p = Some s \<longrightarrow> \<not> breaks_line s)"
  "validate_build_env e = Inr e' \<longleftrightarrow>
     e' = e \<and> check_env_items (case e of None \<Rightarrow> [] | Some xs \<Rightarrow> xs) = Inr ()"
  by (auto simp: check_min_length_def check_hooks_no_newline_def check_prestart_no_newline_def
      validate_build_env_def split: option.splits sum.splits if_splits)

lemma rstrip_lstrip: "rstrip (lstrip s) = lstrip (rstrip s)"
proof (induction s)
  case (Cons c s)
  have drop_snoc: "dropWhile is_ws (xs @ [c]) =
      (if \<forall>x \<in> set xs. is_ws x then dropWhile is_ws [c] else dropWhile is_ws xs @ [c])" for xs
    by (induction xs) auto
  show ?case
  proof (cases "is_ws c")
    case True
    have "rstrip (c # s) = (if \<forall>x \<in> set s. is_ws x then [] else c # rstrip s)"
      using True by (simp add: rstrip_def drop_snoc)
    moreover have "rstrip s = []" if "\<forall>x \<in> set s. is_ws x"
      using that by (simp add: rstrip_def)
    ultimately show ?thesis
      using Cons True by (auto simp: lstrip_def)
  next
    case False
    then have "rstrip (c # s) = c # rstrip s"
      by (auto simp: rstrip_def drop_snoc)
    with False show ?thesis by (simp add: lstrip_def)
  qed
qed (simp add: rstrip_def lstrip_def)

lemma strip_strip [simp]: "strip (strip s) = strip s"
proof -
  have i: "lstrip (lstrip s) = lstrip s" "rstrip (rstrip s) = rstrip s" for s
    by (simp_all add: lstrip_def rstrip_def)
  show ?thesis unfolding strip_def by (metis i rstrip_lstrip)
qed

lemma strip_set: "set (strip s) \<subseteq> set s"
  unfolding strip_def lstrip_def rstrip_def
  by (metis set_dropWhileD set_rev subsetI)

lemma unsafe_strip: "\<not> unsafe_line s \<Longrightarrow> \<not> unsafe_line (strip s)"
  using strip_set [of s] by (auto simp: unsafe_line_def breaks_line_def)

lemma check_host_build_again: "check_host_build v = Inr w \<Longrightarrow> check_host_build w = Inr w"
  by (auto simp: check_host_build_def Let_def unsafe_strip split: option.splits if_splits)

definition deps_ok :: "string list \<Rightarrow> bool" where
  "deps_ok ds \<longleftrightarrow> distinct ds \<and> (\<forall>d \<in> set ds. is_dep_name d \<and> strip d = d)"

lemma clean_deps_ok: "clean_deps vs acc = Inr ds \<Longrightarrow> deps_ok acc \<Longrightarrow> deps_ok ds"
proof (induction vs acc rule: clean_deps.induct)
  case (2 item rest cleaned)
  let ?n = "strip item"
  consider "?n = []" | "?n \<noteq> []" "?n \<in> set cleaned" "is_dep_name ?n"
    | "?n \<noteq> []" "?n \<notin> set cleaned" "is_dep_name ?n"
    using 2(4) by (auto simp: Let_def split: if_splits)
  then show ?case
  proof cases
    case 3
    with 2(5) have "deps_ok (cleaned @ [?n])" by (simp add: deps_ok_def ball_Un)
    with 2(3,4) 3 show ?thesis by (simp add: Let_def)
  qed (use 2 in \<open>simp_all add: Let_def\<close>)
qed simp

lemma clean_deps_id:
  "deps_ok (acc @ ds) \<Longrightarrow> clean_deps ds acc = Inr (acc @ ds)"
proof (induction ds arbitrary: acc)
  case (Cons d ds)
  then have "d \<noteq> []" "is_dep_name d" "strip d = d" "d \<notin> set acc"
    by (auto simp: deps_ok_def is_dep_name_def)
  with Cons show ?case by simp
qed simp

lemma check_system_deps_again:
  "check_system_deps vs = Inr ds \<Longrightarrow> check_system_deps ds = Inr ds \<and> deps_ok ds"
  unfolding check_system_deps_def
  using clean_deps_ok [of vs "[]" ds] clean_deps_id [of "[]" ds] by (simp add: deps_ok_def)

lemma check_runtime_InrD:
  "check_runtime_serving_consistency m = Inr m' \<Longrightarrow> m' = m
     \<and> (m_runtime m = SHARED_STATIC \<longleftrightarrow> m_servingMode m = SERVE_SHARED_STATIC)
     \<and> (m_runtime m = DOCKER_COMPOSE \<longleftrightarrow> m_container m \<noteq> None)
     \<and> \<not> (truthy (m_hostBuild m) \<and> truthy (m_preSync m))
     \<and> ((truthy (m_hostBuild m) \<or> truthy (m_preSync m)) \<longrightarrow> m_runtime m = DOCKER_COMPOSE)"
  by (auto simp: check_runtime_serving_consistency_def Let_def
      split: runtime.splits if_splits serving_mode.splits)

lemma check_database_Inr:
  "check_database_consistency m = Inr m' \<longleftrightarrow>
     m' = m \<and> (m_hasDatabase m \<longleftrightarrow> m_database m \<noteq> None)"
  by (auto simp: check_database_consistency_def)

lemmas validate_results = check_id_results check_database_Inr

section \<open>Well-formed manifests\<close>

definition wf_manifest :: "manifest \<Rightarrow> bool" where
  "wf_manifest m \<longleftrightarrow>
     m_id m \<noteq> [] \<and> m_name m \<noteq> [] \<and> m_version m \<noteq> []
     \<and> (m_runtime m = SHARED_STATIC \<longleftrightarrow> m_servingMode m = SERVE_SHARED_STATIC)
     \<and> (m_runtime m = DOCKER_COMPOSE \<longleftrightarrow> m_container m \<noteq> None)
     \<and> (m_hasDatabase m \<longleftrightarrow> m_database m \<noteq> None)
     \<and> \<not> (truthy (m_hostBuild m) \<and> truthy (m_preSync m))
     \<and> (truthy (m_hostBuild m) \<or> truthy (m_preSync m) \<longrightarrow> m_runtime m = DOCKER_COMPOSE)
     \<and> deps_ok (m_systemDeps m)
     \<and> (\<forall>h \<in> set (m_buildHooks m). \<not> breaks_line h)
     \<and> (\<forall>p. m_preStart m = Some p \<longrightarrow> \<not> breaks_line p)
     \<and> (\<forall>xs k v. m_buildEnv m = Some xs \<longrightarrow> (k, v) \<in> set xs \<longrightarrow> is_env_name k \<and> \<not> unsafe_line v)"

lemma check_env_items_ok:
  "check_env_items xs = Inr () \<Longrightarrow> (k, v) \<in> set xs \<Longrightarrow> is_env_name k \<and> \<not> unsafe_line v"
  by (induction xs rule: check_env_items.induct) (auto split: if_splits)

lemma validate_manifestE:
  assumes "validate_manifest m = Inr m'"
  obtains hb ps deps gsub sub where
    "m' = m\<lparr>m_hostBuild := hb, m_preSync := ps, m_systemDeps := deps,
       m_sourceGitSubdir := gsub, m_sourceSubdir := sub\<rparr>"
    "m_id m \<noteq> []" "m_name m \<noteq> []" "m_version m \<noteq> []"
    "\<not> list_ex breaks_line (m_buildHooks m)" "\<forall>s. m_preStart m = Some s \<longrightarrow> \<not> breaks_line s"
    "check_host_build (m_hostBuild m) = Inr hb" "check_host_build (m_preSync m) = Inr ps"
    "check_system_deps (m_systemDeps m) = Inr deps"
    "check_env_items (case m_buildEnv m of None \<Rightarrow> [] | Some xs \<Rightarrow> xs) = Inr ()"
    "check_source_subdir (m_sourceGitSubdir m) = Inr gsub"
    "check_source_subdir (m_sourceSubdir m) = Inr sub"
    "check_runtime_serving_consistency m' = Inr m'"
    "m_hasDatabase m' \<longleftrightarrow> m_database m' \<noteq> None"
proof -
  from assms obtain hb ps deps gsub sub where
    1: "check_runtime_serving_consistency (m\<lparr>m_hostBuild := hb, m_preSync := ps,
        m_systemDeps := deps, m_sourceGitSubdir := gsub, m_sourceSubdir := sub\<rparr>) = Inr m'"
    and 2: "m_id m \<noteq> []" "m_name m \<noteq> []" "m_version m \<noteq> []"
      "\<not> list_ex breaks_line (m_buildHooks m)" "\<forall>s. m_preStart m = Some s \<longrightarrow> \<not> breaks_line s"
      "check_host_build (m_hostBuild m) = Inr hb" "check_host_build (m_preSync m) = Inr ps"
      "check_system_deps (m_systemDeps m) = Inr deps"
      "check_env_items (case m_buildEnv m of None \<Rightarrow> [] | Some xs \<Rightarrow> xs) = Inr ()"
      "check_source_subdir (m_sourceGitSubdir m) = Inr gsub"
      "check_source_subdir (m_sourceSubdir m) = Inr sub"
      "m_hasDatabase m' \<longleftrightarrow> m_database m' \<noteq> None"
    unfolding validate_manifest_def sum_bind_Inr validate_results
    apply (elim exE conjE)
    apply (hypsubst)
    apply (rule that)
    apply assumption+
    done
  have m': "m' = m\<lparr>m_hostBuild := hb, m_preSync := ps, m_systemDeps := deps,
       m_sourceGitSubdir := gsub, m_sourceSubdir := sub\<rparr>"
    using check_runtime_InrD [OF 1] by (rule conjunct1)
  have "check_runtime_serving_consistency m' = Inr m'"
    using 1 m' by simp
  from that [OF m' 2(1-11) this 2(12)] show ?thesis .
qed

text \<open>C40: A manifest that passes validation is well formed: runtime, serving mode and container
  section agree, a database section is there exactly when declared, at most one host-build
  command is configured and only for containers, every system package name is clean and listed
  once, and no hook, pre-start command or build variable can break a line of the generated
  Dockerfile.\<close>

theorem validated_manifest_wf:
  assumes "validate_manifest m = Inr m'"
  shows "wf_manifest m'"
proof -
  obtain hb ps deps gsub sub where
    m': "m' = m\<lparr>m_hostBuild := hb, m_preSync := ps, m_systemDeps := deps,
       m_sourceGitSubdir := gsub, m_sourceSubdir := sub\<rparr>"
    and f: "m_id m \<noteq> []" "m_name m \<noteq> []" "m_version m \<noteq> []"
      "\<not> list_ex breaks_line (m_buildHooks m)" "\<forall>s. m_preStart m = Some s \<longrightarrow> \<not> breaks_line s"
    and deps: "check_system_deps (m_systemDeps m) = Inr deps"
    and env: "check_env_items (case m_buildEnv m of None \<Rightarrow> [] | Some xs \<Rightarrow> xs) = Inr ()"
    and rt: "check_runtime_serving_consistency m' = Inr m'"
    and db: "m_hasDatabase m' \<longleftrightarrow> m_database m' \<noteq> None"
    by (rule validate_manifestE [OF assms])
  have "deps_ok (m_systemDeps m')"
    using check_system_deps_again [OF deps] m' by simp
  moreover have "is_env_name k \<and> \<not> unsafe_line v" if "m_buildEnv m' = Some xs" "(k, v) \<in> set xs" for xs k v
    using check_env_items_ok env that m' by simp
  ultimately show ?thesis
    unfolding wf_manifest_def using f check_runtime_InrD [OF rt] db m'
    by (auto simp: list_ex_iff)
qed

definition sample_manifest :: manifest where
  "sample_manifest = \<lparr>consecutiveReconcileFailures = 0, reconcileNextRetryAt = None,
     reconcileCircuitManual = False, m_id = ''my-site'', m_name = ''My site'',
     m_version = ''1.0'', m_kind = KIND_STATIC, m_stack = [], m_runtime = SHARED_STATIC,
     m_servingMode = SERVE_SHARED_STATIC, m_resourceProfile = SMALL, m_hasDatabase = False,
     m_database = None, m_desiredState = DESIRED_STOPPED, m_status = PENDING, m_static = None,
     m_container = None, m_entry = no_entry, m_buildHooks = [], m_preStart = None,
     m_hostBuild = None, m_preSync = None, m_hostBuildPending = False, m_systemDeps = [], m_buildEnv = None,
     m_sourceKind = ''zip'', m_sourceDirPath = None, m_sourceSyncHash = None,
     m_sourceGitUrl = None, m_sourceGitRef = None, m_sourceGitRefKind = None,
     m_sourceGitCommit = None, m_sourceGitSubdir = None, m_sourceZipPath = None,
     m_appPath = None, m_createdAt = ''2026-08-01T00:00:00Z'', m_updatedAt = ''2026-08-01T00:00:00Z'',
     m_lastStartedAt = None, m_lastHealthCheckAt = None, m_lastError = None,
     m_lastOperation = None, m_sourceSubdir = None, m_deploymentCandidates = [], m_deploymentPlans = [],
     m_selectedPlanId = None, m_selectedPlanHash = None, m_capabilityContract = None, m_deploymentFingerprints = None\<rparr>"

definition sample_container :: container_config where
  "sample_container = \<lparr>c_projectName = ''lwa-my-site'', c_serviceName = ''app'', c_image = None,
     c_imageId = None, c_containerId = None, c_internalPort = 8000, c_hostPort = Some 18001,
     c_composePath = ''compose.yaml'', c_dockerfilePath = ''Dockerfile'', c_memory = ''512m'',
     c_cpus = ''0.75'', c_routeMode = ROUTE_PORT, c_routeHost = None, c_rebuildStrategy = None,
     c_runAsNonRoot = None\<rparr>"

definition sample_api :: manifest where
  "sample_api = sample_manifest\<lparr>m_kind := KIND_PYTHON, m_runtime := DOCKER_COMPOSE,
     m_servingMode := SERVE_CONTAINER, m_container := Some sample_container,
     m_hostBuild := Some '' npm run build '', m_systemDeps := ['' ffmpeg'', ''ffmpeg'', '' ''],
     m_sourceSubdir := Some ''./backend/''\<rparr>"

lemma sample_api_validates:
  "validate_manifest sample_api = Inr (sample_api\<lparr>m_hostBuild := Some ''npm run build'',
     m_systemDeps := [''ffmpeg''], m_sourceSubdir := Some ''backend''\<rparr>)"
  by code_simp

theorem validated_manifest_wf_witness:
  "wf_manifest (sample_api\<lparr>m_hostBuild := Some ''npm run build'',
     m_systemDeps := [''ffmpeg''], m_sourceSubdir := Some ''backend''\<rparr>)"
  using validated_manifest_wf [OF sample_api_validates] .

definition stable_subdir :: "string option \<Rightarrow> bool" where
  "stable_subdir v \<longleftrightarrow> (\<forall>t. v = Some t \<longrightarrow> strip t = t \<and> \<not> has_drive t)"

lemma check_source_subdir_again:
  assumes "check_source_subdir v = Inr w" "stable_subdir w"
  shows "check_source_subdir w = Inr w"
proof (cases w)
  case None
  then show ?thesis by (simp add: check_source_subdir_def validate_source_subdir_def)
next
  case (Some t)
  with assms(1) have "validate_source_subdir v = Inr (Some t)"
    by (auto simp: check_source_subdir_def split: sum.splits)
  from revalidate_subdir [OF this] assms(2) Some show ?thesis
    by (simp add: check_source_subdir_def stable_subdir_def)
qed

text \<open>What validation returns is a fixed point of it: saving a validated manifest and loading
  it again gives the same manifest, as long as its two source subdirectories neither begin nor
  end with white space and have no colon in second place.\<close>

theorem validate_manifest_again:
  assumes "validate_manifest m = Inr m'"
    and "stable_subdir (m_sourceSubdir m')" "stable_subdir (m_sourceGitSubdir m')"
  shows "validate_manifest m' = Inr m'"
proof -
  obtain hb ps deps gsub sub where
    m': "m' = m\<lparr>m_hostBuild := hb, m_preSync := ps, m_systemDeps := deps,
       m_sourceGitSubdir := gsub, m_sourceSubdir := sub\<rparr>"
    and f: "m_id m \<noteq> []" "m_name m \<noteq> []" "m_version m \<noteq> []"
      "\<not> list_ex breaks_line (m_buildHooks m)" "\<forall>s. m_preStart m = Some s \<longrightarrow> \<not> breaks_line s"
      "check_host_build (m_hostBuild m) = Inr hb" "check_host_build (m_preSync m) = Inr ps"
      "check_system_deps (m_systemDeps m) = Inr deps"
      "check_env_items (case m_buildEnv m of None \<Rightarrow> [] | Some xs \<Rightarrow> xs) = Inr ()"
      "check_source_subdir (m_sourceGitSubdir m) = Inr gsub"
      "check_source_subdir (m_sourceSubdir m) = Inr sub"
    and rt: "check_runtime_serving_consistency m' = Inr m'"
    and db: "m_hasDatabase m' \<longleftrightarrow> m_database m' \<noteq> None"
    by (rule validate_manifestE [OF assms(1)])
  have eqs:
    "check_min_length ''id'' (m_id m') = Inr (m_id m')"
    "check_min_length ''name'' (m_name m') = Inr (m_name m')"
    "check_min_length ''version'' (m_version m') = Inr (m_version m')"
    "check_hooks_no_newline (m_buildHooks m') = Inr (m_buildHooks m')"
    "check_prestart_no_newline (m_preStart m') = Inr (m_preStart m')"
    "validate_build_env (m_buildEnv m') = Inr (m_buildEnv m')"
    using f m' by (simp_all add: validate_results)
  have upd:
    "check_host_build (m_hostBuild m') = Inr (m_hostBuild m')"
    "check_host_build (m_preSync m') = Inr (m_preSync m')"
    "check_system_deps (m_systemDeps m') = Inr (m_systemDeps m')"
    "check_source_subdir (m_sourceGitSubdir m') = Inr (m_sourceGitSubdir m')"
    "check_source_subdir (m_sourceSubdir m') = Inr (m_sourceSubdir m')"
    using f assms(2,3) m' check_host_build_again check_system_deps_again
      check_source_subdir_again by simp_all
  have "check_database_consistency m' = Inr m'"
    using db by (simp add: check_database_Inr)
  then show ?thesis
    unfolding validate_manifest_def eqs upd sum_bind_simps using rt by (simp add: sum_bind_simps)
qed

theorem validate_manifest_again_witness:
  "validate_manifest (sample_api\<lparr>m_hostBuild := Some ''npm run build'',
     m_systemDeps := [''ffmpeg''], m_sourceSubdir := Some ''backend''\<rparr>)
   = Inr (sample_api\<lparr>m_hostBuild := Some ''npm run build'',
     m_systemDeps := [''ffmpeg''], m_sourceSubdir := Some ''backend''\<rparr>)"
proof (rule validate_manifest_again [OF sample_api_validates])
  have "strip ''backend'' = ''backend'' \<and> \<not> has_drive ''backend''" by code_simp
  then show "stable_subdir (m_sourceSubdir (sample_api\<lparr>m_hostBuild := Some ''npm run build'',
     m_systemDeps := [''ffmpeg''], m_sourceSubdir := Some ''backend''\<rparr>))"
    by (simp add: stable_subdir_def)
  show "stable_subdir (m_sourceGitSubdir (sample_api\<lparr>m_hostBuild := Some ''npm run build'',
     m_systemDeps := [''ffmpeg''], m_sourceSubdir := Some ''backend''\<rparr>))"
    by (simp add: stable_subdir_def sample_api_def sample_manifest_def)
qed

end
