(* ===== verification/Reconcile_Circuit.thy ===== *)
theory Reconcile_Circuit
  imports Models_Manifest
begin

text \<open>
  Models \<^verbatim>\<open>reconcile_circuit.py\<close>: the circuit breaker that stops the reconcile loop from
  rebuilding a failing instance over and over. Instants are microseconds (an \<^typ>\<open>int\<close>); a
  stored ISO string is kept as what \<open>_parse_iso\<close> reads of it. \<open>isoformat\<close> of an aware
  datetime parses back to the same instant, so a stored deadline is an \<open>Aware\<close> value.
\<close>

definition HOUR_THRESHOLD :: int where "HOUR_THRESHOLD = 3"
definition MANUAL_THRESHOLD :: int where "MANUAL_THRESHOLD = 5"
definition HOUR_BACKOFF_SECONDS :: int where "HOUR_BACKOFF_SECONDS = 3600"
definition BASE_BACKOFF_SECONDS :: int where "BASE_BACKOFF_SECONDS = 60"

definition seconds :: "int \<Rightarrow> int" where
  "seconds n = 1000000 * n"

fun parse_iso :: "iso_value option \<Rightarrow> int option" where
  "parse_iso None = None"
| "parse_iso (Some (Aware t)) = Some t"
| "parse_iso (Some (Naive_utc t)) = Some t"
| "parse_iso (Some (Unparsable _)) = None"

definition record_failure :: "int \<Rightarrow> 'a circuit_scheme \<Rightarrow> 'a circuit_scheme" where
  "record_failure stamp m =
     (let count = consecutiveReconcileFailures m + 1;
          m = m\<lparr>consecutiveReconcileFailures := count\<rparr> in
      if count \<ge> MANUAL_THRESHOLD
      then m\<lparr>reconcileCircuitManual := True, reconcileNextRetryAt := None\<rparr>
      else (let delay = (if count \<ge> HOUR_THRESHOLD then seconds HOUR_BACKOFF_SECONDS
                         else seconds (BASE_BACKOFF_SECONDS * 2 ^ nat (count - 1))) in
            m\<lparr>reconcileCircuitManual := False,
              reconcileNextRetryAt := Some (Aware (stamp + delay))\<rparr>))"

definition clear_circuit :: "'a circuit_scheme \<Rightarrow> 'a circuit_scheme" where
  "clear_circuit m = m\<lparr>consecutiveReconcileFailures := 0, reconcileCircuitManual := False,
     reconcileNextRetryAt := None\<rparr>"

definition is_blocked :: "int \<Rightarrow> 'a circuit_scheme \<Rightarrow> bool" where
  "is_blocked now m =
     (if reconcileCircuitManual m then True
      else (case parse_iso (reconcileNextRetryAt m) of
          None \<Rightarrow> False
        | Some until \<Rightarrow> now < until))"

datatype status_note = Note_manual int | Note_retry int "iso_value option"

definition status_note :: "int \<Rightarrow> 'a circuit_scheme \<Rightarrow> status_note option" where
  "status_note now m =
     (let count = consecutiveReconcileFailures m in
      if reconcileCircuitManual m then Some (Note_manual count)
      else if \<not> is_blocked now m then None
      else Some (Note_retry count (reconcileNextRetryAt m)))"

text \<open>
  \<open>persist_circuit\<close> re-reads the manifest under the instance lock, writes only the three
  circuit fields into it and touches its \<open>updatedAt\<close>; a missing or unreadable manifest
  (\<open>None\<close>) is left alone.
\<close>

definition persist_circuit ::
  "string \<Rightarrow> 'a circuit_scheme \<Rightarrow> manifest option \<Rightarrow> manifest option" where
  "persist_circuit now m disk =
     map_option (\<lambda>latest. touch now (latest\<lparr>
       consecutiveReconcileFailures := consecutiveReconcileFailures m,
       reconcileCircuitManual := reconcileCircuitManual m,
       reconcileNextRetryAt := reconcileNextRetryAt m\<rparr>)) disk"

fun run_failures :: "int list \<Rightarrow> 'a circuit_scheme \<Rightarrow> 'a circuit_scheme" where
  "run_failures [] m = m"
| "run_failures (t # ts) m = run_failures ts (record_failure t m)"

lemmas circuit_consts =
  HOUR_THRESHOLD_def MANUAL_THRESHOLD_def HOUR_BACKOFF_SECONDS_def BASE_BACKOFF_SECONDS_def
  seconds_def

lemma record_failure_count:
  "consecutiveReconcileFailures (record_failure t m) = consecutiveReconcileFailures m + 1"
  by (simp add: record_failure_def Let_def)

lemma run_failures_count:
  "consecutiveReconcileFailures (run_failures ts m)
     = consecutiveReconcileFailures m + int (length ts)"
  by (induction ts arbitrary: m) (simp_all add: record_failure_count)

lemma run_failures_snoc: "run_failures (ts @ [t]) m = record_failure t (run_failures ts m)"
  by (induction ts arbitrary: m) simp_all

lemma record_failure_manual:
  "reconcileCircuitManual (record_failure t m) \<longleftrightarrow> consecutiveReconcileFailures m + 1 \<ge> 5"
  by (simp add: record_failure_def Let_def circuit_consts)

text \<open>The delay after a failure, as a function of the new failure count.\<close>

definition backoff_spec :: "int \<Rightarrow> int" where
  "backoff_spec count = (if count \<le> 1 then seconds 60 else if count = 2 then seconds 120
     else seconds 3600)"

lemma record_failure_retry:
  assumes "0 \<le> consecutiveReconcileFailures m" "consecutiveReconcileFailures m < 4"
  shows "reconcileNextRetryAt (record_failure t m)
     = Some (Aware (t + backoff_spec (consecutiveReconcileFailures m + 1)))"
proof -
  have "consecutiveReconcileFailures m \<in> {0, 1, 2, 3}" using assms by auto
  then show ?thesis
    by (auto simp: record_failure_def Let_def circuit_consts backoff_spec_def)
qed

text \<open>After \<open>n\<close> consecutive failures recorded on a cleared circuit, the last of them at time
  \<open>t\<close>, the instance is blocked at time \<open>now\<close> exactly when \<open>n\<close> has reached five (manual
  intervention, for ever) or \<open>now\<close> is within the back-off of the \<open>n\<close>-th failure: one minute,
  two minutes, then one hour.\<close>

theorem run_failures_blocked:
  "is_blocked now (run_failures (ts @ [t]) (clear_circuit m)) \<longleftrightarrow>
     (let n = length ts + 1 in
      n \<ge> 5 \<or> now < t + backoff_spec (int n))"
proof -
  let ?m = "run_failures ts (clear_circuit m)"
  have c: "consecutiveReconcileFailures ?m = int (length ts)"
    by (simp add: run_failures_count clear_circuit_def)
  show ?thesis
  proof (cases "length ts \<ge> 4")
    case True
    then show ?thesis
      using c by (simp add: run_failures_snoc is_blocked_def record_failure_manual)
  next
    case False
    then have "reconcileNextRetryAt (record_failure t ?m)
       = Some (Aware (t + backoff_spec (int (length ts) + 1)))"
      using record_failure_retry [of ?m t] c by simp
    with False c show ?thesis
      by (simp add: run_failures_snoc is_blocked_def record_failure_manual add.commute)
  qed
qed

text \<open>The note shown to the user is there exactly while the circuit blocks.\<close>

lemma status_note_iff_blocked: "status_note now m \<noteq> None \<longleftrightarrow> is_blocked now m"
  by (simp add: status_note_def is_blocked_def Let_def)

text \<open>Persisting the breaker transfers its verdict to the manifest on disk at every instant,
  sets \<open>updatedAt\<close> and changes no other field (restoring the four written fields gives the old
  manifest back), and a manifest that is not there is not created.\<close>

theorem persist_circuit_verdict:
  "persist_circuit s m None = None
   \<and> (\<exists>d'. persist_circuit s m (Some d) = Some d'
        \<and> (\<forall>now. is_blocked now d' = is_blocked now m)
        \<and> d'\<lparr>m_updatedAt := m_updatedAt d,
              consecutiveReconcileFailures := consecutiveReconcileFailures d,
              reconcileCircuitManual := reconcileCircuitManual d,
              reconcileNextRetryAt := reconcileNextRetryAt d\<rparr> = d)"
  by (simp add: persist_circuit_def is_blocked_def touch_def)

end
