(* ===== verification/Registry_Schema.thy ===== *)
theory Registry_Schema
  imports Lwa_Prelude
begin

text \<open>
  Models \<^verbatim>\<open>registry/connection.py\<close>: the versioned schema of \<^verbatim>\<open>registry.db\<close> and its migration
  loop. A database is its tables with their columns in order, its indexes and the rows of
  \<open>schema_version\<close>. A statement that SQLite refuses raises, and the transaction that the
  migration step runs in is rolled back.
\<close>

section \<open>Statements\<close>

datatype col_type = INTEGER | TEXT | REAL

datatype col_opt =
    PRIMARY_KEY | AUTOINCREMENT | NOT_NULL
  | DEFAULT_TEXT string | DEFAULT_INT int
  | REFERENCES_CASCADE string string

type_synonym column = "string \<times> col_type \<times> col_opt list"

datatype ddl =
    Create_table string "column list" "string list list"
  | Create_index string string string
  | Add_column string column

record db =
  tables :: "(string \<times> column list) list"
  indexes :: "(string \<times> string \<times> string) list"
  versions :: "nat list"

definition empty_db :: db where
  "empty_db = \<lparr>tables = [], indexes = [], versions = []\<rparr>"

datatype db_error = Operational_error ddl | No_schema_version_table

definition has_table :: "string \<Rightarrow> db \<Rightarrow> bool" where
  "has_table t d \<longleftrightarrow> map_of (tables d) t \<noteq> None"

definition has_column :: "string \<Rightarrow> string \<Rightarrow> db \<Rightarrow> bool" where
  "has_column t c d \<longleftrightarrow> (case map_of (tables d) t of None \<Rightarrow> False | Some cs \<Rightarrow> c \<in> fst ` set cs)"

text \<open>\<open>CREATE ... IF NOT EXISTS\<close> skips an existing object; \<open>ALTER TABLE ... ADD COLUMN\<close> needs the
  table and refuses a column that is already there. The third argument of \<open>Create_table\<close> lists
  the UNIQUE constraints.\<close>

fun exec_ddl :: "ddl \<Rightarrow> db \<Rightarrow> db_error + db" where
  "exec_ddl (Create_table t cs us) d =
     (if has_table t d then Inr d else Inr (d\<lparr>tables := tables d @ [(t, cs)]\<rparr>))"
| "exec_ddl (Create_index i t c) d =
     (if i \<in> fst ` set (indexes d) then Inr d
      else if \<not> has_column t c d then Inl (Operational_error (Create_index i t c))
      else Inr (d\<lparr>indexes := indexes d @ [(i, t, c)]\<rparr>))"
| "exec_ddl (Add_column t col) d =
     (if \<not> has_table t d \<or> has_column t (fst col) d then Inl (Operational_error (Add_column t col))
      else Inr (d\<lparr>tables := map (\<lambda>(t', cs). if t' = t then (t', cs @ [col]) else (t', cs)) (tables d)\<rparr>))"

fun exec_all :: "ddl list \<Rightarrow> db \<Rightarrow> db_error + db" where
  "exec_all [] d = Inr d"
| "exec_all (s # ss) d = (case exec_ddl s d of Inl e \<Rightarrow> Inl e | Inr d' \<Rightarrow> exec_all ss d')"

section \<open>The schema versions\<close>

definition CURRENT_SCHEMA_VERSION :: nat where "CURRENT_SCHEMA_VERSION = 8"

definition child_of_instances :: "col_opt list" where
  "child_of_instances = [PRIMARY_KEY, REFERENCES_CASCADE ''instances'' ''id'']"

fun SCHEMAS :: "nat \<Rightarrow> ddl list" where
  "SCHEMAS v =
   (if v = 1 then
     [Create_table ''schema_version''
        [(''version'', INTEGER, [PRIMARY_KEY]), (''applied_at'', TEXT, [NOT_NULL])] [],
      Create_table ''instances''
        [(''id'', TEXT, [PRIMARY_KEY]), (''name'', TEXT, [NOT_NULL]),
         (''version'', TEXT, [NOT_NULL]), (''kind'', TEXT, [NOT_NULL]),
         (''runtime'', TEXT, [NOT_NULL]), (''serving_mode'', TEXT, [NOT_NULL]),
         (''resource_profile'', TEXT, [NOT_NULL, DEFAULT_TEXT ''small'']),
         (''stack_json'', TEXT, [NOT_NULL, DEFAULT_TEXT ''[]'']),
         (''has_database'', INTEGER, [NOT_NULL, DEFAULT_INT 0]),
         (''database_type'', TEXT, []), (''database_json'', TEXT, []),
         (''desired_state'', TEXT, [NOT_NULL, DEFAULT_TEXT ''stopped'']),
         (''status'', TEXT, [NOT_NULL, DEFAULT_TEXT ''pending'']),
         (''app_path'', TEXT, []), (''source_zip_path'', TEXT, []),
         (''created_at'', TEXT, [NOT_NULL]), (''updated_at'', TEXT, [NOT_NULL]),
         (''last_started_at'', TEXT, []), (''last_health_check_at'', TEXT, []),
         (''last_error'', TEXT, [])] [],
      Create_table ''containers''
        [(''instance_id'', TEXT, child_of_instances), (''compose_project'', TEXT, [NOT_NULL]),
         (''service_name'', TEXT, [NOT_NULL, DEFAULT_TEXT ''app'']),
         (''image'', TEXT, []), (''image_id'', TEXT, []), (''container_id'', TEXT, []),
         (''internal_port'', INTEGER, []), (''host_port'', INTEGER, []),
         (''route_mode'', TEXT, [NOT_NULL, DEFAULT_TEXT ''port'']), (''route_host'', TEXT, []),
         (''compose_path'', TEXT, []), (''dockerfile_path'', TEXT, []),
         (''memory_limit'', TEXT, []), (''cpu_limit'', TEXT, [])] [],
      Create_table ''static_sites''
        [(''instance_id'', TEXT, child_of_instances),
         (''root_path'', TEXT, [NOT_NULL, DEFAULT_TEXT ''public'']),
         (''gateway'', TEXT, [NOT_NULL, DEFAULT_TEXT ''caddy'']),
         (''route_mode'', TEXT, [NOT_NULL, DEFAULT_TEXT ''port'']),
         (''host_port'', INTEGER, []), (''route_host'', TEXT, []),
         (''gateway_config_path'', TEXT, []), (''enabled'', INTEGER, [NOT_NULL, DEFAULT_INT 1])] [],
      Create_table ''ports''
        [(''port'', INTEGER, [PRIMARY_KEY]),
         (''instance_id'', TEXT, [NOT_NULL, REFERENCES_CASCADE ''instances'' ''id'']),
         (''status'', TEXT, [NOT_NULL, DEFAULT_TEXT ''allocated'']),
         (''created_at'', TEXT, [NOT_NULL])] [],
      Create_table ''events''
        [(''id'', INTEGER, [PRIMARY_KEY, AUTOINCREMENT]),
         (''instance_id'', TEXT, [REFERENCES_CASCADE ''instances'' ''id'']),
         (''event_type'', TEXT, [NOT_NULL]), (''message'', TEXT, [NOT_NULL]),
         (''created_at'', TEXT, [NOT_NULL])] [],
      Create_table ''builds''
        [(''id'', INTEGER, [PRIMARY_KEY, AUTOINCREMENT]),
         (''instance_id'', TEXT, [NOT_NULL, REFERENCES_CASCADE ''instances'' ''id'']),
         (''status'', TEXT, [NOT_NULL]), (''started_at'', TEXT, []), (''finished_at'', TEXT, []),
         (''log_path'', TEXT, []), (''error_summary'', TEXT, [])] [],
      Create_table ''resources''
        [(''instance_id'', TEXT, child_of_instances), (''source_size_bytes'', INTEGER, []),
         (''public_size_bytes'', INTEGER, []), (''data_size_bytes'', INTEGER, []),
         (''image_size_bytes'', INTEGER, []), (''last_memory_bytes'', INTEGER, []),
         (''last_cpu_percent'', REAL, []), (''updated_at'', TEXT, [NOT_NULL])] [],
      Create_index ''idx_instances_status'' ''instances'' ''status'',
      Create_index ''idx_events_instance'' ''events'' ''instance_id'',
      Create_index ''idx_builds_instance'' ''builds'' ''instance_id'',
      Create_index ''idx_ports_instance'' ''ports'' ''instance_id'']
    else if v = 2 then
     [Add_column ''instances'' (''observed_state'', TEXT, []),
      Add_column ''instances'' (''observation_error'', TEXT, []),
      Add_column ''instances'' (''last_trusted_state'', TEXT, []),
      Add_column ''instances'' (''last_observed_at'', TEXT, []),
      Add_column ''instances'' (''runtime_access'', TEXT, [])]
    else if v = 3 then
     [Create_table ''workspace_meta''
        [(''key'', TEXT, [PRIMARY_KEY]), (''value'', TEXT, [NOT_NULL])] [],
      Create_table ''agent_plans''
        [(''plan_id'', TEXT, [PRIMARY_KEY]), (''principal_id'', TEXT, [NOT_NULL]),
         (''workspace_id'', TEXT, [NOT_NULL]), (''intent'', TEXT, [NOT_NULL]),
         (''source_json'', TEXT, [NOT_NULL]), (''source_digest'', TEXT, [NOT_NULL]),
         (''target_instance_id'', TEXT, []), (''expected_revision'', INTEGER, []),
         (''display_name'', TEXT, []),
         (''options_json'', TEXT, [NOT_NULL, DEFAULT_TEXT ''{}'']),
         (''policy_version'', TEXT, [NOT_NULL]), (''request_hash'', TEXT, [NOT_NULL]),
         (''created_at'', TEXT, [NOT_NULL]), (''expires_at'', TEXT, [NOT_NULL])] [],
      Create_table ''agent_operations''
        [(''operation_id'', TEXT, [PRIMARY_KEY]), (''principal_id'', TEXT, [NOT_NULL]),
         (''workspace_id'', TEXT, [NOT_NULL]), (''action'', TEXT, [NOT_NULL]),
         (''target_instance_id'', TEXT, []), (''request_hash'', TEXT, [NOT_NULL]),
         (''idempotency_key'', TEXT, [NOT_NULL]), (''plan_id'', TEXT, []),
         (''status'', TEXT, [NOT_NULL]), (''phase'', TEXT, []),
         (''created_at'', TEXT, [NOT_NULL]), (''updated_at'', TEXT, [NOT_NULL]),
         (''worker_identity'', TEXT, []), (''lease_until'', TEXT, []), (''build_token'', TEXT, []),
         (''result_json'', TEXT, []), (''error_json'', TEXT, [])]
        [[''principal_id'', ''workspace_id'', ''idempotency_key'']],
      Create_index ''idx_agent_operations_plan'' ''agent_operations'' ''plan_id'']
    else if v = 4 then
     [Add_column ''instances'' (''revision'', INTEGER, [NOT_NULL, DEFAULT_INT 1]),
      Add_column ''agent_plans'' (''risks_json'', TEXT, [NOT_NULL, DEFAULT_TEXT ''{}'']),
      Add_column ''agent_plans'' (''required_capabilities_json'', TEXT, [NOT_NULL, DEFAULT_TEXT ''[]''])]
    else if v = 5 then
     [Add_column ''agent_operations'' (''payload_json'', TEXT, []),
      Create_index ''idx_agent_operations_status'' ''agent_operations'' ''status'']
    else if v = 6 then
     [Add_column ''instances'' (''last_operation_json'', TEXT, [])]
    else if v = 7 then
     [Add_column ''builds'' (''image_ref'', TEXT, []), Add_column ''builds'' (''image_id'', TEXT, []),
      Add_column ''builds'' (''source_hash'', TEXT, []),
      Add_column ''builds'' (''config_snapshot'', TEXT, [])]
    else if v = 8 then
     [Add_column ''events'' (''source'', TEXT, [])]
    else [])"

declare SCHEMAS.simps [simp del]

section \<open>Migration\<close>

definition get_schema_version :: "db \<Rightarrow> nat" where
  "get_schema_version d =
     (if \<not> has_table ''schema_version'' d then 0
      else if versions d = [] then 0 else Max (set (versions d)))"

definition record_version :: "nat \<Rightarrow> db \<Rightarrow> db_error + db" where
  \<comment> \<open>INSERT OR REPLACE INTO schema_version\<close>
  "record_version v d =
     (if \<not> has_table ''schema_version'' d then Inl No_schema_version_table
      else Inr (d\<lparr>versions := filter (\<lambda>w. w \<noteq> v) (versions d) @ [v]\<rparr>))"

text \<open>One transaction of the loop: the statements of the next version and its record. An error
  leaves the database as it was at BEGIN, so the caller keeps \<open>d\<close>.\<close>

definition migrate_step :: "db \<Rightarrow> db_error + db" where
  "migrate_step d =
     (let version = get_schema_version d + 1 in
      case exec_all (SCHEMAS version) d of
        Inl e \<Rightarrow> Inl e
      | Inr d' \<Rightarrow> record_version version d')"

lemma exec_ddl_versions: "exec_ddl s d = Inr d' \<Longrightarrow> versions d' = versions d"
  by (cases "(s, d)" rule: exec_ddl.cases) (auto split: if_splits)

lemma exec_all_versions: "exec_all ss d = Inr d' \<Longrightarrow> versions d' = versions d"
  by (induction ss arbitrary: d) (auto split: sum.splits dest: exec_ddl_versions)

lemma exec_ddl_has_table: "exec_ddl s d = Inr d' \<Longrightarrow> has_table t d \<Longrightarrow> has_table t d'"
proof (cases "(s, d)" rule: exec_ddl.cases)
  case (3 t' col d0)
  have "map_of (map (\<lambda>(t'', cs). if t'' = t' then (t'', cs @ [col]) else (t'', cs)) ts) t \<noteq> None"
    if "map_of ts t \<noteq> None" for ts :: "(string \<times> column list) list"
    using that by (induction ts) (auto split: if_splits)
  moreover assume "exec_ddl s d = Inr d'" "has_table t d"
  ultimately show ?thesis using 3 by (auto simp: has_table_def split: if_splits)
qed (auto simp: has_table_def map_add_Some_iff split: if_splits option.splits)

lemma exec_all_has_table: "exec_all ss d = Inr d' \<Longrightarrow> has_table t d \<Longrightarrow> has_table t d'"
  by (induction ss arbitrary: d) (auto split: sum.splits dest: exec_ddl_has_table)

lemma Max_record_version:
  assumes "\<And>w. w \<in> set ws \<Longrightarrow> w < v"
  shows "Max (set (filter (\<lambda>w. w \<noteq> v) ws @ [v])) = v"
proof (rule Max_eqI)
  show "w \<le> v" if "w \<in> set (filter (\<lambda>w. w \<noteq> v) ws @ [v])" for w
    using that assms [of w] by auto
qed auto

lemma versions_without_table:
  assumes "\<not> has_table ''schema_version'' d" "versions d = []"
  shows "get_schema_version d = 0"
  using assms by (simp add: get_schema_version_def)

text \<open>Rows of \<open>schema_version\<close> exist only with the table.\<close>

definition versions_ok :: "db \<Rightarrow> bool" where
  "versions_ok d \<longleftrightarrow> (has_table ''schema_version'' d \<or> versions d = [])"

lemma migrate_step_version:
  assumes "migrate_step d = Inr d'" "versions_ok d"
  shows "get_schema_version d' = get_schema_version d + 1 \<and> versions_ok d'"
proof -
  let ?v = "get_schema_version d + 1"
  obtain d1 where d1: "exec_all (SCHEMAS ?v) d = Inr d1" "record_version ?v d1 = Inr d'"
    using assms(1) by (auto simp: migrate_step_def Let_def split: sum.splits)
  then have d': "has_table ''schema_version'' d1" "d' = d1\<lparr>versions := filter (\<lambda>w. w \<noteq> ?v) (versions d) @ [?v]\<rparr>"
    using exec_all_versions by (auto simp: record_version_def split: if_splits)
  have "w < ?v" if "w \<in> set (versions d)" for w
  proof -
    have "has_table ''schema_version'' d" using that assms(2) by (auto simp: versions_ok_def)
    then have "get_schema_version d = Max (set (versions d))"
      using that by (auto simp: get_schema_version_def)
    then show ?thesis using that by (simp add: less_Suc_eq_le)
  qed
  then have "Max (set (filter (\<lambda>w. w \<noteq> ?v) (versions d) @ [?v])) = ?v"
    by (rule Max_record_version)
  with d' show ?thesis
    by (simp add: get_schema_version_def versions_ok_def has_table_def)
qed

text \<open>The \<open>while True\<close> loop. Every successful round raises the version, so the distance to the
  target bounds the rounds; the guard on \<open>versions_ok\<close> holds in every database that the code
  creates and only serves the termination argument.\<close>

function migrate :: "db \<Rightarrow> db_error + db" where
  "migrate d =
     (let current = get_schema_version d in
      if current \<ge> CURRENT_SCHEMA_VERSION \<or> \<not> versions_ok d then Inr d
      else (case migrate_step d of Inl e \<Rightarrow> Inl e | Inr d' \<Rightarrow> migrate d'))"
  by pat_completeness auto
termination
  by (relation "measure (\<lambda>d. CURRENT_SCHEMA_VERSION - get_schema_version d)")
    (auto dest: migrate_step_version)

declare migrate.simps [simp del]

text \<open>The database after the first \<open>n\<close> migration transactions on a fresh file, as left by a
  process that stopped between two of them.\<close>

fun after_steps :: "nat \<Rightarrow> db_error + db" where
  "after_steps 0 = Inr empty_db"
| "after_steps (Suc n) = (case after_steps n of Inl e \<Rightarrow> Inl e | Inr d \<Rightarrow> migrate_step d)"

definition final_db :: db where
  "final_db = (case after_steps 8 of Inr d \<Rightarrow> d | Inl _ \<Rightarrow> empty_db)"

lemma after_steps_8: "after_steps 8 = Inr final_db"
  by code_simp

lemma versions_ok_empty: "versions_ok empty_db" "get_schema_version empty_db = 0"
  by code_simp+

lemma after_steps_ok:
  "after_steps n = Inr d \<Longrightarrow> versions_ok d \<and> get_schema_version d = n"
proof (induction n arbitrary: d)
  case 0
  then show ?case using versions_ok_empty by simp
next
  case (Suc n)
  then show ?case by (auto split: sum.splits dest: migrate_step_version)
qed

lemma after_steps_mono: "after_steps (n + k) = Inr e \<Longrightarrow> \<exists>d. after_steps n = Inr d"
  by (induction k arbitrary: e) (auto split: sum.splits)

lemma migrate_after_steps:
  assumes "n + k = 8" "after_steps n = Inr d"
  shows "migrate d = Inr final_db"
  using assms
proof (induction k arbitrary: n d)
  case 0
  then have "d = final_db" "get_schema_version d = 8"
    using after_steps_8 after_steps_ok by auto
  then show ?case by (simp add: migrate.simps CURRENT_SCHEMA_VERSION_def)
next
  case (Suc k)
  from Suc.prems(1) after_steps_8 obtain d' where d': "after_steps (Suc n) = Inr d'"
    using after_steps_mono [of "Suc n" k] by auto
  with Suc.prems(2) have step: "migrate_step d = Inr d'" by simp
  have "migrate d' = Inr final_db"
    using Suc.IH [of "Suc n" d'] Suc.prems(1) d' by simp
  with step Suc.prems after_steps_ok [of n d] show ?case
    by (subst migrate.simps) (simp add: CURRENT_SCHEMA_VERSION_def)
qed

text \<open>The columns that the statements of the data access layer name.\<close>

definition dao_columns :: "(string \<times> string list) list" where
  "dao_columns =
    [(''instances'', [''id'', ''name'', ''version'', ''kind'', ''runtime'', ''serving_mode'',
        ''resource_profile'', ''stack_json'', ''has_database'', ''database_type'', ''database_json'',
        ''desired_state'', ''status'', ''app_path'', ''source_zip_path'', ''created_at'', ''updated_at'',
        ''last_started_at'', ''last_health_check_at'', ''last_error'', ''last_operation_json'',
        ''observed_state'', ''observation_error'', ''last_trusted_state'', ''last_observed_at'',
        ''runtime_access'', ''revision'']),
     (''ports'', [''port'', ''instance_id'', ''status'', ''created_at'']),
     (''events'', [''id'', ''instance_id'', ''event_type'', ''message'', ''created_at'', ''source'']),
     (''builds'', [''id'', ''instance_id'', ''status'', ''started_at'', ''finished_at'', ''log_path'',
        ''error_summary'', ''image_ref'', ''image_id'', ''source_hash'', ''config_snapshot'']),
     (''agent_operations'', [''operation_id'', ''principal_id'', ''workspace_id'', ''action'',
        ''target_instance_id'', ''request_hash'', ''idempotency_key'', ''plan_id'', ''status'', ''phase'',
        ''created_at'', ''updated_at'', ''worker_identity'', ''lease_until'', ''build_token'',
        ''payload_json'', ''result_json'', ''error_json'']),
     (''agent_plans'', [''plan_id'', ''expires_at'', ''risks_json'', ''required_capabilities_json'']),
     (''workspace_meta'', [''key'', ''value''])]"

lemma final_db_columns:
  "list_all (\<lambda>(t, cs). list_all (\<lambda>c. has_column t c final_db) cs) dao_columns"
  by code_simp

section \<open>Properties\<close>

text \<open>C39: Opening the registry brings every database that an earlier, possibly interrupted, run
  can have left to one and the same final schema of version 8, opening that one again changes
  nothing, and it has every table and column that the data access layer names.\<close>

theorem migrate_converges:
  assumes "n \<le> 8" "after_steps n = Inr d"
  shows "migrate d = Inr final_db \<and> migrate final_db = Inr final_db
     \<and> get_schema_version final_db = CURRENT_SCHEMA_VERSION
     \<and> list_all (\<lambda>(t, cs). list_all (\<lambda>c. has_column t c final_db) cs) dao_columns"
proof -
  have "n + (8 - n) = 8" using assms(1) by simp
  then show ?thesis
    using migrate_after_steps assms(2) after_steps_8 after_steps_ok [OF after_steps_8] final_db_columns
    by (metis CURRENT_SCHEMA_VERSION_def add.right_neutral)
qed

theorem migrate_converges_witness: "\<exists>d. after_steps 3 = Inr d \<and> migrate d = Inr final_db"
proof -
  obtain d where d: "after_steps 3 = Inr d"
    using after_steps_mono [of 3 5] after_steps_8 by auto
  show ?thesis using d migrate_converges [OF _ d] by simp
qed

end
