(* ===== verification/Lwa_Interfaces.thy ===== *)
theory Lwa_Interfaces
  imports Lwa_Prelude
begin

text \<open>
  The interfaces between the components, as locales: what a client calls and what the provider
  promises. Each is interpreted on the model in the theory of the provider.
\<close>

section \<open>Status machines\<close>

text \<open>A table of allowed transitions and the set of final statuses, which allow none but
  staying.\<close>

locale status_machine =
  fixes allowed :: "'st \<Rightarrow> 'st \<Rightarrow> bool"
    and final :: "'st \<Rightarrow> bool"
  assumes final_stays: "final s \<Longrightarrow> allowed s t \<Longrightarrow> t = s"
begin

text \<open>A history in which each status is the one before or an allowed successor of it.\<close>

fun history :: "'st \<Rightarrow> 'st list \<Rightarrow> bool" where
  "history s [] = True"
| "history s (t # ts) = ((t = s \<or> allowed s t) \<and> history t ts)"

lemma history_append: "history s (ts @ us) \<longleftrightarrow> history s ts \<and> history (last (s # ts)) us"
  by (induction ts arbitrary: s) auto

lemma history_final: "history s ts \<Longrightarrow> final s \<Longrightarrow> t \<in> set ts \<Longrightarrow> t = s"
proof (induction ts arbitrary: s)
  case (Cons u us)
  then have "u = s" using final_stays by auto
  with Cons show ?case by auto
qed simp

lemma history_final_last: "history s ts \<Longrightarrow> final s \<Longrightarrow> last (s # ts) = s"
  using history_final by (cases ts rule: rev_cases) auto

end

section \<open>Compare and swap\<close>

text \<open>A store of cells, of which \<open>cas\<close> replaces one when its value is among the expected ones;
  \<open>legal\<close> are the pairs of expected values and target that the provider accepts.\<close>

locale cas_store =
  fixes cur :: "'s \<Rightarrow> 'id \<Rightarrow> 'v option"
    and cas :: "'id \<Rightarrow> 'v list \<Rightarrow> 'v \<Rightarrow> 's \<Rightarrow> bool \<times> 's"
    and legal :: "'v list \<Rightarrow> 'v \<Rightarrow> bool"
    and inv :: "'s \<Rightarrow> bool"
  assumes cas_result: "inv s \<Longrightarrow> legal E w \<Longrightarrow> fst (cas i E w s) \<longleftrightarrow> (\<exists>v \<in> set E. cur s i = Some v)"
    and cas_hit: "inv s \<Longrightarrow> legal E w \<Longrightarrow> fst (cas i E w s) \<Longrightarrow> cur (snd (cas i E w s)) i = Some w"
    and cas_miss: "inv s \<Longrightarrow> legal E w \<Longrightarrow> \<not> fst (cas i E w s) \<Longrightarrow> cur (snd (cas i E w s)) i = cur s i"
    and cas_other: "inv s \<Longrightarrow> legal E w \<Longrightarrow> j \<noteq> i \<Longrightarrow> cur (snd (cas i E w s)) j = cur s j"
    and cas_inv: "inv s \<Longrightarrow> legal E w \<Longrightarrow> inv (snd (cas i E w s))"
begin

text \<open>A race: attempts on one cell in the order in which the store serialises them.\<close>

fun race :: "'id \<Rightarrow> ('v list \<times> 'v) list \<Rightarrow> 's \<Rightarrow> bool list \<times> 's" where
  "race i [] s = ([], s)"
| "race i ((E, w) # as) s =
     (let (b, s') = cas i E w s; (bs, s'') = race i as s' in (b # bs, s''))"

lemma race_after_win:
  assumes "inv s" "cur s i = Some w"
    "\<And>E v. (E, v) \<in> set as \<Longrightarrow> legal E v \<and> w \<notin> set E"
  shows "\<not> list_ex (\<lambda>b. b) (fst (race i as s)) \<and> cur (snd (race i as s)) i = Some w"
  using assms
proof (induction as arbitrary: s)
  case (Cons a as)
  obtain E v where a: "a = (E, v)" by (cases a)
  then have E: "legal E v" "w \<notin> set E" using Cons.prems(3) [of E v] by simp_all
  obtain b s' where s': "cas i E v s = (b, s')" by (cases "cas i E v s")
  have nb: "\<not> fst (cas i E v s)"
    using cas_result [OF Cons.prems(1) E(1)] Cons.prems(2) E(2) by auto
  then have "cur s' i = Some w" "inv s'"
    using cas_miss [OF Cons.prems(1) E(1) nb] cas_inv [OF Cons.prems(1) E(1), of i] Cons.prems(2) s'
    by simp_all
  then have "\<not> list_ex (\<lambda>b. b) (fst (race i as s')) \<and> cur (snd (race i as s')) i = Some w"
    using Cons by auto
  with nb s' a show ?case by (cases "race i as s'") (simp add: Let_def)
qed simp

text \<open>When every target lies outside every expected set, at most one attempt of a race wins.\<close>

lemma race_one_winner:
  assumes "inv s" "\<And>E w. (E, w) \<in> set as \<Longrightarrow> legal E w"
    "\<And>E w E' w'. (E, w) \<in> set as \<Longrightarrow> (E', w') \<in> set as \<Longrightarrow> w \<notin> set E'"
  shows "length (filter (\<lambda>b. b) (fst (race i as s))) \<le> 1"
  using assms
proof (induction as arbitrary: s)
  case (Cons a as)
  obtain E w where a: "a = (E, w)" by (cases a)
  then have lg: "legal E w" using Cons.prems(2) by simp
  obtain b s' where s': "cas i E w s = (b, s')" by (cases "cas i E w s")
  have inv': "inv s'" using cas_inv [OF Cons.prems(1) lg, of i] s' by simp
  show ?case
  proof (cases b)
    case True
    with s' have "cur s' i = Some w" using cas_hit [OF Cons.prems(1) lg, of i] by simp
    then have "\<not> list_ex (\<lambda>b. b) (fst (race i as s'))"
      using race_after_win [OF inv', of i w as] Cons.prems(2,3) a by fastforce
    then have "filter (\<lambda>b. b) (fst (race i as s')) = []"
      by (auto simp: filter_empty_conv list_ex_iff)
    with True a s' show ?thesis by (cases "race i as s'") (simp add: Let_def)
  next
    case False
    have "length (filter (\<lambda>b. b) (fst (race i as s'))) \<le> 1"
    proof (rule Cons.IH [OF inv'])
      show "legal E w" if "(E, w) \<in> set as" for E w
        using Cons.prems(2) [of E w] that by simp
      show "w \<notin> set E'" if "(E, w) \<in> set as" "(E', w') \<in> set as" for E w E' w'
        using Cons.prems(3) [of E w E' w'] that by simp
    qed
    with False a s' show ?thesis
      by (cases "race i as s'") (simp add: Let_def)
  qed
qed simp

end

section \<open>Ownership of ports\<close>

locale port_store =
  fixes owner :: "'s \<Rightarrow> int \<Rightarrow> string option"
    and claim :: "string \<Rightarrow> int \<Rightarrow> 's \<Rightarrow> ('e + bool) \<times> 's"
    and inv :: "'s \<Rightarrow> bool"
    and known :: "'s \<Rightarrow> string \<Rightarrow> bool"
  assumes claim_known: "inv s \<Longrightarrow> known s i \<Longrightarrow> \<exists>b. fst (claim i p s) = Inr b"
    and claim_result: "inv s \<Longrightarrow> fst (claim i p s) = Inr b \<Longrightarrow>
       b \<longleftrightarrow> owner s p = None \<or> owner s p = Some i"
    and claim_owner: "inv s \<Longrightarrow> fst (claim i p s) = Inr True \<Longrightarrow> owner (snd (claim i p s)) p = Some i"
    and claim_frame: "inv s \<Longrightarrow> q \<noteq> p \<or> fst (claim i p s) \<noteq> Inr True \<Longrightarrow>
       owner (snd (claim i p s)) q = owner s q"
    and claim_inv: "inv s \<Longrightarrow> inv (snd (claim i p s))"
    and claim_known_frame: "inv s \<Longrightarrow> known (snd (claim i p s)) j = known s j"
begin

lemma claim_excludes:
  assumes "inv s" "fst (claim i p s) = Inr True" "j \<noteq> i" "fst (claim j p (snd (claim i p s))) = Inr b"
  shows "\<not> b"
  using claim_result [OF claim_inv [OF assms(1)] assms(4)] claim_owner [OF assms(1,2)] assms(3)
  by auto

end

section \<open>Snapshots\<close>

text \<open>A snapshot of some named files of a directory, restored into whatever the directory holds
  later.\<close>

locale snapshot_store =
  fixes tracked :: "string list"
    and save :: "(string \<rightharpoonup> 'c) \<Rightarrow> 'snap"
    and restore :: "'snap \<Rightarrow> (string \<rightharpoonup> 'c) \<Rightarrow> (string \<rightharpoonup> 'c)"
  assumes restore_tracked: "n \<in> set tracked \<Longrightarrow> restore (save d) e n = d n"
    and restore_untracked: "n \<notin> set tracked \<Longrightarrow> restore (save d) e n = e n"
begin

lemma restore_id: "restore (save d) d = d"
  by (rule ext) (metis restore_tracked restore_untracked)

lemma restore_last: "restore (save d) (restore (save d') e) = restore (save d) e"
  by (rule ext) (metis restore_tracked restore_untracked)

lemma restore_undoes:
  assumes "\<And>n. n \<notin> set tracked \<Longrightarrow> e n = d n"
  shows "restore (save d) e = d"
  by (rule ext) (metis assms restore_tracked restore_untracked)

end

end
