(* ===== verification/Agent_Contracts.thy ===== *)
theory Agent_Contracts
  imports Lwa_Interfaces
begin

text \<open>
  Models \<^verbatim>\<open>agent/contracts.py\<close>: the vocabulary that the agent API shares with the registry
  (operation statuses, phases, actions, error codes) and the rules attached to it (the
  transition table, the error table, the input checks).
\<close>

section \<open>Errors\<close>

datatype agent_error_code =
    E_unauthenticated | E_permission_denied | E_revision_conflict | E_idempotency_conflict
  | E_source_not_allowed | E_quota_exceeded | E_capability_unavailable | E_needs_input
  | E_manager_unavailable | E_busy | E_build_failed | E_healthcheck_failed | E_interrupted

record error_spec =
  http_status :: "int option"
  spec_retryable :: bool

fun ERROR_SPECS :: "agent_error_code \<Rightarrow> error_spec" where
  "ERROR_SPECS E_unauthenticated = \<lparr>http_status = Some 401, spec_retryable = False\<rparr>"
| "ERROR_SPECS E_permission_denied = \<lparr>http_status = Some 403, spec_retryable = False\<rparr>"
| "ERROR_SPECS E_revision_conflict = \<lparr>http_status = Some 409, spec_retryable = False\<rparr>"
| "ERROR_SPECS E_idempotency_conflict = \<lparr>http_status = Some 409, spec_retryable = False\<rparr>"
| "ERROR_SPECS E_source_not_allowed = \<lparr>http_status = Some 400, spec_retryable = False\<rparr>"
| "ERROR_SPECS E_quota_exceeded = \<lparr>http_status = Some 429, spec_retryable = True\<rparr>"
| "ERROR_SPECS E_capability_unavailable = \<lparr>http_status = Some 409, spec_retryable = False\<rparr>"
| "ERROR_SPECS E_needs_input = \<lparr>http_status = Some 422, spec_retryable = False\<rparr>"
| "ERROR_SPECS E_manager_unavailable = \<lparr>http_status = Some 503, spec_retryable = True\<rparr>"
| "ERROR_SPECS E_busy = \<lparr>http_status = Some 429, spec_retryable = True\<rparr>"
| "ERROR_SPECS E_build_failed = \<lparr>http_status = None, spec_retryable = False\<rparr>"
| "ERROR_SPECS E_healthcheck_failed = \<lparr>http_status = None, spec_retryable = False\<rparr>"
| "ERROR_SPECS E_interrupted = \<lparr>http_status = None, spec_retryable = False\<rparr>"

record agent_error =
  ae_code :: agent_error_code
  ae_retryable :: bool
  ae_operationId :: "string option"

section \<open>Operation statuses\<close>

datatype op_status =
    Queued | Running | Cancelling | Cancel_failed | Succeeded | Failed | Needs_input
  | Interrupted | Cancelled

fun OPERATION_TRANSITIONS :: "op_status \<Rightarrow> op_status list" where
  "OPERATION_TRANSITIONS Queued = [Running, Cancelled]"
| "OPERATION_TRANSITIONS Running = [Succeeded, Failed, Needs_input, Interrupted, Cancelling]"
| "OPERATION_TRANSITIONS Cancelling = [Cancelled, Cancel_failed]"
| "OPERATION_TRANSITIONS Needs_input = [Cancelled]"
| "OPERATION_TRANSITIONS Succeeded = []"
| "OPERATION_TRANSITIONS Failed = []"
| "OPERATION_TRANSITIONS Interrupted = []"
| "OPERATION_TRANSITIONS Cancelled = []"
| "OPERATION_TRANSITIONS Cancel_failed = []"

datatype op_phase = Phase_validate | Phase_import | Phase_build | Phase_start | Phase_healthcheck

datatype op_action = Deploy | Start | Stop | Restart | Rebuild

section \<open>Input checks\<close>

definition DEFAULT_PAGE_LIMIT :: int where "DEFAULT_PAGE_LIMIT = 50"
definition MAX_PAGE_LIMIT :: int where "MAX_PAGE_LIMIT = 200"

definition page_limit_ok :: "int \<Rightarrow> bool" where
  "page_limit_ok n \<longleftrightarrow> 1 \<le> n \<and> n \<le> MAX_PAGE_LIMIT"

datatype intent = Create | Update

record plan_input =
  pi_intent :: intent
  pi_targetInstanceId :: "string option"
  pi_expectedRevision :: "int option"
  pi_displayName :: "string option"

datatype contract_error =
    Revision_below_one | Update_needs_target | Update_no_display_name | Create_binds_target
  | Exactly_one_of_instance_operation

definition check_intent_target :: "plan_input \<Rightarrow> contract_error + plan_input" where
  "check_intent_target p =
     (if (case pi_expectedRevision p of None \<Rightarrow> False | Some n \<Rightarrow> n < 1) then Inl Revision_below_one
      else if pi_intent p = Update then
        (if \<not> truthy (pi_targetInstanceId p) \<or> pi_expectedRevision p = None
         then Inl Update_needs_target
         else if pi_displayName p \<noteq> None then Inl Update_no_display_name
         else Inr p)
      else if pi_targetInstanceId p \<noteq> None \<or> pi_expectedRevision p \<noteq> None
         then Inl Create_binds_target
      else Inr p)"

definition check_exactly_one :: "string option \<Rightarrow> string option \<Rightarrow> contract_error + unit" where
  "check_exactly_one instanceId operationId =
     (if truthy instanceId = truthy operationId then Inl Exactly_one_of_instance_operation
      else Inr ())"

end
