(* ===== verification/Registry_State.thy ===== *)
theory Registry_State
  imports Models_Manifest Agent_Contracts
begin

text \<open>
  The state behind \<^verbatim>\<open>registry/dao.py\<close>: one list of rows per table, in rowid order, with the
  columns that the migrations create, and the two AUTOINCREMENT counters. A DAO method is a
  function to \<open>reg_error + result \<times> reg\<close>; it runs in one write transaction, so an error leaves
  the state unchanged. Columns that hold JSON keep the JSON value; timestamps are the strings
  the code stores, passed in by the caller of \<open>now_iso\<close>.
\<close>

section \<open>Rows\<close>

record inst_row =
  i_id :: string
  i_name :: string
  i_version :: string
  i_kind :: string
  i_runtime :: string
  i_serving_mode :: string
  i_resource_profile :: string
  i_stack :: "string list"
  i_has_database :: bool
  i_database_type :: "string option"
  i_database :: "database_config option"
  i_desired_state :: string
  i_status :: string
  i_app_path :: "string option"
  i_source_zip_path :: "string option"
  i_created_at :: string
  i_updated_at :: string
  i_last_started_at :: "string option"
  i_last_health_check_at :: "string option"
  i_last_error :: "string option"
  i_last_operation :: "json option"
  i_observed_state :: "string option"
  i_observation_error :: "string option"
  i_last_trusted_state :: "string option"
  i_last_observed_at :: "string option"
  i_runtime_access :: "string option"
  i_revision :: int

record container_row =
  k_instance_id :: string
  k_compose_project :: string
  k_service_name :: string
  k_image :: "string option"
  k_image_id :: "string option"
  k_container_id :: "string option"
  k_internal_port :: "int option"
  k_host_port :: "int option"
  k_route_mode :: string
  k_route_host :: "string option"
  k_compose_path :: "string option"
  k_dockerfile_path :: "string option"
  k_memory_limit :: "string option"
  k_cpu_limit :: "string option"

record static_row =
  t_instance_id :: string
  t_root_path :: string
  t_gateway :: string
  t_route_mode :: string
  t_host_port :: "int option"
  t_route_host :: "string option"
  t_gateway_config_path :: "string option"
  t_enabled :: bool

record port_row =
  p_port :: int
  p_instance_id :: string
  p_status :: string
  p_created_at :: string

record event_row =
  e_id :: int
  e_instance_id :: "string option"
  e_event_type :: string
  e_message :: string
  e_created_at :: string
  e_source :: "string option"

record build_row =
  b_id :: int
  b_instance_id :: string
  b_status :: string
  b_started_at :: "string option"
  b_finished_at :: "string option"
  b_log_path :: "string option"
  b_error_summary :: "string option"
  b_image_ref :: "string option"
  b_image_id :: "string option"
  b_source_hash :: "string option"
  b_config_snapshot :: "string option"

record resource_row =
  r_instance_id :: string
  r_source_size_bytes :: "int option"
  r_public_size_bytes :: "int option"
  r_data_size_bytes :: "int option"
  r_image_size_bytes :: "int option"
  r_last_memory_bytes :: "int option"
  r_last_cpu_percent :: "int option"
  r_updated_at :: string

record plan_row =
  pl_plan_id :: string
  pl_principal_id :: string
  pl_workspace_id :: string
  pl_intent :: intent
  pl_source :: json
  pl_source_digest :: string
  pl_target_instance_id :: "string option"
  pl_expected_revision :: "int option"
  pl_display_name :: "string option"
  pl_policy_version :: string
  pl_request_hash :: string
  pl_created_at :: string
  pl_expires_at :: string
  pl_required_capabilities :: "string list"

record op_row =
  o_operation_id :: string
  o_principal_id :: string
  o_workspace_id :: string
  o_action :: op_action
  o_target_instance_id :: "string option"
  o_request_hash :: string
  o_idempotency_key :: string
  o_plan_id :: "string option"
  o_status :: op_status
  o_phase :: "op_phase option"
  o_created_at :: string
  o_updated_at :: string
  o_worker_identity :: "string option"
  o_lease_until :: "string option"
  o_build_token :: "string option"
  o_payload :: "json option"
  o_result :: "json option"
  o_error :: "agent_error option"

record reg =
  instances :: "inst_row list"
  containers :: "container_row list"
  static_sites :: "static_row list"
  ports :: "port_row list"
  events :: "event_row list"
  builds :: "build_row list"
  resources :: "resource_row list"
  workspace_meta :: "(string \<times> string) list"
  agent_plans :: "plan_row list"
  agent_operations :: "op_row list"
  next_event_id :: int
  next_build_id :: int

definition empty_reg :: reg where
  "empty_reg = \<lparr>instances = [], containers = [], static_sites = [], ports = [], events = [],
     builds = [], resources = [], workspace_meta = [], agent_plans = [], agent_operations = [],
     next_event_id = 1, next_build_id = 1\<rparr>"

datatype reg_error =
    Integrity_error
  | Not_found string
  | Revision_conflict int int
  | Idempotency_conflict string
  | Agent_op_field

section \<open>Constraints of the schema\<close>

definition known_instance :: "reg \<Rightarrow> string \<Rightarrow> bool" where
  "known_instance r i \<longleftrightarrow> find_by i_id i (instances r) \<noteq> None"

definition op_key :: "op_row \<Rightarrow> string \<times> string \<times> string" where
  "op_key o' = (o_principal_id o', o_workspace_id o', o_idempotency_key o')"

text \<open>Primary keys, the UNIQUE constraint of the operations, the foreign keys to \<open>instances\<close> and
  the AUTOINCREMENT counters lying above every id.\<close>

definition reg_ok :: "reg \<Rightarrow> bool" where
  "reg_ok r \<longleftrightarrow>
     pk_ok i_id (instances r) \<and> pk_ok k_instance_id (containers r)
     \<and> pk_ok t_instance_id (static_sites r) \<and> pk_ok p_port (ports r)
     \<and> pk_ok e_id (events r) \<and> pk_ok b_id (builds r) \<and> pk_ok r_instance_id (resources r)
     \<and> pk_ok fst (workspace_meta r) \<and> pk_ok pl_plan_id (agent_plans r)
     \<and> pk_ok o_operation_id (agent_operations r) \<and> pk_ok op_key (agent_operations r)
     \<and> (\<forall>x \<in> set (containers r). known_instance r (k_instance_id x))
     \<and> (\<forall>x \<in> set (static_sites r). known_instance r (t_instance_id x))
     \<and> (\<forall>x \<in> set (ports r). known_instance r (p_instance_id x))
     \<and> (\<forall>x \<in> set (events r). \<forall>i. e_instance_id x = Some i \<longrightarrow> known_instance r i)
     \<and> (\<forall>x \<in> set (builds r). known_instance r (b_instance_id x))
     \<and> (\<forall>x \<in> set (resources r). known_instance r (r_instance_id x))
     \<and> (\<forall>x \<in> set (events r). e_id x < next_event_id r)
     \<and> (\<forall>x \<in> set (builds r). b_id x < next_build_id r)"

lemma reg_ok_empty: "reg_ok empty_reg"
  by (simp add: reg_ok_def empty_reg_def)

section \<open>Texts of the enumerations\<close>

fun kind_value :: "kind \<Rightarrow> string" where
  "kind_value KIND_STATIC = ''static''"
| "kind_value KIND_NODE = ''node''"
| "kind_value KIND_PYTHON = ''python''"

fun runtime_value :: "runtime \<Rightarrow> string" where
  "runtime_value SHARED_STATIC = ''shared-static''"
| "runtime_value DOCKER_COMPOSE = ''docker-compose''"

fun serving_value :: "serving_mode \<Rightarrow> string" where
  "serving_value SERVE_SHARED_STATIC = ''shared-static''"
| "serving_value SERVE_CONTAINER = ''container''"

fun profile_value :: "resource_profile \<Rightarrow> string" where
  "profile_value TINY = ''tiny''"
| "profile_value SMALL = ''small''"
| "profile_value MEDIUM = ''medium''"
| "profile_value HEAVY = ''heavy''"

fun desired_value :: "desired_state \<Rightarrow> string" where
  "desired_value DESIRED_RUNNING = ''running''"
| "desired_value DESIRED_STOPPED = ''stopped''"

fun status_value :: "status \<Rightarrow> string" where
  "status_value PENDING = ''pending''"
| "status_value BUILDING = ''building''"
| "status_value RUNNING = ''running''"
| "status_value STOPPED = ''stopped''"
| "status_value FAILED = ''failed''"
| "status_value QUEUED = ''queued''"
| "status_value CANCELLING = ''cancelling''"
| "status_value CANCELLED = ''cancelled''"
| "status_value GATEWAY_DOWN = ''gateway_down''"
| "status_value CONFIG_INVALID = ''config_invalid''"
| "status_value VERIFYING = ''verifying''"
| "status_value DEGRADED = ''degraded''"

fun route_value :: "route_mode \<Rightarrow> string" where
  "route_value ROUTE_PORT = ''port''"
| "route_value ROUTE_NAME = ''name''"

end
