(* ===== verification/Registry_Instances.thy ===== *)
theory Registry_Instances
  imports Registry_State
begin

text \<open>
  Models the instance, container and static-site methods of \<^verbatim>\<open>registry/dao.py\<close>: upsert from a
  manifest, revision compare-and-swap, the single-column updates, deletion with its child rows,
  orphan rows and the route-host map.
\<close>

type_synonym 'a dao = "reg \<Rightarrow> reg_error + 'a \<times> reg"

section \<open>Upserts\<close>

definition container_row :: "string \<Rightarrow> container_config \<Rightarrow> container_row" where
  "container_row i c = \<lparr>k_instance_id = i, k_compose_project = c_projectName c,
     k_service_name = c_serviceName c, k_image = c_image c, k_image_id = c_imageId c,
     k_container_id = c_containerId c, k_internal_port = Some (c_internalPort c),
     k_host_port = c_hostPort c, k_route_mode = route_value (c_routeMode c),
     k_route_host = c_routeHost c, k_compose_path = Some (c_composePath c),
     k_dockerfile_path = Some (c_dockerfilePath c), k_memory_limit = Some (c_memory c),
     k_cpu_limit = Some (c_cpus c)\<rparr>"

definition static_row :: "string \<Rightarrow> static_config \<Rightarrow> static_row" where
  "static_row i s = \<lparr>t_instance_id = i, t_root_path = s_root s, t_gateway = s_gateway s,
     t_route_mode = route_value (s_routeMode s), t_host_port = s_hostPort s,
     t_route_host = s_routeHost s, t_gateway_config_path = s_gatewayConfigPath s,
     t_enabled = s_enabled s\<rparr>"

text \<open>The row built from a manifest; the observation columns and the revision are not among its
  columns and take the schema's defaults on INSERT.\<close>

definition instance_row :: "manifest \<Rightarrow> string option \<Rightarrow> string option \<Rightarrow> inst_row" where
  "instance_row m app_path source_zip_path = \<lparr>i_id = m_id m, i_name = m_name m,
     i_version = m_version m, i_kind = kind_value (m_kind m),
     i_runtime = runtime_value (m_runtime m), i_serving_mode = serving_value (m_servingMode m),
     i_resource_profile = profile_value (m_resourceProfile m), i_stack = m_stack m,
     i_has_database = m_hasDatabase m, i_database_type = map_option d_type (m_database m),
     i_database = m_database m, i_desired_state = desired_value (m_desiredState m),
     i_status = status_value (m_status m), i_app_path = or_else app_path (m_appPath m),
     i_source_zip_path = or_else source_zip_path (m_sourceZipPath m),
     i_created_at = m_createdAt m, i_updated_at = m_updatedAt m,
     i_last_started_at = m_lastStartedAt m, i_last_health_check_at = m_lastHealthCheckAt m,
     i_last_error = m_lastError m,
     i_last_operation = (case m_lastOperation m of Some (JObj []) \<Rightarrow> None | v \<Rightarrow> v),
     i_observed_state = None, i_observation_error = None, i_last_trusted_state = None,
     i_last_observed_at = None, i_runtime_access = None, i_revision = 1\<rparr>"

definition merge_instance :: "inst_row \<Rightarrow> inst_row \<Rightarrow> inst_row" where
  \<comment> \<open>the columns of the statement come from \<open>excluded\<close>, the others stay\<close>
  "merge_instance old new = new\<lparr>i_observed_state := i_observed_state old,
     i_observation_error := i_observation_error old,
     i_last_trusted_state := i_last_trusted_state old, i_last_observed_at := i_last_observed_at old,
     i_runtime_access := i_runtime_access old, i_revision := i_revision old\<rparr>"

definition del_container_rows :: "string \<Rightarrow> reg \<Rightarrow> reg" where
  "del_container_rows i r = r\<lparr>containers := del_where (\<lambda>x. k_instance_id x = i) (containers r)\<rparr>"

definition del_static_rows :: "string \<Rightarrow> reg \<Rightarrow> reg" where
  "del_static_rows i r = r\<lparr>static_sites := del_where (\<lambda>x. t_instance_id x = i) (static_sites r)\<rparr>"

definition put_container :: "container_row \<Rightarrow> reg \<Rightarrow> reg" where
  "put_container k r = r\<lparr>containers := upsert_row k_instance_id (\<lambda>_ new. new) k (containers r)\<rparr>"

definition put_static :: "static_row \<Rightarrow> reg \<Rightarrow> reg" where
  "put_static s r = r\<lparr>static_sites := upsert_row t_instance_id (\<lambda>_ new. new) s (static_sites r)\<rparr>"

definition upsert_from_manifest ::
  "manifest \<Rightarrow> string option \<Rightarrow> string option \<Rightarrow> unit dao" where
  "upsert_from_manifest m app_path source_zip_path r =
     (let i = m_id m;
          r1 = r\<lparr>instances := upsert_row i_id merge_instance
                  (instance_row m app_path source_zip_path) (instances r)\<rparr> in
      Inr ((), (case m_container m of
          Some c \<Rightarrow> del_static_rows i (put_container (container_row i c) r1)
        | None \<Rightarrow> (case m_static m of
              Some s \<Rightarrow> del_container_rows i (put_static (static_row i s) r1)
            | None \<Rightarrow> r1))))"

definition upsert_container :: "string \<Rightarrow> container_config \<Rightarrow> unit dao" where
  "upsert_container i c r =
     (if \<not> known_instance r i then Inl Integrity_error
      else Inr ((), put_container (container_row i c) r))"

definition upsert_static_site :: "string \<Rightarrow> static_config \<Rightarrow> unit dao" where
  "upsert_static_site i s r =
     (if \<not> known_instance r i then Inl Integrity_error
      else Inr ((), put_static (static_row i s) r))"

section \<open>Queries\<close>

definition get_instance :: "string \<Rightarrow> reg \<Rightarrow> inst_row option" where
  "get_instance i r = find_by i_id i (instances r)"

definition list_instances :: "reg \<Rightarrow> inst_row list" where
  "list_instances r = sort_key i_created_at (instances r)"

definition instance_exists :: "string \<Rightarrow> reg \<Rightarrow> bool" where
  "instance_exists i r = (find_by i_id i (instances r) \<noteq> None)"

definition get_revision :: "string \<Rightarrow> reg \<Rightarrow> int option" where
  "get_revision i r = map_option i_revision (get_instance i r)"

definition get_container :: "string \<Rightarrow> reg \<Rightarrow> container_row option" where
  "get_container i r = find_by k_instance_id i (containers r)"

definition get_static_site :: "string \<Rightarrow> reg \<Rightarrow> static_row option" where
  "get_static_site i r = find_by t_instance_id i (static_sites r)"

section \<open>Revision compare-and-swap\<close>

definition cas_increment_revision :: "string \<Rightarrow> int \<Rightarrow> string \<Rightarrow> int dao" where
  "cas_increment_revision i expected now r =
     (let hit = (\<lambda>x. i_id x = i \<and> i_revision x = expected);
          r' = r\<lparr>instances := upd_where hit
                 (\<lambda>x. x\<lparr>i_revision := i_revision x + 1, i_updated_at := now\<rparr>) (instances r)\<rparr> in
      if rowcount hit (instances r) = 1
      then (case find_by i_id i (instances r') of
              Some x \<Rightarrow> Inr (i_revision x, r')
            | None \<Rightarrow> Inl Integrity_error)
      else (case find_by i_id i (instances r) of
              None \<Rightarrow> Inl (Not_found i)
            | Some x \<Rightarrow> Inl (Revision_conflict expected (i_revision x))))"

section \<open>Updates\<close>

datatype 'a arg = Omitted | Given 'a

record status_update =
  su_last_error :: "string option"
  su_desired_state :: "string option"
  su_observed_state :: "string option"
  su_observation_error :: "string option arg"
  su_last_trusted_state :: "string option"
  su_last_observed_at :: "string option"
  su_runtime_access :: "string option"
  su_clear_observation_error :: bool
  su_clear_last_error :: bool

definition no_update :: status_update where
  "no_update = \<lparr>su_last_error = None, su_desired_state = None, su_observed_state = None,
     su_observation_error = Omitted, su_last_trusted_state = None, su_last_observed_at = None,
     su_runtime_access = None, su_clear_observation_error = False, su_clear_last_error = False\<rparr>"

definition upd_instance :: "string \<Rightarrow> (inst_row \<Rightarrow> inst_row) \<Rightarrow> reg \<Rightarrow> reg" where
  "upd_instance i f r = r\<lparr>instances := upd_where (\<lambda>x. i_id x = i) f (instances r)\<rparr>"

definition update_status :: "string \<Rightarrow> string \<Rightarrow> status_update \<Rightarrow> string \<Rightarrow> unit dao" where
  "update_status i status u now r = Inr ((), upd_instance i (\<lambda>x. x\<lparr>
     i_status := status, i_updated_at := now,
     i_last_error := (case su_last_error u of
         Some e \<Rightarrow> Some e | None \<Rightarrow> if su_clear_last_error u then None else i_last_error x),
     i_desired_state := (case su_desired_state u of Some d \<Rightarrow> d | None \<Rightarrow> i_desired_state x),
     i_observed_state := coalesce (su_observed_state u) (i_observed_state x),
     i_observation_error := (case su_observation_error u of
         Given e \<Rightarrow> e
       | Omitted \<Rightarrow> if su_clear_observation_error u then None else i_observation_error x),
     i_last_trusted_state := coalesce (su_last_trusted_state u) (i_last_trusted_state x),
     i_last_observed_at := coalesce (su_last_observed_at u) (i_last_observed_at x),
     i_runtime_access := coalesce (su_runtime_access u) (i_runtime_access x)\<rparr>) r)"

definition touch_instance :: "string \<Rightarrow> string \<Rightarrow> unit dao" where
  "touch_instance i now r = Inr ((), upd_instance i (\<lambda>x. x\<lparr>i_updated_at := now\<rparr>) r)"

definition update_last_operation :: "string \<Rightarrow> json option \<Rightarrow> string \<Rightarrow> unit dao" where
  "update_last_operation i operation now r = Inr ((), upd_instance i
     (\<lambda>x. x\<lparr>i_last_operation := (case operation of Some (JObj []) \<Rightarrow> None | v \<Rightarrow> v),
            i_updated_at := now\<rparr>) r)"

definition update_last_error :: "string \<Rightarrow> string option \<Rightarrow> string \<Rightarrow> unit dao" where
  "update_last_error i error now r =
     Inr ((), upd_instance i (\<lambda>x. x\<lparr>i_last_error := error, i_updated_at := now\<rparr>) r)"

definition update_name :: "string \<Rightarrow> string \<Rightarrow> string \<Rightarrow> unit dao" where
  "update_name i name now r =
     Inr ((), upd_instance i (\<lambda>x. x\<lparr>i_name := name, i_updated_at := now\<rparr>) r)"

definition record_started :: "string \<Rightarrow> string \<Rightarrow> string \<Rightarrow> unit dao" where
  "record_started i now1 now2 r =
     Inr ((), upd_instance i (\<lambda>x. x\<lparr>i_last_started_at := Some now1, i_updated_at := now2\<rparr>) r)"

definition record_health_check :: "string \<Rightarrow> string \<Rightarrow> string \<Rightarrow> unit dao" where
  "record_health_check i now1 now2 r =
     Inr ((), upd_instance i (\<lambda>x. x\<lparr>i_last_health_check_at := Some now1, i_updated_at := now2\<rparr>) r)"

definition set_last_error :: "string \<Rightarrow> string option \<Rightarrow> unit dao" where
  "set_last_error i error r = Inr ((), upd_instance i (\<lambda>x. x\<lparr>i_last_error := error\<rparr>) r)"

definition set_static_enabled :: "string \<Rightarrow> bool \<Rightarrow> unit dao" where
  "set_static_enabled i enabled r = Inr ((), r\<lparr>static_sites :=
     upd_where (\<lambda>x. t_instance_id x = i) (\<lambda>x. x\<lparr>t_enabled := enabled\<rparr>) (static_sites r)\<rparr>)"

definition delete_container :: "string \<Rightarrow> unit dao" where
  "delete_container i r = Inr ((), del_container_rows i r)"

definition delete_static_site :: "string \<Rightarrow> unit dao" where
  "delete_static_site i r = Inr ((), del_static_rows i r)"

section \<open>Deletion and orphans\<close>

definition del_child_rows :: "(string \<Rightarrow> bool) \<Rightarrow> reg \<Rightarrow> reg" where
  \<comment> \<open>the loop over \<open>_CHILD_TABLES\<close>; a NULL \<open>instance_id\<close> satisfies no condition\<close>
  "del_child_rows P r = r\<lparr>
     containers := del_where (\<lambda>x. P (k_instance_id x)) (containers r),
     static_sites := del_where (\<lambda>x. P (t_instance_id x)) (static_sites r),
     ports := del_where (\<lambda>x. P (p_instance_id x)) (ports r),
     events := del_where (\<lambda>x. case e_instance_id x of None \<Rightarrow> False | Some i \<Rightarrow> P i) (events r),
     builds := del_where (\<lambda>x. P (b_instance_id x)) (builds r),
     resources := del_where (\<lambda>x. P (r_instance_id x)) (resources r)\<rparr>"

definition delete_instance :: "string \<Rightarrow> unit dao" where
  "delete_instance i r =
     (let r1 = del_child_rows (\<lambda>j. j = i) r in
      Inr ((), r1\<lparr>instances := del_where (\<lambda>x. i_id x = i) (instances r1)\<rparr>))"

definition child_ids :: "reg \<Rightarrow> (string \<times> string) list" where
  "child_ids r =
     map (\<lambda>x. (''containers'', k_instance_id x)) (containers r)
     @ map (\<lambda>x. (''static_sites'', t_instance_id x)) (static_sites r)
     @ map (\<lambda>x. (''ports'', p_instance_id x)) (ports r)
     @ List.map_filter (\<lambda>x. map_option (Pair ''events'') (e_instance_id x)) (events r)
     @ map (\<lambda>x. (''builds'', b_instance_id x)) (builds r)
     @ map (\<lambda>x. (''resources'', r_instance_id x)) (resources r)"

definition find_orphan_rows :: "reg \<Rightarrow> (string \<times> string) list" where
  "find_orphan_rows r = filter (\<lambda>(t, i). \<not> known_instance r i) (child_ids r)"

definition purge_orphan_rows :: "nat dao" where
  "purge_orphan_rows r =
     Inr (length (find_orphan_rows r), del_child_rows (\<lambda>i. \<not> known_instance r i) r)"

definition route_pairs :: "reg \<Rightarrow> (string \<times> string) list" where
  "route_pairs r =
     List.map_filter (\<lambda>x. if t_route_mode x = ''name'' \<and> known_instance r (t_instance_id x)
       then map_option (\<lambda>h. (h, t_instance_id x)) (t_route_host x) else None) (static_sites r)
     @ List.map_filter (\<lambda>x. if k_route_mode x = ''name'' \<and> known_instance r (k_instance_id x)
       then map_option (\<lambda>h. (h, k_instance_id x)) (k_route_host x) else None) (containers r)"

definition list_route_hosts :: "string option \<Rightarrow> reg \<Rightarrow> (string \<rightharpoonup> string)" where
  \<comment> \<open>later assignments of the loop overwrite earlier ones\<close>
  "list_route_hosts exclude r =
     map_of (rev (filter (\<lambda>(h, i). exclude \<noteq> Some i) (route_pairs r)))"

section \<open>Facts\<close>

lemmas dao_instance_defs = upd_instance_def update_status_def touch_instance_def
  update_last_operation_def update_last_error_def update_name_def record_started_def
  record_health_check_def set_last_error_def

lemma known_instance_cong: "instances r' = instances r \<Longrightarrow> known_instance r' = known_instance r"
  by (simp add: known_instance_def fun_eq_iff)

lemma known_upd_instance:
  assumes "\<And>x. i_id (f x) = i_id x"
  shows "known_instance (upd_instance i f r) j = known_instance r j"
  unfolding known_instance_def upd_instance_def
  by (simp add: find_by_upd_where assms)

lemma get_upd_instance:
  assumes "\<And>x. i_id (f x) = i_id x"
  shows "get_instance j (upd_instance i f r) =
     (if j = i then map_option f (get_instance i r) else get_instance j r)"
proof (cases "get_instance j r")
  case (Some x)
  then have "i_id x = j" by (auto simp: get_instance_def dest: find_by_key)
  with Some show ?thesis
    by (auto simp: get_instance_def upd_instance_def find_by_upd_where assms)
qed (auto simp: get_instance_def upd_instance_def find_by_upd_where assms)

lemma reg_ok_upd_instance:
  assumes "reg_ok r" "\<And>x. i_id (f x) = i_id x"
  shows "reg_ok (upd_instance i f r)"
proof -
  have k: "known_instance (upd_instance i f r) j = known_instance r j" for j
    by (rule known_upd_instance) (rule assms(2))
  have "pk_ok i_id (upd_where (\<lambda>x. i_id x = i) f (instances r)) = pk_ok i_id (instances r)"
    by (rule pk_ok_upd_where) (simp add: assms(2))
  with assms(1) k show ?thesis by (simp add: reg_ok_def upd_instance_def)
qed

end
