(* ===== verification/Registry_Tables.thy ===== *)
theory Registry_Tables
  imports Registry_Instances
begin

text \<open>
  Models the port, event, build and resource methods of \<^verbatim>\<open>registry/dao.py\<close>, and interprets the
  port interface and the compare-and-swap interface on the registry.
\<close>

section \<open>Ports\<close>

text \<open>\<open>INSERT OR IGNORE\<close> ignores a taken primary key, not a missing parent row: claiming a free
  port for an instance that is not registered violates the foreign key and raises.\<close>

definition allocate_port :: "string \<Rightarrow> int \<Rightarrow> string \<Rightarrow> bool dao" where
  "allocate_port i port now r =
     (case find_by p_port port (ports r) of
        Some row \<Rightarrow> Inr (p_instance_id row = i, r)
      | None \<Rightarrow>
          if \<not> known_instance r i then Inl Integrity_error
          else Inr (True, r\<lparr>ports := ports r @
                 [\<lparr>p_port = port, p_instance_id = i, p_status = ''allocated'', p_created_at = now\<rparr>]\<rparr>))"

definition release_port :: "int \<Rightarrow> unit dao" where
  "release_port port r = Inr ((), r\<lparr>ports := del_where (\<lambda>x. p_port x = port) (ports r)\<rparr>)"

definition release_instance_ports :: "string \<Rightarrow> unit dao" where
  "release_instance_ports i r =
     Inr ((), r\<lparr>ports := del_where (\<lambda>x. p_instance_id x = i) (ports r)\<rparr>)"

definition instance_ports :: "string \<Rightarrow> reg \<Rightarrow> int list" where
  "instance_ports i r = sort (map p_port (filter (\<lambda>x. p_instance_id x = i) (ports r)))"

definition allocated_ports :: "reg \<Rightarrow> int list" where
  "allocated_ports r = sort (map p_port (ports r))"

definition port_owner :: "reg \<Rightarrow> int \<Rightarrow> string option" where
  "port_owner r port = map_option p_instance_id (find_by p_port port (ports r))"

section \<open>Events\<close>

definition add_event ::
  "string option \<Rightarrow> string \<Rightarrow> string \<Rightarrow> string option \<Rightarrow> string \<Rightarrow> int dao" where
  "add_event i event_type message source now r =
     (if (case i of None \<Rightarrow> False | Some j \<Rightarrow> \<not> known_instance r j) then Inl Integrity_error
      else (let n = next_event_id r in
        Inr (n, r\<lparr>events := events r @ [\<lparr>e_id = n, e_instance_id = i, e_event_type = event_type,
                    e_message = message, e_created_at = now, e_source = source\<rparr>],
                  next_event_id := n + 1\<rparr>)))"

definition list_events :: "string option \<Rightarrow> nat \<Rightarrow> reg \<Rightarrow> event_row list" where
  "list_events i limit r =
     take limit (rev (sort_key e_id
       (case i of None \<Rightarrow> events r | Some j \<Rightarrow> filter (\<lambda>x. e_instance_id x = Some j) (events r))))"

section \<open>Builds\<close>

text \<open>The summary written into a superseded build is a fixed Chinese sentence in the code.\<close>

definition supersede :: "string \<Rightarrow> int \<Rightarrow> string \<Rightarrow> build_row list \<Rightarrow> build_row list" where
  "supersede i new_id now bs = upd_where
     (\<lambda>x. b_instance_id x = i \<and> b_status x = ''running'' \<and> b_id x \<noteq> new_id)
     (\<lambda>x. x\<lparr>b_status := ''failed'', b_finished_at := Some now,
            b_error_summary := Some ''superseded by a later build''\<rparr>) bs"

definition add_build ::
  "string \<Rightarrow> string \<Rightarrow> string option \<Rightarrow> string option \<Rightarrow> string \<Rightarrow> string \<Rightarrow> int dao" where
  "add_build i status started_at log_path now1 now2 r =
     (if \<not> known_instance r i then Inl Integrity_error
      else (let n = next_build_id r;
                bs = builds r @ [\<lparr>b_id = n, b_instance_id = i, b_status = status,
                       b_started_at = (if truthy started_at then started_at else Some now1),
                       b_finished_at = None, b_log_path = log_path, b_error_summary = None,
                       b_image_ref = None, b_image_id = None, b_source_hash = None,
                       b_config_snapshot = None\<rparr>] in
        Inr (n, r\<lparr>builds := (if status = ''running'' then supersede i n now2 bs else bs),
                  next_build_id := n + 1\<rparr>)))"

definition upd_build :: "int \<Rightarrow> (build_row \<Rightarrow> build_row) \<Rightarrow> reg \<Rightarrow> reg" where
  "upd_build b f r = r\<lparr>builds := upd_where (\<lambda>x. b_id x = b) f (builds r)\<rparr>"

definition finish_build :: "int \<Rightarrow> string \<Rightarrow> string option \<Rightarrow> string \<Rightarrow> unit dao" where
  "finish_build b status error_summary now r = Inr ((), upd_build b
     (\<lambda>x. x\<lparr>b_status := status, b_finished_at := Some now, b_error_summary := error_summary\<rparr>) r)"

definition record_build_artifacts ::
  "int \<Rightarrow> string option \<Rightarrow> string option \<Rightarrow> string option \<Rightarrow> string option \<Rightarrow> unit dao" where
  "record_build_artifacts b image_ref image_id source_hash config_snapshot r = Inr ((), upd_build b
     (\<lambda>x. x\<lparr>b_image_ref := image_ref, b_image_id := image_id, b_source_hash := source_hash,
            b_config_snapshot := config_snapshot\<rparr>) r)"

definition clear_build_artifacts :: "int \<Rightarrow> unit dao" where
  "clear_build_artifacts b r = Inr ((), upd_build b
     (\<lambda>x. x\<lparr>b_image_ref := None, b_image_id := None, b_config_snapshot := None\<rparr>) r)"

definition list_builds :: "string option \<Rightarrow> nat \<Rightarrow> reg \<Rightarrow> build_row list" where
  "list_builds i limit r =
     take limit (rev (sort_key b_id
       (case i of None \<Rightarrow> builds r | Some j \<Rightarrow> filter (\<lambda>x. b_instance_id x = j) (builds r))))"

section \<open>Resources\<close>

definition merge_resource :: "resource_row \<Rightarrow> resource_row \<Rightarrow> resource_row" where
  "merge_resource old new = new\<lparr>
     r_source_size_bytes := coalesce (r_source_size_bytes new) (r_source_size_bytes old),
     r_public_size_bytes := coalesce (r_public_size_bytes new) (r_public_size_bytes old),
     r_data_size_bytes := coalesce (r_data_size_bytes new) (r_data_size_bytes old),
     r_image_size_bytes := coalesce (r_image_size_bytes new) (r_image_size_bytes old),
     r_last_memory_bytes := coalesce (r_last_memory_bytes new) (r_last_memory_bytes old),
     r_last_cpu_percent := coalesce (r_last_cpu_percent new) (r_last_cpu_percent old)\<rparr>"

definition upsert_resources :: "resource_row \<Rightarrow> unit dao" where
  \<comment> \<open>the argument holds the instance id, the given sizes and the time of the call\<close>
  "upsert_resources row r =
     (if \<not> known_instance r (r_instance_id row) then Inl Integrity_error
      else Inr ((), r\<lparr>resources := upsert_row r_instance_id merge_resource row (resources r)\<rparr>))"

definition get_resources :: "string \<Rightarrow> reg \<Rightarrow> resource_row option" where
  "get_resources i r = find_by r_instance_id i (resources r)"

definition total_count :: "reg \<Rightarrow> nat" where
  "total_count r = length (instances r)"

definition status_counts :: "reg \<Rightarrow> (string \<times> nat) list" where
  "status_counts r = map (\<lambda>s. (s, rowcount (\<lambda>x. i_status x = s) (instances r)))
     (remdups (map i_status (instances r)))"

section \<open>Interfaces\<close>

lemma cas_increment_cases:
  assumes "reg_ok r"
  shows "cas_increment_revision i n now r =
     (case get_instance i r of
        None \<Rightarrow> Inl (Not_found i)
      | Some x \<Rightarrow> if i_revision x = n
          then Inr (n + 1, upd_instance i (\<lambda>x. x\<lparr>i_revision := i_revision x + 1, i_updated_at := now\<rparr>) r)
          else Inl (Revision_conflict n (i_revision x)))"
proof -
  have pk: "pk_ok i_id (instances r)" using assms by (simp add: reg_ok_def)
  let ?hit = "\<lambda>x. i_id x = i \<and> i_revision x = n"
  let ?f = "\<lambda>x. x\<lparr>i_revision := i_revision x + 1, i_updated_at := now\<rparr>"
  note rc = rowcount_pk [OF pk, of i "\<lambda>x. i_revision x = n"]
  show ?thesis
  proof (cases "get_instance i r")
    case None
    then show ?thesis using rc by (simp add: cas_increment_revision_def get_instance_def Let_def)
  next
    case (Some x)
    then have x: "find_by i_id i (instances r) = Some x" "i_id x = i"
      by (auto simp: get_instance_def dest: find_by_key)
    have "upd_where ?hit ?f (instances r) = upd_where (\<lambda>y. i_id y = i) ?f (instances r)"
      if "i_revision x = n"
    proof -
      have "i_revision y = n" if "y \<in> set (instances r)" "i_id y = i" for y
        using find_by_mem [OF pk that(1)] that(2) x \<open>i_revision x = n\<close> by simp
      then show ?thesis by (auto simp: upd_where_def)
    qed
    moreover have "find_by i_id i (upd_where (\<lambda>y. i_id y = i) ?f (instances r)) = Some (?f x)"
      using x by (simp add: find_by_upd_where)
    ultimately show ?thesis
      using x rc Some by (simp add: cas_increment_revision_def Let_def upd_instance_def)
  qed
qed

definition claim_port :: "string \<Rightarrow> string \<Rightarrow> int \<Rightarrow> reg \<Rightarrow> (reg_error + bool) \<times> reg" where
  "claim_port now i p r = (case allocate_port i p now r of
     Inl e \<Rightarrow> (Inl e, r) | Inr (b, r') \<Rightarrow> (Inr b, r'))"

lemma reg_ok_add_port:
  assumes "reg_ok r" "known_instance r (p_instance_id row)" "find_by p_port (p_port row) (ports r) = None"
  shows "reg_ok (r\<lparr>ports := ports r @ [row]\<rparr>)"
proof -
  have "known_instance (r\<lparr>ports := ports r @ [row]\<rparr>) = known_instance r"
    by (rule known_instance_cong) simp
  with assms show ?thesis by (auto simp: reg_ok_def pk_ok_snoc)
qed

interpretation reg_ports: port_store port_owner "claim_port now" reg_ok known_instance for now
proof (unfold_locales, goal_cases)
  case (1 s i p)
  then show ?case by (auto simp: claim_port_def allocate_port_def split: option.splits)
next
  case (2 s i p b)
  then show ?case
    by (auto simp: claim_port_def allocate_port_def port_owner_def split: option.splits if_splits)
next
  case (3 s i p)
  then show ?case
    by (auto simp: claim_port_def allocate_port_def port_owner_def find_by_append
        split: option.splits if_splits)
next
  case (4 s q p i)
  then show ?case
    by (auto simp: claim_port_def allocate_port_def port_owner_def find_by_append
        split: option.splits if_splits)
next
  case (5 s i p)
  then show ?case
    by (auto simp: claim_port_def allocate_port_def reg_ok_add_port split: option.splits)
next
  case (6 s i p j)
  then show ?case
    by (auto simp: claim_port_def allocate_port_def known_instance_def split: option.splits)
qed

lemma revision_upd:
  assumes "get_instance i r = Some x"
  shows "get_revision j (upd_instance i (\<lambda>x. x\<lparr>i_revision := i_revision x + 1, i_updated_at := t\<rparr>) r)
     = (if j = i then Some (i_revision x + 1) else get_revision j r)"
  using assms by (simp add: get_revision_def get_upd_instance)

text \<open>The registry as a store of revisions: a lost race is the error branch, and the only legal
  target is the successor of the expected revision.\<close>

definition revision_pair :: "int list \<Rightarrow> int \<Rightarrow> bool" where
  "revision_pair E w \<longleftrightarrow> (\<exists>n. E = [n] \<and> w = n + 1)"

definition rev_cas :: "string \<Rightarrow> int list \<Rightarrow> int \<Rightarrow> reg \<Rightarrow> bool \<times> reg" where
  "rev_cas i E w r =
     (case cas_increment_revision i (hd E) [] r of Inr (_, r') \<Rightarrow> (True, r') | Inl _ \<Rightarrow> (False, r))"

lemma rev_cas_cases:
  assumes "reg_ok r"
  shows "rev_cas i [n] w r =
     (if get_revision i r = Some n
      then (True, upd_instance i (\<lambda>x. x\<lparr>i_revision := i_revision x + 1, i_updated_at := []\<rparr>) r)
      else (False, r))"
  by (auto simp: rev_cas_def cas_increment_cases [OF assms] get_revision_def split: option.splits)

interpretation reg_rev:
  cas_store "\<lambda>r i. get_revision i r" rev_cas revision_pair reg_ok
proof (unfold_locales, goal_cases)
  case (1 s E w i)
  then show ?case by (auto simp: revision_pair_def rev_cas_cases split: if_splits)
next
  case (2 s E w i)
  then obtain n where "E = [n]" "w = n + 1" by (auto simp: revision_pair_def)
  with 2 have n: "E = [n]" "w = n + 1" "get_revision i s = Some n"
    by (simp_all add: rev_cas_cases split: if_splits)
  then obtain x where "get_instance i s = Some x" "i_revision x = n"
    by (auto simp: get_revision_def)
  with n 2 show ?case by (simp add: rev_cas_cases revision_upd)
next
  case (3 s E w i)
  then show ?case by (auto simp: revision_pair_def rev_cas_cases split: if_splits)
next
  case (4 s E w j i)
  then show ?case
    by (auto simp: revision_pair_def rev_cas_cases get_revision_def get_upd_instance)
next
  case (5 s E w i)
  then show ?case by (auto simp: revision_pair_def rev_cas_cases reg_ok_upd_instance)
qed

end
