(* ===== verification/Registry_Agent.thy ===== *)
theory Registry_Agent
  imports Registry_Tables
begin

text \<open>
  Models the agent-operation methods of \<^verbatim>\<open>registry/dao.py\<close>: the workspace id, idempotent creation
  of operations, claiming and lease renewal, the status compare-and-swap and the two sweeps.
\<close>

fun terminal :: "op_status \<Rightarrow> bool" where
  "terminal Succeeded = True"
| "terminal Failed = True"
| "terminal Cancelled = True"
| "terminal Cancel_failed = True"
| "terminal Needs_input = True"
| "terminal Interrupted = True"
| "terminal _ = False"

definition TERMINAL_OPERATION_STATUSES :: "op_status list" where
  "TERMINAL_OPERATION_STATUSES =
     [Succeeded, Failed, Cancelled, Cancel_failed, Needs_input, Interrupted]"

section \<open>The workspace id\<close>

definition get_workspace_id :: "reg \<Rightarrow> string option" where
  "get_workspace_id r = map_option snd (find_by fst ''workspace_id'' (workspace_meta r))"

definition get_or_create_workspace_id :: "string \<Rightarrow> string dao" where
  "get_or_create_workspace_id candidate r =
     (case find_by fst ''workspace_id'' (workspace_meta r) of
        Some row \<Rightarrow> Inr (snd row, r)
      | None \<Rightarrow> Inr (candidate, r\<lparr>workspace_meta := workspace_meta r @ [(''workspace_id'', candidate)]\<rparr>))"

section \<open>Operations\<close>

definition get_agent_operation :: "string \<Rightarrow> reg \<Rightarrow> op_row option" where
  "get_agent_operation i r = find_by o_operation_id i (agent_operations r)"

definition get_agent_operation_by_idempotency ::
  "string \<Rightarrow> string \<Rightarrow> string \<Rightarrow> reg \<Rightarrow> op_row option" where
  "get_agent_operation_by_idempotency p w k r = find_by op_key (p, w, k) (agent_operations r)"

text \<open>The insert fails on the primary key or on the idempotency key. The code then looks the
  idempotency key up: no row means that another constraint failed and the error is raised
  again; a row with another request hash is a conflict; a row with the same hash is returned.\<close>

definition create_agent_operation :: "op_row \<Rightarrow> op_row dao" where
  "create_agent_operation row r =
     (if find_by o_operation_id (o_operation_id row) (agent_operations r) \<noteq> None
         \<or> find_by op_key (op_key row) (agent_operations r) \<noteq> None
      then (case get_agent_operation_by_idempotency (o_principal_id row) (o_workspace_id row)
                   (o_idempotency_key row) r of
              None \<Rightarrow> Inl Integrity_error
            | Some existing \<Rightarrow>
                if o_request_hash existing \<noteq> o_request_hash row
                then Inl (Idempotency_conflict (o_idempotency_key row))
                else Inr (existing, r))
      else Inr (row, r\<lparr>agent_operations := agent_operations r @ [row]\<rparr>))"

definition upd_op :: "string \<Rightarrow> (op_row \<Rightarrow> bool) \<Rightarrow> (op_row \<Rightarrow> op_row) \<Rightarrow> reg \<Rightarrow> reg" where
  "upd_op i P f r = r\<lparr>agent_operations :=
     upd_where (\<lambda>x. o_operation_id x = i \<and> P x) f (agent_operations r)\<rparr>"

definition op_hits :: "string \<Rightarrow> (op_row \<Rightarrow> bool) \<Rightarrow> reg \<Rightarrow> nat" where
  "op_hits i P r = rowcount (\<lambda>x. o_operation_id x = i \<and> P x) (agent_operations r)"

datatype op_field =
    F_status op_status | F_phase "op_phase option" | F_worker_identity "string option"
  | F_lease_until "string option" | F_build_token "string option" | F_result "json option"
  | F_error "agent_error option" | F_target_instance_id "string option" | F_other string

fun field_allowed :: "op_field \<Rightarrow> bool" where
  "field_allowed (F_other _) = False"
| "field_allowed _ = True"

fun set_field :: "op_field \<Rightarrow> op_row \<Rightarrow> op_row" where
  "set_field (F_status s) x = x\<lparr>o_status := s\<rparr>"
| "set_field (F_phase p) x = x\<lparr>o_phase := p\<rparr>"
| "set_field (F_worker_identity w) x = x\<lparr>o_worker_identity := w\<rparr>"
| "set_field (F_lease_until l) x = x\<lparr>o_lease_until := l\<rparr>"
| "set_field (F_build_token b) x = x\<lparr>o_build_token := b\<rparr>"
| "set_field (F_result j) x = x\<lparr>o_result := j\<rparr>"
| "set_field (F_error e) x = x\<lparr>o_error := e\<rparr>"
| "set_field (F_target_instance_id t) x = x\<lparr>o_target_instance_id := t\<rparr>"
| "set_field (F_other _) x = x"

definition update_agent_operation :: "string \<Rightarrow> string \<Rightarrow> op_field list \<Rightarrow> bool dao" where
  "update_agent_operation i updated_at fs r =
     (if list_ex (\<lambda>f. \<not> field_allowed f) fs then Inl Agent_op_field
      else Inr (op_hits i (\<lambda>_. True) r > 0,
        upd_op i (\<lambda>_. True) (\<lambda>x. fold set_field fs (x\<lparr>o_updated_at := updated_at\<rparr>)) r))"

definition insert_agent_plan :: "plan_row \<Rightarrow> unit dao" where
  "insert_agent_plan p r =
     (if find_by pl_plan_id (pl_plan_id p) (agent_plans r) \<noteq> None then Inl Integrity_error
      else Inr ((), r\<lparr>agent_plans := agent_plans r @ [p]\<rparr>))"

definition get_agent_plan :: "string \<Rightarrow> reg \<Rightarrow> plan_row option" where
  "get_agent_plan i r = find_by pl_plan_id i (agent_plans r)"

definition by_created :: "op_row \<Rightarrow> string list" where
  "by_created x = [o_created_at x, o_operation_id x]"

definition by_updated :: "op_row \<Rightarrow> string list" where
  "by_updated x = [o_updated_at x, o_operation_id x]"

definition get_latest_agent_operation_for_instance :: "string \<Rightarrow> reg \<Rightarrow> op_row option" where
  "get_latest_agent_operation_for_instance i r =
     (case rev (sort_key by_updated
              (filter (\<lambda>x. o_target_instance_id x = Some i) (agent_operations r))) of
        [] \<Rightarrow> None | x # _ \<Rightarrow> Some x)"

definition list_agent_operations :: "op_status list \<Rightarrow> nat \<Rightarrow> reg \<Rightarrow> op_row list" where
  "list_agent_operations statuses limit r =
     take limit (sort_key by_created (filter (\<lambda>x. statuses = [] \<or> o_status x \<in> set statuses)
       (agent_operations r)))"

definition count_agent_operations :: "op_status list \<Rightarrow> reg \<Rightarrow> nat" where
  "count_agent_operations statuses r =
     rowcount (\<lambda>x. o_status x \<in> set statuses) (agent_operations r)"

definition oldest_queued :: "reg \<Rightarrow> op_row option" where
  "oldest_queued r =
     (case sort_key by_created (filter (\<lambda>x. o_status x = Queued) (agent_operations r)) of
        [] \<Rightarrow> None | x # _ \<Rightarrow> Some x)"

definition claim_next_agent_operation ::
  "string \<Rightarrow> string \<Rightarrow> string \<Rightarrow> op_row option dao" where
  "claim_next_agent_operation worker_identity now lease_until r =
     (case oldest_queued r of
        None \<Rightarrow> Inr (None, r)
      | Some row \<Rightarrow>
          (let i = o_operation_id row;
               r' = upd_op i (\<lambda>x. o_status x = Queued)
                 (\<lambda>x. x\<lparr>o_status := Running, o_phase := Some Phase_validate,
                   o_worker_identity := Some worker_identity, o_lease_until := Some lease_until,
                   o_updated_at := now\<rparr>) r in
           if op_hits i (\<lambda>x. o_status x = Queued) r \<noteq> 1 then Inr (None, r')
           else Inr (get_agent_operation i r', r')))"

definition renew_agent_operation_lease ::
  "string \<Rightarrow> string \<Rightarrow> string \<Rightarrow> string \<Rightarrow> bool dao" where
  "renew_agent_operation_lease i worker_identity now lease_until r =
     (let P = (\<lambda>x. o_status x \<in> {Running, Cancelling} \<and> o_worker_identity x = Some worker_identity) in
      Inr (op_hits i P r = 1,
        upd_op i P (\<lambda>x. x\<lparr>o_lease_until := Some lease_until, o_updated_at := now\<rparr>) r))"

record cas_extra =
  ce_phase :: "op_phase option"
  ce_error :: "agent_error option"
  ce_result :: "json option"
  ce_target :: "string option"

definition no_extra :: cas_extra where
  "no_extra = \<lparr>ce_phase = None, ce_error = None, ce_result = None, ce_target = None\<rparr>"

definition cas_agent_operation_status ::
  "string \<Rightarrow> op_status list \<Rightarrow> op_status \<Rightarrow> string \<Rightarrow> cas_extra \<Rightarrow> bool dao" where
  "cas_agent_operation_status i expected_statuses new_status now x r =
     (let P = (\<lambda>row. o_status row \<in> set expected_statuses) in
      Inr (op_hits i P r = 1,
        upd_op i P (\<lambda>row. row\<lparr>o_status := new_status, o_updated_at := now,
          o_phase := coalesce (ce_phase x) (o_phase row),
          o_error := coalesce (ce_error x) (o_error row),
          o_result := coalesce (ce_result x) (o_result row),
          o_target_instance_id := coalesce (ce_target x) (o_target_instance_id row)\<rparr>) r))"

text \<open>Both sweeps select without ORDER BY; the model takes the rows in table order.\<close>

definition sweep_terminal_agent_operations :: "string \<Rightarrow> nat \<Rightarrow> nat dao" where
  "sweep_terminal_agent_operations before limit r =
     (let ids = map o_operation_id (take limit (filter
            (\<lambda>x. o_status x \<in> set TERMINAL_OPERATION_STATUSES \<and> o_updated_at x < before)
            (agent_operations r))) in
      Inr (length ids, r\<lparr>agent_operations :=
        del_where (\<lambda>x. o_operation_id x \<in> set ids) (agent_operations r)\<rparr>))"

definition plan_in_use :: "reg \<Rightarrow> string \<Rightarrow> bool" where
  "plan_in_use r p \<longleftrightarrow> list_ex (\<lambda>x. o_plan_id x = Some p
     \<and> o_status x \<notin> set TERMINAL_OPERATION_STATUSES) (agent_operations r)"

definition delete_expired_agent_plans :: "string \<Rightarrow> nat \<Rightarrow> string list dao" where
  "delete_expired_agent_plans now limit r =
     (let ids = map pl_plan_id (take limit (filter
            (\<lambda>p. pl_expires_at p < now \<and> \<not> plan_in_use r (pl_plan_id p)) (agent_plans r))) in
      Inr (ids, r\<lparr>agent_plans := del_where (\<lambda>p. pl_plan_id p \<in> set ids) (agent_plans r)\<rparr>))"

section \<open>Facts\<close>

lemma terminal_iff: "s \<in> set TERMINAL_OPERATION_STATUSES \<longleftrightarrow> terminal s"
  by (cases s) (simp_all add: TERMINAL_OPERATION_STATUSES_def)

lemma get_upd_op:
  assumes "\<And>x. o_operation_id (f x) = o_operation_id x"
  shows "get_agent_operation j (upd_op i P f r) =
     (if j = i then map_option (\<lambda>x. if P x then f x else x) (get_agent_operation i r)
      else get_agent_operation j r)"
proof -
  have "find_by o_operation_id j (upd_where (\<lambda>x. o_operation_id x = i \<and> P x) f t) =
     map_option (\<lambda>x. if o_operation_id x = i \<and> P x then f x else x) (find_by o_operation_id j t)" for t
    by (rule find_by_upd_where) (simp add: assms)
  then show ?thesis
    by (cases "find_by o_operation_id j (agent_operations r)")
      (auto simp: get_agent_operation_def upd_op_def dest: find_by_key)
qed

lemma op_hits_iff:
  assumes "reg_ok r"
  shows "op_hits i P r = 1 \<longleftrightarrow> (\<exists>x. get_agent_operation i r = Some x \<and> P x)"
    and "op_hits i P r > 0 \<longleftrightarrow> (\<exists>x. get_agent_operation i r = Some x \<and> P x)"
proof -
  have "pk_ok o_operation_id (agent_operations r)" using assms by (simp add: reg_ok_def)
  from rowcount_pk [OF this, of i P]
  show "op_hits i P r = 1 \<longleftrightarrow> (\<exists>x. get_agent_operation i r = Some x \<and> P x)"
    and "op_hits i P r > 0 \<longleftrightarrow> (\<exists>x. get_agent_operation i r = Some x \<and> P x)"
    by (auto simp: op_hits_def get_agent_operation_def split: option.splits)
qed

lemma known_instance_ops [simp]:
  "known_instance (r\<lparr>agent_operations := ops\<rparr>) = known_instance r"
  "known_instance (r\<lparr>agent_plans := ps\<rparr>) = known_instance r"
  "known_instance (r\<lparr>workspace_meta := ms\<rparr>) = known_instance r"
  by (rule known_instance_cong, simp)+

lemma reg_ok_set_ops:
  assumes "reg_ok r" "pk_ok o_operation_id ops" "pk_ok op_key ops"
  shows "reg_ok (r\<lparr>agent_operations := ops\<rparr>)"
  using assms by (simp add: reg_ok_def)

lemma reg_ok_upd_op:
  assumes "reg_ok r" "\<And>x. o_operation_id (f x) = o_operation_id x" "\<And>x. op_key (f x) = op_key x"
  shows "reg_ok (upd_op i P f r)"
proof -
  have "pk_ok o_operation_id (upd_where (\<lambda>x. o_operation_id x = i \<and> P x) f (agent_operations r))
      = pk_ok o_operation_id (agent_operations r)"
    "pk_ok op_key (upd_where (\<lambda>x. o_operation_id x = i \<and> P x) f (agent_operations r))
      = pk_ok op_key (agent_operations r)"
    by (rule pk_ok_upd_where, simp add: assms)+
  with assms(1) show ?thesis unfolding upd_op_def by (simp add: reg_ok_def)
qed

lemma set_field_keys:
  "o_operation_id (set_field f x) = o_operation_id x" "op_key (set_field f x) = op_key x"
  by (cases f; simp add: op_key_def)+

lemma fold_set_field_keys:
  "o_operation_id (fold set_field fs x) = o_operation_id x"
  "op_key (fold set_field fs x) = op_key x"
  by (induction fs arbitrary: x) (simp_all add: set_field_keys)

lemma op_key_upd [simp]:
  "op_key (x\<lparr>o_status := s\<rparr>) = op_key x" "op_key (x\<lparr>o_updated_at := u\<rparr>) = op_key x"
  "op_key (x\<lparr>o_phase := p\<rparr>) = op_key x" "op_key (x\<lparr>o_error := e\<rparr>) = op_key x"
  "op_key (x\<lparr>o_result := j\<rparr>) = op_key x" "op_key (x\<lparr>o_target_instance_id := t\<rparr>) = op_key x"
  "op_key (x\<lparr>o_lease_until := l\<rparr>) = op_key x" "op_key (x\<lparr>o_worker_identity := w\<rparr>) = op_key x"
  by (simp_all add: op_key_def)

lemma oldest_queued_SomeD:
  assumes "oldest_queued r = Some x"
  shows "x \<in> set (agent_operations r)" "o_status x = Queued"
    "\<forall>y \<in> set (agent_operations r). o_status y = Queued \<longrightarrow> by_created x \<le> by_created y"
proof -
  let ?q = "filter (\<lambda>x. o_status x = Queued) (agent_operations r)"
  from assms obtain xs where s: "sort_key by_created ?q = x # xs"
    by (auto simp: oldest_queued_def split: list.splits)
  then have mem: "set (x # xs) = set ?q" by (metis set_sort)
  then show "x \<in> set (agent_operations r)" "o_status x = Queued" by auto
  have "sorted (map by_created (x # xs))" by (metis s sorted_sort_key)
  then have "\<forall>y \<in> set xs. by_created x \<le> by_created y" by simp
  with mem show "\<forall>y \<in> set (agent_operations r). o_status y = Queued \<longrightarrow> by_created x \<le> by_created y"
    by auto
qed

section \<open>The registry as a compare-and-swap store of operation statuses\<close>

definition op_status_of :: "reg \<Rightarrow> string \<Rightarrow> op_status option" where
  "op_status_of r i = map_option o_status (get_agent_operation i r)"

definition op_cas :: "string \<Rightarrow> op_status list \<Rightarrow> op_status \<Rightarrow> reg \<Rightarrow> bool \<times> reg" where
  "op_cas i E w r = (case cas_agent_operation_status i E w [] no_extra r of
     Inl _ \<Rightarrow> (False, r) | Inr (b, r') \<Rightarrow> (b, r'))"

lemma cas_status_hit:
  assumes "reg_ok r" "cas_agent_operation_status i E w now x r = Inr (b, r')"
  shows "b \<longleftrightarrow> (\<exists>s \<in> set E. op_status_of r i = Some s)"
    "op_status_of r' j = (if j = i \<and> b then Some w else op_status_of r j)"
    "reg_ok r'"
proof -
  let ?P = "\<lambda>row. o_status row \<in> set E"
  show b: "b \<longleftrightarrow> (\<exists>s \<in> set E. op_status_of r i = Some s)"
    using assms op_hits_iff(1) [OF assms(1), of i ?P]
    by (auto simp: cas_agent_operation_status_def Let_def op_status_of_def)
  show "op_status_of r' j = (if j = i \<and> b then Some w else op_status_of r j)"
    using assms(2) b by (cases "get_agent_operation i r")
      (auto simp: cas_agent_operation_status_def Let_def op_status_of_def get_upd_op)
  show "reg_ok r'"
    using assms by (auto simp: cas_agent_operation_status_def Let_def op_key_def intro!: reg_ok_upd_op)
qed

lemma op_cas_eq: "\<exists>b r'. cas_agent_operation_status i E w now x r = Inr (b, r')"
  by (simp add: cas_agent_operation_status_def Let_def)

interpretation reg_ops: cas_store op_status_of op_cas "\<lambda>_ _. True" reg_ok
proof (unfold_locales, goal_cases)
  case (1 s E w i)
  obtain b r' where c: "cas_agent_operation_status i E w [] no_extra s = Inr (b, r')"
    using op_cas_eq by blast
  show ?case using cas_status_hit(1) [OF 1(1) c] c by (simp add: op_cas_def)
next
  case (2 s E w i)
  obtain b r' where c: "cas_agent_operation_status i E w [] no_extra s = Inr (b, r')"
    using op_cas_eq by blast
  show ?case using cas_status_hit(2) [OF 2(1) c] c 2(3) by (simp add: op_cas_def)
next
  case (3 s E w i)
  obtain b r' where c: "cas_agent_operation_status i E w [] no_extra s = Inr (b, r')"
    using op_cas_eq by blast
  show ?case using cas_status_hit(2) [OF 3(1) c] c 3(3) by (simp add: op_cas_def)
next
  case (4 s E w j i)
  obtain b r' where c: "cas_agent_operation_status i E w [] no_extra s = Inr (b, r')"
    using op_cas_eq by blast
  show ?case using cas_status_hit(2) [OF 4(1) c] c 4(3) by (simp add: op_cas_def)
next
  case (5 s E w i)
  obtain b r' where c: "cas_agent_operation_status i E w [] no_extra s = Inr (b, r')"
    using op_cas_eq by blast
  show ?case using cas_status_hit(3) [OF 5(1) c] c by (simp add: op_cas_def)
qed

end
