(* ===== verification/Registry_Invariant.thy ===== *)
theory Registry_Invariant
  imports Registry_Agent
begin

text \<open>
  The registry as a whole: every write of \<^verbatim>\<open>registry/dao.py\<close> as a command, the constraints of
  the schema as the invariant of every sequence of commands, and what the code relies on the
  registry for (revisions, cascades, build supersession, the agent queue).
\<close>

section \<open>Commands\<close>

definition commit :: "reg_error + 'a \<times> reg \<Rightarrow> reg \<Rightarrow> reg" where
  \<comment> \<open>the write transaction: an exception rolls back\<close>
  "commit res r = (case res of Inl _ \<Rightarrow> r | Inr (_, r') \<Rightarrow> r')"

datatype reg_cmd =
    Upsert_manifest manifest "string option" "string option"
  | Upsert_container string container_config
  | Upsert_static string static_config
  | Cas_revision string int string
  | Update_status string string status_update string
  | Touch string string
  | Last_operation string "json option" string
  | Last_error string "string option" string
  | Set_name string string string
  | Started string string string
  | Health_checked string string string
  | Set_error string "string option"
  | Static_enabled string bool
  | Delete_container string
  | Delete_static string
  | Delete_instance string
  | Purge_orphans
  | Allocate_port string int string
  | Release_port int
  | Release_ports string
  | Add_event "string option" string string "string option" string
  | Add_build string string "string option" "string option" string string
  | Finish_build int string "string option" string
  | Record_artifacts int "string option" "string option" "string option" "string option"
  | Clear_artifacts int
  | Upsert_resources resource_row
  | Workspace_id string
  | Insert_plan plan_row
  | Create_op op_row
  | Update_op string string "op_field list"
  | Claim_next string string string
  | Renew_lease string string string string
  | Cas_status string "op_status list" op_status string cas_extra
  | Sweep_terminal string nat
  | Delete_plans string nat

fun run_cmd :: "reg_cmd \<Rightarrow> reg \<Rightarrow> reg" where
  "run_cmd (Upsert_manifest m a z) r = commit (upsert_from_manifest m a z r) r"
| "run_cmd (Upsert_container i c) r = commit (upsert_container i c r) r"
| "run_cmd (Upsert_static i s) r = commit (upsert_static_site i s r) r"
| "run_cmd (Cas_revision i n t) r = commit (cas_increment_revision i n t r) r"
| "run_cmd (Update_status i s u t) r = commit (update_status i s u t r) r"
| "run_cmd (Touch i t) r = commit (touch_instance i t r) r"
| "run_cmd (Last_operation i j t) r = commit (update_last_operation i j t r) r"
| "run_cmd (Last_error i e t) r = commit (update_last_error i e t r) r"
| "run_cmd (Set_name i n t) r = commit (update_name i n t r) r"
| "run_cmd (Started i t u) r = commit (record_started i t u r) r"
| "run_cmd (Health_checked i t u) r = commit (record_health_check i t u r) r"
| "run_cmd (Set_error i e) r = commit (set_last_error i e r) r"
| "run_cmd (Static_enabled i b) r = commit (set_static_enabled i b r) r"
| "run_cmd (Delete_container i) r = commit (delete_container i r) r"
| "run_cmd (Delete_static i) r = commit (delete_static_site i r) r"
| "run_cmd (Delete_instance i) r = commit (delete_instance i r) r"
| "run_cmd Purge_orphans r = commit (purge_orphan_rows r) r"
| "run_cmd (Allocate_port i p t) r = commit (allocate_port i p t r) r"
| "run_cmd (Release_port p) r = commit (release_port p r) r"
| "run_cmd (Release_ports i) r = commit (release_instance_ports i r) r"
| "run_cmd (Add_event i e m s t) r = commit (add_event i e m s t r) r"
| "run_cmd (Add_build i s a l t u) r = commit (add_build i s a l t u r) r"
| "run_cmd (Finish_build b s e t) r = commit (finish_build b s e t r) r"
| "run_cmd (Record_artifacts b a c d e) r = commit (record_build_artifacts b a c d e r) r"
| "run_cmd (Clear_artifacts b) r = commit (clear_build_artifacts b r) r"
| "run_cmd (Upsert_resources x) r = commit (upsert_resources x r) r"
| "run_cmd (Workspace_id c) r = commit (get_or_create_workspace_id c r) r"
| "run_cmd (Insert_plan p) r = commit (insert_agent_plan p r) r"
| "run_cmd (Create_op x) r = commit (create_agent_operation x r) r"
| "run_cmd (Update_op i t fs) r = commit (update_agent_operation i t fs r) r"
| "run_cmd (Claim_next w t l) r = commit (claim_next_agent_operation w t l r) r"
| "run_cmd (Renew_lease i w t l) r = commit (renew_agent_operation_lease i w t l r) r"
| "run_cmd (Cas_status i E w t x) r = commit (cas_agent_operation_status i E w t x r) r"
| "run_cmd (Sweep_terminal t n) r = commit (sweep_terminal_agent_operations t n r) r"
| "run_cmd (Delete_plans t n) r = commit (delete_expired_agent_plans t n r) r"

lemma commit_simps [simp]: "commit (Inl e) r = r" "commit (Inr (a, r')) r = r'"
  by (simp_all add: commit_def)

section \<open>Every operation keeps the constraints\<close>

lemma known_upsert:
  assumes "\<And>x y. i_id x = i_id y \<Longrightarrow> i_id (f x y) = i_id y"
  shows "known_instance (r\<lparr>instances := upsert_row i_id f row (instances r)\<rparr>) j
     \<longleftrightarrow> j = i_id row \<or> known_instance r j"
proof -
  have "find_by i_id j (upsert_row i_id f row (instances r)) =
     (if j = i_id row
      then (case find_by i_id j (instances r) of None \<Rightarrow> Some row | Some x \<Rightarrow> Some (f x row))
      else find_by i_id j (instances r))"
    by (rule find_by_upsert) (simp add: assms)
  then show ?thesis by (auto simp: known_instance_def split: option.splits)
qed

lemma set_upsert_row: "set (upsert_row key f x t) \<subseteq> insert x (set t) \<union> (\<lambda>y. f y x) ` {y \<in> set t. key y = key x}"
  by (auto simp: upsert_row_def set_upd_where)

lemma pk_ok_replace: "pk_ok key t \<Longrightarrow> pk_ok key (upsert_row key (\<lambda>_ new. new) x t)"
  by (rule pk_ok_upsert) simp_all

lemma known_container_rows [simp]:
  "known_instance (r\<lparr>containers := x1\<rparr>) = known_instance r"
  "known_instance (r\<lparr>static_sites := x2\<rparr>) = known_instance r"
  "known_instance (r\<lparr>ports := x3\<rparr>) = known_instance r"
  "known_instance (r\<lparr>events := x4\<rparr>) = known_instance r"
  "known_instance (r\<lparr>builds := x5\<rparr>) = known_instance r"
  "known_instance (r\<lparr>resources := x6\<rparr>) = known_instance r"
  "known_instance (r\<lparr>next_event_id := x7\<rparr>) = known_instance r"
  "known_instance (r\<lparr>next_build_id := x8\<rparr>) = known_instance r"
  by (rule known_instance_cong, simp)+

lemma reg_ok_put_container:
  assumes "reg_ok r" "known_instance r (k_instance_id k)"
  shows "reg_ok (put_container k r)"
proof -
  have "pk_ok k_instance_id (upsert_row k_instance_id (\<lambda>_ new. new) k (containers r))"
    using assms(1) by (simp add: reg_ok_def pk_ok_replace)
  moreover have "\<forall>x \<in> set (upsert_row k_instance_id (\<lambda>_ new. new) k (containers r)).
      known_instance r (k_instance_id x)"
    using set_upsert_row [of k_instance_id "\<lambda>_ new. new" k "containers r"] assms
    by (auto simp: reg_ok_def)
  ultimately show ?thesis using assms(1) unfolding put_container_def by (simp add: reg_ok_def)
qed

lemma reg_ok_put_static:
  assumes "reg_ok r" "known_instance r (t_instance_id s)"
  shows "reg_ok (put_static s r)"
proof -
  have "pk_ok t_instance_id (upsert_row t_instance_id (\<lambda>_ new. new) s (static_sites r))"
    using assms(1) by (simp add: reg_ok_def pk_ok_replace)
  moreover have "\<forall>x \<in> set (upsert_row t_instance_id (\<lambda>_ new. new) s (static_sites r)).
      known_instance r (t_instance_id x)"
    using set_upsert_row [of t_instance_id "\<lambda>_ new. new" s "static_sites r"] assms
    by (auto simp: reg_ok_def)
  ultimately show ?thesis using assms(1) unfolding put_static_def by (simp add: reg_ok_def)
qed

lemma reg_ok_del_child:
  "reg_ok r \<Longrightarrow> reg_ok (del_child_rows P r)"
  "reg_ok r \<Longrightarrow> reg_ok (del_container_rows i r)"
  "reg_ok r \<Longrightarrow> reg_ok (del_static_rows i r)"
proof -
  have "known_instance (del_child_rows P r) = known_instance r"
    by (rule known_instance_cong) (simp add: del_child_rows_def)
  then show "reg_ok r \<Longrightarrow> reg_ok (del_child_rows P r)"
    unfolding reg_ok_def del_child_rows_def by (auto simp: pk_ok_del_where split: option.splits)
qed (simp_all add: reg_ok_def del_container_rows_def del_static_rows_def pk_ok_del_where)

lemma reg_ok_upsert_instance:
  assumes "reg_ok r" "\<And>x y. i_id (f x y) = i_id y"
  shows "reg_ok (r\<lparr>instances := upsert_row i_id f row (instances r)\<rparr>)"
proof -
  have "pk_ok i_id (upsert_row i_id f row (instances r))"
    by (rule pk_ok_upsert) (use assms in \<open>simp_all add: reg_ok_def\<close>)
  with assms show ?thesis by (simp add: reg_ok_def known_upsert)
qed

lemma reg_ok_upsert_from_manifest:
  "reg_ok r \<Longrightarrow> reg_ok (commit (upsert_from_manifest m a z r) r)"
proof -
  assume r: "reg_ok r"
  let ?r1 = "r\<lparr>instances := upsert_row i_id merge_instance (instance_row m a z) (instances r)\<rparr>"
  have ok: "reg_ok ?r1"
    by (rule reg_ok_upsert_instance [OF r]) (simp add: merge_instance_def)
  have k: "known_instance ?r1 (m_id m)"
    by (subst known_upsert) (simp_all add: merge_instance_def instance_row_def)
  have "reg_ok (put_container (container_row (m_id m) c) ?r1)" for c
    by (rule reg_ok_put_container [OF ok]) (use k in \<open>simp add: container_row_def\<close>)
  moreover have "reg_ok (put_static (static_row (m_id m) s) ?r1)" for s
    by (rule reg_ok_put_static [OF ok]) (use k in \<open>simp add: static_row_def\<close>)
  ultimately show ?thesis
    using ok by (auto simp: upsert_from_manifest_def Let_def intro: reg_ok_del_child split: option.splits)
qed

lemma reg_ok_updates:
  assumes "reg_ok r"
  shows "reg_ok (commit (cas_increment_revision i n t r) r)"
    "reg_ok (commit (update_status i s u t r) r)" "reg_ok (commit (touch_instance i t r) r)"
    "reg_ok (commit (update_last_operation i j t r) r)" "reg_ok (commit (update_last_error i e t r) r)"
    "reg_ok (commit (update_name i nm t r) r)" "reg_ok (commit (record_started i t t' r) r)"
    "reg_ok (commit (record_health_check i t t' r) r)" "reg_ok (commit (set_last_error i e r) r)"
  using assms by (simp_all add: cas_increment_cases update_status_def touch_instance_def
      update_last_operation_def update_last_error_def update_name_def record_started_def
      record_health_check_def set_last_error_def reg_ok_upd_instance split: option.split)

lemma reg_ok_static_enabled: "reg_ok r \<Longrightarrow> reg_ok (commit (set_static_enabled i b r) r)"
proof -
  assume r: "reg_ok r"
  have "pk_ok t_instance_id (upd_where (\<lambda>x. t_instance_id x = i) (\<lambda>x. x\<lparr>t_enabled := b\<rparr>) (static_sites r))
      = pk_ok t_instance_id (static_sites r)"
    by (rule pk_ok_upd_where) simp
  with r show ?thesis by (auto simp: set_static_enabled_def reg_ok_def set_upd_where)
qed

lemma reg_ok_delete_instance: "reg_ok r \<Longrightarrow> reg_ok (commit (delete_instance i r) r)"
proof -
  assume r: "reg_ok r"
  let ?r1 = "del_child_rows (\<lambda>j. j = i) r"
  let ?r2 = "?r1\<lparr>instances := del_where (\<lambda>x. i_id x = i) (instances ?r1)\<rparr>"
  have ok: "reg_ok ?r1" using r by (rule reg_ok_del_child)
  have k: "known_instance ?r2 j \<longleftrightarrow> j \<noteq> i \<and> known_instance r j" for j
    by (simp add: known_instance_def del_child_rows_def find_by_del_key)
  have k1: "known_instance ?r1 = known_instance r"
    by (rule known_instance_cong) (simp add: del_child_rows_def)
  have "reg_ok ?r2"
    using ok k1 unfolding reg_ok_def k
    by (auto simp: del_child_rows_def pk_ok_del_where split: option.splits)
  then show ?thesis by (simp add: delete_instance_def Let_def)
qed

lemma reg_ok_ports:
  assumes "reg_ok r"
  shows "reg_ok (commit (allocate_port i p t r) r)" "reg_ok (commit (release_port p r) r)"
    "reg_ok (commit (release_instance_ports i r) r)"
proof -
  show "reg_ok (commit (allocate_port i p t r) r)"
    using assms by (simp add: allocate_port_def reg_ok_add_port split: option.split)
qed (use assms in \<open>simp_all add: release_port_def release_instance_ports_def reg_ok_def pk_ok_del_where\<close>)

lemma reg_ok_add_event: "reg_ok r \<Longrightarrow> reg_ok (commit (add_event i e m s t r) r)"
  by (auto simp: add_event_def Let_def reg_ok_def pk_ok_snoc find_by_None_iff split: option.splits)

lemma pk_ok_supersede [simp]: "pk_ok b_id (supersede i n t bs) = pk_ok b_id bs"
  unfolding supersede_def by (rule pk_ok_upd_where) simp

lemma ball_supersede [simp]:
  "(\<forall>x \<in> set (supersede i n t bs). b_id x \<le> m) = (\<forall>x \<in> set bs. b_id x \<le> m)"
  "(\<forall>x \<in> set (supersede i n t bs). known_instance r (b_instance_id x)) = (\<forall>x \<in> set bs. known_instance r (b_instance_id x))"
  unfolding supersede_def by (induction bs) auto

lemma reg_ok_add_build: "reg_ok r \<Longrightarrow> reg_ok (commit (add_build i s a l t u r) r)"
proof -
  assume r: "reg_ok r"
  have pk: "pk_ok b_id (builds r @ [x])" if "b_id x = next_build_id r" for x
    using r that by (auto simp: reg_ok_def pk_ok_snoc find_by_None_iff)
  have lt: "\<forall>x \<in> set (builds r). b_id x < next_build_id r + 1"
    using r by (auto simp: reg_ok_def intro: less_trans)
  show ?thesis using r pk lt by (simp add: add_build_def Let_def reg_ok_def)
qed

lemma reg_ok_upd_build:
  assumes "reg_ok r" "\<And>x. b_id (f x) = b_id x" "\<And>x. b_instance_id (f x) = b_instance_id x"
  shows "reg_ok (upd_build b f r)"
proof -
  have "pk_ok b_id (upd_where (\<lambda>x. b_id x = b) f (builds r)) = pk_ok b_id (builds r)"
    by (rule pk_ok_upd_where) (simp add: assms)
  with assms show ?thesis by (auto simp: upd_build_def reg_ok_def set_upd_where)
qed

lemma reg_ok_builds:
  assumes "reg_ok r"
  shows "reg_ok (commit (finish_build b s e t r) r)"
    "reg_ok (commit (record_build_artifacts b a c d x r) r)"
    "reg_ok (commit (clear_build_artifacts b r) r)"
  using assms by (simp_all add: finish_build_def record_build_artifacts_def clear_build_artifacts_def
      reg_ok_upd_build)

lemma reg_ok_upsert_resources: "reg_ok r \<Longrightarrow> reg_ok (commit (upsert_resources x r) r)"
proof -
  assume r: "reg_ok r"
  have pk: "pk_ok r_instance_id (upsert_row r_instance_id merge_resource x (resources r))"
    by (rule pk_ok_upsert) (use r in \<open>simp_all add: reg_ok_def merge_resource_def\<close>)
  have "\<forall>y \<in> set (upsert_row r_instance_id merge_resource x (resources r)). known_instance r (r_instance_id y)"
    if "known_instance r (r_instance_id x)"
    using set_upsert_row [of r_instance_id merge_resource x "resources r"] r that
    by (auto simp: reg_ok_def merge_resource_def)
  with r pk show ?thesis by (auto simp: upsert_resources_def reg_ok_def)
qed

lemma reg_ok_agent:
  assumes r: "reg_ok r"
  shows "reg_ok (commit (create_agent_operation x r) r)"
    "reg_ok (commit (update_agent_operation i t fs r) r)"
    "reg_ok (commit (claim_next_agent_operation w t l r) r)"
    "reg_ok (commit (renew_agent_operation_lease i w t l r) r)"
    "reg_ok (commit (cas_agent_operation_status i E st t ex r) r)"
proof -
  show "reg_ok (commit (create_agent_operation x r) r)"
    using r by (auto simp: create_agent_operation_def reg_ok_def pk_ok_snoc split: option.split)
  show "reg_ok (commit (update_agent_operation i t fs r) r)"
    using r by (simp add: update_agent_operation_def fold_set_field_keys reg_ok_upd_op)
  show "reg_ok (commit (claim_next_agent_operation w t l r) r)"
    using r by (simp add: claim_next_agent_operation_def Let_def reg_ok_upd_op split: option.split)
  show "reg_ok (commit (renew_agent_operation_lease i w t l r) r)"
    using r by (simp add: renew_agent_operation_lease_def Let_def reg_ok_upd_op)
  show "reg_ok (commit (cas_agent_operation_status i E st t ex r) r)"
    using r by (simp add: cas_agent_operation_status_def Let_def reg_ok_upd_op)
qed

lemma reg_ok_sweeps:
  assumes r: "reg_ok r"
  shows "reg_ok (commit (sweep_terminal_agent_operations t n r) r)"
    "reg_ok (commit (delete_expired_agent_plans t n r) r)"
    "reg_ok (commit (insert_agent_plan p r) r)"
    "reg_ok (commit (get_or_create_workspace_id c r) r)"
  using r by (auto simp: sweep_terminal_agent_operations_def delete_expired_agent_plans_def
      insert_agent_plan_def get_or_create_workspace_id_def Let_def reg_ok_def pk_ok_del_where
      pk_ok_snoc split: option.split)

lemma reg_ok_purge: "reg_ok r \<Longrightarrow> reg_ok (commit (purge_orphan_rows r) r)"
  by (simp add: purge_orphan_rows_def reg_ok_del_child)

lemmas reg_ok_ops = reg_ok_upsert_from_manifest reg_ok_updates reg_ok_static_enabled
  reg_ok_delete_instance reg_ok_ports reg_ok_add_event reg_ok_add_build reg_ok_builds
  reg_ok_upsert_resources reg_ok_agent reg_ok_sweeps reg_ok_purge

lemma reg_ok_child_upserts:
  assumes "reg_ok r"
  shows "reg_ok (commit (upsert_container i c r) r)" "reg_ok (commit (upsert_static_site i s r) r)"
    "reg_ok (commit (delete_container i r) r)" "reg_ok (commit (delete_static_site i r) r)"
  using assms by (simp_all add: upsert_container_def upsert_static_site_def reg_ok_put_container
      reg_ok_put_static container_row_def static_row_def delete_container_def
      delete_static_site_def reg_ok_del_child)

lemma reg_ok_run_cmd: "reg_ok r \<Longrightarrow> reg_ok (run_cmd c r)"
  by (cases c) (simp_all add: reg_ok_ops reg_ok_child_upserts)

lemma reg_ok_fold: "reg_ok r \<Longrightarrow> reg_ok (fold run_cmd cmds r)"
  by (induction cmds arbitrary: r) (simp_all add: reg_ok_run_cmd)

section \<open>A sample registry\<close>

definition sample_op :: "string \<Rightarrow> string \<Rightarrow> op_row" where
  "sample_op i t = \<lparr>o_operation_id = i, o_principal_id = ''agent'', o_workspace_id = ''ws'',
     o_action = Deploy, o_target_instance_id = None, o_request_hash = ''h'' @ i,
     o_idempotency_key = ''key-'' @ i, o_plan_id = Some ''plan'', o_status = Queued, o_phase = None,
     o_created_at = t, o_updated_at = t, o_worker_identity = None, o_lease_until = None,
     o_build_token = None, o_payload = None, o_result = None, o_error = None\<rparr>"

definition sample_reg :: reg where
  "sample_reg = fold run_cmd
     [Upsert_manifest sample_api None None,
      Add_build ''my-site'' ''running'' None None ''t1'' ''t1'',
      Allocate_port ''my-site'' 18001 ''t1'',
      Create_op (sample_op ''op-2'' ''t2''), Create_op (sample_op ''op-1'' ''t1'')] empty_reg"

lemma reg_ok_sample: "reg_ok sample_reg"
  unfolding sample_reg_def by (rule reg_ok_fold [OF reg_ok_empty])

end
