(* ===== verification/Registry_Facts.thy ===== *)
theory Registry_Facts
  imports Registry_Invariant
begin

text \<open>
  What the other components rely on the registry for: the theorems on \<^verbatim>\<open>registry/dao.py\<close>.
\<close>

section \<open>Commands in sequence\<close>


text \<open>C23: When any number of writers race to increment the revision of an instance from the same
  expected revision, at most one of them succeeds.\<close>

theorem revision_race:
  assumes "reg_ok r"
  shows "length (filter (\<lambda>b. b) (fst (reg_rev.race i (replicate k ([n], n + 1)) r))) \<le> 1"
  by (rule reg_rev.race_one_winner [OF assms]) (auto simp: revision_pair_def)

theorem revision_race_witness:
  "length (filter (\<lambda>b. b) (fst (reg_rev.race ''my-site'' (replicate 3 ([1], 1 + 1)) sample_reg))) \<le> 1
     \<and> fst (rev_cas ''my-site'' [1] 2 sample_reg)"
proof
  show "fst (rev_cas ''my-site'' [1] 2 sample_reg)" by code_simp
qed (rule revision_race [OF reg_ok_sample])

section \<open>Instances and their child rows\<close>

definition rows_of :: "string \<Rightarrow> reg \<Rightarrow> inst_row option \<times> container_row option \<times> static_row option
     \<times> int list \<times> event_row list \<times> build_row list \<times> resource_row option" where
  "rows_of i r = (get_instance i r, get_container i r, get_static_site i r, instance_ports i r,
     filter (\<lambda>x. e_instance_id x = Some i) (events r),
     filter (\<lambda>x. b_instance_id x = i) (builds r), get_resources i r)"

lemma filter_del_where: "filter Q (del_where P t) = filter (\<lambda>x. Q x \<and> \<not> P x) t"
  by (simp add: del_where_def conj_commute)

lemma filter_del_other: "(\<And>x. Q x \<Longrightarrow> \<not> P x) \<Longrightarrow> filter Q (del_where P t) = filter Q t"
  unfolding filter_del_where by (rule filter_cong) auto

text \<open>Deleting an instance removes its row and every row of the six child tables that refers to
  it, and nothing else: the rows of every other instance, the events of no instance and the agent
  operations are as before.\<close>

theorem delete_instance_cascade:
  assumes "delete_instance i r = Inr ((), r')"
  shows "rows_of j r' = (if j = i then (None, None, None, [], [], [], None) else rows_of j r)
     \<and> filter (\<lambda>x. e_instance_id x = None) (events r') = filter (\<lambda>x. e_instance_id x = None) (events r)
     \<and> agent_operations r' = agent_operations r"
proof -
  have r': "r' = (let r1 = del_child_rows (\<lambda>j. j = i) r in
      r1\<lparr>instances := del_where (\<lambda>x. i_id x = i) (instances r1)\<rparr>)"
    using assms by (simp add: delete_instance_def Let_def)
  show ?thesis
    by (auto simp: r' Let_def del_child_rows_def rows_of_def get_instance_def get_container_def
        get_static_site_def get_resources_def instance_ports_def find_by_del_key filter_del_where
        intro!: filter_cong arg_cong [of _ _ sort] arg_cong [of _ _ "map p_port"] split: option.splits)
qed

theorem delete_instance_cascade_witness:
  "rows_of ''my-site'' (snd (projr (delete_instance ''my-site'' sample_reg)))
     = (None, None, None, [], [], [], None)
   \<and> instance_ports ''my-site'' sample_reg = [18001]"
proof
  have "delete_instance ''my-site'' sample_reg
      = Inr ((), snd (projr (delete_instance ''my-site'' sample_reg)))"
    by (simp add: delete_instance_def Let_def)
  from delete_instance_cascade [OF this, of "''my-site''"]
  show "rows_of ''my-site'' (snd (projr (delete_instance ''my-site'' sample_reg)))
      = (None, None, None, [], [], [], None)" by simp
  show "instance_ports ''my-site'' sample_reg = [18001]" by code_simp
qed

text \<open>Whatever rows a database holds (earlier releases did not enforce foreign keys), the purge
  leaves no child row whose instance is missing, and leaves the rows of every registered
  instance alone.\<close>

theorem purge_orphans:
  "find_orphan_rows (commit (purge_orphan_rows r) r) = []
     \<and> (known_instance r i \<longrightarrow> rows_of i (commit (purge_orphan_rows r) r) = rows_of i r)"
proof -
  let ?r = "del_child_rows (\<lambda>i. \<not> known_instance r i) r"
  have k: "known_instance ?r = known_instance r"
    by (rule known_instance_cong) (simp add: del_child_rows_def)
  have "\<forall>x \<in> set (child_ids ?r). known_instance r (snd x)"
    by (auto simp: child_ids_def del_child_rows_def List.map_filter_def split: option.splits)
  then have none: "find_orphan_rows ?r = []"
    by (auto simp: find_orphan_rows_def k filter_empty_conv)
  show ?thesis
  proof (intro conjI impI)
    assume i: "known_instance r i"
    have f: "find_by key i (del_where (\<lambda>x. \<not> known_instance r (key x)) t) = find_by key i t"
      for key :: "'c \<Rightarrow> string" and t
      using i by (induction t) auto
    have g: "filter (\<lambda>x. key x = i) (del_where (\<lambda>x. \<not> known_instance r (key x)) t)
        = filter (\<lambda>x. key x = i) t" for key :: "'c \<Rightarrow> string" and t
      using i by (induction t) auto
    show "rows_of i (commit (purge_orphan_rows r) r) = rows_of i r"
      using i by (auto simp: purge_orphan_rows_def rows_of_def del_child_rows_def get_instance_def
          get_container_def get_static_site_def get_resources_def instance_ports_def f g
          filter_del_other split: option.splits)
  qed (simp add: purge_orphan_rows_def none)
qed

definition orphaned_reg :: reg where
  "orphaned_reg = sample_reg\<lparr>ports := ports sample_reg @ [\<lparr>p_port = 18002, p_instance_id = ''gone'',
     p_status = ''allocated'', p_created_at = ''t0''\<rparr>]\<rparr>"

theorem purge_orphans_witness:
  "rows_of ''my-site'' (commit (purge_orphan_rows orphaned_reg) orphaned_reg)
     = rows_of ''my-site'' orphaned_reg
   \<and> find_orphan_rows orphaned_reg = [(''ports'', ''gone'')]"
proof
  have "known_instance orphaned_reg ''my-site''" by code_simp
  then show "rows_of ''my-site'' (commit (purge_orphan_rows orphaned_reg) orphaned_reg)
      = rows_of ''my-site'' orphaned_reg"
    using purge_orphans by blast
  show "find_orphan_rows orphaned_reg = [(''ports'', ''gone'')]" by code_simp
qed

text \<open>Registering a manifest again keeps what the manifest does not carry: the revision and the
  five observation columns of the row; a new row starts at revision 1. The other instances' rows
  are untouched, and a manifest with a container leaves the instance with exactly that container
  and no static site.\<close>

theorem upsert_keeps_observations:
  assumes "upsert_from_manifest m a z r = Inr ((), r')"
  shows "get_instance i r' = (if i = m_id m
       then Some (case get_instance i r of None \<Rightarrow> instance_row m a z
              | Some old \<Rightarrow> (instance_row m a z)\<lparr>i_observed_state := i_observed_state old,
                  i_observation_error := i_observation_error old,
                  i_last_trusted_state := i_last_trusted_state old,
                  i_last_observed_at := i_last_observed_at old,
                  i_runtime_access := i_runtime_access old, i_revision := i_revision old\<rparr>)
       else get_instance i r)
     \<and> (case m_container m of None \<Rightarrow> True
        | Some c \<Rightarrow> get_container (m_id m) r' = Some (container_row (m_id m) c)
              \<and> get_static_site (m_id m) r' = None)"
proof -
  let ?t = "upsert_row i_id merge_instance (instance_row m a z) (instances r)"
  have "instances r' = ?t"
    using assms by (auto simp: upsert_from_manifest_def Let_def put_container_def put_static_def
        del_static_rows_def del_container_rows_def split: option.splits)
  moreover have "find_by i_id i ?t = (if i = i_id (instance_row m a z)
      then (case find_by i_id i (instances r) of None \<Rightarrow> Some (instance_row m a z)
        | Some x \<Rightarrow> Some (merge_instance x (instance_row m a z)))
      else find_by i_id i (instances r))"
    by (rule find_by_upsert) (simp add: merge_instance_def)
  moreover have "get_container (m_id m) r' = Some (container_row (m_id m) c)
      \<and> get_static_site (m_id m) r' = None" if "m_container m = Some c" for c
  proof -
    have "find_by k_instance_id (m_id m) (upsert_row k_instance_id (\<lambda>_ new. new) (container_row (m_id m) c) t)
       = Some (container_row (m_id m) c)" for t
      by (subst find_by_upsert) (auto simp: container_row_def split: option.split)
    with assms that show ?thesis
      by (auto simp: upsert_from_manifest_def Let_def put_container_def del_static_rows_def
          get_container_def get_static_site_def find_by_del_key)
  qed
  ultimately show ?thesis
    by (auto simp: get_instance_def instance_row_def merge_instance_def split: option.splits)
qed

theorem upsert_keeps_observations_witness:
  "map_option i_revision (get_instance ''my-site'' (snd (projr
     (upsert_from_manifest sample_api None None
        (run_cmd (Cas_revision ''my-site'' 1 ''t'') sample_reg))))) = Some 2"
proof -
  let ?r = "run_cmd (Cas_revision ''my-site'' 1 ''t'') sample_reg"
  have u: "upsert_from_manifest sample_api None None ?r
      = Inr ((), snd (projr (upsert_from_manifest sample_api None None ?r)))"
    by (simp add: upsert_from_manifest_def Let_def)
  have i: "map_option i_revision (get_instance ''my-site'' ?r) = Some 2" "m_id sample_api = ''my-site''"
    by code_simp+
  show ?thesis
    using upsert_keeps_observations [OF u, of "''my-site''"] i
    by (auto split: option.splits)
qed

section \<open>Builds\<close>

lemma upd_where_append: "upd_where P f (t @ u) = upd_where P f t @ upd_where P f u"
  by (simp add: upd_where_def)

lemma supersede_running:
  "\<forall>x \<in> set bs. b_id x \<noteq> n \<Longrightarrow>
     filter (\<lambda>x. b_instance_id x = i \<and> b_status x = ''running'') (supersede i n t bs) = []"
  unfolding supersede_def by (induction bs) auto

text \<open>Starting a build of a registered instance makes it the only running build of that
  instance (older running rows become failed); the builds of other instances are unchanged.\<close>

theorem add_build_supersedes:
  assumes "add_build i ''running'' started log t1 t2 r = Inr (n, r')" "reg_ok r"
  shows "map b_id (filter (\<lambda>x. b_instance_id x = i \<and> b_status x = ''running'') (builds r')) = [n]
     \<and> filter (\<lambda>x. b_instance_id x \<noteq> i) (builds r') = filter (\<lambda>x. b_instance_id x \<noteq> i) (builds r)"
proof -
  let ?row = "\<lparr>b_id = next_build_id r, b_instance_id = i, b_status = ''running'',
     b_started_at = (if truthy started then started else Some t1), b_finished_at = None,
     b_log_path = log, b_error_summary = None, b_image_ref = None, b_image_id = None,
     b_source_hash = None, b_config_snapshot = None\<rparr>"
  have k: "known_instance r i" using assms(1) by (simp add: add_build_def split: if_split_asm)
  have "(next_build_id r, r\<lparr>builds := supersede i (next_build_id r) t2 (builds r @ [?row]),
      next_build_id := next_build_id r + 1\<rparr>) = (n, r')"
    using assms(1) k unfolding add_build_def Let_def not_not
    by (simp only: simp_thms if_False if_True sum.inject not_True_eq_False)
  then have n: "n = next_build_id r"
      and "r' = r\<lparr>builds := supersede i (next_build_id r) t2 (builds r @ [?row]),
      next_build_id := next_build_id r + 1\<rparr>" by blast+
  then have "builds r' = supersede i n t2 (builds r @ [?row])" by simp
  then obtain row where row: "row = ?row" and r': "builds r' = supersede i n t2 (builds r @ [row])"
    by blast
  have row: "b_id row = n" "b_instance_id row = i" "b_status row = ''running''"
    by (simp_all add: row n)
  have "\<forall>x \<in> set (builds r). b_id x \<noteq> n"
    using assms(2) n by (auto simp: reg_ok_def)
  then have "filter (\<lambda>x. b_instance_id x = i \<and> b_status x = ''running'') (supersede i n t2 (builds r)) = []"
    by (rule supersede_running)
  moreover have "supersede i n t2 (builds r @ [row]) = supersede i n t2 (builds r) @ [row]"
    unfolding supersede_def upd_where_append by (simp only: upd_where_simps row simp_thms if_False)
  moreover have "filter (\<lambda>x. b_instance_id x \<noteq> i) (supersede i n t2 bs) = filter (\<lambda>x. b_instance_id x \<noteq> i) bs"
    for bs unfolding supersede_def by (induction bs) auto
  ultimately show ?thesis using row r' by simp
qed

theorem add_build_supersedes_witness:
  "\<exists>r'. add_build ''my-site'' ''running'' None None ''t3'' ''t4'' sample_reg = Inr (2, r')
     \<and> map b_id (filter (\<lambda>x. b_instance_id x = ''my-site'' \<and> b_status x = ''running'') (builds r')) = [2]"
proof -
  have "case add_build ''my-site'' ''running'' None None ''t3'' ''t4'' sample_reg of
      Inr (n, r') \<Rightarrow> n = 2 | Inl _ \<Rightarrow> False" by code_simp
  then obtain r' where r': "add_build ''my-site'' ''running'' None None ''t3'' ''t4'' sample_reg = Inr (2, r')"
    by (auto split: sum.splits)
  from add_build_supersedes [OF this reg_ok_sample] show ?thesis by (simp add: r')
qed

section \<open>The queue of agent operations\<close>

text \<open>A worker that claims gets the oldest queued operation (by creation time, then id), now
  running under its lease; no other operation changes, and there is no claim only when nothing
  is queued.\<close>

theorem claim_takes_oldest:
  assumes "claim_next_agent_operation w now lease r = Inr (res, r')" "reg_ok r"
  shows "case res of
      None \<Rightarrow> r' = r \<and> (\<forall>x \<in> set (agent_operations r). o_status x \<noteq> Queued)
    | Some y \<Rightarrow> \<exists>x \<in> set (agent_operations r). o_status x = Queued
         \<and> (\<forall>z \<in> set (agent_operations r). o_status z = Queued \<longrightarrow> by_created x \<le> by_created z)
         \<and> y = x\<lparr>o_status := Running, o_phase := Some Phase_validate,
                o_worker_identity := Some w, o_lease_until := Some lease, o_updated_at := now\<rparr>
         \<and> (\<forall>j. get_agent_operation j r' =
                (if j = o_operation_id x then Some y else get_agent_operation j r))"
proof (cases "oldest_queued r")
  case None
  then have "filter (\<lambda>x. o_status x = Queued) (agent_operations r) = []"
    by (metis (no_types, lifting) length_0_conv length_sort list.case_eq_if oldest_queued_def option.distinct(1))
  with None assms(1) show ?thesis
    by (auto simp: claim_next_agent_operation_def filter_empty_conv)
next
  case (Some x)
  note x = oldest_queued_SomeD [OF Some]
  let ?f = "\<lambda>x. x\<lparr>o_status := Running, o_phase := Some Phase_validate,
                o_worker_identity := Some w, o_lease_until := Some lease, o_updated_at := now\<rparr>"
  have g: "get_agent_operation (o_operation_id x) r = Some x"
    using find_by_mem [of o_operation_id "agent_operations r" x] x(1) assms(2)
    by (simp add: get_agent_operation_def reg_ok_def)
  with x(2) have "op_hits (o_operation_id x) (\<lambda>x. o_status x = Queued) r = 1"
    using op_hits_iff(1) [OF assms(2)] by blast
  with Some assms(1) have r': "r' = upd_op (o_operation_id x) (\<lambda>x. o_status x = Queued) ?f r"
    "res = get_agent_operation (o_operation_id x) r'"
    by (auto simp: claim_next_agent_operation_def Let_def)
  have "get_agent_operation j r' = (if j = o_operation_id x then Some (?f x) else get_agent_operation j r)" for j
    using g x(2) by (simp add: r'(1) get_upd_op)
  with x r'(2) show ?thesis by auto
qed

theorem claim_takes_oldest_witness:
  "\<exists>y r'. claim_next_agent_operation ''w'' ''t5'' ''t6'' sample_reg = Inr (Some y, r')
     \<and> o_operation_id y = ''op-1'' \<and> get_agent_operation ''op-2'' r' = get_agent_operation ''op-2'' sample_reg"
proof -
  have "case claim_next_agent_operation ''w'' ''t5'' ''t6'' sample_reg of
      Inr (Some y, r') \<Rightarrow> o_operation_id y = ''op-1'' | _ \<Rightarrow> False" by code_simp
  then obtain y r' where y: "claim_next_agent_operation ''w'' ''t5'' ''t6'' sample_reg = Inr (Some y, r')"
      "o_operation_id y = ''op-1''"
    by (auto split: sum.splits option.splits)
  from claim_takes_oldest [OF y(1) reg_ok_sample]
  obtain x where x: "y = x\<lparr>o_status := Running, o_phase := Some Phase_validate,
      o_worker_identity := Some ''w'', o_lease_until := Some ''t6'', o_updated_at := ''t5''\<rparr>"
    "\<And>j. get_agent_operation j r' =
       (if j = o_operation_id x then Some y else get_agent_operation j sample_reg)" by auto
  then have "o_operation_id x = ''op-1''" using y(2) by simp
  then have "get_agent_operation ''op-2'' r' = get_agent_operation ''op-2'' sample_reg"
    using x(2) [of "''op-2''"] by simp
  with y show ?thesis by blast
qed

text \<open>Creating an operation under an idempotency key that is taken changes nothing: the same
  request hash returns the operation stored under the key, another one is a conflict. A new key
  and id store the row.\<close>

theorem create_idempotent:
  "create_agent_operation row r =
     (case find_by op_key (op_key row) (agent_operations r) of
        Some x \<Rightarrow> if o_request_hash x = o_request_hash row then Inr (x, r)
                  else Inl (Idempotency_conflict (o_idempotency_key row))
      | None \<Rightarrow> if get_agent_operation (o_operation_id row) r \<noteq> None then Inl Integrity_error
                else Inr (row, r\<lparr>agent_operations := agent_operations r @ [row]\<rparr>))"
  by (auto simp: create_agent_operation_def get_agent_operation_by_idempotency_def
      get_agent_operation_def op_key_def split: option.splits)

end
