(* ===== verification/Lwa_Text.thy ===== *)
theory Lwa_Text
  imports Lwa_Interfaces
begin

text \<open>
  Python text functions that need numbers or addresses: decimal and hexadecimal numerals, case
  folding, \<open>str.partition\<close>, and what the program uses of the \<^verbatim>\<open>ipaddress\<close> module (Python 3.13):
  parsing an address and its canonical text.
\<close>

section \<open>Numerals\<close>

fun dec :: "nat \<Rightarrow> string" where
  "dec n = (if n < 10 then [char_of (48 + n)] else dec (n div 10) @ [char_of (48 + n mod 10)])"

declare dec.simps [simp del]

definition dec_int :: "int \<Rightarrow> string" where
  "dec_int i = (if i < 0 then CHR ''-'' # dec (nat (- i)) else dec (nat i))"

definition hex_digit :: "nat \<Rightarrow> char" where
  "hex_digit n = (if n < 10 then char_of (48 + n) else char_of (87 + n))"

fun hex :: "nat \<Rightarrow> string" where
  "hex n = (if n < 16 then [hex_digit n] else hex (n div 16) @ [hex_digit (n mod 16)])"

declare hex.simps [simp del]

lemma digit_char [simp]:
  assumes "n < 10"
  shows "is_digit (char_of (48 + n))" "digit_val (char_of (48 + n)) = n"
  using assms by (simp_all add: is_digit_def digit_val_def)

lemma digits_val_snoc [simp]: "digits_val (s @ [c]) = 10 * digits_val s + digit_val c"
  by (simp add: digits_val_def)

lemma digits_val_dec [simp]: "digits_val (dec n) = n"
proof (induction n rule: dec.induct)
  case (1 n)
  show ?case
  proof (cases "n < 10")
    case True
    then show ?thesis by (simp add: dec.simps [of n] digits_val_def)
  next
    case False
    with 1 show ?thesis by (simp add: dec.simps [of n])
  qed
qed

lemma dec_digits: "list_all is_digit (dec n)"
  by (induction n rule: dec.induct) (subst dec.simps, simp)

lemma dec_nonempty [simp]: "dec n \<noteq> []"
  by (subst dec.simps) simp

lemma dec_inj [simp]: "dec m = dec n \<longleftrightarrow> m = n"
  by (metis digits_val_dec)

lemma dec_no_sep: "\<not> is_digit c \<Longrightarrow> c \<notin> set (dec n)"
  using dec_digits [of n] by (auto simp: list_all_iff)

section \<open>Case\<close>

text \<open>ASCII letters only: the program compares the results with ASCII words.\<close>

definition to_lower :: "string \<Rightarrow> string" where
  "to_lower s = map (\<lambda>c. if is_upper c then char_of ((of_char c :: nat) + 32) else c) s"

definition to_upper :: "string \<Rightarrow> string" where
  "to_upper s = map (\<lambda>c. if is_lower c then char_of ((of_char c :: nat) - 32) else c) s"

section \<open>Addresses\<close>

definition parse_octet :: "string \<Rightarrow> nat option" where
  "parse_octet s =
     (if s = [] \<or> \<not> list_all is_digit s \<or> length s > 3 \<or> (s \<noteq> ''0'' \<and> hd s = CHR ''0'')
         \<or> digits_val s > 255 then None
      else Some (digits_val s))"

fun parse_all :: "('a \<Rightarrow> 'b option) \<Rightarrow> 'a list \<Rightarrow> 'b list option" where
  "parse_all f [] = Some []"
| "parse_all f (x # xs) =
     (case f x of None \<Rightarrow> None | Some y \<Rightarrow> map_option (Cons y) (parse_all f xs))"

definition parse_v4 :: "string \<Rightarrow> nat list option" where
  "parse_v4 s = (let octets = split_on CHR ''.'' s in
     if length octets \<noteq> 4 then None else parse_all parse_octet octets)"

definition is_hex :: "char \<Rightarrow> bool" where
  "is_hex c \<longleftrightarrow> is_digit c \<or> c \<in> set ''abcdefABCDEF''"

definition hex_val :: "char \<Rightarrow> nat" where
  "hex_val c = (if is_digit c then digit_val c else if is_lower c then of_char c - 87 else of_char c - 55)"

definition parse_hextet :: "string \<Rightarrow> nat option" where
  "parse_hextet s = (if s = [] \<or> \<not> list_all is_hex s \<or> length s > 4 then None
     else Some (foldl (\<lambda>n c. 16 * n + hex_val c) 0 s))"

definition v6_parts :: "string list \<Rightarrow> nat list option" where
  \<comment> \<open>the parts between the colons, an IPv4 suffix already converted\<close>
  "v6_parts parts =
     (let n = length parts;
          gaps = filter (\<lambda>i. parts ! i = []) [1..<n - 1] in
      if n > 9 then None
      else (case gaps of
        [] \<Rightarrow> if n \<noteq> 8 then None else parse_all parse_hextet parts
      | [g] \<Rightarrow>
          (let hi = (if hd parts = [] then g - 1 else g);
               lo = (if last parts = [] then n - g - 2 else n - g - 1) in
           if hd parts = [] \<and> hi \<noteq> 0 then None
           else if last parts = [] \<and> lo \<noteq> 0 then None
           else if hi + lo \<ge> 8 then None
           else (case (parse_all parse_hextet (take hi parts),
                       parse_all parse_hextet (drop (n - lo) parts)) of
               (Some xs, Some ys) \<Rightarrow> Some (xs @ replicate (8 - (hi + lo)) 0 @ ys)
             | _ \<Rightarrow> None))
      | _ \<Rightarrow> None))"

definition parse_v6 :: "string \<Rightarrow> (nat list \<times> string option) option" where
  "parse_v6 s =
     (if CHR ''/'' \<in> set s then None
      else (case split_on CHR ''%'' s of
        addr # scope \<Rightarrow>
          if length scope > 1 \<or> scope = [[]] then None
          else (let parts = split_on CHR '':'' addr;
                    sc = (case scope of [] \<Rightarrow> None | z # _ \<Rightarrow> Some z) in
            if length parts < 3 then None
            else if CHR ''.'' \<in> set (last parts)
            then (case parse_v4 (last parts) of
                Some [a, b, c, d] \<Rightarrow> map_option (\<lambda>v. (v, sc))
                  (v6_parts (butlast parts @ [hex (256 * a + b), hex (256 * c + d)]))
              | _ \<Rightarrow> None)
            else map_option (\<lambda>v. (v, sc)) (v6_parts parts))
      | [] \<Rightarrow> None))"

datatype ip = V4 "nat list" | V6 "nat list" "string option"

definition ip_address :: "string \<Rightarrow> ip option" where
  "ip_address s =
     (case parse_v4 s of
        Some os \<Rightarrow> Some (V4 os)
      | None \<Rightarrow> (case parse_v6 s of Some (hs, sc) \<Rightarrow> Some (V6 hs sc) | None \<Rightarrow> None))"

text \<open>The first longest run of at least two zero hextets becomes \<open>::\<close>.\<close>

fun zero_run :: "nat list \<Rightarrow> nat" where
  "zero_run (0 # hs) = Suc (zero_run hs)"
| "zero_run _ = 0"

definition best_run :: "nat list \<Rightarrow> nat \<times> nat" where
  \<comment> \<open>start and length\<close>
  "best_run hs = foldl (\<lambda>(s, l) i. let r = zero_run (drop i hs) in if r > l then (i, r) else (s, l))
     (0, 0) [0..<length hs]"

definition str_hextets :: "nat list \<Rightarrow> string" where
  "str_hextets hs =
     (let (s, l) = best_run hs in
      if l < 2 then join_on CHR '':'' (map hex hs)
      else join_on CHR '':'' (map hex (take s hs)) @ ''::'' @ join_on CHR '':'' (map hex (drop (s + l) hs)))"

definition str_v4 :: "nat list \<Rightarrow> string" where
  "str_v4 os = join_on CHR ''.'' (map dec os)"

definition v4_mapped :: "nat list \<Rightarrow> bool" where
  "v4_mapped hs \<longleftrightarrow> length hs = 8 \<and> take 6 hs = [0, 0, 0, 0, 0, 65535]"

fun str_ip :: "ip \<Rightarrow> string" where
  "str_ip (V4 os) = str_v4 os"
| "str_ip (V6 hs sc) =
     (if v4_mapped hs
      then ''::ffff:'' @ str_v4 [hs ! 6 div 256, hs ! 6 mod 256, hs ! 7 div 256, hs ! 7 mod 256]
      else str_hextets hs)
     @ (case sc of None \<Rightarrow> [] | Some z \<Rightarrow> CHR ''%'' # z)"

lemma parse_all_map: "(\<And>x. x \<in> set xs \<Longrightarrow> f (g x) = Some x) \<Longrightarrow> parse_all f (map g xs) = Some xs"
  by (induction xs) auto

lemma parse_all_set: "parse_all f xs = Some ys \<Longrightarrow> y \<in> set ys \<Longrightarrow> \<exists>x \<in> set xs. f x = Some y"
  by (induction xs arbitrary: ys) (auto split: option.splits)

lemma parse_all_length: "parse_all f xs = Some ys \<Longrightarrow> length ys = length xs"
  by (induction xs arbitrary: ys) (auto split: option.splits)

lemma dec_length: "n < 10 ^ Suc k \<Longrightarrow> length (dec n) \<le> Suc k"
proof (induction k arbitrary: n)
  case 0
  then show ?case by (simp add: dec.simps [of n])
next
  case (Suc k)
  then have "n div 10 < 10 ^ Suc k" by auto
  then have "length (dec (n div 10)) \<le> Suc k" by (rule Suc.IH)
  then show ?case by (simp add: dec.simps [of n])
qed

lemma hd_dec: "n \<noteq> 0 \<Longrightarrow> hd (dec n) \<noteq> CHR ''0''"
proof (induction n rule: dec.induct)
  case (1 n)
  show ?case
  proof (cases "n < 10")
    case True
    have "digit_val CHR ''0'' = 0" by code_simp
    then have "hd (dec n) = CHR ''0'' \<Longrightarrow> n = 0"
      using True by (metis dec.simps digit_char(2) list.sel(1))
    with 1(2) show ?thesis by blast
  next
    case False
    then have "n div 10 \<noteq> 0" by auto
    with 1(1) False show ?thesis by (simp add: dec.simps [of n])
  qed
qed

lemma dec_octet:
  assumes "n < 256" shows "parse_octet (dec n) = Some n"
proof -
  have "length (dec n) \<le> 3" using dec_length [of n 2] assms by (simp add: eval_nat_numeral)
  moreover have "dec n \<noteq> ''0'' \<Longrightarrow> hd (dec n) \<noteq> CHR ''0''"
    using hd_dec [of n] by (cases "n = 0") (auto simp: dec.simps)
  ultimately show ?thesis using dec_digits [of n] assms by (auto simp: parse_octet_def)
qed

lemma parse_str_v4: "length os = 4 \<Longrightarrow> (\<And>n. n \<in> set os \<Longrightarrow> n < 256) \<Longrightarrow> parse_v4 (str_v4 os) = Some os"
proof -
  assume os: "length os = 4" "\<And>n. n \<in> set os \<Longrightarrow> n < 256"
  have "\<not> is_digit CHR ''.''" by code_simp
  then have "CHR ''.'' \<notin> set (dec n)" for n by (rule dec_no_sep)
  then have "split_on CHR ''.'' (str_v4 os) = map dec os"
    unfolding str_v4_def using os(1) by (intro split_join) auto
  moreover have "parse_all parse_octet (map dec os) = Some os"
    using os(2) by (intro parse_all_map) (simp add: dec_octet)
  ultimately show ?thesis using os(1) by (simp add: parse_v4_def)
qed

lemma parse_v4_SomeD: "parse_v4 s = Some os \<Longrightarrow> length os = 4 \<and> (\<forall>n \<in> set os. n < 256)"
proof -
  assume p: "parse_v4 s = Some os"
  let ?ws = "split_on CHR ''.'' s"
  have ws: "length ?ws = 4" and all: "parse_all parse_octet ?ws = Some os"
    using p by (auto simp: parse_v4_def Let_def split: if_split_asm)
  have "n < 256" if "n \<in> set os" for n
    using parse_all_set [OF all that] by (auto simp: parse_octet_def split: if_split_asm)
  with ws parse_all_length [OF all] show ?thesis by simp
qed

end
