(* ===== verification/Build_Gate.thy ===== *)
theory Build_Gate
  imports Lwa_Text
begin

text \<open>
  Models the cross-process build gate of \<^verbatim>\<open>build_queue.py\<close>: the tables \<open>build_slots\<close> and
  \<open>build_tasks\<close> of \<^verbatim>\<open>build-locks.db\<close> and the operations of \<open>CrossProcessBuildGate\<close>. Which
  processes are alive is a parameter of each operation; a time is the value that \<open>time.time()\<close>
  returned. \<open>pending_kills\<close> is the list that the gate object of one process keeps in memory.
\<close>

section \<open>Task statuses\<close>

datatype task_status =
    T_queued | T_building | T_cancelling | T_success | T_failed | T_cancelled | T_cancel_failed

fun BUILD_TASK_TRANSITIONS :: "task_status \<Rightarrow> task_status list" where
  "BUILD_TASK_TRANSITIONS T_queued = [T_queued, T_building, T_cancelled, T_failed]"
| "BUILD_TASK_TRANSITIONS T_building = [T_building, T_cancelling, T_cancelled, T_success, T_failed]"
| "BUILD_TASK_TRANSITIONS T_cancelling = [T_cancelling, T_cancelled, T_cancel_failed]"
| "BUILD_TASK_TRANSITIONS T_success = [T_success]"
| "BUILD_TASK_TRANSITIONS T_failed = [T_failed]"
| "BUILD_TASK_TRANSITIONS T_cancelled = [T_cancelled]"
| "BUILD_TASK_TRANSITIONS T_cancel_failed = [T_cancel_failed]"

definition task_allowed :: "task_status \<Rightarrow> task_status \<Rightarrow> bool" where
  "task_allowed s t \<longleftrightarrow> t \<in> set (BUILD_TASK_TRANSITIONS s)"

definition task_final :: "task_status \<Rightarrow> bool" where
  "task_final s \<longleftrightarrow> s \<in> {T_success, T_failed, T_cancelled, T_cancel_failed}"

definition task_active :: "task_status \<Rightarrow> bool" where
  "task_active s \<longleftrightarrow> s \<in> {T_queued, T_building, T_cancelling}"

interpretation build_status: status_machine task_allowed task_final
  by unfold_locales (auto simp: task_allowed_def task_final_def)

section \<open>Tables\<close>

record slot_row =
  sl_slot :: nat
  sl_instance_id :: string
  sl_pid :: int
  sl_acquired_at :: int

record task_row =
  tk_instance_id :: string
  tk_build_token :: string
  tk_status :: task_status
  tk_owner_pid :: int
  tk_owner_identity :: string
  tk_worker_pid :: "int option"
  tk_worker_pgid :: "int option"
  tk_worker_identity :: "string option"
  tk_cancel_requested_at :: "int option"
  tk_updated_at :: int

record kill_order =
  ko_pid :: int
  ko_pgid :: "int option"
  ko_identity :: string

record gate =
  build_slots :: "slot_row list"
  build_tasks :: "task_row list"
  pending_kills :: "kill_order list"

definition empty_gate :: gate where
  "empty_gate = \<lparr>build_slots = [], build_tasks = [], pending_kills = []\<rparr>"

section \<open>Slots\<close>

definition dead_task :: "(int \<Rightarrow> bool) \<Rightarrow> task_row \<Rightarrow> bool" where
  "dead_task alive t \<longleftrightarrow> task_active (tk_status t) \<and> \<not> alive (tk_owner_pid t)"

definition kill_order_of :: "task_row \<Rightarrow> kill_order option" where
  "kill_order_of t = map_option (\<lambda>p. \<lparr>ko_pid = p, ko_pgid = tk_worker_pgid t,
     ko_identity = (case tk_worker_identity t of None \<Rightarrow> [] | Some s \<Rightarrow> s)\<rparr>) (tk_worker_pid t)"

definition reclaimed :: "int \<Rightarrow> task_row \<Rightarrow> task_row" where
  "reclaimed now t = t\<lparr>tk_status := T_cancelled,
     tk_cancel_requested_at := coalesce (tk_cancel_requested_at t) (Some now),
     tk_worker_pid := None, tk_worker_pgid := None, tk_worker_identity := None, tk_updated_at := now\<rparr>"

definition reclaim_dead :: "(int \<Rightarrow> bool) \<Rightarrow> int \<Rightarrow> gate \<Rightarrow> gate" where
  "reclaim_dead alive now g = g\<lparr>
     build_slots := del_where (\<lambda>s. \<not> alive (sl_pid s)) (build_slots g),
     pending_kills := pending_kills g
       @ List.map_filter kill_order_of (filter (dead_task alive) (build_tasks g)),
     build_tasks := upd_where (dead_task alive) (reclaimed now) (build_tasks g)\<rparr>"

definition free_slot :: "nat \<Rightarrow> gate \<Rightarrow> nat option" where
  "free_slot concurrency g = find (\<lambda>s. s \<notin> sl_slot ` set (build_slots g)) [0..<concurrency]"

text \<open>A drained kill is handed to the operating system; the orders are the second result.\<close>

definition drain_pending_kills :: "gate \<Rightarrow> gate \<times> kill_order list" where
  "drain_pending_kills g = (g\<lparr>pending_kills := []\<rparr>, pending_kills g)"

text \<open>\<open>locked\<close> says that the database reports a conflict (\<open>OperationalError\<close>) after the reclaim.
  A rollback restores the tables, not the list in memory.\<close>

definition try_acquire ::
  "bool \<Rightarrow> (int \<Rightarrow> bool) \<Rightarrow> nat \<Rightarrow> int \<Rightarrow> int \<Rightarrow> string \<Rightarrow> gate \<Rightarrow> nat option \<times> gate \<times> kill_order list" where
  "try_acquire locked alive concurrency pid now i g =
     (let g1 = reclaim_dead alive now g;
          back = g\<lparr>pending_kills := pending_kills g1\<rparr> in
      if locked then (let (g', ks) = drain_pending_kills back in (None, g', ks))
      else (case free_slot concurrency g1 of
          None \<Rightarrow> (None, back, [])
        | Some slot \<Rightarrow>
            (let (g', ks) = drain_pending_kills (g1\<lparr>build_slots := build_slots g1 @
                   [\<lparr>sl_slot = slot, sl_instance_id = i, sl_pid = pid, sl_acquired_at = now\<rparr>]\<rparr>) in
             (Some slot, g', ks))))"

definition release_slot :: "nat option \<Rightarrow> int \<Rightarrow> gate \<Rightarrow> gate" where
  "release_slot slot pid g =
     (case slot of
        None \<Rightarrow> g
      | Some s \<Rightarrow> g\<lparr>build_slots := del_where (\<lambda>x. sl_slot x = s \<and> sl_pid x = pid) (build_slots g)\<rparr>)"

definition release_instance_slots :: "string \<Rightarrow> int \<Rightarrow> gate \<Rightarrow> gate" where
  "release_instance_slots i pid g =
     g\<lparr>build_slots := del_where (\<lambda>x. sl_instance_id x = i \<and> sl_pid x = pid) (build_slots g)\<rparr>"

definition active_slots :: "gate \<Rightarrow> nat" where
  "active_slots g = length (build_slots g)"

section \<open>Tasks\<close>

definition get_build_task :: "string \<Rightarrow> gate \<Rightarrow> task_row option" where
  "get_build_task i g = find_by tk_instance_id i (build_tasks g)"

definition upd_task :: "string \<Rightarrow> string \<Rightarrow> (task_row \<Rightarrow> task_row) \<Rightarrow> gate \<Rightarrow> gate" where
  "upd_task i token f g = g\<lparr>build_tasks :=
     upd_where (\<lambda>t. tk_instance_id t = i \<and> tk_build_token t = token) f (build_tasks g)\<rparr>"

definition upsert_build_task :: "task_row \<Rightarrow> bool \<Rightarrow> gate \<Rightarrow> bool \<times> gate" where
  \<comment> \<open>the row holds the keyword arguments and the time of the call\<close>
  "upsert_build_task a replace_generation g =
     (let i = tk_instance_id a; token = tk_build_token a in
      case get_build_task i g of
        None \<Rightarrow> (True, g\<lparr>build_tasks := build_tasks g @ [a]\<rparr>)
      | Some row \<Rightarrow>
          if tk_build_token row \<noteq> token then
            (if \<not> replace_generation then (False, g)
             else (True, g\<lparr>build_tasks := upd_where (\<lambda>t. tk_instance_id t = i) (\<lambda>_. a) (build_tasks g)\<rparr>))
          else if tk_status a \<notin> set (BUILD_TASK_TRANSITIONS (tk_status row)) then (False, g)
          else (True, upd_task i token (\<lambda>t. t\<lparr>tk_status := tk_status a,
                 tk_owner_pid := tk_owner_pid a, tk_owner_identity := tk_owner_identity a,
                 tk_worker_pid := coalesce (tk_worker_pid a) (tk_worker_pid t),
                 tk_worker_pgid := coalesce (tk_worker_pgid a) (tk_worker_pgid t),
                 tk_worker_identity := coalesce (tk_worker_identity a) (tk_worker_identity t),
                 tk_cancel_requested_at := coalesce (tk_cancel_requested_at a) (tk_cancel_requested_at t),
                 tk_updated_at := tk_updated_at a\<rparr>) g))"

record task_update =
  tu_status :: "task_status option"
  tu_worker_pid :: "int option"
  tu_worker_pgid :: "int option"
  tu_worker_identity :: "string option"
  tu_cancel_requested_at :: "int option"
  tu_clear_worker :: bool

definition no_task_update :: task_update where
  "no_task_update = \<lparr>tu_status = None, tu_worker_pid = None, tu_worker_pgid = None,
     tu_worker_identity = None, tu_cancel_requested_at = None, tu_clear_worker = False\<rparr>"

definition apply_task_update :: "task_update \<Rightarrow> int \<Rightarrow> task_row \<Rightarrow> task_row" where
  "apply_task_update u now t =
     (let t1 = t\<lparr>tk_status := (case tu_status u of None \<Rightarrow> tk_status t | Some s \<Rightarrow> s)\<rparr>;
          t2 = (if tu_clear_worker u
                then t1\<lparr>tk_worker_pid := None, tk_worker_pgid := None, tk_worker_identity := None\<rparr>
                else t1\<lparr>tk_worker_pid := coalesce (tu_worker_pid u) (tk_worker_pid t1),
                        tk_worker_pgid := coalesce (tu_worker_pgid u) (tk_worker_pgid t1),
                        tk_worker_identity := coalesce (tu_worker_identity u) (tk_worker_identity t1)\<rparr>) in
      t2\<lparr>tk_cancel_requested_at := coalesce (tu_cancel_requested_at u) (tk_cancel_requested_at t2),
         tk_updated_at := now\<rparr>)"

definition update_build_task :: "string \<Rightarrow> string \<Rightarrow> task_update \<Rightarrow> int \<Rightarrow> gate \<Rightarrow> bool \<times> gate" where
  "update_build_task i token u now g =
     (case find (\<lambda>t. tk_instance_id t = i \<and> tk_build_token t = token) (build_tasks g) of
        None \<Rightarrow> (False, g)
      | Some row \<Rightarrow>
          if (case tu_status u of None \<Rightarrow> False
              | Some s \<Rightarrow> s \<notin> set (BUILD_TASK_TRANSITIONS (tk_status row))) then (False, g)
          else (True, upd_task i token (\<lambda>_. apply_task_update u now row) g))"

definition clear_build_task :: "string \<Rightarrow> gate \<Rightarrow> gate" where
  "clear_build_task i g = g\<lparr>build_tasks := del_where (\<lambda>t. tk_instance_id t = i) (build_tasks g)\<rparr>"

definition is_cancel_requested :: "string \<Rightarrow> string \<Rightarrow> gate \<Rightarrow> bool" where
  "is_cancel_requested i token g =
     (case get_build_task i g of
        None \<Rightarrow> False
      | Some row \<Rightarrow> tk_build_token row = token
          \<and> (tk_status row \<in> {T_cancelling, T_cancelled} \<or> tk_cancel_requested_at row \<noteq> None))"

section \<open>Commands of all processes\<close>

text \<open>The writes that any process performs, each one transaction.\<close>

datatype gate_cmd =
    G_acquire bool "int list" nat int int string
  | G_release "nat option" int
  | G_release_instance string int
  | G_upsert task_row bool
  | G_update string string task_update int
  | G_clear string

fun run_gate_cmd :: "gate_cmd \<Rightarrow> gate \<Rightarrow> gate" where
  "run_gate_cmd (G_acquire locked live c pid now i) g =
     fst (snd (try_acquire locked (\<lambda>p. p \<in> set live) c pid now i g))"
| "run_gate_cmd (G_release s pid) g = release_slot s pid g"
| "run_gate_cmd (G_release_instance i pid) g = release_instance_slots i pid g"
| "run_gate_cmd (G_upsert a rep) g = snd (upsert_build_task a rep g)"
| "run_gate_cmd (G_update i tok u now) g = snd (update_build_task i tok u now g)"
| "run_gate_cmd (G_clear i) g = clear_build_task i g"

section \<open>Facts\<close>

definition gate_ok :: "nat \<Rightarrow> gate \<Rightarrow> bool" where
  "gate_ok C g \<longleftrightarrow> pk_ok sl_slot (build_slots g) \<and> (\<forall>s \<in> set (build_slots g). sl_slot s < C)
     \<and> pk_ok tk_instance_id (build_tasks g)"

definition cmd_concurrency :: "gate_cmd \<Rightarrow> nat" where
  "cmd_concurrency c = (case c of G_acquire _ _ n _ _ _ \<Rightarrow> n | _ \<Rightarrow> 0)"

lemma free_slot_None: "free_slot c g = None \<longleftrightarrow> (\<forall>s < c. s \<in> sl_slot ` set (build_slots g))"
  by (auto simp: free_slot_def find_None_iff)

lemma free_slot_Some: "free_slot c g = Some s \<Longrightarrow> s < c \<and> s \<notin> sl_slot ` set (build_slots g)"
  by (auto simp: free_slot_def find_Some_iff)

lemma pk_ok_task_upd:
  assumes "\<And>t. P t \<Longrightarrow> tk_instance_id (f t) = tk_instance_id t"
  shows "pk_ok tk_instance_id (upd_where P f ts) = pk_ok tk_instance_id ts"
  by (rule pk_ok_upd_where) (rule assms)

lemma gate_ok_reclaim: "gate_ok C g \<Longrightarrow> gate_ok C (reclaim_dead alive now g)"
  by (simp add: gate_ok_def reclaim_dead_def pk_ok_del_where pk_ok_task_upd reclaimed_def)

lemma gate_ok_acquire:
  assumes "gate_ok C g" "c \<le> C"
  shows "gate_ok C (fst (snd (try_acquire locked alive c pid now i g)))"
proof -
  let ?g1 = "reclaim_dead alive now g"
  have ok: "gate_ok C ?g1" using assms(1) by (rule gate_ok_reclaim)
  have kept: "gate_ok C (g\<lparr>pending_kills := ks\<rparr>)" for ks
    using assms(1) by (simp add: gate_ok_def)
  show ?thesis
  proof (cases "free_slot c ?g1")
    case (Some s)
    then have "s < C" "s \<notin> sl_slot ` set (build_slots ?g1)"
      using free_slot_Some assms(2) by fastforce+
    with ok have "gate_ok C (?g1\<lparr>build_slots := build_slots ?g1 @ [\<lparr>sl_slot = s, sl_instance_id = i,
        sl_pid = pid, sl_acquired_at = now\<rparr>], pending_kills := []\<rparr>)"
      by (auto simp: gate_ok_def pk_ok_snoc find_by_None_iff)
    with Some kept show ?thesis by (simp add: try_acquire_def Let_def drain_pending_kills_def)
  qed (simp add: try_acquire_def Let_def drain_pending_kills_def kept)
qed

lemma find_pair_task:
  "pk_ok tk_instance_id ts \<Longrightarrow> find (\<lambda>t. tk_instance_id t = i \<and> tk_build_token t = tok) ts =
     (case find_by tk_instance_id i ts of None \<Rightarrow> None
      | Some row \<Rightarrow> if tk_build_token row = tok then Some row else None)"
  unfolding pk_ok_def
proof (induction ts)
  case (Cons t ts)
  have "find (\<lambda>t. tk_instance_id t = i \<and> tk_build_token t = tok) ts = None" if "tk_instance_id t = i"
    using Cons.prems that by (auto simp: find_None_iff image_iff)
  with Cons show ?case by auto
qed simp

lemma gate_ok_upsert: "gate_ok C g \<Longrightarrow> gate_ok C (snd (upsert_build_task a rep g))"
proof -
  assume g: "gate_ok C g"
  then have "pk_ok tk_instance_id (build_tasks g)" by (simp add: gate_ok_def)
  then have "pk_ok tk_instance_id (upd_where (\<lambda>t. tk_instance_id t = tk_instance_id a) (\<lambda>_. a) (build_tasks g))"
    by (subst pk_ok_task_upd) auto
  with g show ?thesis
    by (auto simp: upsert_build_task_def Let_def gate_ok_def get_build_task_def upd_task_def
        pk_ok_snoc pk_ok_task_upd split: option.splits)
qed

lemma tk_instance_apply [simp]:
  "tk_instance_id (apply_task_update u now t) = tk_instance_id t"
  "tk_build_token (apply_task_update u now t) = tk_build_token t"
  by (simp_all add: apply_task_update_def Let_def)

lemma gate_ok_update: "gate_ok C g \<Longrightarrow> gate_ok C (snd (update_build_task i tok u now g))"
proof -
  assume g: "gate_ok C g"
  have "pk_ok tk_instance_id (upd_where (\<lambda>t. tk_instance_id t = i \<and> tk_build_token t = tok)
      (\<lambda>_. apply_task_update u now row) (build_tasks g))" if "tk_instance_id row = i" for row
    using g that by (subst pk_ok_task_upd) (auto simp: gate_ok_def)
  with g show ?thesis
    by (auto simp: update_build_task_def upd_task_def gate_ok_def find_Some_iff split: option.splits)
qed

lemma gate_ok_run:
  assumes "gate_ok C g" "cmd_concurrency cmd \<le> C"
  shows "gate_ok C (run_gate_cmd cmd g)"
proof (cases cmd)
  case (G_acquire locked live c pid now i)
  with assms show ?thesis by (simp add: gate_ok_acquire cmd_concurrency_def)
next
  case (G_release s pid)
  with assms show ?thesis
    by (cases s) (simp_all add: release_slot_def gate_ok_def pk_ok_del_where)
next
  case (G_release_instance i pid)
  with assms show ?thesis by (simp add: release_instance_slots_def gate_ok_def pk_ok_del_where)
next
  case (G_clear i)
  with assms show ?thesis by (simp add: clear_build_task_def gate_ok_def pk_ok_del_where)
qed (use assms in \<open>simp_all add: gate_ok_upsert gate_ok_update\<close>)

lemma gate_ok_fold:
  "gate_ok C g \<Longrightarrow> (\<And>c. c \<in> set cmds \<Longrightarrow> cmd_concurrency c \<le> C) \<Longrightarrow> gate_ok C (fold run_gate_cmd cmds g)"
  by (induction cmds arbitrary: g) (simp_all add: gate_ok_run)

lemma gate_ok_slots: "gate_ok C g \<Longrightarrow> length (build_slots g) \<le> C"
proof -
  assume "gate_ok C g"
  then have "distinct (map sl_slot (build_slots g))" "set (map sl_slot (build_slots g)) \<subseteq> {..<C}"
    by (auto simp: gate_ok_def pk_ok_def)
  then have "length (map sl_slot (build_slots g)) \<le> C"
    by (metis card_lessThan card_mono distinct_card finite_lessThan)
  then show ?thesis by simp
qed


definition three_acquires :: "gate_cmd list" where
  "three_acquires = [G_acquire False [7, 8, 9] 2 7 0 ''a'', G_acquire False [7, 8, 9] 2 8 1 ''b'',
     G_acquire False [7, 8, 9] 2 9 2 ''c'']"


section \<open>The status of a task over time\<close>

text \<open>The status of the generation \<open>tok\<close> of the task of instance \<open>i\<close>.\<close>

definition token_status :: "string \<Rightarrow> string \<Rightarrow> gate \<Rightarrow> task_status option" where
  "token_status i tok g = (case get_build_task i g of
     None \<Rightarrow> None | Some row \<Rightarrow> if tk_build_token row = tok then Some (tk_status row) else None)"

text \<open>Commands that end the generation: deleting the row, or replacing it by a new generation.\<close>

definition ends_generation :: "string \<Rightarrow> string \<Rightarrow> gate_cmd \<Rightarrow> bool" where
  "ends_generation i tok c = (case c of
     G_clear j \<Rightarrow> j = i
   | G_upsert a rep \<Rightarrow> rep \<and> tk_instance_id a = i \<and> tk_build_token a \<noteq> tok
   | _ \<Rightarrow> False)"

fun statuses_after :: "string \<Rightarrow> string \<Rightarrow> gate_cmd list \<Rightarrow> gate \<Rightarrow> task_status list" where
  "statuses_after i tok [] g = []"
| "statuses_after i tok (c # cs) g =
     (let g' = run_gate_cmd c g in the (token_status i tok g') # statuses_after i tok cs g')"

lemma get_build_task_upd:
  assumes "\<And>t. P t \<Longrightarrow> tk_instance_id (f t) = tk_instance_id t"
  shows "get_build_task i (g\<lparr>build_tasks := upd_where P f (build_tasks g)\<rparr>) =
     map_option (\<lambda>t. if P t then f t else t) (get_build_task i g)"
  using find_by_upd_where [of P tk_instance_id f i "build_tasks g"] assms
  by (simp add: get_build_task_def)

lemma get_build_task_cong: "build_tasks g = build_tasks h \<Longrightarrow> get_build_task i g = get_build_task i h"
  by (simp add: get_build_task_def)

lemma token_status_cong: "build_tasks g = build_tasks h \<Longrightarrow> token_status i tok g = token_status i tok h"
  by (simp add: token_status_def get_build_task_def)

lemma get_build_task_key: "get_build_task i g = Some t \<Longrightarrow> tk_instance_id t = i"
  unfolding get_build_task_def by (rule find_by_key)

lemma allowed_cancelled: "task_active s \<Longrightarrow> task_allowed s T_cancelled"
  by (cases s) (simp_all add: task_active_def task_allowed_def)

lemma token_status_Some:
  "token_status i tok g = Some s \<longleftrightarrow>
     (\<exists>t. get_build_task i g = Some t \<and> tk_build_token t = tok \<and> tk_status t = s)"
  by (cases "get_build_task i g") (simp_all add: token_status_def)

lemma token_statusI:
  "get_build_task i g = Some t \<Longrightarrow> tk_build_token t = tok \<Longrightarrow> token_status i tok g = Some (tk_status t)"
  by (simp add: token_status_def)

lemma token_statusE:
  assumes "token_status i tok g = Some s"
  obtains t where "get_build_task i g = Some t" "tk_build_token t = tok" "tk_status t = s"
    "tk_instance_id t = i"
  using assms get_build_task_key by (auto simp: token_status_Some)

lemma get_upd_task:
  assumes "\<And>t. tk_instance_id t = j \<Longrightarrow> tk_instance_id (f t) = j"
  shows "get_build_task i (upd_task j tok f g) =
     map_option (\<lambda>t. if tk_instance_id t = j \<and> tk_build_token t = tok then f t else t) (get_build_task i g)"
  unfolding upd_task_def by (rule get_build_task_upd) (use assms in auto)

lemma get_replace_task:
  "get_build_task i (g\<lparr>build_tasks := upd_where (\<lambda>t. tk_instance_id t = tk_instance_id a) (\<lambda>_. a) (build_tasks g)\<rparr>)
   = map_option (\<lambda>t. if tk_instance_id t = tk_instance_id a then a else t) (get_build_task i g)"
  by (rule get_build_task_upd) simp

lemma get_reclaim: "get_build_task i (reclaim_dead alive now g)
     = map_option (\<lambda>t. if dead_task alive t then reclaimed now t else t) (get_build_task i g)"
proof -
  have "get_build_task i (g\<lparr>build_tasks := upd_where (dead_task alive) (reclaimed now) (build_tasks g)\<rparr>)
      = map_option (\<lambda>t. if dead_task alive t then reclaimed now t else t) (get_build_task i g)"
    by (rule get_build_task_upd) (simp add: reclaimed_def)
  then show ?thesis by (simp add: get_build_task_def reclaim_dead_def)
qed

lemma token_status_reclaim:
  assumes "token_status i tok g = Some s"
  shows "\<exists>s'. token_status i tok (reclaim_dead alive now g) = Some s' \<and> (s' = s \<or> task_allowed s s')"
  using assms
proof (rule token_statusE)
  fix t assume t: "get_build_task i g = Some t" "tk_build_token t = tok" "tk_status t = s"
  show ?thesis
  proof (cases "dead_task alive t")
    case True
    have "token_status i tok (reclaim_dead alive now g) = Some (tk_status (reclaimed now t))"
      by (rule token_statusI) (simp_all add: get_reclaim t True, simp add: reclaimed_def t)
    moreover have "task_allowed s T_cancelled"
      using True t(3) by (auto simp: dead_task_def intro: allowed_cancelled)
    ultimately show ?thesis by (simp add: reclaimed_def)
  next
    case False
    have "token_status i tok (reclaim_dead alive now g) = Some (tk_status t)"
      by (rule token_statusI) (simp_all add: get_reclaim t False)
    with t(3) show ?thesis by simp
  qed
qed

lemma token_status_acquire:
  assumes "token_status i tok g = Some s"
  shows "\<exists>s'. token_status i tok (fst (snd (try_acquire locked alive c pid now j g))) = Some s'
     \<and> (s' = s \<or> task_allowed s s')"
proof -
  let ?g' = "fst (snd (try_acquire locked alive c pid now j g))"
  have "build_tasks ?g' = build_tasks g \<or> build_tasks ?g' = build_tasks (reclaim_dead alive now g)"
    by (auto simp: try_acquire_def Let_def drain_pending_kills_def split: option.splits)
  then show ?thesis
    using token_status_reclaim [OF assms, of alive now] assms token_status_cong by metis
qed

lemma token_status_upsert:
  assumes "token_status i tok g = Some s" "\<not> ends_generation i tok (G_upsert a rep)"
  shows "\<exists>s'. token_status i tok (snd (upsert_build_task a rep g)) = Some s'
     \<and> (s' = s \<or> task_allowed s s')"
  using assms(1)
proof (rule token_statusE)
  fix t assume t: "get_build_task i g = Some t" "tk_build_token t = tok" "tk_status t = s"
    "tk_instance_id t = i"
  let ?g' = "snd (upsert_build_task a rep g)"
  let ?same = "tk_instance_id a = i \<and> tk_build_token a = tok \<and> tk_status a \<in> set (BUILD_TASK_TRANSITIONS s)"
  have "\<exists>t'. get_build_task i ?g' = Some t' \<and> tk_build_token t' = tok
      \<and> tk_status t' = (if ?same then tk_status a else s)"
  proof (cases "get_build_task (tk_instance_id a) g")
    case None
    with t have "tk_instance_id a \<noteq> i" by auto
    with None t show ?thesis
      by (simp add: upsert_build_task_def Let_def get_build_task_def find_by_append)
  next
    case (Some row)
    have row: "tk_instance_id row = tk_instance_id a" using Some by (rule get_build_task_key)
    show ?thesis
    proof (cases "tk_instance_id a = i")
      case True
      with Some t(1) have "row = t" by simp
      with Some True t assms(2) show ?thesis
        by (simp add: upsert_build_task_def Let_def get_upd_task ends_generation_def)
    next
      case False
      with Some t show ?thesis
        by (simp add: upsert_build_task_def Let_def get_upd_task get_replace_task)
    qed
  qed
  then show ?thesis using token_statusI by (fastforce simp: task_allowed_def split: if_splits)
qed

lemma token_status_update:
  assumes "token_status i tok g = Some s" "pk_ok tk_instance_id (build_tasks g)"
  shows "\<exists>s'. token_status i tok (snd (update_build_task j tok' u now g)) = Some s'
     \<and> (s' = s \<or> task_allowed s s')"
  using assms(1)
proof (rule token_statusE)
  fix t assume t: "get_build_task i g = Some t" "tk_build_token t = tok" "tk_status t = s"
    "tk_instance_id t = i"
  have f: "find (\<lambda>t. tk_instance_id t = j \<and> tk_build_token t = tok') (build_tasks g) =
     (case get_build_task j g of None \<Rightarrow> None | Some row \<Rightarrow> if tk_build_token row = tok' then Some row else None)"
    using find_pair_task [OF assms(2)] by (simp add: get_build_task_def)
  show ?thesis
  proof (cases "j = i \<and> tok' = tok")
    case True
    then have ff: "find (\<lambda>t. tk_instance_id t = j \<and> tk_build_token t = tok') (build_tasks g) = Some t"
      using f t by simp
    have st: "tk_status (apply_task_update u now t) = (case tu_status u of None \<Rightarrow> s | Some s' \<Rightarrow> s')"
      using t(3) by (simp add: apply_task_update_def Let_def split: option.split)
    have g: "get_build_task i (upd_task j tok' (\<lambda>_. apply_task_update u now t) g)
        = Some (apply_task_update u now t)"
      using True t by (subst get_upd_task) simp_all
    have "token_status i tok (upd_task j tok' (\<lambda>_. apply_task_update u now t) g)
        = Some (tk_status (apply_task_update u now t))"
      by (rule token_statusI [OF g]) (simp add: t)
    with ff st t(3) assms(1) show ?thesis
      by (auto simp: update_build_task_def task_allowed_def split: option.splits)
  next
    case False
    have "get_build_task i (snd (update_build_task j tok' u now g)) = Some t"
    proof (cases "find (\<lambda>t. tk_instance_id t = j \<and> tk_build_token t = tok') (build_tasks g)")
      case (Some row)
      then have "tk_instance_id row = j" by (auto simp: find_Some_iff)
      with Some False t show ?thesis by (auto simp: update_build_task_def get_upd_task)
    qed (simp add: update_build_task_def t)
    from token_statusI [OF this t(2)] t(3) show ?thesis by simp
  qed
qed

lemma token_status_step:
  assumes "token_status i tok g = Some s" "pk_ok tk_instance_id (build_tasks g)" "\<not> ends_generation i tok c"
  shows "\<exists>s'. token_status i tok (run_gate_cmd c g) = Some s' \<and> (s' = s \<or> task_allowed s s')"
proof (cases c)
  case (G_clear j)
  with assms have "get_build_task i (clear_build_task j g) = get_build_task i g"
    by (simp add: clear_build_task_def get_build_task_def find_by_del_key ends_generation_def)
  with G_clear assms(1) show ?thesis by (auto simp: token_status_def)
next
  case (G_release sl pid)
  have "build_tasks (release_slot sl pid g) = build_tasks g"
    by (simp add: release_slot_def split: option.split)
  from token_status_cong [OF this] G_release assms(1) show ?thesis by simp
next
  case (G_release_instance j pid)
  have "build_tasks (release_instance_slots j pid g) = build_tasks g"
    by (simp add: release_instance_slots_def)
  from token_status_cong [OF this] G_release_instance assms(1) show ?thesis by simp
next
  case (G_acquire locked live n pid now j)
  show ?thesis unfolding G_acquire run_gate_cmd.simps by (rule token_status_acquire [OF assms(1)])
next
  case (G_upsert a rep)
  show ?thesis unfolding G_upsert run_gate_cmd.simps
    by (rule token_status_upsert [OF assms(1)]) (use assms(3) G_upsert in simp)
next
  case (G_update j tok' u now)
  show ?thesis unfolding G_update run_gate_cmd.simps by (rule token_status_update [OF assms(1,2)])
qed

lemma pk_ok_tasks_run: "pk_ok tk_instance_id (build_tasks g) \<Longrightarrow> pk_ok tk_instance_id (build_tasks (run_gate_cmd c g))"
proof -
  assume pk: "pk_ok tk_instance_id (build_tasks g)"
  have "gate_ok 0 (g\<lparr>build_slots := []\<rparr>)" using pk by (simp add: gate_ok_def)
  show ?thesis
  proof (cases c)
    case (G_acquire locked live n pid now i)
    have "pk_ok tk_instance_id (build_tasks (reclaim_dead (\<lambda>p. p \<in> set live) now g))"
      using pk by (simp add: reclaim_dead_def pk_ok_task_upd reclaimed_def)
    with G_acquire pk show ?thesis
      by (auto simp: try_acquire_def Let_def drain_pending_kills_def split: option.splits)
  next
    case (G_upsert a rep)
    have "pk_ok tk_instance_id (upd_where (\<lambda>t. tk_instance_id t = tk_instance_id a) (\<lambda>_. a) (build_tasks g))"
      using pk by (subst pk_ok_task_upd) auto
    with G_upsert pk show ?thesis
      by (auto simp: upsert_build_task_def Let_def get_build_task_def upd_task_def
          pk_ok_snoc pk_ok_task_upd split: option.splits)
  next
    case (G_update i tok u now)
    have "pk_ok tk_instance_id (upd_where (\<lambda>t. tk_instance_id t = i \<and> tk_build_token t = tok)
        (\<lambda>_. apply_task_update u now row) (build_tasks g))" if "tk_instance_id row = i" for row
      using pk that by (subst pk_ok_task_upd) auto
    with G_update pk show ?thesis
      by (auto simp: update_build_task_def upd_task_def find_Some_iff split: option.splits)
  next
    case (G_release sl pid)
    with pk show ?thesis by (simp add: release_slot_def split: option.split)
  qed (use pk in \<open>simp_all add: release_instance_slots_def clear_build_task_def pk_ok_del_where\<close>)
qed

lemma status_history:
  assumes "token_status i tok g = Some s" "pk_ok tk_instance_id (build_tasks g)"
    "\<And>c. c \<in> set cs \<Longrightarrow> \<not> ends_generation i tok c"
  shows "build_status.history s (statuses_after i tok cs g)
     \<and> token_status i tok (fold run_gate_cmd cs g) = Some (last (s # statuses_after i tok cs g))"
  using assms
proof (induction cs arbitrary: g s)
  case (Cons c cs)
  let ?g = "run_gate_cmd c g"
  obtain s' where s': "token_status i tok ?g = Some s'" "s' = s \<or> task_allowed s s'"
    using token_status_step [OF Cons.prems(1,2)] Cons.prems(3) by auto
  have pk: "pk_ok tk_instance_id (build_tasks ?g)" using Cons.prems(2) by (rule pk_ok_tasks_run)
  from Cons.IH [OF s'(1) pk] Cons.prems(3) s' show ?case by (auto simp: Let_def)
qed simp

text \<open>As long as its row is neither cleared nor replaced by a new generation, the status of a
  build task moves only along the transition table, whatever all processes do to the gate; once
  it is success, failed, cancelled or cancel_failed it stays so.\<close>

theorem task_status_history:
  assumes "token_status i tok g = Some s" "pk_ok tk_instance_id (build_tasks g)"
    "\<And>c. c \<in> set cs \<Longrightarrow> \<not> ends_generation i tok c"
  shows "build_status.history s (statuses_after i tok cs g)
     \<and> (task_final s \<longrightarrow> token_status i tok (fold run_gate_cmd cs g) = Some s)"
  using status_history [OF assms] build_status.history_final_last [of s "statuses_after i tok cs g"]
  by auto

definition sample_task :: "task_status \<Rightarrow> int \<Rightarrow> task_row" where
  "sample_task s owner = \<lparr>tk_instance_id = ''my-site'', tk_build_token = ''tok'', tk_status = s,
     tk_owner_pid = owner, tk_owner_identity = ''id'', tk_worker_pid = Some 41, tk_worker_pgid = None,
     tk_worker_identity = Some ''w'', tk_cancel_requested_at = None, tk_updated_at = 0\<rparr>"

definition late_writes :: "gate_cmd list" where
  "late_writes = [G_upsert (sample_task T_building 7) False,
     G_update ''my-site'' ''tok'' (no_task_update\<lparr>tu_status := Some T_success\<rparr>) 5,
     G_acquire False [] 1 8 6 ''other'']"

definition cancelled_gate :: gate where
  "cancelled_gate = empty_gate\<lparr>build_tasks := [sample_task T_cancelled 7]\<rparr>"

theorem task_status_history_witness:
  "token_status ''my-site'' ''tok'' (fold run_gate_cmd late_writes cancelled_gate) = Some T_cancelled
   \<and> length late_writes = 3"
proof
  have "token_status ''my-site'' ''tok'' cancelled_gate = Some T_cancelled"
    "pk_ok tk_instance_id (build_tasks cancelled_gate)"
    "list_all (\<lambda>c. \<not> ends_generation ''my-site'' ''tok'' c) late_writes" "task_final T_cancelled"
    by code_simp+
  with task_status_history [of "''my-site''" "''tok''" cancelled_gate T_cancelled late_writes]
  show "token_status ''my-site'' ''tok'' (fold run_gate_cmd late_writes cancelled_gate) = Some T_cancelled"
    by (auto simp: list_all_iff)
qed (simp add: late_writes_def)

section \<open>Taking a slot\<close>

lemma kill_orders:
  "t \<in> set ts \<Longrightarrow> P t \<Longrightarrow> tk_worker_pid t = Some p \<Longrightarrow>
     p \<in> ko_pid ` set (List.map_filter kill_order_of (filter P ts))"
  by (force simp: List.map_filter_def kill_order_of_def image_iff)

lemma reclaimed_alive: "t \<in> set (build_tasks (reclaim_dead alive now g)) \<Longrightarrow> \<not> dead_task alive t"
  by (auto simp: reclaim_dead_def set_upd_where reclaimed_def dead_task_def task_active_def)

text \<open>An attempt to take a slot succeeds exactly when some slot below the concurrency is not
  held by a live process. On success the slots of dead processes are freed, their unfinished
  tasks become cancelled and their worker processes are handed over for killing. Without a slot
  the tables are as before, nothing is killed, and the kill orders of the dead workers only pile
  up in the memory of the process.\<close>

theorem try_acquire_outcome:
  "case try_acquire False alive c pid now i g of
     (Some slot, g', ks) \<Rightarrow>
       slot < c \<and> (\<forall>x \<in> set (build_slots g). sl_slot x = slot \<longrightarrow> \<not> alive (sl_pid x))
       \<and> build_slots g' = filter (\<lambda>x. alive (sl_pid x)) (build_slots g)
            @ [\<lparr>sl_slot = slot, sl_instance_id = i, sl_pid = pid, sl_acquired_at = now\<rparr>]
       \<and> (\<forall>t \<in> set (build_tasks g'). \<not> dead_task alive t) \<and> pending_kills g' = []
       \<and> (\<forall>t \<in> set (build_tasks g). \<forall>p. dead_task alive t \<and> tk_worker_pid t = Some p \<longrightarrow> p \<in> ko_pid ` set ks)
   | (None, g', ks) \<Rightarrow>
       (\<forall>s < c. \<exists>x \<in> set (build_slots g). sl_slot x = s \<and> alive (sl_pid x))
       \<and> build_slots g' = build_slots g \<and> build_tasks g' = build_tasks g \<and> ks = []
       \<and> pending_kills g' = pending_kills g
            @ List.map_filter kill_order_of (filter (dead_task alive) (build_tasks g))"
proof -
  let ?g1 = "reclaim_dead alive now g"
  have live: "build_slots ?g1 = filter (\<lambda>x. alive (sl_pid x)) (build_slots g)"
    by (simp add: reclaim_dead_def del_where_def)
  show ?thesis
  proof (cases "free_slot c ?g1")
    case None
    then have "\<forall>s < c. \<exists>x \<in> set (build_slots g). sl_slot x = s \<and> alive (sl_pid x)"
      using live by (fastforce simp: free_slot_None)
    with None show ?thesis by (simp add: try_acquire_def Let_def reclaim_dead_def)
  next
    case (Some s)
    note s = free_slot_Some [OF Some]
    then have "\<forall>x \<in> set (build_slots g). sl_slot x = s \<longrightarrow> \<not> alive (sl_pid x)"
      using live by auto
    moreover have "\<forall>t \<in> set (build_tasks ?g1). \<not> dead_task alive t"
      using reclaimed_alive by blast
    moreover have "\<forall>t \<in> set (build_tasks g). \<forall>p. dead_task alive t \<and> tk_worker_pid t = Some p \<longrightarrow>
        p \<in> ko_pid ` set (pending_kills ?g1)"
      using kill_orders by (fastforce simp: reclaim_dead_def)
    ultimately show ?thesis
      using Some s(1) live by (simp add: try_acquire_def Let_def drain_pending_kills_def)
  qed
qed

theorem try_acquire_outcome_witness:
  "pending_kills (fst (snd (try_acquire False (\<lambda>p. p = 7) 1 8 6 ''b''
     \<lparr>build_slots = [\<lparr>sl_slot = 0, sl_instance_id = ''a'', sl_pid = 7, sl_acquired_at = 0\<rparr>],
      build_tasks = [sample_task T_building 5], pending_kills = []\<rparr>))) \<noteq> []"
proof -
  let ?g = "\<lparr>build_slots = [\<lparr>sl_slot = 0, sl_instance_id = ''a'', sl_pid = 7, sl_acquired_at = 0\<rparr>],
      build_tasks = [sample_task T_building 5], pending_kills = []\<rparr>"
  have n: "fst (try_acquire False (\<lambda>p. p = 7) 1 8 6 ''b'' ?g) = None" by code_simp
  obtain g' ks where e: "try_acquire False (\<lambda>p. p = 7) 1 8 6 ''b'' ?g = (None, g', ks)"
    using n by (cases "try_acquire False (\<lambda>p. p = 7) 1 8 6 ''b'' ?g") simp
  have "List.map_filter kill_order_of (filter (dead_task (\<lambda>p. p = 7)) [sample_task T_building 5]) \<noteq> []"
    by code_simp
  with try_acquire_outcome [where alive = "\<lambda>p. p = 7" and c = 1 and pid = 8 and now = 6
      and i = "''b''" and g = ?g] e show ?thesis by simp
qed

end
