(* ===== verification/Build_Queue.thy ===== *)
theory Build_Queue
  imports Build_Gate Registry_Facts
begin

text \<open>
  Models \<open>BuildQueue\<close> of \<^verbatim>\<open>build_queue.py\<close>: running a build under the gate and cancelling it.

  A thread of the queue is a function on the state \<open>bq\<close> that it shares with the other threads of
  its process (the task objects, the registry) and with other processes (the gate). What those do
  in between is the parameter \<open>x_env\<close>, applied at each \<open>point\<close> where the code holds no lock; the
  clock, the liveness of processes, conflicts in the database and the builder are parameters too.
  Messages, which are Chinese in the code, are short texts.
\<close>

section \<open>State and parameters\<close>

record btask =
  bt_instance_id :: string
  bt_status :: task_status
  bt_queued_at :: "int option"
  bt_started_at :: "int option"
  bt_finished_at :: "int option"
  bt_error :: "string option"
  bt_build_token :: string
  bt_cancel_requested_at :: "int option"

record bq =
  gate_db :: gate
  objs :: "btask list"
  cur_task :: "string \<Rightarrow> string option"
  registry :: reg
  cancel_flags :: "string list"
  kills :: "kill_order list"

datatype point =
    P_register | P_first | P_after_first | P_wait nat | P_after_wait | P_have_slot
  | P_building | P_builder | P_after_builder | P_success | P_end
  | P_cancel | P_cancel_wait | P_cancel_failed | P_persisted nat

datatype 'r built = Built 'r | Build_cancelled string | Build_error string

record 'r ctx =
  x_pid :: int
  x_identity :: string
  x_concurrency :: nat
  x_alive :: "point \<Rightarrow> int \<Rightarrow> bool"
  x_now :: "point \<Rightarrow> int"
  x_now_iso :: "point \<Rightarrow> string"
  x_local_iso :: "int \<Rightarrow> string"
  x_locked :: "point \<Rightarrow> bool"
  x_db_ok :: "point \<Rightarrow> bool"
  x_kill :: "kill_order \<Rightarrow> bool"
  x_env :: "point \<Rightarrow> bq \<Rightarrow> bq"
  x_builder :: "bq \<Rightarrow> 'r built \<times> bq"

datatype run_error =
    Cancelled_error | Queue_timeout | Builder_error string | Registry_error reg_error

datatype 'r run_result = Returned 'r | Raised run_error

section \<open>Task objects\<close>

definition blank_task :: "string \<Rightarrow> btask" where
  "blank_task tok = \<lparr>bt_instance_id = [], bt_status = T_queued, bt_queued_at = None,
     bt_started_at = None, bt_finished_at = None, bt_error = None, bt_build_token = tok,
     bt_cancel_requested_at = None\<rparr>"

definition obj :: "string \<Rightarrow> bq \<Rightarrow> btask" where
  "obj tok w = (case find_by bt_build_token tok (objs w) of None \<Rightarrow> blank_task tok | Some t \<Rightarrow> t)"

definition upd_obj :: "string \<Rightarrow> (btask \<Rightarrow> btask) \<Rightarrow> bq \<Rightarrow> bq" where
  "upd_obj tok f w = w\<lparr>objs := upd_where (\<lambda>t. bt_build_token t = tok) f (objs w)\<rparr>"

definition register_task :: "string \<Rightarrow> string \<Rightarrow> int \<Rightarrow> bq \<Rightarrow> bq" where
  "register_task i tok now w = w\<lparr>
     objs := objs w @ [(blank_task tok)\<lparr>bt_instance_id := i, bt_queued_at := Some now\<rparr>],
     cur_task := (cur_task w)(i \<mapsto> tok)\<rparr>"

definition persist_task ::
  "'r ctx \<Rightarrow> point \<Rightarrow> string \<Rightarrow> task_status \<Rightarrow> int option \<Rightarrow> bool \<Rightarrow> bq \<Rightarrow> bool option \<times> bq" where
  "persist_task x pt tok status cancel_requested_at replace_generation w =
     (let t = obj tok w in
      if \<not> x_db_ok x pt then (None, w)
      else (let (b, g) = upsert_build_task \<lparr>tk_instance_id = bt_instance_id t, tk_build_token = tok,
                 tk_status = status, tk_owner_pid = x_pid x, tk_owner_identity = x_identity x,
                 tk_worker_pid = None, tk_worker_pgid = None, tk_worker_identity = None,
                 tk_cancel_requested_at = coalesce cancel_requested_at (bt_cancel_requested_at t),
                 tk_updated_at = x_now x pt\<rparr> replace_generation (gate_db w) in
        (Some b, w\<lparr>gate_db := g\<rparr>)))"

definition finish_task_local :: "'r ctx \<Rightarrow> point \<Rightarrow> string \<Rightarrow> task_status \<Rightarrow> bq \<Rightarrow> bq" where
  "finish_task_local x pt tok status w =
     snd (persist_task x pt tok status None False
       (upd_obj tok (\<lambda>t. t\<lparr>bt_status := status, bt_finished_at := Some (x_now x pt)\<rparr>) w))"

definition cancel_pending :: "'r ctx \<Rightarrow> point \<Rightarrow> string \<Rightarrow> string \<Rightarrow> bq \<Rightarrow> bool \<times> bq" where
  "cancel_pending x pt tok i w =
     (if bt_status (obj tok w) \<in> {T_cancelled, T_cancelling} then (True, w)
      else if \<not> is_cancel_requested i tok (gate_db w) then (False, w)
      else (let row = get_build_task i (gate_db w);
                at = coalesce (case row of None \<Rightarrow> None | Some r \<Rightarrow> tk_cancel_requested_at r)
                       (Some (x_now x pt)) in
        if map_option tk_status row = Some T_cancelling
        then (True, upd_obj tok (\<lambda>t. t\<lparr>bt_status := T_cancelling, bt_cancel_requested_at := at\<rparr>) w)
        else (True, upd_obj tok (\<lambda>t. t\<lparr>bt_status := T_cancelled, bt_cancel_requested_at := at,
               bt_finished_at := coalesce (bt_finished_at t) (Some (x_now x pt))\<rparr>) w)))"

section \<open>Registry updates\<close>

fun task_text :: "task_status \<Rightarrow> string" where
  "task_text T_queued = ''queued''"
| "task_text T_building = ''building''"
| "task_text T_cancelling = ''cancelling''"
| "task_text T_success = ''success''"
| "task_text T_failed = ''failed''"
| "task_text T_cancelled = ''cancelled''"
| "task_text T_cancel_failed = ''cancel_failed''"

definition operation_record ::
  "'r ctx \<Rightarrow> point \<Rightarrow> btask \<Rightarrow> task_status \<Rightarrow> string option \<Rightarrow> json" where
  "operation_record x pt t status error =
     (let started = coalesce (bt_started_at t) (bt_queued_at t) in
      JObj ([(''kind'', JStr ''build''), (''status'', JStr (task_text status)),
             (''buildId'', JStr (bt_build_token t)), (''source'', JStr ''build_queue'')]
        @ (case started of None \<Rightarrow> [] | Some s \<Rightarrow> [(''startedAt'', JStr (x_local_iso x s))])
        @ [(''finishedAt'', JStr (x_now_iso x pt))]
        @ (case error of None \<Rightarrow> [] | Some e \<Rightarrow> if e = [] then [] else [(''error'', JStr (take 500 e))])))"

definition upd_reg :: "(reg \<Rightarrow> reg) \<Rightarrow> bq \<Rightarrow> bq" where
  "upd_reg f w = w\<lparr>registry := f (registry w)\<rparr>"

definition reg_last_operation :: "'r ctx \<Rightarrow> point \<Rightarrow> string \<Rightarrow> json \<Rightarrow> bq \<Rightarrow> bq" where
  "reg_last_operation x pt i j = upd_reg (run_cmd (Last_operation i (Some j) (x_now_iso x pt)))"

definition reg_last_error :: "'r ctx \<Rightarrow> point \<Rightarrow> string \<Rightarrow> string \<Rightarrow> bq \<Rightarrow> bq" where
  "reg_last_error x pt i e = upd_reg (run_cmd (Last_error i (Some e) (x_now_iso x pt)))"

definition reg_event :: "'r ctx \<Rightarrow> point \<Rightarrow> string \<Rightarrow> string \<Rightarrow> string \<Rightarrow> bq \<Rightarrow> run_error option \<times> bq" where
  "reg_event x pt i kind msg w =
     (case add_event (Some i) kind msg None (x_now_iso x pt) (registry w) of
        Inl e \<Rightarrow> (Some (Registry_error e), w)
      | Inr (_, r) \<Rightarrow> (None, w\<lparr>registry := r\<rparr>))"

definition update_instance_cancelled :: "'r ctx \<Rightarrow> point \<Rightarrow> string \<Rightarrow> string \<Rightarrow> bq \<Rightarrow> bq" where
  "update_instance_cancelled x pt i message w =
     (let msg = take 500 message;
          w1 = reg_last_operation x pt i (JObj [(''kind'', JStr ''build''),
                 (''status'', JStr ''cancelled''), (''finishedAt'', JStr (x_now_iso x pt)),
                 (''error'', JStr msg), (''source'', JStr ''build_queue'')]) w;
          w2 = reg_last_error x pt i msg w1 in
      (case list_builds (Some i) 1 (registry w2) of
         [] \<Rightarrow> w2
       | b # _ \<Rightarrow>
           if b_status b = ''running''
           then upd_reg (run_cmd (Finish_build (b_id b) ''cancelled'' (Some msg) (x_now_iso x pt))) w2
           else w2))"

definition mark_queued :: "'r ctx \<Rightarrow> point \<Rightarrow> string \<Rightarrow> string \<Rightarrow> bq \<Rightarrow> bq" where
  "mark_queued x pt i tok w =
     (if bt_status (obj tok w) = T_cancelled then w
      else (let w1 = upd_obj tok (\<lambda>t. t\<lparr>bt_status := T_queued\<rparr>) w;
                w2 = snd (persist_task x pt tok T_queued None False w1);
                w3 = reg_last_operation x pt i (operation_record x pt (obj tok w2) T_queued None) w2 in
        snd (reg_event x pt i ''build_queue'' ''waiting for a slot'' w3)))"

definition mark_timeout :: "'r ctx \<Rightarrow> point \<Rightarrow> string \<Rightarrow> string \<Rightarrow> bq \<Rightarrow> bq" where
  "mark_timeout x pt i tok w =
     (let msg = ''queue timeout'';
          w1 = upd_obj tok (\<lambda>t. t\<lparr>bt_status := T_failed, bt_error := Some msg,
                 bt_finished_at := Some (x_now x pt)\<rparr>) w;
          w2 = snd (persist_task x pt tok T_failed None False w1);
          w3 = reg_last_operation x pt i (operation_record x pt (obj tok w2) T_failed (Some msg)) w2;
          w4 = reg_last_error x pt i msg w3 in
      snd (reg_event x pt i ''build_queue'' msg w4))"

section \<open>Waiting for a slot\<close>

definition attempt :: "'r ctx \<Rightarrow> point \<Rightarrow> string \<Rightarrow> bq \<Rightarrow> nat option \<times> bq" where
  "attempt x pt i w =
     (let (slot, g, ks) = try_acquire (x_locked x pt) (x_alive x pt) (x_concurrency x) (x_pid x)
                            (x_now x pt) i (gate_db w) in
      (slot, w\<lparr>gate_db := g, kills := kills w @ ks\<rparr>))"

text \<open>The loop of \<open>acquire\<close>: the deadline has passed after \<open>n\<close> more polls. The environment acts
  while the loop sleeps.\<close>

fun acquire_loop :: "'r ctx \<Rightarrow> string \<Rightarrow> string \<Rightarrow> nat \<Rightarrow> bq \<Rightarrow> nat option \<times> bq" where
  "acquire_loop x i tok n w =
     (if is_cancel_requested i tok (gate_db w) then (None, w)
      else (case attempt x (P_wait n) i w of
          (Some slot, w1) \<Rightarrow> (Some slot, w1)
        | (None, w1) \<Rightarrow>
            (case n of 0 \<Rightarrow> (None, w1) | Suc k \<Rightarrow> acquire_loop x i tok k (x_env x (P_wait k) w1))))"

declare acquire_loop.simps [simp del]

definition acquire :: "'r ctx \<Rightarrow> string \<Rightarrow> string \<Rightarrow> nat option \<Rightarrow> bq \<Rightarrow> nat option \<times> bq" where
  \<comment> \<open>\<open>polls = None\<close>: the timeout is not positive\<close>
  "acquire x i tok polls w =
     (case attempt x P_after_first i w of
        (Some slot, w1) \<Rightarrow> (Some slot, w1)
      | (None, w1) \<Rightarrow>
          (case polls of None \<Rightarrow> (None, w1)
           | Some n \<Rightarrow> acquire_loop x i tok n (x_env x (P_wait n) w1)))"

section \<open>Running a build\<close>

datatype 'r body = B_ok 'r | B_cancelled string | B_exc run_error

text \<open>The part of \<open>run\<close> after a slot was obtained.\<close>

definition run_in_slot :: "'r ctx \<Rightarrow> string \<Rightarrow> string \<Rightarrow> bq \<Rightarrow> 'r body \<times> bq" where
  "run_in_slot x i tok w0 =
     (let (cancelled, w1) = cancel_pending x P_have_slot tok i (x_env x P_have_slot w0) in
      if cancelled then
        (case reg_event x P_have_slot i ''build_cancel'' ''cancelled while queued'' w1 of
           (Some e, w2) \<Rightarrow> (B_exc e, w2)
         | (None, w2) \<Rightarrow> (B_exc Cancelled_error, finish_task_local x P_have_slot tok T_cancelled w2))
      else
        (let w2 = x_env x P_building (upd_obj tok (\<lambda>t. t\<lparr>bt_status := T_building\<rparr>) w1);
             w3 = upd_obj tok (\<lambda>t. t\<lparr>bt_started_at := Some (x_now x P_building)\<rparr>) w2;
             (persisted, w4) = persist_task x P_building tok T_building None False w3 in
         if persisted \<noteq> Some True then
           (B_exc Cancelled_error, finish_task_local x P_building tok T_cancelled
              (snd (cancel_pending x P_building tok i w4)))
         else
           (case reg_event x P_building i ''build_start'' ''got a slot'' w4 of
              (Some e, w5) \<Rightarrow> (B_exc e, w5)
            | (None, w5) \<Rightarrow>
                (case x_builder x (x_env x P_builder w5) of
                   (Build_cancelled msg, w6) \<Rightarrow> (B_cancelled msg, w6)
                 | (Build_error msg, w6) \<Rightarrow> (B_exc (Builder_error msg), w6)
                 | (Built r, w6) \<Rightarrow>
                     (let (cancelled, w7) = cancel_pending x P_after_builder tok i (x_env x P_after_builder w6) in
                      if cancelled \<or> bt_status (obj tok w7) \<in> {T_cancelling, T_cancelled} then
                        (B_exc Cancelled_error, finish_task_local x P_after_builder tok T_cancelled w7)
                      else
                        (let w8 = upd_obj tok (\<lambda>t. t\<lparr>bt_status := T_success,
                                    bt_finished_at := Some (x_now x P_after_builder)\<rparr>) w7;
                             (persisted, w9) = persist_task x P_success tok T_success None False
                                                 (x_env x P_success w8) in
                         if persisted \<noteq> Some True then
                           (B_exc Cancelled_error, finish_task_local x P_success tok T_cancelled
                              (snd (cancel_pending x P_success tok i w9)))
                         else (B_ok r, w9)))))))"

definition run_body :: "'r ctx \<Rightarrow> string \<Rightarrow> string \<Rightarrow> nat option \<Rightarrow> bq \<Rightarrow> 'r body \<times> nat option \<times> bq" where
  "run_body x i tok polls w =
     (case attempt x P_first i w of
        (Some slot, w1) \<Rightarrow> (case run_in_slot x i tok w1 of (b, w') \<Rightarrow> (b, Some slot, w'))
      | (None, w1) \<Rightarrow>
          (let (cancelled, w2) = cancel_pending x P_after_first tok i (x_env x P_after_first w1) in
           if cancelled then
             (B_exc Cancelled_error, None, finish_task_local x P_after_first tok T_cancelled w2)
           else
             (case acquire x i tok polls (mark_queued x P_after_first i tok w2) of
                (Some slot, w3) \<Rightarrow> (case run_in_slot x i tok w3 of (b, w') \<Rightarrow> (b, Some slot, w'))
              | (None, w3) \<Rightarrow>
                  (let (cancelled, w4) = cancel_pending x P_after_wait tok i (x_env x P_after_wait w3) in
                   if cancelled then
                     (B_exc Cancelled_error, None, finish_task_local x P_after_wait tok T_cancelled w4)
                   else (B_exc Queue_timeout, None, mark_timeout x P_after_wait i tok w4)))))"

fun error_text :: "run_error \<Rightarrow> string" where
  "error_text Cancelled_error = ''build cancelled''"
| "error_text Queue_timeout = ''queue timeout''"
| "error_text (Builder_error m) = m"
| "error_text (Registry_error e) = ''registry error''"

definition set_failure :: "'r ctx \<Rightarrow> string \<Rightarrow> task_status \<Rightarrow> string \<Rightarrow> bq \<Rightarrow> bq" where
  "set_failure x tok status msg w = upd_obj tok (\<lambda>t. t\<lparr>bt_status := status, bt_error := Some msg,
     bt_finished_at := Some (x_now x P_end)\<rparr>) w"

definition run_except :: "'r ctx \<Rightarrow> string \<Rightarrow> string \<Rightarrow> 'r body \<Rightarrow> bq \<Rightarrow> 'r run_result \<times> bq" where
  "run_except x i tok b w =
     (case b of
        B_ok r \<Rightarrow> (Returned r, w)
      | B_cancelled msg \<Rightarrow>
          (let w1 = set_failure x tok T_cancelled msg w;
               w2 = snd (persist_task x P_end tok T_cancelled None False w1) in
           (Raised Cancelled_error, update_instance_cancelled x P_end i msg w2))
      | B_exc e \<Rightarrow>
          if bt_status (obj tok w) \<in> {T_cancelled, T_cancelling} then
            (let w1 = set_failure x tok T_cancelled (error_text e) w;
                 w2 = snd (persist_task x P_end tok T_cancelled None False w1) in
             (Raised Cancelled_error, update_instance_cancelled x P_end i (error_text e) w2))
          else
            (let w1 = set_failure x tok T_failed (error_text e) w in
             (Raised e, snd (persist_task x P_end tok T_failed None False w1))))"

definition run_finally :: "'r ctx \<Rightarrow> string \<Rightarrow> string \<Rightarrow> nat option \<Rightarrow> bq \<Rightarrow> bq" where
  "run_finally x i tok slot w =
     (let w1 = w\<lparr>gate_db := release_slot slot (x_pid x) (gate_db w)\<rparr> in
      if bt_status (obj tok w1) \<in> {T_cancelled, T_cancel_failed}
      then w1\<lparr>gate_db := release_instance_slots i (x_pid x) (gate_db w1)\<rparr>
      else w1)"

definition run_build :: "'r ctx \<Rightarrow> string \<Rightarrow> string \<Rightarrow> nat option \<Rightarrow> bq \<Rightarrow> 'r run_result \<times> bq" where
  "run_build x i tok polls w =
     (let w1 = register_task i tok (x_now x P_register) w;
          w2 = snd (persist_task x P_register tok T_queued None True w1);
          (b, slot, w3) = run_body x i tok polls (x_env x P_first w2);
          (res, w4) = run_except x i tok b w3 in
      (res, run_finally x i tok slot w4))"

section \<open>Cancelling\<close>

datatype cancel_outcome = Out_cancelled | Out_cancelling | Out_already_done | Out_cancel_failed | Out_noop

record cancel_result =
  cr_instance_id :: string
  cr_outcome :: cancel_outcome
  cr_previous_status :: "task_status option"

definition cancel_succeeded :: "cancel_result \<Rightarrow> bool" where
  "cancel_succeeded r \<longleftrightarrow> cr_outcome r \<in> {Out_cancelled, Out_cancelling}"

definition cancelled_as :: "string \<Rightarrow> cancel_outcome \<Rightarrow> task_status option \<Rightarrow> cancel_result" where
  "cancelled_as i out prev =
     \<lparr>cr_instance_id = i, cr_outcome = out, cr_previous_status = prev\<rparr>"

text \<open>Handing a kill order to the operating system; the answer is a parameter.\<close>

definition signal_persisted_worker :: "'r ctx \<Rightarrow> task_row \<Rightarrow> bq \<Rightarrow> bool \<times> bq" where
  "signal_persisted_worker x row w =
     (case kill_order_of row of
        None \<Rightarrow> (False, w)
      | Some k \<Rightarrow> (x_kill x k, w\<lparr>kills := kills w @ [k]\<rparr>))"

definition gate_update :: "string \<Rightarrow> string \<Rightarrow> task_update \<Rightarrow> int \<Rightarrow> bq \<Rightarrow> bq" where
  "gate_update i tok u now w =
     w\<lparr>gate_db := snd (update_build_task i tok u now (gate_db w))\<rparr>"

fun wait_persisted_cancel ::
  "'r ctx \<Rightarrow> string \<Rightarrow> task_status option \<Rightarrow> nat \<Rightarrow> bq \<Rightarrow> cancel_result \<times> bq" where
  "wait_persisted_cancel x i prev 0 w =
     (cancelled_as i Out_cancel_failed prev,
      (case get_build_task i (gate_db w) of
         None \<Rightarrow> w
       | Some row \<Rightarrow> gate_update i (tk_build_token row)
           (no_task_update\<lparr>tu_status := Some T_cancel_failed\<rparr>) (x_now x (P_persisted 0)) w))"
| "wait_persisted_cancel x i prev (Suc n) w =
     (case get_build_task i (gate_db w) of
        None \<Rightarrow> (cancelled_as i Out_cancelled prev, w)
      | Some row \<Rightarrow>
          (if tk_status row = T_cancelled then (cancelled_as i Out_cancelled prev, w)
           else if tk_status row \<in> {T_success, T_failed}
             then (cancelled_as i Out_already_done (Some (tk_status row)), w)
           else if tk_status row = T_cancel_failed then (cancelled_as i Out_cancel_failed prev, w)
           else wait_persisted_cancel x i prev n (x_env x (P_persisted n) w)))"

text \<open>The branch of \<open>cancel\<close> for a task of another process (no task object here).\<close>

definition cancel_persisted ::
  "'r ctx \<Rightarrow> string \<Rightarrow> nat \<Rightarrow> bq \<Rightarrow> (run_error + cancel_result) \<times> bq" where
  "cancel_persisted x i polls w =
     (let noop = (case reg_event x P_cancel i ''build_cancel'' ''no active build'' w of
            (Some e, w1) \<Rightarrow> (Inl e, w1)
          | (None, w1) \<Rightarrow> (Inr (cancelled_as i Out_noop None), w1)) in
      case get_build_task i (gate_db w) of
        None \<Rightarrow> noop
      | Some row \<Rightarrow>
          (case tk_status row of
             T_cancelled \<Rightarrow> (Inr (cancelled_as i Out_cancelled (Some T_cancelled)), w)
           | T_success \<Rightarrow> (Inr (cancelled_as i Out_already_done (Some T_success)), w)
           | T_failed \<Rightarrow> (Inr (cancelled_as i Out_already_done (Some T_failed)), w)
           | T_cancel_failed \<Rightarrow> (Inr (cancelled_as i Out_cancel_failed (Some T_cancel_failed)), w)
           | T_queued \<Rightarrow>
               (let w1 = gate_update i (tk_build_token row) (no_task_update\<lparr>tu_status := Some T_cancelled,
                           tu_cancel_requested_at := Some (x_now x P_cancel)\<rparr>) (x_now x P_cancel) w in
                case reg_event x P_cancel i ''build_cancel'' ''queued task cancelled'' w1 of
                  (Some e, w2) \<Rightarrow> (Inl e, w2)
                | (None, w2) \<Rightarrow> (Inr (cancelled_as i Out_cancelled (Some T_queued)), w2))
           | prev \<Rightarrow>
               (let w1 = gate_update i (tk_build_token row) (no_task_update\<lparr>tu_status := Some T_cancelling,
                           tu_cancel_requested_at := Some (x_now x P_cancel)\<rparr>) (x_now x P_cancel) w;
                    (signaled, w2) = signal_persisted_worker x row w1 in
                if \<not> signaled \<and> \<not> x_alive x P_cancel (tk_owner_pid row) then
                  (let w3 = gate_update i (tk_build_token row)
                         (no_task_update\<lparr>tu_status := Some T_cancelled\<rparr>) (x_now x P_cancel) w2 in
                   (Inr (cancelled_as i Out_cancelled (Some prev)),
                    update_instance_cancelled x P_cancel i ''owner gone'' w3))
                else (case wait_persisted_cancel x i (Some prev) polls w2 of (r, w3) \<Rightarrow> (Inr r, w3)))))"

text \<open>The branch for a task of this process that is being built: stop it and wait for the run.\<close>

definition cancel_running ::
  "'r ctx \<Rightarrow> string \<Rightarrow> task_status \<Rightarrow> bq \<Rightarrow> (run_error + cancel_result) \<times> bq" where
  "cancel_running x i prev w =
     (let w1 = w\<lparr>cancel_flags := i # cancel_flags w\<rparr>;
          w2 = (case get_build_task i (gate_db w1) of
                  None \<Rightarrow> w1 | Some row \<Rightarrow> snd (signal_persisted_worker x row w1));
          w3 = x_env x P_cancel_wait w2;
          final = cur_task w3 i;
          status_now = map_option (\<lambda>tok. bt_status (obj tok w3)) final in
      if status_now = Some T_cancelled then (Inr (cancelled_as i Out_cancelled (Some prev)), w3)
      else if status_now \<in> {Some T_success, Some T_failed}
        then (Inr (cancelled_as i Out_already_done status_now), w3)
      else
        (let w4 = x_env x P_cancel_failed w3;
             w5 = (case final of
                     None \<Rightarrow> w4
                   | Some tok \<Rightarrow>
                       (let w' = (if bt_status (obj tok w4) = T_cancelling
                            then upd_obj tok (\<lambda>t. t\<lparr>bt_status := T_cancel_failed,
                                   bt_finished_at := Some (x_now x P_cancel_failed),
                                   bt_error := Some ''cancel timeout''\<rparr>) w4
                            else w4) in
                        gate_update i tok (no_task_update\<lparr>tu_status := Some T_cancel_failed\<rparr>)
                          (x_now x P_cancel_failed) w')) in
         case reg_event x P_cancel_failed i ''build_cancel'' ''cancel failed'' w5 of
           (Some e, w6) \<Rightarrow> (Inl e, w6)
         | (None, w6) \<Rightarrow>
             (Inr (cancelled_as i Out_cancel_failed (Some prev)),
              reg_last_error x P_cancel_failed i ''cancel failed''
                (case final of
                   None \<Rightarrow> w6
                 | Some tok \<Rightarrow> reg_last_operation x P_cancel_failed i
                     (operation_record x P_cancel_failed (obj tok w6) T_failed (Some ''cancel failed'')) w6))))"

definition cancel_build ::
  "'r ctx \<Rightarrow> string \<Rightarrow> nat \<Rightarrow> bq \<Rightarrow> (run_error + cancel_result) \<times> bq" where
  "cancel_build x i polls w =
     (case cur_task w i of
        None \<Rightarrow> cancel_persisted x i polls w
      | Some tok \<Rightarrow>
          (case bt_status (obj tok w) of
             T_cancelled \<Rightarrow> (Inr (cancelled_as i Out_cancelled (Some T_cancelled)), w)
           | T_success \<Rightarrow> (Inr (cancelled_as i Out_already_done (Some T_success)), w)
           | T_failed \<Rightarrow> (Inr (cancelled_as i Out_already_done (Some T_failed)), w)
           | T_cancel_failed \<Rightarrow> (Inr (cancelled_as i Out_cancel_failed (Some T_cancel_failed)), w)
           | T_cancelling \<Rightarrow> cancel_running x i T_cancelling w
           | T_queued \<Rightarrow>
               (let w1 = upd_obj tok (\<lambda>t. t\<lparr>bt_status := T_cancelled,
                           bt_cancel_requested_at := Some (x_now x P_cancel),
                           bt_finished_at := Some (x_now x P_cancel)\<rparr>) w;
                    w2 = snd (persist_task x P_cancel tok T_cancelled None False w1) in
                case reg_event x P_cancel i ''build_cancel'' ''queued task cancelled'' w2 of
                  (Some e, w3) \<Rightarrow> (Inl e, w3)
                | (None, w3) \<Rightarrow>
                    (Inr (cancelled_as i Out_cancelled (Some T_queued)),
                     reg_last_error x P_cancel i ''build cancelled''
                       (reg_last_operation x P_cancel i
                         (operation_record x P_cancel (obj tok w3) T_cancelled (Some ''build cancelled'')) w3)))
           | T_building \<Rightarrow>
               (let w1 = upd_obj tok (\<lambda>t. t\<lparr>bt_status := T_cancelling,
                           bt_cancel_requested_at := Some (x_now x P_cancel)\<rparr>) w;
                    w2 = snd (persist_task x P_cancel tok T_cancelling
                           (bt_cancel_requested_at (obj tok w1)) False w1) in
                case reg_event x P_cancel i ''build_cancel'' ''cancelling'' w2 of
                  (Some e, w3) \<Rightarrow> (Inl e, w3)
                | (None, w3) \<Rightarrow> cancel_running x i T_building w3)))"

definition in_flight :: "string list \<Rightarrow> bq \<Rightarrow> nat" where
  \<comment> \<open>over the instances that have a task object\<close>
  "in_flight is w = length (filter (\<lambda>i. case cur_task w i of None \<Rightarrow> False
     | Some tok \<Rightarrow> bt_status (obj tok w) \<in> {T_building, T_cancelling}) is)"

definition pending :: "string list \<Rightarrow> bq \<Rightarrow> string list" where
  "pending is w = filter (\<lambda>i. case cur_task w i of None \<Rightarrow> False
     | Some tok \<Rightarrow> bt_status (obj tok w) = T_queued) is"

definition current_build_token :: "string \<Rightarrow> bq \<Rightarrow> string option" where
  "current_build_token i w = (case cur_task w i of
     Some tok \<Rightarrow> Some tok | None \<Rightarrow> map_option tk_build_token (get_build_task i (gate_db w)))"

section \<open>Frames\<close>

lemma upsert_frame [simp]: "build_slots (snd (upsert_build_task a rep g)) = build_slots g"
  by (simp add: upsert_build_task_def Let_def upd_task_def split: option.split)

lemma upd_obj_frame [simp]:
  "gate_db (upd_obj tok f w) = gate_db w" "registry (upd_obj tok f w) = registry w"
  by (simp_all add: upd_obj_def)

lemma persist_frame [simp]:
  "objs (snd (persist_task x pt tok st ca rep w)) = objs w"
  "build_slots (gate_db (snd (persist_task x pt tok st ca rep w))) = build_slots (gate_db w)"
  by (simp_all add: persist_task_def Let_def case_prod_beta)

lemma finish_frame [simp]:
  "build_slots (gate_db (finish_task_local x pt tok st w)) = build_slots (gate_db w)"
  by (simp add: finish_task_local_def)

lemma cancel_pending_frame [simp]:
  "gate_db (snd (cancel_pending x pt tok i w)) = gate_db w"
  by (simp add: cancel_pending_def Let_def)

lemma reg_frame [simp]:
  "objs (upd_reg f w) = objs w" "gate_db (upd_reg f w) = gate_db w"
  "objs (reg_last_operation x pt i j w) = objs w" "gate_db (reg_last_operation x pt i j w) = gate_db w"
  "objs (reg_last_error x pt i e w) = objs w" "gate_db (reg_last_error x pt i e w) = gate_db w"
  by (simp_all add: upd_reg_def reg_last_operation_def reg_last_error_def)

lemma reg_event_frame [simp]:
  "objs (snd (reg_event x pt i k m w)) = objs w" "gate_db (snd (reg_event x pt i k m w)) = gate_db w"
  by (simp_all add: reg_event_def split: sum.split prod.split)

lemma instance_cancelled_frame [simp]:
  "gate_db (update_instance_cancelled x pt i m w) = gate_db w"
  "objs (update_instance_cancelled x pt i m w) = objs w"
  by (simp_all add: update_instance_cancelled_def Let_def split: list.split)

lemma mark_frame [simp]:
  "build_slots (gate_db (mark_queued x pt i tok w)) = build_slots (gate_db w)"
  "build_slots (gate_db (mark_timeout x pt i tok w)) = build_slots (gate_db w)"
  by (simp_all add: mark_queued_def mark_timeout_def Let_def)

lemma attempt_frame [simp]: "objs (snd (attempt x pt i w)) = objs w"
  by (simp add: attempt_def case_prod_beta)

section \<open>The object of a run\<close>

definition has_task :: "string \<Rightarrow> string \<Rightarrow> bq \<Rightarrow> bool" where
  "has_task i tok w \<longleftrightarrow> (\<exists>t. find_by bt_build_token tok (objs w) = Some t \<and> bt_instance_id t = i)"

lemma has_task_cong: "objs w = objs w' \<Longrightarrow> has_task i tok w = has_task i tok w'"
  by (simp add: has_task_def)

lemma has_task_upd:
  assumes "\<And>t. bt_build_token (f t) = bt_build_token t" "\<And>t. bt_instance_id (f t) = bt_instance_id t"
  shows "has_task i tok (upd_obj tok' f w) = has_task i tok w"
proof -
  have "find_by bt_build_token tok (upd_where (\<lambda>t. bt_build_token t = tok') f (objs w))
      = map_option (\<lambda>t. if bt_build_token t = tok' then f t else t) (find_by bt_build_token tok (objs w))"
    by (rule find_by_upd_where) (simp add: assms)
  then show ?thesis by (cases "find_by bt_build_token tok (objs w)") (simp_all add: has_task_def upd_obj_def assms)
qed

lemma has_task_obj: "has_task i tok w \<Longrightarrow> bt_instance_id (obj tok w) = i"
  by (auto simp: has_task_def obj_def)

lemma has_task_simps [simp]:
  "has_task i tok (snd (persist_task x pt tok' st ca rep w)) = has_task i tok w"
  "has_task i tok (snd (reg_event x pt j k m w)) = has_task i tok w"
  "has_task i tok (snd (attempt x pt j w)) = has_task i tok w"
  "has_task i tok (reg_last_operation x pt j js w) = has_task i tok w"
  "has_task i tok (reg_last_error x pt j e w) = has_task i tok w"
  by (rule has_task_cong, simp)+

lemma has_task_cancel_pending [simp]:
  "has_task i tok (snd (cancel_pending x pt tok' j w)) = has_task i tok w"
  by (simp add: cancel_pending_def Let_def has_task_upd)

lemma has_task_mark_queued [simp]: "has_task i tok (mark_queued x pt j tok' w) = has_task i tok w"
  by (simp add: mark_queued_def Let_def has_task_upd)

text \<open>The environment and the builder keep the task object of the run.\<close>

definition keeps_task :: "'r ctx \<Rightarrow> string \<Rightarrow> string \<Rightarrow> bool" where
  "keeps_task x i tok \<longleftrightarrow> (\<forall>pt w. has_task i tok w \<longrightarrow> has_task i tok (x_env x pt w))
     \<and> (\<forall>w. has_task i tok w \<longrightarrow> has_task i tok (snd (x_builder x w)))"

lemma keeps_taskD:
  "keeps_task x i tok \<Longrightarrow> has_task i tok w \<Longrightarrow> has_task i tok (x_env x pt w)"
  "keeps_task x i tok \<Longrightarrow> has_task i tok w \<Longrightarrow> has_task i tok (snd (x_builder x w))"
  by (simp_all add: keeps_task_def)

lemma attempt_keeps: "attempt x pt j w = (s, w1) \<Longrightarrow> has_task i tok w \<Longrightarrow> has_task i tok w1"
  by (metis has_task_simps(3) snd_conv)

lemma has_task_acquire_loop:
  "keeps_task x i tok \<Longrightarrow> has_task i tok w \<Longrightarrow> has_task i tok (snd (acquire_loop x j tok' n w))"
proof (induction n arbitrary: w)
  case 0
  then show ?case
    by (auto simp: acquire_loop.simps [of x j tok' 0] split: prod.splits option.splits dest: attempt_keeps)
next
  case (Suc n)
  show ?case
  proof (cases "attempt x (P_wait (Suc n)) j w")
    case (Pair s w1)
    then have "has_task i tok w1" using Suc.prems(2) by (rule attempt_keeps)
    then have "has_task i tok (snd (acquire_loop x j tok' n (x_env x (P_wait n) w1)))"
      by (intro Suc.IH keeps_taskD(1) Suc.prems(1))
    with Pair \<open>has_task i tok w1\<close> Suc.prems(2) show ?thesis
      by (simp add: acquire_loop.simps [of x j tok' "Suc n"] split: option.split)
  qed
qed

lemma has_task_acquire:
  "keeps_task x i tok \<Longrightarrow> has_task i tok w \<Longrightarrow> has_task i tok (snd (acquire x j tok' polls w))"
proof -
  assume k: "keeps_task x i tok" "has_task i tok w"
  show ?thesis
  proof (cases "attempt x P_after_first j w")
    case (Pair s w1)
    then have w1: "has_task i tok w1" using k(2) by (rule attempt_keeps)
    then have "has_task i tok (snd (acquire_loop x j tok' n (x_env x (P_wait n) w1)))" for n
      by (intro has_task_acquire_loop keeps_taskD(1) k(1))
    with Pair w1 show ?thesis by (simp add: acquire_def split: option.split)
  qed
qed

lemma upsert_true:
  assumes "upsert_build_task a rep g = (True, g')"
  shows "token_status (tk_instance_id a) (tk_build_token a) g' = Some (tk_status a)"
proof (cases "get_build_task (tk_instance_id a) g")
  case None
  with assms show ?thesis
    by (auto simp: upsert_build_task_def Let_def token_status_def get_build_task_def find_by_append)
next
  case (Some row)
  have key: "tk_instance_id row = tk_instance_id a" using Some by (rule get_build_task_key)
  show ?thesis
  proof (cases "tk_build_token row = tk_build_token a")
    case True
    with assms Some key show ?thesis
      by (auto simp: upsert_build_task_def Let_def token_status_def get_upd_task split: if_split_asm)
  next
    case False
    with assms Some key show ?thesis
      by (auto simp: upsert_build_task_def Let_def token_status_def get_replace_task split: if_split_asm)
  qed
qed

lemma persist_true:
  assumes "persist_task x pt tok st ca rep w = (Some True, w')" "has_task i tok w"
  shows "token_status i tok (gate_db w') = Some st"
proof -
  let ?a = "\<lparr>tk_instance_id = bt_instance_id (obj tok w), tk_build_token = tok, tk_status = st,
     tk_owner_pid = x_pid x, tk_owner_identity = x_identity x, tk_worker_pid = None,
     tk_worker_pgid = None, tk_worker_identity = None,
     tk_cancel_requested_at = coalesce ca (bt_cancel_requested_at (obj tok w)),
     tk_updated_at = x_now x pt\<rparr>"
  obtain b g where u: "upsert_build_task ?a rep (gate_db w) = (b, g)" by fastforce
  with assms(1) have "b = True" "gate_db w' = g"
    by (auto simp: persist_task_def Let_def split: if_split_asm)
  with u upsert_true [of ?a rep "gate_db w" g] has_task_obj [OF assms(2)] show ?thesis by simp
qed

lemma cancel_pending_requested:
  "is_cancel_requested i tok (gate_db w) \<Longrightarrow> fst (cancel_pending x pt tok i w)"
  by (simp add: cancel_pending_def Let_def)

lemma run_in_slot_ok:
  assumes "run_in_slot x i tok w0 = (B_ok r, w')" "keeps_task x i tok" "has_task i tok w0"
  shows "token_status i tok (gate_db w') = Some T_success
     \<and> (\<exists>v u. x_builder x v = (Built r, u)
            \<and> \<not> is_cancel_requested i tok (gate_db (x_env x P_after_builder u)))"
proof -
  define w1 where "w1 = snd (cancel_pending x P_have_slot tok i (x_env x P_have_slot w0))"
  define w3 where "w3 = upd_obj tok (\<lambda>t. t\<lparr>bt_started_at := Some (x_now x P_building)\<rparr>)
      (x_env x P_building (upd_obj tok (\<lambda>t. t\<lparr>bt_status := T_building\<rparr>) w1))"
  define w4 where "w4 = snd (persist_task x P_building tok T_building None False w3)"
  define w5 where "w5 = snd (reg_event x P_building i ''build_start'' ''got a slot'' w4)"
  obtain res w6 where b: "x_builder x (x_env x P_builder w5) = (res, w6)" by fastforce
  define w7 where "w7 = snd (cancel_pending x P_after_builder tok i (x_env x P_after_builder w6))"
  define w8 where "w8 = upd_obj tok (\<lambda>t. t\<lparr>bt_status := T_success,
      bt_finished_at := Some (x_now x P_after_builder)\<rparr>) w7"
  note ws = w1_def [symmetric] w3_def [symmetric] w4_def [symmetric] w5_def [symmetric]
    w7_def [symmetric] w8_def [symmetric]
  have ok: "\<not> fst (cancel_pending x P_after_builder tok i (x_env x P_after_builder w6))"
    "res = Built r" "persist_task x P_success tok T_success None False (x_env x P_success w8) = (Some True, w')"
    using assms(1) unfolding run_in_slot_def Let_def case_prod_beta ws
    by (auto simp: b ws prod_eq_iff split: if_split_asm option.splits built.splits prod.splits)
  note env = keeps_taskD(1) [OF assms(2)]
  have "has_task i tok w1" unfolding w1_def using env [OF assms(3)] by simp
  then have "has_task i tok (x_env x P_building (upd_obj tok (\<lambda>t. t\<lparr>bt_status := T_building\<rparr>) w1))"
    by (intro env) (simp add: has_task_upd)
  then have "has_task i tok w5" by (simp add: w5_def w4_def w3_def has_task_upd)
  then have "has_task i tok w6" using b env keeps_taskD(2) [OF assms(2)] by (metis snd_conv)
  then have "has_task i tok (x_env x P_success w8)"
    using env by (simp add: w8_def w7_def has_task_upd)
  from persist_true [OF ok(3) this] ok(1,2) b show ?thesis
    using cancel_pending_requested by blast
qed

lemma release_tasks [simp]:
  "build_tasks (release_slot sl pid g) = build_tasks g"
  "build_tasks (release_instance_slots i pid g) = build_tasks g"
  by (simp_all add: release_slot_def release_instance_slots_def split: option.split)

lemma run_finally_tasks [simp]: "build_tasks (gate_db (run_finally x i tok sl w)) = build_tasks (gate_db w)"
  by (simp add: run_finally_def Let_def)

lemma run_body_ok:
  assumes "run_body x i tok polls w0 = (B_ok r, sl, w')" "keeps_task x i tok" "has_task i tok w0"
  shows "token_status i tok (gate_db w') = Some T_success
     \<and> (\<exists>v u. x_builder x v = (Built r, u)
            \<and> \<not> is_cancel_requested i tok (gate_db (x_env x P_after_builder u)))"
proof -
  obtain s1 w1 where a: "attempt x P_first i w0 = (s1, w1)" by fastforce
  have w1: "has_task i tok w1" using a assms(3) by (rule attempt_keeps)
  let ?w2 = "snd (cancel_pending x P_after_first tok i (x_env x P_after_first w1))"
  obtain s3 w3 where q: "acquire x i tok polls (mark_queued x P_after_first i tok ?w2) = (s3, w3)"
    by fastforce
  have "has_task i tok (mark_queued x P_after_first i tok ?w2)"
    using keeps_taskD(1) [OF assms(2) w1] by simp
  then have w3: "has_task i tok w3"
    using has_task_acquire [OF assms(2), of "mark_queued x P_after_first i tok ?w2" i tok polls] q by simp
  have "run_in_slot x i tok w1 = (B_ok r, w') \<or> run_in_slot x i tok w3 = (B_ok r, w')"
    using assms(1) unfolding run_body_def Let_def case_prod_beta
    by (auto simp: a q prod_eq_iff split: option.splits if_split_asm)
  then show ?thesis using run_in_slot_ok [OF _ assms(2)] w1 w3 by blast
qed

lemma has_task_register:
  "find_by bt_build_token tok (objs w) = None \<Longrightarrow> has_task i tok (register_task i tok now w)"
  by (simp add: has_task_def register_task_def find_by_append blank_task_def)

text \<open>A build that returns normally has its task recorded as success in the database that all
  processes share, its result is the builder's, and no cancellation was on record when the builder
  had finished. (Its token is fresh; the other threads keep its task object.)\<close>

theorem run_build_success:
  assumes "run_build x i tok polls w = (Returned r, w')" "keeps_task x i tok"
    "find_by bt_build_token tok (objs w) = None"
  shows "token_status i tok (gate_db w') = Some T_success
     \<and> (\<exists>v u. x_builder x v = (Built r, u)
            \<and> \<not> is_cancel_requested i tok (gate_db (x_env x P_after_builder u)))"
proof -
  let ?w1 = "register_task i tok (x_now x P_register) w"
  let ?w2 = "x_env x P_first (snd (persist_task x P_register tok T_queued None True ?w1))"
  have h: "has_task i tok ?w2"
    using has_task_register [OF assms(3)] keeps_taskD(1) [OF assms(2)] by simp
  obtain b sl w3 where rb: "run_body x i tok polls ?w2 = (b, sl, w3)" by (metis prod_cases3)
  then have "b = B_ok r" "w' = run_finally x i tok sl w3"
    using assms(1) by (auto simp: run_build_def run_except_def Let_def case_prod_beta
        split: body.splits if_split_asm)
  with run_body_ok [OF _ assms(2) h, of polls r sl w3] rb
    token_status_cong [OF run_finally_tasks, of i tok x i tok sl w3] show ?thesis by simp
qed

lemma ctx_builder_simps:
  "persist_task (x\<lparr>x_builder := b\<rparr>) = persist_task x" "attempt (x\<lparr>x_builder := b\<rparr>) = attempt x"
  "cancel_pending (x\<lparr>x_builder := b\<rparr>) = cancel_pending x"
  "reg_event (x\<lparr>x_builder := b\<rparr>) = reg_event x"
  "reg_last_operation (x\<lparr>x_builder := b\<rparr>) = reg_last_operation x"
  "reg_last_error (x\<lparr>x_builder := b\<rparr>) = reg_last_error x"
  "operation_record (x\<lparr>x_builder := b\<rparr>) = operation_record x"
  "set_failure (x\<lparr>x_builder := b\<rparr>) = set_failure x"
  by (simp_all add: fun_eq_iff persist_task_def attempt_def cancel_pending_def reg_event_def
      reg_last_operation_def reg_last_error_def operation_record_def set_failure_def Let_def
      cong: if_cong option.case_cong sum.case_cong)

lemma ctx_builder_simps2:
  "finish_task_local (x\<lparr>x_builder := b\<rparr>) = finish_task_local x"
  "mark_queued (x\<lparr>x_builder := b\<rparr>) = mark_queued x"
  "mark_timeout (x\<lparr>x_builder := b\<rparr>) = mark_timeout x"
  "update_instance_cancelled (x\<lparr>x_builder := b\<rparr>) = update_instance_cancelled x"
  "run_finally (x\<lparr>x_builder := b\<rparr>) = run_finally x"
  by (simp_all add: fun_eq_iff finish_task_local_def mark_queued_def mark_timeout_def
      update_instance_cancelled_def run_finally_def ctx_builder_simps Let_def
      cong: if_cong list.case_cong)

lemma acquire_loop_builder: "acquire_loop (x\<lparr>x_builder := b\<rparr>) i tok n w = acquire_loop x i tok n w"
proof (induction n arbitrary: w)
  case 0
  show ?case by (simp add: acquire_loop.simps [of _ _ _ 0] ctx_builder_simps cong: if_cong option.case_cong)
next
  case (Suc n)
  then show ?case by (simp add: acquire_loop.simps [of _ _ _ "Suc n"] ctx_builder_simps cong: if_cong option.case_cong prod.case_cong)
qed

lemma acquire_builder: "acquire (x\<lparr>x_builder := b\<rparr>) = acquire x"
  by (simp add: fun_eq_iff acquire_def acquire_loop_builder ctx_builder_simps
      cong: option.case_cong prod.case_cong)

lemmas builder_frames = ctx_builder_simps ctx_builder_simps2 acquire_builder

lemma run_in_slot_builder:
  assumes "\<And>v. is_cancel_requested i tok (gate_db (x_env x P_have_slot v))"
  shows "run_in_slot (x\<lparr>x_builder := b\<rparr>) i tok w = run_in_slot x i tok w"
  by (simp add: run_in_slot_def Let_def case_prod_beta builder_frames
      cancel_pending_requested [OF assms] cong: if_cong option.case_cong prod.case_cong)

lemma run_in_slot_not_ok:
  assumes "\<And>v. is_cancel_requested i tok (gate_db (x_env x P_after_builder v))"
  shows "fst (run_in_slot x i tok w) \<noteq> B_ok r"
  by (simp add: run_in_slot_def Let_def case_prod_beta cancel_pending_requested [OF assms]
      split: option.split built.split prod.split)

lemma run_body_not_ok:
  assumes "\<And>v. fst (run_in_slot x i tok v) \<noteq> B_ok r"
  shows "fst (run_body x i tok polls w) \<noteq> B_ok r"
  using assms by (simp add: run_body_def Let_def case_prod_beta split: option.split prod.split)

text \<open>C31: A cancellation that another process records while the builder runs is honoured: the run
  does not return normally. One that is on record when the slot is obtained is honoured before
  the builder is called: the outcome does not depend on the builder.\<close>

theorem cancellation_honoured:
  "((\<forall>v. is_cancel_requested i tok (gate_db (x_env x P_after_builder v)))
      \<longrightarrow> fst (run_build x i tok polls w) \<noteq> Returned r)
   \<and> ((\<forall>v. is_cancel_requested i tok (gate_db (x_env x P_have_slot v)))
      \<longrightarrow> run_build (x\<lparr>x_builder := b\<rparr>) i tok polls w = run_build x i tok polls w)"
proof (intro conjI impI)
  assume "\<forall>v. is_cancel_requested i tok (gate_db (x_env x P_after_builder v))"
  then have "fst (run_in_slot x i tok v) \<noteq> B_ok r" for v
    by (intro run_in_slot_not_ok) blast
  then have "fst (run_body x i tok polls v) \<noteq> B_ok r" for v
    by (rule run_body_not_ok)
  then show "fst (run_build x i tok polls w) \<noteq> Returned r"
    by (auto simp: run_build_def Let_def case_prod_beta run_except_def split: body.split)
next
  assume "\<forall>v. is_cancel_requested i tok (gate_db (x_env x P_have_slot v))"
  then have s: "run_in_slot (x\<lparr>x_builder := b\<rparr>) i tok v = run_in_slot x i tok v" for v
    by (intro run_in_slot_builder) blast
  have "run_body (x\<lparr>x_builder := b\<rparr>) i tok polls v = run_body x i tok polls v" for v
    by (simp add: run_body_def Let_def case_prod_beta builder_frames s
      cong: if_cong option.case_cong prod.case_cong)
  moreover have "run_except (x\<lparr>x_builder := b\<rparr>) i tok bd v = run_except x i tok bd v" for bd v
    by (simp add: run_except_def builder_frames Let_def cong: if_cong body.case_cong)
  ultimately show "run_build (x\<lparr>x_builder := b\<rparr>) i tok polls w = run_build x i tok polls w"
    by (simp add: run_build_def Let_def case_prod_beta builder_frames)
qed

section \<open>The slots of a run\<close>

definition own_slots :: "'r ctx \<Rightarrow> string \<Rightarrow> gate \<Rightarrow> nat set" where
  "own_slots x i g = {sl_slot s | s. s \<in> set (build_slots g) \<and> sl_instance_id s = i \<and> sl_pid s = x_pid x}"

lemma own_slots_cong: "build_slots g = build_slots h \<Longrightarrow> own_slots x i g = own_slots x i h"
  by (simp add: own_slots_def)

lemma own_slots_attempt:
  assumes "attempt x pt i w = (s, w')"
  shows "own_slots x i (gate_db w') \<subseteq> own_slots x i (gate_db w) \<union> set_option s"
proof -
  have "build_slots (reclaim_dead al now g) = del_where (\<lambda>s. \<not> al (sl_pid s)) (build_slots g)" for al now g
    by (simp add: reclaim_dead_def)
  with assms have "y \<in> set (build_slots (gate_db w)) \<or> Some (sl_slot y) = s"
    if "y \<in> set (build_slots (gate_db w'))" for y
    using that by (auto simp: attempt_def try_acquire_def Let_def drain_pending_kills_def
        split: if_split_asm option.splits)
  then show ?thesis unfolding own_slots_def by fastforce
qed

text \<open>The environment and the builder take no slot for this process and instance.\<close>

definition no_other_slots :: "'r ctx \<Rightarrow> string \<Rightarrow> bool" where
  "no_other_slots x i \<longleftrightarrow>
     (\<forall>pt w. own_slots x i (gate_db (x_env x pt w)) \<subseteq> own_slots x i (gate_db w))
     \<and> (\<forall>w. own_slots x i (gate_db (snd (x_builder x w))) \<subseteq> own_slots x i (gate_db w))"

lemma own_env:
  assumes "no_other_slots x i"
  shows "own_slots x i (gate_db (x_env x pt w)) \<subseteq> own_slots x i (gate_db w)"
    "own_slots x i (gate_db (snd (x_builder x w))) \<subseteq> own_slots x i (gate_db w)"
  using assms by (simp_all add: no_other_slots_def)

lemma own_frames [simp]:
  "own_slots x i (gate_db (snd (persist_task x' pt tok st ca rep w))) = own_slots x i (gate_db w)"
  "own_slots x i (gate_db (finish_task_local x' pt tok st w)) = own_slots x i (gate_db w)"
  "own_slots x i (gate_db (mark_queued x' pt j tok w)) = own_slots x i (gate_db w)"
  "own_slots x i (gate_db (mark_timeout x' pt j tok w)) = own_slots x i (gate_db w)"
  by (rule own_slots_cong, simp)+

lemma own_acquire_loop:
  assumes "no_other_slots x i" "acquire_loop x i tok n w = (s, w')"
  shows "own_slots x i (gate_db w') \<subseteq> own_slots x i (gate_db w) \<union> set_option s"
  using assms(2)
proof (induction n arbitrary: w)
  case 0
  then show ?case using own_slots_attempt
    by (fastforce simp: acquire_loop.simps [of x i tok 0] split: if_split_asm prod.splits option.splits)
next
  case (Suc n)
  obtain s1 w1 where a: "attempt x (P_wait (Suc n)) i w = (s1, w1)" by fastforce
  note o1 = own_slots_attempt [OF a]
  show ?case
  proof (cases "is_cancel_requested i tok (gate_db w) \<or> s1 \<noteq> None")
    case True
    with Suc.prems a o1 show ?thesis
      by (auto simp: acquire_loop.simps [of x i tok "Suc n"] split: if_split_asm)
  next
    case False
    with Suc.prems a have "acquire_loop x i tok n (x_env x (P_wait n) w1) = (s, w')"
      by (simp add: acquire_loop.simps [of x i tok "Suc n"])
    from Suc.IH [OF this] o1 own_env(1) [OF assms(1), of "P_wait n" w1] False show ?thesis by auto
  qed
qed

lemma own_acquire:
  assumes "no_other_slots x i" "acquire x i tok polls w = (s, w')"
  shows "own_slots x i (gate_db w') \<subseteq> own_slots x i (gate_db w) \<union> set_option s"
proof -
  obtain s1 w1 where a: "attempt x P_after_first i w = (s1, w1)" by fastforce
  note o1 = own_slots_attempt [OF a]
  show ?thesis
  proof (cases "s1 \<noteq> None \<or> polls = None")
    case True
    with assms(2) a o1 show ?thesis by (auto simp: acquire_def split: option.splits)
  next
    case False
    then obtain n where n: "polls = Some n" "s1 = None" by auto
    with assms(2) a have "acquire_loop x i tok n (x_env x (P_wait n) w1) = (s, w')"
      by (simp add: acquire_def)
    from own_acquire_loop [OF assms(1) this] o1 n own_env(1) [OF assms(1), of "P_wait n" w1]
    show ?thesis by auto
  qed
qed

lemma own_run_in_slot:
  assumes "no_other_slots x i"
  shows "own_slots x i (gate_db (snd (run_in_slot x i tok w))) \<subseteq> own_slots x i (gate_db w)"
proof -
  define Q where "Q v \<longleftrightarrow> own_slots x i (gate_db v) \<subseteq> own_slots x i (gate_db w)" for v :: bq
  have frames: "Q (snd (persist_task x pt tok st ca rep v)) = Q v"
    "Q (finish_task_local x pt tok st v) = Q v" "Q (snd (cancel_pending x pt tok i v)) = Q v"
    "Q (snd (reg_event x pt i k m v)) = Q v" "Q (upd_obj tok f v) = Q v" for pt st ca rep v k m f
    by (simp_all add: Q_def)
  have env: "Q v \<Longrightarrow> Q (x_env x pt v)" "Q v \<Longrightarrow> Q (snd (x_builder x v))" for pt v
    unfolding Q_def by (rule order_trans [OF own_env(1) [OF assms]], assumption,
      rule order_trans [OF own_env(2) [OF assms]])
  have "Q w" by (simp add: Q_def)
  then have "Q (snd (run_in_slot x i tok w))"
    unfolding run_in_slot_def Let_def case_prod_beta
    by (simp add: frames env split: option.split built.split)
  then show ?thesis by (simp add: Q_def)
qed

lemma own_run_body:
  assumes "no_other_slots x i" "run_body x i tok polls w = (b, s, w')"
  shows "own_slots x i (gate_db w') \<subseteq> own_slots x i (gate_db w) \<union> set_option s"
proof -
  note env = own_env(1) [OF assms(1)] and slot = own_run_in_slot [OF assms(1)]
  obtain s1 w1 where a: "attempt x P_first i w = (s1, w1)" by fastforce
  note o1 = own_slots_attempt [OF a]
  let ?v = "x_env x P_after_first w1"
  let ?w2 = "snd (cancel_pending x P_after_first tok i ?v)"
  obtain s3 w3 where q: "acquire x i tok polls (mark_queued x P_after_first i tok ?w2) = (s3, w3)" by fastforce
  have o3: "own_slots x i (gate_db w3) \<subseteq> own_slots x i (gate_db ?v) \<union> set_option s3"
    using own_acquire [OF assms(1) q] by simp
  show ?thesis
    using assms(2) o1 o3 env [of P_after_first w1] env [of P_after_wait w3] slot [of tok w1] slot [of tok w3]
    unfolding run_body_def Let_def case_prod_beta
    by (auto simp: a q split: option.splits if_split_asm; blast)
qed

text \<open>However a run ends, it leaves no slot of the gate with its process and instance when it
  started with none, provided nobody else takes one for them in the meantime.\<close>

theorem run_build_releases:
  assumes "no_other_slots x i" "own_slots x i (gate_db w) = {}"
  shows "own_slots x i (gate_db (snd (run_build x i tok polls w))) = {}"
proof -
  let ?w2 = "x_env x P_first (snd (persist_task x P_register tok T_queued None True
      (register_task i tok (x_now x P_register) w)))"
  have "gate_db (register_task i tok n w) = gate_db w" for n by (simp add: register_task_def)
  then have o2: "own_slots x i (gate_db ?w2) = {}"
    using own_env(1) [OF assms(1), of P_first] assms(2) by fastforce
  obtain b sl w3 where rb: "run_body x i tok polls ?w2 = (b, sl, w3)" by (metis prod_cases3)
  have o3: "own_slots x i (gate_db w3) \<subseteq> set_option sl"
    using own_run_body [OF assms(1) rb] o2 by simp
  obtain res w4 where re: "run_except x i tok b w3 = (res, w4)" by fastforce
  have "build_slots (gate_db w4) = build_slots (gate_db w3)"
    using re by (auto simp: run_except_def set_failure_def Let_def split: body.splits if_split_asm)
  then have o4: "own_slots x i (gate_db w4) \<subseteq> set_option sl" using o3 own_slots_cong by metis
  have "own_slots x i (release_slot sl (x_pid x) (gate_db w4)) = {}"
    using o4 by (cases sl) (auto simp: own_slots_def release_slot_def)
  moreover have "own_slots x i (release_instance_slots i (x_pid x) g) \<subseteq> own_slots x i g" for g
    by (auto simp: own_slots_def release_instance_slots_def)
  ultimately have "own_slots x i (gate_db (run_finally x i tok sl w4)) = {}"
    by (auto simp: run_finally_def Let_def)
  then show ?thesis using rb re by (simp add: run_build_def Let_def)
qed

section \<open>A sample run\<close>

definition sample_ctx :: "nat ctx" where
  "sample_ctx = \<lparr>x_pid = 7, x_identity = ''p7'', x_concurrency = 1, x_alive = (\<lambda>_ p. p = 7 \<or> p = 8),
     x_now = (\<lambda>_. 5), x_now_iso = (\<lambda>_. ''t5''), x_local_iso = (\<lambda>_. ''t''), x_locked = (\<lambda>_. False),
     x_db_ok = (\<lambda>_. True), x_kill = (\<lambda>_. True), x_env = (\<lambda>_ w. w), x_builder = (\<lambda>w. (Built 42, w))\<rparr>"

definition sample_bq :: bq where
  "sample_bq = \<lparr>gate_db = empty_gate, objs = [], cur_task = Map.empty, registry = sample_reg,
     cancel_flags = [], kills = []\<rparr>"

lemma sample_run: "\<exists>w'. run_build sample_ctx ''my-site'' ''tok'' (Some 1) sample_bq = (Returned 42, w')"
proof -
  have "case fst (run_build sample_ctx ''my-site'' ''tok'' (Some 1) sample_bq) of
      Returned n \<Rightarrow> n = 42 | Raised _ \<Rightarrow> False" by code_simp
  then show ?thesis
    by (cases "run_build sample_ctx ''my-site'' ''tok'' (Some 1) sample_bq") (auto split: run_result.splits)
qed

theorem run_build_success_witness:
  "\<exists>w'. run_build sample_ctx ''my-site'' ''tok'' (Some 1) sample_bq = (Returned 42, w')
     \<and> token_status ''my-site'' ''tok'' (gate_db w') = Some T_success"
proof -
  have k: "keeps_task sample_ctx ''my-site'' ''tok''"
    by (simp add: keeps_task_def sample_ctx_def)
  have "find_by bt_build_token ''tok'' (objs sample_bq) = None" by (simp add: sample_bq_def)
  with sample_run run_build_success [OF _ k] show ?thesis by blast
qed

text \<open>Another process asks to cancel while the builder runs.\<close>

definition cancelling_ctx :: "nat ctx" where
  "cancelling_ctx = sample_ctx\<lparr>x_env := (\<lambda>pt w. if pt = P_after_builder
     then w\<lparr>gate_db := (gate_db w)\<lparr>build_tasks := [sample_task T_cancelling 7]\<rparr>\<rparr> else w)\<rparr>"

theorem cancellation_honoured_witness:
  "fst (run_build cancelling_ctx ''my-site'' ''tok'' (Some 1) sample_bq) \<noteq> Returned 42"
proof -
  have "\<forall>v. is_cancel_requested ''my-site'' ''tok'' (gate_db (x_env cancelling_ctx P_after_builder v))"
    by (simp add: cancelling_ctx_def is_cancel_requested_def get_build_task_def sample_task_def)
  then show ?thesis
    using cancellation_honoured [of "''my-site''" "''tok''" cancelling_ctx "Some 1" sample_bq 42] by blast
qed

theorem run_build_releases_witness:
  "own_slots sample_ctx ''my-site'' (gate_db (snd (run_build sample_ctx ''my-site'' ''tok'' (Some 1) sample_bq))) = {}"
proof (rule run_build_releases)
  show "no_other_slots sample_ctx ''my-site''" by (simp add: no_other_slots_def sample_ctx_def)
  show "own_slots sample_ctx ''my-site'' (gate_db sample_bq) = {}"
    by (simp add: own_slots_def sample_bq_def empty_gate_def)
qed

section \<open>Outcomes of a cancellation\<close>

definition task_gone_or :: "task_status set \<Rightarrow> string \<Rightarrow> gate \<Rightarrow> bool" where
  "task_gone_or S i g \<longleftrightarrow> (case get_build_task i g of None \<Rightarrow> True | Some row \<Rightarrow> tk_status row \<in> S)"

lemma gate_update_status:
  assumes "pk_ok tk_instance_id (build_tasks (gate_db w))" "get_build_task i (gate_db w) = Some row"
    "tu_status u = Some s" "task_allowed (tk_status row) s"
  shows "\<exists>row'. get_build_task i (gate_db (gate_update i (tk_build_token row) u now w)) = Some row'
     \<and> tk_status row' = s \<and> tk_build_token row' = tk_build_token row"
proof -
  have "find (\<lambda>t. tk_instance_id t = i \<and> tk_build_token t = tk_build_token row) (build_tasks (gate_db w)) = Some row"
    using find_pair_task [OF assms(1), of i "tk_build_token row"] assms(2) by (simp add: get_build_task_def)
  with assms get_build_task_key [OF assms(2)] show ?thesis
    by (simp add: gate_update_def update_build_task_def task_allowed_def get_upd_task
        apply_task_update_def Let_def)
qed

lemma pk_ok_gate_update:
  "pk_ok tk_instance_id (build_tasks (gate_db w)) \<Longrightarrow>
     pk_ok tk_instance_id (build_tasks (gate_db (gate_update i tok u now w)))"
  using pk_ok_tasks_run [of "gate_db w" "G_update i tok u now"] by (simp add: gate_update_def)

lemma wait_persisted_outcome:
  assumes "wait_persisted_cancel x i prev n w = (r, w')"
  shows "(cr_outcome r = Out_cancelled \<longrightarrow> task_gone_or {T_cancelled} i (gate_db w'))
     \<and> (cr_outcome r = Out_already_done \<longrightarrow> task_gone_or {T_success, T_failed} i (gate_db w'))"
  using assms
  by (induction x i prev n w arbitrary: r rule: wait_persisted_cancel.induct)
    (auto simp: cancelled_as_def task_gone_or_def split: option.splits if_split_asm)

lemma signal_frame [simp]: "gate_db (snd (signal_persisted_worker x row w)) = gate_db w"
  by (simp add: signal_persisted_worker_def split: option.split)

lemma reg_event_cases:
  "reg_event x pt i k m w = (None, w') \<Longrightarrow> gate_db w' = gate_db w"
  using reg_event_frame(2) by (metis snd_conv)

lemma cancel_active_outcome:
  assumes "pk_ok tk_instance_id (build_tasks (gate_db w))" "get_build_task i (gate_db w) = Some row"
    "tk_status row = T_building \<or> tk_status row = T_cancelling"
    "cancel_persisted x i polls w = (Inr r, w')"
  shows "(cr_outcome r = Out_cancelled \<longrightarrow> task_gone_or {T_cancelled} i (gate_db w'))
     \<and> (cr_outcome r = Out_already_done \<longrightarrow> task_gone_or {T_success, T_failed} i (gate_db w'))"
proof -
  let ?u = "no_task_update\<lparr>tu_status := Some T_cancelling, tu_cancel_requested_at := Some (x_now x P_cancel)\<rparr>"
  let ?w1 = "gate_update i (tk_build_token row) ?u (x_now x P_cancel) w"
  obtain sg w2 where sg: "signal_persisted_worker x row ?w1 = (sg, w2)" by fastforce
  then have g2: "gate_db w2 = gate_db ?w1" by (metis signal_frame snd_conv)
  obtain row1 where row1: "get_build_task i (gate_db ?w1) = Some row1" "tk_status row1 = T_cancelling"
      "tk_build_token row1 = tk_build_token row"
    using gate_update_status [OF assms(1,2), of ?u T_cancelling "x_now x P_cancel"] assms(3)
    by (auto simp: task_allowed_def)
  let ?v = "no_task_update\<lparr>tu_status := Some T_cancelled\<rparr>"
  let ?w3 = "gate_update i (tk_build_token row) ?v (x_now x P_cancel) w2"
  have "\<exists>row'. get_build_task i (gate_db ?w3) = Some row' \<and> tk_status row' = T_cancelled"
    using gate_update_status [of w2 i row1 ?v T_cancelled "x_now x P_cancel"] pk_ok_gate_update [OF assms(1)] row1 g2
    by (auto simp: task_allowed_def)
  then have gone: "task_gone_or {T_cancelled} i (gate_db ?w3)" by (auto simp: task_gone_or_def)
  show ?thesis
  proof (cases "\<not> sg \<and> \<not> x_alive x P_cancel (tk_owner_pid row)")
    case True
    with assms(2-4) sg have "r = cancelled_as i Out_cancelled (Some (tk_status row))"
      "gate_db w' = gate_db ?w3"
      by (auto simp: cancel_persisted_def Let_def)
    with gone show ?thesis by (simp add: cancelled_as_def)
  next
    case False
    with assms(2-4) sg have "wait_persisted_cancel x i (Some (tk_status row)) polls w2 = (r, w')"
      by (auto simp: cancel_persisted_def Let_def split: prod.splits if_split_asm)
    then show ?thesis by (rule wait_persisted_outcome)
  qed
qed

text \<open>What a cancellation of another process's build reports is true of the shared table when it
  returns: \<open>cancelled\<close> only if the task is cancelled or its row is gone, \<open>already_done\<close> only if
  it had succeeded or failed.\<close>

theorem cancel_persisted_outcome:
  assumes "pk_ok tk_instance_id (build_tasks (gate_db w))" "cancel_persisted x i polls w = (Inr r, w')"
  shows "(cr_outcome r = Out_cancelled \<longrightarrow> task_gone_or {T_cancelled} i (gate_db w'))
     \<and> (cr_outcome r = Out_already_done \<longrightarrow> task_gone_or {T_success, T_failed} i (gate_db w'))"
proof (cases "get_build_task i (gate_db w)")
  case None
  with assms(2) show ?thesis
    by (auto simp: cancel_persisted_def cancelled_as_def split: prod.splits option.splits)
next
  case (Some row)
  show ?thesis
  proof (cases "tk_status row")
    case T_queued
    let ?u = "no_task_update\<lparr>tu_status := Some T_cancelled, tu_cancel_requested_at := Some (x_now x P_cancel)\<rparr>"
    let ?w1 = "gate_update i (tk_build_token row) ?u (x_now x P_cancel) w"
    have "\<exists>row'. get_build_task i (gate_db ?w1) = Some row' \<and> tk_status row' = T_cancelled"
      using gate_update_status [OF assms(1) Some, of ?u T_cancelled "x_now x P_cancel"] T_queued by (auto simp: task_allowed_def)
    moreover have "gate_db w' = gate_db ?w1" "cr_outcome r = Out_cancelled"
      using assms(2) Some T_queued
      by (auto simp: cancel_persisted_def Let_def cancelled_as_def split: prod.splits option.splits
          dest: reg_event_cases)
    ultimately show ?thesis by (auto simp: task_gone_or_def)
  next
    case T_building
    then show ?thesis using cancel_active_outcome [OF assms(1) Some _ assms(2)] by blast
  next
    case T_cancelling
    then show ?thesis using cancel_active_outcome [OF assms(1) Some _ assms(2)] by blast
  qed (use assms(2) Some in \<open>auto simp: cancel_persisted_def cancelled_as_def task_gone_or_def\<close>)
qed

theorem cancel_persisted_outcome_witness:
  "\<exists>r w'. cancel_persisted (sample_ctx\<lparr>x_alive := (\<lambda>_ _. False), x_kill := (\<lambda>_. False)\<rparr>) ''my-site'' 3
       (sample_bq\<lparr>gate_db := empty_gate\<lparr>build_tasks := [sample_task T_building 9]\<rparr>\<rparr>) = (Inr r, w')
     \<and> cr_outcome r = Out_cancelled \<and> task_gone_or {T_cancelled} ''my-site'' (gate_db w')"
proof -
  let ?x = "sample_ctx\<lparr>x_alive := (\<lambda>_ _. False), x_kill := (\<lambda>_. False)\<rparr>"
  let ?w = "sample_bq\<lparr>gate_db := empty_gate\<lparr>build_tasks := [sample_task T_building 9]\<rparr>\<rparr>"
  have "case fst (cancel_persisted ?x ''my-site'' 3 ?w) of
      Inr r \<Rightarrow> cr_outcome r = Out_cancelled | Inl _ \<Rightarrow> False" by code_simp
  then obtain r w' where c: "cancel_persisted ?x ''my-site'' 3 ?w = (Inr r, w')" "cr_outcome r = Out_cancelled"
    by (cases "cancel_persisted ?x ''my-site'' 3 ?w") (auto split: sum.splits)
  have "pk_ok tk_instance_id (build_tasks (gate_db ?w))" by code_simp
  from cancel_persisted_outcome [OF this c(1)] c show ?thesis by blast
qed

end
