(* ===== verification/Config.thy ===== *)
theory Config
  imports Lwa_Text Paths
begin

text \<open>
  Models \<^verbatim>\<open>config.py\<close>: the settings of \<^verbatim>\<open>local-web.yml\<close>, their field validators, the port checks
  that span fields, and the resolution of the build mirrors. YAML reading, the build proxy URL
  and the CPU limit (a floating-point text) are not modelled. Paths are POSIX paths.
\<close>

datatype config_error =
    Out_of_bounds string int
  | Pool_reversed int int
  | Pool_too_small
  | Bad_memory string
  | Bad_preset string
  | Source_root_not_absolute string
  | Bad_static_gateway string
  | Bad_profile string
  | Bad_log_level string
  | Bad_lan_strategy string
  | Node_path_empty
  | Node_path_not_absolute string
  | Node_path_not_node string
  | Bad_manual_ip string
  | Bad_gateway_tls string
  | Bad_bind_host string
  | Unsupported_bind_host string
  | Tls_needs_caddy string
  | Port_in_pool string int
  | Missing_manual_ip
  | Same_port string string int

section \<open>Port pool\<close>

record port_pool =
  pool_start :: int
  pool_end :: int

definition as_range :: "port_pool \<Rightarrow> int list" where
  "as_range p = [pool_start p..pool_end p]"

definition pool_len :: "port_pool \<Rightarrow> int" where
  "pool_len p = pool_end p - pool_start p + 1"

definition check_bounds :: "string \<Rightarrow> int \<Rightarrow> int \<Rightarrow> int \<Rightarrow> config_error list" where
  "check_bounds name lo hi n = (if lo \<le> n \<and> n \<le> hi then [] else [Out_of_bounds name n])"

definition check_range :: "port_pool \<Rightarrow> config_error list" where
  "check_range p =
     (if pool_start p > pool_end p then [Pool_reversed (pool_start p) (pool_end p)]
      else if pool_end p - pool_start p < 10 then [Pool_too_small]
      else [])"

definition validate_pool :: "port_pool \<Rightarrow> config_error list" where
  "validate_pool p =
     (case check_bounds ''start'' 1 65535 (pool_start p) @ check_bounds ''end'' 1 65535 (pool_end p) of
        [] \<Rightarrow> check_range p
      | es \<Rightarrow> es)"

section \<open>Build mirrors and resource limits\<close>

definition memory_units :: "string list" where
  "memory_units = [[], ''b''] @ concat (map (\<lambda>u. [[u], [u, CHR ''i''], [u, CHR ''b''], [u, CHR ''i'', CHR ''b'']]) ''kmgt'')"

definition validate_memory :: "string \<Rightarrow> config_error + string" where
  "validate_memory value =
     (let normalized = to_lower (strip value) in
      case normalized of
        c # cs \<Rightarrow>
          if is_digit c \<and> c \<noteq> CHR ''0'' \<and> dropWhile is_digit cs \<in> set memory_units
          then Inr normalized else Inl (Bad_memory value)
      | [] \<Rightarrow> Inl (Bad_memory value))"

record build_mirrors =
  bm_enabled :: bool
  bm_preset :: string
  bm_pip :: "string option"
  bm_pipExtraIndex :: "string option"
  bm_pipFallbacks :: "string list option"
  bm_pipRetries :: int
  bm_pipTimeout :: int
  bm_npm :: "string option"
  bm_nodeDistBase :: "string option"
  bm_aptMirror :: "string option"
  bm_aptFallbacks :: "string list option"
  bm_aptRetries :: int
  bm_aptTimeout :: int
  bm_apkMirror :: "string option"
  bm_aptBudget :: int

definition validate_preset :: "string \<Rightarrow> config_error + string" where
  "validate_preset v =
     (let lower = to_lower (if v = [] then ''none'' else v) in
      if lower \<notin> {''china'', ''none''} then Inl (Bad_preset v) else Inr lower)"

definition rstrip_slash :: "string \<Rightarrow> string" where
  "rstrip_slash s = rev (dropWhile (\<lambda>c. c = CHR ''/'') (rev s))"

definition china_pip :: string where "china_pip = ''https://mirrors.aliyun.com/pypi/simple/''"
definition china_npm :: string where "china_npm = ''https://registry.npmmirror.com''"
definition china_node_dist :: string where
  "china_node_dist = ''https://mirrors.aliyun.com/nodejs-release''"
definition china_apt :: string where "china_apt = ''mirrors.aliyun.com''"
definition china_apk :: string where "china_apk = ''mirrors.aliyun.com''"
definition china_apt_fallbacks :: "string list" where
  "china_apt_fallbacks = [''mirrors.tuna.tsinghua.edu.cn'', ''deb.debian.org'']"
definition china_pip_fallbacks :: "string list" where
  "china_pip_fallbacks =
     [''https://pypi.org/simple'', ''https://mirrors.cloud.tencent.com/pypi/simple/'']"

definition resolved :: "build_mirrors \<Rightarrow> build_mirrors" where
  "resolved b =
     (if \<not> bm_enabled b \<or> bm_preset b = ''none''
      then b\<lparr>bm_enabled := False, bm_preset := ''none'', bm_pip := None, bm_pipExtraIndex := None,
        bm_pipFallbacks := Some [], bm_npm := None, bm_nodeDistBase := None, bm_aptMirror := None,
        bm_aptFallbacks := Some [], bm_apkMirror := None\<rparr>
      else b\<lparr>bm_enabled := True, bm_preset := ''china'',
        bm_pip := or_else (bm_pip b) (Some china_pip),
        bm_pipFallbacks := Some (map rstrip_slash (case bm_pipFallbacks b of
            Some us \<Rightarrow> us | None \<Rightarrow> china_pip_fallbacks)),
        bm_npm := or_else (bm_npm b) (Some china_npm),
        bm_nodeDistBase := map_option rstrip_slash
          (or_else (bm_nodeDistBase b) (Some china_node_dist)),
        bm_aptMirror := or_else (bm_aptMirror b) (Some china_apt),
        bm_aptFallbacks := Some (case bm_aptFallbacks b of
            Some hs \<Rightarrow> map strip hs | None \<Rightarrow> china_apt_fallbacks),
        bm_apkMirror := or_else (bm_apkMirror b) (Some china_apk)\<rparr>)"

section \<open>The configuration\<close>

text \<open>YAML reads an unquoted \<^verbatim>\<open>off\<close> as a boolean, so the TLS mode arrives as either.\<close>

datatype tls_value = Tls_bool bool | Tls_text string

record config =
  cf_managerPort :: int
  cf_managerTokenRotateHours :: int
  cf_portPool :: port_pool
  cf_staticGateway :: string
  cf_staticGatewayPort :: "int option"
  cf_buildConcurrency :: int
  cf_hostBuildTimeout :: int
  cf_nodeFallbackPaths :: "string list"
  cf_buildTimeout :: int
  cf_imageRetention :: int
  cf_selfHealPreferLastGood :: bool
  cf_lanIpStrategy :: string
  cf_manualLanIp :: "string option"
  cf_gatewayTls :: tls_value
  cf_gatewayTlsPort :: int
  cf_managerTlsPort :: int
  cf_gatewayPlainPort :: "int option"
  cf_instanceBindHost :: string
  cf_logLevel :: string
  cf_allowedSourceRoots :: "string list"
  cf_maxPendingOperations :: int
  cf_profile :: string

definition validate_gateway :: "string \<Rightarrow> config_error + string" where
  "validate_gateway v =
     (if v \<notin> {''caddy'', ''builtin''} then Inl (Bad_static_gateway v) else Inr v)"

definition validate_profile :: "string \<Rightarrow> config_error + string" where
  "validate_profile v =
     (let lower = to_lower (if v = [] then ''default'' else v) in
      if lower \<notin> {''default'', ''full''} then Inl (Bad_profile v) else Inr lower)"

definition validate_log_level :: "string \<Rightarrow> config_error + string" where
  "validate_log_level v =
     (let upper = to_upper v in
      if upper \<notin> {''DEBUG'', ''INFO'', ''WARNING'', ''ERROR'', ''CRITICAL''}
      then Inl (Bad_log_level v) else Inr upper)"

definition validate_lan_strategy :: "string \<Rightarrow> config_error + string" where
  "validate_lan_strategy v =
     (if v \<notin> {''auto'', ''manual''} then Inl (Bad_lan_strategy v) else Inr v)"

definition path_name :: "string \<Rightarrow> string" where
  "path_name s = (case rel_parts s of [] \<Rightarrow> [] | ps \<Rightarrow> last ps)"

fun validate_node_fallback_paths :: "string list \<Rightarrow> string list \<Rightarrow> config_error + string list" where
  "validate_node_fallback_paths [] normalized = Inr normalized"
| "validate_node_fallback_paths (value # values) normalized =
     (let item = strip value in
      if item = [] \<or> list_ex (\<lambda>c. c \<in> {CHR 0x00, CHR 0x0D, CHR 0x0A}) item then Inl Node_path_empty
      else if \<not> starts_with ''/'' item then Inl (Node_path_not_absolute item)
      else if path_name item \<noteq> ''node'' then Inl (Node_path_not_node item)
      else validate_node_fallback_paths values
             (if item \<in> set normalized then normalized else normalized @ [item]))"

definition validate_manual_lan_ip :: "string option \<Rightarrow> config_error + string option" where
  "validate_manual_lan_ip v =
     (case v of
        None \<Rightarrow> Inr None
      | Some s \<Rightarrow> (case ip_address (strip s) of
            None \<Rightarrow> Inl (Bad_manual_ip s)
          | Some a \<Rightarrow> Inr (Some (str_ip a))))"

definition validate_gateway_tls :: "tls_value \<Rightarrow> config_error + tls_value" where
  "validate_gateway_tls v =
     (let t = (case v of Tls_bool b \<Rightarrow> (if b then ''internal'' else ''off'') | Tls_text t \<Rightarrow> t) in
      if t \<notin> {''off'', ''internal''} then Inl (Bad_gateway_tls t) else Inr (Tls_text t))"

definition validate_instance_bind_host :: "string \<Rightarrow> config_error + string" where
  "validate_instance_bind_host v =
     (case ip_address (strip v) of
        None \<Rightarrow> Inl (Bad_bind_host v)
      | Some a \<Rightarrow>
          if str_ip a \<notin> {''0.0.0.0'', ''127.0.0.1''} then Inl (Unsupported_bind_host (str_ip a))
          else Inr (str_ip a))"

definition validate_absolute :: "string list \<Rightarrow> config_error list" where
  "validate_absolute v = map Source_root_not_absolute
     (filter (\<lambda>s. \<not> starts_with ''/'' s) v)"

definition in_pool :: "config \<Rightarrow> int \<Rightarrow> bool" where
  "in_pool c n \<longleftrightarrow> pool_start (cf_portPool c) \<le> n \<and> n \<le> pool_end (cf_portPool c)"

definition check_tls_compatibility :: "config \<Rightarrow> config_error + config" where
  "check_tls_compatibility c =
     (if cf_gatewayTls c = Tls_text ''internal'' \<and> cf_staticGateway c \<noteq> ''caddy''
      then Inl (Tls_needs_caddy (cf_staticGateway c)) else Inr c)"

fun first_error :: "config_error list \<Rightarrow> 'a \<Rightarrow> config_error + 'a" where
  "first_error [] a = Inr a"
| "first_error (e # es) a = Inl e"

definition tls_ports :: "config \<Rightarrow> (string \<times> int) list" where
  "tls_ports c = [(''gatewayTlsPort'', cf_gatewayTlsPort c), (''managerTlsPort'', cf_managerTlsPort c)]"

definition occupied :: "config \<Rightarrow> (string \<times> int) list" where
  "occupied c = (''managerPort'', cf_managerPort c) #
     (case cf_staticGatewayPort c of None \<Rightarrow> [] | Some p \<Rightarrow> [(''staticGatewayPort'', p)])"

text \<open>The checks in the order in which the code raises; each contributes its errors in turn.\<close>

definition check_ports :: "config \<Rightarrow> config_error list" where
  "check_ports c =
     (if in_pool c (cf_managerPort c) then [Port_in_pool ''managerPort'' (cf_managerPort c)] else [])
     @ (if cf_lanIpStrategy c = ''manual'' \<and> \<not> truthy (cf_manualLanIp c) then [Missing_manual_ip] else [])
     @ (case cf_staticGatewayPort c of None \<Rightarrow> [] | Some p \<Rightarrow>
          (if p = cf_managerPort c then [Same_port ''staticGatewayPort'' ''managerPort'' p] else [])
          @ (if in_pool c p then [Port_in_pool ''staticGatewayPort'' p] else []))
     @ concat (map (\<lambda>(plain_name, plain_port). concat (map (\<lambda>(tls_name, tls_port).
          if plain_port = tls_port then [Same_port tls_name plain_name tls_port] else [])
          (tls_ports c))) (occupied c))
     @ (if cf_gatewayTlsPort c = cf_managerTlsPort c
        then [Same_port ''gatewayTlsPort'' ''managerTlsPort'' (cf_gatewayTlsPort c)] else [])
     @ concat (map (\<lambda>(name, port). if in_pool c port then [Port_in_pool name port] else []) (tls_ports c))
     @ (if cf_gatewayTls c = Tls_text ''internal'' then
          (case cf_gatewayPlainPort c of None \<Rightarrow> [] | Some plain \<Rightarrow>
             (if plain = cf_managerPort c then [Same_port ''gatewayPlainPort'' ''managerPort'' plain] else [])
             @ (if plain \<in> snd ` set (tls_ports c) then [Same_port ''gatewayPlainPort'' ''TLS'' plain] else [])
             @ (if in_pool c plain then [Port_in_pool ''gatewayPlainPort'' plain] else []))
        else [])"

definition check_manager_port_not_in_pool :: "config \<Rightarrow> config_error + config" where
  "check_manager_port_not_in_pool c = first_error (check_ports c) c"

definition errors_of :: "config_error + 'a \<Rightarrow> config_error list" where
  "errors_of r = (case r of Inl e \<Rightarrow> [e] | Inr _ \<Rightarrow> [])"

definition opt_bounds :: "string \<Rightarrow> int option \<Rightarrow> config_error list" where
  "opt_bounds name v = (case v of None \<Rightarrow> [] | Some n \<Rightarrow> check_bounds name 1 65535 n)"

text \<open>The errors of the fields, which are reported together.\<close>

definition field_errors :: "config \<Rightarrow> config_error list" where
  "field_errors c =
     check_bounds ''managerPort'' 1 65535 (cf_managerPort c)
     @ check_bounds ''managerTokenRotateHours'' 1 8760 (cf_managerTokenRotateHours c)
     @ validate_pool (cf_portPool c)
     @ errors_of (validate_gateway (cf_staticGateway c))
     @ opt_bounds ''staticGatewayPort'' (cf_staticGatewayPort c)
     @ check_bounds ''buildConcurrency'' 1 8 (cf_buildConcurrency c)
     @ check_bounds ''hostBuildTimeout'' 60 7200 (cf_hostBuildTimeout c)
     @ errors_of (validate_node_fallback_paths (cf_nodeFallbackPaths c) [])
     @ check_bounds ''buildTimeout'' 60 21600 (cf_buildTimeout c)
     @ check_bounds ''imageRetention'' 1 50 (cf_imageRetention c)
     @ errors_of (validate_lan_strategy (cf_lanIpStrategy c))
     @ errors_of (validate_manual_lan_ip (cf_manualLanIp c))
     @ errors_of (validate_gateway_tls (cf_gatewayTls c))
     @ check_bounds ''gatewayTlsPort'' 1 65535 (cf_gatewayTlsPort c)
     @ check_bounds ''managerTlsPort'' 1 65535 (cf_managerTlsPort c)
     @ opt_bounds ''gatewayPlainPort'' (cf_gatewayPlainPort c)
     @ errors_of (validate_instance_bind_host (cf_instanceBindHost c))
     @ errors_of (validate_log_level (cf_logLevel c))
     @ validate_absolute (cf_allowedSourceRoots c)
     @ check_bounds ''maxPendingOperations'' 1 1024 (cf_maxPendingOperations c)
     @ errors_of (validate_profile (cf_profile c))"

definition normalised :: "config \<Rightarrow> config" where
  "normalised c = c\<lparr>
     cf_nodeFallbackPaths := projr (validate_node_fallback_paths (cf_nodeFallbackPaths c) []),
     cf_manualLanIp := projr (validate_manual_lan_ip (cf_manualLanIp c)),
     cf_gatewayTls := projr (validate_gateway_tls (cf_gatewayTls c)),
     cf_instanceBindHost := projr (validate_instance_bind_host (cf_instanceBindHost c)),
     cf_logLevel := projr (validate_log_level (cf_logLevel c)),
     cf_profile := projr (validate_profile (cf_profile c))\<rparr>"

definition validate_config :: "config \<Rightarrow> config_error list + config" where
  "validate_config c =
     (case field_errors c of
        [] \<Rightarrow> (case check_tls_compatibility (normalised c) of
            Inl e \<Rightarrow> Inl [e]
          | Inr c1 \<Rightarrow> (case check_manager_port_not_in_pool c1 of
                Inl e \<Rightarrow> Inl [e] | Inr c2 \<Rightarrow> Inr c2))
      | es \<Rightarrow> Inl es)"

definition tls_enabled :: "config \<Rightarrow> bool" where
  "tls_enabled c \<longleftrightarrow> cf_gatewayTls c = Tls_text ''internal'' \<and> cf_staticGateway c = ''caddy''"

definition default_config :: config where
  "default_config = \<lparr>cf_managerPort = 17800, cf_managerTokenRotateHours = 168,
     cf_portPool = \<lparr>pool_start = 18000, pool_end = 19999\<rparr>, cf_staticGateway = ''caddy'',
     cf_staticGatewayPort = Some 8080, cf_buildConcurrency = 1, cf_hostBuildTimeout = 1800,
     cf_nodeFallbackPaths = [], cf_buildTimeout = 1800, cf_imageRetention = 3,
     cf_selfHealPreferLastGood = True, cf_lanIpStrategy = ''auto'', cf_manualLanIp = None,
     cf_gatewayTls = Tls_text ''off'', cf_gatewayTlsPort = 8443, cf_managerTlsPort = 9443,
     cf_gatewayPlainPort = None, cf_instanceBindHost = ''0.0.0.0'', cf_logLevel = ''INFO'',
     cf_allowedSourceRoots = [], cf_maxPendingOperations = 32, cf_profile = ''default''\<rparr>"

lemma default_config_valid: "validate_config default_config = Inr default_config"
  by code_simp

section \<open>Facts\<close>

lemma first_error_Inr: "first_error es a = Inr b \<longleftrightarrow> es = [] \<and> b = a"
  by (cases es) auto

lemma check_bounds_Nil: "check_bounds n lo hi v = [] \<longleftrightarrow> lo \<le> v \<and> v \<le> hi"
  by (simp add: check_bounds_def)

lemma validate_config_Inr:
  assumes "validate_config c = Inr c'"
  shows "field_errors c = []" "c' = normalised c" "check_ports c' = []"
    "cf_gatewayTls c' = Tls_text ''internal'' \<longrightarrow> cf_staticGateway c' = ''caddy''"
  using assms by (auto simp: validate_config_def check_tls_compatibility_def
      check_manager_port_not_in_pool_def first_error_Inr split: list.splits sum.splits if_splits)

text \<open>The ports a running installation listens on, beside those of the instances.\<close>

definition listening :: "config \<Rightarrow> int list" where
  "listening c = cf_managerPort c # (case cf_staticGatewayPort c of None \<Rightarrow> [] | Some p \<Rightarrow> [p])
     @ [cf_gatewayTlsPort c, cf_managerTlsPort c]"

lemma check_ports_Nil:
  assumes "check_ports c = []"
  shows "distinct (listening c)" "\<forall>p \<in> set (listening c). \<not> in_pool c p"
    "cf_lanIpStrategy c = ''manual'' \<Longrightarrow> truthy (cf_manualLanIp c)"
    "cf_gatewayTls c = Tls_text ''internal'' \<Longrightarrow> cf_gatewayPlainPort c = Some p \<Longrightarrow>
       \<not> in_pool c p \<and> p \<notin> {cf_managerPort c, cf_gatewayTlsPort c, cf_managerTlsPort c}"
  using assms
  by (auto simp: check_ports_def tls_ports_def occupied_def listening_def
      split: option.splits if_split_asm)

text \<open>A configuration that is accepted has a pool of valid ports, listens on distinct ports that
  all lie outside the pool, needs Caddy for TLS, binds instances to the wildcard or the loopback
  address, and has an address when the LAN strategy is manual.\<close>

theorem validated_config_ports:
  assumes "validate_config c = Inr c'"
  shows "1 \<le> pool_start (cf_portPool c') \<and> pool_end (cf_portPool c') \<le> 65535
     \<and> distinct (listening c') \<and> (\<forall>p \<in> set (listening c'). p \<notin> set (as_range (cf_portPool c')))
     \<and> (cf_gatewayTls c' = Tls_text ''internal'' \<longrightarrow> tls_enabled c')
     \<and> cf_instanceBindHost c' \<in> {''0.0.0.0'', ''127.0.0.1''}
     \<and> (cf_lanIpStrategy c' = ''manual'' \<longrightarrow> truthy (cf_manualLanIp c'))"
proof -
  note v = validate_config_Inr [OF assms]
  note p = check_ports_Nil [OF v(3)]
  have fe: "validate_pool (cf_portPool c) = []"
    "errors_of (validate_instance_bind_host (cf_instanceBindHost c)) = []"
    using v(1) by (simp_all add: field_errors_def)
  have "1 \<le> pool_start (cf_portPool c') \<and> pool_end (cf_portPool c') \<le> 65535"
    using fe(1) v(2) by (auto simp: validate_pool_def normalised_def check_bounds_Nil split: list.splits)
  moreover have "cf_instanceBindHost c' \<in> {''0.0.0.0'', ''127.0.0.1''}"
    using fe(2) v(2) by (auto simp: validate_instance_bind_host_def normalised_def errors_of_def
        split: option.splits if_split_asm)
  ultimately show ?thesis
    using p v(4) by (auto simp: tls_enabled_def in_pool_def as_range_def)
qed

theorem validated_config_ports_witness:
  "distinct (listening default_config) \<and> listening default_config = [17800, 8080, 8443, 9443]"
  using validated_config_ports [OF default_config_valid]
  by (simp add: listening_def default_config_def)

text \<open>The size check of the port pool accepts exactly the pools of at least eleven ports; a pool
  of ten, the minimum that its message states, is refused.\<close>

theorem pool_size_check:
  "check_range p = [] \<longleftrightarrow> 11 \<le> pool_len p"
  by (auto simp: check_range_def pool_len_def)

end
