(* ===== verification/Ports.thy ===== *)
theory Ports
  imports Config Registry_Facts
begin

text \<open>
  Models \<^verbatim>\<open>ports.py\<close>: access URLs, the network entry of an instance and the port allocator on
  the registry. What the operating system answers (is a port in use, which LAN address is
  detected) is a parameter.
\<close>

section \<open>URLs\<close>

definition HEALTH_HOST :: string where "HEALTH_HOST = ''127.0.0.1''"

definition resolve_lan_ip :: "string option \<Rightarrow> config \<Rightarrow> string option" where
  "resolve_lan_ip detected c =
     (if cf_lanIpStrategy c = ''manual'' then cf_manualLanIp c else detected)"

definition format_http_host :: "string \<Rightarrow> string" where
  "format_http_host host =
     (let raw = strip host in
      if raw = [] then raw
      else if starts_with ''['' raw \<and> ends_with '']'' raw then raw
      else (case ip_address raw of
          Some (V6 _ _) \<Rightarrow> ''['' @ raw @ '']''
        | _ \<Rightarrow> raw))"

definition entry_scheme :: "config option \<Rightarrow> string" where
  "entry_scheme c = (if (case c of None \<Rightarrow> False | Some c \<Rightarrow> tls_enabled c) then ''https'' else ''http'')"

definition lan_entry_port :: "config \<Rightarrow> int option" where
  "lan_entry_port c = (if tls_enabled c then Some (cf_gatewayTlsPort c) else cf_staticGatewayPort c)"

definition manager_entry_url :: "config \<Rightarrow> string option \<Rightarrow> string option" where
  "manager_entry_url c lan_ip =
     (case lan_ip of
        None \<Rightarrow> None
      | Some ip \<Rightarrow>
          if ip = [] then None
          else if tls_enabled c
          then Some (''https://'' @ format_http_host ip @ '':'' @ dec_int (cf_managerTlsPort c) @ ''/'')
          else Some (''http://'' @ format_http_host ip @ '':'' @ dec_int (cf_managerPort c) @ ''/''))"

definition build_lan_url :: "string option \<Rightarrow> int \<Rightarrow> config option \<Rightarrow> string option" where
  "build_lan_url lan_ip port c =
     (case lan_ip of
        None \<Rightarrow> None
      | Some ip \<Rightarrow>
          if ip = [] then None
          else Some (entry_scheme c @ ''://'' @ format_http_host ip @ '':'' @ dec_int port))"

definition build_health_url :: "int \<Rightarrow> string \<Rightarrow> string" where
  "build_health_url port host = ''http://'' @ format_http_host host @ '':'' @ dec_int port"

definition build_route_url ::
  "string option \<Rightarrow> int option \<Rightarrow> string \<Rightarrow> config option \<Rightarrow> string option" where
  "build_route_url lan_ip gateway_port alias c =
     (case (lan_ip, gateway_port) of
        (Some ip, Some port) \<Rightarrow>
          if ip = [] then None
          else (let scheme = entry_scheme c;
                    default_port = (if scheme = ''https'' then 443 else 80);
                    port_part = (if port = default_port then [] else '':'' @ dec_int port) in
            Some (scheme @ ''://'' @ format_http_host ip @ port_part @ ''/'' @ alias @ ''/''))
      | _ \<Rightarrow> None)"

record network_entry =
  n_host :: string
  n_internalPort :: "int option"
  n_hostPort :: int
  n_routeMode :: route_mode
  n_routeHost :: "string option"
  n_routeUrl :: "string option"
  n_lanUrl :: "string option"
  n_healthUrl :: string

definition build_network_entry ::
  "string option \<Rightarrow> config \<Rightarrow> int \<Rightarrow> int option \<Rightarrow> string option \<Rightarrow> string option \<Rightarrow> network_entry" where
  "build_network_entry detected c host_port internal_port lan_ip path_alias =
     (let lan_ip = (case lan_ip of None \<Rightarrow> resolve_lan_ip detected c | Some ip \<Rightarrow> Some ip);
          bind_host = (if cf_instanceBindHost c = [] then ''0.0.0.0'' else cf_instanceBindHost c);
          entry_port = lan_entry_port c in
      \<lparr>n_host = bind_host, n_internalPort = internal_port, n_hostPort = host_port,
       n_routeMode = (if path_alias \<noteq> None then ROUTE_NAME else ROUTE_PORT),
       n_routeHost = path_alias,
       n_routeUrl = (case path_alias of None \<Rightarrow> None
         | Some a \<Rightarrow> build_route_url lan_ip entry_port a (Some c)),
       n_lanUrl = build_lan_url lan_ip host_port None,
       n_healthUrl = build_health_url host_port HEALTH_HOST\<rparr>)"

section \<open>The allocator\<close>

datatype port_error = Pool_exhausted int int | Registry_failed reg_error

text \<open>The loop over the candidates, for any port store. \<open>env p\<close> is what other processes do to the
  store between the check of candidate \<open>p\<close> and the claim of it; \<open>skip\<close> is the probe of the host.\<close>

fun alloc_loop ::
  "(string \<Rightarrow> int \<Rightarrow> 's \<Rightarrow> ('e + bool) \<times> 's) \<Rightarrow> (int \<Rightarrow> 's \<Rightarrow> 's) \<Rightarrow> (int \<Rightarrow> bool) \<Rightarrow> string
     \<Rightarrow> int list \<Rightarrow> int list \<Rightarrow> int list \<Rightarrow> 's \<Rightarrow> ('e + int option) \<times> 's" where
  "alloc_loop claim env skip i exclude allocated [] s = (Inr None, s)"
| "alloc_loop claim env skip i exclude allocated (p # ps) s =
     (if p \<in> set allocated \<or> p \<in> set exclude then alloc_loop claim env skip i exclude allocated ps s
      else if skip p then alloc_loop claim env skip i exclude allocated ps s
      else (case claim i p (env p s) of
          (Inl e, s') \<Rightarrow> (Inl e, s')
        | (Inr False, s') \<Rightarrow> alloc_loop claim env skip i exclude (p # allocated) ps s'
        | (Inr True, s') \<Rightarrow> (Inr (Some p), s')))"

definition allocate ::
  "(int \<Rightarrow> bool) \<Rightarrow> (int \<Rightarrow> reg \<Rightarrow> reg) \<Rightarrow> config \<Rightarrow> string \<Rightarrow> int list option \<Rightarrow> bool \<Rightarrow> string \<Rightarrow> reg
     \<Rightarrow> (port_error + int) \<times> reg" where
  "allocate is_port_in_use env c i exclude probe_host now r =
     (let exclude = (case exclude of None \<Rightarrow> [] | Some ps \<Rightarrow> ps);
          pool = cf_portPool c in
      case alloc_loop (claim_port now) env (\<lambda>p. probe_host \<and> is_port_in_use p) i exclude
             (allocated_ports r) (as_range pool) r of
        (Inl e, r') \<Rightarrow> (Inl (Registry_failed e), r')
      | (Inr None, r') \<Rightarrow> (Inl (Pool_exhausted (pool_start pool) (pool_end pool)), r')
      | (Inr (Some p), r') \<Rightarrow> (Inr p, r'))"

definition release :: "int \<Rightarrow> reg \<Rightarrow> reg" where
  "release port r = commit (release_port port r) r"

definition release_instance :: "string \<Rightarrow> reg \<Rightarrow> reg" where
  "release_instance i r = commit (release_instance_ports i r) r"

context port_store begin

lemma alloc_loop_sound:
  assumes "alloc_loop claim env skip i ex al ps s = (Inr (Some p), s')"
    "inv s" "\<And>q t. inv t \<Longrightarrow> inv (env q t)"
  shows "p \<in> set ps \<and> p \<notin> set al \<and> p \<notin> set ex \<and> \<not> skip p \<and> owner s' p = Some i \<and> inv s'"
  using assms(1,2)
proof (induction ps arbitrary: al s)
  case (Cons q ps)
  show ?case
  proof (cases "q \<in> set al \<or> q \<in> set ex \<or> skip q")
    case True
    with Cons show ?thesis by (auto split: if_splits)
  next
    case False
    have i: "inv (env q s)" using assms(3) Cons.prems(2) by blast
    obtain res t where c: "claim i q (env q s) = (res, t)" by fastforce
    have t: "inv t" using claim_inv [OF i, of i q] c by simp
    show ?thesis
    proof (cases "res = Inr True")
      case True
      with claim_owner [OF i, of i q] c have "owner t q = Some i" by simp
      with True False c Cons.prems(1) t show ?thesis by auto
    next
      case n: False
      then have "alloc_loop claim env skip i ex (q # al) ps t = (Inr (Some p), s')"
        using False c Cons.prems(1) by (auto split: sum.splits bool.splits)
      from Cons.IH [OF this t] show ?thesis by auto
    qed
  qed
qed simp

text \<open>Undisturbed, a loop that returns no port found every candidate excluded, in use, or owned by
  another instance, and it has changed nothing.\<close>

lemma alloc_loop_exhausted:
  assumes "alloc_loop claim (\<lambda>_ s. s) skip i ex al ps s = (Inr None, s')" "inv s"
  shows "\<forall>p \<in> set ps. p \<in> set al \<or> p \<in> set ex \<or> skip p \<or> (\<exists>j. j \<noteq> i \<and> owner s p = Some j)"
  using assms
proof (induction ps arbitrary: al s)
  case (Cons q ps)
  show ?case
  proof (cases "q \<in> set al \<or> q \<in> set ex \<or> skip q")
    case True
    with Cons.prems have "alloc_loop claim (\<lambda>_ s. s) skip i ex al ps s = (Inr None, s')"
      by (auto split: if_splits)
    from Cons.IH [OF this Cons.prems(2)] True show ?thesis by auto
  next
    case False
    obtain res t where c: "claim i q s = (res, t)" by fastforce
    with False Cons.prems(1) have r: "res = Inr False"
      "alloc_loop claim (\<lambda>_ s. s) skip i ex (q # al) ps t = (Inr None, s')"
      by (auto split: sum.splits bool.splits)
    have o: "owner t = owner s"
      by (rule ext) (use claim_frame [OF Cons.prems(2), of _ q i] c r(1) in auto)
    have t: "inv t" using claim_inv [OF Cons.prems(2), of i q] c by simp
    have "\<exists>j. j \<noteq> i \<and> owner s q = Some j"
      using claim_result [OF Cons.prems(2), of i q False] c r(1) by auto
    with Cons.IH [OF r(2) t] o show ?thesis by auto
  qed
qed simp

end

lemma port_owner_allocated: "port_owner r p = None \<longleftrightarrow> p \<notin> set (allocated_ports r)"
  by (auto simp: port_owner_def allocated_ports_def find_by_None_iff)

text \<open>C30: A port that the allocator returns lies in the configured pool, was free in the registry
  when it looked, is neither excluded nor (when probing) in use on the host, and is owned by the
  instance afterwards, whatever other processes write to the registry in between.\<close>

theorem allocate_sound:
  assumes "allocate in_use env c i exclude probe now r = (Inr p, r')" "reg_ok r"
    "\<And>q s. reg_ok s \<Longrightarrow> reg_ok (env q s)"
  shows "pool_start (cf_portPool c) \<le> p \<and> p \<le> pool_end (cf_portPool c)
     \<and> port_owner r p = None \<and> (\<forall>ps. exclude = Some ps \<longrightarrow> p \<notin> set ps) \<and> \<not> (probe \<and> in_use p)
     \<and> port_owner r' p = Some i"
proof -
  have "alloc_loop (claim_port now) env (\<lambda>p. probe \<and> in_use p) i
      (case exclude of None \<Rightarrow> [] | Some ps \<Rightarrow> ps) (allocated_ports r) (as_range (cf_portPool c)) r
      = (Inr (Some p), r')"
    using assms(1) by (auto simp: allocate_def Let_def split: prod.splits sum.splits option.splits)
  from reg_ports.alloc_loop_sound [OF this assms(2,3)] show ?thesis
    by (auto simp: as_range_def port_owner_allocated)
qed

theorem allocate_sound_witness:
  "\<exists>r'. allocate (\<lambda>p. p = 18000) (\<lambda>_ s. s) default_config ''my-site'' None True ''t'' sample_reg
      = (Inr 18002, r') \<and> port_owner r' 18002 = Some ''my-site''"
proof -
  have "case alloc_loop (claim_port ''t'') (\<lambda>_ s. s) (\<lambda>p. True \<and> p = 18000) ''my-site'' []
      (allocated_ports sample_reg) [18000, 18001, 18002] sample_reg of (Inr (Some p), _) \<Rightarrow> p = 18002 | _ \<Rightarrow> False"
    by code_simp
  then obtain r' where l: "alloc_loop (claim_port ''t'') (\<lambda>_ s. s) (\<lambda>p. True \<and> p = 18000) ''my-site'' []
      (allocated_ports sample_reg) [18000, 18001, 18002] sample_reg = (Inr (Some 18002), r')"
    by (auto split: prod.splits sum.splits option.splits)
  have app: "alloc_loop cl env sk i ex al (ps @ qs) s = (Inr (Some p), s')"
    if "alloc_loop cl env sk i ex al ps s = (Inr (Some p), s')" for cl env sk i ex al ps qs p and s s' :: reg
    using that by (induction ps arbitrary: al s) (auto split: prod.splits sum.splits bool.splits if_split_asm)
  have "as_range (cf_portPool default_config) = [18000, 18001, 18002] @ [18003..19999]"
    by (simp add: as_range_def default_config_def upto_rec1)
  then have "allocate (\<lambda>p. p = 18000) (\<lambda>_ s. s) default_config ''my-site'' None True ''t'' sample_reg
      = (Inr 18002, r')"
    using app [OF l, of "[18003..19999]"] by (simp add: allocate_def Let_def)
  from allocate_sound [OF this reg_ok_sample] this show ?thesis by auto
qed

text \<open>When no other process interferes, the allocator reports an exhausted pool only when every
  port of the pool is taken by an instance, excluded, or (when probing) in use on the host.\<close>

theorem allocate_exhausted:
  assumes "allocate in_use (\<lambda>_ s. s) c i exclude probe now r = (Inl (Pool_exhausted a b), r')" "reg_ok r"
  shows "\<forall>p. pool_start (cf_portPool c) \<le> p \<and> p \<le> pool_end (cf_portPool c) \<longrightarrow>
     port_owner r p \<noteq> None \<or> (\<exists>ps. exclude = Some ps \<and> p \<in> set ps) \<or> (probe \<and> in_use p)"
proof -
  have "alloc_loop (claim_port now) (\<lambda>_ s. s) (\<lambda>p. probe \<and> in_use p) i
      (case exclude of None \<Rightarrow> [] | Some ps \<Rightarrow> ps) (allocated_ports r) (as_range (cf_portPool c)) r
      = (Inr None, r')"
    using assms(1) by (auto simp: allocate_def Let_def split: prod.splits sum.splits option.splits)
  note ex = reg_ports.alloc_loop_exhausted [OF this assms(2)]
  show ?thesis
  proof (intro allI impI)
    fix p assume "pool_start (cf_portPool c) \<le> p \<and> p \<le> pool_end (cf_portPool c)"
    then have "p \<in> set (as_range (cf_portPool c))" by (simp add: as_range_def)
    with ex have "p \<in> set (allocated_ports r) \<or> p \<in> set (case exclude of None \<Rightarrow> [] | Some ps \<Rightarrow> ps)
        \<or> (probe \<and> in_use p) \<or> (\<exists>j. port_owner r p = Some j)" by blast
    then show "port_owner r p \<noteq> None \<or> (\<exists>ps. exclude = Some ps \<and> p \<in> set ps) \<or> (probe \<and> in_use p)"
      using port_owner_allocated [of r p] by (cases exclude) auto
  qed
qed

theorem allocate_exhausted_witness:
  "\<not> (\<exists>p. 18000 \<le> p \<and> p \<le> 18002 \<and> port_owner sample_reg p = None \<and> \<not> (p = 18000 \<or> p = 18002))"
proof -
  let ?c = "default_config\<lparr>cf_portPool := \<lparr>pool_start = 18000, pool_end = 18002\<rparr>\<rparr>"
  have "case alloc_loop (claim_port ''t'') (\<lambda>_ s. s) (\<lambda>p. True \<and> (p = 18000 \<or> p = 18002)) ''my-site'' []
      (allocated_ports sample_reg) [18000, 18001, 18002] sample_reg of (Inr None, _) \<Rightarrow> True | _ \<Rightarrow> False"
    by code_simp
  then obtain r' where l: "alloc_loop (claim_port ''t'') (\<lambda>_ s. s) (\<lambda>p. True \<and> (p = 18000 \<or> p = 18002)) ''my-site'' []
      (allocated_ports sample_reg) [18000, 18001, 18002] sample_reg = (Inr None, r')"
    by (auto split: prod.splits sum.splits option.splits)
  have "as_range (cf_portPool ?c) = [18000, 18001, 18002]"
    by (simp add: as_range_def upto_rec1)
  then have "allocate (\<lambda>p. p = 18000 \<or> p = 18002) (\<lambda>_ s. s) ?c ''my-site'' None True ''t'' sample_reg
      = (Inl (Pool_exhausted 18000 18002), r')"
    using l by (simp add: allocate_def Let_def)
  from allocate_exhausted [OF this reg_ok_sample] show ?thesis by auto
qed

end
