(* ===== verification/Lwa_Numbers.thy ===== *)
theory Lwa_Numbers
  imports Lwa_Text
begin

text \<open>
  Python's \<open>int(text)\<close> and the texts around it: white space and one sign are accepted, single
  underscores may stand between digits.
\<close>

definition py_digits :: "string \<Rightarrow> nat option" where
  "py_digits s =
     (if list_all (\<lambda>w. w \<noteq> [] \<and> list_all is_digit w) (split_on CHR ''_'' s)
      then Some (digits_val (concat (split_on CHR ''_'' s))) else None)"

definition py_int :: "string \<Rightarrow> int option" where
  "py_int s = (case strip s of
     [] \<Rightarrow> None
   | c # t \<Rightarrow>
       if c = CHR ''-'' then map_option (\<lambda>n. - int n) (py_digits t)
       else if c = CHR ''+'' then map_option int (py_digits t)
       else map_option int (py_digits (c # t)))"

text \<open>\<open>text.partition(sep)\<close> for a separator of one character, without the separator itself.\<close>

definition before_sep :: "char \<Rightarrow> string \<Rightarrow> string" where
  "before_sep c s = takeWhile (\<lambda>x. x \<noteq> c) s"

definition after_sep :: "char \<Rightarrow> string \<Rightarrow> string" where
  "after_sep c s = drop 1 (dropWhile (\<lambda>x. x \<noteq> c) s)"

lemma digit_not_ws: "is_digit c \<Longrightarrow> \<not> is_ws c"
  by (auto simp: is_digit_def is_ws_def Let_def)

lemma strip_digits: "list_all is_digit s \<Longrightarrow> strip s = s"
proof -
  assume d: "list_all is_digit s"
  have id: "dropWhile is_ws t = t" if "list_all is_digit t" for t
    using that digit_not_ws by (cases t) auto
  from id [OF d] id [of "rev s"] d show ?thesis
    by (simp add: strip_def lstrip_def rstrip_def)
qed

lemma py_digits_dec [simp]: "py_digits (dec n) = Some n"
proof -
  have "\<not> is_digit CHR ''_''" by code_simp
  then have "split_on CHR ''_'' (dec n) = [dec n]"
    by (intro split_on_no_sep dec_no_sep)
  then show ?thesis using dec_digits [of n] by (simp add: py_digits_def)
qed

lemma py_int_dec [simp]: "py_int (dec n) = Some (int n)"
proof -
  obtain c t where ct: "dec n = c # t" by (meson dec_nonempty list.exhaust)
  have "\<not> is_digit CHR ''-''" "\<not> is_digit CHR ''+''" by code_simp+
  then have "c \<noteq> CHR ''-''" "c \<noteq> CHR ''+''"
    using dec_no_sep [of _ n] ct by fastforce+
  with ct strip_digits [OF dec_digits [of n]] py_digits_dec [of n] show ?thesis
    by (simp add: py_int_def)
qed

lemma py_int_bad: "py_int [] = None"
  by (simp add: py_int_def strip_def lstrip_def rstrip_def)

lemma before_sep_append [simp]: "c \<notin> set w \<Longrightarrow> before_sep c (w @ c # s) = w"
  unfolding before_sep_def by (induction w) auto

lemma before_sep_none: "c \<notin> set w \<Longrightarrow> before_sep c w = w"
  unfolding before_sep_def takeWhile_eq_all_conv by metis

end
