(* ===== verification/Agent_Service.thy ===== *)
theory Agent_Service
  imports Build_Queue Ports Lwa_Numbers
begin

text \<open>
  Models the read and planning side of the agent channel, \<^verbatim>\<open>agent/service.py\<close> and the source-root
  check of \<^verbatim>\<open>agent/auth.py\<close>: scopes, paging through instances and logs, deployment plans. A cursor
  is modelled by the text under its base64 encoding. The time of a call is the RFC 3339 text that
  the code compares and stores (a plan expires on a full second, so comparing the texts is
  comparing the times). Hashes, new identifiers, file contents and the scan of a snapshot are
  parameters.
\<close>

section \<open>Principals\<close>

record principal =
  pr_id :: string
  pr_scopes :: "string list"

definition M1_LOCAL_OWNER_SCOPES :: "string list" where
  "M1_LOCAL_OWNER_SCOPES = [''instances:read'', ''deploy:create'', ''deploy:update'',
     ''instances:operate'', ''logs:read'']"

definition local_owner :: principal where
  "local_owner = \<lparr>pr_id = ''local-owner'', pr_scopes = M1_LOCAL_OWNER_SCOPES\<rparr>"

definition has_scope :: "principal \<Rightarrow> string list \<Rightarrow> bool" where
  "has_scope p scopes \<longleftrightarrow> list_ex (\<lambda>s. s \<in> set (pr_scopes p)) scopes"

text \<open>Path.resolve reads the file system and is a parameter; a path is the list of its segments.\<close>

definition validate_source_root ::
  "(string list \<Rightarrow> string list) \<Rightarrow> bool \<Rightarrow> string list \<Rightarrow> string list list \<Rightarrow> agent_error_code + string list" where
  "validate_source_root resolve is_absolute path allowed_roots =
     (if \<not> is_absolute then Inl E_source_not_allowed
      else (let real = resolve path in
        if list_ex (\<lambda>root. prefix (resolve root) real) allowed_roots then Inr real
        else Inl E_source_not_allowed))"

section \<open>Revisions\<close>

datatype claim_error = Agent_failure agent_error_code | Registry_failure reg_error | Assertion_failure

definition claim_content_revision :: "string \<Rightarrow> int \<Rightarrow> string \<Rightarrow> reg \<Rightarrow> claim_error + int \<times> reg" where
  "claim_content_revision i expected now r =
     (case cas_increment_revision i expected now r of
        Inl (Revision_conflict a b) \<Rightarrow> Inl (Agent_failure E_revision_conflict)
      | Inl e \<Rightarrow> Inl (Registry_failure e)
      | Inr res \<Rightarrow> Inr res)"

section \<open>Paging through instances\<close>

datatype cursor = Undecodable | Cursor string

definition decode_cursor :: "cursor \<Rightarrow> agent_error_code + string" where
  "decode_cursor c = (case c of
     Undecodable \<Rightarrow> Inl E_needs_input
   | Cursor t \<Rightarrow> if t = [] then Inl E_needs_input else Inr t)"

record instance_summary =
  is_instanceId :: string
  is_name :: string
  is_kind :: string
  is_runtime :: string
  is_status :: string
  is_revision :: int

definition summary_from_row :: "inst_row \<Rightarrow> instance_summary" where
  "summary_from_row x = \<lparr>is_instanceId = i_id x,
     is_name = (if i_name x = [] then i_id x else i_name x),
     is_kind = (if i_kind x = [] then ''unknown'' else i_kind x),
     is_runtime = (if i_runtime x = [] then ''unknown'' else i_runtime x),
     is_status = (if i_status x = [] then ''pending'' else i_status x), is_revision = i_revision x\<rparr>"

definition list_instances_page ::
  "principal \<Rightarrow> nat \<Rightarrow> cursor option \<Rightarrow> reg \<Rightarrow> agent_error_code + instance_summary list \<times> cursor option" where
  "list_instances_page p limit c r =
     (if \<not> has_scope p [''instances:read''] then Inl E_permission_denied
      else (let rows = sort_key i_id (list_instances r) in
        case (case c of None \<Rightarrow> Inr rows
              | Some c \<Rightarrow> (case decode_cursor c of
                    Inl e \<Rightarrow> Inl e | Inr after \<Rightarrow> Inr (filter (\<lambda>x. after < i_id x) rows))) of
          Inl e \<Rightarrow> Inl e
        | Inr rows \<Rightarrow>
            (let window = take limit rows in
             Inr (map summary_from_row window,
               (if length rows > limit \<and> window \<noteq> [] then Some (Cursor (i_id (last window))) else None)))))"

section \<open>Paging through a log\<close>

text \<open>\<open>tail_text_file\<close> joins the last \<open>n\<close> lines with newlines and the caller splits the text again,
  which drops an empty last line. Lines contain no line break.\<close>

definition tail_lines :: "nat \<Rightarrow> string list \<Rightarrow> string list" where
  "tail_lines n ls = (if n = 0 then ls else drop (length ls - n) ls)"

definition resplit :: "string list \<Rightarrow> string list" where
  "resplit ls = (if ls = [] then [] else if last ls = [] then butlast ls else ls)"

text \<open>Python's \<open>xs[:k]\<close> and \<open>xs[-k:]\<close>, a negative bound counting from the end.\<close>

definition slice_to :: "int \<Rightarrow> 'a list \<Rightarrow> 'a list" where
  "slice_to k xs = (if k < 0 then take (nat (int (length xs) + k)) xs else take (nat k) xs)"

definition slice_last :: "nat \<Rightarrow> 'a list \<Rightarrow> 'a list" where
  "slice_last k xs = (if k = 0 then xs else drop (length xs - k) xs)"

definition log_page :: "(string \<Rightarrow> string) \<Rightarrow> string list \<Rightarrow> nat \<Rightarrow> nat \<Rightarrow> string list \<times> nat option" where
  "log_page redact ls skip limit =
     (let lines = resplit (tail_lines (skip + limit + 1) ls);
          has_more = (length lines > skip + limit);
          window = (if skip > 0 then slice_to (int (length lines) - int skip) lines else lines);
          page = map redact (slice_last limit window) in
      (page, if has_more then Some (skip + limit) else None))"

text \<open>The file is the newest one with contents, or the first one of the wanted category.\<close>

record log_info =
  li_category :: string
  li_mtime :: int
  li_size :: nat
  li_lines :: "string list"

record logs_input =
  gl_instanceId :: "string option"
  gl_operationId :: "string option"
  gl_category :: "string option"
  gl_cursor :: "cursor option"
  gl_limit :: nat

record logs_page =
  lp_lines :: "string list"
  lp_nextCursor :: "cursor option"
  lp_truncated :: bool

definition LOG_CATEGORIES :: "string list" where
  "LOG_CATEGORIES = [''build'', ''run'', ''gateway'', ''import'', ''scan'']"

definition encode_log_cursor :: "nat \<Rightarrow> cursor" where
  "encode_log_cursor skip = Cursor (''skip:'' @ dec skip)"

definition decode_log_cursor :: "cursor \<Rightarrow> agent_error_code + nat" where
  "decode_log_cursor c = (case decode_cursor c of
     Inl e \<Rightarrow> Inl e
   | Inr t \<Rightarrow>
       if \<not> starts_with ''skip:'' t then Inl E_needs_input
       else (case py_int (drop 5 t) of
           None \<Rightarrow> Inl E_needs_input
         | Some v \<Rightarrow> if v < 0 then Inl E_needs_input else Inr (nat v)))"

fun newest :: "log_info list \<Rightarrow> log_info option" where
  "newest [] = None"
| "newest (x # xs) = (case newest xs of
     None \<Rightarrow> Some x
   | Some y \<Rightarrow> if li_mtime y > li_mtime x then Some y else Some x)"

definition log_instance :: "principal \<Rightarrow> logs_input \<Rightarrow> reg \<Rightarrow> claim_error + string" where
  "log_instance p q r =
     (if truthy (gl_instanceId q) then Inr (the (gl_instanceId q))
      else (case gl_operationId q of
          None \<Rightarrow> Inl Assertion_failure
        | Some oid \<Rightarrow> (case get_agent_operation oid r of
              None \<Rightarrow> Inl (Agent_failure E_needs_input)
            | Some row \<Rightarrow>
                if o_principal_id row \<noteq> pr_id p \<or> \<not> truthy (o_target_instance_id row)
                then Inl (Agent_failure E_needs_input)
                else Inr (the (o_target_instance_id row)))))"

definition no_logs :: logs_page where
  "no_logs = \<lparr>lp_lines = [], lp_nextCursor = None, lp_truncated = False\<rparr>"

definition get_logs ::
  "(string \<Rightarrow> log_info list) \<Rightarrow> (string \<Rightarrow> string) \<Rightarrow> principal \<Rightarrow> logs_input \<Rightarrow> reg
     \<Rightarrow> claim_error + logs_page" where
  "get_logs list_logs redact p q r =
     (if \<not> has_scope p [''logs:read''] then Inl (Agent_failure E_permission_denied)
      else (case log_instance p q r of Inl e \<Rightarrow> Inl e | Inr i \<Rightarrow>
        if get_instance i r = None then Inl (Agent_failure E_needs_input)
        else (case (case gl_cursor q of None \<Rightarrow> Inr 0 | Some c \<Rightarrow> decode_log_cursor c) of
          Inl e \<Rightarrow> Inl (Agent_failure e)
        | Inr skip \<Rightarrow>
            (let infos = filter (\<lambda>x. li_size x > 0) (list_logs i);
                 category = strip (case gl_category q of None \<Rightarrow> [] | Some c \<Rightarrow> c) in
             if infos = [] then Inr no_logs
             else if category \<noteq> [] \<and> category \<notin> set LOG_CATEGORIES then Inl (Agent_failure E_needs_input)
             else (case (if category \<noteq> [] then find (\<lambda>x. li_category x = category) infos
                         else newest infos) of
               None \<Rightarrow> Inr no_logs
             | Some chosen \<Rightarrow>
                 (let (lines, next_skip) = log_page redact (li_lines chosen) skip (gl_limit q) in
                  Inr \<lparr>lp_lines = lines, lp_nextCursor = map_option encode_log_cursor next_skip,
                    lp_truncated = next_skip \<noteq> None\<rparr>))))))"

section \<open>Instances and their addresses\<close>

record operation_view =
  ov_operationId :: string
  ov_action :: op_action
  ov_status :: op_status
  ov_phase :: "op_phase option"
  ov_instanceId :: "string option"
  ov_result :: "json option"
  ov_error :: "agent_error option"
  ov_createdAt :: string
  ov_updatedAt :: string

definition is_object :: "json \<Rightarrow> bool" where
  "is_object j = (case j of JObj _ \<Rightarrow> True | _ \<Rightarrow> False)"

definition view_of :: "op_row \<Rightarrow> operation_view" where
  "view_of x = \<lparr>ov_operationId = o_operation_id x, ov_action = o_action x, ov_status = o_status x,
     ov_phase = o_phase x, ov_instanceId = o_target_instance_id x,
     ov_result = (case o_result x of None \<Rightarrow> None | Some j \<Rightarrow> if is_object j then Some j else None),
     ov_error = o_error x, ov_createdAt = o_created_at x, ov_updatedAt = o_updated_at x\<rparr>"

record instance_detail =
  id_summary :: instance_summary
  id_desiredState :: string
  id_updatedAt :: string
  id_recentOperation :: "operation_view option"

definition get_instance_detail :: "principal \<Rightarrow> string \<Rightarrow> string \<Rightarrow> reg \<Rightarrow> agent_error_code + instance_detail" where
  "get_instance_detail p now i r =
     (if \<not> has_scope p [''instances:read''] then Inl E_permission_denied
      else (case get_instance i r of
          None \<Rightarrow> Inl E_needs_input
        | Some row \<Rightarrow> Inr \<lparr>id_summary = summary_from_row row,
            id_desiredState = (if i_desired_state row = [] then ''stopped'' else i_desired_state row),
            id_updatedAt = (if i_updated_at row = [] then now else i_updated_at row),
            id_recentOperation = map_option view_of (get_latest_agent_operation_for_instance i r)\<rparr>))"

record access_url =
  au_url :: string
  au_audience :: string
  au_observedAt :: string

text \<open>\<open>network\<close> is the network entry of the manifest on disk, \<open>None\<close> when there is no manifest.\<close>

definition get_access_urls ::
  "(string \<Rightarrow> (int option \<times> string option) option) \<Rightarrow> principal \<Rightarrow> string \<Rightarrow> string \<Rightarrow> string option \<Rightarrow> reg
     \<Rightarrow> agent_error_code + access_url list" where
  "get_access_urls network p now i wanted r =
     (if \<not> has_scope p [''instances:read''] then Inl E_permission_denied
      else (case get_instance i r of
          None \<Rightarrow> Inl E_needs_input
        | Some row \<Rightarrow> (case network i of
            None \<Rightarrow> Inl E_needs_input
          | Some (host_port, lan) \<Rightarrow>
              (let observed = the (or_else (i_last_observed_at row)
                     (or_else (i_last_health_check_at row)
                       (Some (if i_updated_at row = [] then now else i_updated_at row))));
                   localhost = (case host_port of None \<Rightarrow> None
                     | Some n \<Rightarrow> if n = 0 then None else Some (''http://127.0.0.1:'' @ dec_int n @ ''/''));
                   entry = (\<lambda>u a. \<lparr>au_url = u, au_audience = a, au_observedAt = observed\<rparr>) in
               Inr ((if localhost \<noteq> None \<and> wanted \<in> {None, Some ''localhost''}
                     then [entry (the localhost) ''localhost''] else [])
                  @ (if truthy lan \<and> wanted \<in> {None, Some ''lan''}
                     then [entry (the lan) ''lan''] else []))))))"

section \<open>Plans\<close>

datatype deploy_source =
    Server_directory string
  | Git_source string "string option" "string option" "string option" "string option"
  | Artifact string

definition json_text :: "json \<Rightarrow> string \<Rightarrow> string option" where
  "json_text j k = (case obj_get j k of Some (JStr s) \<Rightarrow> Some s | _ \<Rightarrow> None)"

definition source_of :: "json \<Rightarrow> deploy_source option" where
  "source_of j =
     (if json_text j ''type'' = Some ''server_directory'' then map_option Server_directory (json_text j ''path'')
      else if json_text j ''type'' = Some ''git''
      then map_option (\<lambda>u. Git_source u (json_text j ''ref'') (json_text j ''subdir'')
             (json_text j ''commit'') (json_text j ''refKind'')) (json_text j ''url'')
      else if json_text j ''type'' = Some ''artifact'' then map_option Artifact (json_text j ''artifactId'')
      else None)"

definition load_plan :: "string \<Rightarrow> reg \<Rightarrow> agent_error_code + plan_row" where
  "load_plan plan_id r =
     (case get_agent_plan plan_id r of
        None \<Rightarrow> Inl E_needs_input
      | Some p \<Rightarrow> if source_of (pl_source p) = None then Inl E_needs_input else Inr p)"

definition plan_expired :: "string \<Rightarrow> plan_row \<Rightarrow> bool" where
  "plan_expired now p \<longleftrightarrow> pl_expires_at p \<le> now"

definition assert_plan_fresh :: "string \<Rightarrow> plan_row \<Rightarrow> agent_error_code + unit" where
  "assert_plan_fresh now p = (if plan_expired now p then Inl E_needs_input else Inr ())"

text \<open>The cached capability states, as the two entries that are read.\<close>

record capability_cache =
  cc_dockerEngine :: "string option"
  cc_dockerAccess :: "string option"

definition capability_gaps_now :: "capability_cache option \<Rightarrow> string list \<Rightarrow> string list" where
  "capability_gaps_now cache required =
     (if required = [] then []
      else if ''docker'' \<in> set required then
        (let docker_state = (case cache of None \<Rightarrow> None
               | Some c \<Rightarrow> or_else (cc_dockerEngine c) (cc_dockerAccess c)) in
         if docker_state \<noteq> Some ''ready'' then [''docker''] else [])
      else [])"

record plan_env =
  pe_plan_id :: string
  pe_source_kind :: "string \<Rightarrow> string option"
  pe_snapshot :: "json \<Rightarrow> agent_error_code + string \<times> json"
  pe_needs_docker :: bool
  pe_request_hash :: "json \<Rightarrow> string"
  pe_expires :: string

definition intent_text :: "intent \<Rightarrow> string" where
  "intent_text i = (case i of Create \<Rightarrow> ''create'' | Update \<Rightarrow> ''update'')"

definition json_opt :: "('a \<Rightarrow> json) \<Rightarrow> 'a option \<Rightarrow> json" where
  "json_opt f v = (case v of None \<Rightarrow> JNull | Some a \<Rightarrow> f a)"

definition check_plan_target ::
  "(string \<Rightarrow> string option) \<Rightarrow> plan_input \<Rightarrow> reg \<Rightarrow> agent_error_code option" where
  "check_plan_target source_kind q r =
     (case (pi_intent q, pi_targetInstanceId q, pi_expectedRevision q) of
        (Update, Some target, Some expected) \<Rightarrow>
          (case get_revision target r of
             None \<Rightarrow> Some E_needs_input
           | Some current \<Rightarrow>
               if current \<noteq> expected then Some E_revision_conflict
               else if source_kind target = Some ''git'' then Some E_needs_input
               else None)
      | _ \<Rightarrow> None)"

definition plan_deployment ::
  "plan_env \<Rightarrow> principal \<Rightarrow> string \<Rightarrow> string \<Rightarrow> plan_input \<Rightarrow> json \<Rightarrow> json \<Rightarrow> reg
     \<Rightarrow> (claim_error + plan_row) \<times> reg" where
  "plan_deployment e p now candidate q source options r =
     (if \<not> has_scope p [if pi_intent q = Create then ''deploy:create'' else ''deploy:update'']
      then (Inl (Agent_failure E_permission_denied), r)
      else (case check_plan_target (pe_source_kind e) q r of
        Some err \<Rightarrow> (Inl (Agent_failure err), r)
      | None \<Rightarrow>
          (case pe_snapshot e source of
             Inl err \<Rightarrow> (Inl (Agent_failure err), r)
           | Inr (digest, stored) \<Rightarrow>
               (let required = (if pe_needs_docker e then [''docker''] else []);
                    (workspace_id, r1) = projr (get_or_create_workspace_id candidate r);
                    payload = JObj [(''source'', stored), (''intent'', JStr (intent_text (pi_intent q))),
                      (''targetInstanceId'', json_opt JStr (pi_targetInstanceId q)),
                      (''expectedRevision'', json_opt JInt (pi_expectedRevision q)),
                      (''displayName'', json_opt JStr (pi_displayName q)), (''options'', options),
                      (''policyVersion'', JStr ''1'')];
                    row = \<lparr>pl_plan_id = pe_plan_id e, pl_principal_id = pr_id p,
                      pl_workspace_id = workspace_id, pl_intent = pi_intent q, pl_source = stored,
                      pl_source_digest = digest, pl_target_instance_id = pi_targetInstanceId q,
                      pl_expected_revision = pi_expectedRevision q, pl_display_name = pi_displayName q,
                      pl_policy_version = ''1'', pl_request_hash = pe_request_hash e (canonical payload),
                      pl_created_at = now, pl_expires_at = pe_expires e,
                      pl_required_capabilities = required\<rparr> in
                case insert_agent_plan row r1 of
                  Inl err \<Rightarrow> (Inl (Registry_failure err), r1)
                | Inr (_, r2) \<Rightarrow> (Inr row, r2)))))"

section \<open>Paging reaches everything\<close>

text \<open>A client that follows the cursors, with a bound on the number of calls.\<close>

fun read_pages ::
  "nat \<Rightarrow> principal \<Rightarrow> nat \<Rightarrow> cursor option \<Rightarrow> reg \<Rightarrow> agent_error_code + instance_summary list" where
  "read_pages 0 p limit c r = Inr []"
| "read_pages (Suc k) p limit c r =
     (case list_instances_page p limit c r of
        Inl e \<Rightarrow> Inl e
      | Inr (xs, None) \<Rightarrow> Inr xs
      | Inr (xs, Some c') \<Rightarrow>
          (case read_pages k p limit (Some c') r of Inl e \<Rightarrow> Inl e | Inr ys \<Rightarrow> Inr (xs @ ys)))"

fun read_log :: "nat \<Rightarrow> (string \<Rightarrow> string) \<Rightarrow> string list \<Rightarrow> nat \<Rightarrow> nat \<Rightarrow> string list" where
  "read_log 0 redact ls skip limit = []"
| "read_log (Suc k) redact ls skip limit =
     (case log_page redact ls skip limit of
        (page, None) \<Rightarrow> page
      | (page, Some skip') \<Rightarrow> read_log k redact ls skip' limit @ page)"

lemma filter_greater_suffix:
  assumes "sorted (map f xs)" "distinct (map f xs)" "k < length xs"
  shows "filter (\<lambda>y. f (xs ! k) < f y) xs = drop (Suc k) xs"
proof -
  have less: "f (xs ! i) < f (xs ! j)" if "i < j" "j < length xs" for i j
  proof -
    have "f (xs ! i) \<le> f (xs ! j)"
      using assms(1) that sorted_nth_mono [of "map f xs" i j] by simp
    moreover have "f (xs ! i) \<noteq> f (xs ! j)"
      using assms(2) that nth_eq_iff_index_eq [of "map f xs" i j] by simp
    ultimately show ?thesis by simp
  qed
  have "filter (\<lambda>y. f (xs ! k) < f y) (take (Suc k) xs) = []"
    using less assms(3) by (fastforce simp: filter_empty_conv in_set_conv_nth less_Suc_eq dest: order.asym)
  moreover have "filter (\<lambda>y. f (xs ! k) < f y) (drop (Suc k) xs) = drop (Suc k) xs"
    using less assms(3) by (fastforce simp: filter_id_conv in_set_conv_nth)
  ultimately show ?thesis
    by (metis append_Nil append_take_drop_id filter_append)
qed

lemma read_pages_from:
  assumes scope: "has_scope p [''instances:read'']" and limit: "0 < limit"
    and srt: "sorted (map i_id xs)" "distinct (map i_id xs)" "[] \<notin> i_id ` set xs"
    and xs: "sort_key i_id (list_instances r) = xs"
  shows "k \<le> length xs \<Longrightarrow> length xs - k < n \<Longrightarrow> c = (if k = 0 then None else Some (Cursor (i_id (xs ! (k - 1))))) \<Longrightarrow>
     read_pages n p limit c r = Inr (map summary_from_row (drop k xs))"
proof (induction n arbitrary: k c)
  case (Suc n)
  have rows: "(case c of None \<Rightarrow> Inr xs
      | Some c \<Rightarrow> (case decode_cursor c of Inl e \<Rightarrow> Inl e | Inr after \<Rightarrow> Inr (filter (\<lambda>x. after < i_id x) xs)))
      = Inr (drop k xs)"
  proof (cases k)
    case 0
    with Suc.prems show ?thesis by simp
  next
    case (Suc j)
    then have j: "j < length xs" using Suc.prems(1) by simp
    then have "i_id (xs ! j) \<noteq> []" using srt(3) by (metis image_eqI nth_mem)
    with Suc j Suc.prems(3) filter_greater_suffix [OF srt(1,2) j] show ?thesis
      by (simp add: decode_cursor_def)
  qed
  let ?w = "take limit (drop k xs)"
  have pg: "list_instances_page p limit c r = Inr (map summary_from_row ?w,
      if length xs - k > limit \<and> ?w \<noteq> [] then Some (Cursor (i_id (last ?w))) else None)"
    using scope rows by (simp add: list_instances_page_def Let_def xs)
  show ?case
  proof (cases "length xs - k > limit")
    case True
    then have last: "last ?w = xs ! (k + limit - 1)" and ne: "?w \<noteq> []"
      using limit by (simp_all add: last_conv_nth nth_append)
    have "read_pages n p limit (Some (Cursor (i_id (last ?w)))) r
        = Inr (map summary_from_row (drop (k + limit) xs))"
      using True limit Suc.prems by (intro Suc.IH) (auto simp: last)
    moreover have "drop k xs = ?w @ drop (k + limit) xs"
      by (metis add.commute append_take_drop_id drop_drop)
    ultimately show ?thesis using pg True ne by (simp add: map_append [symmetric] del: map_append)
  next
    case False
    then have "?w = drop k xs" by simp
    with pg False show ?thesis by simp
  qed
qed simp

text \<open>Following the cursors of the instance list from the first page returns every instance exactly
  once, in the order of the ids, however small the page size, when nothing is written in
  between.\<close>

theorem pages_cover_instances:
  assumes "has_scope p [''instances:read'']" "0 < limit" "reg_ok r"
    "[] \<notin> i_id ` set (instances r)" "length (instances r) < n"
  shows "\<exists>xs. read_pages n p limit None r = Inr (map summary_from_row xs)
     \<and> sorted (map i_id xs) \<and> distinct (map i_id xs) \<and> set xs = set (instances r)"
proof -
  let ?xs = "sort_key i_id (list_instances r)"
  have perm: "set ?xs = set (instances r)" "length ?xs = length (instances r)"
    by (simp_all add: list_instances_def)
  have d: "distinct (map i_id ?xs)"
    using assms(3) by (simp add: list_instances_def reg_ok_def pk_ok_def distinct_map)
  have "read_pages n p limit None r = Inr (map summary_from_row (drop 0 ?xs))"
    using assms perm d by (intro read_pages_from [of p limit ?xs r 0 n None]) auto
  with d perm(1) show ?thesis by (intro exI [of _ ?xs]) simp
qed

definition two_instances :: reg where
  "two_instances = fold run_cmd [Upsert_manifest sample_api None None,
     Upsert_manifest (sample_api\<lparr>m_id := ''blog''\<rparr>) None None] empty_reg"

theorem pages_cover_instances_witness:
  "(\<exists>xs. read_pages 3 local_owner 1 None two_instances = Inr (map summary_from_row xs)
      \<and> sorted (map i_id xs) \<and> distinct (map i_id xs) \<and> set xs = set (instances two_instances))
   \<and> map i_id (instances two_instances) = [''my-site'', ''blog'']"
proof
  show "map i_id (instances two_instances) = [''my-site'', ''blog'']" by code_simp
  then have "[] \<notin> i_id ` set (instances two_instances)" "length (instances two_instances) < 3"
    by (auto simp: Cons_eq_map_conv map_eq_Cons_conv)
  moreover have "reg_ok two_instances"
    unfolding two_instances_def by (rule reg_ok_fold [OF reg_ok_empty])
  moreover have "has_scope local_owner [''instances:read'']" by code_simp
  ultimately show "\<exists>xs. read_pages 3 local_owner 1 None two_instances = Inr (map summary_from_row xs)
      \<and> sorted (map i_id xs) \<and> distinct (map i_id xs) \<and> set xs = set (instances two_instances)"
    using pages_cover_instances [of local_owner 1 two_instances 3] by simp
qed

lemma log_page_static:
  assumes "ls \<noteq> []" "last ls \<noteq> []" "0 < limit" "skip < length ls"
  shows "log_page redact ls skip limit =
     (map redact (drop (length ls - skip - limit) (take (length ls - skip) ls)),
      if length ls > skip + limit then Some (skip + limit) else None)"
proof -
  let ?n = "length ls" and ?N = "skip + limit + 1"
  let ?T = "drop (?n - ?N) ls"
  have "?N - 1 < ?N" "0 < ?n" using assms(1) by auto
  then have "?n - ?N < ?n" by (metis diff_less zero_less_Suc add.commute plus_1_eq_Suc)
  then have "?T \<noteq> []" "last ?T = last ls" by (simp_all add: last_drop)
  then have T: "resplit (tail_lines ?N ls) = ?T"
    using assms(2) by (simp add: resplit_def tail_lines_def)
  have lT: "length ?T = min ?n ?N" by simp
  have w: "(if skip > 0 then slice_to (int (length ?T) - int skip) ?T else ?T) = take (length ?T - skip) ?T"
    using assms(3,4) by (auto simp: slice_to_def nat_diff_distrib')
  have "slice_last limit (take (length ?T - skip) ?T) = drop (?n - skip - limit) (take (?n - skip) ls)"
  proof (cases "?n > skip + limit")
    case True
    then have "take (length ?T - skip) ?T = drop (?n - ?N) (take (?n - skip) ls)"
      by (simp add: take_drop Suc_diff_Suc [OF assms(4)])
    moreover have "Suc (?n - Suc (skip + limit)) = ?n - (skip + limit)" using True by simp
    ultimately show ?thesis using True assms(3) by (simp add: slice_last_def)
  next
    case False
    with assms(3) show ?thesis by (simp add: slice_last_def)
  qed
  then show ?thesis unfolding log_page_def Let_def T w by (auto simp: min_def)
qed

lemma read_log_static:
  assumes "ls \<noteq> []" "last ls \<noteq> []" "0 < limit"
  shows "skip < length ls \<Longrightarrow> length ls - skip < k \<Longrightarrow>
     read_log k redact ls skip limit = map redact (take (length ls - skip) ls)"
proof (induction k arbitrary: skip)
  case (Suc k)
  note p = log_page_static [OF assms Suc.prems(1), of redact]
  show ?case
  proof (cases "length ls > skip + limit")
    case True
    have "read_log k redact ls (skip + limit) limit = map redact (take (length ls - (skip + limit)) ls)"
      using True Suc.prems(2) assms(3) by (intro Suc.IH) auto
    moreover have "take (length ls - skip) ls =
        take (length ls - (skip + limit)) ls @ drop (length ls - skip - limit) (take (length ls - skip) ls)"
      by (metis append_take_drop_id diff_diff_left diff_le_self min.absorb2 min.commute take_take)
    ultimately show ?thesis using p True by (simp add: map_append [symmetric] del: map_append)
  next
    case False
    with p show ?thesis by simp
  qed
qed simp

text \<open>Following the cursors of a log that does not grow returns all its lines in order when its
  last line is not blank. When it is blank, the first page reports that there is nothing more, and
  all lines but the last \<open>limit\<close> before the blank one are out of reach.\<close>

theorem log_reading:
  assumes "0 < limit" "length ls < k"
  shows "read_log k redact ls 0 limit = map redact
     (if ls = [] \<or> last ls \<noteq> [] then ls else drop (length ls - Suc limit) (butlast ls))"
proof (cases "ls = [] \<or> last ls \<noteq> []")
  case True
  show ?thesis
  proof (cases "ls = []")
    case True
    with assms show ?thesis
      by (cases k) (simp_all add: log_page_def tail_lines_def resplit_def slice_last_def Let_def)
  next
    case False
    with True assms read_log_static [of ls limit 0 k redact] show ?thesis by simp
  qed
next
  case False
  then have ne: "ls \<noteq> []" and l: "last ls = []" by auto
  let ?T = "drop (length ls - Suc limit) ls"
  have "length ls - Suc limit < length ls" using ne by (simp add: diff_less)
  then have "last ?T = []" "?T \<noteq> []" using l by (simp_all add: last_drop)
  then have "resplit (tail_lines (Suc limit) ls) = butlast ?T"
    by (simp add: resplit_def tail_lines_def)
  then have "log_page redact ls 0 limit = (map redact (butlast ?T), None)"
    using assms(1) by (simp add: log_page_def Let_def slice_last_def)
  with False assms(2) show ?thesis by (cases k) (simp_all add: butlast_drop)
qed

theorem log_reading_witness:
  "read_log 5 (\<lambda>l. l) [''a'', ''b'', ''c''] 0 2 = [''a'', ''b'', ''c'']
   \<and> read_log 5 (\<lambda>l. l) [''a'', ''b'', ''c'', []] 0 2 = [''b'', ''c'']"
  using log_reading [of 2 "[''a'', ''b'', ''c'']" 5 "\<lambda>l. l"]
    log_reading [of 2 "[''a'', ''b'', ''c'', []]" 5 "\<lambda>l. l"] by simp

end
