(* ===== verification/Agent_Operations.thy ===== *)
theory Agent_Operations
  imports Agent_Service
begin

text \<open>
  Models \<open>AgentOperationService\<close> of \<^verbatim>\<open>agent/operations.py\<close>: accepting deployments and lifecycle
  actions under idempotency keys, reading and cancelling operations. Every registry call is a
  transaction of its own; what other threads and processes write in between is the parameter
  \<open>oc_env\<close>. The clock, the new operation id and the request hash are parameters.
\<close>

section \<open>Context\<close>

datatype accept_point = A_replayed | A_checked | A_counted | A_cancel

record op_ctx =
  oc_principal :: principal
  oc_now :: string
  oc_new_id :: string
  oc_candidate :: string
  oc_hash :: "json \<Rightarrow> string"
  oc_cache :: "capability_cache option"
  oc_max_pending :: nat
  oc_env :: "accept_point \<Rightarrow> reg \<Rightarrow> reg"

record accepted =
  ac_operationId :: string
  ac_status :: op_status
  ac_instanceId :: "string option"

fun action_text :: "op_action \<Rightarrow> string" where
  "action_text Deploy = ''deploy''"
| "action_text Start = ''start''"
| "action_text Stop = ''stop''"
| "action_text Restart = ''restart''"
| "action_text Rebuild = ''rebuild''"

fun lifecycle_scope :: "op_action \<Rightarrow> string option" where
  "lifecycle_scope Start = Some ''instances:operate''"
| "lifecycle_scope Stop = Some ''instances:operate''"
| "lifecycle_scope Restart = Some ''instances:operate''"
| "lifecycle_scope Rebuild = Some ''deploy:update''"
| "lifecycle_scope Deploy = None"

definition ACTIVE_STATUSES :: "op_status list" where
  "ACTIVE_STATUSES = [Queued, Running, Cancelling]"

definition error_payload :: "agent_error_code \<Rightarrow> string \<Rightarrow> agent_error" where
  "error_payload code op_id = \<lparr>ae_code = code,
     ae_retryable = (code \<in> {E_quota_exceeded, E_manager_unavailable, E_busy}),
     ae_operationId = Some op_id\<rparr>"

definition accepted_of :: "op_row \<Rightarrow> accepted" where
  "accepted_of x = \<lparr>ac_operationId = o_operation_id x, ac_status = o_status x,
     ac_instanceId = o_target_instance_id x\<rparr>"

definition workspace_id :: "op_ctx \<Rightarrow> reg \<Rightarrow> string \<times> reg" where
  "workspace_id c r = projr (get_or_create_workspace_id (oc_candidate c) r)"

section \<open>Accepting\<close>

text \<open>An earlier operation under the same key is returned before any other check; one with another
  action or content is a conflict.\<close>

definition replay_existing ::
  "op_ctx \<Rightarrow> op_action \<Rightarrow> string \<Rightarrow> (op_row \<Rightarrow> bool) \<Rightarrow> reg \<Rightarrow> (claim_error + accepted option) \<times> reg" where
  "replay_existing c action key matches r =
     (let (ws, r1) = workspace_id c r in
      case get_agent_operation_by_idempotency (pr_id (oc_principal c)) ws key r1 of
        None \<Rightarrow> (Inr None, r1)
      | Some existing \<Rightarrow>
          if o_action existing \<noteq> action \<or> \<not> matches existing
          then (Inl (Agent_failure E_idempotency_conflict), r1)
          else (Inr (Some (accepted_of existing)), r1))"

definition new_operation ::
  "op_ctx \<Rightarrow> op_action \<Rightarrow> string \<Rightarrow> json \<Rightarrow> string \<Rightarrow> string option \<Rightarrow> string option \<Rightarrow> string \<Rightarrow> op_row" where
  "new_operation c action key payload digest plan_id target ws =
     \<lparr>o_operation_id = oc_new_id c, o_principal_id = pr_id (oc_principal c), o_workspace_id = ws,
       o_action = action, o_target_instance_id = target, o_request_hash = digest,
       o_idempotency_key = key, o_plan_id = plan_id, o_status = Queued, o_phase = None,
       o_created_at = oc_now c, o_updated_at = oc_now c, o_worker_identity = None,
       o_lease_until = None, o_build_token = None, o_payload = Some payload, o_result = None,
       o_error = None\<rparr>"

definition accept ::
  "op_ctx \<Rightarrow> op_action \<Rightarrow> string \<Rightarrow> json \<Rightarrow> json \<Rightarrow> string option \<Rightarrow> string option \<Rightarrow> reg
     \<Rightarrow> (claim_error + accepted) \<times> reg" where
  "accept c action key payload digest_payload plan_id target r =
     (let (ws, r1) = workspace_id c r;
          digest = oc_hash c (canonical digest_payload);
          r2 = oc_env c A_checked r1 in
      case get_agent_operation_by_idempotency (pr_id (oc_principal c)) ws key r2 of
        Some existing \<Rightarrow>
          (if o_request_hash existing \<noteq> digest then (Inl (Agent_failure E_idempotency_conflict), r2)
           else (Inr (accepted_of existing), r2))
      | None \<Rightarrow>
          (if count_agent_operations ACTIVE_STATUSES r2 \<ge> oc_max_pending c
           then (Inl (Agent_failure E_busy), r2)
           else (let r3 = oc_env c A_counted r2 in
             case create_agent_operation (new_operation c action key payload digest plan_id target ws) r3 of
               Inl (Idempotency_conflict k) \<Rightarrow> (Inl (Agent_failure E_idempotency_conflict), r3)
             | Inl e \<Rightarrow> (Inl (Registry_failure e), r3)
             | Inr (row, r4) \<Rightarrow> (Inr (accepted_of row), r4))))"

definition deploy_payload :: "plan_row \<Rightarrow> (string \<times> json) list" where
  "deploy_payload p = [(''action'', JStr ''deploy''), (''planId'', JStr (pl_plan_id p))]"

definition deploy_digest :: "plan_row \<Rightarrow> json" where
  "deploy_digest p = JObj (deploy_payload p @ [(''requestHash'', JStr (pl_request_hash p)),
     (''policyVersion'', JStr (pl_policy_version p)),
     (''targetInstanceId'', json_opt JStr (pl_target_instance_id p)),
     (''expectedRevision'', json_opt JInt (pl_expected_revision p))])"

text \<open>The checks on the plan, in the order of the code. The workspace of the plan is compared with
  the one of the registry, which exists since the replay check.\<close>

definition check_plan :: "op_ctx \<Rightarrow> plan_row \<Rightarrow> reg \<Rightarrow> agent_error_code option" where
  "check_plan c p r =
     (if \<not> has_scope (oc_principal c) [if pl_intent p = Create then ''deploy:create'' else ''deploy:update'']
      then Some E_permission_denied
      else if plan_expired (oc_now c) p then Some E_needs_input
      else if pl_principal_id p \<noteq> pr_id (oc_principal c) then Some E_permission_denied
      else if pl_workspace_id p \<noteq> fst (workspace_id c r) then Some E_permission_denied
      else if capability_gaps_now (oc_cache c) (pl_required_capabilities p) \<noteq> []
      then Some E_capability_unavailable
      else None)"

definition apply_deployment ::
  "op_ctx \<Rightarrow> string \<Rightarrow> string \<Rightarrow> reg \<Rightarrow> (claim_error + accepted) \<times> reg" where
  "apply_deployment c plan_id key r =
     (case replay_existing c Deploy key (\<lambda>row. o_plan_id row = Some plan_id) r of
        (Inl e, r1) \<Rightarrow> (Inl e, r1)
      | (Inr (Some done), r1) \<Rightarrow> (Inr done, r1)
      | (Inr None, r1) \<Rightarrow>
          (let r2 = oc_env c A_replayed r1 in
           case load_plan plan_id r2 of
             Inl e \<Rightarrow> (Inl (Agent_failure e), r2)
           | Inr p \<Rightarrow>
               (case check_plan c p r2 of
                  Some e \<Rightarrow> (Inl (Agent_failure e), r2)
                | None \<Rightarrow> accept c Deploy key (JObj (deploy_payload p)) (deploy_digest p)
                    (Some (pl_plan_id p)) (pl_target_instance_id p) r2)))"

definition same_lifecycle :: "string \<Rightarrow> int \<Rightarrow> op_row \<Rightarrow> bool" where
  "same_lifecycle i expected row \<longleftrightarrow>
     (case o_payload row of None \<Rightarrow> False
      | Some j \<Rightarrow> obj_get j ''instanceId'' = Some (JStr i)
          \<and> obj_get j ''expectedRevision'' = Some (JInt expected))"

definition lifecycle_payload :: "op_action \<Rightarrow> string \<Rightarrow> int \<Rightarrow> json" where
  "lifecycle_payload action i expected = JObj [(''action'', JStr (action_text action)),
     (''instanceId'', JStr i), (''expectedRevision'', JInt expected)]"

definition submit_lifecycle ::
  "op_ctx \<Rightarrow> op_action \<Rightarrow> string \<Rightarrow> int \<Rightarrow> string \<Rightarrow> reg \<Rightarrow> (claim_error + accepted) \<times> reg" where
  "submit_lifecycle c action i expected key r =
     (case lifecycle_scope action of
        None \<Rightarrow> (Inl (Agent_failure E_needs_input), r)
      | Some scope \<Rightarrow>
          if \<not> has_scope (oc_principal c) [scope] then (Inl (Agent_failure E_permission_denied), r)
          else (case replay_existing c action key (same_lifecycle i expected) r of
              (Inl e, r1) \<Rightarrow> (Inl e, r1)
            | (Inr (Some done), r1) \<Rightarrow> (Inr done, r1)
            | (Inr None, r1) \<Rightarrow>
                (let r2 = oc_env c A_replayed r1 in
                 case get_revision i r2 of
                   None \<Rightarrow> (Inl (Agent_failure E_needs_input), r2)
                 | Some current \<Rightarrow>
                     if current \<noteq> expected then (Inl (Agent_failure E_revision_conflict), r2)
                     else accept c action key (lifecycle_payload action i expected)
                       (lifecycle_payload action i expected) None (Some i) r2)))"

section \<open>Reading and cancelling\<close>

definition owned_row :: "op_ctx \<Rightarrow> string \<Rightarrow> reg \<Rightarrow> agent_error_code + op_row" where
  "owned_row c i r =
     (case get_agent_operation i r of
        None \<Rightarrow> Inl E_needs_input
      | Some row \<Rightarrow> if o_principal_id row \<noteq> pr_id (oc_principal c) then Inl E_needs_input else Inr row)"

definition get_operation :: "op_ctx \<Rightarrow> string \<Rightarrow> reg \<Rightarrow> agent_error_code + operation_view" where
  "get_operation c i r = (case owned_row c i r of Inl e \<Rightarrow> Inl e | Inr row \<Rightarrow> Inr (view_of row))"

datatype cancel_error = Cancel_refused agent_error_code | Cancel_build_error run_error

definition latest_status :: "string \<Rightarrow> op_status \<Rightarrow> reg \<Rightarrow> op_status" where
  "latest_status i s r = (case get_agent_operation i r of None \<Rightarrow> s | Some row \<Rightarrow> o_status row)"

text \<open>The state is the one of the build queue, which holds the registry: cancelling an operation in
  its build phase also cancels the build.\<close>

definition cancel_operation ::
  "op_ctx \<Rightarrow> 'b ctx \<Rightarrow> nat \<Rightarrow> string \<Rightarrow> bq \<Rightarrow> (cancel_error + op_status) \<times> bq" where
  "cancel_operation c x polls i w =
     (case owned_row c i (registry w) of
        Inl e \<Rightarrow> (Inl (Cancel_refused e), w)
      | Inr row \<Rightarrow>
          if terminal (o_status row) then (Inr (o_status row), w)
          else (let r1 = oc_env c A_cancel (registry w) in
            if o_status row = Queued
            then (let (moved, r2) = projr (cas_agent_operation_status i [Queued] Cancelled (oc_now c)
                       (no_extra\<lparr>ce_error := Some (error_payload E_interrupted i)\<rparr>) r1) in
                  (Inr (if moved then Cancelled else latest_status i (o_status row) r2), w\<lparr>registry := r2\<rparr>))
            else (let (moved, r2) = projr (cas_agent_operation_status i [Running] Cancelling (oc_now c)
                       no_extra r1) in
                  if \<not> moved then (Inr (latest_status i (o_status row) r2), w\<lparr>registry := r2\<rparr>)
                  else if o_phase row = Some Phase_build \<and> truthy (o_target_instance_id row)
                  then (case cancel_build x (the (o_target_instance_id row)) polls (w\<lparr>registry := r2\<rparr>) of
                      (Inl e, w') \<Rightarrow> (Inl (Cancel_build_error e), w')
                    | (Inr outcome, w') \<Rightarrow> (Inr Cancelling, w'))
                  else (Inr Cancelling, w\<lparr>registry := r2\<rparr>))))"

end
