(* ===== verification/Agent_Accept_Facts.thy ===== *)
theory Agent_Accept_Facts
  imports Agent_Operations
begin

text \<open>
  Facts about accepting and cancelling operations: replays under an idempotency key, the bound on
  pending operations and the outcome of a cancellation.
\<close>

section \<open>Objects\<close>

lemma map_of_sort_key: "distinct (map fst ms) \<Longrightarrow> map_of (sort_key fst ms) = map_of ms"
  by (rule map_of_inject_set [THEN iffD2]) (simp_all add: distinct_map)

lemma map_of_map_snd: "map_of (map (\<lambda>(k, v). (k, f v)) ms) k = map_option f (map_of ms k)"
  by (induction ms) auto

lemma obj_get_canonical:
  "distinct (map fst ms) \<Longrightarrow> obj_get (canonical (JObj ms)) k = map_option canonical (map_of ms k)"
proof -
  assume d: "distinct (map fst ms)"
  have "map fst (map (\<lambda>(k, v). (k, canonical v)) ms) = map fst ms" by (simp add: case_prod_beta)
  with d have "map_of (sort_key fst (map (\<lambda>(k, v). (k, canonical v)) ms)) = map_of (map (\<lambda>(k, v). (k, canonical v)) ms)"
    by (intro map_of_sort_key) (simp del: map_map)
  then show ?thesis by (simp add: map_of_map_snd)
qed

section \<open>Stored operations\<close>

text \<open>What the code stores under a key: the digest of a deployment or of a lifecycle request. The
  hash is assumed to tell the plans apart, and deployments from lifecycle requests.\<close>

definition separates :: "(json \<Rightarrow> string) \<Rightarrow> bool" where
  "separates h \<longleftrightarrow>
     (\<forall>p q. h (canonical (deploy_digest p)) = h (canonical (deploy_digest q)) \<longrightarrow> pl_plan_id p = pl_plan_id q)
     \<and> (\<forall>p a i n. h (canonical (deploy_digest p)) \<noteq> h (canonical (lifecycle_payload a i n)))"

definition stored_by :: "(json \<Rightarrow> string) \<Rightarrow> op_row \<Rightarrow> bool" where
  "stored_by h x \<longleftrightarrow>
     (o_action x = Deploy \<and> (\<exists>p. o_plan_id x = Some (pl_plan_id p)
        \<and> o_request_hash x = h (canonical (deploy_digest p))))
     \<or> (o_action x \<noteq> Deploy \<and> (\<exists>i n. o_request_hash x = h (canonical (lifecycle_payload (o_action x) i n))))"

definition sound_ops :: "(json \<Rightarrow> string) \<Rightarrow> string \<Rightarrow> reg \<Rightarrow> bool" where
  "sound_ops h ws r \<longleftrightarrow> reg_ok r \<and> get_workspace_id r = Some ws
     \<and> (\<forall>x \<in> set (agent_operations r). stored_by h x)"

text \<open>A later registry still holds every operation, with the columns that identify the request.\<close>

definition request_of :: "op_row \<Rightarrow> string \<times> (string \<times> string \<times> string) \<times> op_action \<times> string option" where
  "request_of x = (o_operation_id x, op_key x, o_action x, o_plan_id x)"

definition keeps_requests :: "reg \<Rightarrow> reg \<Rightarrow> bool" where
  "keeps_requests r r' \<longleftrightarrow> request_of ` set (agent_operations r) \<subseteq> request_of ` set (agent_operations r')"

lemma workspace_id_known: "get_workspace_id r = Some ws \<Longrightarrow> workspace_id c r = (ws, r)"
  by (auto simp: get_workspace_id_def workspace_id_def get_or_create_workspace_id_def)

lemma by_idempotency_iff:
  assumes "reg_ok r"
  shows "get_agent_operation_by_idempotency p w k r = Some x \<longleftrightarrow>
     x \<in> set (agent_operations r) \<and> op_key x = (p, w, k)"
proof -
  have pk: "pk_ok op_key (agent_operations r)" using assms by (simp add: reg_ok_def)
  show ?thesis
    unfolding get_agent_operation_by_idempotency_def
    using find_by_SomeD [of op_key "(p, w, k)" "agent_operations r" x] find_by_mem [OF pk, of x] by auto
qed

text \<open>A create that succeeds leaves the row that it returns in the table, under its key.\<close>

lemma create_agent_operation_Inr:
  assumes "create_agent_operation row r = Inr (x, r')" "reg_ok r"
  shows "reg_ok r'" "get_agent_operation_by_idempotency (o_principal_id row) (o_workspace_id row)
      (o_idempotency_key row) r' = Some x"
    "o_request_hash x = o_request_hash row" "get_workspace_id r' = get_workspace_id r"
    "r' = r \<or> x = row \<and> r' = r\<lparr>agent_operations := agent_operations r @ [row]\<rparr>"
proof -
  show ok: "reg_ok r'" using assms by (auto simp: reg_ok_def create_agent_operation_def
        pk_ok_snoc split: if_split_asm option.splits)
  show "get_agent_operation_by_idempotency (o_principal_id row) (o_workspace_id row)
      (o_idempotency_key row) r' = Some x"
    using assms(1) ok by (auto simp: create_agent_operation_def by_idempotency_iff op_key_def
        split: if_split_asm option.splits)
  show "o_request_hash x = o_request_hash row" "get_workspace_id r' = get_workspace_id r"
    "r' = r \<or> x = row \<and> r' = r\<lparr>agent_operations := agent_operations r @ [row]\<rparr>"
    using assms(1) by (auto simp: create_agent_operation_def get_workspace_id_def
        split: if_split_asm option.splits)
qed

lemma accept_Inr:
  assumes "accept c act key payload digest plan target r = (Inr a, r')"
    and r: "sound_ops h ws r" and env: "\<And>k s. sound_ops h ws s \<Longrightarrow> sound_ops h ws (oc_env c k s)"
  shows "reg_ok r' \<and> get_workspace_id r' = Some ws \<and> (\<exists>x. a = accepted_of x
     \<and> get_agent_operation_by_idempotency (pr_id (oc_principal c)) ws key r' = Some x
     \<and> o_request_hash x = oc_hash c (canonical digest)
     \<and> (stored_by h x \<or> o_action x = act \<and> o_plan_id x = plan))"
proof -
  let ?r2 = "oc_env c A_checked r" and ?pid = "pr_id (oc_principal c)"
  let ?r3 = "oc_env c A_counted ?r2"
  have ws: "workspace_id c r = (ws, r)" using r by (simp add: sound_ops_def workspace_id_known)
  have s2: "sound_ops h ws ?r2" and s3: "sound_ops h ws ?r3" using env r by blast+
  show ?thesis
  proof (cases "get_agent_operation_by_idempotency ?pid ws key ?r2")
    case (Some x)
    then have "x \<in> set (agent_operations ?r2)" using s2 by (simp add: sound_ops_def by_idempotency_iff)
    with Some s2 assms(1) show ?thesis
      by (auto simp: accept_def ws Let_def sound_ops_def split: if_split_asm)
  next
    case None
    let ?row = "new_operation c act key payload (oc_hash c (canonical digest)) plan target ws"
    obtain x where cr: "create_agent_operation ?row ?r3 = Inr (x, r')" "a = accepted_of x"
      using None assms(1) by (auto simp: accept_def ws Let_def
          split: if_split_asm sum.splits reg_error.splits prod.splits)
    have ok3: "reg_ok ?r3" "get_workspace_id ?r3 = Some ws" using s3 by (simp_all add: sound_ops_def)
    note c = create_agent_operation_Inr [OF cr(1) ok3(1)]
    have st: "stored_by h x \<or> o_action x = act \<and> o_plan_id x = plan"
    proof (cases "r' = ?r3")
      case True
      then have "x \<in> set (agent_operations ?r3)"
        using c(2) ok3(1) by (simp add: by_idempotency_iff)
      with s3 show ?thesis by (simp add: sound_ops_def)
    next
      case False
      with c(5) show ?thesis by (simp add: new_operation_def)
    qed
    from c(1-4) cr(2) ok3(2) st show ?thesis by (auto simp: new_operation_def)
  qed
qed

section \<open>Idempotency\<close>

lemma apply_Inr:
  assumes a: "apply_deployment c plan key r = (Inr a, r')"
    and h: "separates (oc_hash c)" and r: "sound_ops (oc_hash c) ws r"
    and env: "\<And>k s. sound_ops (oc_hash c) ws s \<Longrightarrow> sound_ops (oc_hash c) ws (oc_env c k s)"
  shows "reg_ok r' \<and> (\<exists>x. ac_operationId a = o_operation_id x \<and> x \<in> set (agent_operations r')
     \<and> op_key x = (pr_id (oc_principal c), ws, key) \<and> o_action x = Deploy \<and> o_plan_id x = Some plan)"
proof -
  let ?pid = "pr_id (oc_principal c)"
  have ws: "workspace_id c r = (ws, r)" and ok: "reg_ok r"
    using r by (simp_all add: sound_ops_def workspace_id_known)
  show ?thesis
  proof (cases "get_agent_operation_by_idempotency ?pid ws key r")
    case (Some x)
    then have x: "x \<in> set (agent_operations r)" "op_key x = (?pid, ws, key)"
      using by_idempotency_iff [OF ok] by blast+
    show ?thesis
    proof (cases "o_action x = Deploy \<and> o_plan_id x = Some plan")
      case True
      with a Some have "a = accepted_of x" "r' = r"
        by (simp_all add: apply_deployment_def replay_existing_def ws)
      with x True ok show ?thesis by (auto simp: accepted_of_def)
    next
      case False
      with a Some show ?thesis by (auto simp: apply_deployment_def replay_existing_def ws)
    qed
  next
    case None
    let ?r2 = "oc_env c A_replayed r"
    have s2: "sound_ops (oc_hash c) ws ?r2" by (rule env [OF r])
    obtain p where p: "load_plan plan ?r2 = Inr p" and acc: "accept c Deploy key (JObj (deploy_payload p))
        (deploy_digest p) (Some (pl_plan_id p)) (pl_target_instance_id p) ?r2 = (Inr a, r')"
      using a None by (auto simp: apply_deployment_def replay_existing_def ws Let_def
          split: sum.splits option.splits)
    have pid: "pl_plan_id p = plan"
      using p by (auto simp: load_plan_def get_agent_plan_def dest: find_by_key
          split: option.splits if_split_asm)
    obtain x where x: "a = accepted_of x" "reg_ok r'"
      "get_agent_operation_by_idempotency ?pid ws key r' = Some x"
      "o_request_hash x = oc_hash c (canonical (deploy_digest p))"
      "stored_by (oc_hash c) x \<or> o_action x = Deploy \<and> o_plan_id x = Some (pl_plan_id p)"
      using accept_Inr [OF acc s2 env] by blast
    have "o_action x = Deploy \<and> o_plan_id x = Some plan"
      using x(4,5) pid h unfolding stored_by_def separates_def by metis
    with x(1-3) by_idempotency_iff [OF x(2)] show ?thesis
      by (intro conjI exI [of _ x]) (simp_all add: accepted_of_def)
  qed
qed

text \<open>C22: Once a deployment is accepted under a key, applying again under it with the same plan returns
  the same operation, another plan is refused as a conflict, and in both cases nothing is written,
  whatever happened to the operation and whatever other processes wrote during the first call.\<close>

theorem apply_idempotent:
  assumes "apply_deployment c plan key r = (Inr a, r')" "separates (oc_hash c)" "sound_ops (oc_hash c) ws r"
    "\<And>k s. sound_ops (oc_hash c) ws s \<Longrightarrow> sound_ops (oc_hash c) ws (oc_env c k s)"
    "reg_ok r''" "get_workspace_id r'' = Some ws" "keeps_requests r' r''"
    "pr_id (oc_principal c') = pr_id (oc_principal c)"
  shows "case apply_deployment c' plan' key r'' of
      (Inr b, s) \<Rightarrow> plan' = plan \<and> ac_operationId b = ac_operationId a \<and> s = r''
    | (Inl e, s) \<Rightarrow> plan' \<noteq> plan \<and> e = Agent_failure E_idempotency_conflict \<and> s = r''"
proof -
  obtain x where x: "ac_operationId a = o_operation_id x" "x \<in> set (agent_operations r')"
    "op_key x = (pr_id (oc_principal c), ws, key)" "o_action x = Deploy" "o_plan_id x = Some plan"
    using apply_Inr [OF assms(1-4)] by blast
  obtain y where y: "y \<in> set (agent_operations r'')" "request_of y = request_of x"
    using assms(7) x(2) unfolding keeps_requests_def by (metis (no_types, lifting) image_iff image_subset_iff)
  then have "get_agent_operation_by_idempotency (pr_id (oc_principal c')) ws key r'' = Some y"
    using x(3) assms(8) by (simp add: by_idempotency_iff [OF assms(5)] request_of_def)
  with y(2) x show ?thesis
    by (auto simp: apply_deployment_def replay_existing_def workspace_id_known [OF assms(6)]
        request_of_def accepted_of_def)
qed

section \<open>The bound on pending operations\<close>

definition active_count :: "reg \<Rightarrow> nat" where
  "active_count r = count_agent_operations ACTIVE_STATUSES r"

lemma pending_ops: "agent_operations r' = agent_operations r \<Longrightarrow> active_count r' = active_count r"
  by (simp add: active_count_def count_agent_operations_def)

lemma pending_workspace [simp]: "active_count (snd (workspace_id c r)) = active_count r"
  by (rule pending_ops) (simp add: workspace_id_def get_or_create_workspace_id_def split: option.split)

lemma pending_create:
  "create_agent_operation row r = Inr (x, r') \<Longrightarrow> active_count r' \<le> Suc (active_count r)"
  by (auto simp: create_agent_operation_def active_count_def count_agent_operations_def rowcount_def
      split: if_split_asm option.splits)

lemma pending_accept:
  assumes "\<And>k s. oc_env c k s = s" "active_count r \<le> oc_max_pending c"
  shows "active_count (snd (accept c act key payload digest plan target r)) \<le> oc_max_pending c"
proof -
  obtain ws r1 where w: "workspace_id c r = (ws, r1)" by fastforce
  then have p1: "active_count r1 = active_count r" by (metis pending_workspace snd_conv)
  have "active_count r' \<le> oc_max_pending c"
    if "create_agent_operation row r1 = Inr (x, r')" "active_count r1 < oc_max_pending c" for row x r'
    using pending_create [OF that(1)] that(2) by simp
  with p1 assms show ?thesis
    by (auto simp: accept_def w Let_def active_count_def [symmetric] split: option.split sum.split reg_error.split)
qed

lemma pending_replay: "active_count (snd (replay_existing c act key m r)) = active_count r"
  using pending_workspace [of c r]
  by (auto simp: replay_existing_def case_prod_beta split: option.split simp del: pending_workspace)

lemma active_apply:
  assumes "\<And>k s. oc_env c k s = s" "active_count r \<le> oc_max_pending c"
  shows "active_count (snd (apply_deployment c plan key r)) \<le> oc_max_pending c"
proof -
  obtain res r1 where p: "replay_existing c Deploy key (\<lambda>row. o_plan_id row = Some plan) r = (res, r1)"
    by fastforce
  then have "active_count r1 \<le> oc_max_pending c"
    using pending_replay [of c Deploy key _ r] assms(2) by (metis snd_conv)
  with assms(1) pending_accept [OF assms(1)] show ?thesis
    by (auto simp: apply_deployment_def p Let_def split: sum.split option.split)
qed

lemma active_submit:
  assumes "\<And>k s. oc_env c k s = s" "active_count r \<le> oc_max_pending c"
  shows "active_count (snd (submit_lifecycle c act i n key r)) \<le> oc_max_pending c"
proof -
  obtain res r1 where p: "replay_existing c act key (same_lifecycle i n) r = (res, r1)" by fastforce
  then have "active_count r1 \<le> oc_max_pending c"
    using pending_replay [of c act key _ r] assms(2) by (metis snd_conv)
  with assms pending_accept [OF assms(1)] show ?thesis
    by (auto simp: submit_lifecycle_def p Let_def split: sum.split option.split)
qed

text \<open>When nobody else writes during a call, accepting deployments and lifecycle actions never
  lets the queued, running and cancelling operations exceed the configured maximum.\<close>

theorem pending_bounded:
  assumes "\<And>k s. oc_env c k s = s" "count_agent_operations ACTIVE_STATUSES r \<le> oc_max_pending c"
  shows "count_agent_operations ACTIVE_STATUSES (snd (apply_deployment c plan key r)) \<le> oc_max_pending c
     \<and> count_agent_operations ACTIVE_STATUSES (snd (submit_lifecycle c act i n key r)) \<le> oc_max_pending c"
  using active_apply [OF assms(1)] active_submit [OF assms(1)] assms(2) by (simp add: active_count_def)

section \<open>A sample\<close>

definition plan_hash :: "json \<Rightarrow> string" where
  "plan_hash j = (case obj_get j ''planId'' of Some (JStr s) \<Rightarrow> CHR ''P'' # s | _ \<Rightarrow> ''L'')"

definition sample_plan :: plan_row where
  "sample_plan = \<lparr>pl_plan_id = ''plan'', pl_principal_id = ''local-owner'', pl_workspace_id = ''ws'',
     pl_intent = Create, pl_source = JObj [(''type'', JStr ''server_directory''), (''path'', JStr ''/srv/site'')],
     pl_source_digest = ''d'', pl_target_instance_id = None, pl_expected_revision = None,
     pl_display_name = None, pl_policy_version = ''1'', pl_request_hash = ''h'',
     pl_created_at = ''t1'', pl_expires_at = ''t9'', pl_required_capabilities = []\<rparr>"

definition plan_reg :: reg where
  "plan_reg = empty_reg\<lparr>workspace_meta := [(''workspace_id'', ''ws'')], agent_plans := [sample_plan]\<rparr>"

definition sample_oc :: op_ctx where
  "sample_oc = \<lparr>oc_principal = local_owner, oc_now = ''t2'', oc_new_id = ''op-1'', oc_candidate = ''x'',
     oc_hash = plan_hash, oc_cache = None, oc_max_pending = 1, oc_env = (\<lambda>_ r. r)\<rparr>"

lemma separates_plan_hash: "separates plan_hash"
proof -
  have d: "plan_hash (canonical (deploy_digest p)) = CHR ''P'' # pl_plan_id p" for p
  proof -
    have "obj_get (canonical (deploy_digest p)) ''planId'' = Some (JStr (pl_plan_id p))"
      unfolding deploy_digest_def deploy_payload_def by (subst obj_get_canonical) simp_all
    then show ?thesis by (simp add: plan_hash_def)
  qed
  have "plan_hash (canonical (lifecycle_payload a i n)) = ''L''" for a i n
  proof -
    have "obj_get (canonical (lifecycle_payload a i n)) ''planId'' = None"
      unfolding lifecycle_payload_def by (subst obj_get_canonical) simp_all
    then show ?thesis by (simp add: plan_hash_def)
  qed
  with d show ?thesis by (simp add: separates_def)
qed

theorem apply_idempotent_witness:
  "fst (apply_deployment sample_oc ''other'' ''k'' (snd (apply_deployment sample_oc ''plan'' ''k'' plan_reg)))
     = Inl (Agent_failure E_idempotency_conflict)"
proof -
  let ?a = "\<lparr>ac_operationId = ''op-1'', ac_status = Queued, ac_instanceId = None\<rparr>"
  let ?r' = "snd (apply_deployment sample_oc ''plan'' ''k'' plan_reg)"
  have "fst (apply_deployment sample_oc ''plan'' ''k'' plan_reg) = Inr ?a" by code_simp
  then have a: "apply_deployment sample_oc ''plan'' ''k'' plan_reg = (Inr ?a, ?r')" by (simp add: prod_eq_iff)
  have r: "sound_ops plan_hash ''ws'' plan_reg"
    using reg_ok_empty by (simp add: sound_ops_def plan_reg_def get_workspace_id_def reg_ok_def
        empty_reg_def known_instance_def pk_ok_def)
  have "get_workspace_id ?r' = Some ''ws''" by code_simp
  moreover have "reg_ok ?r'"
    using apply_Inr [OF a, of "''ws''"] r separates_plan_hash by (simp add: sample_oc_def)
  ultimately have "case apply_deployment sample_oc ''other'' ''k'' ?r' of
      (Inr b, s) \<Rightarrow> ''other'' = ''plan'' \<and> ac_operationId b = ac_operationId ?a \<and> s = ?r'
    | (Inl e, s) \<Rightarrow> ''other'' \<noteq> ''plan'' \<and> e = Agent_failure E_idempotency_conflict \<and> s = ?r'"
    using r separates_plan_hash
    by (intro apply_idempotent [OF a]) (auto simp: sample_oc_def keeps_requests_def)
  then show ?thesis by (auto split: prod.splits sum.splits)
qed

theorem pending_bounded_witness:
  "count_agent_operations ACTIVE_STATUSES (snd (apply_deployment sample_oc ''plan'' ''k'' plan_reg)) \<le> 1
   \<and> count_agent_operations ACTIVE_STATUSES plan_reg = 0"
proof
  show c: "count_agent_operations ACTIVE_STATUSES plan_reg = 0" by code_simp
  show "count_agent_operations ACTIVE_STATUSES (snd (apply_deployment sample_oc ''plan'' ''k'' plan_reg)) \<le> 1"
    using pending_bounded [of sample_oc plan_reg "''plan''" "''k''"] c by (simp add: sample_oc_def)
qed

text \<open>Counting and inserting are separate transactions, so calls that race can exceed the bound.\<close>

definition racing_oc :: op_ctx where
  "racing_oc = sample_oc\<lparr>oc_env := (\<lambda>k r. if k = A_counted
     then snd (apply_deployment (sample_oc\<lparr>oc_new_id := ''op-2''\<rparr>) ''plan'' ''k2'' r) else r)\<rparr>"

lemma pending_race:
  "oc_max_pending racing_oc = 1
   \<and> count_agent_operations ACTIVE_STATUSES (snd (apply_deployment racing_oc ''plan'' ''k'' plan_reg)) = 2"
  by code_simp

section \<open>Cancelling\<close>

definition cancelled_to :: "op_status \<Rightarrow> op_status" where
  "cancelled_to s = (if s = Queued then Cancelled else if s = Running then Cancelling else s)"

lemma cas_on_row:
  assumes "reg_ok r" "op_status_of r i = Some u"
  shows "\<exists>b r'. cas_agent_operation_status i E t now y r = Inr (b, r')
     \<and> (b \<longleftrightarrow> u \<in> set E) \<and> op_status_of r' i = Some (if b then t else u)
     \<and> (\<forall>j. j \<noteq> i \<longrightarrow> get_agent_operation j r' = get_agent_operation j r)"
proof -
  obtain b r' where c: "cas_agent_operation_status i E t now y r = Inr (b, r')"
    using op_cas_eq by blast
  have "get_agent_operation j r' = get_agent_operation j r" if "j \<noteq> i" for j
    using c that by (auto simp: cas_agent_operation_status_def Let_def get_upd_op)
  moreover have "b \<longleftrightarrow> u \<in> set E" using cas_status_hit(1) [OF assms(1) c] assms(2) by auto
  moreover have "op_status_of r' i = Some (if b then t else u)"
    using cas_status_hit(2) [OF assms(1) c, of i] assms(2) by simp
  ultimately show ?thesis using c by blast
qed

text \<open>Without interference, cancelling answers \<open>cancelled\<close> for a queued operation, \<open>cancelling\<close> for
  a running one and otherwise the status it has, also for one that needs input. Outside the build
  phase the operation then has that status and every other operation is as before.\<close>

theorem cancel_operation_outcome:
  assumes "reg_ok (registry w)" "owned_row c i (registry w) = Inr row" "\<And>s. oc_env c A_cancel s = s"
    "cancel_operation c x polls i w = (Inr s, w')"
  shows "s = cancelled_to (o_status row)
     \<and> (o_phase row \<noteq> Some Phase_build \<longrightarrow> op_status_of (registry w') i = Some s
        \<and> (\<forall>j. j \<noteq> i \<longrightarrow> get_agent_operation j (registry w') = get_agent_operation j (registry w)))"
proof -
  let ?r = "registry w" and ?x = "no_extra\<lparr>ce_error := Some (error_payload E_interrupted i)\<rparr>"
  have row: "get_agent_operation i ?r = Some row"
    using assms(2) by (auto simp: owned_row_def split: option.splits if_split_asm)
  have here: "op_status_of ?r i = Some (o_status row)" using row by (simp add: op_status_of_def)
  note cas = cas_on_row [OF assms(1) here, of _ _ "oc_now c"]
  have later: "latest_status i t r' = u" if "op_status_of r' i = Some u" for t u r'
    using that by (auto simp: latest_status_def op_status_of_def)
  note C = assms(2-4) [unfolded cancel_operation_def]
  obtain b1 r1 where q: "cas_agent_operation_status i [Queued] Cancelled (oc_now c) ?x ?r = Inr (b1, r1)"
    "b1 \<longleftrightarrow> o_status row = Queued" "op_status_of r1 i = Some (if b1 then Cancelled else o_status row)"
    "\<forall>j. j \<noteq> i \<longrightarrow> get_agent_operation j r1 = get_agent_operation j ?r"
    using cas [of "[Queued]" Cancelled ?x] by auto
  obtain b2 r2 where p: "cas_agent_operation_status i [Running] Cancelling (oc_now c) no_extra ?r = Inr (b2, r2)"
    "b2 \<longleftrightarrow> o_status row = Running" "op_status_of r2 i = Some (if b2 then Cancelling else o_status row)"
    "\<forall>j. j \<noteq> i \<longrightarrow> get_agent_operation j r2 = get_agent_operation j ?r"
    using cas [of "[Running]" Cancelling no_extra] by auto
  show ?thesis
  proof (cases "terminal (o_status row)")
    case True
    then have "s = o_status row" "w' = w" using C by simp_all
    with True here show ?thesis by (auto simp: cancelled_to_def)
  next
    case False
    show ?thesis
    proof (cases "o_status row = Queued")
      case True
      then have "s = Cancelled" "registry w' = r1" using C False q(1,2) by (auto simp: Let_def)
      with True q show ?thesis by (auto simp: cancelled_to_def)
    next
      case nq: False
      show ?thesis
      proof (cases b2)
        case True
        then have "s = Cancelling" "o_phase row \<noteq> Some Phase_build \<longrightarrow> registry w' = r2"
          using C False nq p(1) by (auto simp: Let_def split: if_split_asm prod.splits sum.splits)
        with True nq p show ?thesis by (auto simp: cancelled_to_def)
      next
        case b: False
        then have "s = latest_status i (o_status row) r2" "registry w' = r2"
          using C False nq p(1) by (auto simp: Let_def)
        with b nq p later show ?thesis by (auto simp: cancelled_to_def)
      qed
    qed
  qed
qed

theorem cancel_operation_outcome_witness:
  "\<exists>w'. cancel_operation (sample_oc\<lparr>oc_principal := \<lparr>pr_id = ''agent'', pr_scopes = []\<rparr>\<rparr>) sample_ctx 1
       ''op-1'' sample_bq = (Inr Cancelled, w') \<and> op_status_of (registry w') ''op-1'' = Some Cancelled"
proof -
  let ?c = "sample_oc\<lparr>oc_principal := \<lparr>pr_id = ''agent'', pr_scopes = []\<rparr>\<rparr>"
  have reg: "registry sample_bq = sample_reg" by (simp add: sample_bq_def)
  have ok: "reg_ok (registry sample_bq)" using reg_ok_sample by (simp add: reg)
  have row: "owned_row ?c ''op-1'' (registry sample_bq) = Inr (sample_op ''op-1'' ''t1'')"
    unfolding reg by code_simp
  have st: "o_status (sample_op ''op-1'' ''t1'') = Queued" "o_phase (sample_op ''op-1'' ''t1'') = None"
    by (simp_all add: sample_op_def)
  obtain s w' where c: "cancel_operation ?c sample_ctx 1 ''op-1'' sample_bq = (Inr s, w')"
    using row st by (auto simp: cancel_operation_def Let_def case_prod_beta)
  with cancel_operation_outcome [OF ok row _ c] st show ?thesis
    by (simp add: sample_oc_def cancelled_to_def)
qed

end
