(* ===== verification/Agent_Worker.thy ===== *)
theory Agent_Worker
  imports Agent_Operations
begin

text \<open>
  Models \<open>AgentWorker\<close> of \<^verbatim>\<open>agent/operations.py\<close>: claiming and executing operations, the recovery
  of stale ones and the sweep. The importer and the lifecycle functions are parameters that return
  a result or raise and may change registry and manifests; so is \<open>wk_env\<close>, what other threads and
  processes write before each step of the worker. Paths are POSIX paths.
\<close>

section \<open>Exceptions\<close>

datatype lwa_class =
    C_zip_import | C_recognition | C_git_source | C_build | C_docker | C_lifecycle | C_hosting
  | C_fallback | C_other

text \<open>\<open>le_says_cancelled\<close> tells whether the message contains the text that the build queue puts into
  the errors of cancelled builds.\<close>

record lwa_error =
  le_class :: lwa_class
  le_code :: string
  le_says_cancelled :: bool

datatype failure =
    X_cancelled
  | X_agent "agent_error_code option"
  | X_lwa lwa_error
  | X_internal

section \<open>State and parameters\<close>

datatype manifest_file = Absent | Broken failure | Manifest_file manifest

record worker_state =
  ws_reg :: reg
  ws_manifests :: "string \<Rightarrow> manifest_file"
  ws_phase :: "op_phase option"
  ws_inflight :: "string list"

datatype worker_point = W_check | W_advance op_phase | W_finish | W_target | W_writeback

type_synonym 'a call = "worker_state \<Rightarrow> (failure + 'a) \<times> worker_state"

record worker =
  wk_identity :: string
  wk_lease :: "string \<Rightarrow> string"
  wk_now :: "worker_point \<Rightarrow> string"
  wk_env :: "worker_point \<Rightarrow> worker_state \<Rightarrow> worker_state"
  wk_cache :: "capability_cache option"
  wk_has_snapshot :: "string \<Rightarrow> bool"
  wk_pack :: "failure option"
  wk_resolve :: "string list \<Rightarrow> string list"
  wk_roots :: "string list list"
  wk_tree_hash :: string
  wk_network :: "string \<Rightarrow> (int option \<times> string option) option"
  wk_import :: "string option \<Rightarrow> string call"
  wk_update :: "string \<Rightarrow> int option \<Rightarrow> (bool \<times> bool \<times> bool) call"
  wk_start :: "string \<Rightarrow> unit call"
  wk_rebuild :: "string \<Rightarrow> unit call"
  wk_restart :: "string \<Rightarrow> unit call"
  wk_handler :: "op_action \<Rightarrow> string \<Rightarrow> int option \<Rightarrow> unit call"

definition bind_call :: "'a call \<Rightarrow> ('a \<Rightarrow> 'b call) \<Rightarrow> 'b call" where
  "bind_call m f = (\<lambda>s. case m s of (Inl e, s') \<Rightarrow> (Inl e, s') | (Inr a, s') \<Rightarrow> f a s')"

definition return_call :: "'a \<Rightarrow> 'a call" where
  "return_call a = (\<lambda>s. (Inr a, s))"

definition raise_call :: "failure \<Rightarrow> 'a call" where
  "raise_call e = (\<lambda>s. (Inl e, s))"

definition needs_input :: failure where
  "needs_input = X_agent (Some E_needs_input)"

section \<open>Steps of an execution\<close>

definition set_phase :: "op_phase \<Rightarrow> unit call" where
  "set_phase p = (\<lambda>s. (Inr (), s\<lparr>ws_phase := Some p\<rparr>))"

definition advance :: "worker \<Rightarrow> string \<Rightarrow> op_phase \<Rightarrow> unit call" where
  "advance k op p = (\<lambda>s.
     let s1 = wk_env k (W_advance p) s in
     case update_agent_operation op (wk_now k (W_advance p)) [F_phase (Some p)] (ws_reg s1) of
       Inl e \<Rightarrow> (Inl X_internal, s1)
     | Inr (_, r) \<Rightarrow> (Inr (), s1\<lparr>ws_reg := r, ws_phase := Some p\<rparr>))"

definition abort_if_cancelling :: "worker \<Rightarrow> string \<Rightarrow> unit call" where
  "abort_if_cancelling k op = (\<lambda>s.
     let s1 = wk_env k W_check s in
     if op_status_of (ws_reg s1) op = Some Cancelling then (Inl X_cancelled, s1) else (Inr (), s1))"

definition finish ::
  "worker \<Rightarrow> string \<Rightarrow> op_status \<Rightarrow> agent_error option \<Rightarrow> json option \<Rightarrow> string option \<Rightarrow> worker_state \<Rightarrow> worker_state" where
  "finish k op status err res target s =
     (let s1 = wk_env k W_finish s in
      s1\<lparr>ws_reg := snd (projr (cas_agent_operation_status op [Running, Cancelling] status
          (wk_now k W_finish)
          \<lparr>ce_phase = None, ce_error = err, ce_result = res, ce_target = target\<rparr> (ws_reg s1)))\<rparr>)"

definition status_for :: "agent_error_code \<Rightarrow> op_status" where
  "status_for code = (if code = E_needs_input then Needs_input else Failed)"

definition finish_error :: "worker \<Rightarrow> string \<Rightarrow> op_status \<Rightarrow> agent_error_code \<Rightarrow> worker_state \<Rightarrow> worker_state" where
  "finish_error k op status code = finish k op status (Some (error_payload code op)) None None"

definition finish_agent_error ::
  "worker \<Rightarrow> string \<Rightarrow> agent_error_code option \<Rightarrow> worker_state \<Rightarrow> worker_state" where
  "finish_agent_error k op raw =
     (let code = (case raw of None \<Rightarrow> E_interrupted | Some c \<Rightarrow> c) in
      finish_error k op (status_for code) code)"

definition lwa_outcome :: "lwa_error \<Rightarrow> op_phase option \<Rightarrow> op_status \<times> agent_error_code" where
  "lwa_outcome e phase =
     (if le_class e \<in> {C_build, C_docker} then (Failed, E_build_failed)
      else if le_class e \<in> {C_zip_import, C_lifecycle} \<and> le_code e = ''revision_conflict''
      then (Failed, E_revision_conflict)
      else if le_class e = C_hosting \<and> phase \<in> {Some Phase_start, Some Phase_healthcheck}
      then (Failed, E_healthcheck_failed)
      else if le_class e \<in> {C_zip_import, C_recognition, C_git_source} then (Needs_input, E_needs_input)
      else if le_class e = C_lifecycle \<and> le_says_cancelled e then (Cancelled, E_interrupted)
      else (Failed, E_interrupted))"

definition finish_lwa_error :: "worker \<Rightarrow> string \<Rightarrow> lwa_error \<Rightarrow> worker_state \<Rightarrow> worker_state" where
  "finish_lwa_error k op e s =
     (let (status, code) = lwa_outcome e (ws_phase s) in finish_error k op status code s)"

text \<open>A fallback that needs a confirmation ends the operation as one that needs input.\<close>

definition fallback_needs_input :: "worker \<Rightarrow> string \<Rightarrow> 'a call \<Rightarrow> 'a option call" where
  "fallback_needs_input k op m = (\<lambda>s. case m s of
     (Inr a, s') \<Rightarrow> (Inr (Some a), s')
   | (Inl (X_lwa e), s') \<Rightarrow>
       if le_class e = C_fallback then (Inr None, finish_error k op Needs_input E_needs_input s')
       else (Inl (X_lwa e), s')
   | (Inl e, s') \<Rightarrow> (Inl e, s'))"

definition owner_service :: "op_row option \<Rightarrow> principal" where
  "owner_service row = local_owner\<lparr>pr_id := (case row of None \<Rightarrow> ''local-owner''
     | Some x \<Rightarrow> if o_principal_id x = [] then ''local-owner'' else o_principal_id x)\<rparr>"

definition load_plan_for_exec :: "op_row \<Rightarrow> plan_row call" where
  "load_plan_for_exec row = (\<lambda>s.
     if \<not> truthy (o_plan_id row) then (Inl needs_input, s)
     else (case load_plan (the (o_plan_id row)) (ws_reg s) of
         Inl e \<Rightarrow> (Inl (X_agent (Some e)), s)
       | Inr p \<Rightarrow> (Inr p, s)))"

section \<open>Deploying\<close>

definition last_segment :: "string \<Rightarrow> string" where
  "last_segment s = last (split_on CHR ''/'' (rstrip_slash s))"

definition default_instance_name :: "plan_row \<Rightarrow> string option" where
  "default_instance_name p =
     (let some_name = (\<lambda>t. if t = [] then None else Some t) in
      case source_of (pl_source p) of
        Some (Server_directory path) \<Rightarrow> if path = [] then None else some_name (last_segment path)
      | Some (Git_source url _ _ _ _) \<Rightarrow>
          if url = [] then None else some_name (removesuffix ''.git'' (last_segment url))
      | _ \<Rightarrow> None)"

definition check_deploy_target :: "plan_row \<Rightarrow> unit call" where
  "check_deploy_target p = (\<lambda>s.
     if pl_intent p \<noteq> Update then (Inr (), s)
     else (case pl_target_instance_id p of
       None \<Rightarrow> (Inl X_internal, s)
     | Some target \<Rightarrow>
         (case get_revision target (ws_reg s) of
            None \<Rightarrow> (Inl needs_input, s)
          | Some current \<Rightarrow>
              if Some current \<noteq> pl_expected_revision p then (Inl (X_agent (Some E_revision_conflict)), s)
              else (case ws_manifests s target of
                  Absent \<Rightarrow> (Inr (), s)
                | Broken e \<Rightarrow> (Inl e, s)
                | Manifest_file m \<Rightarrow>
                    if m_sourceKind m = ''git'' then (Inl needs_input, s) else (Inr (), s)))))"

text \<open>The result: the instance, and whether it needs a rebuild, needs a restart, was running.\<close>

definition import_or_update ::
  "worker \<Rightarrow> string \<Rightarrow> plan_row \<Rightarrow> (string \<times> bool \<times> bool \<times> bool) call" where
  "import_or_update k op p =
     (case wk_pack k of Some e \<Rightarrow> raise_call e
      | None \<Rightarrow>
          if pl_intent p = Create
          then bind_call (wk_import k (if truthy (pl_display_name p) then pl_display_name p
                 else default_instance_name p)) (\<lambda>i s.
              let s1 = wk_env k W_target s in
              case update_agent_operation op (wk_now k W_target) [F_target_instance_id (Some i)] (ws_reg s1) of
                Inl e \<Rightarrow> (Inl X_internal, s1)
              | Inr (_, r) \<Rightarrow> (Inr (i, False, False, False), s1\<lparr>ws_reg := r\<rparr>))
          else (case pl_target_instance_id p of
              None \<Rightarrow> raise_call X_internal
            | Some target \<Rightarrow> bind_call (wk_update k target (pl_expected_revision p)) (\<lambda>(rb, rs, run).
                return_call (target, rb, rs, run))))"

definition path_segments :: "string \<Rightarrow> string list" where
  "path_segments s = filter (\<lambda>w. w \<noteq> []) (split_on CHR ''/'' s)"

definition path_text :: "string list \<Rightarrow> string" where
  "path_text ws = CHR ''/'' # join_on CHR ''/'' ws"

definition clear_git :: "manifest \<Rightarrow> manifest" where
  "clear_git m = m\<lparr>m_sourceGitUrl := None, m_sourceGitRef := None, m_sourceGitRefKind := None,
     m_sourceGitCommit := None, m_sourceGitSubdir := None\<rparr>"

definition source_identity ::
  "worker \<Rightarrow> plan_row \<Rightarrow> manifest \<Rightarrow> agent_error_code + manifest" where
  "source_identity k p m =
     (case source_of (pl_source p) of
        Some (Server_directory path) \<Rightarrow>
          (case validate_source_root (wk_resolve k) (starts_with ''/'' path) (path_segments path) (wk_roots k) of
             Inl e \<Rightarrow> Inl e
           | Inr real \<Rightarrow> Inr ((clear_git m)\<lparr>m_sourceKind := ''folder'',
               m_sourceDirPath := Some (path_text real), m_sourceSyncHash := Some (wk_tree_hash k)\<rparr>))
      | Some (Git_source url ref subdir git_commit ref_kind) \<Rightarrow>
          Inr (m\<lparr>m_sourceKind := ''git'', m_sourceDirPath := None, m_sourceSyncHash := None,
            m_sourceGitUrl := Some url, m_sourceGitRef := ref,
            m_sourceGitRefKind := or_else ref_kind (Some ''branch''),
            m_sourceGitCommit := or_else git_commit (let h = before_sep CHR '':'' (pl_source_digest p) in
              if h = [] then None else Some h),
            m_sourceGitSubdir := subdir\<rparr>)
      | _ \<Rightarrow> Inr m)"

text \<open>Writing the source identity back into the manifest returns a list of warnings. A source root that is no longer allowed leaves the manifest as the importer wrote it.\<close>

definition writeback_source_identity :: "worker \<Rightarrow> plan_row \<Rightarrow> string \<Rightarrow> string list call" where
  "writeback_source_identity k p i = (\<lambda>s.
     case source_of (pl_source p) of
       None \<Rightarrow> (Inr [], s)
     | Some (Artifact _) \<Rightarrow> (Inr [], s)
     | Some _ \<Rightarrow>
         (case ws_manifests s i of
            Absent \<Rightarrow> (Inr [], s)
          | Broken e \<Rightarrow> (Inl e, s)
          | Manifest_file m \<Rightarrow>
              (case source_identity k p m of
                 Inl e \<Rightarrow> (Inr [''source root not available''], s)
               | Inr m' \<Rightarrow>
                   (let s1 = wk_env k W_writeback (s\<lparr>ws_manifests := (ws_manifests s)
                          (i := Manifest_file (touch (wk_now k W_writeback) m'))\<rparr>) in
                    case add_event (Some i) ''update'' ''source identity'' (Some ''agent'')
                           (wk_now k W_writeback) (ws_reg s1) of
                      Inl e \<Rightarrow> (Inl X_internal, s1)
                    | Inr (_, r) \<Rightarrow> (Inr [], s1\<lparr>ws_reg := r\<rparr>)))))"

definition build_stage ::
  "worker \<Rightarrow> string \<Rightarrow> plan_row \<Rightarrow> string \<Rightarrow> bool \<Rightarrow> bool \<Rightarrow> bool \<Rightarrow> unit call" where
  "build_stage k op p i needs_rebuild needs_restart was_running =
     (if pl_intent p = Create
      then bind_call (advance k op Phase_build) (\<lambda>_. wk_start k i)
      else if needs_rebuild
      then bind_call (advance k op Phase_build) (\<lambda>_.
             bind_call (abort_if_cancelling k op) (\<lambda>_. wk_rebuild k i))
      else if needs_restart \<and> was_running
      then bind_call (advance k op Phase_start) (\<lambda>_.
             bind_call (abort_if_cancelling k op) (\<lambda>_. wk_restart k i))
      else return_call ())"

definition url_json :: "access_url \<Rightarrow> json" where
  "url_json u = JObj [(''url'', JStr (au_url u)), (''audience'', JStr (au_audience u)),
     (''serverProbe'', JStr ''unknown''), (''clientReachability'', JStr ''unknown''),
     (''observedAt'', JStr (au_observedAt u))]"

definition finish_deploy_success :: "worker \<Rightarrow> string \<Rightarrow> string \<Rightarrow> string list \<Rightarrow> unit call" where
  "finish_deploy_success k op i warnings = (\<lambda>s.
     case get_access_urls (wk_network k) (owner_service None) (wk_now k W_finish) i None (ws_reg s) of
       Inl e \<Rightarrow> (Inl (X_agent (Some e)), s)
     | Inr urls \<Rightarrow>
         (let result = JObj [(''instanceId'', JStr i),
                (''revision'', json_opt JInt (get_revision i (ws_reg s))),
                (''access'', JArr (map url_json urls)), (''warnings'', JArr (map JStr warnings)),
                (''nextActions'', JArr [])];
              failed = (case get_instance i (ws_reg s) of None \<Rightarrow> False | Some x \<Rightarrow> i_status x = ''failed'') in
          if failed
          then (Inr (), finish k op Failed (Some (error_payload E_healthcheck_failed op)) (Some result) (Some i) s)
          else (Inr (), finish k op Succeeded None (Some result) (Some i) s)))"

definition deploy_tail :: "worker \<Rightarrow> string \<Rightarrow> plan_row \<Rightarrow> string \<times> bool \<times> bool \<times> bool \<Rightarrow> unit call" where
  "deploy_tail k op p = (\<lambda>(i, needs_rebuild, needs_restart, was_running).
     bind_call (writeback_source_identity k p i) (\<lambda>warnings.
     bind_call (abort_if_cancelling k op) (\<lambda>_.
     bind_call (fallback_needs_input k op (build_stage k op p i needs_rebuild needs_restart was_running)) (\<lambda>done.
       case done of None \<Rightarrow> return_call ()
       | Some _ \<Rightarrow> bind_call (advance k op Phase_healthcheck) (\<lambda>_.
           bind_call (abort_if_cancelling k op) (\<lambda>_. finish_deploy_success k op i warnings))))))"

definition run_deploy :: "worker \<Rightarrow> op_row \<Rightarrow> unit call" where
  "run_deploy k row =
     (let op = o_operation_id row in
      bind_call (load_plan_for_exec row) (\<lambda>p.
      bind_call (set_phase Phase_validate) (\<lambda>_.
      bind_call (abort_if_cancelling k op) (\<lambda>_ s.
        if plan_expired (wk_now k W_check) p
        then (Inr (), finish_error k op Needs_input E_needs_input s)
        else if capability_gaps_now (wk_cache k) (pl_required_capabilities p) \<noteq> []
        then (Inl (X_agent (Some E_capability_unavailable)), s)
        else bind_call (check_deploy_target p) (\<lambda>_ s.
          if \<not> wk_has_snapshot k (pl_plan_id p) then (Inl needs_input, s)
          else bind_call (advance k op Phase_import) (\<lambda>_.
            bind_call (abort_if_cancelling k op) (\<lambda>_.
            bind_call (fallback_needs_input k op (import_or_update k op p)) (\<lambda>done.
              case done of None \<Rightarrow> return_call () | Some res \<Rightarrow> deploy_tail k op p res))) s) s))))"

section \<open>Lifecycle actions\<close>

definition expected_of :: "op_row \<Rightarrow> int option" where
  "expected_of row = (case o_payload row of None \<Rightarrow> None
     | Some j \<Rightarrow> (case obj_get j ''expectedRevision'' of Some (JInt n) \<Rightarrow> Some n | _ \<Rightarrow> None))"

definition lifecycle_steps :: "worker \<Rightarrow> op_row \<Rightarrow> string \<Rightarrow> int option \<Rightarrow> unit call" where
  "lifecycle_steps k row i expected =
     (let op = o_operation_id row in
      bind_call (abort_if_cancelling k op) (\<lambda>_.
      bind_call (advance k op (if o_action row = Rebuild then Phase_build else Phase_start)) (\<lambda>_.
      bind_call (if o_action row = Deploy then raise_call needs_input
                 else wk_handler k (o_action row) i expected) (\<lambda>_.
      bind_call (abort_if_cancelling k op) (\<lambda>_ s.
        (Inr (), finish k op Succeeded None
           (Some (JObj [(''instanceId'', JStr i), (''revision'', json_opt JInt (get_revision i (ws_reg s))),
              (''warnings'', JArr []), (''nextActions'', JArr [])])) None s))))))"

definition run_lifecycle :: "worker \<Rightarrow> op_row \<Rightarrow> unit call" where
  "run_lifecycle k row = (\<lambda>s.
     let expected = expected_of row;
         i = (case o_target_instance_id row of None \<Rightarrow> ''None'' | Some t \<Rightarrow> t) in
     case get_revision i (ws_reg s) of
       None \<Rightarrow> (Inl needs_input, s)
     | Some current \<Rightarrow>
         if expected \<noteq> None \<and> Some current \<noteq> expected then (Inl (X_agent (Some E_revision_conflict)), s)
         else lifecycle_steps k row i expected s)"

section \<open>Executing\<close>

definition settle :: "worker \<Rightarrow> string \<Rightarrow> failure + unit \<Rightarrow> worker_state \<Rightarrow> worker_state" where
  "settle k op res s = (case res of
     Inr _ \<Rightarrow> s
   | Inl X_cancelled \<Rightarrow> finish_error k op Cancelled E_interrupted s
   | Inl (X_agent code) \<Rightarrow> finish_agent_error k op code s
   | Inl (X_lwa e) \<Rightarrow> finish_lwa_error k op e s
   | Inl X_internal \<Rightarrow> finish_error k op Failed E_interrupted s)"

definition execute :: "worker \<Rightarrow> op_row \<Rightarrow> worker_state \<Rightarrow> worker_state" where
  "execute k row s =
     (let op = o_operation_id row;
          (res, s1) = (if o_action row = Deploy then run_deploy k row else run_lifecycle k row)
            (s\<lparr>ws_phase := None, ws_inflight := List.insert op (ws_inflight s)\<rparr>);
          s2 = settle k op res s1 in
      s2\<lparr>ws_inflight := removeAll op (ws_inflight s2)\<rparr>)"

definition claim_next :: "worker \<Rightarrow> string \<Rightarrow> worker_state \<Rightarrow> op_row option \<times> worker_state" where
  "claim_next k now s =
     (let (row, r) = projr (claim_next_agent_operation (wk_identity k) now (wk_lease k now) (ws_reg s)) in
      (row, s\<lparr>ws_reg := r\<rparr>))"

section \<open>Recovery and sweep\<close>

definition identity_pid :: "string option \<Rightarrow> int option" where
  "identity_pid identity =
     (if \<not> truthy identity then None else py_int (before_sep CHR '':'' (the identity)))"

definition stale :: "(int \<Rightarrow> bool) \<Rightarrow> string \<Rightarrow> op_row \<Rightarrow> bool" where
  "stale alive now row \<longleftrightarrow>
     (case o_lease_until row of None \<Rightarrow> True | Some l \<Rightarrow> l \<le> now)
     \<or> (case identity_pid (o_worker_identity row) of None \<Rightarrow> False | Some pid \<Rightarrow> \<not> alive pid)"

definition interrupt :: "string \<Rightarrow> string \<Rightarrow> reg \<Rightarrow> reg" where
  "interrupt now i r = snd (projr (cas_agent_operation_status i [Running, Cancelling] Interrupted now
     (no_extra\<lparr>ce_error := Some (error_payload E_interrupted i)\<rparr>) r))"

text \<open>\<open>env\<close> is what others write between the listing and the updates.\<close>

definition recover_stale ::
  "(reg \<Rightarrow> reg) \<Rightarrow> (int \<Rightarrow> bool) \<Rightarrow> string \<Rightarrow> worker_state \<Rightarrow> nat \<times> worker_state" where
  "recover_stale env alive now s =
     (let rows = filter (\<lambda>x. o_operation_id x \<notin> set (ws_inflight s) \<and> stale alive now x)
            (list_agent_operations [Running, Cancelling] 200 (ws_reg s)) in
      (length rows, s\<lparr>ws_reg := fold (interrupt now \<circ> o_operation_id) rows (env (ws_reg s))\<rparr>))"

text \<open>The sweep returns the plans whose snapshot directories are removed.\<close>

definition sweep :: "string \<Rightarrow> string \<Rightarrow> worker_state \<Rightarrow> string list \<times> worker_state" where
  "sweep cutoff now s =
     (let r1 = snd (projr (sweep_terminal_agent_operations cutoff 200 (ws_reg s)));
          (gone, r2) = projr (delete_expired_agent_plans now 100 r1) in
      (gone, s\<lparr>ws_reg := r2\<rparr>))"

text \<open>One beat of the heartbeat thread: it renews the lease and, in the build phase, records the
  token of the running build once.\<close>

definition sync_build_token :: "(string \<Rightarrow> string option) \<Rightarrow> string \<Rightarrow> string \<Rightarrow> worker_state \<Rightarrow> worker_state" where
  "sync_build_token current_token op now s =
     (if ws_phase s \<noteq> Some Phase_build then s
      else (case get_agent_operation op (ws_reg s) of
          None \<Rightarrow> s
        | Some row \<Rightarrow>
            if truthy (o_build_token row) \<or> \<not> truthy (o_target_instance_id row) then s
            else (let token = current_token (the (o_target_instance_id row)) in
              if truthy token
              then s\<lparr>ws_reg := snd (projr (update_agent_operation op now [F_build_token token] (ws_reg s)))\<rparr>
              else s)))"

definition heartbeat ::
  "worker \<Rightarrow> (string \<Rightarrow> string option) \<Rightarrow> string \<Rightarrow> string \<Rightarrow> worker_state \<Rightarrow> worker_state" where
  "heartbeat k current_token op now s =
     sync_build_token current_token op now
       (s\<lparr>ws_reg := snd (projr (renew_agent_operation_lease op (wk_identity k) now (wk_lease k now) (ws_reg s)))\<rparr>)"

text \<open>One round of \<open>run_forever\<close>; whether a sweep is due is decided by the clock.\<close>

definition worker_round ::
  "worker \<Rightarrow> (reg \<Rightarrow> reg) \<Rightarrow> (int \<Rightarrow> bool) \<Rightarrow> string \<Rightarrow> string \<Rightarrow> bool \<Rightarrow> worker_state \<Rightarrow> worker_state" where
  "worker_round k env alive now cutoff sweep_due s =
     (let s1 = snd (recover_stale env alive now s); (row, s2) = claim_next k now s1 in
      case row of
        Some row \<Rightarrow> execute k row s2
      | None \<Rightarrow> if sweep_due then snd (sweep cutoff now s2) else s2)"

end
