(* ===== verification/Agent_Worker_Facts.thy ===== *)
theory Agent_Worker_Facts
  imports Agent_Worker
begin

text \<open>
  Facts about the worker: an execution ends in a final status, a final status is never left, a
  cancellation seen in time stops an execution before the importer runs, the outcome of a lifecycle
  action, and what the recovery interrupts.
\<close>

section \<open>Invariants of an execution\<close>

text \<open>The parameters of a worker keep a property of the registry.\<close>

definition call_keeps :: "(reg \<Rightarrow> bool) \<Rightarrow> 'a call \<Rightarrow> bool" where
  "call_keeps J m \<longleftrightarrow> (\<forall>s. J (ws_reg s) \<longrightarrow> J (ws_reg (snd (m s))))"

definition worker_keeps :: "(reg \<Rightarrow> bool) \<Rightarrow> worker \<Rightarrow> bool" where
  "worker_keeps J k \<longleftrightarrow> (\<forall>p s. J (ws_reg s) \<longrightarrow> J (ws_reg (wk_env k p s)))
     \<and> (\<forall>n. call_keeps J (wk_import k n)) \<and> (\<forall>i e. call_keeps J (wk_update k i e))
     \<and> (\<forall>i. call_keeps J (wk_start k i)) \<and> (\<forall>i. call_keeps J (wk_rebuild k i))
     \<and> (\<forall>i. call_keeps J (wk_restart k i)) \<and> (\<forall>a i e. call_keeps J (wk_handler k a i e))"

text \<open>What the worker itself writes while it executes an operation.\<close>

definition writes_keep :: "(reg \<Rightarrow> bool) \<Rightarrow> string \<Rightarrow> bool" where
  "writes_keep J op \<longleftrightarrow>
     (\<forall>r now p. J r \<longrightarrow> J (snd (projr (update_agent_operation op now [F_phase p] r))))
     \<and> (\<forall>r now i. J r \<longrightarrow> J (snd (projr (update_agent_operation op now [F_target_instance_id i] r))))
     \<and> (\<forall>r t now x. J r \<and> terminal t
        \<longrightarrow> J (snd (projr (cas_agent_operation_status op [Running, Cancelling] t now x r))))
     \<and> (\<forall>r i now e m x. J r \<and> \<not> isl (add_event i e m x now r)
        \<longrightarrow> J (snd (projr (add_event i e m x now r))))"

text \<open>A call that keeps the invariant, and after which, when it returns, the operation is done.\<close>

definition op_done :: "string \<Rightarrow> reg \<Rightarrow> bool" where
  "op_done op r \<longleftrightarrow> (\<exists>t. op_status_of r op = Some t \<and> terminal t)"

definition going :: "string \<Rightarrow> reg \<Rightarrow> bool" where
  "going op r \<longleftrightarrow> reg_ok r \<and> (\<exists>t. op_status_of r op = Some t \<and> t \<noteq> Queued)"

definition ends :: "string \<Rightarrow> unit call \<Rightarrow> bool" where
  "ends op m \<longleftrightarrow> (\<forall>s. going op (ws_reg s) \<longrightarrow> fst (m s) = Inr () \<longrightarrow> op_done op (ws_reg (snd (m s))))"

lemma call_keepsI: "(\<And>s. J (ws_reg s) \<Longrightarrow> J (ws_reg (snd (m s)))) \<Longrightarrow> call_keeps J m"
  by (simp add: call_keeps_def)

lemma call_keepsD: "call_keeps J m \<Longrightarrow> J (ws_reg s) \<Longrightarrow> m s = (x, s') \<Longrightarrow> J (ws_reg s')"
  by (metis call_keeps_def snd_conv)

lemma keeps_bind:
  assumes "call_keeps J m" "\<And>a. call_keeps J (f a)"
  shows "call_keeps J (bind_call m f)"
proof (rule call_keepsI)
  fix s :: worker_state assume s: "J (ws_reg s)"
  obtain x s' where m: "m s = (x, s')" by fastforce
  have "J (ws_reg s')" by (rule call_keepsD [OF assms(1) s m])
  with assms(2) m show "J (ws_reg (snd (bind_call m f s)))"
    by (auto simp: bind_call_def call_keeps_def split: sum.split)
qed

lemma keeps_at: "call_keeps J m \<Longrightarrow> J (ws_reg s) \<Longrightarrow> J (ws_reg (snd (m s)))"
  by (simp add: call_keeps_def)

lemma keeps_simple:
  "call_keeps J (return_call a)" "call_keeps J (raise_call e)" "call_keeps J (set_phase p)"
  by (simp_all add: call_keeps_def return_call_def raise_call_def set_phase_def)

lemma keeps_pure: "(\<And>s. snd (m s) = s) \<Longrightarrow> call_keeps J m"
  by (simp add: call_keeps_def)

lemma env_keeps: "worker_keeps J k \<Longrightarrow> J (ws_reg s) \<Longrightarrow> J (ws_reg (wk_env k p s))"
  by (simp add: worker_keeps_def)

lemma finish_keeps:
  assumes "worker_keeps J k" "writes_keep J op" "terminal t" "J (ws_reg s)"
  shows "J (ws_reg (finish k op t err res target s))"
  using assms(2,3) env_keeps [OF assms(1,4), of W_finish] by (simp add: finish_def Let_def writes_keep_def)

lemma update_keeps:
  assumes "writes_keep J op" "J r"
  shows "update_agent_operation op now [F_phase p] r = Inr (x, r') \<Longrightarrow> J r'"
    "update_agent_operation op now [F_target_instance_id i] r = Inr (x, r') \<Longrightarrow> J r'"
    "add_event j e m y now r = Inr z \<Longrightarrow> J (snd z)"
proof -
  have "J (snd (projr (update_agent_operation op now [F_phase p] r)))"
    "J (snd (projr (update_agent_operation op now [F_target_instance_id i] r)))"
    "\<not> isl (add_event j e m y now r) \<Longrightarrow> J (snd (projr (add_event j e m y now r)))"
    using assms by (simp_all add: writes_keep_def)
  then show "update_agent_operation op now [F_phase p] r = Inr (x, r') \<Longrightarrow> J r'"
    "update_agent_operation op now [F_target_instance_id i] r = Inr (x, r') \<Longrightarrow> J r'"
    "add_event j e m y now r = Inr z \<Longrightarrow> J (snd z)" by simp_all
qed

lemma keeps_advance:
  assumes "worker_keeps J k" "writes_keep J op" shows "call_keeps J (advance k op p)"
proof (rule call_keepsI)
  fix s :: worker_state assume "J (ws_reg s)"
  then have e: "J (ws_reg (wk_env k (W_advance p) s))" by (rule env_keeps [OF assms(1)])
  then show "J (ws_reg (snd (advance k op p s)))"
    by (auto simp: advance_def Let_def split: sum.split dest: update_keeps(1) [OF assms(2) e])
qed

lemma keeps_abort: "worker_keeps J k \<Longrightarrow> call_keeps J (abort_if_cancelling k op)"
  using env_keeps by (auto simp: call_keeps_def abort_if_cancelling_def Let_def)

lemma keeps_fallback:
  assumes "worker_keeps J k" "writes_keep J op" "call_keeps J m"
  shows "call_keeps J (fallback_needs_input k op m)"
proof (rule call_keepsI)
  fix s :: worker_state assume s: "J (ws_reg s)"
  obtain x s' where m: "m s = (x, s')" by fastforce
  have "J (ws_reg s')" by (rule call_keepsD [OF assms(3) s m])
  with m finish_keeps [OF assms(1,2), of Needs_input s'] show "J (ws_reg (snd (fallback_needs_input k op m s)))"
    by (auto simp: fallback_needs_input_def finish_error_def split: sum.split failure.split)
qed

lemma keeps_import_or_update:
  assumes wk: "worker_keeps J k" and wr: "writes_keep J op"
  shows "call_keeps J (import_or_update k op p)"
proof -
  let ?f = "\<lambda>i s. let s1 = wk_env k W_target s in
      case update_agent_operation op (wk_now k W_target) [F_target_instance_id (Some i)] (ws_reg s1) of
        Inl e \<Rightarrow> (Inl X_internal, s1)
      | Inr (_, r) \<Rightarrow> (Inr (i, False, False, False), s1\<lparr>ws_reg := r\<rparr>)"
  have f: "call_keeps J (?f i)" for i
  proof (rule call_keepsI)
    fix s :: worker_state assume "J (ws_reg s)"
    then have e: "J (ws_reg (wk_env k W_target s))" by (rule env_keeps [OF wk])
    then show "J (ws_reg (snd (?f i s)))"
      by (auto simp: Let_def split: sum.split dest: update_keeps(2) [OF wr e])
  qed
  have "call_keeps J (wk_import k n)" "call_keeps J (wk_update k i e)" for n i e
    using wk by (simp_all add: worker_keeps_def)
  with f show ?thesis
    by (auto simp: import_or_update_def intro!: keeps_bind keeps_simple split: option.split)
qed

lemma keeps_writeback:
  assumes wk: "worker_keeps J k" and wr: "writes_keep J op"
  shows "call_keeps J (writeback_source_identity k p i)"
proof (rule call_keepsI)
  fix s :: worker_state assume s: "J (ws_reg s)"
  have env: "J (ws_reg (wk_env k W_writeback (s\<lparr>ws_manifests := ms\<rparr>)))" for ms
    using env_keeps [OF wk, of "s\<lparr>ws_manifests := ms\<rparr>"] s by simp
  show "J (ws_reg (snd (writeback_source_identity k p i s)))"
    using s env unfolding writeback_source_identity_def
    by (auto simp: Let_def split: option.split deploy_source.split manifest_file.split sum.split
        dest: update_keeps(3) [OF wr env])
qed

lemma keeps_build_stage:
  assumes wk: "worker_keeps J k" and wr: "writes_keep J op"
  shows "call_keeps J (build_stage k op p i a b c)"
proof -
  have "call_keeps J (wk_start k i)" "call_keeps J (wk_rebuild k i)" "call_keeps J (wk_restart k i)"
    using wk by (simp_all add: worker_keeps_def)
  then show ?thesis unfolding build_stage_def
    by (auto intro!: keeps_bind keeps_simple keeps_advance [OF wk wr] keeps_abort [OF wk])
qed

lemma keeps_finish_deploy:
  assumes "worker_keeps J k" "writes_keep J op"
  shows "call_keeps J (finish_deploy_success k op i ws)"
  using finish_keeps [OF assms]
  by (auto simp: call_keeps_def finish_deploy_success_def Let_def split: sum.split)

lemma keeps_run:
  assumes wk: "worker_keeps J k" and wr: "writes_keep J (o_operation_id row)"
  shows "call_keeps J (run_deploy k row)" "call_keeps J (run_lifecycle k row)"
proof -
  note intros = keeps_bind keeps_simple keeps_advance [OF wk wr] keeps_abort [OF wk]
    keeps_fallback [OF wk wr] keeps_import_or_update [OF wk wr] keeps_writeback [OF wk wr]
    keeps_build_stage [OF wk wr] keeps_finish_deploy [OF wk wr]
  have load: "call_keeps J (load_plan_for_exec row)"
    by (rule keeps_pure) (simp add: load_plan_for_exec_def split: sum.split)
  have check: "call_keeps J (check_deploy_target p)" for p
    by (rule keeps_pure) (simp add: check_deploy_target_def split: option.split manifest_file.split)
  have tail: "call_keeps J (deploy_tail k (o_operation_id row) p res)" for p res
    by (cases res) (auto simp: deploy_tail_def intro!: intros split: option.split)
  have guarded: "call_keeps J (\<lambda>s. if b then (Inr (), f s) else if c then (Inl e, s) else m s)"
    if "call_keeps J m" "\<And>s :: worker_state. J (ws_reg s) \<Longrightarrow> J (ws_reg (f s))" for b c e f and m :: "unit call"
    using that by (auto simp: call_keeps_def)
  have snap: "call_keeps J (\<lambda>s. if b then (Inl e, s) else m s)" if "call_keeps J m" for b e and m :: "unit call"
    using that by (auto simp: call_keeps_def)
  have fin: "J (ws_reg s) \<Longrightarrow> J (ws_reg (finish_error k (o_operation_id row) Needs_input c s))" for s :: worker_state and c
    using finish_keeps [OF wk wr] by (simp add: finish_error_def)
  show "call_keeps J (run_deploy k row)" unfolding run_deploy_def Let_def
    by (intro intros load guarded snap check fin) (auto intro!: intros tail split: option.split)
  have handler: "call_keeps J (wk_handler k a i e)" for a i e using wk by (simp add: worker_keeps_def)
  have last: "call_keeps J (\<lambda>s. (Inr (), finish k (o_operation_id row) Succeeded err (res s) t s))" for err res t
    using finish_keeps [OF wk wr] by (simp add: call_keeps_def)
  have "call_keeps J (lifecycle_steps k row i e)" for i e unfolding lifecycle_steps_def Let_def
    by (intro intros last) (simp add: handler keeps_simple)
  then show "call_keeps J (run_lifecycle k row)"
    by (simp add: call_keeps_def run_lifecycle_def Let_def split: option.split)
qed

section \<open>Ending\<close>

lemma endsD: "ends op m \<Longrightarrow> going op (ws_reg s) \<Longrightarrow> m s = (Inr (), s') \<Longrightarrow> op_done op (ws_reg s')"
  by (metis ends_def fst_conv snd_conv)

lemma ends_bind:
  assumes "call_keeps (going op) m" "\<And>a. ends op (f a)"
  shows "ends op (bind_call m f)"
  unfolding ends_def
proof (intro allI impI)
  fix s :: worker_state assume s: "going op (ws_reg s)" and b: "fst (bind_call m f s) = Inr ()"
  obtain x s' where m: "m s = (x, s')" by fastforce
  have "going op (ws_reg s')" by (rule call_keepsD [OF assms(1) s m])
  with b m assms(2) show "op_done op (ws_reg (snd (bind_call m f s)))"
    by (auto simp: bind_call_def ends_def split: sum.splits)
qed

lemma finish_done:
  assumes "worker_keeps (going op) k" "terminal t" "going op (ws_reg s)"
  shows "op_done op (ws_reg (finish k op t err res target s))"
proof -
  let ?r = "ws_reg (wk_env k W_finish s)" and ?x = "\<lparr>ce_phase = None, ce_error = err, ce_result = res, ce_target = target\<rparr>"
  have g: "going op ?r" by (rule env_keeps [OF assms(1,3)])
  then obtain u where u: "reg_ok ?r" "op_status_of ?r op = Some u" "u \<noteq> Queued" by (auto simp: going_def)
  obtain b r' where c: "cas_agent_operation_status op [Running, Cancelling] t (wk_now k W_finish) ?x ?r = Inr (b, r')"
    using op_cas_eq by blast
  have "b \<longleftrightarrow> u \<in> {Running, Cancelling}" using cas_status_hit(1) [OF u(1) c] u(2) by auto
  then have "op_done op r'"
    using cas_status_hit(2) [OF u(1) c, of op] u assms(2) by (cases u) (auto simp: op_done_def)
  with c show ?thesis by (simp add: finish_def Let_def)
qed

lemma ends_fallback:
  assumes wk: "worker_keeps (going op) k" and m: "call_keeps (going op) m"
    and wr: "writes_keep (going op) op" and g: "\<And>a. ends op (g a)"
  shows "ends op (bind_call (fallback_needs_input k op m)
     (\<lambda>d. case d of None \<Rightarrow> return_call () | Some a \<Rightarrow> g a))"
  unfolding ends_def
proof (intro allI impI)
  fix s :: worker_state
  assume s: "going op (ws_reg s)" and b: "fst (bind_call (fallback_needs_input k op m)
     (\<lambda>d. case d of None \<Rightarrow> return_call () | Some a \<Rightarrow> g a) s) = Inr ()"
  obtain x s' where ms: "m s = (x, s')" by fastforce
  have "going op (ws_reg s')" by (rule call_keepsD [OF m s ms])
  with b ms g finish_done [OF wk, of Needs_input s'] show "op_done op (ws_reg (snd (bind_call
      (fallback_needs_input k op m) (\<lambda>d. case d of None \<Rightarrow> return_call () | Some a \<Rightarrow> g a) s)))"
    by (auto simp: bind_call_def fallback_needs_input_def return_call_def finish_error_def ends_def
        split: sum.splits failure.splits if_split_asm)
qed

lemma ends_run:
  assumes wk: "worker_keeps (going op) k" and wr: "writes_keep (going op) op" and op: "op = o_operation_id row"
  shows "ends op (run_deploy k row)" "ends op (run_lifecycle k row)"
proof -
  note intros = keeps_bind keeps_simple keeps_advance [OF wk wr] keeps_abort [OF wk]
    keeps_fallback [OF wk wr] keeps_import_or_update [OF wk wr] keeps_writeback [OF wk wr]
    keeps_build_stage [OF wk wr] keeps_finish_deploy [OF wk wr]
  have fin: "ends op (finish_deploy_success k op i ws)" for i ws
    using finish_done [OF wk] by (auto simp: ends_def finish_deploy_success_def Let_def split: sum.splits)
  have tail: "ends op (deploy_tail k op p res)" for p res
    by (cases res) (auto simp: deploy_tail_def intro!: ends_bind ends_fallback [OF wk _ wr] intros fin)
  have load: "call_keeps (going op) (load_plan_for_exec row)"
    by (rule keeps_pure) (simp add: load_plan_for_exec_def split: sum.split)
  have check: "call_keeps (going op) (check_deploy_target p)" for p
    by (rule keeps_pure) (simp add: check_deploy_target_def split: option.split manifest_file.split)
  have guarded: "ends op (\<lambda>s. if b then (Inr (), f s) else if c then (Inl e, s) else m s)"
    if "ends op m" "\<And>s :: worker_state. going op (ws_reg s) \<Longrightarrow> op_done op (ws_reg (f s))" for b c e f and m :: "unit call"
    using that by (auto simp: ends_def)
  have snap: "ends op (\<lambda>s. if b then (Inl e, s) else m s)" if "ends op m" for b e and m :: "unit call"
    using that by (auto simp: ends_def)
  have err: "going op (ws_reg s) \<Longrightarrow> op_done op (ws_reg (finish_error k op Needs_input c s))" for s :: worker_state and c
    using finish_done [OF wk] by (simp add: finish_error_def)
  show "ends op (run_deploy k row)" unfolding run_deploy_def Let_def op [symmetric]
    by (intro ends_bind load guarded snap check err intros ends_fallback [OF wk _ wr] tail)
  have handler: "call_keeps (going op) (wk_handler k a i e)" for a i e using wk by (simp add: worker_keeps_def)
  have last: "ends op (\<lambda>s. (Inr (), finish k op Succeeded e (res s) t s))" for e res t
    using finish_done [OF wk] by (simp add: ends_def)
  have "ends op (lifecycle_steps k row i e)" for i e
    unfolding lifecycle_steps_def Let_def op [symmetric]
    by (intro ends_bind intros last) (simp add: handler keeps_simple)
  then show "ends op (run_lifecycle k row)"
    by (simp add: ends_def run_lifecycle_def Let_def split: option.split)
qed

section \<open>The invariants\<close>

lemma update_op_facts:
  assumes "reg_ok r" "\<And>y. o_status (set_field f y) = o_status y" "field_allowed f"
  shows "reg_ok (snd (projr (update_agent_operation op now [f] r)))
     \<and> op_status_of (snd (projr (update_agent_operation op now [f] r))) j = op_status_of r j"
proof -
  let ?g = "\<lambda>x. set_field f (x\<lparr>o_updated_at := now\<rparr>)"
  have u: "snd (projr (update_agent_operation op now [f] r)) = upd_op op (\<lambda>_. True) ?g r"
    using assms(3) by (simp add: update_agent_operation_def)
  have k: "o_operation_id (?g x) = o_operation_id x" "op_key (?g x) = op_key x" for x
    by (simp_all add: set_field_keys)
  have "reg_ok (upd_op op (\<lambda>_. True) ?g r)" by (rule reg_ok_upd_op [OF assms(1)]) (simp_all add: k)
  moreover have "op_status_of (upd_op op (\<lambda>_. True) ?g r) j = op_status_of r j"
    by (simp add: op_status_of_def get_upd_op k assms(2) option.map_comp comp_def)
  ultimately show ?thesis by (simp add: u)
qed

lemma add_event_facts:
  assumes "reg_ok r" "\<not> isl (add_event i e m x now r)"
  shows "reg_ok (snd (projr (add_event i e m x now r)))
     \<and> op_status_of (snd (projr (add_event i e m x now r))) j = op_status_of r j"
proof -
  have "reg_ok (snd (projr (add_event i e m x now r)))"
    using reg_ok_add_event [OF assms(1), of i e m x now] assms(2)
    by (cases "add_event i e m x now r") (auto simp: commit_def)
  moreover have "agent_operations (snd (projr (add_event i e m x now r))) = agent_operations r"
    using assms(2) by (auto simp: add_event_def Let_def)
  ultimately show ?thesis by (simp add: op_status_of_def get_agent_operation_def)
qed

lemma cas_facts:
  assumes "reg_ok r"
  shows "reg_ok (snd (projr (cas_agent_operation_status op E t now x r)))
     \<and> op_status_of (snd (projr (cas_agent_operation_status op E t now x r))) j =
         (if j = op \<and> (\<exists>u \<in> set E. op_status_of r op = Some u) then Some t else op_status_of r j)"
proof -
  obtain b r' where c: "cas_agent_operation_status op E t now x r = Inr (b, r')" using op_cas_eq by blast
  show ?thesis using cas_status_hit [OF assms c] c by auto
qed

lemma writes_keepI:
  assumes "\<And>r. J r \<Longrightarrow> reg_ok r"
    "\<And>r r'. J r \<Longrightarrow> reg_ok r' \<Longrightarrow> (\<And>j. op_status_of r' j = op_status_of r j) \<Longrightarrow> J r'"
    "\<And>r r' t. J r \<Longrightarrow> reg_ok r' \<Longrightarrow> terminal t \<Longrightarrow> (\<And>j. op_status_of r' j =
        (if j = op \<and> op_status_of r op \<in> {Some Running, Some Cancelling} then Some t else op_status_of r j)) \<Longrightarrow> J r'"
  shows "writes_keep J op"
  unfolding writes_keep_def
proof (intro conjI allI impI)
  fix r now p assume r: "J r"
  show "J (snd (projr (update_agent_operation op now [F_phase p] r)))"
    using update_op_facts [OF assms(1) [OF r], of "F_phase p"] by (intro assms(2) [OF r]) simp_all
next
  fix r now i assume r: "J r"
  show "J (snd (projr (update_agent_operation op now [F_target_instance_id i] r)))"
    using update_op_facts [OF assms(1) [OF r], of "F_target_instance_id i"] by (intro assms(2) [OF r]) simp_all
next
  fix r t now x assume a: "J r \<and> terminal t"
  then have r: "J r" and t: "terminal t" by simp_all
  show "J (snd (projr (cas_agent_operation_status op [Running, Cancelling] t now x r)))"
    using cas_facts [OF assms(1) [OF r], of op "[Running, Cancelling]" t now x]
    by (intro assms(3) [OF r _ t]) auto
next
  fix r i e m x now assume a: "J r \<and> \<not> isl (add_event i e m x now r)"
  then have r: "J r" by simp
  show "J (snd (projr (add_event i e m x now r)))"
    using add_event_facts [OF assms(1) [OF r] conjunct2 [OF a]] by (intro assms(2) [OF r]) simp_all
qed

lemma writes_going: "writes_keep (going i) op"
  by (rule writes_keepI) (auto simp: going_def split: if_split_asm)

text \<open>The operation is gone or has the final status.\<close>

definition stays :: "string \<Rightarrow> op_status \<Rightarrow> reg \<Rightarrow> bool" where
  "stays j t r \<longleftrightarrow> reg_ok r \<and> op_status_of r j \<in> {None, Some t}"

lemma writes_stays: "terminal t \<Longrightarrow> writes_keep (stays j t) op"
  by (rule writes_keepI) (auto simp: stays_def split: if_split_asm)

lemma settle_finish: "\<exists>t err. terminal t \<and> settle k op (Inl e) s = finish k op t err None None s"
proof (cases e)
  case (X_lwa x)
  have "terminal (fst (lwa_outcome x ph))" for ph by (auto simp: lwa_outcome_def)
  with X_lwa show ?thesis
    by (auto simp: settle_def finish_error_def finish_lwa_error_def case_prod_beta)
next
  case (X_agent c)
  have "terminal (status_for c)" for c by (simp add: status_for_def)
  with X_agent show ?thesis by (auto simp: settle_def finish_error_def finish_agent_error_def Let_def)
next
  case X_cancelled
  then show ?thesis by (auto simp: settle_def finish_error_def intro: exI [of _ Cancelled])
next
  case X_internal
  then show ?thesis by (auto simp: settle_def finish_error_def intro: exI [of _ Failed])
qed

lemma settle_keeps:
  assumes "worker_keeps J k" "writes_keep J op" "J (ws_reg s)"
  shows "J (ws_reg (settle k op res s))"
proof (cases res)
  case (Inl e)
  obtain t err where t: "terminal t" "settle k op (Inl e) s = finish k op t err None None s"
    using settle_finish by blast
  show ?thesis unfolding Inl t(2) by (rule finish_keeps [OF assms(1,2) t(1) assms(3)])
qed (simp add: settle_def assms(3))

lemma settle_done:
  assumes "worker_keeps (going op) k" "going op (ws_reg s)"
  shows "op_done op (ws_reg (settle k op (Inl e) s))"
proof -
  obtain t err where t: "terminal t" "settle k op (Inl e) s = finish k op t err None None s"
    using settle_finish by blast
  show ?thesis unfolding t(2) by (rule finish_done [OF assms(1) t(1) assms(2)])
qed

lemma execute_keeps:
  assumes wk: "worker_keeps J k" and wr: "writes_keep J (o_operation_id row)" and s: "J (ws_reg s)"
  shows "J (ws_reg (execute k row s))"
proof -
  let ?s = "s\<lparr>ws_phase := None, ws_inflight := List.insert (o_operation_id row) (ws_inflight s)\<rparr>"
  let ?run = "if o_action row = Deploy then run_deploy k row else run_lifecycle k row"
  obtain res s1 where r: "?run ?s = (res, s1)" by fastforce
  have g: "J (ws_reg ?s)" using s by simp
  have c: "call_keeps J ?run"
    using keeps_run [OF wk wr] by simp
  have "J (ws_reg s1)" using call_keepsD [OF c g] r by blast
  then have "J (ws_reg (settle k (o_operation_id row) res s1))" by (rule settle_keeps [OF wk wr])
  with r show ?thesis by (simp add: execute_def Let_def)
qed

lemma execute_done:
  assumes wk: "worker_keeps (going (o_operation_id row)) k" and s: "going (o_operation_id row) (ws_reg s)"
  shows "op_done (o_operation_id row) (ws_reg (execute k row s))"
proof -
  let ?op = "o_operation_id row"
  let ?s = "s\<lparr>ws_phase := None, ws_inflight := List.insert ?op (ws_inflight s)\<rparr>"
  let ?run = "if o_action row = Deploy then run_deploy k row else run_lifecycle k row"
  obtain res s1 where r: "?run ?s = (res, s1)" by fastforce
  have g: "going ?op (ws_reg ?s)" using s by simp
  have c: "call_keeps (going ?op) ?run" using keeps_run [OF wk writes_going] by simp
  have g1: "going ?op (ws_reg s1)" using call_keepsD [OF c g] r by blast
  have e: "ends ?op ?run" using ends_run [OF wk writes_going refl] by simp
  have "op_done ?op (ws_reg (settle k ?op res s1))"
  proof (cases res)
    case (Inl f)
    with settle_done [OF wk g1] show ?thesis by simp
  next
    case (Inr u)
    have "?run ?s = (Inr (), s1)" using r Inr by simp
    then have "op_done ?op (ws_reg s1)" using endsD [OF e g] by blast
    with Inr show ?thesis by (simp add: settle_def)
  qed
  with r show ?thesis by (simp add: execute_def Let_def)
qed

lemma claim_next_going:
  assumes "claim_next k now s = (Some row, s')" "reg_ok (ws_reg s)"
  shows "going (o_operation_id row) (ws_reg s')"
proof -
  obtain x where x: "oldest_queued (ws_reg s) = Some x"
    using assms(1) by (auto simp: claim_next_def claim_next_agent_operation_def split: option.splits prod.splits)
  let ?f = "\<lambda>x. x\<lparr>o_status := Running, o_phase := Some Phase_validate,
     o_worker_identity := Some (wk_identity k), o_lease_until := Some (wk_lease k now), o_updated_at := now\<rparr>"
  let ?r' = "upd_op (o_operation_id x) (\<lambda>x. o_status x = Queued) ?f (ws_reg s)"
  have g: "get_agent_operation (o_operation_id x) (ws_reg s) = Some x"
    using find_by_mem [of o_operation_id "agent_operations (ws_reg s)" x] oldest_queued_SomeD(1) [OF x] assms(2)
    by (simp add: get_agent_operation_def reg_ok_def)
  have g': "get_agent_operation (o_operation_id x) ?r' = Some (?f x)"
    using g oldest_queued_SomeD(2) [OF x] by (subst get_upd_op) simp_all
  have "ws_reg s' = ?r'" "row = ?f x"
    using assms(1) x g' by (auto simp: claim_next_def claim_next_agent_operation_def Let_def split: if_split_asm)
  moreover have "reg_ok ?r'" by (rule reg_ok_upd_op [OF assms(2)]) simp_all
  ultimately show ?thesis using g' by (simp add: going_def op_status_of_def)
qed

text \<open>C8: An operation that a worker claims ends: when its execution returns, the operation has a final
  status, whatever the importer, the lifecycle functions and the other processes did, as long as
  they neither delete it nor put it back into the queue.\<close>

theorem claimed_operation_ends:
  assumes "reg_ok (ws_reg s)" "claim_next k now s = (Some row, s')"
    "worker_keeps (going (o_operation_id row)) k"
  shows "\<exists>t. op_status_of (ws_reg (execute k row s')) (o_operation_id row) = Some t \<and> terminal t"
  using execute_done [OF assms(3) claim_next_going [OF assms(2,1)]] by (simp add: op_done_def)

section \<open>Final statuses\<close>

lemma claim_next_stays:
  assumes "stays j t (ws_reg s)" "terminal t"
  shows "stays j t (ws_reg (snd (claim_next k now s)))"
proof (cases "oldest_queued (ws_reg s)")
  case None
  with assms show ?thesis by (simp add: claim_next_def claim_next_agent_operation_def)
next
  case (Some x)
  let ?P = "\<lambda>x. o_status x = Queued"
  let ?f = "\<lambda>x. x\<lparr>o_status := Running, o_phase := Some Phase_validate,
     o_worker_identity := Some (wk_identity k), o_lease_until := Some (wk_lease k now), o_updated_at := now\<rparr>"
  let ?r' = "upd_op (o_operation_id x) ?P ?f (ws_reg s)"
  have "ws_reg (snd (claim_next k now s)) = ?r'"
    using Some by (simp add: claim_next_def claim_next_agent_operation_def Let_def)
  moreover have "reg_ok ?r'" using assms(1) by (intro reg_ok_upd_op) (simp_all add: stays_def)
  moreover have "op_status_of ?r' j \<in> {None, Some t}"
  proof -
    have "get_agent_operation j ?r' = (if j = o_operation_id x
        then map_option (\<lambda>x. if ?P x then ?f x else x) (get_agent_operation j (ws_reg s))
        else get_agent_operation j (ws_reg s))"
      by (subst get_upd_op) simp_all
    moreover have "o_status y \<noteq> Queued" if "get_agent_operation j (ws_reg s) = Some y" for y
      using assms that by (auto simp: stays_def op_status_of_def)
    ultimately show ?thesis using assms
      by (cases "get_agent_operation j (ws_reg s)") (auto simp: stays_def op_status_of_def)
  qed
  ultimately show ?thesis by (simp add: stays_def)
qed

lemma interrupt_stays: "stays j t r \<Longrightarrow> terminal t \<Longrightarrow> stays j t (interrupt now i r)"
  using cas_facts [of r i "[Running, Cancelling]" Interrupted now] unfolding stays_def interrupt_def
  by (auto split: if_split_asm)

lemma recover_stays:
  assumes "stays j t (ws_reg s)" "terminal t" "\<And>r. stays j t r \<Longrightarrow> stays j t (env r)"
  shows "stays j t (ws_reg (snd (recover_stale env alive now s)))"
proof -
  have f: "stays j t (fold (interrupt now \<circ> o_operation_id) rows r)" if "stays j t r" for rows r
    using that by (induction rows arbitrary: r) (simp_all add: interrupt_stays assms(2))
  show ?thesis unfolding recover_stale_def Let_def by (simp, rule f, rule assms(3), rule assms(1))
qed

lemma stays_del_where:
  assumes "stays j t r"
  shows "stays j t (r\<lparr>agent_operations := del_where P (agent_operations r)\<rparr>)"
proof -
  have ok: "reg_ok r" and s: "op_status_of r j \<in> {None, Some t}" using assms by (simp_all add: stays_def)
  have pk: "pk_ok o_operation_id (agent_operations r)" "pk_ok op_key (agent_operations r)"
    using ok by (simp_all add: reg_ok_def)
  then have "reg_ok (r\<lparr>agent_operations := del_where P (agent_operations r)\<rparr>)"
    by (intro reg_ok_set_ops [OF ok] pk_ok_del_where)
  moreover have "op_status_of (r\<lparr>agent_operations := del_where P (agent_operations r)\<rparr>) j \<in> {None, Some t}"
    using find_by_del_where [OF pk(1), of j P] s
    by (auto simp: op_status_of_def get_agent_operation_def split: option.splits if_split_asm)
  ultimately show ?thesis by (simp add: stays_def)
qed

lemma sweep_stays:
  assumes "stays j t (ws_reg s)"
  shows "stays j t (ws_reg (snd (sweep cutoff now s)))"
proof -
  let ?r1 = "snd (projr (sweep_terminal_agent_operations cutoff 200 (ws_reg s)))"
  have r1: "stays j t ?r1"
    using stays_del_where [OF assms] by (simp add: sweep_terminal_agent_operations_def Let_def)
  let ?r2 = "snd (projr (delete_expired_agent_plans now 100 ?r1))"
  have "reg_ok ?r2"
    using r1 by (simp add: stays_def delete_expired_agent_plans_def Let_def reg_ok_def pk_ok_del_where)
  then have "stays j t ?r2"
    using r1 by (simp add: stays_def delete_expired_agent_plans_def Let_def op_status_of_def get_agent_operation_def)
  then show ?thesis by (simp add: sweep_def Let_def case_prod_beta)
qed


section \<open>Cancelling an execution\<close>

definition with_calls ::
  "worker \<Rightarrow> (string option \<Rightarrow> string call) \<Rightarrow> (string \<Rightarrow> int option \<Rightarrow> (bool \<times> bool \<times> bool) call)
     \<Rightarrow> (string \<Rightarrow> unit call) \<Rightarrow> (op_action \<Rightarrow> string \<Rightarrow> int option \<Rightarrow> unit call) \<Rightarrow> worker" where
  "with_calls k imp upd start handler = k\<lparr>wk_import := imp, wk_update := upd, wk_start := start,
     wk_rebuild := start, wk_restart := start, wk_handler := handler\<rparr>"

lemma with_calls_simps [simp]:
  "wk_env (with_calls k a b c d) = wk_env k" "wk_now (with_calls k a b c d) = wk_now k"
  "wk_cache (with_calls k a b c d) = wk_cache k" "wk_has_snapshot (with_calls k a b c d) = wk_has_snapshot k"
  by (simp_all add: with_calls_def)

lemma with_calls_steps [simp]:
  "abort_if_cancelling (with_calls k a b c d) op = abort_if_cancelling k op"
  "advance (with_calls k a b c d) op p = advance k op p"
  "finish (with_calls k a b c d) op t e r i = finish k op t e r i"
  "finish_error (with_calls k a b c d) op t code = finish_error k op t code"
  "finish_agent_error (with_calls k a b c d) op raw = finish_agent_error k op raw"
  "finish_lwa_error (with_calls k a b c d) op x = finish_lwa_error k op x"
  by (intro ext, simp add: abort_if_cancelling_def advance_def finish_def finish_error_def
      finish_agent_error_def finish_lwa_error_def Let_def)+

lemma settle_with_calls [simp]: "settle (with_calls k a b c d) op res = settle k op res"
  by (rule ext) (simp add: settle_def cong: sum.case_cong failure.case_cong)

text \<open>An execution whose first check finds the operation being cancelled calls neither the importer
  nor a lifecycle function: its outcome does not depend on them.\<close>

theorem cancelled_before_work:
  assumes "\<And>s. op_status_of (ws_reg (wk_env k W_check s)) (o_operation_id row) = Some Cancelling"
  shows "execute (with_calls k imp upd start handler) row s = execute k row s"
proof -
  let ?k = "with_calls k imp upd start handler" and ?op = "o_operation_id row"
  have ab: "abort_if_cancelling k ?op u = (Inl X_cancelled, wk_env k W_check u)" for u
    using assms by (simp add: abort_if_cancelling_def Let_def)
  have stop: "bind_call (abort_if_cancelling k ?op) f = (\<lambda>u. (Inl X_cancelled, wk_env k W_check u))" for f :: "unit \<Rightarrow> 'x call"
    by (rule ext) (simp add: bind_call_def ab)
  have d: "run_deploy ?k row = run_deploy k row"
    by (simp add: run_deploy_def Let_def stop)
  have "lifecycle_steps ?k row i e = lifecycle_steps k row i e" for i e
    by (simp add: lifecycle_steps_def Let_def stop)
  then have l: "run_lifecycle ?k row = run_lifecycle k row"
    by (simp add: run_lifecycle_def cong: if_cong option.case_cong)
  show ?thesis unfolding execute_def Let_def d l by simp
qed

section \<open>Outcomes\<close>

definition lifecycle_outcome :: "failure + unit \<Rightarrow> op_phase \<Rightarrow> op_status" where
  "lifecycle_outcome res phase = (case res of
     Inr _ \<Rightarrow> Succeeded
   | Inl X_cancelled \<Rightarrow> Cancelled
   | Inl (X_agent None) \<Rightarrow> Failed
   | Inl (X_agent (Some c)) \<Rightarrow> (if c = E_needs_input then Needs_input else Failed)
   | Inl (X_lwa e) \<Rightarrow> fst (lwa_outcome e (Some phase))
   | Inl X_internal \<Rightarrow> Failed)"

lemma bind_Inr: "m s = (Inr a, s') \<Longrightarrow> bind_call m f s = f a s'"
  by (simp add: bind_call_def)

lemma bind_Inl: "m s = (Inl e, s') \<Longrightarrow> bind_call m f s = (Inl e, s')"
  by (simp add: bind_call_def)

lemma lifecycle_run:
  assumes env: "\<And>p u. wk_env k p u = u" and act: "o_action row \<noteq> Deploy"
    and row: "o_target_instance_id row = Some i" "get_revision i (ws_reg s) = Some n" "expected_of row \<in> {None, Some n}"
    and st: "reg_ok (ws_reg s)" "op_status_of (ws_reg s) (o_operation_id row) = Some Running"
    and h: "wk_handler k (o_action row) i (expected_of row) = (\<lambda>u. (res, u\<lparr>ws_reg := g (ws_reg u)\<rparr>))"
    and g: "\<And>r. reg_ok r \<Longrightarrow> reg_ok (g r) \<and> op_status_of (g r) (o_operation_id row) = op_status_of r (o_operation_id row)"
  shows "\<exists>u. run_lifecycle k row s = (res, case res of Inl _ \<Rightarrow> u
        | Inr _ \<Rightarrow> finish k (o_operation_id row) Succeeded None (Some (JObj [(''instanceId'', JStr i),
              (''revision'', json_opt JInt (get_revision i (ws_reg u))),
              (''warnings'', JArr []), (''nextActions'', JArr [])])) None u)
     \<and> reg_ok (ws_reg u) \<and> op_status_of (ws_reg u) (o_operation_id row) = Some Running
     \<and> ws_phase u = Some (if o_action row = Rebuild then Phase_build else Phase_start)"
proof -
  let ?op = "o_operation_id row" and ?p = "if o_action row = Rebuild then Phase_build else Phase_start"
  let ?r1 = "snd (projr (update_agent_operation ?op (wk_now k (W_advance ?p)) [F_phase (Some ?p)] (ws_reg s)))"
  let ?s1 = "s\<lparr>ws_reg := ?r1, ws_phase := Some ?p\<rparr>" and ?u = "s\<lparr>ws_reg := g ?r1, ws_phase := Some ?p\<rparr>"
  have a: "abort_if_cancelling k ?op v = (Inr (), v)" if "op_status_of (ws_reg v) ?op = Some Running" for v
    using that by (simp add: abort_if_cancelling_def Let_def env)
  have adv: "advance k ?op ?p s = (Inr (), ?s1)"
    by (simp add: advance_def Let_def env update_agent_operation_def)
  have r1: "reg_ok ?r1" "op_status_of ?r1 ?op = Some Running"
    using update_op_facts [OF st(1), of "F_phase (Some ?p)" ?op _ ?op] st(2) by simp_all
  have u: "reg_ok (ws_reg ?u)" "op_status_of (ws_reg ?u) ?op = Some Running"
    using g [OF r1(1)] r1(2) by simp_all
  have "lifecycle_steps k row i (expected_of row) s = (res, case res of Inl _ \<Rightarrow> ?u
        | Inr _ \<Rightarrow> finish k ?op Succeeded None (Some (JObj [(''instanceId'', JStr i),
              (''revision'', json_opt JInt (get_revision i (ws_reg ?u))),
              (''warnings'', JArr []), (''nextActions'', JArr [])])) None ?u)"
  proof -
    let ?h = "if o_action row = Deploy then raise_call needs_input
        else wk_handler k (o_action row) i (expected_of row)"
    have ab: "bind_call (abort_if_cancelling k ?op) f v = f () v"
      if "op_status_of (ws_reg v) ?op = Some Running" for v and f :: "unit \<Rightarrow> unit call"
      using a [OF that] by (simp add: bind_call_def)
    have w: "?h ?s1 = (res, ?u)"
      using act by (simp add: h)
    show ?thesis
    proof (cases res)
      case (Inl e)
      show ?thesis unfolding lifecycle_steps_def Let_def ab [OF st(2)]
          bind_Inr [where m = "advance k ?op ?p" and s = s, OF adv]
          bind_Inl [where m = ?h and s = ?s1, OF w [unfolded Inl]] by (simp add: Inl)
    next
      case (Inr x)
      show ?thesis unfolding lifecycle_steps_def Let_def ab [OF st(2)]
          bind_Inr [where m = "advance k ?op ?p" and s = s, OF adv]
          bind_Inr [where m = ?h and s = ?s1, OF w [unfolded Inr]] ab [OF u(2)] by (simp add: Inr)
    qed
  qed
  then have "run_lifecycle k row s = (res, case res of Inl _ \<Rightarrow> ?u
        | Inr _ \<Rightarrow> finish k ?op Succeeded None (Some (JObj [(''instanceId'', JStr i),
              (''revision'', json_opt JInt (get_revision i (ws_reg ?u))),
              (''warnings'', JArr []), (''nextActions'', JArr [])])) None ?u)"
    using row by (auto simp: run_lifecycle_def Let_def)
  with u show ?thesis by (intro exI [of _ ?u]) simp
qed

lemma finish_status:
  assumes "\<And>p u. wk_env k p u = u" "reg_ok (ws_reg s)" "op_status_of (ws_reg s) op = Some Running"
  shows "op_status_of (ws_reg (finish k op t err res target s)) op = Some t"
  using cas_facts [OF assms(2), of op "[Running, Cancelling]" t] assms(1,3) by (simp add: finish_def Let_def)

text \<open>Without interference a lifecycle operation on an instance with the expected revision ends in
  the status that the result of the lifecycle function determines; in particular it fails when the
  function asks for the confirmation of a fallback.\<close>

theorem lifecycle_execution_outcome:
  assumes "\<And>p u. wk_env k p u = u" "o_action row \<noteq> Deploy"
    "o_target_instance_id row = Some i" "get_revision i (ws_reg s) = Some n" "expected_of row \<in> {None, Some n}"
    "reg_ok (ws_reg s)" "op_status_of (ws_reg s) (o_operation_id row) = Some Running"
    "wk_handler k (o_action row) i (expected_of row) = (\<lambda>u. (res, u\<lparr>ws_reg := g (ws_reg u)\<rparr>))"
    "\<And>r. reg_ok r \<Longrightarrow> reg_ok (g r) \<and> op_status_of (g r) (o_operation_id row) = op_status_of r (o_operation_id row)"
  shows "op_status_of (ws_reg (execute k row s)) (o_operation_id row) =
     Some (lifecycle_outcome res (if o_action row = Rebuild then Phase_build else Phase_start))"
proof -
  let ?op = "o_operation_id row" and ?p = "if o_action row = Rebuild then Phase_build else Phase_start"
  let ?s = "s\<lparr>ws_phase := None, ws_inflight := List.insert ?op (ws_inflight s)\<rparr>"
  obtain u js where u: "run_lifecycle k row ?s = (res, case res of Inl _ \<Rightarrow> u
        | Inr _ \<Rightarrow> finish k ?op Succeeded None js None u)"
    "reg_ok (ws_reg u)" "op_status_of (ws_reg u) ?op = Some Running" "ws_phase u = Some ?p"
    using lifecycle_run [OF assms(1-3) _ assms(5) _ _ assms(8,9), of ?s] assms(4,6,7) by auto
  note f = finish_status [OF assms(1) u(2,3)]
  have "op_status_of (ws_reg (settle k ?op res (case res of Inl _ \<Rightarrow> u
        | Inr _ \<Rightarrow> finish k ?op Succeeded None js None u))) ?op = Some (lifecycle_outcome res ?p)"
    using f u(4) by (auto simp: settle_def lifecycle_outcome_def finish_error_def finish_agent_error_def
        finish_lwa_error_def status_for_def case_prod_beta Let_def split: sum.split failure.split option.split)
  with u(1) assms(2) show ?thesis by (simp add: execute_def Let_def)
qed

lemma fold_interrupt:
  assumes "reg_ok r"
  shows "reg_ok (fold (interrupt now \<circ> o_operation_id) rows r)
     \<and> op_status_of (fold (interrupt now \<circ> o_operation_id) rows r) j =
         (if j \<in> o_operation_id ` set rows \<and> op_status_of r j \<in> {Some Running, Some Cancelling}
          then Some Interrupted else op_status_of r j)"
  using assms
proof (induction rows arbitrary: r)
  case (Cons x rows)
  let ?r = "interrupt now (o_operation_id x) r"
  have i: "reg_ok ?r" "op_status_of ?r j = (if j = o_operation_id x
      \<and> op_status_of r j \<in> {Some Running, Some Cancelling} then Some Interrupted else op_status_of r j)"
    using cas_facts [OF Cons.prems, of "o_operation_id x" "[Running, Cancelling]" Interrupted now _ j]
    by (auto simp: interrupt_def)
  then show ?case using Cons.IH [OF i(1)] by auto
qed simp

text \<open>The recovery interrupts exactly the listed operations that this process does not execute, whose
  lease had expired or whose worker process was dead when they were listed, and that are still
  running or being cancelled when it writes; every other operation keeps its status.\<close>

theorem recover_stale_exact:
  assumes "recover_stale env alive now s = (n, s')" "reg_ok (env (ws_reg s))"
  shows "op_status_of (ws_reg s') j =
     (if j \<notin> set (ws_inflight s)
         \<and> (\<exists>x \<in> set (list_agent_operations [Running, Cancelling] 200 (ws_reg s)).
              o_operation_id x = j \<and> stale alive now x)
         \<and> op_status_of (env (ws_reg s)) j \<in> {Some Running, Some Cancelling}
      then Some Interrupted else op_status_of (env (ws_reg s)) j)"
  using assms(1) fold_interrupt [OF assms(2), of now "filter (\<lambda>x. o_operation_id x \<notin> set (ws_inflight s)
      \<and> stale alive now x) (list_agent_operations [Running, Cancelling] 200 (ws_reg s))" j]
  by (auto simp: recover_stale_def Let_def image_iff)

section \<open>Samples\<close>

definition idle_worker :: worker where
  "idle_worker = \<lparr>wk_identity = ''7:w'', wk_lease = (\<lambda>_. ''t6''), wk_now = (\<lambda>_. ''t5''), wk_env = (\<lambda>_ s. s),
     wk_cache = None, wk_has_snapshot = (\<lambda>_. True), wk_pack = None, wk_resolve = (\<lambda>p. p), wk_roots = [],
     wk_tree_hash = ''h'', wk_network = (\<lambda>_. None), wk_import = (\<lambda>_. raise_call X_internal),
     wk_update = (\<lambda>_ _. raise_call X_internal), wk_start = (\<lambda>_. return_call ()),
     wk_rebuild = (\<lambda>_. return_call ()), wk_restart = (\<lambda>_. return_call ()),
     wk_handler = (\<lambda>_ _ _ s. (Inl (X_lwa \<lparr>le_class = C_fallback, le_code = ''x'',
        le_says_cancelled = False\<rparr>), s\<lparr>ws_reg := ws_reg s\<rparr>))\<rparr>"

definition sample_state :: "reg \<Rightarrow> worker_state" where
  "sample_state r = \<lparr>ws_reg = r, ws_manifests = (\<lambda>_. Absent), ws_phase = None, ws_inflight = []\<rparr>"

lemma idle_worker_keeps: "worker_keeps J idle_worker"
  by (simp add: worker_keeps_def call_keeps_def idle_worker_def raise_call_def return_call_def)

text \<open>The sample registry with its first operation as a running start of the sample instance.\<close>

definition running_row :: op_row where
  "running_row = (sample_op ''op-1'' ''t1'')\<lparr>o_status := Running, o_action := Start,
     o_target_instance_id := Some ''my-site'', o_payload := Some (lifecycle_payload Start ''my-site'' 1)\<rparr>"

definition running_reg :: reg where
  "running_reg = upd_op ''op-1'' (\<lambda>_. True) (\<lambda>x. x\<lparr>o_status := Running, o_action := Start,
     o_target_instance_id := Some ''my-site'', o_payload := Some (lifecycle_payload Start ''my-site'' 1)\<rparr>) sample_reg"

lemma reg_ok_running: "reg_ok running_reg"
  unfolding running_reg_def by (rule reg_ok_upd_op [OF reg_ok_sample]) (simp_all add: op_key_def)

theorem claimed_operation_ends_witness:
  "\<exists>row s' t. claim_next idle_worker ''t5'' (sample_state sample_reg) = (Some row, s')
     \<and> o_operation_id row = ''op-1''
     \<and> op_status_of (ws_reg (execute idle_worker row s')) (o_operation_id row) = Some t \<and> terminal t"
proof -
  have "case claim_next idle_worker ''t5'' (sample_state sample_reg) of
      (Some row, s') \<Rightarrow> o_operation_id row = ''op-1'' | _ \<Rightarrow> False" by code_simp
  then obtain row s' where c: "claim_next idle_worker ''t5'' (sample_state sample_reg) = (Some row, s')"
    "o_operation_id row = ''op-1''" by (auto split: prod.splits option.splits)
  have "reg_ok (ws_reg (sample_state sample_reg))" using reg_ok_sample by (simp add: sample_state_def)
  from claimed_operation_ends [OF this c(1) idle_worker_keeps] c show ?thesis by blast
qed


theorem cancelled_before_work_witness:
  "execute (with_calls (idle_worker\<lparr>wk_env := (\<lambda>_ s. s\<lparr>ws_reg := snd (op_cas ''op-1'' [Running] Cancelling running_reg)\<rparr>)\<rparr>)
       (\<lambda>_ s. (Inr ''x'', s)) (\<lambda>_ _. raise_call X_internal) (\<lambda>_. raise_call X_internal) (\<lambda>_ _ _ s. (Inr (), s)))
     running_row (sample_state running_reg)
   = execute (idle_worker\<lparr>wk_env := (\<lambda>_ s. s\<lparr>ws_reg := snd (op_cas ''op-1'' [Running] Cancelling running_reg)\<rparr>)\<rparr>)
     running_row (sample_state running_reg)"
proof (rule cancelled_before_work)
  have "op_status_of (snd (op_cas ''op-1'' [Running] Cancelling running_reg)) ''op-1'' = Some Cancelling"
    by code_simp
  moreover have "o_operation_id running_row = ''op-1''" by (simp add: running_row_def sample_op_def)
  ultimately show "op_status_of (ws_reg (wk_env (idle_worker\<lparr>wk_env := (\<lambda>_ s. s\<lparr>ws_reg :=
      snd (op_cas ''op-1'' [Running] Cancelling running_reg)\<rparr>)\<rparr>) W_check s)) (o_operation_id running_row)
      = Some Cancelling" for s by simp
qed

theorem lifecycle_execution_outcome_witness:
  "op_status_of (ws_reg (execute idle_worker running_row (sample_state running_reg))) ''op-1'' = Some Failed"
proof -
  let ?res = "Inl (X_lwa \<lparr>le_class = C_fallback, le_code = ''x'', le_says_cancelled = False\<rparr>) :: failure + unit"
  have row: "o_operation_id running_row = ''op-1''" "o_action running_row = Start"
    "o_target_instance_id running_row = Some ''my-site''"
    by (simp_all add: running_row_def sample_op_def)
  have rev: "get_revision ''my-site'' (ws_reg (sample_state running_reg)) = Some 1"
    "op_status_of running_reg ''op-1'' = Some Running" by code_simp+
  have ex: "expected_of running_row = Some 1" by code_simp
  have "op_status_of (ws_reg (execute idle_worker running_row (sample_state running_reg))) (o_operation_id running_row)
      = Some (lifecycle_outcome ?res (if o_action running_row = Rebuild then Phase_build else Phase_start))"
    by (rule lifecycle_execution_outcome [where g = "\<lambda>r. r", OF _ _ row(3) rev(1)])
      (simp_all add: row ex rev reg_ok_running idle_worker_def sample_state_def)
  then show ?thesis by (simp add: row lifecycle_outcome_def lwa_outcome_def)
qed

theorem recover_stale_exact_witness:
  "\<exists>n s'. recover_stale (\<lambda>r. r) (\<lambda>_. False) ''t9'' (sample_state running_reg) = (n, s')
     \<and> op_status_of (ws_reg s') ''op-1'' = Some Interrupted \<and> op_status_of (ws_reg s') ''op-2'' = Some Queued"
proof -
  obtain n s' where r: "recover_stale (\<lambda>r. r) (\<lambda>_. False) ''t9'' (sample_state running_reg) = (n, s')" by fastforce
  have ws: "ws_reg (sample_state running_reg) = running_reg" "ws_inflight (sample_state running_reg) = []"
    by (simp_all add: sample_state_def)
  have st: "list_ex (\<lambda>x. o_operation_id x = ''op-1'' \<and> stale (\<lambda>_. False) ''t9'' x)
      (list_agent_operations [Running, Cancelling] 200 running_reg)"
    "op_status_of running_reg ''op-1'' = Some Running" "op_status_of running_reg ''op-2'' = Some Queued"
    by code_simp+
  note e = recover_stale_exact [OF r, unfolded ws, OF reg_ok_running]
  have "op_status_of (ws_reg s') ''op-1'' = Some Interrupted"
    using e [of "''op-1''"] st(1,2) by (auto simp: list_ex_iff)
  moreover have "op_status_of (ws_reg s') ''op-2'' = Some Queued" using e [of "''op-2''"] st(3) by simp
  ultimately show ?thesis using r by blast
qed

end
