(* ===== verification/Artifacts.thy ===== *)
theory Artifacts
  imports Registry_Facts Lwa_Text
begin

text \<open>
  Models \<^verbatim>\<open>rebuild_txn.py\<close> and \<^verbatim>\<open>versions.py\<close>: the snapshots of the generated files that a rebuild
  and a rollback return to, the record of the last good environment file, the image tags, and the
  garbage collection of old builds. A directory is a map from file names to contents; Docker is the
  map from references and image ids to images, and what its commands answer is a parameter.
\<close>

type_synonym file_map = "string \<rightharpoonup> string"

section \<open>Generated files\<close>

definition GENERATED_FILES :: "string list" where
  "GENERATED_FILES = [''compose.yaml'', ''Dockerfile'', ''.env'']"

definition OPTIONAL_GENERATED_FILES :: "string list" where
  "OPTIONAL_GENERATED_FILES = [''lwa_static_wsgi.py'']"

definition ALL_GENERATED_FILES :: "string list" where
  "ALL_GENERATED_FILES = GENERATED_FILES @ OPTIONAL_GENERATED_FILES"

record app_dir =
  ad_files :: file_map
  ad_prev :: "file_map option"
  ad_env_good :: "file_map option"
  ad_builds :: "int \<Rightarrow> file_map option"

text \<open>The two copying loops: into a fresh directory, and back, deleting what the snapshot lacks.\<close>

fun copy_out :: "string list \<Rightarrow> file_map \<Rightarrow> file_map \<Rightarrow> file_map" where
  "copy_out [] src acc = acc"
| "copy_out (n # ns) src acc =
     copy_out ns src (case src n of Some c \<Rightarrow> acc(n \<mapsto> c) | None \<Rightarrow> acc)"

fun copy_back :: "string list \<Rightarrow> file_map \<Rightarrow> file_map \<Rightarrow> file_map" where
  "copy_back [] src dst = dst"
| "copy_back (n # ns) src dst =
     copy_back ns src (case src n of Some c \<Rightarrow> dst(n \<mapsto> c) | None \<Rightarrow> dst(n := None))"

definition save_files :: "string list \<Rightarrow> file_map \<Rightarrow> file_map" where
  "save_files ns d = copy_out ns d Map.empty"

lemma copy_out_at: "copy_out ns src acc n = (if n \<in> set ns \<and> src n \<noteq> None then src n else acc n)"
  by (induction ns arbitrary: acc) (auto split: option.split)

lemma copy_back_at: "copy_back ns src dst n = (if n \<in> set ns then src n else dst n)"
  by (induction ns arbitrary: dst) (auto split: option.split)

lemma save_files_at: "save_files ns d n = (if n \<in> set ns then d n else None)"
  by (auto simp: save_files_def copy_out_at)

interpretation generated: snapshot_store ALL_GENERATED_FILES "save_files ALL_GENERATED_FILES"
    "copy_back ALL_GENERATED_FILES"
  by unfold_locales (simp_all add: save_files_at copy_back_at)

section \<open>The rebuild transaction\<close>

datatype artifact_error = Io_error | Docker_error | No_current_image | Cannot_keep_image | No_env_record

definition rebuild_strategy :: "manifest \<Rightarrow> string" where
  "rebuild_strategy m =
     (case m_container m of None \<Rightarrow> ''build-first''
      | Some c \<Rightarrow> (case c_rebuildStrategy c of
            Some s \<Rightarrow> if s \<in> {''build-first'', ''stop-first''} then s else ''build-first''
          | None \<Rightarrow> ''build-first''))"

definition image_repo :: "container_config \<Rightarrow> string" where
  "image_repo c = c_projectName c @ ''-'' @ c_serviceName c"

text \<open>A failure while copying removes the old snapshot too: a stale one must not be restored.\<close>

definition snapshot_generated :: "bool \<Rightarrow> app_dir \<Rightarrow> (artifact_error + unit) \<times> app_dir" where
  "snapshot_generated io_fails d =
     (if io_fails then (Inl Io_error, d\<lparr>ad_prev := None\<rparr>)
      else (Inr (), d\<lparr>ad_prev := Some (save_files ALL_GENERATED_FILES (ad_files d))\<rparr>))"

definition restore_generated :: "app_dir \<Rightarrow> bool \<times> app_dir" where
  "restore_generated d = (case ad_prev d of
     None \<Rightarrow> (False, d)
   | Some snap \<Rightarrow> (True, d\<lparr>ad_files := copy_back ALL_GENERATED_FILES snap (ad_files d)\<rparr>))"

text \<open>References and ids of Docker, each with the image it stands for. \<^verbatim>\<open>docker tag\<close> points the target
  to the image of the source.\<close>

record docker =
  dk_refs :: "string \<rightharpoonup> string"
  dk_running :: "string option"

definition tag_image :: "bool \<Rightarrow> string \<Rightarrow> string \<Rightarrow> docker \<Rightarrow> (artifact_error + unit) \<times> docker" where
  "tag_image fails source target dk =
     (case (if fails then None else dk_refs dk source) of
        None \<Rightarrow> (Inl Docker_error, dk)
      | Some img \<Rightarrow> (Inr (), dk\<lparr>dk_refs := (dk_refs dk)(target \<mapsto> img)\<rparr>))"

definition prepare_build_first ::
  "string option \<Rightarrow> bool \<Rightarrow> bool \<Rightarrow> container_config option \<Rightarrow> app_dir \<times> docker
     \<Rightarrow> (artifact_error + unit) \<times> app_dir \<times> docker" where
  "prepare_build_first running_id io_fails tag_fails c s =
     (let old = or_else (Option.bind c c_imageId) running_id in
      if \<not> truthy old then (Inl No_current_image, s)
      else (case snapshot_generated io_fails (fst s) of
          (Inl e, d) \<Rightarrow> (Inl e, d, snd s)
        | (Inr _, d) \<Rightarrow>
            (case tag_image tag_fails (the old)
                    ((case c of None \<Rightarrow> [] | Some c \<Rightarrow> image_repo c) @ '':prev'') (snd s) of
               (Inl _, dk) \<Rightarrow> (Inl Cannot_keep_image, d, dk)
             | (Inr _, dk) \<Rightarrow> (Inr (), d, dk))))"

definition restore_previous_image_tag ::
  "bool \<Rightarrow> container_config \<Rightarrow> docker \<Rightarrow> (artifact_error + unit) \<times> docker" where
  "restore_previous_image_tag fails c = tag_image fails (image_repo c @ '':prev'') (image_repo c @ '':latest'')"

section \<open>The last good environment\<close>

definition ENV_LOCAL :: string where "ENV_LOCAL = ''.env.local''"
definition RECORDED :: string where "RECORDED = ''recorded''"

definition save_last_good_env :: "app_dir \<Rightarrow> app_dir" where
  "save_last_good_env d =
     d\<lparr>ad_env_good := Some ((save_files [ENV_LOCAL] (ad_files d))(RECORDED \<mapsto> ''ok''))\<rparr>"

definition good_recorded :: "app_dir \<Rightarrow> bool" where
  "good_recorded d \<longleftrightarrow> (case ad_env_good d of None \<Rightarrow> False | Some g \<Rightarrow> g RECORDED \<noteq> None)"

definition restore_last_good_env :: "app_dir \<Rightarrow> bool \<times> app_dir" where
  "restore_last_good_env d =
     (if \<not> good_recorded d then (False, d)
      else (True, d\<lparr>ad_files := copy_back [ENV_LOCAL] (the (ad_env_good d)) (ad_files d)\<rparr>))"

definition business_env_changed :: "app_dir \<Rightarrow> bool" where
  "business_env_changed d \<longleftrightarrow>
     (let previous = Option.bind (ad_env_good d) (\<lambda>g. g ENV_LOCAL) in ad_files d ENV_LOCAL \<noteq> previous)"

text \<open>\<open>hash_matches\<close> compares the stored fingerprint with the one of the given directory.\<close>

definition ensure_env_rollback_ready ::
  "(file_map \<Rightarrow> bool) \<Rightarrow> bool \<Rightarrow> app_dir \<Rightarrow> (artifact_error + unit) \<times> app_dir" where
  "ensure_env_rollback_ready hash_matches use_previous d =
     (if good_recorded d then (Inr (), d)
      else (let generated = (case ad_prev d of Some p \<Rightarrow> if use_previous then p else ad_files d
                             | None \<Rightarrow> ad_files d);
                references_env = (case generated ''compose.yaml'' of None \<Rightarrow> False
                  | Some text \<Rightarrow> contains ENV_LOCAL text) in
        if hash_matches generated then (Inr (), save_last_good_env d)
        else if ad_files d ENV_LOCAL \<noteq> None \<or> references_env then (Inl No_env_record, d)
        else (Inr (), save_last_good_env d)))"

lemma restore_last_good:
  "ad_files (snd (restore_last_good_env (d'\<lparr>ad_env_good := ad_env_good (save_last_good_env d)\<rparr>)))
     = copy_back [ENV_LOCAL] (save_files [ENV_LOCAL] (ad_files d)) (ad_files d')"
proof -
  have "ENV_LOCAL \<noteq> RECORDED" by (simp add: ENV_LOCAL_def RECORDED_def)
  then show ?thesis
    by (auto simp: restore_last_good_env_def good_recorded_def save_last_good_env_def copy_back_at
        save_files_at)
qed

interpretation env_local: snapshot_store "[ENV_LOCAL]"
    "\<lambda>f. ad_env_good (save_last_good_env \<lparr>ad_files = f, ad_prev = None, ad_env_good = None, ad_builds = (\<lambda>_. None)\<rparr>)"
    "\<lambda>g f. ad_files (snd (restore_last_good_env \<lparr>ad_files = f, ad_prev = None, ad_env_good = g, ad_builds = (\<lambda>_. None)\<rparr>))"
proof (unfold_locales, goal_cases)
  case (1 n d e)
  show ?case using restore_last_good [where d = "\<lparr>ad_files = d, ad_prev = None, ad_env_good = None, ad_builds = (\<lambda>_. None)\<rparr>"
        and d' = "\<lparr>ad_files = e, ad_prev = None, ad_env_good = None, ad_builds = (\<lambda>_. None)\<rparr>"] 1
    by (simp add: copy_back_at save_files_at split: option.split)
next
  case (2 n d e)
  show ?case using restore_last_good [where d = "\<lparr>ad_files = d, ad_prev = None, ad_env_good = None, ad_builds = (\<lambda>_. None)\<rparr>"
        and d' = "\<lparr>ad_files = e, ad_prev = None, ad_env_good = None, ad_builds = (\<lambda>_. None)\<rparr>"] 2
    by (simp add: copy_back_at save_files_at split: option.split)
qed

section \<open>Versions\<close>

datatype image_status = Present | Missing | Unavailable

definition normalize_image_id :: "string option \<Rightarrow> string option" where
  "normalize_image_id v = (if \<not> truthy v then None
     else (let t = removeprefix ''sha256:'' (the v) in if t = [] then None else Some t))"

definition build_image_ref :: "string \<Rightarrow> int \<Rightarrow> string" where
  "build_image_ref repo build_id = repo @ '':b'' @ dec_int build_id"

definition snapshot_config :: "int \<Rightarrow> app_dir \<Rightarrow> app_dir" where
  "snapshot_config b d =
     d\<lparr>ad_builds := (ad_builds d)(b := Some (save_files ALL_GENERATED_FILES (ad_files d)))\<rparr>"

definition is_rollback_candidate :: "build_row \<Rightarrow> bool" where
  "is_rollback_candidate x \<longleftrightarrow> b_status x = ''success'' \<and> truthy (b_image_ref x)"

definition MIGRATION_COMMANDS_FILE :: string where
  "MIGRATION_COMMANDS_FILE = ''migration-commands.txt''"

definition write_migration_archive :: "int \<Rightarrow> string \<Rightarrow> app_dir \<Rightarrow> app_dir" where
  "write_migration_archive b commands d =
     (let snap = (case ad_builds d b of None \<Rightarrow> Map.empty | Some f \<Rightarrow> f) in
      d\<lparr>ad_builds := (ad_builds d)(b := Some (snap(MIGRATION_COMMANDS_FILE \<mapsto> commands)))\<rparr>)"

definition read_migration_archive :: "int \<Rightarrow> app_dir \<Rightarrow> (string \<times> string) option" where
  "read_migration_archive b d =
     (case ad_builds d b of None \<Rightarrow> None
      | Some snap \<Rightarrow> (case snap MIGRATION_COMMANDS_FILE of
            Some t \<Rightarrow> Some (t, ''commands'')
          | None \<Rightarrow> map_option (\<lambda>t. (t, ''dockerfile'')) (snap ''Dockerfile'')))"

definition snapshot_complete :: "int \<Rightarrow> app_dir \<Rightarrow> bool" where
  "snapshot_complete b d \<longleftrightarrow>
     (case ad_builds d b of None \<Rightarrow> False
      | Some snap \<Rightarrow> list_all (\<lambda>n. snap n \<noteq> None) GENERATED_FILES
          \<and> list_all (\<lambda>n. \<not> contains n (the (snap ''Dockerfile'')) \<or> snap n \<noteq> None) OPTIONAL_GENERATED_FILES)"

definition restore_config_snapshot :: "int \<Rightarrow> app_dir \<Rightarrow> bool \<times> app_dir" where
  "restore_config_snapshot b d = (case ad_builds d b of
     None \<Rightarrow> (False, d)
   | Some snap \<Rightarrow> (True, d\<lparr>ad_files := copy_back ALL_GENERATED_FILES snap (ad_files d)\<rparr>))"

section \<open>Garbage collection\<close>

definition in_use_image :: "string option \<Rightarrow> string \<Rightarrow> reg \<Rightarrow> string option" where
  "in_use_image given i r = (case normalize_image_id given of
     Some t \<Rightarrow> Some t
   | None \<Rightarrow> (case get_container i r of None \<Rightarrow> None | Some k \<Rightarrow> normalize_image_id (k_image_id k)))"

definition build_rows :: "string \<Rightarrow> reg \<Rightarrow> build_row list" where
  "build_rows i r = filter (\<lambda>x. truthy (b_image_ref x)) (list_builds (Some i) 500 r)"

definition in_use_build :: "string option \<Rightarrow> build_row list \<Rightarrow> int option" where
  "in_use_build in_use rows = map_option b_id
     (find (\<lambda>x. normalize_image_id (b_image_id x) = in_use) (filter is_rollback_candidate rows))"

definition prev_good_build :: "string option \<Rightarrow> build_row list \<Rightarrow> int option" where
  "prev_good_build in_use rows = map_option b_id
     (find (\<lambda>x. normalize_image_id (b_image_id x) \<noteq> in_use \<and> normalize_image_id (b_image_id x) \<noteq> None)
       (filter is_rollback_candidate rows))"

definition opt_list :: "'a option \<Rightarrow> 'a list" where
  "opt_list v = (case v of None \<Rightarrow> [] | Some x \<Rightarrow> [x])"

definition protected_builds :: "string option \<Rightarrow> build_row list \<Rightarrow> int list" where
  "protected_builds in_use rows = filter (\<lambda>b. b \<noteq> 0)
     (opt_list (in_use_build in_use rows) @ opt_list (prev_good_build in_use rows))"

text \<open>One pass over the rows, newest first. \<open>status\<close> is what Docker answers after the removal.\<close>

record gc_state =
  gc_reg :: reg
  gc_dir :: app_dir
  gc_kept :: "int list"
  gc_removed :: "int list"

definition gc_step ::
  "(string \<Rightarrow> image_status) \<Rightarrow> nat \<Rightarrow> int list \<Rightarrow> build_row \<Rightarrow> gc_state \<Rightarrow> gc_state" where
  "gc_step status retention protected row s =
     (let b = b_id row in
      if length (gc_kept s) < retention \<or> b \<in> set protected
      then s\<lparr>gc_kept := gc_kept s @ [b]\<rparr>
      else s\<lparr>gc_removed := gc_removed s @ [b],
        gc_dir := (gc_dir s)\<lparr>ad_builds := (ad_builds (gc_dir s))(b := None)\<rparr>,
        gc_reg := (if status (the (b_image_ref row)) = Missing
          then commit (clear_build_artifacts b (gc_reg s)) (gc_reg s) else gc_reg s)\<rparr>)"

definition gc_build_artifacts ::
  "(string \<Rightarrow> image_status) \<Rightarrow> int \<Rightarrow> string \<Rightarrow> string option \<Rightarrow> reg \<Rightarrow> app_dir \<Rightarrow> gc_state" where
  "gc_build_artifacts status image_retention i given r d =
     (let retention = nat (max 1 (if image_retention = 0 then 3 else image_retention));
          rows = build_rows i r;
          protected = protected_builds (in_use_image given i r) rows in
      fold (gc_step status retention protected) rows
        \<lparr>gc_reg = r, gc_dir = d, gc_kept = [], gc_removed = []\<rparr>)"

section \<open>Listing versions and references\<close>

definition list_versions :: "(string \<Rightarrow> image_status) \<Rightarrow> string \<Rightarrow> reg \<Rightarrow> (build_row \<times> bool) list" where
  "list_versions status i r = map (\<lambda>x. (x, status (the (b_image_ref x)) = Present))
     (filter (\<lambda>x. truthy (b_image_ref x)) (list_builds (Some i) 100 r))"

text \<open>\<open>rsplit(":", 1)\<close>: everything before the last colon.\<close>

definition repo_of_ref :: "string \<Rightarrow> string option" where
  "repo_of_ref ref =
     (if CHR '':'' \<notin> set ref then None
      else (let repo = rev (drop 1 (dropWhile (\<lambda>c. c \<noteq> CHR '':'') (rev ref))) in
        if repo = [] then None else Some repo))"

definition add_new :: "'a \<Rightarrow> 'a list \<Rightarrow> 'a list" where
  "add_new x xs = (if x \<in> set xs then xs else xs @ [x])"

definition iter_instance_image_refs :: "string \<Rightarrow> manifest option \<Rightarrow> reg \<Rightarrow> string list" where
  "iter_instance_image_refs i m r =
     (let refs = map (\<lambda>x. the (b_image_ref x)) (build_rows i r);
          seen = fold add_new refs [];
          repos = fold add_new (List.map_filter repo_of_ref refs) [];
          k = get_container i r;
          repos2 = (case Option.bind m m_container of
              Some c \<Rightarrow> add_new (image_repo c) repos
            | None \<Rightarrow> (case k of
                None \<Rightarrow> repos
              | Some k \<Rightarrow> if k_compose_project k \<noteq> [] \<and> k_service_name k \<noteq> []
                  then add_new (k_compose_project k @ ''-'' @ k_service_name k) repos else repos));
          tagged = fold (\<lambda>repo xs. add_new (repo @ '':prev'') (add_new (repo @ '':latest'') xs)) repos2 seen in
      (case (m, Option.bind k k_image_id) of
         (None, Some img) \<Rightarrow> if img = [] then tagged else add_new img tagged
       | _ \<Rightarrow> tagged))"

section \<open>What the collection keeps\<close>

lemma gc_fold:
  "gc_kept (fold (gc_step st n prot) rows s) = gc_kept s
      @ map b_id (take (n - length (gc_kept s)) rows)
      @ filter (\<lambda>b. b \<in> set prot) (map b_id (drop (n - length (gc_kept s)) rows))
   \<and> gc_removed (fold (gc_step st n prot) rows s) = gc_removed s
      @ filter (\<lambda>b. b \<notin> set prot) (map b_id (drop (n - length (gc_kept s)) rows))"
proof (induction rows arbitrary: s)
  case (Cons x rows)
  let ?s = "gc_step st n prot x s"
  show ?case
  proof (cases "length (gc_kept s) < n")
    case True
    then obtain m where m: "n - length (gc_kept s) = Suc m" "n - Suc (length (gc_kept s)) = m"
      by (metis Suc_diff_Suc)
    have "gc_kept ?s = gc_kept s @ [b_id x]" "gc_removed ?s = gc_removed s"
      using True by (simp_all add: gc_step_def Let_def)
    with Cons.IH [of ?s] m show ?thesis by simp
  next
    case False
    then have z: "n - length (gc_kept s) = 0" by simp
    show ?thesis
    proof (cases "b_id x \<in> set prot")
      case True
      then have "gc_kept ?s = gc_kept s @ [b_id x]" "gc_removed ?s = gc_removed s"
        by (simp_all add: gc_step_def Let_def)
      with Cons.IH [of ?s] z True False show ?thesis by simp
    next
      case p: False
      then have "gc_kept ?s = gc_kept s" "gc_removed ?s = gc_removed s @ [b_id x]"
        using False by (simp_all add: gc_step_def Let_def)
      with Cons.IH [of ?s] z p show ?thesis by simp
    qed
  qed
qed simp

lemma gc_fold_dir:
  assumes "b \<in> set (gc_removed s) \<Longrightarrow> ad_builds (gc_dir s) b = None"
  shows "ad_builds (gc_dir (fold (gc_step st n prot) rows s)) b =
     (if b \<in> set (gc_removed (fold (gc_step st n prot) rows s)) then None else ad_builds (gc_dir s) b)"
  using assms
proof (induction rows arbitrary: s)
  case (Cons x rows)
  let ?s = "gc_step st n prot x s"
  have d: "ad_builds (gc_dir ?s) b =
      (if b \<in> set (gc_removed ?s) then None else ad_builds (gc_dir s) b)"
    using Cons.prems by (auto simp: gc_step_def Let_def)
  have "set (gc_removed t) \<subseteq> set (gc_removed (fold (gc_step st n prot) rows t))" for t
    using gc_fold [of st n prot rows t] by auto
  then have "set (gc_removed ?s) \<subseteq> set (gc_removed (fold (gc_step st n prot) rows ?s))" .
  with Cons.IH [of ?s] d show ?case by (auto split: if_split_asm)
qed auto

lemma gc_fold_start:
  assumes "s = fold (gc_step st n prot) rows \<lparr>gc_reg = r, gc_dir = d, gc_kept = [], gc_removed = []\<rparr>"
  shows "gc_kept s = take n (map b_id rows) @ filter (\<lambda>b. b \<in> set prot) (drop n (map b_id rows))"
    "gc_removed s = filter (\<lambda>b. b \<notin> set prot) (drop n (map b_id rows))"
    "ad_builds (gc_dir s) = (\<lambda>b. if b \<in> set (gc_removed s) then None else ad_builds d b)"
proof -
  let ?s0 = "\<lparr>gc_reg = r, gc_dir = d, gc_kept = [], gc_removed = []\<rparr>"
  show "gc_kept s = take n (map b_id rows) @ filter (\<lambda>b. b \<in> set prot) (drop n (map b_id rows))"
    "gc_removed s = filter (\<lambda>b. b \<notin> set prot) (drop n (map b_id rows))"
    using gc_fold [of st n prot rows ?s0] by (simp_all add: assms take_map drop_map)
  show "ad_builds (gc_dir s) = (\<lambda>b. if b \<in> set (gc_removed s) then None else ad_builds d b)"
    by (rule ext) (use gc_fold_dir [where s = ?s0] in \<open>simp add: assms\<close>)
qed

lemma length_protected: "length (protected_builds in_use rows) \<le> 2"
proof -
  have "length (opt_list x) \<le> 1" for x :: "int option" by (cases x) (simp_all add: opt_list_def)
  then have "length (opt_list (in_use_build in_use rows) @ opt_list (prev_good_build in_use rows)) \<le> 2"
    by (metis add_mono length_append one_add_one)
  then show ?thesis unfolding protected_builds_def by (meson le_trans length_filter_le)
qed


definition sample_build :: "int \<Rightarrow> build_row" where
  "sample_build n = \<lparr>b_id = n, b_instance_id = ''my-site'', b_status = ''success'', b_started_at = None,
     b_finished_at = None, b_log_path = None, b_error_summary = None,
     b_image_ref = Some (build_image_ref ''lwa-my-site'' n), b_image_id = Some (dec_int n),
     b_source_hash = None, b_config_snapshot = None\<rparr>"

definition builds_reg :: reg where
  "builds_reg = sample_reg\<lparr>builds := map sample_build [1, 2, 3, 4], next_build_id := 5\<rparr>"

definition no_files :: app_dir where
  "no_files = \<lparr>ad_files = Map.empty, ad_prev = None, ad_env_good = None, ad_builds = (\<lambda>_. None)\<rparr>"

lemma reg_ok_builds_reg: "reg_ok builds_reg"
proof -
  have "known_instance sample_reg ''my-site''" by code_simp
  moreover have "known_instance builds_reg = known_instance sample_reg"
    by (rule known_instance_cong) (simp add: builds_reg_def)
  ultimately show ?thesis using reg_ok_sample
    by (simp add: reg_ok_def) (simp add: builds_reg_def sample_build_def pk_ok_def)
qed


end
