(* ===== verification/Logs.thy ===== *)
theory Logs
  imports Lwa_Text
begin

text \<open>
  Models \<^verbatim>\<open>logs.py\<close>: the log categories, reading the tail of a log backwards in blocks, listing
  and rotating. A file is the text of its bytes (the decoding of ASCII is the identity); a log
  directory maps file names to files. The rotation lock and races with other writers are not
  modelled.
\<close>

section \<open>Lines\<close>

text \<open>Python's \<open>str.splitlines\<close>: a carriage return and line feed are one break, and no empty line
  follows the last break.\<close>

definition is_break :: "char \<Rightarrow> bool" where
  "is_break c \<longleftrightarrow> (let n = of_char c :: nat in
     (10 \<le> n \<and> n \<le> 13) \<or> (28 \<le> n \<and> n \<le> 30) \<or> n = 133)"

abbreviation LF :: char where "LF \<equiv> char_of (10 :: nat)"
abbreviation CR :: char where "CR \<equiv> char_of (13 :: nat)"

definition cons_line :: "char \<Rightarrow> string list \<Rightarrow> string list" where
  "cons_line c ls = (case ls of [] \<Rightarrow> [[c]] | w # ws \<Rightarrow> (c # w) # ws)"

fun splitlines :: "string \<Rightarrow> string list" where
  "splitlines [] = []"
| "splitlines [c] = (if is_break c then [[]] else [[c]])"
| "splitlines (c # d # s) =
     (if c = CR \<and> d = LF then [] # splitlines s
      else if is_break c then [] # splitlines (d # s)
      else cons_line c (splitlines (d # s)))"

definition last_n :: "nat \<Rightarrow> 'a list \<Rightarrow> 'a list" where
  "last_n n xs = drop (length xs - n) xs"

lemma breaks [simp]: "is_break LF" "is_break CR" "LF \<noteq> CR" "CR \<noteq> LF"
  by (code_simp, code_simp, code_simp, code_simp)

lemma length_cons_line: "length (cons_line c ls) = max 1 (length ls)"
  by (cases ls) (simp_all add: cons_line_def)

lemma splitlines_nonempty: "s \<noteq> [] \<Longrightarrow> splitlines s \<noteq> []"
  by (induction s rule: splitlines.induct) (auto simp: cons_line_def split: list.splits)

lemma count_breaks: "count_list s LF \<le> length (splitlines s)"
  by (induction s rule: splitlines.induct) (auto simp: length_cons_line)

text \<open>Putting a text before another one changes at most the first of its lines.\<close>

lemma splitlines_Cons: "\<exists>us. us \<noteq> [] \<and> splitlines (c # s) = us @ tl (splitlines s)"
proof (cases s)
  case (Cons d t)
  have "splitlines s \<noteq> []" using Cons splitlines_nonempty by blast
  then obtain w ws where w: "splitlines s = w # ws" by (cases "splitlines s") auto
  show ?thesis
  proof (cases "c = CR \<and> d = LF")
    case True
    have "splitlines s = [] # splitlines t"
      using Cons True by (cases t) auto
    with True Cons show ?thesis by (intro exI [of _ "[[]]"]) simp
  next
    case False
    show ?thesis
    proof (cases "is_break c")
      case True
      with False Cons w show ?thesis by (intro exI [of _ "[[], w]"]) auto
    next
      case nb: False
      with False Cons w show ?thesis by (intro exI [of _ "[c # w]"]) (auto simp: cons_line_def)
    qed
  qed
qed simp

lemma splitlines_prefix: "\<exists>us. splitlines (pre @ s) = us @ tl (splitlines s)"
proof (cases "s = []")
  case False
  have "\<exists>us. us \<noteq> [] \<and> splitlines (pre @ s) = us @ tl (splitlines s)"
  proof (induction pre)
    case Nil
    have "splitlines s = [hd (splitlines s)] @ tl (splitlines s)"
      using splitlines_nonempty [OF False] by simp
    then show ?case by (metis append_Nil not_Cons_self2)
  next
    case (Cons c pre)
    then obtain us where us: "us \<noteq> []" "splitlines (pre @ s) = us @ tl (splitlines s)" by blast
    obtain vs where vs: "vs \<noteq> []" "splitlines ((c # pre) @ s) = vs @ tl (splitlines (pre @ s))"
      using splitlines_Cons [of c "pre @ s"] by auto
    with us show ?case by (intro exI [of _ "vs @ tl us"]) simp
  qed
  then show ?thesis by blast
qed simp

lemma last_n_append: "n \<le> length ys \<Longrightarrow> last_n n (xs @ ys) = last_n n ys"
  by (simp add: last_n_def)

lemma last_lines_suffix:
  assumes "n < length (splitlines s)"
  shows "last_n n (splitlines (pre @ s)) = last_n n (splitlines s)"
proof -
  obtain us where us: "splitlines (pre @ s) = us @ tl (splitlines s)" using splitlines_prefix by blast
  have n: "n \<le> length (tl (splitlines s))" using assms by simp
  have "splitlines s = [hd (splitlines s)] @ tl (splitlines s)"
    using assms by (cases "splitlines s") auto
  then have "last_n n (splitlines s) = last_n n (tl (splitlines s))"
    using last_n_append [OF n, of "[hd (splitlines s)]"] by simp
  with us last_n_append [OF n, of us] show ?thesis by simp
qed

section \<open>The tail of a log\<close>

definition LOG_CATEGORIES :: "string list" where
  "LOG_CATEGORIES = [''build'', ''run'', ''gateway'', ''import'', ''scan'']"

definition DEFAULT_TAIL :: nat where "DEFAULT_TAIL = 200"
definition TAIL_CHUNK :: nat where "TAIL_CHUNK = 8192"

definition valid_category :: "string \<Rightarrow> bool" where
  "valid_category c \<longleftrightarrow> c \<in> set LOG_CATEGORIES"

lemma TAIL_CHUNK_pos [simp]: "0 < TAIL_CHUNK"
  by (simp add: TAIL_CHUNK_def)

text \<open>The loop reads blocks from the end until it has seen more than \<open>n\<close> line feeds.\<close>

function read_back :: "nat \<Rightarrow> string \<Rightarrow> nat \<Rightarrow> nat \<Rightarrow> string \<Rightarrow> string" where
  "read_back n content pos newlines chunks =
     (if pos > 0 \<and> newlines \<le> n
      then (let step = min TAIL_CHUNK pos; pos' = pos - step;
                block = take step (drop pos' content) in
            read_back n content pos' (newlines + count_list block LF) (block @ chunks))
      else chunks)"
  by auto
termination
  by (relation "measure (\<lambda>(n, content, pos, newlines, chunks). pos)") (auto simp: Let_def)

declare read_back.simps [simp del]

definition tail_text_file :: "string option \<Rightarrow> nat \<Rightarrow> string" where
  "tail_text_file f n =
     (case f of
        None \<Rightarrow> []
      | Some content \<Rightarrow>
          if n = 0 then content
          else if content = [] then []
          else join_on LF (last_n n (splitlines (read_back n content (length content) 0 []))))"

text \<open>What it is meant to compute: the last lines of the whole text.\<close>

definition last_lines :: "nat \<Rightarrow> string \<Rightarrow> string" where
  "last_lines n content = join_on LF (last_n n (splitlines content))"

lemma count_list_append: "count_list (xs @ ys) x = count_list xs x + count_list ys x"
  by (induction xs) auto

lemma read_back_suffix:
  assumes "content = take pos content @ chunks" "newlines = count_list chunks LF" "pos \<le> length content"
  shows "\<exists>pre. content = pre @ read_back n content pos newlines chunks
     \<and> (pre = [] \<or> n < count_list (read_back n content pos newlines chunks) LF)"
  using assms
proof (induction n content pos newlines chunks rule: read_back.induct)
  case (1 n content pos newlines chunks)
  show ?case
  proof (cases "pos > 0 \<and> newlines \<le> n")
    case True
    let ?step = "min TAIL_CHUNK pos"
    let ?pos = "pos - ?step"
    let ?block = "take ?step (drop ?pos content)"
    have "take pos content = take ?pos content @ ?block"
      by (metis diff_le_self le_add_diff_inverse2 min.cobounded2 take_add)
    then have "content = take ?pos content @ ?block @ chunks" using 1(2) by (metis append.assoc)
    moreover have "newlines + count_list ?block LF = count_list (?block @ chunks) LF"
      using 1(3) by (simp add: count_list_append)
    moreover have "?pos \<le> length content" using 1(4) by simp
    ultimately have "\<exists>pre. content = pre @ read_back n content ?pos (newlines + count_list ?block LF) (?block @ chunks)
        \<and> (pre = [] \<or> n < count_list (read_back n content ?pos (newlines + count_list ?block LF) (?block @ chunks)) LF)"
      using 1(1) [OF True refl refl refl] by blast
    then show ?thesis using True by (subst (1 2) read_back.simps) (simp add: Let_def)
  next
    case False
    then have r: "read_back n content pos newlines chunks = chunks" by (subst read_back.simps) auto
    show ?thesis unfolding r
      by (rule exI [of _ "take pos content"]) (use 1(2,3) False in auto)
  qed
qed

text \<open>Reading a log backwards in blocks gives the same text as splitting the whole file into lines
  and joining the last \<open>n\<close>; zero lines means the whole text and a missing file is empty.\<close>

theorem tail_text_file_eq:
  "tail_text_file f n = (case f of None \<Rightarrow> [] | Some content \<Rightarrow>
     if n = 0 then content else last_lines n content)"
proof (cases f)
  case (Some content)
  show ?thesis
  proof (cases "n = 0 \<or> content = []")
    case True
    with Some show ?thesis by (auto simp: tail_text_file_def last_lines_def last_n_def)
  next
    case False
    let ?data = "read_back n content (length content) 0 []"
    obtain pre where pre: "content = pre @ ?data" "pre = [] \<or> n < count_list ?data LF"
      using read_back_suffix [of content "length content" "[]" 0 n] by auto
    have "last_n n (splitlines content) = last_n n (splitlines ?data)"
    proof (cases "pre = []")
      case True
      with pre(1) show ?thesis by simp
    next
      case False
      then have "n < length (splitlines ?data)" using pre(2) count_breaks [of ?data] by simp
      from last_lines_suffix [OF this, of pre] pre(1) show ?thesis by simp
    qed
    with False Some show ?thesis by (simp add: tail_text_file_def last_lines_def)
  qed
qed (simp add: tail_text_file_def)

section \<open>Rotation\<close>

text \<open>The files of one category: number 0 is the current log, number \<open>i\<close> is \<open>.log.i\<close>. Renaming a
  file replaces the target. The lock may not be had in time; then nothing happens.\<close>

type_synonym log_files = "nat \<rightharpoonup> string"

definition DEFAULT_MAX_BYTES :: nat where "DEFAULT_MAX_BYTES = 10 * 1024 * 1024"
definition DEFAULT_KEEP :: nat where "DEFAULT_KEEP = 3"

definition rename_log :: "nat \<Rightarrow> nat \<Rightarrow> log_files \<Rightarrow> log_files" where
  "rename_log a b f = (if f a = None then f else (f(b := f a))(a := None))"

fun shift_logs :: "nat \<Rightarrow> log_files \<Rightarrow> log_files" where
  "shift_logs 0 f = f"
| "shift_logs (Suc i) f = shift_logs i (rename_log (Suc i) (Suc (Suc i)) f)"

definition rotate_path_locked :: "nat \<Rightarrow> nat \<Rightarrow> log_files \<Rightarrow> bool \<times> log_files" where
  "rotate_path_locked max_bytes keep f =
     (case f 0 of
        None \<Rightarrow> (False, f)
      | Some t \<Rightarrow>
          if length t \<le> max_bytes then (False, f)
          else (True, rename_log 0 1 (shift_logs (keep - 1) (f(keep := None)))))"

definition rotate_path :: "bool \<Rightarrow> nat \<Rightarrow> int \<Rightarrow> log_files \<Rightarrow> bool \<times> log_files" where
  "rotate_path locked max_bytes keep f =
     (if locked then rotate_path_locked max_bytes (nat (if keep < 1 then 1 else keep)) f else (False, f))"

text \<open>A log directory: the categories that have a current log in the order of their names, and the
  files of each. Only known categories may be rotated.\<close>

fun rotate_all ::
  "(string \<Rightarrow> bool) \<Rightarrow> nat \<Rightarrow> int \<Rightarrow> string list \<Rightarrow> (string \<Rightarrow> log_files) \<Rightarrow> (string + string list) \<times> (string \<Rightarrow> log_files)" where
  "rotate_all locked max_bytes keep [] d = (Inr [], d)"
| "rotate_all locked max_bytes keep (c # cs) d =
     (if \<not> valid_category c then (Inl c, d)
      else (let (hit, f) = rotate_path (locked c) max_bytes keep (d c);
                (res, d') = rotate_all locked max_bytes keep cs (d(c := f)) in
        (case res of Inl e \<Rightarrow> Inl e | Inr rs \<Rightarrow> Inr (if hit then c # rs else rs), d')))"

lemma shift_logs_at:
  "f (Suc n) = None \<Longrightarrow> shift_logs n f i =
     (if i = 0 then f 0 else if i = 1 then (if n = 0 then f 1 else None)
      else if i \<le> Suc n then f (i - 1) else f i)"
  by (induction n arbitrary: f) (auto simp: rename_log_def not_less_eq_eq le_Suc_eq numeral_2_eq_2)

lemma rotate_path_locked_at:
  "1 \<le> keep \<Longrightarrow> f 0 = Some t \<Longrightarrow> max_bytes < length t \<Longrightarrow>
     fst (rotate_path_locked max_bytes keep f) \<and>
     snd (rotate_path_locked max_bytes keep f) i =
       (if i = 0 then None else if i \<le> keep then f (i - 1) else f i)"
  by (cases keep) (auto simp: rotate_path_locked_def rename_log_def shift_logs_at)

end
