(* ===== verification/Rollback.thy ===== *)
theory Rollback
  imports Artifacts Logs
begin

text \<open>
  Models \<^verbatim>\<open>rollback.py\<close>: choosing the build to return to, the check for database migrations, and
  the rollback with its compensation. The lock around it is held, so nothing interferes; Docker
  (stopping, starting, inspecting) and the verification of the running container are parameters.
\<close>

section \<open>Migrations\<close>

definition MIGRATION_KEYWORDS :: "string list" where
  "MIGRATION_KEYWORDS = [''alembic'', ''migrate'', ''prisma'']"

definition text_has_migration :: "string \<Rightarrow> bool" where
  "text_has_migration t \<longleftrightarrow> t \<noteq> [] \<and> list_ex (\<lambda>w. contains w (to_lower t)) MIGRATION_KEYWORDS"

definition nonempty :: "string option \<Rightarrow> string list" where
  "nonempty v = (case v of None \<Rightarrow> [] | Some t \<Rightarrow> if t = [] then [] else [t])"

definition migration_commands_blob :: "manifest \<Rightarrow> string" where
  "migration_commands_blob m = join_on LF
     (nonempty (e_start (m_entry m)) @ nonempty (m_preStart m) @ filter (\<lambda>h. h \<noteq> []) (m_buildHooks m))"

definition prestart_has_migration :: "manifest \<Rightarrow> bool" where
  "prestart_has_migration m = text_has_migration (migration_commands_blob m)"

text \<open>The lines of CMD, RUN and ENTRYPOINT with their continuations.\<close>

fun command_lines :: "bool \<Rightarrow> string list \<Rightarrow> string list" where
  "command_lines capturing [] = []"
| "command_lines capturing (raw # ls) =
     (let line = strip raw; more = ends_with [CHR 0x5C] line in
      if line = [] \<or> starts_with ''#'' line then command_lines False ls
      else if list_ex (\<lambda>p. starts_with p (to_upper line)) [''CMD '', ''RUN '', ''ENTRYPOINT '']
      then line # command_lines more ls
      else if capturing then line # command_lines more ls
      else command_lines False ls)"

definition dockerfile_command_text :: "string \<Rightarrow> string" where
  "dockerfile_command_text t = join_on LF (command_lines False (splitlines t))"

definition target_version_has_migration :: "app_dir \<Rightarrow> int \<Rightarrow> bool" where
  "target_version_has_migration d b =
     (case read_migration_archive b d of
        None \<Rightarrow> False
      | Some (text, source) \<Rightarrow>
          if source = ''dockerfile'' then text_has_migration (dockerfile_command_text text)
          else text_has_migration text
            \<or> (case Option.bind (ad_builds d b) (\<lambda>f. f ''Dockerfile'') of None \<Rightarrow> False
               | Some t \<Rightarrow> text_has_migration (dockerfile_command_text t)))"

definition rollback_needs_confirmation :: "manifest option \<Rightarrow> app_dir \<Rightarrow> int \<Rightarrow> bool" where
  "rollback_needs_confirmation m d b \<longleftrightarrow>
     (case m of None \<Rightarrow> False | Some m \<Rightarrow> prestart_has_migration m) \<or> target_version_has_migration d b"

section \<open>The target\<close>

definition eligible :: "(string \<Rightarrow> image_status) \<Rightarrow> app_dir \<Rightarrow> build_row \<Rightarrow> bool" where
  "eligible status d x \<longleftrightarrow> is_rollback_candidate x \<and> snapshot_complete (b_id x) d
     \<and> status (the (b_image_ref x)) = Present"

definition select_rollback_target ::
  "(string \<Rightarrow> image_status) \<Rightarrow> app_dir \<Rightarrow> string \<Rightarrow> int option \<Rightarrow> string option \<Rightarrow> reg \<Rightarrow> build_row option" where
  "select_rollback_target status d i exclude_build exclude_image r =
     (let in_use = normalize_image_id exclude_image in
      find (\<lambda>x. Some (b_id x) \<noteq> exclude_build
          \<and> \<not> (in_use \<noteq> None \<and> normalize_image_id (b_image_id x) = in_use)
          \<and> eligible status d x) (list_builds (Some i) 100 r))"

datatype target_error = No_such_build | Archive_collected | Not_successful | Snapshot_missing | Image_missing

definition validate_target ::
  "(string \<Rightarrow> image_status) \<Rightarrow> app_dir \<Rightarrow> string \<Rightarrow> int \<Rightarrow> reg \<Rightarrow> target_error + build_row" where
  "validate_target status d i b r =
     (case find (\<lambda>x. b_id x = b) (list_builds (Some i) 200 r) of
        None \<Rightarrow> Inl No_such_build
      | Some x \<Rightarrow>
          if \<not> is_rollback_candidate x
          then Inl (if b_status x = ''success'' then Archive_collected else Not_successful)
          else if \<not> snapshot_complete b d then Inl Snapshot_missing
          else if status (the (b_image_ref x)) \<noteq> Present then Inl Image_missing
          else Inr x)"

section \<open>Generated files\<close>

definition read_generated :: "app_dir \<Rightarrow> file_map" where
  "read_generated d = save_files ALL_GENERATED_FILES (ad_files d)"

definition write_generated :: "file_map \<Rightarrow> app_dir \<Rightarrow> app_dir" where
  "write_generated data d = d\<lparr>ad_files := copy_back ALL_GENERATED_FILES data (ad_files d)\<rparr>"

definition generated_matches :: "app_dir \<Rightarrow> file_map \<Rightarrow> bool" where
  "generated_matches d data \<longleftrightarrow> list_all (\<lambda>n. ad_files d n = data n) ALL_GENERATED_FILES"

text \<open>The regular expression replaces every line that starts with \<open>HOST_PORT=\<close>.\<close>

definition strip_newlines :: "string \<Rightarrow> string" where
  "strip_newlines t = rev (dropWhile (\<lambda>c. c = LF) (rev t))"

definition align_restored_host_port :: "int option \<Rightarrow> file_map \<Rightarrow> file_map" where
  "align_restored_host_port host_port f =
     (case host_port of None \<Rightarrow> f
      | Some p \<Rightarrow>
          (let line = ''HOST_PORT='' @ dec_int p in
           case f ''.env'' of
             None \<Rightarrow> f(''.env'' \<mapsto> line @ [LF])
           | Some text \<Rightarrow>
               (let ls = split_on LF text; mine = starts_with ''HOST_PORT='' in
                if list_ex mine ls
                then f(''.env'' \<mapsto> join_on LF (map (\<lambda>l. if mine l then line else l) ls))
                else f(''.env'' \<mapsto> strip_newlines text @ LF # line @ [LF]))))"

section \<open>The rollback\<close>

record rb_ctx =
  rx_now :: string
  rx_source :: string
  rx_available :: bool
  rx_status :: "string \<Rightarrow> image_status"
  rx_op_source :: "string option"
  rx_running :: "docker \<Rightarrow> bool option"
  rx_down :: "docker \<Rightarrow> bool \<times> docker"
  rx_up :: "docker \<Rightarrow> bool \<times> docker"
  rx_tag_fails :: "string \<Rightarrow> bool"
  rx_verify :: "docker \<Rightarrow> bool option"
  rx_container_id :: "docker \<Rightarrow> string option"
  rx_image_id :: "docker \<Rightarrow> string option"
  rx_write_fails :: bool
  rx_fingerprints :: "app_dir \<Rightarrow> manifest \<Rightarrow> (string \<times> json) list option"

record rb =
  rb_dir :: app_dir
  rb_docker :: docker
  rb_reg :: reg
  rb_manifest :: manifest

datatype rb_error =
    Docker_unavailable | Not_a_container | Nothing_to_roll_back | Bad_target target_error
  | Needs_yes | Wrong_revision | Not_stopped
  | Rolled_back_failed bool "string list"
  | Revision_moved | Registry_failed reg_error

definition upd_container :: "(container_config \<Rightarrow> container_config) \<Rightarrow> manifest \<Rightarrow> manifest" where
  "upd_container f m = m\<lparr>m_container := map_option f (m_container m)\<rparr>"

text \<open>\<open>_record\<close>: the operation goes to the registry and, with the error, to the manifest, which is
  written to disk.\<close>

definition record_operation ::
  "rb_ctx \<Rightarrow> string \<Rightarrow> int \<Rightarrow> string \<Rightarrow> string option \<Rightarrow> manifest \<Rightarrow> rb \<Rightarrow> manifest \<times> rb" where
  "record_operation x i target status err m s =
     (let error = Option.bind err (\<lambda>e. if e = [] then None else Some (take 500 e));
          operation = JObj ([(''kind'', JStr ''rollback''), (''status'', JStr status),
              (''toBuildId'', JInt target), (''startedAt'', JStr (rx_now x)),
              (''finishedAt'', JStr (rx_now x)), (''source'', JStr (rx_source x))]
            @ (case error of None \<Rightarrow> [] | Some e \<Rightarrow> [(''error'', JStr e)]));
          m' = m\<lparr>m_lastOperation := Some operation,
            m_lastError := (if error = None then m_lastError m else error)\<rparr> in
      (m', s\<lparr>rb_reg := commit (update_last_operation i (Some operation) (rx_now x) (rb_reg s)) (rb_reg s),
         rb_manifest := m'\<rparr>))"

text \<open>\<open>stop_or_abort\<close>: the state must be known, and the stopping must succeed unless nothing runs.
  The second component is the world after the attempt.\<close>

definition stop_or_abort ::
  "('d \<Rightarrow> bool option) \<Rightarrow> ('d \<Rightarrow> bool \<times> 'd) \<Rightarrow> bool \<Rightarrow> 'd \<Rightarrow> bool \<times> 'd" where
  "stop_or_abort running halt only_if_running d =
     (case running d of
        None \<Rightarrow> (False, d)
      | Some r \<Rightarrow> if only_if_running \<and> \<not> r then (True, d) else halt d)"

datatype attempt = Attempt_ok | Attempt_not_stopped | Attempt_failed string

definition attempt_rollback ::
  "rb_ctx \<Rightarrow> container_config \<Rightarrow> build_row \<Rightarrow> rb \<Rightarrow> attempt \<times> rb" where
  "attempt_rollback x c target s =
     (case stop_or_abort (rx_running x) (rx_down x) True (rb_docker s) of
        (False, dk) \<Rightarrow> (Attempt_not_stopped, s\<lparr>rb_docker := dk\<rparr>)
      | (True, dk) \<Rightarrow>
          (case restore_config_snapshot (b_id target) (rb_dir s) of
             (False, d) \<Rightarrow> (Attempt_failed ''snapshot'', s\<lparr>rb_docker := dk\<rparr>)
           | (True, d) \<Rightarrow>
               (let s1 = s\<lparr>rb_docker := dk, rb_dir := d\<lparr>ad_files :=
                      align_restored_host_port (c_hostPort c) (ad_files d)\<rparr>\<rparr>;
                    ref = the (b_image_ref target) in
                case tag_image (rx_tag_fails x ref) ref (image_repo c @ '':latest'') dk of
                  (Inl _, dk1) \<Rightarrow> (Attempt_failed ''tag'', s1\<lparr>rb_docker := dk1\<rparr>)
                | (Inr _, dk1) \<Rightarrow>
                    (case rx_up x dk1 of
                       (False, dk2) \<Rightarrow> (Attempt_failed ''up'', s1\<lparr>rb_docker := dk2\<rparr>)
                     | (True, dk2) \<Rightarrow>
                         (case rx_verify x dk2 of
                            Some True \<Rightarrow> (Attempt_ok, s1\<lparr>rb_docker := dk2\<rparr>)
                          | _ \<Rightarrow> (Attempt_failed ''verification'', s1\<lparr>rb_docker := dk2\<rparr>))))))"

text \<open>The compensation: old files, old image, start again, verify. Every step that fails leaves a
  residual; only when all are confirmed the old version counts as restored.\<close>

definition compensate_files :: "rb_ctx \<Rightarrow> file_map \<Rightarrow> app_dir \<Rightarrow> bool \<times> string list \<times> app_dir" where
  "compensate_files x current d =
     (if rx_write_fails x then (False, [''files''], d)
      else (let d' = write_generated current d; ok = generated_matches d' current in
        (ok, (if ok then [] else [''files differ'']), d')))"

definition compensate_image ::
  "rb_ctx \<Rightarrow> container_config \<Rightarrow> string option \<Rightarrow> docker \<Rightarrow> bool \<times> string list \<times> docker" where
  "compensate_image x c img dk =
     (if \<not> truthy img then (False, [''no image''], dk)
      else (case tag_image (rx_tag_fails x (the img)) (the img) (image_repo c @ '':latest'') dk of
          (Inl _, dk') \<Rightarrow> (False, [''image''], dk')
        | (Inr _, dk') \<Rightarrow> (True, [], dk')))"

definition compensate ::
  "rb_ctx \<Rightarrow> container_config \<Rightarrow> file_map \<Rightarrow> string option \<Rightarrow> manifest \<Rightarrow> rb
     \<Rightarrow> bool \<times> string list \<times> manifest \<times> rb" where
  "compensate x c current img m s =
     (let (files_ok, res1, d) = compensate_files x current (rb_dir s);
          (image_ok, res2, dk1) = compensate_image x c img (snd (rx_down x (rb_docker s)));
          (up_ok, dk2) = rx_up x dk1;
          s' = s\<lparr>rb_dir := d, rb_docker := dk2\<rparr> in
      if up_ok
      then (let observed = rx_image_id x dk2;
                recovered = (rx_verify x dk2 = Some True);
                res3 = (if rx_verify x dk2 = None then [''verify''] else []);
                original = normalize_image_id img;
                matches = (original \<noteq> None \<and> normalize_image_id observed = original);
                restored = (recovered \<and> files_ok \<and> image_ok \<and> matches);
                res4 = (if \<not> recovered then [''not recovered'']
                        else if \<not> image_ok then (if res2 = [] then [''image not tagged''] else [])
                        else if \<not> matches then [''other image''] else []);
                m' = (if restored
                      then upd_container (\<lambda>k. k\<lparr>
                          c_containerId := or_else (rx_container_id x dk2) (c_containerId k),
                          c_imageId := or_else observed (c_imageId k)\<rparr>)
                        (m\<lparr>m_status := RUNNING, m_desiredState := DESIRED_RUNNING\<rparr>)
                      else upd_container (\<lambda>k. k\<lparr>c_containerId := None\<rparr>)
                        (m\<lparr>m_status := FAILED, m_desiredState := DESIRED_RUNNING\<rparr>)) in
            (restored, res1 @ res2 @ res3 @ res4, m', s'))
      else (False, res1 @ res2 @ [''up''],
        upd_container (\<lambda>k. k\<lparr>c_containerId := None\<rparr>)
          (m\<lparr>m_status := FAILED, m_desiredState := DESIRED_RUNNING\<rparr>), s'))"

definition fail_rollback ::
  "rb_ctx \<Rightarrow> string \<Rightarrow> container_config \<Rightarrow> build_row \<Rightarrow> file_map \<Rightarrow> string option \<Rightarrow> string \<Rightarrow> manifest \<Rightarrow> rb
     \<Rightarrow> (rb_error + manifest) \<times> rb" where
  "fail_rollback x i c target current img reason m s =
     (let (restored, residual, m1, s1) = compensate x c current img m s;
          r1 = (if residual = [] then rb_reg s1 else commit (add_event (Some i) ''rollback_failed''
                 ''residual'' (rx_op_source x) (rx_now x) (rb_reg s1)) (rb_reg s1));
          (m2, s2) = record_operation x i (b_id target) ''failed'' (Some reason) m1 (s1\<lparr>rb_reg := r1\<rparr>);
          r2 = (case upsert_from_manifest m2 None None (rb_reg s2) of
              Inl _ \<Rightarrow> rb_reg s2
            | Inr (_, r) \<Rightarrow> commit (update_status i (status_value (m_status m2))
                (no_update\<lparr>su_desired_state := Some ''running''\<rparr>) (rx_now x) r) r) in
      (Inl (Rolled_back_failed restored residual), s2\<lparr>rb_reg := r2\<rparr>))"

text \<open>After a verified start: the container the new image runs in goes to the manifest, with the
  fingerprints of the files now on disk; then the registry learns the start, the operation, the
  event and, against the revision seen at the beginning, the next revision.\<close>

definition running_manifest :: "rb_ctx \<Rightarrow> build_row \<Rightarrow> manifest \<Rightarrow> rb \<Rightarrow> manifest" where
  "running_manifest x target m s =
     (let dk = rb_docker s;
          m1 = (upd_container (\<lambda>k. k\<lparr>
                  c_containerId := or_else (rx_container_id x dk) (c_containerId k),
                  c_imageId := (if truthy (rx_image_id x dk) then rx_image_id x dk else b_image_id target)\<rparr>) m)
               \<lparr>m_status := RUNNING, m_desiredState := DESIRED_RUNNING, m_lastError := None\<rparr>;
          fps = (case rx_fingerprints x (rb_dir s) m1 of
              Some f \<Rightarrow> f
            | None \<Rightarrow> (case m_deploymentFingerprints m1 of None \<Rightarrow> [] | Some f \<Rightarrow> f)) in
      touch (rx_now x) (m1\<lparr>m_deploymentFingerprints :=
        Some ((''rollbackBuildId'', JInt (b_id target)) # filter (\<lambda>e. fst e \<noteq> ''rollbackBuildId'') fps)\<rparr>))"

definition close_rollback ::
  "rb_ctx \<Rightarrow> string \<Rightarrow> int option \<Rightarrow> manifest \<Rightarrow> rb \<Rightarrow> (rb_error + manifest) \<times> rb" where
  "close_rollback x i observed_revision m s =
     (case add_event (Some i) ''rollback'' ''rolled back'' (rx_op_source x) (rx_now x) (rb_reg s) of
        Inl e \<Rightarrow> (Inl (Registry_failed e), s)
      | Inr (_, r4) \<Rightarrow>
          (case observed_revision of
             None \<Rightarrow> (Inr m, s\<lparr>rb_reg := r4\<rparr>)
           | Some v \<Rightarrow>
               (case cas_increment_revision i v (rx_now x) r4 of
                  Inl (Revision_conflict a b) \<Rightarrow> (Inl Revision_moved, s\<lparr>rb_reg := r4\<rparr>)
                | Inl e \<Rightarrow> (Inl (Registry_failed e), s\<lparr>rb_reg := r4\<rparr>)
                | Inr (_, r5) \<Rightarrow> (Inr m, s\<lparr>rb_reg := r5\<rparr>))))"

definition finish_rollback ::
  "rb_ctx \<Rightarrow> string \<Rightarrow> build_row \<Rightarrow> int option \<Rightarrow> manifest \<Rightarrow> rb \<Rightarrow> (rb_error + manifest) \<times> rb" where
  "finish_rollback x i target observed_revision m s =
     (let m2 = running_manifest x target m s;
          s1 = s\<lparr>rb_manifest := m2\<rparr> in
      case upsert_from_manifest m2 None None (rb_reg s1) of
        Inl e \<Rightarrow> (Inl (Registry_failed e), s1)
      | Inr (_, r1) \<Rightarrow>
          (let r2 = commit (update_status i ''running'' (no_update\<lparr>su_desired_state := Some ''running'',
                 su_clear_last_error := True\<rparr>) (rx_now x) r1) r1;
               r3 = commit (record_started i (rx_now x) (rx_now x) r2) r2;
               (m3, s2) = record_operation x i (b_id target) ''succeeded'' None m2 (s1\<lparr>rb_reg := r3\<rparr>) in
           close_rollback x i observed_revision m3 s2))"

definition choose_target ::
  "rb_ctx \<Rightarrow> string \<Rightarrow> container_config \<Rightarrow> int option \<Rightarrow> rb \<Rightarrow> rb_error + build_row" where
  "choose_target x i c to_build s =
     (case to_build of
        None \<Rightarrow>
          (let in_use = or_else (Option.bind (get_container i (rb_reg s)) k_image_id) (c_imageId c) in
           case select_rollback_target (rx_status x) (rb_dir s) i None in_use (rb_reg s) of
             None \<Rightarrow> Inl Nothing_to_roll_back
           | Some row \<Rightarrow> Inr row)
      | Some b \<Rightarrow>
          (case validate_target (rx_status x) (rb_dir s) i b (rb_reg s) of
             Inl e \<Rightarrow> Inl (Bad_target e)
           | Inr row \<Rightarrow> Inr row))"

definition rollback_instance ::
  "rb_ctx \<Rightarrow> string \<Rightarrow> int option \<Rightarrow> bool \<Rightarrow> int option \<Rightarrow> rb \<Rightarrow> (rb_error + manifest) \<times> rb" where
  "rollback_instance x i to_build yes expected s =
     (if \<not> rx_available x then (Inl Docker_unavailable, s)
      else (let m = rb_manifest s in
        case (if m_runtime m \<noteq> DOCKER_COMPOSE then None else m_container m) of
          None \<Rightarrow> (Inl Not_a_container, s)
        | Some c \<Rightarrow>
            (case choose_target x i c to_build s of
               Inl e \<Rightarrow> (Inl e, s)
             | Inr target \<Rightarrow>
                 if rollback_needs_confirmation (Some m) (rb_dir s) (b_id target) \<and> \<not> yes
                 then (Inl Needs_yes, s)
                 else if expected \<noteq> None \<and> get_revision i (rb_reg s) \<noteq> expected
                 then (Inl Wrong_revision, s)
                 else (let observed = get_revision i (rb_reg s);
                           current = read_generated (rb_dir s);
                           img = or_else (c_imageId c) (rx_image_id x (rb_docker s)) in
                   case attempt_rollback x c target s of
                     (Attempt_not_stopped, s1) \<Rightarrow>
                       (Inl Not_stopped, snd (record_operation x i (b_id target) ''failed'' (Some ''stop'') m s1))
                   | (Attempt_failed reason, s1) \<Rightarrow> fail_rollback x i c target current img reason m s1
                   | (Attempt_ok, s1) \<Rightarrow> finish_rollback x i target observed m s1))))"

section \<open>What a rollback guarantees\<close>

lemma choose_target_eligible:
  assumes "choose_target x i c to_build s = Inr target"
  shows "eligible (rx_status x) (rb_dir s) target"
proof (cases to_build)
  case None
  then show ?thesis using assms
    by (auto simp: choose_target_def select_rollback_target_def Let_def find_Some_iff split: option.splits)
next
  case (Some b)
  then show ?thesis using assms
    by (auto simp: choose_target_def validate_target_def eligible_def find_Some_iff
        split: option.splits sum.splits if_split_asm)
qed

lemma align_other: "n \<noteq> ''.env'' \<Longrightarrow> align_restored_host_port p f n = f n"
  by (auto simp: align_restored_host_port_def Let_def split: option.split)

lemma attempt_dir:
  assumes "attempt_rollback x c target s = (a, s1)"
  shows "rb_reg s1 = rb_reg s \<and> rb_manifest s1 = rb_manifest s
     \<and> (\<forall>n. n \<notin> set ALL_GENERATED_FILES \<longrightarrow> ad_files (rb_dir s1) n = ad_files (rb_dir s) n)
     \<and> (a = Attempt_not_stopped \<longrightarrow> rb_dir s1 = rb_dir s)
     \<and> (a = Attempt_ok \<longrightarrow> rx_verify x (rb_docker s1) = Some True
         \<and> (\<exists>snap. ad_builds (rb_dir s) (b_id target) = Some snap
             \<and> ad_files (rb_dir s1) = align_restored_host_port (c_hostPort c)
                 (copy_back ALL_GENERATED_FILES snap (ad_files (rb_dir s)))))"
proof -
  have "''.env'' \<in> set ALL_GENERATED_FILES"
    by (simp add: ALL_GENERATED_FILES_def GENERATED_FILES_def)
  then have al: "align_restored_host_port p (copy_back ALL_GENERATED_FILES snap f) n = f n"
    if "n \<notin> set ALL_GENERATED_FILES" for p snap f n
    using that by (subst align_other) (auto simp: copy_back_at)
  show ?thesis
    using assms al by (auto simp: attempt_rollback_def restore_config_snapshot_def Let_def
        split: prod.splits bool.splits option.splits sum.splits)
qed

lemma compensate_outcome:
  assumes "compensate x c (read_generated d) img m s = (restored, residual, m', s')"
    "\<And>n. n \<notin> set ALL_GENERATED_FILES \<Longrightarrow> ad_files (rb_dir s) n = ad_files d n"
  shows "rb_reg s' = rb_reg s \<and> rb_manifest s' = rb_manifest s
     \<and> m_status m' = (if restored then RUNNING else FAILED)
     \<and> (if restored then ad_files (rb_dir s') = ad_files d \<and> residual = []
          \<and> rx_verify x (rb_docker s') = Some True \<and> normalize_image_id img \<noteq> None
          \<and> normalize_image_id (rx_image_id x (rb_docker s')) = normalize_image_id img
        else residual \<noteq> [])"
proof -
  obtain files_ok res1 d1 where f: "compensate_files x (read_generated d) (rb_dir s) = (files_ok, res1, d1)"
    by (metis prod_cases3)
  obtain image_ok res2 dk1 where g: "compensate_image x c img (snd (rx_down x (rb_docker s))) = (image_ok, res2, dk1)"
    by (metis prod_cases3)
  obtain up_ok dk2 where u: "rx_up x dk1 = (up_ok, dk2)" by fastforce
  have files: "files_ok \<Longrightarrow> ad_files d1 = ad_files d \<and> res1 = []" "\<not> files_ok \<Longrightarrow> res1 \<noteq> []"
    using f generated.restore_undoes [of "ad_files (rb_dir s)" "ad_files d"] assms(2)
    by (auto simp: compensate_files_def write_generated_def read_generated_def Let_def split: if_split_asm)
  have image_res: "image_ok \<longleftrightarrow> res2 = []"
    using g by (auto simp: compensate_image_def split: if_split_asm sum.splits prod.splits)
  have st: "m_status (upd_container h n) = m_status n" for h n by (simp add: upd_container_def)
  define recovered where "recovered \<longleftrightarrow> rx_verify x dk2 = Some True"
  define matches where "matches \<longleftrightarrow> normalize_image_id img \<noteq> None
     \<and> normalize_image_id (rx_image_id x dk2) = normalize_image_id img"
  define whole where "whole \<longleftrightarrow> recovered \<and> files_ok \<and> image_ok \<and> matches"
  have s': "s' = s\<lparr>rb_dir := d1, rb_docker := dk2\<rparr>"
    using assms(1) unfolding compensate_def f g by (auto simp: u Let_def split: if_split_asm)
  have res: "restored = (up_ok \<and> whole)"
    using assms(1) unfolding compensate_def f g
    by (auto simp: u Let_def whole_def recovered_def matches_def split: if_split_asm)
  have status: "m_status m' = (if restored then RUNNING else FAILED)"
    using assms(1) unfolding compensate_def f g by (auto simp: u Let_def st split: if_split_asm)
  have left: "residual = (if up_ok then res1 @ res2 @ (if rx_verify x dk2 = None then [''verify''] else [])
       @ (if \<not> recovered then [''not recovered'']
          else if \<not> image_ok then (if res2 = [] then [''image not tagged''] else [])
          else if \<not> matches then [''other image''] else [])
     else res1 @ res2 @ [''up''])"
  proof -
    have "residual = fst (snd (compensate x c (read_generated d) img m s))"
      by (simp only: assms(1) fst_conv snd_conv)
    then show ?thesis
      unfolding compensate_def f g by (simp add: u Let_def recovered_def matches_def)
  qed
  have "residual = [] \<longleftrightarrow> restored"
    using files image_res by (auto simp: left res whole_def recovered_def)
  moreover have "restored \<Longrightarrow> ad_files d1 = ad_files d" using files by (simp add: res whole_def)
  ultimately show ?thesis
    using status by (simp add: s') (simp add: res whole_def recovered_def matches_def)
qed

lemma record_operation_facts:
  "record_operation x i target status err m s = (m', s') \<Longrightarrow>
     rb_dir s' = rb_dir s \<and> rb_docker s' = rb_docker s \<and> rb_manifest s' = m' \<and> m_status m' = m_status m"
  by (auto simp: record_operation_def Let_def)

lemma fail_rollback_outcome:
  assumes "fail_rollback x i c target (read_generated d) img reason m s = (res, s')"
    "\<And>n. n \<notin> set ALL_GENERATED_FILES \<Longrightarrow> ad_files (rb_dir s) n = ad_files d n"
  shows "\<exists>restored residual. res = Inl (Rolled_back_failed restored residual)
     \<and> m_status (rb_manifest s') = (if restored then RUNNING else FAILED)
     \<and> (if restored then ad_files (rb_dir s') = ad_files d \<and> residual = []
          \<and> rx_verify x (rb_docker s') = Some True \<and> normalize_image_id img \<noteq> None
          \<and> normalize_image_id (rx_image_id x (rb_docker s')) = normalize_image_id img
        else residual \<noteq> [])"
proof -
  obtain restored residual m1 s1 where c: "compensate x c (read_generated d) img m s = (restored, residual, m1, s1)"
    by (metis prod_cases4)
  let ?r1 = "if residual = [] then rb_reg s1 else commit (add_event (Some i) ''rollback_failed''
                 ''residual'' (rx_op_source x) (rx_now x) (rb_reg s1)) (rb_reg s1)"
  obtain m2 s2 where rec: "record_operation x i (b_id target) ''failed'' (Some reason) m1 (s1\<lparr>rb_reg := ?r1\<rparr>) = (m2, s2)"
    by fastforce
  from assms(1) c rec have "res = Inl (Rolled_back_failed restored residual)"
    "rb_dir s' = rb_dir s2" "rb_docker s' = rb_docker s2" "rb_manifest s' = rb_manifest s2"
    by (auto simp: fail_rollback_def Let_def)
  with record_operation_facts [OF rec] compensate_outcome [OF c assms(2)] show ?thesis by auto
qed

lemma close_rollback_outcome:
  "close_rollback x i observed m s = (res, s') \<Longrightarrow> rb_dir s' = rb_dir s \<and> rb_docker s' = rb_docker s
     \<and> rb_manifest s' = rb_manifest s
     \<and> (case res of Inr m' \<Rightarrow> m' = m | Inl e \<Rightarrow> e = Revision_moved \<or> (\<exists>r. e = Registry_failed r))"
  by (auto simp: close_rollback_def split: sum.splits prod.splits option.splits reg_error.splits)

lemma finish_rollback_outcome:
  assumes "finish_rollback x i target observed m s = (res, s')"
  shows "rb_dir s' = rb_dir s \<and> rb_docker s' = rb_docker s
     \<and> (case res of Inr m' \<Rightarrow> rb_manifest s' = m' \<and> m_status m' = RUNNING
          | Inl e \<Rightarrow> e = Revision_moved \<or> (\<exists>r. e = Registry_failed r))"
proof -
  define m2 where "m2 = running_manifest x target m s"
  have st: "m_status m2 = RUNNING" by (simp add: m2_def running_manifest_def Let_def touch_def)
  show ?thesis
  proof (cases "upsert_from_manifest m2 None None (rb_reg s)")
    case (Inl e)
    then show ?thesis using assms by (auto simp: finish_rollback_def m2_def)
  next
    case (Inr p)
    obtain r3 m3 s2 where rec: "record_operation x i (b_id target) ''succeeded'' None m2
        (s\<lparr>rb_manifest := m2, rb_reg := r3\<rparr>) = (m3, s2)"
      and res: "close_rollback x i observed m3 s2 = (res, s')"
      using assms Inr by (cases p) (auto simp: finish_rollback_def m2_def Let_def split: prod.splits)
    from record_operation_facts [OF rec] close_rollback_outcome [OF res] st show ?thesis
      by (auto split: sum.splits)
  qed
qed

lemma rollback_run:
  assumes "rollback_instance x i to_build yes expected s = (res, s')"
  obtains (early) e where "res = Inl e" "rb_dir s' = rb_dir s" "\<forall>b l. e \<noteq> Rolled_back_failed b l"
  | (failed) c target reason s1 where "m_container (rb_manifest s) = Some c"
      "attempt_rollback x c target s = (Attempt_failed reason, s1)"
      "fail_rollback x i c target (read_generated (rb_dir s)) (or_else (c_imageId c) (rx_image_id x (rb_docker s)))
         reason (rb_manifest s) s1 = (res, s')"
  | (up) c target s1 where "m_container (rb_manifest s) = Some c" "eligible (rx_status x) (rb_dir s) target"
      "attempt_rollback x c target s = (Attempt_ok, s1)"
      "finish_rollback x i target (get_revision i (rb_reg s)) (rb_manifest s) s1 = (res, s')"
proof (cases "\<not> rx_available x \<or> m_runtime (rb_manifest s) \<noteq> DOCKER_COMPOSE \<or> m_container (rb_manifest s) = None")
  case True
  then have "rollback_instance x i to_build yes expected s
      = (Inl (if rx_available x then Not_a_container else Docker_unavailable), s)"
    by (auto simp: rollback_instance_def Let_def)
  with assms show ?thesis by (auto intro!: early split: if_split_asm)
next
  case False
  then obtain c where c: "m_container (rb_manifest s) = Some c" by auto
  show ?thesis
  proof (cases "choose_target x i c to_build s")
    case (Inl e)
    then have "\<forall>b l. e \<noteq> Rolled_back_failed b l"
      by (auto simp: choose_target_def Let_def split: option.splits sum.splits)
    with assms False c Inl show ?thesis by (auto simp: rollback_instance_def Let_def intro!: early)
  next
    case (Inr target)
    obtain a s1 where a: "attempt_rollback x c target s = (a, s1)" by fastforce
    show ?thesis
    proof (cases a)
      case Attempt_ok
      then show ?thesis using assms False c Inr a choose_target_eligible [OF Inr]
        by (auto simp: rollback_instance_def Let_def split: if_split_asm intro: early up)
    next
      case Attempt_not_stopped
      then have "rb_dir s' = rb_dir s" "\<exists>e. res = Inl e \<and> (\<forall>b l. e \<noteq> Rolled_back_failed b l)"
        using assms False c Inr a attempt_dir [OF a]
        by (auto simp: rollback_instance_def record_operation_def Let_def split: if_split_asm)
      then show ?thesis by (auto intro: early)
    next
      case (Attempt_failed reason)
      then show ?thesis using assms False c Inr a
        by (auto simp: rollback_instance_def Let_def split: if_split_asm intro: early failed)
    qed
  qed
qed

text \<open>C24: A rollback ends in one of three ways. It succeeds: the files are those of the chosen
  complete snapshot (with the current host port), the new container was verified, and the manifest
  says running. The attempt failed and the old version came back: the files are the ones before the
  call, the verified container runs the image that ran before, and there is nothing left over; or it
  did not come back, then the manifest says failed and a residual names what is wrong. Any other
  error leaves the generated files untouched, except that the registry refuses the final record.\<close>

theorem rollback_outcome:
  "case rollback_instance x i to_build yes expected s of
     (Inr m', s') \<Rightarrow>
       (\<exists>c target snap. m_container (rb_manifest s) = Some c \<and> eligible (rx_status x) (rb_dir s) target
          \<and> ad_builds (rb_dir s) (b_id target) = Some snap
          \<and> ad_files (rb_dir s') = align_restored_host_port (c_hostPort c)
              (copy_back ALL_GENERATED_FILES snap (ad_files (rb_dir s))))
       \<and> rx_verify x (rb_docker s') = Some True \<and> m_status m' = RUNNING \<and> rb_manifest s' = m'
   | (Inl (Rolled_back_failed restored residual), s') \<Rightarrow>
       (if restored
        then ad_files (rb_dir s') = ad_files (rb_dir s) \<and> residual = []
          \<and> rx_verify x (rb_docker s') = Some True \<and> m_status (rb_manifest s') = RUNNING
          \<and> (\<exists>c img. m_container (rb_manifest s) = Some c
              \<and> img = normalize_image_id (or_else (c_imageId c) (rx_image_id x (rb_docker s))) \<and> img \<noteq> None
              \<and> normalize_image_id (rx_image_id x (rb_docker s')) = img)
        else residual \<noteq> [] \<and> m_status (rb_manifest s') = FAILED)
   | (Inl e, s') \<Rightarrow> e = Revision_moved \<or> (\<exists>r. e = Registry_failed r) \<or> rb_dir s' = rb_dir s"
proof -
  obtain res s' where r: "rollback_instance x i to_build yes expected s = (res, s')" by fastforce
  from r show ?thesis
  proof (cases rule: rollback_run)
    case (early e)
    then show ?thesis by (cases e) (auto simp: r)
  next
    case (failed c target reason s1)
    then show ?thesis
      using attempt_dir [OF failed(2)] fail_rollback_outcome [OF failed(3)] by (auto simp: r)
  next
    case (up c target s1)
    then show ?thesis
      using attempt_dir [OF up(3)] finish_rollback_outcome [OF up(4)]
      by (cases res) (fastforce simp: r)+
  qed
qed

end
