(* ===== verification/Container_Deploy.thy ===== *)
theory Container_Deploy
  imports Rollback Ports
begin

text \<open>
  Models the container deployment of \<^verbatim>\<open>hosting.py\<close>: \<open>host_container\<close> with its stages, the two
  orders (stop first, build first), the handlers of a failure and of a cancellation, and the
  compensation that returns to the old version. The instance lock is held. Docker, the probes, the
  generators of the files and the data rescue are parameters; so is the disk at the three places
  where writing the manifest may fail. The writes inside the handlers and the registry writes are
  taken to succeed. Texts of errors are short labels.
\<close>

section \<open>State\<close>

datatype build_answer = Built | Build_failed | Build_stopped

record verification =
  ve_failed :: bool
  ve_degraded :: bool
  ve_liveness :: bool

record derived_paths =
  dp_app :: string
  dp_compose :: string
  dp_dockerfile :: string
  dp_gateway :: string

datatype write_point = W_identity | W_verifying | W_final | W_baseline

record deploy_ctx =
  dx_now :: string
  dx_op_source :: "string option"
  dx_config :: config
  dx_available :: bool
  dx_hooks_ok :: bool
  dx_identity_ok :: bool
  dx_env_hash :: "file_map \<Rightarrow> bool"
  dx_running :: "docker \<Rightarrow> bool option"
  dx_down :: "docker \<Rightarrow> bool \<times> docker"
  dx_up :: "docker \<Rightarrow> bool \<times> docker"
  dx_build :: "docker \<Rightarrow> build_answer \<times> docker"
  dx_container_id :: "docker \<Rightarrow> string option"
  dx_image_id :: "docker \<Rightarrow> string option"
  dx_built_image :: "docker \<Rightarrow> string option"
  dx_tag_fails :: "string \<Rightarrow> bool"
  dx_snapshot_fails :: bool
  dx_archive_fails :: bool
  dx_rm_fails :: bool
  dx_snapshot_path :: "int \<Rightarrow> string"
  dx_rescue_ok :: "docker \<Rightarrow> bool"
  dx_dockerfile :: "manifest \<Rightarrow> file_map \<Rightarrow> file_map option"
  dx_compose :: "manifest \<Rightarrow> int \<Rightarrow> file_map \<Rightarrow> file_map option"
  dx_listening :: "int \<Rightarrow> bool"
  dx_port_env :: "int \<Rightarrow> reg \<Rightarrow> reg"
  dx_http_ok :: "docker \<Rightarrow> bool"
  dx_verify :: "docker \<Rightarrow> verification option"
  dx_fingerprints :: "app_dir \<Rightarrow> manifest \<Rightarrow> (string \<times> json) list option"
  dx_source_hash :: "string option"
  dx_build_log :: string
  dx_paths :: derived_paths
  dx_status_after :: "string \<Rightarrow> image_status"
  dx_retention :: int
  dx_write_fails :: "write_point \<Rightarrow> bool"

text \<open>\<open>_ContainerDeploy\<close>: the flags of one deployment, beside the worlds it changes. The manifest in
  memory and the one on disk differ while a deployment runs.\<close>

record cd =
  cd_dir :: app_dir
  cd_docker :: docker
  cd_reg :: reg
  cd_mem :: manifest
  cd_disk :: manifest
  cd_build :: int
  cd_kind :: string
  cd_txn :: bool
  cd_port :: int
  cd_fresh :: bool
  cd_old_stopped :: bool
  cd_stop_aborted :: bool
  cd_up_completed :: bool
  cd_settled :: bool
  cd_verified :: verification

datatype deploy_exn =
    X_cancelled
  | X_error string
  | X_restored string
  | X_residual string "string list"

type_synonym stage = "cd \<Rightarrow> (deploy_exn + unit) \<times> cd"

definition after :: "stage \<Rightarrow> stage \<Rightarrow> stage" where
  "after f g s = (case f s of (Inl e, s') \<Rightarrow> (Inl e, s') | (Inr _, s') \<Rightarrow> g s')"

fun run_stages :: "stage list \<Rightarrow> stage" where
  "run_stages [] s = (Inr (), s)"
| "run_stages (f # fs) s = after f (run_stages fs) s"

definition cd_id :: "cd \<Rightarrow> string" where "cd_id s = m_id (cd_mem s)"

definition cd_repo :: "cd \<Rightarrow> string" where
  "cd_repo s = (case m_container (cd_mem s) of None \<Rightarrow> [] | Some c \<Rightarrow> image_repo c)"

text \<open>A registry write; what it raises is swallowed or cannot happen for a registered instance.\<close>

definition write_reg :: "(reg \<Rightarrow> reg_error + 'a \<times> reg) \<Rightarrow> cd \<Rightarrow> cd" where
  "write_reg f s = s\<lparr>cd_reg := commit (f (cd_reg s)) (cd_reg s)\<rparr>"

definition save_manifest :: "deploy_ctx \<Rightarrow> write_point \<Rightarrow> stage" where
  "save_manifest x p s =
     (if dx_write_fails x p then (Inl (X_error ''save''), s) else (Inr (), s\<lparr>cd_disk := cd_mem s\<rparr>))"

definition record_stage :: "deploy_ctx \<Rightarrow> string \<Rightarrow> stage" where
  "record_stage x name s = (Inr (), write_reg
     (add_event (Some (cd_id s)) ''lifecycle_stage'' (''stage='' @ name) (dx_op_source x) (dx_now x)) s)"

definition operation_json :: "deploy_ctx \<Rightarrow> bool \<Rightarrow> bool \<Rightarrow> string \<Rightarrow> string option \<Rightarrow> cd \<Rightarrow> json" where
  "operation_json x started finished status err s = JObj
     ([(''kind'', JStr (cd_kind s)), (''status'', JStr status), (''buildId'', JInt (cd_build s))]
      @ (if started then [(''startedAt'', JStr (dx_now x))] else [])
      @ (if finished then [(''finishedAt'', JStr (dx_now x))] else [])
      @ (case err of None \<Rightarrow> [] | Some e \<Rightarrow> [(''error'', JStr (take 500 e))])
      @ [(''source'', JStr ''host_container'')])"

definition refresh_paths :: "derived_paths \<Rightarrow> manifest \<Rightarrow> manifest" where
  "refresh_paths p m = m\<lparr>m_appPath := Some (dp_app p),
     m_container := map_option (\<lambda>c. c\<lparr>c_composePath := dp_compose p, c_dockerfilePath := dp_dockerfile p\<rparr>)
       (m_container m),
     m_static := map_option (\<lambda>c. c\<lparr>s_gatewayConfigPath := Some (dp_gateway p)\<rparr>) (m_static m)\<rparr>"

section \<open>Stages\<close>

text \<open>\<open>_build_first_applies\<close> and the choice of the order.\<close>

definition build_first_applies :: "deploy_ctx \<Rightarrow> manifest \<Rightarrow> string \<Rightarrow> docker \<Rightarrow> bool" where
  "build_first_applies x m kind dk \<longleftrightarrow>
     kind = ''rebuild'' \<and> rebuild_strategy m = ''build-first'' \<and> dx_running x dk = Some True"

definition choose_order :: "deploy_ctx \<Rightarrow> manifest \<Rightarrow> string \<Rightarrow> app_dir \<Rightarrow> docker \<Rightarrow> bool option" where
  "choose_order x m kind d dk =
     (if build_first_applies x m kind dk then Some True
      else if kind = ''rebuild'' \<and> rebuild_strategy m = ''stop-first'' \<and> business_env_changed d
      then dx_running x dk
      else Some False)"

definition clear_container_identity :: "deploy_ctx \<Rightarrow> stage" where
  "clear_container_identity x s = save_manifest x W_identity (s\<lparr>cd_mem := touch (dx_now x)
     (upd_container (\<lambda>k. k\<lparr>c_containerId := None, c_imageId := None\<rparr>) (cd_mem s))\<rparr>)"

definition rescue_data :: "deploy_ctx \<Rightarrow> stage" where
  "rescue_data x s = (if dx_rescue_ok x (cd_docker s) then (Inr (), s) else (Inl (X_error ''rescue''), s))"

definition stop_old :: "deploy_ctx \<Rightarrow> stage" where
  "stop_old x s = (case stop_or_abort (dx_running x) (dx_down x) True (cd_docker s) of
     (False, dk) \<Rightarrow> (Inl (X_error ''stop''), s\<lparr>cd_docker := dk, cd_stop_aborted := True\<rparr>)
   | (True, dk) \<Rightarrow> (Inr (), s\<lparr>cd_docker := dk\<rparr>))"

definition prepare_previous_container :: "deploy_ctx \<Rightarrow> stage" where
  "prepare_previous_container x s =
     (if cd_txn s
      then (case prepare_build_first (dx_image_id x (cd_docker s)) (dx_snapshot_fails x)
               (dx_tag_fails x (cd_repo s @ '':prev'')) (m_container (cd_mem s)) (cd_dir s, cd_docker s) of
          (Inl _, d, dk) \<Rightarrow> (Inl (X_error ''prepare''), s\<lparr>cd_dir := d, cd_docker := dk\<rparr>)
        | (Inr _, d, dk) \<Rightarrow> (Inr (), s\<lparr>cd_dir := d, cd_docker := dk\<rparr>))
      else run_stages [rescue_data x, stop_old x, clear_container_identity x] s)"

text \<open>\<open>_ensure_container_port\<close>: the registered port again, if it may be, else a new one.\<close>

definition fresh_port :: "deploy_ctx \<Rightarrow> string \<Rightarrow> reg \<Rightarrow> (port_error + int \<times> bool) \<times> reg" where
  "fresh_port x i r =
     (case allocate (dx_listening x) (dx_port_env x) (dx_config x) i None True (dx_now x) (release_instance i r) of
        (Inl e, r') \<Rightarrow> (Inl e, r')
      | (Inr p, r') \<Rightarrow> (Inr (p, True), r'))"

definition ensure_container_port ::
  "deploy_ctx \<Rightarrow> string \<Rightarrow> bool \<Rightarrow> reg \<Rightarrow> (port_error + int \<times> bool) \<times> reg" where
  "ensure_container_port x i allow_listening r =
     (case Option.bind (get_container i r) k_host_port of
        None \<Rightarrow> fresh_port x i r
      | Some p \<Rightarrow>
          if p \<noteq> 0 \<and> (allow_listening \<or> \<not> dx_listening x p)
          then (case allocate_port i p (dx_now x) r of
              Inl e \<Rightarrow> (Inl (Ports.Registry_failed e), r)
            | Inr (True, r') \<Rightarrow> (Inr (p, False), r')
            | Inr (False, r') \<Rightarrow> fresh_port x i r')
          else fresh_port x i r)"

definition put_files :: "file_map \<Rightarrow> cd \<Rightarrow> cd" where
  "put_files f s = s\<lparr>cd_dir := (cd_dir s)\<lparr>ad_files := f\<rparr>\<rparr>"

definition render_dockerfile :: "deploy_ctx \<Rightarrow> stage" where
  "render_dockerfile x s = (case dx_dockerfile x (cd_mem s) (ad_files (cd_dir s)) of
     None \<Rightarrow> (Inl (X_error ''dockerfile''), s) | Some f \<Rightarrow> (Inr (), put_files f s))"

definition choose_port :: "deploy_ctx \<Rightarrow> stage" where
  "choose_port x s = (case ensure_container_port x (cd_id s) (cd_txn s) (cd_reg s) of
     (Inl _, r) \<Rightarrow> (Inl (X_error ''port''), s\<lparr>cd_reg := r\<rparr>)
   | (Inr (p, fresh), r) \<Rightarrow> (Inr (), s\<lparr>cd_reg := r, cd_port := p, cd_fresh := fresh\<rparr>))"

definition render_compose :: "deploy_ctx \<Rightarrow> stage" where
  "render_compose x s = (case dx_compose x (cd_mem s) (cd_port s) (ad_files (cd_dir s)) of
     None \<Rightarrow> (Inl (X_error ''compose''), s) | Some f \<Rightarrow> (Inr (), put_files f s))"

definition render_container_artifacts :: "deploy_ctx \<Rightarrow> stage" where
  "render_container_artifacts x = run_stages [render_dockerfile x, record_stage x ''dockerfile_ready'',
     choose_port x, render_compose x, record_stage x ''compose_ready'']"

text \<open>\<open>DockerRuntime.build\<close> ends the row of the build in every case.\<close>

definition runtime_build :: "deploy_ctx \<Rightarrow> stage" where
  "runtime_build x s =
     (let end_build = (\<lambda>status err s. write_reg (finish_build (cd_build s) status err (dx_now x)) s);
          note = (\<lambda>kind s. write_reg (add_event (Some (cd_id s)) kind ''image build'' (dx_op_source x) (dx_now x)) s);
          (answer, dk) = dx_build x (cd_docker s); s1 = s\<lparr>cd_docker := dk\<rparr> in
      case answer of
        Built \<Rightarrow> (Inr (), end_build ''success'' None s1)
      | Build_failed \<Rightarrow> (Inl (X_error ''build''), note ''error'' (end_build ''failed'' (Some ''build'') s1))
      | Build_stopped \<Rightarrow>
          (Inl X_cancelled, note ''build_cancel'' (end_build ''cancelled'' (Some ''cancelled'') s1)))"

definition build_container_image :: "deploy_ctx \<Rightarrow> stage" where
  "build_container_image x = run_stages [record_stage x ''compose_build_start'', runtime_build x,
     record_stage x ''compose_build_done'']"

definition runtime_up :: "deploy_ctx \<Rightarrow> stage" where
  "runtime_up x s = (case dx_up x (cd_docker s) of
     (False, dk) \<Rightarrow> (Inl (X_error ''up''), s\<lparr>cd_docker := dk\<rparr>)
   | (True, dk) \<Rightarrow> (Inr (), s\<lparr>cd_docker := dk, cd_up_completed := True\<rparr>))"

definition mark_stopped :: stage where
  "mark_stopped s = (Inr (), s\<lparr>cd_old_stopped := True\<rparr>)"

definition swap_in_new_container :: "deploy_ctx \<Rightarrow> stage" where
  "swap_in_new_container x s = run_stages
     ((if cd_txn s then [rescue_data x, stop_old x, mark_stopped, clear_container_identity x] else [])
      @ [record_stage x ''compose_up_start'', runtime_up x, record_stage x ''compose_up_done'']) s"

section \<open>Giving up\<close>

text \<open>\<open>_revoke_unverified_build_archive\<close>: a build that did not pass must not stay a candidate.\<close>

definition image_rm :: "deploy_ctx \<Rightarrow> string \<Rightarrow> docker \<Rightarrow> docker" where
  "image_rm x ref dk = (if dx_rm_fails x then dk else dk\<lparr>dk_refs := (dk_refs dk)(ref := None)\<rparr>)"

definition drop_build_snapshot :: "int \<Rightarrow> app_dir \<Rightarrow> app_dir" where
  "drop_build_snapshot b d = d\<lparr>ad_builds := (ad_builds d)(b := None)\<rparr>"

definition revoke_archive :: "deploy_ctx \<Rightarrow> cd \<Rightarrow> cd" where
  "revoke_archive x s =
     (case find (\<lambda>r. b_id r = cd_build s) (list_builds (Some (cd_id s)) 200 (cd_reg s)) of
        None \<Rightarrow> s
      | Some row \<Rightarrow>
          if \<not> truthy (b_image_ref row) then s
          else write_reg (clear_build_artifacts (cd_build s))
            (s\<lparr>cd_docker := image_rm x (the (b_image_ref row)) (cd_docker s),
               cd_dir := drop_build_snapshot (cd_build s) (cd_dir s)\<rparr>))"

definition finish_if_running :: "deploy_ctx \<Rightarrow> string \<Rightarrow> cd \<Rightarrow> cd" where
  "finish_if_running x status s =
     (case list_builds (Some (cd_id s)) 1 (cd_reg s) of
        row # _ \<Rightarrow> if b_id row = cd_build s \<and> b_status row = ''running''
          then write_reg (finish_build (cd_build s) status (Some status) (dx_now x)) s else s
      | [] \<Rightarrow> s)"

definition release_fresh :: "cd \<Rightarrow> cd" where
  "release_fresh s = (if cd_fresh s then s\<lparr>cd_reg := release_instance (cd_id s) (cd_reg s)\<rparr> else s)"

definition restore_for_txn :: "cd \<Rightarrow> cd" where
  "restore_for_txn s = s\<lparr>cd_dir := snd (restore_generated (cd_dir s))\<rparr>"

definition down_quietly :: "deploy_ctx \<Rightarrow> cd \<Rightarrow> cd" where
  "down_quietly x s = s\<lparr>cd_docker := snd (dx_down x (cd_docker s))\<rparr>"

definition set_mem :: "(manifest \<Rightarrow> manifest) \<Rightarrow> cd \<Rightarrow> cd" where
  "set_mem f s = s\<lparr>cd_mem := f (cd_mem s)\<rparr>"

definition to_disk :: "cd \<Rightarrow> cd" where
  "to_disk s = s\<lparr>cd_disk := cd_mem s\<rparr>"

definition mark_failed_with :: "deploy_ctx \<Rightarrow> json \<Rightarrow> string \<Rightarrow> cd \<Rightarrow> cd" where
  "mark_failed_with x operation reason s =
     (let i = cd_id s;
          s1 = to_disk (set_mem (\<lambda>m. touch (dx_now x) (m\<lparr>m_status := FAILED, m_lastError := Some reason,
             m_lastOperation := Some operation\<rparr>)) s);
          s2 = write_reg (upsert_from_manifest (cd_mem s1) None None) s1;
          s3 = write_reg (update_status i ''failed'' (no_update\<lparr>su_last_error := Some reason\<rparr>) (dx_now x)) s2 in
      write_reg (add_event (Some i) ''error'' reason (dx_op_source x) (dx_now x)) s3)"

definition mark_failed :: "deploy_ctx \<Rightarrow> string \<Rightarrow> cd \<Rightarrow> cd" where
  "mark_failed x reason s =
     mark_failed_with x (operation_json x False True ''failed'' (Some reason) s) reason s"

text \<open>\<open>_compensate_build_first\<close>: down, old files, old environment, old image, up, probe. The first
  part brings the old version back, the second records what came of it.\<close>

definition bring_back :: "deploy_ctx \<Rightarrow> container_config \<Rightarrow> app_dir \<Rightarrow> docker
    \<Rightarrow> bool \<times> string list \<times> app_dir \<times> docker" where
  "bring_back x c d dk =
     (let (ok, dk1) = dx_down x dk; notes = (if ok then [] else [''down'']) in
      case restore_generated d of
        (False, d1) \<Rightarrow> (False, notes @ [''no snapshot''], d1, dk1)
      | (True, d1) \<Rightarrow>
          (let (env_ok, d2) = restore_last_good_env d1;
               notes2 = notes @ (if env_ok then [] else [''no environment record'']) in
           case restore_previous_image_tag (dx_tag_fails x (image_repo c @ '':latest'')) c dk1 of
             (Inl _, dk2) \<Rightarrow> (False, notes2 @ [''up''], d2, dk2)
           | (Inr _, dk2) \<Rightarrow>
               (case dx_up x dk2 of
                  (False, dk3) \<Rightarrow> (False, notes2 @ [''up''], d2, dk3)
                | (True, dk3) \<Rightarrow>
                    (if dx_http_ok x dk3 then (True, notes2, d2, dk3)
                     else (False, notes2 @ [''probe''], d2, dk3)))))"

definition compensation_json :: "deploy_ctx \<Rightarrow> string \<Rightarrow> bool \<Rightarrow> string list \<Rightarrow> cd \<Rightarrow> json" where
  "compensation_json x reason restored notes s = JObj [(''kind'', JStr ''rebuild''), (''status'', JStr ''failed''),
     (''buildId'', JInt (cd_build s)), (''finishedAt'', JStr (dx_now x)), (''error'', JStr (take 500 reason)),
     (''source'', JStr ''host_container''), (''rollback'', JStr (if restored then ''restored'' else ''failed'')),
     (''rollbackNotes'', JArr (map JStr notes))]"

definition compensate_build_first :: "deploy_ctx \<Rightarrow> string \<Rightarrow> stage" where
  "compensate_build_first x reason s =
     (case m_container (cd_mem s) of
        None \<Rightarrow> (Inl (X_error ''no container''), s)
      | Some c \<Rightarrow>
          (let i = cd_id s; now = dx_now x;
               (restored, notes, d, dk) = bring_back x c (cd_dir s) (cd_docker s);
               s1 = s\<lparr>cd_dir := d, cd_docker := dk\<rparr>;
               operation = compensation_json x reason restored notes s in
           if restored
           then (let s2 = to_disk (set_mem (\<lambda>m. touch now ((upd_container (\<lambda>k. k\<lparr>
                        c_containerId := dx_container_id x dk, c_imageId := dx_image_id x dk,
                        c_hostPort := Some (cd_port s)\<rparr>) m)
                      \<lparr>m_status := RUNNING, m_lastError := None, m_lastOperation := Some operation\<rparr>)) s1);
                     s3 = write_reg (upsert_from_manifest (cd_mem s2) None None) s2;
                     s4 = write_reg (update_status i ''running''
                        (no_update\<lparr>su_desired_state := Some ''running''\<rparr>) now) s3;
                     s5 = write_reg (update_last_operation i (Some operation) now) s4;
                     s6 = write_reg (update_last_error i (Some (take 500 reason)) now) s5 in
                 (Inl (X_restored reason), write_reg (add_event (Some i) ''lifecycle_stage'' ''restored''
                    (dx_op_source x) now) s6))
           else (let s2 = mark_failed x reason s1;
                     s3 = to_disk (set_mem (\<lambda>m. m\<lparr>m_lastOperation := Some operation\<rparr>) s2) in
                 (Inl (X_residual reason notes), write_reg (update_last_operation i (Some operation) now) s3))))"

definition liveness_failed_rollback :: "deploy_ctx \<Rightarrow> string \<Rightarrow> cd \<Rightarrow> cd" where
  "liveness_failed_rollback x reason s =
     (let i = cd_id s;
          (residuals, dk) = (case dx_running x (cd_docker s) of
              None \<Rightarrow> ([''stop''], cd_docker s)
            | Some False \<Rightarrow> ([], cd_docker s)
            | Some True \<Rightarrow> (case dx_down x (cd_docker s) of (ok, dk) \<Rightarrow> (if ok then [] else [''stop''], dk)));
          s1 = release_fresh (s\<lparr>cd_docker := dk\<rparr>);
          s2 = to_disk (set_mem (\<lambda>m. touch (dx_now x) (m\<lparr>m_status := FAILED, m_lastError := Some reason\<rparr>)) s1);
          s3 = write_reg (update_status i ''failed'' (no_update\<lparr>su_last_error := Some reason\<rparr>) (dx_now x)) s2;
          s4 = write_reg (add_event (Some i) ''lifecycle_stage'' reason (dx_op_source x) (dx_now x)) s3 in
      fold (\<lambda>item. write_reg (add_event (Some i) ''rollback_failed'' item (dx_op_source x) (dx_now x))) residuals s4)"

section \<open>After the start\<close>

text \<open>A failure that is found here has been dealt with (\<open>settled\<close>) when it leaves the stage.\<close>

definition settle_failed :: "deploy_ctx \<Rightarrow> string \<Rightarrow> (cd \<Rightarrow> cd) \<Rightarrow> stage" where
  "settle_failed x reason give_up s =
     (let s1 = revoke_archive x (s\<lparr>cd_settled := True\<rparr>) in
      if cd_txn s then compensate_build_first x reason s1
      else (Inl (X_error reason), give_up s1))"

definition observe_new_container :: "deploy_ctx \<Rightarrow> stage" where
  "observe_new_container x s =
     (case dx_container_id x (cd_docker s) of
        None \<Rightarrow> settle_failed x ''no container id''
          (\<lambda>s. mark_failed x ''no container id'' (release_fresh (down_quietly x s))) s
      | Some cid \<Rightarrow> (Inr (), set_mem (upd_container (\<lambda>k. k\<lparr>c_containerId := Some cid,
          c_imageId := dx_image_id x (cd_docker s), c_hostPort := Some (cd_port s)\<rparr>)) s))"

definition commit_verifying_state :: "deploy_ctx \<Rightarrow> stage" where
  "commit_verifying_state x s =
     (let s1 = set_mem (\<lambda>m. touch (dx_now x) (refresh_paths (dx_paths x) (m\<lparr>m_status := VERIFYING,
            m_desiredState := DESIRED_RUNNING, m_lastError := None,
            m_lastOperation := Some (operation_json x True True ''succeeded'' None s)\<rparr>))) s in
      after (save_manifest x W_verifying) (\<lambda>s2.
        (let s3 = write_reg (upsert_from_manifest (cd_mem s2) None None) s2 in
         (Inr (), write_reg (update_status (cd_id s) ''verifying''
            (no_update\<lparr>su_desired_state := Some ''running''\<rparr>) (dx_now x)) s3))) s1)"

definition verify_container_deployment :: "deploy_ctx \<Rightarrow> stage" where
  "verify_container_deployment x s =
     (case dx_verify x (cd_docker s) of
        None \<Rightarrow> (Inl (X_error ''verification''), s)
      | Some v \<Rightarrow>
          if ve_failed v
          then settle_failed x ''probes failed'' (liveness_failed_rollback x ''probes failed'') s
          else (Inr (), s\<lparr>cd_verified := v\<rparr>))"

text \<open>\<open>_finalize_build_artifacts\<close>: only now the build gets its reference, snapshot and archive.\<close>

definition finalize_build_artifacts :: "deploy_ctx \<Rightarrow> cd \<Rightarrow> cd" where
  "finalize_build_artifacts x s =
     (let repo = cd_repo s; b = cd_build s; image = dx_built_image x (cd_docker s) in
      if \<not> truthy image then s
      else (let ref = build_image_ref repo b in
        case tag_image (dx_tag_fails x ref) (the image) ref (cd_docker s) of
          (Inl _, dk) \<Rightarrow> s\<lparr>cd_docker := dk\<rparr>
        | (Inr _, dk) \<Rightarrow>
            if dx_archive_fails x
            then s\<lparr>cd_docker := image_rm x ref dk, cd_dir := drop_build_snapshot b (cd_dir s)\<rparr>
            else write_reg (record_build_artifacts b (Some ref) image
                  (if truthy (dx_source_hash x) then dx_source_hash x else None)
                  (Some (dx_snapshot_path x b)))
                (s\<lparr>cd_docker := dk, cd_dir := write_migration_archive b (migration_commands_blob (cd_mem s))
                    (snapshot_config b (cd_dir s))\<rparr>)))"

definition gc_after_deploy :: "deploy_ctx \<Rightarrow> cd \<Rightarrow> cd" where
  "gc_after_deploy x s =
     (let g = gc_build_artifacts (dx_status_after x) (dx_retention x) (cd_id s)
            (Option.bind (m_container (cd_mem s)) c_imageId) (cd_reg s) (cd_dir s) in
      s\<lparr>cd_reg := gc_reg g, cd_dir := gc_dir g\<rparr>)"

definition final_manifest :: "deploy_ctx \<Rightarrow> cd \<Rightarrow> cd" where
  "final_manifest x s =
     (let s1 = set_mem (\<lambda>m. case dx_fingerprints x (cd_dir s) m of None \<Rightarrow> m
            | Some f \<Rightarrow> m\<lparr>m_deploymentFingerprints := Some f\<rparr>) s in
      set_mem (\<lambda>m. touch (dx_now x) (m\<lparr>m_status := RUNNING, m_lastError := None\<rparr>))
        (s1\<lparr>cd_dir := save_last_good_env (cd_dir s1)\<rparr>))"

definition record_deployed :: "deploy_ctx \<Rightarrow> cd \<Rightarrow> cd" where
  "record_deployed x s =
     (let i = cd_id s; now = dx_now x;
          s1 = write_reg (update_status i ''running'' (no_update\<lparr>su_desired_state := Some ''running'',
                 su_clear_last_error := True\<rparr>) now) s;
          s2 = write_reg (record_started i now now) s1;
          s3 = (if ve_liveness (cd_verified s) then write_reg (record_health_check i now now) s2 else s2) in
      write_reg (add_event (Some i) ''start'' ''started'' (dx_op_source x) now) s3)"

definition finalize_container_deploy :: "deploy_ctx \<Rightarrow> stage" where
  "finalize_container_deploy x s =
     (let s0 = (if ve_degraded (cd_verified s)
            then write_reg (add_event (Some (cd_id s)) ''lifecycle_stage'' ''warnings'' (dx_op_source x) (dx_now x)) s
            else s) in
      after (save_manifest x W_final)
        (\<lambda>s1. (Inr (), gc_after_deploy x (finalize_build_artifacts x (record_deployed x s1))))
        (final_manifest x s0))"

section \<open>The deployment\<close>

definition handle_cancelled :: "deploy_ctx \<Rightarrow> cd \<Rightarrow> cd" where
  "handle_cancelled x s =
     (let i = cd_id s; now = dx_now x;
          s1 = revoke_archive x s;
          s2 = (if cd_txn s \<and> \<not> cd_old_stopped s then restore_for_txn s1 else s1);
          s3 = finish_if_running x ''cancelled'' (release_fresh s2);
          s4 = write_reg (update_last_operation i (Some (operation_json x True True ''cancelled'' (Some ''cancelled'') s)) now) s3;
          s5 = write_reg (update_last_error i (Some ''cancelled'') now) s4 in
      to_disk (set_mem (\<lambda>m. touch now (m\<lparr>m_lastError := Some ''cancelled''\<rparr>)) s5))"

definition handle_failed :: "deploy_ctx \<Rightarrow> string \<Rightarrow> cd \<Rightarrow> deploy_exn \<times> cd" where
  "handle_failed x reason s =
     (let i = cd_id s; now = dx_now x; s1 = revoke_archive x s in
      if cd_txn s \<and> cd_old_stopped s
      then (case compensate_build_first x reason s1 of
          (Inl e, s2) \<Rightarrow> (e, s2) | (Inr _, s2) \<Rightarrow> (X_error reason, s2))
      else if cd_stop_aborted s \<or> cd_txn s
      then (let s2 = (if cd_txn s then restore_for_txn s1 else s1);
                s3 = finish_if_running x ''failed'' s2;
                s4 = write_reg (update_status i (status_value (m_status (cd_mem s))) no_update now) s3;
                s5 = write_reg (update_last_operation i (Some (operation_json x True True ''failed'' (Some reason) s)) now) s4 in
            (X_error reason, write_reg (update_last_error i (Some reason) now) s5))
      else (let s2 = finish_if_running x ''failed'' (release_fresh s1);
                s3 = (if cd_up_completed s then down_quietly x s2 else s2) in
            (X_error reason, mark_failed x reason s3)))"

definition deploy_stages :: "deploy_ctx \<Rightarrow> stage list" where
  "deploy_stages x =
     [record_stage x ''host_start'',
      (\<lambda>s. if dx_identity_ok x then (Inr (), s) else (Inl (X_error ''identity''), s)),
      prepare_previous_container x, render_container_artifacts x, build_container_image x,
      swap_in_new_container x, observe_new_container x, commit_verifying_state x,
      verify_container_deployment x, finalize_container_deploy x]"

definition run_deploy_stages :: "deploy_ctx \<Rightarrow> stage" where
  "run_deploy_stages x s =
     (case run_stages (deploy_stages x) s of
        (Inr _, s') \<Rightarrow> (Inr (), s')
      | (Inl X_cancelled, s') \<Rightarrow> (Inl X_cancelled, handle_cancelled x s')
      | (Inl (X_error reason), s') \<Rightarrow>
          if cd_settled s' then (Inl (X_error reason), s')
          else (case handle_failed x reason s' of (e, s'') \<Rightarrow> (Inl e, s''))
      | (Inl e, s') \<Rightarrow> (Inl e, s'))"

text \<open>\<open>_begin_container_deploy\<close>: the row of the build and, unless the old version keeps serving, the
  status. What is refused before leaves everything as it was.\<close>

definition begin_container_deploy :: "deploy_ctx \<Rightarrow> stage" where
  "begin_container_deploy x s =
     (let i = cd_id s; now = dx_now x; m = cd_mem s;
          kind = (if Option.bind (m_container m) c_containerId \<noteq> None then ''rebuild'' else ''deploy'') in
      case choose_order x m kind (cd_dir s) (cd_docker s) of
        None \<Rightarrow> (Inl (X_error ''running''), s)
      | Some txn \<Rightarrow>
          (case add_build i ''running'' None (Some (dx_build_log x)) now now (cd_reg s) of
             Inl _ \<Rightarrow> (Inl (X_error ''registry''), s)
           | Inr (b, r) \<Rightarrow>
               (let s1 = s\<lparr>cd_reg := r, cd_build := b, cd_kind := kind, cd_txn := txn, cd_port := 0,
                      cd_fresh := False, cd_old_stopped := False, cd_stop_aborted := False,
                      cd_up_completed := False, cd_settled := False\<rparr> in
                (Inr (), if txn
                  then write_reg (update_last_operation i (Some (operation_json x True False ''building'' None s1)) now) s1
                  else write_reg (update_status i ''building'' no_update now) s1))))"

definition host_container :: "deploy_ctx \<Rightarrow> stage" where
  "host_container x s =
     (let s0 = s\<lparr>cd_mem := cd_disk s\<rparr>; m = cd_disk s in
      if m_runtime m \<noteq> DOCKER_COMPOSE \<or> m_container m = None then (Inl (X_error ''not a container''), s0)
      else if \<not> dx_hooks_ok x then (Inl (X_error ''hooks''), s0)
      else if \<not> dx_available x then (Inl (X_error ''docker''), s0)
      else (case (if Option.bind (m_container m) c_containerId \<noteq> None
                  then ensure_env_rollback_ready (dx_env_hash x) False (cd_dir s) else (Inr (), cd_dir s)) of
          (Inl _, d) \<Rightarrow> (Inl (X_error ''environment''), s0\<lparr>cd_dir := d\<rparr>)
        | (Inr _, d) \<Rightarrow> after (begin_container_deploy x) (run_deploy_stages x) (s0\<lparr>cd_dir := d\<rparr>)))"

end
