(* ===== verification/Container_Deploy_Facts.thy ===== *)
theory Container_Deploy_Facts
  imports Container_Deploy
begin

text \<open>
  What a container deployment guarantees: rules for the stages, what the old version keeps while a
  rebuild runs, and the outcome of a rebuild in the order \<open>build first\<close>.
\<close>

section \<open>Reasoning about stages\<close>

text \<open>What a stage leaves when it returns and when it raises.\<close>

definition triple :: "(cd \<Rightarrow> bool) \<Rightarrow> stage \<Rightarrow> (cd \<Rightarrow> bool) \<Rightarrow> (deploy_exn \<Rightarrow> cd \<Rightarrow> bool) \<Rightarrow> bool" where
  "triple P f Q E \<longleftrightarrow> (\<forall>s. P s \<longrightarrow> (case f s of (Inr _, s') \<Rightarrow> Q s' | (Inl e, s') \<Rightarrow> E e s'))"

lemma tripleI:
  assumes "\<And>s r s'. P s \<Longrightarrow> f s = (r, s') \<Longrightarrow> (case r of Inr _ \<Rightarrow> Q s' | Inl e \<Rightarrow> E e s')"
  shows "triple P f Q E"
  unfolding triple_def using assms by (fastforce split: prod.splits sum.splits)

lemma triple_after: "triple P f Q E \<Longrightarrow> triple Q g R E \<Longrightarrow> triple P (after f g) R E"
  by (fastforce simp: triple_def after_def split: prod.splits sum.splits)

lemma triple_done: "triple P (run_stages []) P E"
  by (simp add: triple_def)

lemma triple_stages: "triple P f Q E \<Longrightarrow> triple Q (run_stages fs) R E \<Longrightarrow> triple P (run_stages (f # fs)) R E"
  using triple_after [of P f Q E "run_stages fs" R] by (simp add: triple_def)

lemma keep_stages: "(\<And>f. f \<in> set fs \<Longrightarrow> triple P f P E) \<Longrightarrow> triple P (run_stages fs) P E"
  by (induction fs) (auto intro: triple_done triple_stages)

lemma triple_append: "triple P (run_stages fs) Q E \<Longrightarrow> triple Q (run_stages gs) R E
    \<Longrightarrow> triple P (run_stages (fs @ gs)) R E"
proof (induction fs arbitrary: P)
  case (Cons f fs)
  let ?M = "\<lambda>s. \<exists>t. P t \<and> f t = (Inr (), s)"
  have f: "triple P f ?M E" using Cons.prems(1) by (fastforce simp: triple_def after_def split: prod.splits sum.splits)
  have "triple ?M (run_stages fs) Q E" using Cons.prems(1) by (fastforce simp: triple_def after_def)
  with Cons have "triple ?M (run_stages (fs @ gs)) R E" by blast
  with f show ?case by (simp add: triple_after)
qed (simp add: triple_def)

lemma triple_weaken:
  "triple P f Q E \<Longrightarrow> (\<And>s. P' s \<Longrightarrow> P s) \<Longrightarrow> (\<And>s. Q s \<Longrightarrow> Q' s) \<Longrightarrow> (\<And>e s. E e s \<Longrightarrow> E' e s) \<Longrightarrow> triple P' f Q' E'"
  by (fastforce simp: triple_def split: prod.splits sum.splits)

section \<open>What the old version keeps\<close>

text \<open>The new build has no reference yet, so nothing takes it for a version to return to.\<close>

definition unarchived :: "int \<Rightarrow> reg \<Rightarrow> bool" where
  "unarchived b r \<longleftrightarrow> (\<forall>row \<in> set (builds r). b_id row = b \<longrightarrow> b_image_ref row = None)"

text \<open>What the deployment relies on: a build only moves the tag \<open>latest\<close>, stopping and starting move no
  tag, a failed stop leaves the container running, a start runs what \<open>latest\<close> stands for, and other
  writers do not archive the new build.\<close>

definition docker_ok :: "deploy_ctx \<Rightarrow> string \<Rightarrow> bool" where
  "docker_ok x repo \<longleftrightarrow>
     (\<forall>dk. dk_running (snd (dx_build x dk)) = dk_running dk
        \<and> (\<forall>ref. ref \<noteq> repo @ '':latest'' \<longrightarrow> dk_refs (snd (dx_build x dk)) ref = dk_refs dk ref)
        \<and> dk_refs (snd (dx_down x dk)) = dk_refs dk
        \<and> (\<not> fst (dx_down x dk) \<longrightarrow> dk_running (snd (dx_down x dk)) = dk_running dk)
        \<and> dk_refs (snd (dx_up x dk)) = dk_refs dk
        \<and> (fst (dx_up x dk) \<longrightarrow> dk_running (snd (dx_up x dk)) = dk_refs dk (repo @ '':latest'')))
     \<and> (\<forall>p r b. unarchived b r \<longrightarrow> unarchived b (dx_port_env x p r))"

lemma builds_kept [simp]:
  "builds (commit (add_event j k m src t r) r) = builds r"
  "builds (commit (upsert_from_manifest mf a z r) r) = builds r"
  "builds (commit (update_status i st u t r) r) = builds r"
  "builds (commit (update_last_operation i op t r) r) = builds r"
  "builds (commit (update_last_error i e t r) r) = builds r"
  "builds (commit (record_started i t t' r) r) = builds r"
  "builds (commit (record_health_check i t t' r) r) = builds r"
  "builds (release_instance i r) = builds r"
  by (simp_all add: commit_def add_event_def upsert_from_manifest_def dao_instance_defs Let_def
      release_instance_def release_instance_ports_def put_container_def put_static_def
      del_static_rows_def del_container_rows_def split: option.split)

lemma unarchived_cong: "builds r' = builds r \<Longrightarrow> unarchived b r' = unarchived b r"
  by (simp add: unarchived_def)

lemma unarchived_kept [simp]:
  "unarchived b (commit (add_event j k m src t r) r) = unarchived b r"
  "unarchived b (commit (upsert_from_manifest mf a z r) r) = unarchived b r"
  "unarchived b (commit (update_status i st u t r) r) = unarchived b r"
  "unarchived b (commit (update_last_operation i op t r) r) = unarchived b r"
  "unarchived b (commit (update_last_error i er t r) r) = unarchived b r"
  "unarchived b (release_instance i r) = unarchived b r"
  by (simp_all add: unarchived_def)

lemma unarchived_finish [simp]: "unarchived b (commit (finish_build c st e t r) r) = unarchived b r"
  by (auto simp: unarchived_def finish_build_def upd_build_def upd_where_def commit_def
      simp del: if_image_distrib split: if_splits)

lemma unarchived_claim: "unarchived b (snd (claim_port t i p r)) = unarchived b r"
  by (auto simp: claim_port_def allocate_port_def unarchived_def split: option.splits sum.splits prod.splits)

lemma unarchived_alloc_loop:
  assumes "\<And>p r. unarchived b r \<Longrightarrow> unarchived b (env p r)" "unarchived b r"
  shows "unarchived b (snd (alloc_loop (claim_port t) env skip i ex al ps r))"
  using assms(2)
proof (induction ps arbitrary: al r)
  case (Cons p ps)
  have "unarchived b (snd (claim_port t i p (env p r)))" using assms(1) Cons.prems by (simp add: unarchived_claim)
  with Cons show ?case by (auto split: prod.splits sum.splits bool.splits)
qed simp

lemma unarchived_port:
  assumes env: "\<And>p r b. unarchived b r \<Longrightarrow> unarchived b (dx_port_env x p r)" and "unarchived b r"
  shows "unarchived b (snd (ensure_container_port x i a r))"
proof -
  have fresh: "unarchived b (snd (fresh_port x i q))" if "unarchived b q" for q
  proof -
    have "unarchived b (release_instance i q)" using that by (simp add: unarchived_def)
    with env have l: "unarchived b (snd (alloc_loop (claim_port t) (dx_port_env x) k i [] al ps (release_instance i q)))"
      for t k al ps by (blast intro: unarchived_alloc_loop)
    have "unarchived b (snd (allocate (dx_listening x) (dx_port_env x) c i None True t (release_instance i q)))" for c t
    proof -
      obtain res r' where a: "alloc_loop (claim_port t) (dx_port_env x) (\<lambda>p. True \<and> dx_listening x p) i []
          (allocated_ports (release_instance i q)) (as_range (cf_portPool c)) (release_instance i q) = (res, r')"
        by fastforce
      with l have "unarchived b r'" by (metis snd_conv)
      with a show ?thesis by (simp add: allocate_def Let_def split: sum.split option.split)
    qed
    then show ?thesis unfolding fresh_port_def by (metis (no_types, lifting) case_prod_beta snd_conv sum.case_eq_if)
  qed
  have used: "unarchived b r'" if "allocate_port i p t r = Inr (v, r')" for p t v r'
    using that assms(2) by (auto simp: allocate_port_def unarchived_def split: option.splits if_split_asm)
  show ?thesis
  proof (cases "Option.bind (get_container i r) k_host_port")
    case None
    then show ?thesis using fresh assms(2) by (simp add: ensure_container_port_def)
  next
    case (Some p)
    show ?thesis
    proof (cases "allocate_port i p (dx_now x) r")
      case (Inl e)
      then show ?thesis using Some fresh assms(2) by (simp add: ensure_container_port_def)
    next
      case (Inr v)
      then obtain ok r' where "v = (ok, r')" "unarchived b r'" using used by (cases v) auto
      with Some Inr fresh assms(2) show ?thesis by (cases ok) (simp_all add: ensure_container_port_def)
    qed
  qed
qed

section \<open>The order build first\<close>

text \<open>The old version can be brought back: its files are in the snapshot and its image has the tag
  \<open>prev\<close>. While it is serving, its container runs and the manifest on disk is the one before.\<close>

definition kept :: "cd \<Rightarrow> container_config \<Rightarrow> string \<Rightarrow> cd \<Rightarrow> bool" where
  "kept s0 c img s \<longleftrightarrow> cd_txn s \<and> unarchived (cd_build s) (cd_reg s)
     \<and> ad_prev (cd_dir s) = Some (save_files ALL_GENERATED_FILES (ad_files (cd_dir s0)))
     \<and> dk_refs (cd_docker s) (image_repo c @ '':prev'') = Some img
     \<and> (\<exists>k. m_container (cd_mem s) = Some k \<and> image_repo k = image_repo c)"

definition serving :: "cd \<Rightarrow> cd \<Rightarrow> bool" where
  "serving s0 s \<longleftrightarrow> \<not> cd_old_stopped s \<and> cd_disk s = cd_disk s0 \<and> cd_mem s = cd_disk s0
     \<and> dk_running (cd_docker s) = dk_running (cd_docker s0)"

text \<open>How a stage may fail: still serving, or stopped and not yet dealt with, or dealt with.\<close>

definition brought_back :: "deploy_ctx \<Rightarrow> cd \<Rightarrow> string \<Rightarrow> deploy_exn \<Rightarrow> cd \<Rightarrow> bool" where
  "brought_back x s0 img e s \<longleftrightarrow> (case e of
       X_restored _ \<Rightarrow> (\<forall>n \<in> set ALL_GENERATED_FILES. ad_files (cd_dir s) n = ad_files (cd_dir s0) n)
         \<and> dk_running (cd_docker s) = Some img \<and> dx_http_ok x (cd_docker s) \<and> m_status (cd_disk s) = RUNNING
     | X_residual _ notes \<Rightarrow> notes \<noteq> [] \<and> m_status (cd_disk s) = FAILED
     | _ \<Rightarrow> False)"

definition stage_fails :: "deploy_ctx \<Rightarrow> cd \<Rightarrow> container_config \<Rightarrow> string \<Rightarrow> deploy_exn \<Rightarrow> cd \<Rightarrow> bool" where
  "stage_fails x s0 c img e s \<longleftrightarrow>
     \<not> cd_settled s \<and> kept s0 c img s \<and> (e = X_cancelled \<and> serving s0 s \<or> (\<exists>r. e = X_error r) \<and> (serving s0 s \<or> cd_old_stopped s))
     \<or> cd_settled s \<and> brought_back x s0 img e s"

lemma revoke_unarchived:
  assumes "unarchived (cd_build s) (cd_reg s)"
  shows "revoke_archive x s = s"
proof (cases "find (\<lambda>r. b_id r = cd_build s) (list_builds (Some (cd_id s)) 200 (cd_reg s))")
  case (Some row)
  then have "row \<in> set (list_builds (Some (cd_id s)) 200 (cd_reg s))" "b_id row = cd_build s"
    by (auto simp: find_Some_iff)
  then have "row \<in> set (builds (cd_reg s))" "b_id row = cd_build s"
    by (auto simp: list_builds_def dest!: in_set_takeD)
  then have "b_image_ref row = None" using assms by (simp add: unarchived_def)
  with Some show ?thesis by (simp add: revoke_archive_def truthy_def)
qed (simp add: revoke_archive_def)

lemma write_reg_fields [simp]:
  "cd_dir (write_reg f s) = cd_dir s" "cd_docker (write_reg f s) = cd_docker s"
  "cd_mem (write_reg f s) = cd_mem s" "cd_disk (write_reg f s) = cd_disk s"
  "cd_build (write_reg f s) = cd_build s" "cd_txn (write_reg f s) = cd_txn s"
  "cd_old_stopped (write_reg f s) = cd_old_stopped s" "cd_settled (write_reg f s) = cd_settled s"
  "cd_reg (write_reg f s) = commit (f (cd_reg s)) (cd_reg s)" "cd_port (write_reg f s) = cd_port s"
  "cd_verified (write_reg f s) = cd_verified s" "cd_fresh (write_reg f s) = cd_fresh s"
  by (simp_all add: write_reg_def)

lemma mark_failed_fields [simp]:
  "cd_dir (mark_failed x r s) = cd_dir s" "cd_docker (mark_failed x r s) = cd_docker s"
  "cd_settled (mark_failed x r s) = cd_settled s" "m_status (cd_disk (mark_failed x r s)) = FAILED"
  "m_status (cd_mem (mark_failed x r s)) = FAILED"
  by (simp_all add: mark_failed_def mark_failed_with_def Let_def to_disk_def set_mem_def touch_def)

lemma bring_back_outcome:
  assumes "docker_ok x (image_repo k)" "bring_back x k d dk = (restored, notes, d', dk')"
    "ad_prev d = Some (save_files ALL_GENERATED_FILES f)" "dk_refs dk (image_repo k @ '':prev'') = Some img"
  shows "if restored then (\<forall>n \<in> set ALL_GENERATED_FILES. ad_files d' n = f n)
       \<and> dk_running dk' = Some img \<and> dx_http_ok x dk'
     else notes \<noteq> []"
proof -
  obtain ok dk1 where down: "dx_down x dk = (ok, dk1)" by fastforce
  have refs: "dk_refs dk1 = dk_refs dk" using assms(1) down by (auto simp: docker_ok_def dest: spec [of _ dk])
  define d1 where "d1 = d\<lparr>ad_files := copy_back ALL_GENERATED_FILES (save_files ALL_GENERATED_FILES f) (ad_files d)\<rparr>"
  have d1: "restore_generated d = (True, d1)" using assms(3) by (simp add: restore_generated_def d1_def)
  obtain env_ok d2 where env: "restore_last_good_env d1 = (env_ok, d2)" by fastforce
  have "ENV_LOCAL \<notin> set ALL_GENERATED_FILES"
    by (simp add: ENV_LOCAL_def ALL_GENERATED_FILES_def GENERATED_FILES_def OPTIONAL_GENERATED_FILES_def)
  then have files: "\<forall>n \<in> set ALL_GENERATED_FILES. ad_files d2 n = f n"
    using env by (auto simp: restore_last_good_env_def d1_def copy_back_at save_files_at
        split: option.splits if_split_asm)
  show ?thesis
  proof (cases "restore_previous_image_tag (dx_tag_fails x (image_repo k @ '':latest'')) k dk1")
    case (Pair r dk2)
    show ?thesis
    proof (cases r)
      case (Inl e)
      with assms(2) Pair down d1 env show ?thesis by (auto simp: bring_back_def)
    next
      case (Inr u)
      then have latest: "dk_refs dk2 (image_repo k @ '':latest'') = Some img"
        using Pair refs assms(4)
        by (auto simp: restore_previous_image_tag_def tag_image_def split: option.splits if_split_asm)
      obtain up dk3 where up: "dx_up x dk2 = (up, dk3)" by fastforce
      have "up \<Longrightarrow> dk_running dk3 = Some img"
        using assms(1) up latest by (auto simp: docker_ok_def dest: spec [of _ dk2])
      with assms(2) Pair Inr down d1 env up files show ?thesis
        by (cases up) (auto simp: bring_back_def Let_def split: if_split_asm)
    qed
  qed
qed

lemma compensation_outcome:
  assumes "docker_ok x (image_repo c)" "kept s0 c img s" "compensate_build_first x reason s = (r, s')"
  shows "\<exists>e. r = Inl e \<and> brought_back x s0 img e s' \<and> cd_settled s' = cd_settled s"
proof -
  obtain k where k: "m_container (cd_mem s) = Some k" "image_repo k = image_repo c"
    using assms(2) by (auto simp: kept_def)
  obtain restored ns d dk where b: "bring_back x k (cd_dir s) (cd_docker s) = (restored, ns, d, dk)"
    by (metis prod_cases4)
  from bring_back_outcome [OF _ b] assms(1,2) k(2)
  have o: "if restored then (\<forall>n \<in> set ALL_GENERATED_FILES. ad_files d n = ad_files (cd_dir s0) n)
       \<and> dk_running dk = Some img \<and> dx_http_ok x dk else ns \<noteq> []"
    by (simp add: kept_def)
  show ?thesis
    using assms(3) o k(1) b
    by (cases restored) (auto simp: compensate_build_first_def brought_back_def Let_def to_disk_def set_mem_def touch_def)
qed

lemma settle_outcome:
  assumes "docker_ok x (image_repo c)" "kept s0 c img s" "settle_failed x reason g s = (r, s')"
  shows "\<exists>e. r = Inl e \<and> brought_back x s0 img e s' \<and> cd_settled s'"
proof -
  let ?t = "s\<lparr>cd_settled := True\<rparr>"
  have t: "kept s0 c img ?t" using assms(2) by (simp add: kept_def)
  then have "revoke_archive x ?t = ?t" by (intro revoke_unarchived) (simp add: kept_def)
  moreover have "cd_txn s" using assms(2) by (simp add: kept_def)
  ultimately have "compensate_build_first x reason ?t = (r, s')" using assms(3) by (simp add: settle_failed_def)
  from compensation_outcome [OF assms(1) t this] show ?thesis by simp
qed

text \<open>The stages up to the start of the new container leave the old version serving.\<close>

definition phase1 :: "cd \<Rightarrow> container_config \<Rightarrow> string \<Rightarrow> cd \<Rightarrow> bool" where
  "phase1 s0 c img s \<longleftrightarrow> \<not> cd_settled s \<and> kept s0 c img s \<and> serving s0 s"

definition phase2 :: "cd \<Rightarrow> container_config \<Rightarrow> string \<Rightarrow> cd \<Rightarrow> bool" where
  "phase2 s0 c img s \<longleftrightarrow> \<not> cd_settled s \<and> kept s0 c img s \<and> cd_old_stopped s"

lemmas phase_defs = phase1_def phase2_def kept_def serving_def stage_fails_def

lemma stage_record [simp]:
  "triple (phase1 s0 c img) (record_stage x name) (phase1 s0 c img) (stage_fails x s0 c img)"
  "triple (phase2 s0 c img) (record_stage x name) (phase2 s0 c img) (stage_fails x s0 c img)"
  by (auto simp: triple_def record_stage_def phase_defs unarchived_def)

lemma stage_render:
  assumes "docker_ok x (image_repo c)"
  shows "triple (phase1 s0 c img) (render_container_artifacts x) (phase1 s0 c img) (stage_fails x s0 c img)"
proof -
  have "triple (phase1 s0 c img) (render_dockerfile x) (phase1 s0 c img) (stage_fails x s0 c img)"
    by (auto simp: triple_def render_dockerfile_def put_files_def phase_defs split: option.split)
  moreover have "triple (phase1 s0 c img) (choose_port x) (phase1 s0 c img) (stage_fails x s0 c img)"
  proof (rule tripleI)
    fix s r s' assume s: "phase1 s0 c img s" "choose_port x s = (r, s')"
    obtain a q where a: "ensure_container_port x (cd_id s) (cd_txn s) (cd_reg s) = (a, q)" by fastforce
    have "unarchived (cd_build s) q"
      using unarchived_port [of x "cd_build s" "cd_reg s" "cd_id s" "cd_txn s"] assms s(1) a
      by (simp add: phase_defs docker_ok_def)
    with s a show "case r of Inr _ \<Rightarrow> phase1 s0 c img s' | Inl e \<Rightarrow> stage_fails x s0 c img e s'"
      by (auto simp: choose_port_def phase_defs split: sum.splits prod.splits)
  qed
  moreover have "triple (phase1 s0 c img) (render_compose x) (phase1 s0 c img) (stage_fails x s0 c img)"
    by (auto simp: triple_def render_compose_def put_files_def phase_defs split: option.split)
  ultimately show ?thesis unfolding render_container_artifacts_def by (intro keep_stages) auto
qed

lemma stage_build:
  assumes "docker_ok x (image_repo c)"
  shows "triple (phase1 s0 c img) (build_container_image x) (phase1 s0 c img) (stage_fails x s0 c img)"
proof -
  have "dk_running (snd (dx_build x dk)) = dk_running dk"
    "dk_refs (snd (dx_build x dk)) (image_repo c @ '':prev'') = dk_refs dk (image_repo c @ '':prev'')" for dk
    using assms by (simp_all add: docker_ok_def)
  note keep = this
  have "triple (phase1 s0 c img) (runtime_build x) (phase1 s0 c img) (stage_fails x s0 c img)"
  proof (rule tripleI)
    fix s r s' assume s: "phase1 s0 c img s" "runtime_build x s = (r, s')"
    obtain a dk where a: "dx_build x (cd_docker s) = (a, dk)" by fastforce
    have dk: "dk_running dk = dk_running (cd_docker s)"
      "dk_refs dk (image_repo c @ '':prev'') = dk_refs (cd_docker s) (image_repo c @ '':prev'')"
      using keep [of "cd_docker s"] a by simp_all
    have ev: "unarchived b (commit (add_event j k m src t q) q) = unarchived b q" for b j k m src t q
      by (simp add: unarchived_def)
    show "case r of Inr _ \<Rightarrow> phase1 s0 c img s' | Inl e \<Rightarrow> stage_fails x s0 c img e s'"
      using s a dk by (cases a) (auto simp: runtime_build_def phase_defs Let_def ev)
  qed
  then show ?thesis unfolding build_container_image_def by (intro keep_stages) auto
qed

lemma stage_rescue:
  "triple (phase1 s0 c img) (rescue_data x) (phase1 s0 c img) (stage_fails x s0 c img)"
  by (auto simp: triple_def rescue_data_def phase_defs)

text \<open>Between the stop and the mark that it happened nothing can fail.\<close>

lemma stage_stop:
  assumes "docker_ok x (image_repo c)"
  shows "triple (phase1 s0 c img) (after (stop_old x) mark_stopped) (phase2 s0 c img) (stage_fails x s0 c img)"
proof (rule tripleI)
  fix s r s' assume s: "phase1 s0 c img s" "after (stop_old x) mark_stopped s = (r, s')"
  obtain ok dk where d: "stop_or_abort (dx_running x) (dx_down x) True (cd_docker s) = (ok, dk)" by fastforce
  have "dk_refs dk = dk_refs (cd_docker s)" "\<not> ok \<Longrightarrow> dk_running dk = dk_running (cd_docker s)"
    using d assms by (auto simp: stop_or_abort_def docker_ok_def split: option.splits if_split_asm
        dest: spec [of _ "cd_docker s"])
  with s d show "case r of Inr _ \<Rightarrow> phase2 s0 c img s' | Inl e \<Rightarrow> stage_fails x s0 c img e s'"
    by (cases ok) (auto simp: after_def stop_old_def mark_stopped_def phase_defs)
qed

lemma stage_clear:
  "triple (phase2 s0 c img) (clear_container_identity x) (phase2 s0 c img) (stage_fails x s0 c img)"
proof -
  have "\<exists>k. m_container (touch t (upd_container (\<lambda>k. k\<lparr>c_containerId := None, c_imageId := None\<rparr>) m)) = Some k
      \<and> image_repo k = image_repo c"
    if "m_container m = Some k" "image_repo k = image_repo c" for t m k
    using that by (simp add: touch_def upd_container_def image_repo_def)
  then show ?thesis
    by (auto simp: triple_def clear_container_identity_def save_manifest_def phase_defs)
qed

lemma stage_up:
  assumes "docker_ok x (image_repo c)"
  shows "triple (phase2 s0 c img) (runtime_up x) (phase2 s0 c img) (stage_fails x s0 c img)"
proof (rule tripleI)
  fix s r s' assume s: "phase2 s0 c img s" "runtime_up x s = (r, s')"
  obtain ok dk where d: "dx_up x (cd_docker s) = (ok, dk)" by fastforce
  then have "dk_refs dk = dk_refs (cd_docker s)"
    using assms by (auto simp: docker_ok_def dest: spec [of _ "cd_docker s"])
  with s d show "case r of Inr _ \<Rightarrow> phase2 s0 c img s' | Inl e \<Rightarrow> stage_fails x s0 c img e s'"
    by (cases ok) (auto simp: runtime_up_def phase_defs)
qed

lemma stage_swap:
  assumes "docker_ok x (image_repo c)"
  shows "triple (phase1 s0 c img) (swap_in_new_container x) (phase2 s0 c img) (stage_fails x s0 c img)"
proof -
  let ?E = "stage_fails x s0 c img"
  have rest: "triple (phase2 s0 c img) (run_stages [clear_container_identity x, record_stage x ''compose_up_start'',
      runtime_up x, record_stage x ''compose_up_done'']) (phase2 s0 c img) ?E"
    by (intro keep_stages) (auto intro: stage_clear stage_up [OF assms])
  have "swap_in_new_container x s = after (rescue_data x) (after (after (stop_old x) mark_stopped)
      (run_stages [clear_container_identity x, record_stage x ''compose_up_start'',
      runtime_up x, record_stage x ''compose_up_done''])) s" if "cd_txn s" for s
    using that by (simp add: swap_in_new_container_def after_def split: prod.splits sum.splits)
  moreover have "triple (phase1 s0 c img) (after (rescue_data x) (after (after (stop_old x) mark_stopped)
      (run_stages [clear_container_identity x, record_stage x ''compose_up_start'',
      runtime_up x, record_stage x ''compose_up_done'']))) (phase2 s0 c img) ?E"
    by (rule triple_after [OF stage_rescue triple_after [OF stage_stop [OF assms] rest]])
  ultimately show ?thesis by (simp add: triple_def phase_defs)
qed

text \<open>Before the snapshot: nothing has changed yet. A failure while it is taken leaves no snapshot, so
  that restoring does nothing.\<close>

definition phase0 :: "cd \<Rightarrow> cd \<Rightarrow> bool" where
  "phase0 s0 s \<longleftrightarrow> cd_txn s \<and> \<not> cd_settled s \<and> unarchived (cd_build s) (cd_reg s) \<and> serving s0 s
     \<and> cd_docker s = cd_docker s0 \<and> ad_files (cd_dir s) = ad_files (cd_dir s0)"

definition early_fails :: "cd \<Rightarrow> deploy_exn \<Rightarrow> cd \<Rightarrow> bool" where
  "early_fails s0 e s \<longleftrightarrow> (\<exists>r. e = X_error r) \<and> cd_txn s \<and> \<not> cd_settled s
     \<and> unarchived (cd_build s) (cd_reg s) \<and> serving s0 s
     \<and> (\<forall>n \<in> set ALL_GENERATED_FILES. ad_files (snd (restore_generated (cd_dir s))) n = ad_files (cd_dir s0) n)"

lemma stage_prepare:
  assumes "m_container (cd_disk s0) = Some c" "or_else (c_imageId c) (dx_image_id x (cd_docker s0)) = Some old"
    "old \<noteq> []" "dk_refs (cd_docker s0) old = Some img"
  shows "triple (phase0 s0) (prepare_previous_container x) (phase1 s0 c img) (early_fails s0)"
proof (rule tripleI)
  fix s r s' assume s: "phase0 s0 s" "prepare_previous_container x s = (r, s')"
  have mem: "m_container (cd_mem s) = Some c" "cd_repo s = image_repo c" "cd_docker s = cd_docker s0" "cd_txn s"
    using s(1) assms(1) by (simp_all add: phase0_def serving_def cd_repo_def)
  note P = s(2) [unfolded prepare_previous_container_def prepare_build_first_def Let_def]
  show "case r of Inr _ \<Rightarrow> phase1 s0 c img s' | Inl e \<Rightarrow> early_fails s0 e s'"
  proof (cases "dx_snapshot_fails x")
    case True
    with P mem assms s(1) show ?thesis
      by (auto simp: snapshot_generated_def truthy_def early_fails_def restore_generated_def phase0_def serving_def)
  next
    case False
    define d where "d = (cd_dir s)\<lparr>ad_prev := Some (save_files ALL_GENERATED_FILES (ad_files (cd_dir s0)))\<rparr>"
    have snap: "snapshot_generated False (cd_dir s) = (Inr (), d)"
      using s(1) by (simp add: snapshot_generated_def d_def phase0_def)
    have files: "\<forall>n \<in> set ALL_GENERATED_FILES. ad_files (snd (restore_generated d)) n = ad_files (cd_dir s0) n"
      by (simp add: d_def restore_generated_def copy_back_at save_files_at)
    show ?thesis
    proof (cases "dx_tag_fails x (image_repo c @ '':prev'')")
      case True
      with P mem assms(2,3) s(1) False snap files show ?thesis
        by (auto simp: truthy_def tag_image_def early_fails_def phase0_def serving_def)
    next
      case nt: False
      with P mem assms s(1) False snap show ?thesis
        by (auto simp: truthy_def tag_image_def phase0_def phase_defs d_def)
    qed
  qed
qed

text \<open>After the start: the new container was observed, then verified.\<close>

definition phase3 :: "deploy_ctx \<Rightarrow> cd \<Rightarrow> container_config \<Rightarrow> string \<Rightarrow> cd \<Rightarrow> bool" where
  "phase3 x s0 c img s \<longleftrightarrow> phase2 s0 c img s \<and> (\<exists>k. m_container (cd_mem s) = Some k
     \<and> c_containerId k = dx_container_id x (cd_docker s) \<and> c_containerId k \<noteq> None)"

definition deployed :: "deploy_ctx \<Rightarrow> cd \<Rightarrow> bool" where
  "deployed x s \<longleftrightarrow> m_status (cd_disk s) = RUNNING \<and> (\<exists>dk k. dk_running (cd_docker s) = dk_running dk
     \<and> dx_verify x dk = Some (cd_verified s) \<and> \<not> ve_failed (cd_verified s)
     \<and> m_container (cd_disk s) = Some k \<and> c_containerId k = dx_container_id x dk \<and> c_containerId k \<noteq> None)"

lemma stage_fails_settled:
  assumes "docker_ok x (image_repo c)" "phase2 s0 c img s" "settle_failed x reason g s = (r, s')"
  shows "\<exists>e. r = Inl e \<and> stage_fails x s0 c img e s'"
  using settle_outcome [OF assms(1) _ assms(3)] assms(2) by (auto simp: phase2_def stage_fails_def)

lemma stage_observe:
  assumes "docker_ok x (image_repo c)"
  shows "triple (phase2 s0 c img) (observe_new_container x) (phase3 x s0 c img) (stage_fails x s0 c img)"
proof (rule tripleI)
  fix s r s' assume s: "phase2 s0 c img s" "observe_new_container x s = (r, s')"
  show "case r of Inr _ \<Rightarrow> phase3 x s0 c img s' | Inl e \<Rightarrow> stage_fails x s0 c img e s'"
  proof (cases "dx_container_id x (cd_docker s)")
    case None
    with s(2) have "settle_failed x ''no container id''
        (\<lambda>s. mark_failed x ''no container id'' (release_fresh (down_quietly x s))) s = (r, s')"
      by (simp add: observe_new_container_def)
    from stage_fails_settled [OF assms s(1) this] show ?thesis by auto
  next
    case (Some cid)
    with s show ?thesis
      by (auto simp: observe_new_container_def set_mem_def upd_container_def phase3_def phase_defs image_repo_def)
  qed
qed

lemma stage_commit:
  "triple (phase3 x s0 c img) (commit_verifying_state x) (phase3 x s0 c img) (stage_fails x s0 c img)"
proof (rule tripleI)
  fix s r s' assume s: "phase3 x s0 c img s" "commit_verifying_state x s = (r, s')"
  then obtain k where k: "m_container (cd_mem s) = Some k" "image_repo k = image_repo c"
      "c_containerId k = dx_container_id x (cd_docker s)" "c_containerId k \<noteq> None"
    by (auto simp: phase3_def phase_defs)
  have ev: "unarchived b (commit (update_status i st u t q) q) = unarchived b q"
    "unarchived b (commit (upsert_from_manifest m a z q) q) = unarchived b q" for b i st u t m a z q
    by (simp_all add: unarchived_def)
  show "case r of Inr _ \<Rightarrow> phase3 x s0 c img s' | Inl e \<Rightarrow> stage_fails x s0 c img e s'"
    using s k by (cases "dx_write_fails x W_verifying")
      (auto simp: commit_verifying_state_def after_def save_manifest_def set_mem_def touch_def refresh_paths_def
        image_repo_def phase3_def phase_defs Let_def ev)
qed

lemma stage_verify:
  assumes "docker_ok x (image_repo c)"
  shows "triple (phase3 x s0 c img) (verify_container_deployment x)
    (\<lambda>s. phase3 x s0 c img s \<and> dx_verify x (cd_docker s) = Some (cd_verified s) \<and> \<not> ve_failed (cd_verified s))
    (stage_fails x s0 c img)"
proof (rule tripleI)
  fix s r s' assume s: "phase3 x s0 c img s" "verify_container_deployment x s = (r, s')"
  have two: "phase2 s0 c img s" using s(1) by (simp add: phase3_def)
  show "case r of Inr _ \<Rightarrow> phase3 x s0 c img s' \<and> dx_verify x (cd_docker s') = Some (cd_verified s')
        \<and> \<not> ve_failed (cd_verified s') | Inl e \<Rightarrow> stage_fails x s0 c img e s'"
  proof (cases "dx_verify x (cd_docker s)")
    case None
    with s two show ?thesis by (auto simp: verify_container_deployment_def phase_defs)
  next
    case (Some v)
    show ?thesis
    proof (cases "ve_failed v")
      case True
      with s(2) Some have "settle_failed x ''probes failed'' (liveness_failed_rollback x ''probes failed'') s = (r, s')"
        by (simp add: verify_container_deployment_def)
      from stage_fails_settled [OF assms two this] show ?thesis by auto
    next
      case False
      with s Some show ?thesis by (auto simp: verify_container_deployment_def phase3_def phase_defs)
    qed
  qed
qed

lemma finalize_artifacts_keep:
  "cd_disk (finalize_build_artifacts x s) = cd_disk s"
  "cd_verified (finalize_build_artifacts x s) = cd_verified s"
  "dk_running (cd_docker (finalize_build_artifacts x s)) = dk_running (cd_docker s)"
  by (auto simp: finalize_build_artifacts_def tag_image_def image_rm_def Let_def split: option.split prod.split sum.split)

lemma record_deployed_keep:
  "cd_disk (record_deployed x s) = cd_disk s" "cd_verified (record_deployed x s) = cd_verified s"
  "cd_docker (record_deployed x s) = cd_docker s"
  by (simp_all add: record_deployed_def Let_def)

lemma final_manifest_keep:
  "cd_docker (final_manifest x s) = cd_docker s" "cd_verified (final_manifest x s) = cd_verified s"
  "m_container (cd_mem (final_manifest x s)) = m_container (cd_mem s)"
  "m_status (cd_mem (final_manifest x s)) = RUNNING" "cd_txn (final_manifest x s) = cd_txn s"
  "cd_settled (final_manifest x s) = cd_settled s" "cd_old_stopped (final_manifest x s) = cd_old_stopped s"
  "cd_build (final_manifest x s) = cd_build s" "cd_reg (final_manifest x s) = cd_reg s"
  "ad_prev (cd_dir (final_manifest x s)) = ad_prev (cd_dir s)"
  by (simp_all add: final_manifest_def set_mem_def touch_def save_last_good_env_def Let_def split: option.split)

lemma finalize_run:
  assumes "finalize_container_deploy x s = (r, s')" "dx_verify x (cd_docker s) = Some (cd_verified s)"
    "\<not> ve_failed (cd_verified s)" "m_container (cd_mem s) = Some k"
    "c_containerId k = dx_container_id x (cd_docker s)" "c_containerId k \<noteq> None"
  obtains (saved) "r = Inr ()" "deployed x s'"
  | (unsaved) "r = Inl (X_error ''save'')" "cd_docker s' = cd_docker s" "m_container (cd_mem s') = m_container (cd_mem s)"
    "cd_txn s' = cd_txn s" "cd_settled s' = cd_settled s" "cd_old_stopped s' = cd_old_stopped s"
    "unarchived (cd_build s') (cd_reg s') = unarchived (cd_build s) (cd_reg s)" "ad_prev (cd_dir s') = ad_prev (cd_dir s)"
    "cd_build s' = cd_build s"
proof -
  define t where "t = final_manifest x (if ve_degraded (cd_verified s)
            then write_reg (add_event (Some (cd_id s)) ''lifecycle_stage'' ''warnings'' (dx_op_source x) (dx_now x)) s
            else s)"
  have t: "cd_docker t = cd_docker s" "cd_verified t = cd_verified s" "m_container (cd_mem t) = m_container (cd_mem s)"
    "m_status (cd_mem t) = RUNNING" "cd_txn t = cd_txn s" "cd_settled t = cd_settled s"
    "cd_old_stopped t = cd_old_stopped s" "unarchived (cd_build t) (cd_reg t) = unarchived (cd_build s) (cd_reg s)"
    "ad_prev (cd_dir t) = ad_prev (cd_dir s)" "cd_build t = cd_build s"
    by (simp_all add: t_def final_manifest_keep)
  have run: "after (save_manifest x W_final)
      (\<lambda>s1. (Inr (), gc_after_deploy x (finalize_build_artifacts x (record_deployed x s1)))) t = (r, s')"
    using assms(1) by (simp add: finalize_container_deploy_def t_def)
  show thesis
  proof (cases "dx_write_fails x W_final")
    case True
    then have "r = Inl (X_error ''save'')" "s' = t"
      using run by (auto simp: after_def save_manifest_def)
    then show thesis using unsaved t by simp
  next
    case False
    then have r: "r = Inr ()" "s' = gc_after_deploy x (finalize_build_artifacts x (record_deployed x (to_disk t)))"
      using run by (auto simp: after_def save_manifest_def to_disk_def)
    have "deployed x s'"
      using assms(2-) t unfolding deployed_def r(2)
      by (auto simp: gc_after_deploy_def Let_def finalize_artifacts_keep record_deployed_keep to_disk_def
          intro!: exI [of _ "cd_docker s"])
    with r(1) show thesis by (rule saved)
  qed
qed

lemma stage_finalize:
  "triple (\<lambda>s. phase3 x s0 c img s \<and> dx_verify x (cd_docker s) = Some (cd_verified s) \<and> \<not> ve_failed (cd_verified s))
    (finalize_container_deploy x) (deployed x) (stage_fails x s0 c img)"
proof (rule tripleI)
  fix s r s' assume s: "phase3 x s0 c img s \<and> dx_verify x (cd_docker s) = Some (cd_verified s) \<and> \<not> ve_failed (cd_verified s)"
    "finalize_container_deploy x s = (r, s')"
  then obtain k where k: "m_container (cd_mem s) = Some k" "c_containerId k = dx_container_id x (cd_docker s)"
      "c_containerId k \<noteq> None"
    unfolding phase3_def by blast
  from s(2) conjunct1 [OF conjunct2 [OF s(1)]] conjunct2 [OF conjunct2 [OF s(1)]] k
  show "case r of Inr _ \<Rightarrow> deployed x s' | Inl e \<Rightarrow> stage_fails x s0 c img e s'"
    by (cases rule: finalize_run) (use s(1) in \<open>simp_all add: phase3_def phase_defs\<close>)
qed

lemma stages_outcome:
  assumes "docker_ok x (image_repo c)" "m_container (cd_disk s0) = Some c"
    "or_else (c_imageId c) (dx_image_id x (cd_docker s0)) = Some old" "old \<noteq> []"
    "dk_refs (cd_docker s0) old = Some img" "dx_identity_ok x"
  shows "triple (phase0 s0) (run_stages (deploy_stages x)) (deployed x)
    (\<lambda>e s. early_fails s0 e s \<or> stage_fails x s0 c img e s)"
proof -
  let ?E = "\<lambda>e s. early_fails s0 e s \<or> stage_fails x s0 c img e s"
  have start: "triple (phase0 s0) (record_stage x n) (phase0 s0) ?E" for n
    by (auto simp: triple_def record_stage_def phase0_def serving_def unarchived_def)
  have identity: "triple (phase0 s0) (\<lambda>s. if dx_identity_ok x then (Inr (), s) else (Inl (X_error ''identity''), s))
      (phase0 s0) ?E"
    using assms(6) by (simp add: triple_def)
  have prepare: "triple (phase0 s0) (prepare_previous_container x) (phase1 s0 c img) ?E"
    by (rule triple_weaken [OF stage_prepare [OF assms(2-5)]]) auto
  have late: "triple P f Q (stage_fails x s0 c img) \<Longrightarrow> triple P f Q ?E" for P f Q
    by (erule triple_weaken) auto
  show ?thesis
    unfolding deploy_stages_def
    by (rule triple_stages [OF start triple_stages [OF identity triple_stages [OF prepare
      triple_stages [OF late [OF stage_render [OF assms(1)]] triple_stages [OF late [OF stage_build [OF assms(1)]]
      triple_stages [OF late [OF stage_swap [OF assms(1)]] triple_stages [OF late [OF stage_observe [OF assms(1)]]
      triple_stages [OF late [OF stage_commit] triple_stages [OF late [OF stage_verify [OF assms(1)]]
      triple_stages [OF late [OF stage_finalize] triple_done]]]]]]]]]])
qed

section \<open>The outcome of a rebuild\<close>

text \<open>The old version was never touched.\<close>

definition untouched :: "cd \<Rightarrow> cd \<Rightarrow> bool" where
  "untouched s0 s \<longleftrightarrow> dk_running (cd_docker s) = dk_running (cd_docker s0)
     \<and> (\<forall>n \<in> set ALL_GENERATED_FILES. ad_files (cd_dir s) n = ad_files (cd_dir s0) n)"

lemma finish_if_running_keep [simp]:
  "cd_dir (finish_if_running x st s) = cd_dir s" "cd_docker (finish_if_running x st s) = cd_docker s"
  "cd_disk (finish_if_running x st s) = cd_disk s" "cd_mem (finish_if_running x st s) = cd_mem s"
  by (simp_all add: finish_if_running_def split: list.split)

lemma release_fresh_keep [simp]:
  "cd_dir (release_fresh s) = cd_dir s" "cd_docker (release_fresh s) = cd_docker s"
  "cd_disk (release_fresh s) = cd_disk s" "cd_mem (release_fresh s) = cd_mem s"
  by (simp_all add: release_fresh_def)

lemma kept_restores:
  "kept s0 c img s \<Longrightarrow>
     \<forall>n \<in> set ALL_GENERATED_FILES. ad_files (snd (restore_generated (cd_dir s))) n = ad_files (cd_dir s0) n"
  by (simp add: kept_def restore_generated_def copy_back_at save_files_at)

lemma handle_cancelled_outcome:
  assumes "kept s0 c img s" "serving s0 s"
  shows "untouched s0 (handle_cancelled x s)
     \<and> cd_disk (handle_cancelled x s) = touch (dx_now x) ((cd_disk s0)\<lparr>m_lastError := Some ''cancelled''\<rparr>)"
proof -
  have "revoke_archive x s = s" using assms(1) by (intro revoke_unarchived) (simp add: kept_def)
  then show ?thesis
    using assms kept_restores [OF assms(1)]
    by (simp add: handle_cancelled_def Let_def untouched_def to_disk_def set_mem_def restore_for_txn_def
        kept_def serving_def)
qed

lemma handle_failed_serving:
  assumes "cd_txn s" "unarchived (cd_build s) (cd_reg s)" "serving s0 s"
    "\<forall>n \<in> set ALL_GENERATED_FILES. ad_files (snd (restore_generated (cd_dir s))) n = ad_files (cd_dir s0) n"
    "handle_failed x reason s = (e, s')"
  shows "e = X_error reason \<and> untouched s0 s' \<and> cd_disk s' = cd_disk s0"
  using assms(5) revoke_unarchived [OF assms(2), of x] assms(1,3,4)
  by (auto simp: handle_failed_def Let_def untouched_def restore_for_txn_def serving_def)

lemma handle_failed_stopped:
  assumes "docker_ok x (image_repo c)" "kept s0 c img s" "cd_old_stopped s" "handle_failed x reason s = (e, s')"
  shows "brought_back x s0 img e s'"
proof -
  have "revoke_archive x s = s" using assms(2) by (intro revoke_unarchived) (simp add: kept_def)
  moreover have "cd_txn s" using assms(2) by (simp add: kept_def)
  moreover obtain r t where ct: "compensate_build_first x reason s = (r, t)" by fastforce
  ultimately show ?thesis
    using assms(3,4) compensation_outcome [OF assms(1,2) ct] by (auto simp: handle_failed_def Let_def)
qed

definition rebuild_result :: "deploy_ctx \<Rightarrow> string \<Rightarrow> cd \<Rightarrow> deploy_exn + unit \<Rightarrow> cd \<Rightarrow> bool" where
  "rebuild_result x img s0 res s \<longleftrightarrow> (case res of
     Inr _ \<Rightarrow> deployed x s
   | Inl X_cancelled \<Rightarrow> untouched s0 s
       \<and> cd_disk s = touch (dx_now x) ((cd_disk s0)\<lparr>m_lastError := Some ''cancelled''\<rparr>)
   | Inl (X_error _) \<Rightarrow> untouched s0 s \<and> cd_disk s = cd_disk s0
   | Inl e \<Rightarrow> brought_back x s0 img e s)"

lemma run_deploy_outcome:
  assumes "docker_ok x (image_repo c)" "phase0 s0 s"
    "triple (phase0 s0) (run_stages (deploy_stages x)) (deployed x)
       (\<lambda>e s. early_fails s0 e s \<or> stage_fails x s0 c img e s)"
    "run_deploy_stages x s = (res, s')"
  shows "rebuild_result x img s0 res s'"
proof -
  obtain r t where rt: "run_stages (deploy_stages x) s = (r, t)" by fastforce
  have o: "case r of Inr _ \<Rightarrow> deployed x t | Inl e \<Rightarrow> early_fails s0 e t \<or> stage_fails x s0 c img e t"
    using assms(2,3) rt by (auto simp: triple_def dest: spec [of _ s])
  show ?thesis
  proof (cases r)
    case (Inr u)
    with assms(4) rt o show ?thesis by (auto simp: run_deploy_stages_def rebuild_result_def)
  next
    case (Inl e)
    consider (early) "early_fails s0 e t"
      | (cancelled) "\<not> cd_settled t" "kept s0 c img t" "e = X_cancelled" "serving s0 t"
      | (serving) reason where "\<not> cd_settled t" "kept s0 c img t" "e = X_error reason" "serving s0 t"
      | (stopped) reason where "\<not> cd_settled t" "kept s0 c img t" "e = X_error reason" "cd_old_stopped t"
      | (settled) "cd_settled t" "brought_back x s0 img e t"
      using o Inl by (auto simp: stage_fails_def)
    then show ?thesis
    proof cases
      case early
      then obtain reason where e: "e = X_error reason" "\<not> cd_settled t" by (auto simp: early_fails_def)
      obtain e' u where h: "handle_failed x reason t = (e', u)" by fastforce
      have "e' = X_error reason \<and> untouched s0 u \<and> cd_disk u = cd_disk s0"
        using early by (intro handle_failed_serving [OF _ _ _ _ h]) (simp_all add: early_fails_def)
      with assms(4) rt Inl e h show ?thesis by (auto simp: run_deploy_stages_def rebuild_result_def)
    next
      case cancelled
      with assms(4) rt Inl handle_cancelled_outcome [OF cancelled(2,4)] show ?thesis
        by (auto simp: run_deploy_stages_def rebuild_result_def)
    next
      case (serving reason)
      obtain e' u where h: "handle_failed x reason t = (e', u)" by fastforce
      have "e' = X_error reason \<and> untouched s0 u \<and> cd_disk u = cd_disk s0"
        using serving kept_restores [OF serving(2)]
        by (intro handle_failed_serving [OF _ _ _ _ h]) (simp_all add: kept_def)
      with assms(4) rt Inl serving h show ?thesis by (auto simp: run_deploy_stages_def rebuild_result_def)
    next
      case (stopped reason)
      obtain e' u where h: "handle_failed x reason t = (e', u)" by fastforce
      have "brought_back x s0 img e' u" by (rule handle_failed_stopped [OF assms(1) stopped(2,4) h])
      with assms(4) rt Inl stopped h show ?thesis
        by (auto simp: run_deploy_stages_def rebuild_result_def brought_back_def split: deploy_exn.splits)
    next
      case settled
      with assms(4) rt Inl show ?thesis
        by (auto simp: run_deploy_stages_def rebuild_result_def brought_back_def split: deploy_exn.splits)
    qed
  qed
qed

lemma env_ready_keeps:
  "ensure_env_rollback_ready h p d = (r, d') \<Longrightarrow> ad_files d' = ad_files d \<and> ad_prev d' = ad_prev d"
  by (auto simp: ensure_env_rollback_ready_def save_last_good_env_def Let_def split: if_split_asm option.splits)

lemma ball_supersede_refs: "(\<forall>x \<in> set (supersede i k t bs). b_id x = b \<longrightarrow> b_image_ref x = None)
    \<longleftrightarrow> (\<forall>x \<in> set bs. b_id x = b \<longrightarrow> b_image_ref x = None)"
  by (auto simp: supersede_def upd_where_def simp del: if_image_distrib split: if_splits)

lemma new_build_unarchived:
  assumes "reg_ok r" "add_build i st sa lp t1 t2 r = Inr (b, r')"
  shows "unarchived b r'"
proof -
  let ?row = "\<lparr>b_id = b, b_instance_id = i, b_status = st, b_started_at = (if truthy sa then sa else Some t1),
    b_finished_at = None, b_log_path = lp, b_error_summary = None, b_image_ref = None, b_image_id = None,
    b_source_hash = None, b_config_snapshot = None\<rparr>"
  have old: "\<forall>x \<in> set (builds r). b_id x \<noteq> next_build_id r" using assms(1) by (auto simp: reg_ok_def)
  have b: "b = next_build_id r"
    "builds r' = (if st = ''running'' then supersede i b t2 (builds r @ [?row]) else builds r @ [?row])"
    using assms(2) by (auto simp: add_build_def Let_def split: if_split_asm)
  with old show ?thesis by (simp add: unarchived_def ball_supersede_refs)
qed

lemma begin_outcome:
  assumes "reg_ok (cd_reg s)" "cd_mem s = cd_disk s" "m_container (cd_disk s) = Some c" "c_containerId c \<noteq> None"
    "rebuild_strategy (cd_disk s) = ''build-first''" "dx_running x (cd_docker s) = Some True"
    "begin_container_deploy x s = (r, s')"
  shows "(case r of Inr _ \<Rightarrow> phase0 s s' | Inl e \<Rightarrow> (\<exists>reason. e = X_error reason) \<and> s' = s)"
proof -
  have order: "choose_order x (cd_disk s) ''rebuild'' (cd_dir s) (cd_docker s) = Some True"
    using assms(5,6) by (simp add: choose_order_def build_first_applies_def)
  show ?thesis
  proof (cases "add_build (cd_id s) ''running'' None (Some (dx_build_log x)) (dx_now x) (dx_now x) (cd_reg s)")
    case (Inl e)
    with assms order show ?thesis by (auto simp: begin_container_deploy_def Let_def)
  next
    case (Inr br)
    obtain b q where br: "br = (b, q)" by fastforce
    have u: "unarchived b (commit (update_last_operation j op t q) q)" for j op t
      using new_build_unarchived [OF assms(1)] Inr br by (simp add: unarchived_def)
    show ?thesis
      using assms(2-4,7) order Inr br u
      by (auto simp: begin_container_deploy_def Let_def phase0_def serving_def)
  qed
qed


section \<open>Every deployment\<close>

text \<open>In both orders, whatever fails: the new build is not archived before its container was verified.\<close>

definition deploy_pending :: "int \<Rightarrow> cd \<Rightarrow> bool" where
  "deploy_pending b s \<longleftrightarrow> cd_build s = b \<and> unarchived b (cd_reg s) \<and> m_container (cd_mem s) \<noteq> None"

definition unarchived_now :: "int \<Rightarrow> deploy_exn \<Rightarrow> cd \<Rightarrow> bool" where
  "unarchived_now b e s \<longleftrightarrow> cd_build s = b \<and> unarchived b (cd_reg s)"

lemmas pending_defs = deploy_pending_def unarchived_now_def

lemma mark_failed_pending [simp]:
  "unarchived b (cd_reg (mark_failed x r s)) = unarchived b (cd_reg s)"
  "cd_build (mark_failed x r s) = cd_build s"
  by (simp_all add: mark_failed_def mark_failed_with_def Let_def to_disk_def set_mem_def)

lemma compensate_pending:
  "unarchived (cd_build s) (cd_reg s) \<Longrightarrow> compensate_build_first x reason s = (r, s')
     \<Longrightarrow> unarchived (cd_build s') (cd_reg s') \<and> cd_build s' = cd_build s \<and> (\<exists>e. r = Inl e)"
  by (auto simp: compensate_build_first_def Let_def to_disk_def set_mem_def split: option.splits prod.splits if_split_asm)

lemma fold_events:
  "unarchived b (cd_reg (fold (\<lambda>item. write_reg (add_event (Some i) k item src t)) items s)) = unarchived b (cd_reg s)
   \<and> cd_build (fold (\<lambda>item. write_reg (add_event (Some i) k item src t)) items s) = cd_build s"
  by (induction items arbitrary: s) simp_all

lemma liveness_pending:
  "unarchived b (cd_reg (liveness_failed_rollback x reason s)) = unarchived b (cd_reg s)
   \<and> cd_build (liveness_failed_rollback x reason s) = cd_build s"
  by (auto simp: liveness_failed_rollback_def Let_def fold_events to_disk_def set_mem_def release_fresh_def
      split: prod.split)

lemma settle_pending:
  assumes "unarchived (cd_build s) (cd_reg s)" "settle_failed x reason g s = (r, s')"
    "\<And>t b. unarchived b (cd_reg (g t)) = unarchived b (cd_reg t) \<and> cd_build (g t) = cd_build t"
  shows "\<exists>e. r = Inl e \<and> cd_build s' = cd_build s \<and> unarchived (cd_build s) (cd_reg s')"
proof -
  let ?t = "s\<lparr>cd_settled := True\<rparr>"
  have t: "revoke_archive x ?t = ?t" "unarchived (cd_build ?t) (cd_reg ?t)"
    using assms(1) by (simp_all add: revoke_unarchived)
  show ?thesis
  proof (cases "cd_txn s")
    case True
    with assms(2) t have "compensate_build_first x reason ?t = (r, s')" by (simp add: settle_failed_def)
    from compensate_pending [OF t(2) this] show ?thesis by auto
  next
    case False
    with assms(2) t(1) have "r = Inl (X_error reason)" "s' = g ?t" by (auto simp: settle_failed_def Let_def)
    with t(2) assms(3) [of "cd_build s" ?t] show ?thesis by simp
  qed
qed

lemma stages_pending:
  assumes "\<And>p r b. unarchived b r \<Longrightarrow> unarchived b (dx_port_env x p r)"
  shows "triple (deploy_pending b) (run_stages [record_stage x n0,
      (\<lambda>s. if dx_identity_ok x then (Inr (), s) else (Inl (X_error ''identity''), s)),
      prepare_previous_container x, render_container_artifacts x, build_container_image x,
      swap_in_new_container x]) (deploy_pending b) (unarchived_now b)"
proof -
  let ?ok = "\<lambda>f. triple (deploy_pending b) f (deploy_pending b) (unarchived_now b)"
  have rec: "?ok (record_stage x n)" for n
    by (auto simp: triple_def record_stage_def pending_defs)
  have rescue: "?ok (rescue_data x)" by (simp add: triple_def rescue_data_def pending_defs)
  have stop: "?ok (stop_old x)" by (auto simp: triple_def stop_old_def pending_defs split: prod.split bool.split)
  have clear: "?ok (clear_container_identity x)"
    by (auto simp: triple_def clear_container_identity_def save_manifest_def pending_defs touch_def upd_container_def)
  have up: "?ok (runtime_up x)" by (auto simp: triple_def runtime_up_def pending_defs split: prod.split bool.split)
  have mark: "?ok mark_stopped" by (simp add: triple_def mark_stopped_def pending_defs)
  have render: "?ok (render_dockerfile x)" "?ok (render_compose x)"
    by (auto simp: triple_def render_dockerfile_def render_compose_def put_files_def pending_defs split: option.split)
  have build: "?ok (runtime_build x)"
    by (auto simp: triple_def runtime_build_def Let_def pending_defs split: prod.split build_answer.split)
  have port: "?ok (choose_port x)"
  proof (rule tripleI)
    fix s r s' assume s: "deploy_pending b s" "choose_port x s = (r, s')"
    obtain a q where a: "ensure_container_port x (cd_id s) (cd_txn s) (cd_reg s) = (a, q)" by fastforce
    then have "unarchived (cd_build s) q"
      using unarchived_port [OF assms, of _ "cd_reg s" "cd_id s" "cd_txn s"] s(1) by (simp add: deploy_pending_def)
    with s a show "case r of Inr _ \<Rightarrow> deploy_pending b s' | Inl e \<Rightarrow> unarchived_now b e s'"
      by (auto simp: choose_port_def pending_defs split: sum.splits prod.splits)
  qed
  have prep: "?ok (prepare_previous_container x)"
  proof (rule tripleI)
    fix s r s' assume s: "deploy_pending b s" "prepare_previous_container x s = (r, s')"
    show "case r of Inr _ \<Rightarrow> deploy_pending b s' | Inl e \<Rightarrow> unarchived_now b e s'"
    proof (cases "cd_txn s")
      case True
      with s show ?thesis
        by (auto simp: prepare_previous_container_def pending_defs split: prod.splits sum.splits)
    next
      case False
      have "?ok (run_stages [rescue_data x, stop_old x, clear_container_identity x])"
        by (intro keep_stages) (auto intro: rescue stop clear)
      with s False show ?thesis
        by (auto simp: prepare_previous_container_def triple_def dest!: spec [of _ s] split: sum.splits)
    qed
  qed
  have swap: "?ok (swap_in_new_container x)"
  proof -
    have "?ok (run_stages ((if txn then [rescue_data x, stop_old x, mark_stopped, clear_container_identity x] else [])
        @ [record_stage x ''compose_up_start'', runtime_up x, record_stage x ''compose_up_done'']))" for txn
      by (intro keep_stages) (auto intro: rescue stop mark clear rec up split: if_split_asm)
    then show ?thesis by (simp add: triple_def swap_in_new_container_def)
  qed
  have arts: "?ok (render_container_artifacts x)"
    unfolding render_container_artifacts_def by (intro keep_stages) (auto intro: rec render port)
  have image: "?ok (build_container_image x)"
    unfolding build_container_image_def by (intro keep_stages) (auto intro: rec build)
  have "?ok (\<lambda>s. if dx_identity_ok x then (Inr (), s) else (Inl (X_error ''identity''), s))"
    by (simp add: triple_def pending_defs)
  with rec prep arts image swap show ?thesis by (intro keep_stages) auto
qed

definition observed :: "int \<Rightarrow> deploy_ctx \<Rightarrow> cd \<Rightarrow> bool" where
  "observed b x s \<longleftrightarrow> deploy_pending b s \<and> (\<exists>k. m_container (cd_mem s) = Some k
     \<and> c_containerId k = dx_container_id x (cd_docker s) \<and> c_containerId k \<noteq> None)"

lemma observe_pending: "triple (deploy_pending b) (observe_new_container x) (observed b x) (unarchived_now b)"
proof (rule tripleI)
  fix s r s' assume s: "deploy_pending b s" "observe_new_container x s = (r, s')"
  show "case r of Inr _ \<Rightarrow> observed b x s' | Inl e \<Rightarrow> unarchived_now b e s'"
  proof (cases "dx_container_id x (cd_docker s)")
    case None
    let ?g = "\<lambda>s. mark_failed x ''no container id'' (release_fresh (down_quietly x s))"
    have g: "unarchived b (cd_reg (?g t)) = unarchived b (cd_reg t) \<and> cd_build (?g t) = cd_build t" for b t
      by (simp add: release_fresh_def down_quietly_def)
    have "settle_failed x ''no container id'' ?g s = (r, s')"
      using s(2) None by (simp add: observe_new_container_def)
    from settle_pending [OF _ this g] s(1) show ?thesis by (auto simp: pending_defs)
  next
    case (Some cid)
    with s show ?thesis
      by (auto simp: observe_new_container_def set_mem_def upd_container_def observed_def pending_defs)
  qed
qed

lemma commit_pending: "triple (observed b x) (commit_verifying_state x) (observed b x) (unarchived_now b)"
proof (rule tripleI)
  fix s r s' assume s: "observed b x s" "commit_verifying_state x s = (r, s')"
  then obtain k where k: "m_container (cd_mem s) = Some k" "c_containerId k = dx_container_id x (cd_docker s)"
      "c_containerId k \<noteq> None"
    unfolding observed_def by blast
  show "case r of Inr _ \<Rightarrow> observed b x s' | Inl e \<Rightarrow> unarchived_now b e s'"
    using s k by (cases "dx_write_fails x W_verifying")
      (auto simp: commit_verifying_state_def after_def save_manifest_def set_mem_def touch_def refresh_paths_def
        observed_def pending_defs Let_def)
qed

lemma verify_pending:
  "triple (observed b x) (verify_container_deployment x)
    (\<lambda>s. observed b x s \<and> dx_verify x (cd_docker s) = Some (cd_verified s) \<and> \<not> ve_failed (cd_verified s)) (unarchived_now b)"
proof (rule tripleI)
  fix s r s' assume s: "observed b x s" "verify_container_deployment x s = (r, s')"
  show "case r of Inr _ \<Rightarrow> observed b x s' \<and> dx_verify x (cd_docker s') = Some (cd_verified s')
        \<and> \<not> ve_failed (cd_verified s') | Inl e \<Rightarrow> unarchived_now b e s'"
  proof (cases "(\<exists>v. dx_verify x (cd_docker s) = Some v \<and> ve_failed v)")
    case True
    then have "settle_failed x ''probes failed'' (liveness_failed_rollback x ''probes failed'') s = (r, s')"
      using s(2) by (auto simp: verify_container_deployment_def)
    from settle_pending [OF _ this liveness_pending] s(1) show ?thesis by (auto simp: observed_def pending_defs)
  next
    case False
    with s show ?thesis
      by (auto simp: verify_container_deployment_def observed_def pending_defs split: option.splits if_split_asm)
  qed
qed

lemma finalize_pending:
  "triple (\<lambda>s. observed b x s \<and> dx_verify x (cd_docker s) = Some (cd_verified s) \<and> \<not> ve_failed (cd_verified s))
    (finalize_container_deploy x) (deployed x) (unarchived_now b)"
proof (rule tripleI)
  fix s r s' assume s: "observed b x s \<and> dx_verify x (cd_docker s) = Some (cd_verified s) \<and> \<not> ve_failed (cd_verified s)"
    "finalize_container_deploy x s = (r, s')"
  then obtain k where k: "m_container (cd_mem s) = Some k" "c_containerId k = dx_container_id x (cd_docker s)"
      "c_containerId k \<noteq> None"
    unfolding observed_def by blast
  from s(2) conjunct1 [OF conjunct2 [OF s(1)]] conjunct2 [OF conjunct2 [OF s(1)]] k
  show "case r of Inr _ \<Rightarrow> deployed x s' | Inl e \<Rightarrow> unarchived_now b e s'"
    by (cases rule: finalize_run) (use s(1) in \<open>simp_all add: observed_def pending_defs\<close>)
qed

lemma all_stages_pending:
  assumes "\<And>p r b. unarchived b r \<Longrightarrow> unarchived b (dx_port_env x p r)"
  shows "triple (deploy_pending b) (run_stages (deploy_stages x)) (deployed x) (unarchived_now b)"
proof -
  have "deploy_stages x = [record_stage x ''host_start'',
      (\<lambda>s. if dx_identity_ok x then (Inr (), s) else (Inl (X_error ''identity''), s)),
      prepare_previous_container x, render_container_artifacts x, build_container_image x,
      swap_in_new_container x] @ [observe_new_container x, commit_verifying_state x,
      verify_container_deployment x, finalize_container_deploy x]"
    by (simp add: deploy_stages_def)
  moreover have "triple (deploy_pending b) (run_stages [observe_new_container x, commit_verifying_state x,
      verify_container_deployment x, finalize_container_deploy x]) (deployed x) (unarchived_now b)"
    by (rule triple_stages [OF observe_pending triple_stages [OF commit_pending triple_stages [OF verify_pending
      triple_stages [OF finalize_pending triple_done]]]])
  ultimately show ?thesis using triple_append [OF stages_pending [OF assms]] by (simp only:)
qed

lemma handlers_pending:
  assumes "unarchived (cd_build s) (cd_reg s)"
  shows "unarchived (cd_build s) (cd_reg (handle_cancelled x s))"
    "handle_failed x reason s = (e, s') \<Longrightarrow> unarchived (cd_build s) (cd_reg s')"
proof -
  note r = revoke_unarchived [OF assms, of x]
  have fin: "unarchived b (cd_reg (finish_if_running x st t)) = unarchived b (cd_reg t)" for b st t
    by (simp add: finish_if_running_def split: list.split)
  have rel: "unarchived b (cd_reg (release_fresh t)) = unarchived b (cd_reg t)" for b t
    by (simp add: release_fresh_def)
  show "unarchived (cd_build s) (cd_reg (handle_cancelled x s))"
    using assms r by (simp add: handle_cancelled_def Let_def to_disk_def set_mem_def restore_for_txn_def fin rel)
  assume h: "handle_failed x reason s = (e, s')"
  obtain q t where c: "compensate_build_first x reason s = (q, t)" by fastforce
  have "unarchived (cd_build s) (cd_reg t)" using compensate_pending [OF assms c] by metis
  with h assms r c show "unarchived (cd_build s) (cd_reg s')"
    by (auto simp: handle_failed_def Let_def restore_for_txn_def down_quietly_def fin rel
        split: if_split_asm sum.splits)
qed

lemma host_container_begins:
  assumes "reg_ok (cd_reg s)" "host_container x s = (res, s')"
  obtains (refused) e where "res = Inl e" "cd_reg s' = cd_reg s"
    | (begun) t where "deploy_pending (next_build_id (cd_reg s)) t" "run_deploy_stages x t = (res, s')"
proof -
  obtain r d where env: "(if Option.bind (m_container (cd_disk s)) c_containerId \<noteq> None
      then ensure_env_rollback_ready (dx_env_hash x) False (cd_dir s) else (Inr (), cd_dir s)) = (r, d)" by fastforce
  define s0 where "s0 = s\<lparr>cd_mem := cd_disk s, cd_dir := d\<rparr>"
  show thesis
  proof (cases "m_runtime (cd_disk s) = DOCKER_COMPOSE \<and> m_container (cd_disk s) \<noteq> None \<and> dx_hooks_ok x
      \<and> dx_available x \<and> (\<exists>u. r = Inr u)")
    case False
    with assms(2) env show thesis
      by (auto simp: host_container_def Let_def intro!: refused split: if_split_asm sum.splits)
  next
    case True
    obtain r1 t where b: "begin_container_deploy x s0 = (r1, t)" by fastforce
    have run: "after (begin_container_deploy x) (run_deploy_stages x) s0 = (res, s')"
      using True assms(2) env by (auto simp: host_container_def Let_def s0_def)
    have "case r1 of Inr _ \<Rightarrow> deploy_pending (next_build_id (cd_reg s)) t | Inl e \<Rightarrow> cd_reg t = cd_reg s"
    proof (cases "choose_order x (cd_mem s0) (if Option.bind (m_container (cd_mem s0)) c_containerId \<noteq> None
        then ''rebuild'' else ''deploy'') (cd_dir s0) (cd_docker s0)")
      case None
      with b show ?thesis by (auto simp: begin_container_deploy_def Let_def s0_def)
    next
      case (Some txn)
      note order = this
      show ?thesis
      proof (cases "add_build (cd_id s0) ''running'' None (Some (dx_build_log x)) (dx_now x) (dx_now x) (cd_reg s0)")
        case (Inl e)
        with b order show ?thesis by (auto simp: begin_container_deploy_def Let_def s0_def)
      next
        case (Inr v)
        obtain n q where v: "v = (n, q)" by fastforce
        have "n = (next_build_id (cd_reg s))" using Inr v by (auto simp: add_build_def s0_def Let_def split: if_split_asm)
        moreover have "unarchived n q"
          using new_build_unarchived [of "cd_reg s0"] Inr v assms(1) by (simp add: s0_def)
        ultimately show ?thesis
          using b order Inr v True by (auto simp: begin_container_deploy_def Let_def deploy_pending_def s0_def)
      qed
    qed
    with run b show thesis by (cases r1) (auto simp: after_def intro: refused begun)
  qed
qed

lemma run_deploy_pending:
  assumes "\<And>p r b. unarchived b r \<Longrightarrow> unarchived b (dx_port_env x p r)" "deploy_pending n t"
    "run_deploy_stages x t = (res, s')"
  shows "case res of Inr _ \<Rightarrow> deployed x s' | Inl _ \<Rightarrow> unarchived n (cd_reg s')"
proof -
  obtain r u where ru: "run_stages (deploy_stages x) t = (r, u)" by fastforce
  have o: "case r of Inr _ \<Rightarrow> deployed x u | Inl e \<Rightarrow> unarchived_now n e u"
    using all_stages_pending [of x n] assms(1,2) ru by (auto simp: triple_def dest: spec [of _ t])
  have h: "unarchived n (cd_reg w)" if "r = Inl (X_error reason)" "handle_failed x reason u = (e, w)" for reason e w
    using handlers_pending(2) [of u x reason e w] o that by (simp add: unarchived_now_def)
  have c: "unarchived n (cd_reg (handle_cancelled x u))" if "r = Inl e" for e
    using handlers_pending(1) [of u x] o that by (simp add: unarchived_now_def)
  show ?thesis
    using assms(3) ru o h c
    by (auto simp: run_deploy_stages_def unarchived_now_def split: sum.splits deploy_exn.splits if_split_asm prod.splits)
qed

text \<open>C29: Whatever the order and whatever fails, a deployment that returns has observed and verified the
  container that its manifest names, and says running; one that does not return leaves no archived
  build behind, so no rollback and no garbage collection takes the failed build for a good version.\<close>

theorem deployment_sound:
  assumes "\<And>p r b. unarchived b r \<Longrightarrow> unarchived b (dx_port_env x p r)" "reg_ok (cd_reg s)"
    "host_container x s = (res, s')"
  shows "case res of Inr _ \<Rightarrow> deployed x s'
    | Inl _ \<Rightarrow> (\<forall>row \<in> set (builds (cd_reg s')). b_id row = next_build_id (cd_reg s) \<longrightarrow> \<not> is_rollback_candidate row)"
proof -
  let ?n = "next_build_id (cd_reg s)"
  have none: "unarchived ?n (cd_reg s)" using assms(2) by (auto simp: unarchived_def reg_ok_def)
  have good: "\<forall>row \<in> set (builds r). b_id row = ?n \<longrightarrow> \<not> is_rollback_candidate row" if "unarchived ?n r" for r
    using that by (auto simp: unarchived_def is_rollback_candidate_def truthy_def)
  show ?thesis using assms(2,3)
  proof (cases rule: host_container_begins)
    case (refused e)
    then show ?thesis using good [OF none] by simp
  next
    case (begun t)
    have "case res of Inr _ \<Rightarrow> deployed x s' | Inl _ \<Rightarrow> unarchived ?n (cd_reg s')"
      by (rule run_deploy_pending [OF assms(1) begun])
    then show ?thesis using good by (auto split: sum.splits)
  qed
qed

section \<open>A refusal that changes the files\<close>

text \<open>The check of the container identity runs before the snapshot of this rebuild is taken. When it
  refuses, the handler still restores the snapshot it finds, which an earlier rebuild left: the old
  container keeps running, but its generated files are replaced by those of an older version.\<close>

theorem refused_rebuild_restores_stale:
  assumes "reg_ok (cd_reg s)" "known_instance (cd_reg s) (m_id (cd_disk s))"
    "m_runtime (cd_disk s) = DOCKER_COMPOSE" "m_container (cd_disk s) = Some c" "c_containerId c \<noteq> None"
    "rebuild_strategy (cd_disk s) = ''build-first''" "dx_running x (cd_docker s) = Some True"
    "dx_available x" "dx_hooks_ok x" "good_recorded (cd_dir s)"
    "\<not> dx_identity_ok x" "ad_prev (cd_dir s) = Some stale" "host_container x s = (res, s')"
  shows "res = Inl (X_error ''identity'') \<and> cd_docker s' = cd_docker s
    \<and> ad_files (cd_dir s') = copy_back ALL_GENERATED_FILES stale (ad_files (cd_dir s))"
proof -
  define s0 where "s0 = s\<lparr>cd_mem := cd_disk s\<rparr>"
  obtain r t where b: "begin_container_deploy x s0 = (r, t)" by fastforce
  have order: "choose_order x (cd_disk s) ''rebuild'' (cd_dir s) (cd_docker s) = Some True"
    using assms(6,7) by (simp add: choose_order_def build_first_applies_def)
  have r: "r = Inr ()" "phase0 s0 t"
  proof -
    show "r = Inr ()"
      using b assms(2,4,5) order
      by (auto simp: begin_container_deploy_def s0_def Let_def add_build_def cd_id_def split: if_split_asm)
    then show "phase0 s0 t"
      using begin_outcome [OF _ _ _ assms(5) _ _ b] assms by (simp add: s0_def)
  qed
  have dir: "cd_dir t = cd_dir s" "cd_docker t = cd_docker s"
    using b assms(4,5) order r(1) by (auto simp: begin_container_deploy_def s0_def Let_def split: sum.splits prod.splits)
  obtain u where u: "run_stages (deploy_stages x) t = (Inl (X_error ''identity''), u)"
      "cd_dir u = cd_dir s" "cd_docker u = cd_docker s" "cd_txn u" "\<not> cd_old_stopped u" "\<not> cd_settled u"
      "unarchived (cd_build u) (cd_reg u)"
    using assms(11) r(2) dir by (simp add: deploy_stages_def after_def record_stage_def phase0_def serving_def)
  obtain e w where h: "handle_failed x ''identity'' u = (e, w)" by fastforce
  have w: "e = X_error ''identity''" "cd_docker w = cd_docker s" "cd_dir w = snd (restore_generated (cd_dir s))"
    using h u by (auto simp: handle_failed_def Let_def restore_for_txn_def revoke_unarchived)
  have "ensure_env_rollback_ready (dx_env_hash x) False (cd_dir s) = (Inr (), cd_dir s)"
    using assms(10) by (simp add: ensure_env_rollback_ready_def)
  then have "host_container x s = run_deploy_stages x t"
    using assms(3-5,8,9) b r(1) by (simp add: host_container_def Let_def after_def s0_def)
  then have "res = Inl e" "s' = w" using assms(13) u h by (simp_all add: run_deploy_stages_def)
  with w assms(12) show ?thesis by (simp add: restore_generated_def)
qed

section \<open>A concrete rebuild\<close>

text \<open>An instance whose new version does not pass its probes.\<close>

definition sample_docker :: docker where
  "sample_docker = \<lparr>dk_refs = [''img1'' \<mapsto> ''img1'', ''lwa-my-site-app:latest'' \<mapsto> ''img1''], dk_running = Some ''img1''\<rparr>"

definition sample_dx :: deploy_ctx where
  "sample_dx = \<lparr>dx_now = ''t'', dx_op_source = None, dx_config = default_config, dx_available = True,
     dx_hooks_ok = True, dx_identity_ok = True, dx_env_hash = (\<lambda>_. True),
     dx_running = (\<lambda>d. Some (dk_running d \<noteq> None)),
     dx_down = (\<lambda>d. (True, d\<lparr>dk_running := None\<rparr>)),
     dx_up = (\<lambda>d. case dk_refs d ''lwa-my-site-app:latest'' of None \<Rightarrow> (False, d)
        | Some i \<Rightarrow> (True, d\<lparr>dk_running := Some i\<rparr>)),
     dx_build = (\<lambda>d. (Built, d\<lparr>dk_refs := (dk_refs d)(''lwa-my-site-app:latest'' \<mapsto> ''img2'')\<rparr>)),
     dx_container_id = (\<lambda>d. map_option (\<lambda>_. ''cid'') (dk_running d)), dx_image_id = dk_running,
     dx_built_image = (\<lambda>d. dk_refs d ''lwa-my-site-app:latest''), dx_tag_fails = (\<lambda>_. False),
     dx_snapshot_fails = False, dx_archive_fails = False, dx_rm_fails = False, dx_snapshot_path = (\<lambda>_. ''snap''),
     dx_rescue_ok = (\<lambda>_. True), dx_dockerfile = (\<lambda>_ f. Some (f(''Dockerfile'' \<mapsto> ''FROM new''))),
     dx_compose = (\<lambda>_ _ f. Some (f(''compose.yaml'' \<mapsto> ''new''))), dx_listening = (\<lambda>_. False),
     dx_port_env = (\<lambda>_ r. r), dx_http_ok = (\<lambda>_. True),
     dx_verify = (\<lambda>_. Some \<lparr>ve_failed = True, ve_degraded = False, ve_liveness = True\<rparr>),
     dx_fingerprints = (\<lambda>_ _. None), dx_source_hash = None, dx_build_log = ''build.log'',
     dx_paths = \<lparr>dp_app = ''current'', dp_compose = ''compose.yaml'', dp_dockerfile = ''Dockerfile'', dp_gateway = ''gw''\<rparr>,
     dx_status_after = (\<lambda>_. Missing), dx_retention = 3, dx_write_fails = (\<lambda>_. False)\<rparr>"

definition sample_dir :: app_dir where
  "sample_dir = \<lparr>ad_files = [''compose.yaml'' \<mapsto> ''now'', ''Dockerfile'' \<mapsto> ''FROM now'', ''.env'' \<mapsto> ''E''],
     ad_prev = Some [''compose.yaml'' \<mapsto> ''older'', ''Dockerfile'' \<mapsto> ''FROM older'', ''.env'' \<mapsto> ''E''],
     ad_env_good = Some [RECORDED \<mapsto> ''ok''], ad_builds = (\<lambda>_. None)\<rparr>"

definition sample_live :: container_config where
  "sample_live = sample_container\<lparr>c_containerId := Some ''cid'', c_imageId := Some ''img1''\<rparr>"

definition sample_cd :: cd where
  "sample_cd = (let m = sample_api\<lparr>m_status := RUNNING, m_container := Some sample_live\<rparr> in
     \<lparr>cd_dir = sample_dir, cd_docker = sample_docker, cd_reg = sample_reg, cd_mem = m, cd_disk = m, cd_build = 0,
      cd_kind = [], cd_txn = False, cd_port = 0, cd_fresh = False, cd_old_stopped = False, cd_stop_aborted = False,
      cd_up_completed = False, cd_settled = False, cd_verified = \<lparr>ve_failed = True, ve_degraded = False, ve_liveness = False\<rparr>\<rparr>)"

lemma sample_docker_ok: "docker_ok sample_dx (image_repo sample_live)"
  by (simp add: docker_ok_def sample_dx_def image_repo_def sample_live_def sample_container_def split: option.split)

lemma sample_cd_facts:
  "reg_ok (cd_reg sample_cd)" "m_container (cd_disk sample_cd) = Some sample_live"
  "c_containerId sample_live \<noteq> None" "rebuild_strategy (cd_disk sample_cd) = ''build-first''"
  "dx_running sample_dx (cd_docker sample_cd) = Some True"
  "or_else (c_imageId sample_live) (dx_image_id sample_dx (cd_docker sample_cd)) = Some ''img1''"
  "dk_refs (cd_docker sample_cd) ''img1'' = Some ''img1''" "m_runtime (cd_disk sample_cd) = DOCKER_COMPOSE"
  "m_id (cd_disk sample_cd) = ''my-site''" "cd_dir sample_cd = sample_dir" "cd_docker sample_cd = sample_docker"
  "cd_reg sample_cd = sample_reg"
  by (simp_all add: sample_cd_def Let_def reg_ok_sample sample_live_def rebuild_strategy_def sample_container_def
      sample_dx_def sample_docker_def or_else_def truthy_def sample_api_def sample_manifest_def)


theorem deployment_sound_witness:
  "case fst (host_container sample_dx sample_cd) of Inr _ \<Rightarrow> deployed sample_dx (snd (host_container sample_dx sample_cd))
    | Inl _ \<Rightarrow> (\<forall>row \<in> set (builds (cd_reg (snd (host_container sample_dx sample_cd)))).
        b_id row = next_build_id (cd_reg sample_cd) \<longrightarrow> \<not> is_rollback_candidate row)"
proof -
  have "unarchived b (dx_port_env sample_dx p r)" if "unarchived b r" for p r b
    using that by (simp add: sample_dx_def)
  from deployment_sound [OF this sample_cd_facts(1)] show ?thesis by (simp add: prod_eq_iff)
qed

theorem refused_rebuild_restores_stale_witness:
  "\<exists>s'. host_container (sample_dx\<lparr>dx_identity_ok := False\<rparr>) sample_cd = (Inl (X_error ''identity''), s')
     \<and> dk_running (cd_docker s') = Some ''img1'' \<and> ad_files (cd_dir sample_cd) ''compose.yaml'' = Some ''now''
     \<and> ad_files (cd_dir s') ''compose.yaml'' = Some ''older''"
proof -
  let ?x = "sample_dx\<lparr>dx_identity_ok := False\<rparr>"
  obtain res s' where h: "host_container ?x sample_cd = (res, s')" by fastforce
  have known: "known_instance (cd_reg sample_cd) (m_id (cd_disk sample_cd))"
    unfolding sample_cd_facts by code_simp
  have "good_recorded (cd_dir sample_cd)" "ad_prev (cd_dir sample_cd)
      = Some [''compose.yaml'' \<mapsto> ''older'', ''Dockerfile'' \<mapsto> ''FROM older'', ''.env'' \<mapsto> ''E'']"
    by (simp_all add: sample_cd_facts sample_dir_def good_recorded_def)
  from refused_rebuild_restores_stale [OF sample_cd_facts(1) known sample_cd_facts(8,2,3,4) _ _ _ this(1) _ this(2) h]
    sample_cd_facts(5)
  have "res = Inl (X_error ''identity'')" "cd_docker s' = sample_docker"
    "ad_files (cd_dir s') ''compose.yaml'' = Some ''older''"
    by (simp_all add: sample_dx_def sample_cd_facts copy_back_at ALL_GENERATED_FILES_def GENERATED_FILES_def)
  with h show ?thesis by (simp add: sample_cd_facts sample_docker_def sample_dir_def)
qed

end
