(* ===== verification/Docker_Query.thy ===== *)
theory Docker_Query
  imports Logs Lwa_Text Registry_Tables
begin

text \<open>
  Models how \<^verbatim>\<open>docker_runtime.py\<close> asks Docker about an instance: the captured execution of a
  command, the Compose command line, the observations \<open>container_id\<close>, \<open>image_id\<close>, \<open>bind_mounts\<close>,
  \<open>status\<close>, \<open>inspect_state\<close> and \<open>is_running\<close>, and the lifecycle commands with their events. Running a
  program and \<^verbatim>\<open>json.loads\<close> are parameters. Texts that the classifiers read are kept as their UTF-8
  bytes; the texts of the other errors are short labels.
\<close>

section \<open>Texts\<close>

text \<open>The words that the classifiers look for, as their UTF-8 bytes.\<close>

definition NO_PERMISSION :: string where "NO_PERMISSION = [CHR 0xE6, CHR 0x9D, CHR 0x83, CHR 0xE9, CHR 0x99, CHR 0x90, CHR 0xE4, CHR 0xB8, CHR 0x8D,
     CHR 0xE8, CHR 0xB6, CHR 0xB3]"
definition TIMED_OUT :: string where "TIMED_OUT = [CHR 0xE8, CHR 0xB6, CHR 0x85, CHR 0xE6, CHR 0x97, CHR 0xB6]"
definition REFUSED :: string where "REFUSED = [CHR 0xE8, CHR 0xBF, CHR 0x9E, CHR 0xE6, CHR 0x8E, CHR 0xA5, CHR 0xE8, CHR 0xA2, CHR 0xAB,
     CHR 0xE6, CHR 0x8B, CHR 0x92, CHR 0xE7, CHR 0xBB, CHR 0x9D]"

definition is_docker_permission_error :: "string \<Rightarrow> bool" where
  "is_docker_permission_error text =
     (let blob = to_lower text in
      if blob = [] then False
      else if contains NO_PERMISSION text then True
      else contains ''permission denied'' blob
        \<or> contains ''connect: permission denied'' blob
        \<or> (contains ''docker.sock'' blob \<and> contains ''permission'' blob))"

section \<open>Running a command\<close>

datatype docker_run =
    No_program
  | Os_error string
  | Timed_out
  | Exited int string string

record compose_result =
  cr_args :: "string list"
  cr_returncode :: int
  cr_stdout :: string
  cr_stderr :: string

definition cr_ok :: "compose_result \<Rightarrow> bool" where "cr_ok r \<longleftrightarrow> cr_returncode r = 0"

text \<open>\<open>DockerError\<close> with its text, and any other exception with its text.\<close>

datatype docker_exn = Docker_raised string | Python_raised string

definition QUERY_TIMEOUT :: nat where "QUERY_TIMEOUT = 60"

text \<open>The messages of \<open>_execute\<close>.\<close>

definition NOT_FOUND_TEXT :: string where
  "NOT_FOUND_TEXT = ''docker ''
     @ [CHR 0xE5, CHR 0x91, CHR 0xBD, CHR 0xE4, CHR 0xBB, CHR 0xA4, CHR 0xE6, CHR 0x9C, CHR 0xAA,
     CHR 0xE6, CHR 0x89, CHR 0xBE, CHR 0xE5, CHR 0x88, CHR 0xB0, CHR 0xEF, CHR 0xBC, CHR 0x9A,
     CHR 0xE8, CHR 0xAF, CHR 0xB7, CHR 0xE7, CHR 0xA1, CHR 0xAE, CHR 0xE8, CHR 0xAE, CHR 0xA4]
     @ '' Docker ''
     @ [CHR 0xE5, CHR 0xB7, CHR 0xB2, CHR 0xE5, CHR 0xAE, CHR 0x89, CHR 0xE8, CHR 0xA3, CHR 0x85,
     CHR 0xE4, CHR 0xB8, CHR 0x94]
     @ '' docker ''
     @ [CHR 0xE5, CHR 0x9C, CHR 0xA8]
     @ '' PATH ''
     @ [CHR 0xE4, CHR 0xB8, CHR 0xAD]"

definition FAILED_PREFIX :: string where
  "FAILED_PREFIX = ''docker ''
     @ [CHR 0xE5, CHR 0x91, CHR 0xBD, CHR 0xE4, CHR 0xBB, CHR 0xA4, CHR 0xE6, CHR 0x89, CHR 0xA7,
     CHR 0xE8, CHR 0xA1, CHR 0x8C, CHR 0xE5, CHR 0xA4, CHR 0xB1, CHR 0xE8, CHR 0xB4, CHR 0xA5,
     CHR 0xEF, CHR 0xBC, CHR 0x9A]"

definition TIMED_OUT_PREFIX :: string where
  "TIMED_OUT_PREFIX = [CHR 0xE5, CHR 0x91, CHR 0xBD, CHR 0xE4, CHR 0xBB, CHR 0xA4, CHR 0xE8, CHR 0xB6, CHR 0x85,
     CHR 0xE6, CHR 0x97, CHR 0xB6, CHR 0xEF, CHR 0xBC, CHR 0x88]"

definition TIMED_OUT_MIDDLE :: string where
  "TIMED_OUT_MIDDLE = ''s''
     @ [CHR 0xEF, CHR 0xBC, CHR 0x89, CHR 0xEF, CHR 0xBC, CHR 0x9A]"

definition execute_captured ::
  "(string list \<Rightarrow> docker_run) \<Rightarrow> nat \<Rightarrow> string list \<Rightarrow> docker_exn + compose_result" where
  "execute_captured run timeout args =
     (case run args of
        No_program \<Rightarrow> Inl (Docker_raised NOT_FOUND_TEXT)
      | Os_error e \<Rightarrow> Inl (Docker_raised (FAILED_PREFIX @ e))
      | Timed_out \<Rightarrow> Inl (Docker_raised (TIMED_OUT_PREFIX @ dec timeout @ TIMED_OUT_MIDDLE @ join_on CHR '' '' args))
      | Exited code out err \<Rightarrow>
          Inr \<lparr>cr_args = args, cr_returncode = code, cr_stdout = out, cr_stderr = err\<rparr>)"

text \<open>What an instance's queries depend on: its files, its manifest, and the two parameters.\<close>

record docker_env =
  de_run :: "string list \<Rightarrow> docker_run"
  de_loads :: "string \<Rightarrow> json option"
  de_id :: string
  de_compose_exists :: bool
  de_compose_path :: string
  de_env_is_file :: bool
  de_env_path :: string
  de_manifest :: "manifest option"

type_synonym 'a query = "docker_env \<Rightarrow> docker_exn + 'a"

definition run_query :: "string list \<Rightarrow> compose_result query" where
  "run_query args e = execute_captured (de_run e) QUERY_TIMEOUT args"

definition compose_cmd :: "docker_env \<Rightarrow> string list \<Rightarrow> string list" where
  "compose_cmd e args = [''docker'', ''compose'']
     @ (if de_env_is_file e then [''--env-file'', de_env_path e] else [])
     @ [''-f'', de_compose_path e] @ args"

section \<open>The container of an instance\<close>

definition name_char :: "char \<Rightarrow> bool" where
  "name_char c \<longleftrightarrow> is_alnum c \<or> c \<in> set ''_.-''"

definition label_char :: "char \<Rightarrow> bool" where
  "label_char c \<longleftrightarrow> is_digit c \<or> is_lower c \<or> c \<in> set ''_-''"

definition rendered_name :: "string \<Rightarrow> string \<Rightarrow> string" where
  "rendered_name project i =
     (case project of
        [] \<Rightarrow> i
      | c # cs \<Rightarrow> if is_alnum c \<and> list_all name_char cs then project else i)"

definition project_label :: "string \<Rightarrow> string" where
  "project_label name = dropWhile (\<lambda>c. c \<in> set ''_-'') (filter label_char (to_lower name))"

text \<open>Without the Compose file the container is looked up by the labels that Compose gives it.\<close>

definition ps_args :: "bool \<Rightarrow> string list" where
  "ps_args all_containers = (if all_containers then [''ps'', ''--all'', ''-q''] else [''ps'', ''-q''])"

definition label_filters :: "string \<Rightarrow> string \<Rightarrow> string list" where
  "label_filters project service = [''--filter'', ''label=com.docker.compose.project='' @ project,
     ''--filter'', ''label=com.docker.compose.service='' @ service]"

definition label_command :: "docker_env \<Rightarrow> bool \<Rightarrow> docker_exn + string list" where
  "label_command e all_containers =
     (case de_manifest e of
        None \<Rightarrow> Inl (Docker_raised ''ps: manifest'')
      | Some m \<Rightarrow>
          (case m_container m of
             None \<Rightarrow> Inl (Docker_raised ''ps: identity'')
           | Some c \<Rightarrow>
               if m_id m \<noteq> de_id e \<or> strip (c_serviceName c) = [] then Inl (Docker_raised ''ps: identity'')
               else (let project = project_label (rendered_name (c_projectName c) (m_id m)) in
                 if project = [] then Inl (Docker_raised ''ps: project'')
                 else Inr (''docker'' # ps_args all_containers @ label_filters project (c_serviceName c)))))"

definition container_id_strict :: "bool \<Rightarrow> string option query" where
  "container_id_strict all_containers e =
     (case (if de_compose_exists e then Inr (compose_cmd e (ps_args all_containers))
            else label_command e all_containers) of
        Inl x \<Rightarrow> Inl x
      | Inr command \<Rightarrow>
          (case run_query command e of
             Inl x \<Rightarrow> Inl x
           | Inr r \<Rightarrow>
               if \<not> cr_ok r then Inl (Docker_raised ''ps: exit'')
               else (let ids = splitlines (strip (cr_stdout r)) in
                 if \<not> de_compose_exists e \<and> length ids > 1 then Inl (Docker_raised ''ps: several'')
                 else Inr (case ids of [] \<Rightarrow> None | i # _ \<Rightarrow> Some i))))"

definition container_id :: "bool \<Rightarrow> string option query" where
  "container_id all_containers e =
     (case container_id_strict all_containers e of
        Inl (Docker_raised _) \<Rightarrow> Inr None
      | answer \<Rightarrow> answer)"

text \<open>Output that is used only if the command succeeded and printed something.\<close>

definition printed :: "compose_result \<Rightarrow> string option" where
  "printed r = (if cr_ok r \<and> strip (cr_stdout r) \<noteq> [] then Some (strip (cr_stdout r)) else None)"

definition image_of_config :: "string option query" where
  "image_of_config e =
     (case run_query (compose_cmd e [''config'', ''--images'']) e of
        Inl x \<Rightarrow> Inl x
      | Inr r \<Rightarrow>
          if \<not> cr_ok r then Inr None
          else (case filter (\<lambda>l. l \<noteq> []) (map strip (splitlines (cr_stdout r))) of
              [] \<Rightarrow> Inr None
            | ref # _ \<Rightarrow>
                (case run_query [''docker'', ''image'', ''inspect'', ref, ''--format'', ''{{.Id}}''] e of
                   Inl x \<Rightarrow> Inl x
                 | Inr r2 \<Rightarrow> Inr (printed r2))))"

definition image_id :: "string option query" where
  "image_id e =
     (case container_id False e of
        Inl x \<Rightarrow> Inl x
      | Inr cid \<Rightarrow>
          if \<not> truthy cid then image_of_config e
          else (case run_query [''docker'', ''inspect'', the cid, ''--format'', ''{{.Image}}''] e of
              Inl x \<Rightarrow> Inl x
            | Inr r \<Rightarrow> (case printed r of Some i \<Rightarrow> Inr (Some i) | None \<Rightarrow> image_of_config e)))"

section \<open>Mounts\<close>

definition json_true :: "json \<Rightarrow> bool" where
  "json_true j = (case j of JNull \<Rightarrow> False | JBool b \<Rightarrow> b | JInt n \<Rightarrow> n \<noteq> 0 | JStr s \<Rightarrow> s \<noteq> []
     | JArr xs \<Rightarrow> xs \<noteq> [] | JObj ms \<Rightarrow> ms \<noteq> [])"

definition is_obj :: "json \<Rightarrow> bool" where
  "is_obj j = (case j of JObj _ \<Rightarrow> True | _ \<Rightarrow> False)"

definition get_or :: "json \<Rightarrow> string \<Rightarrow> json \<Rightarrow> json" where
  "get_or j k d = (case obj_get j k of None \<Rightarrow> d | Some v \<Rightarrow> v)"

definition json_or :: "json \<Rightarrow> json \<Rightarrow> json" where
  "json_or a b = (if json_true a then a else b)"

text \<open>\<open>(data.get(k) or "").lower()\<close>: a true value that is no text has no \<open>lower\<close>.\<close>

definition lower_member :: "json \<Rightarrow> string \<Rightarrow> docker_exn + string" where
  "lower_member j k =
     (case json_or (get_or j k JNull) (JStr []) of
        JStr s \<Rightarrow> Inr (to_lower s)
      | _ \<Rightarrow> Inl (Python_raised ''has no attribute lower''))"

record bind_mount =
  bm_source :: json
  bm_destination :: json

fun collect_mounts :: "json list \<Rightarrow> docker_exn + bind_mount list" where
  "collect_mounts [] = Inr []"
| "collect_mounts (item # items) =
     (if \<not> is_obj item then collect_mounts items
      else (case lower_member item ''Type'' of
          Inl x \<Rightarrow> Inl x
        | Inr ty \<Rightarrow>
            (let destination = json_or (get_or item ''Destination'' JNull) (JStr []) in
             if ty \<noteq> ''bind'' \<or> \<not> json_true destination then collect_mounts items
             else map_sum id (Cons \<lparr>bm_source = json_or (get_or item ''Source'' JNull) (JStr []),
                 bm_destination = destination\<rparr>) (collect_mounts items))))"

definition bind_mounts :: "bool \<Rightarrow> bind_mount list query" where
  "bind_mounts all_containers e =
     (case container_id_strict all_containers e of
        Inl x \<Rightarrow> Inl x
      | Inr cid \<Rightarrow>
          if \<not> truthy cid then Inr []
          else (case run_query [''docker'', ''inspect'', the cid, ''--format'', ''{{json .Mounts}}''] e of
              Inl x \<Rightarrow> Inl x
            | Inr r \<Rightarrow>
                if \<not> cr_ok r then Inl (Docker_raised ''inspect_mounts: exit'')
                else (let raw = strip (cr_stdout r) in
                  if raw = [] \<or> raw = ''null'' then Inr []
                  else (case de_loads e raw of
                      Some (JArr xs) \<Rightarrow> collect_mounts xs
                    | _ \<Rightarrow> Inl (Docker_raised ''inspect_mounts: json'')))))"

section \<open>The state of the container\<close>

definition ps_lines :: "(string \<Rightarrow> json option) \<Rightarrow> string \<Rightarrow> json list" where
  "ps_lines loads text = filter is_obj (List.map_filter loads
     (filter (\<lambda>l. l \<noteq> []) (map strip (splitlines text))))"

definition iter_ps_json :: "(string \<Rightarrow> json option) \<Rightarrow> string \<Rightarrow> json list" where
  "iter_ps_json loads stdout =
     (let text = strip stdout in
      if text = [] then []
      else (case loads text of
          Some (JArr xs) \<Rightarrow> filter is_obj xs
        | Some (JObj ms) \<Rightarrow> [JObj ms]
        | _ \<Rightarrow> ps_lines loads text))"

text \<open>One published port; \<open>py_str\<close> is Python's \<open>str\<close> of a value.\<close>

definition port_text :: "(json \<Rightarrow> string) \<Rightarrow> json \<Rightarrow> string option" where
  "port_text py_str p =
     (let pub = get_or p ''PublishedPort'' JNull; tgt = get_or p ''TargetPort'' JNull;
          url = get_or p ''URL'' JNull in
      if \<not> is_obj p then None
      else if json_true url then Some (py_str url)
      else if json_true pub \<and> json_true tgt then Some (py_str pub @ ''->'' @ py_str tgt)
      else None)"

definition extract_ports :: "(json \<Rightarrow> string) \<Rightarrow> json \<Rightarrow> string list" where
  "extract_ports py_str data =
     (case get_or data ''Publishers'' JNull of
        JArr pubs \<Rightarrow> List.map_filter (port_text py_str) pubs
      | _ \<Rightarrow> (case get_or data ''Ports'' JNull of
          JStr s \<Rightarrow> if s \<noteq> [] then [s] else []
        | _ \<Rightarrow> []))"

record container_status =
  cs_service :: json
  cs_name :: json
  cs_container_id :: json
  cs_image :: json
  cs_state :: string
  cs_status_text :: json
  cs_health :: json

definition status_of_item :: "json \<Rightarrow> docker_exn + container_status" where
  "status_of_item data = map_sum id (\<lambda>state. \<lparr>cs_service = get_or data ''Service'' (JStr []),
     cs_name = get_or data ''Name'' (JStr []),
     cs_container_id = json_or (get_or data ''Id'' JNull) (get_or data ''ContainerID'' JNull),
     cs_image = get_or data ''Image'' (JStr []), cs_state = state,
     cs_status_text = get_or data ''Status'' (JStr []), cs_health = get_or data ''Health'' JNull\<rparr>)
     (lower_member data ''State'')"

definition HINTED :: string where
  \<comment> \<open>how the text of a permission error begins; the hint that follows is left out\<close>
  "HINTED = ''Docker '' @ [CHR 0xE6, CHR 0x9D, CHR 0x83, CHR 0xE9, CHR 0x99, CHR 0x90, CHR 0xE4, CHR 0xB8, CHR 0x8D,
     CHR 0xE8, CHR 0xB6, CHR 0xB3, CHR 0xEF, CHR 0xBC, CHR 0x88, CHR 0xE6, CHR 0x97, CHR 0xA0,
     CHR 0xE6, CHR 0xB3, CHR 0x95, CHR 0xE8, CHR 0xAE, CHR 0xBF, CHR 0xE9, CHR 0x97, CHR 0xAE]
     @ '' docker.sock'' @ [CHR 0xEF, CHR 0xBC, CHR 0x89, CHR 0xEF, CHR 0xBC, CHR 0x9A]"

definition status_of :: "container_status option query" where
  "status_of e =
     (case run_query (compose_cmd e [''ps'', ''--format'', ''json'', ''--all'']) e of
        Inl x \<Rightarrow> Inl x
      | Inr r \<Rightarrow>
          if \<not> cr_ok r
          then (if is_docker_permission_error (cr_stderr r @ [LF] @ cr_stdout r)
                then Inl (Docker_raised HINTED) else Inr None)
          else (case iter_ps_json (de_loads e) (cr_stdout r) of
              [] \<Rightarrow> Inr None
            | data # _ \<Rightarrow> map_sum id Some (status_of_item data)))"

definition is_running :: "bool query" where
  "is_running e = map_sum id (\<lambda>st. case st of None \<Rightarrow> False | Some s \<Rightarrow> cs_state s = ''running'') (status_of e)"

record inspection =
  in_exit_code :: json
  in_oom_killed :: json
  in_restart_count :: json
  in_error :: json
  in_status :: json

text \<open>Every failure is an empty answer.\<close>

definition inspect_state :: "docker_env \<Rightarrow> inspection option" where
  "inspect_state e =
     (case status_of e of
        Inl _ \<Rightarrow> None
      | Inr st \<Rightarrow>
          (let seen = (case st of None \<Rightarrow> JNull | Some s \<Rightarrow> cs_container_id s);
               cid = (if json_true seen then seen
                      else (case container_id False e of Inr (Some i) \<Rightarrow> JStr i | _ \<Rightarrow> JNull)) in
           case cid of
             JStr i \<Rightarrow>
               if i = [] then None
               else (case run_query [''docker'', ''inspect'', i, ''--format'', ''{{json .}}''] e of
                   Inl _ \<Rightarrow> None
                 | Inr r \<Rightarrow>
                     if \<not> cr_ok r then None
                     else (case de_loads e (cr_stdout r) of
                         Some (JObj ms) \<Rightarrow>
                           (let data = JObj ms; raw = get_or data ''State'' JNull;
                                state = (if is_obj raw then raw else JObj []) in
                            Some \<lparr>in_exit_code = get_or state ''ExitCode'' JNull,
                              in_oom_killed = get_or state ''OOMKilled'' JNull,
                              in_restart_count = get_or data ''RestartCount'' JNull,
                              in_error = get_or state ''Error'' JNull, in_status = get_or state ''Status'' JNull\<rparr>)
                       | _ \<Rightarrow> None))
           | _ \<Rightarrow> None))"

section \<open>Commands that change the container\<close>

text \<open>The execution with a log is a parameter. \<open>_require_ok\<close> turns a failed command into an error;
  after a successful one an event is written, and what that write raises is swallowed.\<close>

definition require_ok :: "string \<Rightarrow> compose_result \<Rightarrow> docker_exn + compose_result" where
  "require_ok action r = (if cr_ok r then Inr r else Inl (Docker_raised action))"

definition docker_event :: "string \<Rightarrow> string \<Rightarrow> string \<Rightarrow> reg \<Rightarrow> reg" where
  "docker_event i kind now r = (case add_event (Some i) kind kind None now r of Inl _ \<Rightarrow> r | Inr (_, r') \<Rightarrow> r')"

type_synonym 'd logged_run = "string list \<Rightarrow> 'd \<Rightarrow> (docker_exn + compose_result) \<times> 'd"

definition docker_command ::
  "'d logged_run \<Rightarrow> docker_env \<Rightarrow> string list \<Rightarrow> string \<Rightarrow> string \<Rightarrow> string \<Rightarrow> 'd \<times> reg
     \<Rightarrow> (docker_exn + compose_result) \<times> 'd \<times> reg" where
  "docker_command run e args action kind now w =
     (case run (compose_cmd e args) (fst w) of
        (Inl x, d) \<Rightarrow> (Inl x, d, snd w)
      | (Inr r, d) \<Rightarrow>
          (case require_ok action r of
             Inl x \<Rightarrow> (Inl x, d, snd w)
           | Inr r \<Rightarrow> (Inr r, d, docker_event (de_id e) kind now (snd w))))"

definition docker_up where
  "docker_up run e force_recreate detached = docker_command run e
     (''up'' # (if force_recreate then [''--force-recreate''] else []) @ (if detached then [''-d''] else []))
     ''up'' ''start''"

definition docker_stop where
  "docker_stop run e = docker_command run e [''stop''] ''stop'' ''stop''"

definition docker_start where
  "docker_start run e = docker_command run e [''start''] ''start'' ''start''"

definition docker_restart where
  "docker_restart run e = docker_command run e [''restart''] ''restart'' ''restart''"

definition docker_down where
  "docker_down run e remove_volumes = docker_command run e
     (''down'' # (if remove_volumes then [''-v''] else [])) ''down'' ''down''"

definition docker_logs :: "nat \<Rightarrow> string option \<Rightarrow> string query" where
  "docker_logs tail_lines since e =
     (case run_query (compose_cmd e ([''logs'', ''--no-color'', ''--tail'', dec tail_lines]
          @ (if truthy since then [''--since'', the since] else []))) e of
        Inl x \<Rightarrow> Inl x
      | Inr r \<Rightarrow> if cr_ok r then Inr (cr_stdout r) else Inl (Docker_raised ''logs''))"

end
