(* ===== verification/Status_Observation.thy ===== *)
theory Status_Observation
  imports Docker_Query Rollback Lwa_Numbers
begin

text \<open>
  Models how the state of an instance is observed and written back: the classification of Docker's
  errors (\<^verbatim>\<open>capability.py\<close>), \<open>observe_status\<close> with its container and static parts
  (\<^verbatim>\<open>lifecycle.py\<close>), and \<open>sync_status\<close> with the recovery of builds that nobody finishes
  (\<^verbatim>\<open>status.py\<close>). The instance lock is held. The probes of the gateway, the age of a time stamp in
  microseconds and the result of writing the manifest are parameters.
\<close>

section \<open>Classification\<close>

definition classify_docker_observation_error :: "string option \<Rightarrow> string option" where
  "classify_docker_observation_error text =
     (case text of
        None \<Rightarrow> None
      | Some t \<Rightarrow>
          (let blob = strip t; lower = to_lower blob in
           if blob = [] then None
           else if is_docker_permission_error blob then Some ''permission_denied''
           else if contains TIMED_OUT blob \<or> contains ''timeout'' lower \<or> contains ''timed out'' lower
           then Some ''timeout''
           else if contains ''cannot connect'' lower \<or> contains ''is the docker daemon running'' lower
             \<or> contains ''docker daemon'' lower \<or> contains REFUSED blob
             \<or> contains ''connection refused'' lower \<or> contains ''daemon_unavailable'' lower
           then Some ''daemon_unavailable''
           else if contains ''json'' lower \<and> (contains ''decode'' lower \<or> contains ''parse'' lower)
           then Some ''parse_error''
           else Some ''unknown''))"

definition docker_state_pending :: "string \<Rightarrow> bool" where
  "docker_state_pending state \<longleftrightarrow> state \<in> {''unavailable'', ''daemon_unavailable''}"

text \<open>Delays in seconds. The exponent is cut before the power is computed.\<close>

definition RETRY_EXPONENT_CAP :: int where "RETRY_EXPONENT_CAP = 6"

definition capability_retry_delay :: "int \<Rightarrow> int \<Rightarrow> int \<Rightarrow> int" where
  "capability_retry_delay base max_delay streak =
     min max_delay (base * 2 ^ nat (min (max (streak - 1) 0) RETRY_EXPONENT_CAP))"

definition next_capability_probe_delay ::
  "int \<Rightarrow> int \<Rightarrow> int \<Rightarrow> int \<Rightarrow> bool \<Rightarrow> int \<times> bool \<Rightarrow> int \<times> int \<times> bool" where
  "next_capability_probe_delay initial refresh base max_delay pending s =
     (let (streak, first_wait) = s in
      if first_wait then (initial, 0, False)
      else if pending then (capability_retry_delay base max_delay (streak + 1), streak + 1, False)
      else (refresh, 0, False))"

section \<open>Observing a container\<close>

record observe_env =
  oe_docker :: "string \<Rightarrow> docker_env"
  oe_now :: string
  oe_http_ok :: "int \<Rightarrow> bool"
  oe_pid_file :: "string \<Rightarrow> string option"
  oe_pid_alive :: "int \<Rightarrow> bool"
  oe_healthy :: "int \<Rightarrow> bool"
  oe_caddy :: bool
  oe_admin_alive :: bool
  oe_save_fails :: "string \<Rightarrow> bool"
  oe_age :: "string \<Rightarrow> nat"

text \<open>The registry, and the manifests on disk as far as they can be loaded.\<close>

record watch =
  w_reg :: reg
  w_manifests :: "string \<Rightarrow> manifest option"

definition all_statuses :: "status list" where
  "all_statuses = [PENDING, BUILDING, RUNNING, STOPPED, FAILED, QUEUED, CANCELLING, CANCELLED,
     GATEWAY_DOWN, CONFIG_INVALID, VERIFYING, DEGRADED]"

definition parse_status :: "string \<Rightarrow> status option" where
  "parse_status v = find (\<lambda>s. status_value s = v) all_statuses"

definition record_ok :: "observe_env \<Rightarrow> string \<Rightarrow> status \<Rightarrow> reg \<Rightarrow> status \<times> reg" where
  "record_ok e i st r = (st, commit (update_status i (status_value st) (no_update\<lparr>
     su_last_error := Some [], su_observed_state := Some (status_value st),
     su_observation_error := Given None, su_clear_observation_error := True,
     su_last_trusted_state := Some (status_value st), su_last_observed_at := Some (oe_now e),
     su_runtime_access := Some ''ready''\<rparr>) (oe_now e) r) r)"

definition degraded_event :: "observe_env \<Rightarrow> string \<Rightarrow> string \<Rightarrow> reg \<Rightarrow> reg" where
  "degraded_event e i msg r = commit (add_event (Some i) ''observe_degraded'' msg None (oe_now e) r) r"

text \<open>\<open>_record_unknown\<close> as it is called, without a probe over HTTP. What was trusted stays trusted.\<close>

definition trusted_state :: "inst_row option \<Rightarrow> string option" where
  "trusted_state row = Option.bind row (\<lambda>x. if truthy (i_last_trusted_state x)
     then i_last_trusted_state x else if i_status x \<noteq> [] then Some (i_status x) else None)"

definition record_unknown :: "observe_env \<Rightarrow> string \<Rightarrow> string \<Rightarrow> status \<Rightarrow> reg \<Rightarrow> status \<times> reg" where
  "record_unknown e i error current r =
     (let latest = get_instance i r;
          trusted = (case trusted_state latest of Some t \<Rightarrow> t | None \<Rightarrow> status_value current);
          keep = (case Option.bind latest (\<lambda>x. parse_status (i_status x)) of Some s \<Rightarrow> s | None \<Rightarrow> current);
          r1 = commit (update_status i (status_value keep) (no_update\<lparr>
             su_last_error := Some (''observation: '' @ error), su_observed_state := Some ''unknown'',
             su_observation_error := Given (Some error), su_last_trusted_state := Some trusted,
             su_last_observed_at := Some (oe_now e), su_runtime_access := Some error\<rparr>) (oe_now e) r) r in
      (keep, degraded_event e i (''observationError='' @ error) r1))"

definition record_via_http :: "observe_env \<Rightarrow> string \<Rightarrow> reg \<Rightarrow> status \<times> reg" where
  "record_via_http e i r =
     (let r1 = commit (update_status i ''running'' (no_update\<lparr>
             su_last_error := Some ''observation: permission_denied, seen over HTTP'',
             su_observed_state := Some ''running'', su_observation_error := Given (Some ''permission_denied''),
             su_last_trusted_state := Some ''running'', su_last_observed_at := Some (oe_now e),
             su_runtime_access := Some ''permission_denied''\<rparr>) (oe_now e) r) r in
      (RUNNING, degraded_event e i ''observationError=permission_denied via=http'' r1))"

definition current_status :: "string \<Rightarrow> reg \<Rightarrow> status" where
  "current_status i r = (case Option.bind (get_instance i r) (\<lambda>x. parse_status (i_status x)) of
     None \<Rightarrow> STOPPED | Some s \<Rightarrow> s)"

definition error_kind :: "string \<Rightarrow> string" where
  "error_kind text = (case classify_docker_observation_error (Some text) of None \<Rightarrow> ''unknown'' | Some k \<Rightarrow> k)"

definition observe_container_status :: "observe_env \<Rightarrow> string \<Rightarrow> reg \<Rightarrow> status \<times> reg" where
  "observe_container_status e i r =
     (let current = current_status i r;
          host_port = Option.bind (get_container i r) k_host_port in
      case is_running (oe_docker e i) of
        Inr b \<Rightarrow> record_ok e i (if b then RUNNING else STOPPED) r
      | Inl (Docker_raised text) \<Rightarrow>
          (let kind = error_kind text in
           if kind = ''permission_denied'' \<or> is_docker_permission_error text
           then (case host_port of
               Some p \<Rightarrow> if oe_http_ok e p then record_via_http e i r
                 else record_unknown e i ''permission_denied'' current r
             | None \<Rightarrow> record_unknown e i ''permission_denied'' current r)
           else if kind \<in> {''daemon_unavailable'', ''timeout'', ''parse_error'', ''unknown''}
           then record_unknown e i kind current r
           else record_unknown e i ''unknown'' current r)
      | Inl (Python_raised text) \<Rightarrow> record_unknown e i (error_kind text) current r)"

section \<open>Observing a static site\<close>

definition static_pid_alive :: "observe_env \<Rightarrow> string \<Rightarrow> bool" where
  "static_pid_alive e i = (case Option.bind (oe_pid_file e i) (\<lambda>t. py_int (strip t)) of
     None \<Rightarrow> False | Some pid \<Rightarrow> oe_pid_alive e pid)"

definition observe_static_status :: "observe_env \<Rightarrow> string \<Rightarrow> reg \<Rightarrow> status" where
  "observe_static_status e i r =
     (case get_static_site i r of
        None \<Rightarrow> STOPPED
      | Some row \<Rightarrow>
          if \<not> t_enabled row then STOPPED
          else if static_pid_alive e i then RUNNING
          else if (case t_host_port row of None \<Rightarrow> False | Some p \<Rightarrow> oe_healthy e p) then RUNNING
          else (let desired = (case get_instance i r of None \<Rightarrow> [] | Some x \<Rightarrow> i_desired_state x) in
            if desired \<noteq> [] \<and> desired \<noteq> ''running'' then STOPPED
            else if oe_caddy e then (if oe_admin_alive e then CONFIG_INVALID else GATEWAY_DOWN)
            else STOPPED))"

section \<open>Writing back\<close>

datatype observe_exn = No_manifest | Write_failed reg_error

definition registry_status :: "string \<Rightarrow> reg \<Rightarrow> string option" where
  "registry_status i r = map_option i_status (get_instance i r)"

definition save_observed :: "observe_env \<Rightarrow> string \<Rightarrow> status \<Rightarrow> watch \<Rightarrow> watch" where
  "save_observed e i st w = (if oe_save_fails e i then w else w\<lparr>w_manifests := (w_manifests w)
     (i := map_option (\<lambda>m. touch (oe_now e) (m\<lparr>m_status := st\<rparr>)) (w_manifests w i))\<rparr>)"

definition observe_runtime :: "observe_env \<Rightarrow> string \<Rightarrow> manifest \<Rightarrow> reg \<Rightarrow> status \<times> reg" where
  "observe_runtime e i m r = (case m_runtime m of
     DOCKER_COMPOSE \<Rightarrow> observe_container_status e i r
   | SHARED_STATIC \<Rightarrow> (observe_static_status e i r, r))"

text \<open>The status before the observation decides what counts as a change.\<close>

definition observe_status_locked :: "observe_env \<Rightarrow> string \<Rightarrow> watch \<Rightarrow> (observe_exn + status) \<times> watch" where
  "observe_status_locked e i w =
     (case w_manifests w i of
        None \<Rightarrow> (Inl No_manifest, w)
      | Some m \<Rightarrow>
          (let before = registry_status i (w_reg w);
               (observed, r) = observe_runtime e i m (w_reg w);
               w1 = w\<lparr>w_reg := r\<rparr> in
           if Some (status_value observed) = before then (Inr observed, w1)
           else (let r1 = commit (update_status i (status_value observed) no_update (oe_now e) r) r;
                     w2 = save_observed e i observed (w1\<lparr>w_reg := r1\<rparr>) in
             case add_event (Some i) ''status_change'' (status_value observed) None (oe_now e) r1 of
               Inl x \<Rightarrow> (Inl (Write_failed x), w2)
             | Inr (_, r2) \<Rightarrow> (Inr observed, w2\<lparr>w_reg := r2\<rparr>))))"

section \<open>Builds that nobody finishes\<close>

definition STALE_BUILDING :: nat where "STALE_BUILDING = 3600 * 1000000"
definition STALE_BUILDING_NO_BUILD :: nat where "STALE_BUILDING_NO_BUILD = 120 * 1000000"

definition older :: "observe_env \<Rightarrow> string option \<Rightarrow> nat \<Rightarrow> bool" where
  "older e stamp limit \<longleftrightarrow> truthy stamp \<and> limit < oe_age e (the stamp)"

definition has_active_build :: "observe_env \<Rightarrow> string \<Rightarrow> reg \<Rightarrow> bool" where
  "has_active_build e i r =
     (case list_builds (Some i) 1 r of
        [] \<Rightarrow> False
      | latest # _ \<Rightarrow>
          if b_status latest \<noteq> ''running'' then False
          else if \<not> truthy (b_started_at latest) then True
          else oe_age e (the (b_started_at latest)) \<le> STALE_BUILDING)"

definition orphan_builds :: "observe_env \<Rightarrow> string \<Rightarrow> reg \<Rightarrow> build_row list" where
  "orphan_builds e i r = filter (\<lambda>b. b_status b = ''running'' \<and> older e (b_started_at b) STALE_BUILDING)
     (list_builds (Some i) 200 r)"

definition fail_build :: "observe_env \<Rightarrow> int \<Rightarrow> reg \<Rightarrow> reg" where
  "fail_build e b r = commit (finish_build b ''failed'' (Some ''orphan build'') (oe_now e) r) r"

definition recover_orphan_running_builds :: "observe_env \<Rightarrow> string \<Rightarrow> reg \<Rightarrow> int list \<times> reg" where
  "recover_orphan_running_builds e i r =
     (let ids = map b_id (orphan_builds e i r) in (ids, fold (fail_build e) ids r))"

definition stale_building :: "observe_env \<Rightarrow> string \<Rightarrow> reg \<Rightarrow> bool" where
  "stale_building e i r =
     (case list_builds (Some i) 1 r of
        latest # _ \<Rightarrow>
          if b_status latest = ''running'' then older e (b_started_at latest) STALE_BUILDING
          else if b_status latest \<in> {''success'', ''failed''}
          then older e (or_else (b_finished_at latest) (b_started_at latest)) STALE_BUILDING
          else False
      | [] \<Rightarrow> (case get_instance i r of
            None \<Rightarrow> False
          | Some x \<Rightarrow> older e (Some (i_updated_at x)) STALE_BUILDING_NO_BUILD))"

definition recover_stale_building :: "observe_env \<Rightarrow> string \<Rightarrow> reg \<Rightarrow> bool \<times> reg" where
  "recover_stale_building e i r =
     (if \<not> stale_building e i r then (False, r)
      else (let r1 = (case list_builds (Some i) 1 r of
                latest # _ \<Rightarrow> if b_status latest = ''running'' then fail_build e (b_id latest) r else r
              | [] \<Rightarrow> r);
                r2 = commit (update_status i ''failed'' (no_update\<lparr>su_last_error := Some ''stale building''\<rparr>)
                  (oe_now e) r1) r1 in
        (True, commit (add_event (Some i) ''build_recover'' ''stale building'' None (oe_now e) r2) r2)))"

section \<open>Synchronising\<close>

definition orphans_failed :: "observe_env \<Rightarrow> string \<Rightarrow> watch \<Rightarrow> watch" where
  "orphans_failed e i w = w\<lparr>w_reg := snd (recover_orphan_running_builds e i (w_reg w))\<rparr>"

definition observe_change :: "observe_env \<Rightarrow> string \<Rightarrow> string option \<Rightarrow> watch \<Rightarrow> string option \<times> watch" where
  "observe_change e i before w =
     (case observe_status_locked e i w of
        (Inl _, w1) \<Rightarrow> (None, w1)
      | (Inr observed, w1) \<Rightarrow>
          (if Some (status_value observed) = before then None else Some (status_value observed), w1))"

definition sync_one :: "observe_env \<Rightarrow> string \<Rightarrow> watch \<Rightarrow> string option \<times> watch" where
  "sync_one e i w =
     (let before = registry_status i (w_reg w) in
      if before \<in> {Some ''pending'', Some ''queued''} then (None, w)
      else if before = Some ''building''
      then (case recover_stale_building e i (w_reg w) of
          (True, r) \<Rightarrow> (Some ''failed'', orphans_failed e i (w\<lparr>w_reg := r\<rparr>))
        | (False, r) \<Rightarrow>
            (let w1 = orphans_failed e i (w\<lparr>w_reg := r\<rparr>) in
             if has_active_build e i (w_reg w1) then (None, w1) else observe_change e i before w1))
      else observe_change e i before (orphans_failed e i w))"

fun sync_ids :: "observe_env \<Rightarrow> string list \<Rightarrow> watch \<Rightarrow> (string \<times> string) list \<times> watch" where
  "sync_ids e [] w = ([], w)"
| "sync_ids e (i # is) w =
     (let (change, w1) = sync_one e i w; (changes, w2) = sync_ids e is w1 in
      ((case change of None \<Rightarrow> [] | Some s \<Rightarrow> [(i, s)]) @ changes, w2))"

definition sync_status :: "observe_env \<Rightarrow> string option \<Rightarrow> watch \<Rightarrow> (string \<times> string) list \<times> watch" where
  "sync_status e i w = sync_ids e (case i of Some j \<Rightarrow> if j \<noteq> [] then [j] else map i_id (list_instances (w_reg w))
     | None \<Rightarrow> map i_id (list_instances (w_reg w))) w"

end
