(* ===== verification/Status_Facts.thy ===== *)
theory Status_Facts
  imports Status_Observation
begin

text \<open>
  Facts about the observation of instances: what an answer of Docker means for the recorded state,
  which queries may say that there is no container, and that the result of a synchronisation names
  exactly the instances whose state changed.
\<close>

section \<open>Rows\<close>

lemma get_instance_events [simp]:
  "get_instance j (commit (add_event k kind msg src now r) r) = get_instance j r"
  by (simp add: add_event_def Let_def get_instance_def split: option.split)

lemma other_tables_events [simp]:
  "containers (commit (add_event k kind msg src now r) r) = containers r"
  "static_sites (commit (add_event k kind msg src now r) r) = static_sites r"
  by (simp_all add: add_event_def Let_def split: option.split)

lemma get_instance_update [simp]:
  "get_instance j (commit (update_status i s u now r) r) =
     (if j = i then map_option (\<lambda>x. x\<lparr>
       i_status := s, i_updated_at := now,
       i_last_error := (case su_last_error u of
           Some e \<Rightarrow> Some e | None \<Rightarrow> if su_clear_last_error u then None else i_last_error x),
       i_desired_state := (case su_desired_state u of Some d \<Rightarrow> d | None \<Rightarrow> i_desired_state x),
       i_observed_state := coalesce (su_observed_state u) (i_observed_state x),
       i_observation_error := (case su_observation_error u of
           Given e \<Rightarrow> e
         | Omitted \<Rightarrow> if su_clear_observation_error u then None else i_observation_error x),
       i_last_trusted_state := coalesce (su_last_trusted_state u) (i_last_trusted_state x),
       i_last_observed_at := coalesce (su_last_observed_at u) (i_last_observed_at x),
       i_runtime_access := coalesce (su_runtime_access u) (i_runtime_access x)\<rparr>) (get_instance i r)
      else get_instance j r)"
  by (simp add: update_status_def get_upd_instance)

lemma other_tables_update [simp]:
  "containers (commit (update_status i s u now r) r) = containers r"
  "static_sites (commit (update_status i s u now r) r) = static_sites r"
  by (simp_all add: update_status_def upd_instance_def)

lemma get_instance_builds [simp]: "get_instance j (fold (fail_build e) ids r) = get_instance j r"
proof (induction ids arbitrary: r)
  case (Cons b ids)
  then show ?case by (simp add: fail_build_def finish_build_def upd_build_def get_instance_def)
qed simp

lemma parse_status_value [simp]: "parse_status (status_value s) = Some s"
  by (cases s) (simp_all add: parse_status_def all_statuses_def)

lemma parse_statusD: "parse_status v = Some s \<Longrightarrow> status_value s = v"
  by (auto simp: parse_status_def find_Some_iff)

lemma status_value_inj [simp]: "status_value s = status_value t \<longleftrightarrow> s = t"
  by (metis option.inject parse_status_value)

lemma status_value_nonempty [simp]: "status_value s \<noteq> []"
  by (cases s) simp_all

section \<open>Observing a container\<close>

text \<open>Whatever Docker answers, only the row of the instance is written, and it gets the status that
  is returned.\<close>

lemmas observe_defs = record_ok_def record_unknown_def record_via_http_def degraded_event_def
  no_update_def Let_def

definition row_written :: "string \<Rightarrow> reg \<Rightarrow> status \<times> reg \<Rightarrow> bool" where
  "row_written i r res = (case res of (st, r') \<Rightarrow>
     (\<forall>j. j \<noteq> i \<or> get_instance i r = None \<longrightarrow> get_instance j r' = get_instance j r)
     \<and> registry_status i r' = (if get_instance i r = None then None else Some (status_value st))
     \<and> containers r' = containers r \<and> static_sites r' = static_sites r
     \<and> map_option i_desired_state (get_instance i r') = map_option i_desired_state (get_instance i r))"

lemma row_written_record:
  "row_written i r (record_ok e i st r)" "row_written i r (record_via_http e i r)"
  "row_written i r (record_unknown e i k c r)"
  by (simp_all add: row_written_def observe_defs registry_status_def option.map_comp comp_def split: option.split)

lemma row_written_observe: "row_written i r (observe_container_status e i r)"
proof (cases "is_running (oe_docker e i)")
  case (Inl x)
  then show ?thesis
    by (cases x) (simp_all add: observe_container_status_def Let_def row_written_record split: option.split)
qed (simp add: observe_container_status_def Let_def row_written_record)

lemma observe_container_row:
  assumes "observe_container_status e i r = (st, r')"
  shows "j \<noteq> i \<or> get_instance i r = None \<Longrightarrow> get_instance j r' = get_instance j r"
    and "registry_status i r' = (if get_instance i r = None then None else Some (status_value st))"
    and "containers r' = containers r" and "static_sites r' = static_sites r"
    and "map_option i_desired_state (get_instance i r') = map_option i_desired_state (get_instance i r)"
  using row_written_observe [of i r e] assms unfolding row_written_def by auto

lemma answer_cases:
  "(\<exists>k. (if D then (case q of None \<Rightarrow> U k0 | Some p \<Rightarrow> if h p then V else U k0) else if K then U k1 else U k2) = U k)
   \<or> (\<exists>p. (if D then (case q of None \<Rightarrow> U k0 | Some p \<Rightarrow> if h p then V else U k0) else if K then U k1 else U k2) = V
        \<and> q = Some p \<and> h p)"
  by (cases q) auto

lemma observe_failed:
  assumes "is_running (oe_docker e i) = Inl x"
  obtains (unknown) k where "observe_container_status e i r = record_unknown e i k (current_status i r) r"
    | (http) p where "observe_container_status e i r = record_via_http e i r"
        "Option.bind (get_container i r) k_host_port = Some p" "oe_http_ok e p"
proof -
  let ?c = "current_status i r"
  have "(\<exists>k. observe_container_status e i r = record_unknown e i k ?c r) \<or>
    (\<exists>p. observe_container_status e i r = record_via_http e i r
       \<and> Option.bind (get_container i r) k_host_port = Some p \<and> oe_http_ok e p)"
    unfolding observe_container_status_def Let_def assms sum.case
    by (cases x; simp only: docker_exn.case) (rule answer_cases, blast)
  then show thesis using unknown http by blast
qed


section \<open>Queries that fail\<close>

text \<open>A failed query is not taken for an absent container. The strict query answers that there is no
  container only if the command of Compose, or the one that filters by the labels of the instance,
  ended with success and printed nothing; otherwise it raises or names a container. In particular the
  mounts are reported to be none only on such an answer or on what the container itself says.\<close>

theorem absent_only_if_asked:
  assumes "container_id_strict all_containers e = Inr None"
  shows "\<exists>command out err. de_run e command = Exited 0 out err \<and> strip out = [] \<and>
    (if de_compose_exists e then command = compose_cmd e (ps_args all_containers)
     else \<exists>m c. de_manifest e = Some m \<and> m_id m = de_id e \<and> m_container m = Some c
       \<and> project_label (rendered_name (c_projectName c) (m_id m)) \<noteq> []
       \<and> command = ''docker'' # ps_args all_containers
           @ label_filters (project_label (rendered_name (c_projectName c) (m_id m))) (c_serviceName c))"
proof -
  obtain command r where c: "(if de_compose_exists e then Inr (compose_cmd e (ps_args all_containers))
      else label_command e all_containers) = Inr command"
    and x: "run_query command e = Inr r" "cr_ok r" "splitlines (strip (cr_stdout r)) = []"
    using assms unfolding container_id_strict_def Let_def by (auto split: sum.splits if_splits list.splits)
  obtain out err where r: "de_run e command = Exited 0 out err" "splitlines (strip out) = []"
    using x by (auto simp: run_query_def execute_captured_def cr_ok_def split: docker_run.splits)
  have "strip out = []" using r(2) splitlines_nonempty by blast
  moreover have "if de_compose_exists e then command = compose_cmd e (ps_args all_containers)
     else \<exists>m c. de_manifest e = Some m \<and> m_id m = de_id e \<and> m_container m = Some c
       \<and> project_label (rendered_name (c_projectName c) (m_id m)) \<noteq> []
       \<and> command = ''docker'' # ps_args all_containers
           @ label_filters (project_label (rendered_name (c_projectName c) (m_id m))) (c_serviceName c)"
    using c by (auto simp: label_command_def Let_def split: if_splits option.splits)
  ultimately show ?thesis using r(1) by blast
qed

lemma unreadable_status:
  assumes "de_run e (compose_cmd e [''ps'', ''--format'', ''json'', ''--all'']) = Exited code out err"
    and "code \<noteq> 0" "\<not> is_docker_permission_error (err @ [LF] @ out)"
  shows "status_of e = Inr None" "is_running e = Inr False"
  using assms by (simp_all add: status_of_def is_running_def run_query_def execute_captured_def cr_ok_def)

text \<open>A daemon that cannot be reached counts as a stopped container, whatever the message says. If
  the status query exits with an error that is not about permissions, the observation records
  \<open>stopped\<close> as the trusted state and clears the error, and the common stop succeeds without having
  stopped anything.\<close>

theorem unreachable_counts_as_stopped:
  assumes "get_instance i r = Some row"
    and "de_run (oe_docker e i) (compose_cmd (oe_docker e i) [''ps'', ''--format'', ''json'', ''--all''])
      = Exited code out err"
    and "code \<noteq> 0" "\<not> is_docker_permission_error (err @ [LF] @ out)"
  shows "\<exists>row'. observe_container_status e i r = (STOPPED, snd (observe_container_status e i r))
      \<and> get_instance i (snd (observe_container_status e i r)) = Some row'
      \<and> i_status row' = ''stopped'' \<and> i_last_trusted_state row' = Some ''stopped'' \<and> i_observation_error row' = None
      \<and> stop_or_abort (\<lambda>d. case is_running (oe_docker e i) of Inl _ \<Rightarrow> None | Inr b \<Rightarrow> Some b) halt True dk = (True, dk)"
  using assms unreadable_status [OF assms(2-4)]
  by (auto simp: observe_container_status_def observe_defs coalesce_def stop_or_abort_def)

lemma unread_states:
  assumes "get_or data ''Id'' JNull = JNull" "get_or data ''ContainerID'' JNull = JNull"
    and "de_run e (compose_cmd e [''ps'', ''--format'', ''json'', ''--all'']) = Exited 0 out err"
    and "iter_ps_json (de_loads e) out = data # rest"
    and "container_id False e = Inr None"
  shows "inspect_state e = None"
  using assms
  by (cases "lower_member data ''State''")
    (simp_all add: inspect_state_def status_of_def run_query_def execute_captured_def cr_ok_def
      status_of_item_def json_or_def json_true_def Let_def)

text \<open>The exit code of a stopped container is not read from an answer that names the container
  only \<open>ID\<close>. Its identity is then asked of the running containers, which it is not among, so the
  inspection is empty although Docker reported the container.\<close>

theorem stopped_container_not_inspected:
  assumes "de_run e (compose_cmd e [''ps'', ''--format'', ''json'', ''--all'']) = Exited 0 out err"
    and "de_loads e (strip out) = Some (JObj ms)" "strip out \<noteq> []"
    and "map_of ms ''Id'' = None" "map_of ms ''ContainerID'' = None"
    and "de_compose_exists e" "de_run e (compose_cmd e [''ps'', ''-q'']) = Exited 0 [] err2"
  shows "inspect_state e = None"
proof (rule unread_states)
  show "iter_ps_json (de_loads e) out = JObj ms # []"
    using assms(2,3) by (simp add: iter_ps_json_def)
  show "container_id False e = Inr None"
    using assms(6,7) by (simp add: container_id_def container_id_strict_def run_query_def
        execute_captured_def cr_ok_def ps_args_def strip_def rstrip_def lstrip_def)
qed (use assms in \<open>simp_all add: get_or_def\<close>)

section \<open>Writing back\<close>

lemma registry_status_simps [simp]:
  "registry_status j (commit (add_event k kind msg src now r) r) = registry_status j r"
  "registry_status j (fold (fail_build e) ids r) = registry_status j r"
  "registry_status j (commit (update_status i s u now r) r) =
     (if j = i then map_option (\<lambda>_. s) (get_instance i r) else registry_status j r)"
  by (simp_all add: registry_status_def option.map_comp comp_def)

lemma add_event_Inr: "add_event k kind msg src now r = Inr (n, r') \<Longrightarrow> r' = commit (add_event k kind msg src now r) r"
  by simp

lemma add_event_known: "add_event (Some i) kind msg src now r = Inl x \<longleftrightarrow> x = Integrity_error \<and> get_instance i r = None"
  by (auto simp: add_event_def Let_def known_instance_def get_instance_def)

lemma observe_runtime_row:
  assumes "observe_runtime e i m r = (st, r')"
  shows "j \<noteq> i \<Longrightarrow> registry_status j r' = registry_status j r"
    and "get_instance i r' = None \<longleftrightarrow> get_instance i r = None"
    and "registry_status i r' = registry_status i r \<or> registry_status i r' = Some (status_value st)"
  using assms observe_container_row(1,2,5) [of e i r st r']
  by (auto simp: observe_runtime_def registry_status_def split: runtime.splits if_splits option.splits)

lemma observe_locked_status:
  assumes "observe_status_locked e i w = (res, w')"
  shows "j \<noteq> i \<Longrightarrow> registry_status j (w_reg w') = registry_status j (w_reg w)"
    and "registry_status i (w_reg w) \<noteq> None \<Longrightarrow> registry_status i (w_reg w') =
      (case res of Inl _ \<Rightarrow> registry_status i (w_reg w) | Inr st \<Rightarrow> Some (status_value st))"
proof -
  have "(j \<noteq> i \<longrightarrow> registry_status j (w_reg w') = registry_status j (w_reg w)) \<and>
    (registry_status i (w_reg w) \<noteq> None \<longrightarrow> registry_status i (w_reg w') =
      (case res of Inl _ \<Rightarrow> registry_status i (w_reg w) | Inr st \<Rightarrow> Some (status_value st)))"
  proof (cases "w_manifests w i")
    case None
    then show ?thesis using assms by (auto simp: observe_status_locked_def)
  next
    case (Some m)
    obtain st r where o: "observe_runtime e i m (w_reg w) = (st, r)" by fastforce
    note rows = observe_runtime_row [OF o]
    have go: "observe_status_locked e i w =
      (if Some (status_value st) = registry_status i (w_reg w) then (Inr st, w\<lparr>w_reg := r\<rparr>)
       else (let r1 = commit (update_status i (status_value st) no_update (oe_now e) r) r;
                 w2 = save_observed e i st (w\<lparr>w_reg := r1\<rparr>) in
         case add_event (Some i) ''status_change'' (status_value st) None (oe_now e) r1 of
           Inl x \<Rightarrow> (Inl (Write_failed x), w2) | Inr (_, r2) \<Rightarrow> (Inr st, w2\<lparr>w_reg := r2\<rparr>)))"
      using o Some by (simp add: observe_status_locked_def Let_def)
    show ?thesis
    proof (cases "Some (status_value st) = registry_status i (w_reg w)")
      case True
      then show ?thesis using assms go rows(1,3) by auto
    next
      case False
      let ?r1 = "commit (update_status i (status_value st) no_update (oe_now e) r) r"
      have saved: "w_reg (save_observed e i st (w\<lparr>w_reg := ?r1\<rparr>)) = ?r1" by (simp add: save_observed_def)
      show ?thesis
      proof (cases "add_event (Some i) ''status_change'' (status_value st) None (oe_now e) ?r1")
        case (Inl x)
        then have "get_instance i r = None" by (simp add: add_event_known)
        then have "registry_status i (w_reg w) = None" using rows(2) by (simp add: registry_status_def)
        with assms go False Inl saved rows(1) show ?thesis by (auto simp: Let_def)
      next
        case (Inr p)
        then obtain n r2 where e: "add_event (Some i) ''status_change'' (status_value st) None (oe_now e) ?r1 = Inr (n, r2)"
          by (cases p) simp
        have "res = Inr st" "w_reg w' = r2" using assms go False e by (auto simp: Let_def)
        moreover have "registry_status k r2 = registry_status k ?r1" for k
          unfolding add_event_Inr [OF e] by simp
        moreover have "get_instance i (w_reg w) = None \<longleftrightarrow> get_instance i r = None" using rows(2) by simp
        ultimately show ?thesis using rows(1) by (cases "get_instance i r") (auto simp: registry_status_def)
      qed
    qed
  qed
  then show "j \<noteq> i \<Longrightarrow> registry_status j (w_reg w') = registry_status j (w_reg w)"
    "registry_status i (w_reg w) \<noteq> None \<Longrightarrow> registry_status i (w_reg w') =
      (case res of Inl _ \<Rightarrow> registry_status i (w_reg w) | Inr st \<Rightarrow> Some (status_value st))" by auto
qed

section \<open>Synchronising\<close>

lemma registry_status_orphans [simp]:
  "registry_status j (w_reg (orphans_failed e i w)) = registry_status j (w_reg w)"
  by (simp add: orphans_failed_def recover_orphan_running_builds_def Let_def)

lemma recover_stale_status:
  assumes "recover_stale_building e i r = (b, r')" "registry_status i r \<noteq> None"
  shows "registry_status j r' = (if b \<and> j = i then Some ''failed'' else registry_status j r)"
proof (cases "stale_building e i r")
  case True
  let ?r1 = "case list_builds (Some i) 1 r of
      latest # _ \<Rightarrow> if b_status latest = ''running'' then fail_build e (b_id latest) r else r | [] \<Rightarrow> r"
  have one: "fail_build e k r = fold (fail_build e) [k] r" for k by simp
  have "get_instance k ?r1 = get_instance k r" for k
    by (auto simp only: one get_instance_builds split: list.split if_split)
  with assms True show ?thesis
    by (auto simp: recover_stale_building_def Let_def registry_status_def)
qed (use assms in \<open>simp add: recover_stale_building_def\<close>)

text \<open>A change is reported exactly if the status differs from the one before, and it is the new one.\<close>

definition change_of :: "string \<Rightarrow> watch \<Rightarrow> string option \<times> watch \<Rightarrow> bool" where
  "change_of i w res = (case res of (c, w') \<Rightarrow>
     (\<forall>j. registry_status j (w_reg w') = (case c of
        Some s \<Rightarrow> if j = i then Some s else registry_status j (w_reg w)
      | None \<Rightarrow> registry_status j (w_reg w)))
     \<and> (\<forall>s. c = Some s \<longrightarrow> registry_status i (w_reg w) \<noteq> Some s))"

lemma observe_change_of:
  assumes "registry_status i (w_reg w1) \<noteq> None"
    and "\<And>j. registry_status j (w_reg w1) = registry_status j (w_reg w)"
  shows "change_of i w (observe_change e i (registry_status i (w_reg w)) w1)"
proof -
  obtain res w2 where o: "observe_status_locked e i w1 = (res, w2)" by fastforce
  have "registry_status j (w_reg w2) = (if j = i then
      (case res of Inl _ \<Rightarrow> registry_status i (w_reg w) | Inr st \<Rightarrow> Some (status_value st)) else registry_status j (w_reg w))" for j
    using observe_locked_status [OF o] assms by (auto split: sum.splits)
  then show ?thesis
    by (cases res) (auto simp: change_of_def observe_change_def o)
qed

lemma sync_one_change:
  assumes "registry_status i (w_reg w) \<noteq> None"
  shows "change_of i w (sync_one e i w)"
proof (cases "registry_status i (w_reg w) = Some ''building''")
  case True
  obtain b r where st: "recover_stale_building e i (w_reg w) = (b, r)" by fastforce
  note rs = recover_stale_status [OF st assms]
  let ?w1 = "orphans_failed e i (w\<lparr>w_reg := r\<rparr>)"
  have go: "sync_one e i w = (if b then (Some ''failed'', ?w1)
      else if has_active_build e i (w_reg ?w1) then (None, ?w1)
      else observe_change e i (registry_status i (w_reg w)) ?w1)"
    using True by (simp add: sync_one_def st Let_def split: bool.split)
  show ?thesis
  proof (cases b)
    case True
    with \<open>registry_status i (w_reg w) = Some ''building''\<close> show ?thesis using go rs by (simp add: change_of_def)
  next
    case False
    then have same: "registry_status j (w_reg ?w1) = registry_status j (w_reg w)" for j using rs by simp
    then have "change_of i w (observe_change e i (registry_status i (w_reg w)) ?w1)"
      using assms by (intro observe_change_of) auto
    then show ?thesis using go False same by (simp add: change_of_def)
  qed
next
  case False
  have "change_of i w (observe_change e i (registry_status i (w_reg w)) (orphans_failed e i w))"
    using assms by (intro observe_change_of) simp_all
  with False show ?thesis by (simp add: sync_one_def Let_def change_of_def)
qed

lemma sync_ids_changes:
  assumes "sync_ids e ids w = (changes, w')" "distinct ids" "\<forall>i \<in> set ids. registry_status i (w_reg w) \<noteq> None"
  shows "fst ` set changes \<subseteq> set ids \<and> distinct (map fst changes)
    \<and> (\<forall>j. registry_status j (w_reg w') = (case map_of changes j of
         Some s \<Rightarrow> Some s | None \<Rightarrow> registry_status j (w_reg w)))
    \<and> (\<forall>(j, s) \<in> set changes. registry_status j (w_reg w) \<noteq> Some s)"
  using assms
proof (induction ids arbitrary: w changes)
  case (Cons i ids)
  obtain c w1 where one: "sync_one e i w = (c, w1)" by fastforce
  obtain more_changes w2 where rest: "sync_ids e ids w1 = (more_changes, w2)" by fastforce
  have c: "change_of i w (c, w1)" using sync_one_change [of i w e] Cons.prems(3) one by simp
  have w2: "w2 = w'" and ch: "changes = (case c of None \<Rightarrow> [] | Some s \<Rightarrow> [(i, s)]) @ more_changes"
    using Cons.prems(1) by (simp_all add: one rest)
  have st: "registry_status j (w_reg w1) = (case c of Some s \<Rightarrow> if j = i then Some s else registry_status j (w_reg w)
      | None \<Rightarrow> registry_status j (w_reg w))" for j
    using c by (simp add: change_of_def)
  have "\<forall>j \<in> set ids. registry_status j (w_reg w1) \<noteq> None"
    using Cons.prems(3) by (auto simp: st split: option.split)
  then have ih: "fst ` set more_changes \<subseteq> set ids" "distinct (map fst more_changes)"
    "\<And>j. registry_status j (w_reg w2) = (case map_of more_changes j of
       Some s \<Rightarrow> Some s | None \<Rightarrow> registry_status j (w_reg w1))"
    "\<And>j s. (j, s) \<in> set more_changes \<Longrightarrow> registry_status j (w_reg w1) \<noteq> Some s"
    using Cons.IH [of w1 more_changes] rest w2 Cons.prems(2) by auto
  have i: "i \<notin> fst ` set more_changes" using ih(1) Cons.prems(2) by auto
  then have "map_of more_changes i = None" by (simp add: map_of_eq_None_iff)
  moreover have "registry_status j (w_reg w) \<noteq> Some s" if "(j, s) \<in> set more_changes" for j s
  proof -
    have "j \<noteq> i" using that i by force
    then show ?thesis using ih(4) [OF that] st [of j] by (simp split: option.splits)
  qed
  ultimately show ?case
    using ih(1-3) c i w2 ch by (cases c) (auto simp: change_of_def split: option.splits)
qed simp

text \<open>C20: a synchronisation of all instances reports exactly what changed: an instance is named at most
  once, its new status is the one that the registry holds afterwards and differs from the old one,
  and the status of every instance that is not named is the same as before.\<close>

theorem sync_reports_changes:
  assumes "reg_ok (w_reg w)" "sync_status e None w = (changes, w')"
  shows "distinct (map fst changes)
    \<and> (\<forall>j. registry_status j (w_reg w') = (case map_of changes j of
         Some s \<Rightarrow> Some s | None \<Rightarrow> registry_status j (w_reg w)))
    \<and> (\<forall>(j, s) \<in> set changes. registry_status j (w_reg w) \<noteq> Some s)"
proof -
  let ?ids = "map i_id (list_instances (w_reg w))"
  have "distinct (map i_id (instances (w_reg w)))" using assms(1) by (simp add: reg_ok_def pk_ok_def)
  then have "distinct ?ids" by (simp add: list_instances_def distinct_map)
  moreover have "registry_status i (w_reg w) \<noteq> None" if "i \<in> set ?ids" for i
    using that by (auto simp: list_instances_def registry_status_def get_instance_def find_by_None_iff)
  ultimately show ?thesis
    using sync_ids_changes [of e ?ids w changes w'] assms(2) by (simp add: sync_status_def)
qed

section \<open>Witnesses\<close>

definition daemon_down :: "string list \<Rightarrow> docker_run" where
  "daemon_down args = Exited 1 [] ''Cannot connect''"

definition sample_query :: docker_env where
  "sample_query = \<lparr>de_run = daemon_down, de_loads = (\<lambda>_. None), de_id = ''my-site'',
     de_compose_exists = False, de_compose_path = ''compose.yaml'', de_env_is_file = False,
     de_env_path = ''.env'', de_manifest = Some sample_api\<rparr>"

definition sample_oe :: observe_env where
  "sample_oe = \<lparr>oe_docker = (\<lambda>_. sample_query), oe_now = ''t9'', oe_http_ok = (\<lambda>_. False),
     oe_pid_file = (\<lambda>_. None), oe_pid_alive = (\<lambda>_. False), oe_healthy = (\<lambda>_. False),
     oe_caddy = False, oe_admin_alive = False, oe_save_fails = (\<lambda>_. False), oe_age = (\<lambda>_. 0)\<rparr>"

definition running_reg :: reg where
  "running_reg = commit (update_status ''my-site'' ''running'' no_update ''t3'' sample_reg) sample_reg"

definition sample_watch :: watch where
  "sample_watch = \<lparr>w_reg = running_reg, w_manifests = [''my-site'' \<mapsto> sample_api]\<rparr>"

lemma sample_status_command:
  "de_run (oe_docker sample_oe ''my-site'') (compose_cmd (oe_docker sample_oe ''my-site'')
     [''ps'', ''--format'', ''json'', ''--all'']) = Exited 1 [] ''Cannot connect''"
  "\<not> is_docker_permission_error (''Cannot connect'' @ [LF] @ [])"
  by (simp add: sample_oe_def sample_query_def daemon_down_def) code_simp

lemma running_reg_row:
  "get_instance ''my-site'' running_reg \<noteq> None" "map_option i_status (get_instance ''my-site'' running_reg) = Some ''running''"
  by code_simp+

lemma running_row: obtains row where "get_instance ''my-site'' running_reg = Some row" "i_status row = ''running''"
  using running_reg_row by (cases "get_instance ''my-site'' running_reg") auto


theorem absent_only_if_asked_witness:
  "container_id_strict True (sample_query\<lparr>de_run := \<lambda>_. Exited 0 [] []\<rparr>) = Inr None \<and>
   (\<exists>command out err. de_run (sample_query\<lparr>de_run := \<lambda>_. Exited 0 [] []\<rparr>) command = Exited 0 out err \<and> strip out = [])"
proof -
  have "container_id_strict True (sample_query\<lparr>de_run := \<lambda>_. Exited 0 [] []\<rparr>) = Inr None" by code_simp
  with absent_only_if_asked [OF this] show ?thesis by blast
qed

theorem unreachable_counts_as_stopped_witness:
  "classify_docker_observation_error (Some ''Cannot connect'')
     = Some ''daemon_unavailable'' \<and>
   (\<exists>row'. get_instance ''my-site'' (snd (observe_container_status sample_oe ''my-site'' running_reg)) = Some row'
     \<and> i_last_trusted_state row' = Some ''stopped'')"
proof (rule running_row)
  fix row assume row: "get_instance ''my-site'' running_reg = Some row" "i_status row = ''running''"
  have "classify_docker_observation_error (Some ''Cannot connect'')
     = Some ''daemon_unavailable''" by code_simp
  with unreachable_counts_as_stopped [OF row(1) sample_status_command(1) _ sample_status_command(2), of undefined undefined]
  show ?thesis by auto
qed

definition exited_query :: docker_env where
  "exited_query = sample_query\<lparr>de_compose_exists := True,
     de_run := (\<lambda>args. Exited 0 (if last args = ''--all'' then ''{}'' else []) []),
     de_loads := (\<lambda>_. Some (JObj [(''ID'', JStr ''abc''), (''State'', JStr ''exited'')]))\<rparr>"

theorem stopped_container_not_inspected_witness: "inspect_state exited_query = None"
proof -
  have "strip ''{}'' = ''{}''" by code_simp
  then show ?thesis
    by (intro stopped_container_not_inspected [where out = "''{}''" and ms = "[(''ID'', JStr ''abc''), (''State'', JStr ''exited'')]"])
      (simp_all add: exited_query_def compose_cmd_def sample_query_def)
qed

theorem sync_reports_changes_witness:
  "distinct (map fst (fst (sync_status sample_oe None sample_watch)))
   \<and> registry_status ''my-site'' (w_reg (snd (sync_status sample_oe None sample_watch)))
      = (case map_of (fst (sync_status sample_oe None sample_watch)) ''my-site'' of
           Some s \<Rightarrow> Some s | None \<Rightarrow> registry_status ''my-site'' (w_reg sample_watch))"
proof -
  have "reg_ok (w_reg sample_watch)"
    by (simp add: sample_watch_def running_reg_def reg_ok_updates reg_ok_sample)
  from sync_reports_changes [OF this surjective_pairing] show ?thesis by blast
qed

end
