(* ===== verification/Start_Decision.thy ===== *)
theory Start_Decision
  imports Container_Deploy Docker_Query
begin

text \<open>
  Models how the start of a deployed container is decided: the deployment fingerprints and their
  comparison (\<^verbatim>\<open>lifecycle.py\<close>), and the convergence of the generated files
  (\<^verbatim>\<open>generated_convergence.py\<close>). The hash, the serialisation of a plan, the removal of the build
  section from a Compose file and the generators are parameters. A file that exists can be read.
\<close>

section \<open>Source trees\<close>

text \<open>A regular file, one that cannot be opened, a symbolic link, and a directory with its entries.\<close>

datatype node = Regular string | Unreadable | Symlink | Folder "(string \<times> node) list"

definition SKIP_DIRS :: "string list" where
  "SKIP_DIRS = [''.git'', ''node_modules'', ''__pycache__'', ''.venv'', ''venv'', ''.mypy_cache'']"

definition SKIP_FILES :: "string list" where
  "SKIP_FILES = [''.DS_Store'', ''Thumbs.db'']"

definition is_os_metadata_name :: "string \<Rightarrow> bool" where
  "is_os_metadata_name n \<longleftrightarrow> n = ''.DS_Store'' \<or> starts_with ''._'' n"

abbreviation NUL :: char where "NUL \<equiv> char_of (0 :: nat)"

definition file_stream :: "string \<Rightarrow> string \<times> node \<Rightarrow> string" where
  "file_stream path e = (case e of (n, nd) \<Rightarrow>
     if n \<in> set SKIP_FILES \<or> is_os_metadata_name n then []
     else (case nd of
         Regular c \<Rightarrow> path @ n @ [NUL] @ c
       | Unreadable \<Rightarrow> path @ n @ [NUL]
       | _ \<Rightarrow> []))"

text \<open>Top down: the files of a directory in the order of their names, then its directories.\<close>

fun tree_stream :: "string \<Rightarrow> node \<Rightarrow> string" where
  "tree_stream path (Folder es) =
     concat (map (file_stream path) (sort_key fst es))
     @ concat (map snd (sort_key fst (map (\<lambda>(n, nd). (n, tree_stream (path @ n @ ''/'') nd))
         (filter (\<lambda>(n, _). n \<notin> set SKIP_DIRS) es))))"
| "tree_stream path _ = []"

section \<open>Fingerprints\<close>

type_synonym fingerprints = "(string \<times> json) list"

record start_ctx =
  sx_dx :: deploy_ctx
  sx_hash :: "string \<Rightarrow> string"
  sx_dumps :: "json \<Rightarrow> string"
  sx_runtime_compose :: "string \<Rightarrow> string"
  sx_locate :: "string \<Rightarrow> string option"
  sx_source :: "string \<Rightarrow> node option"
  sx_plan :: "manifest \<Rightarrow> json"
  sx_drift :: "docker \<Rightarrow> bool option"
  sx_strict_rescue_ok :: "docker \<Rightarrow> bool"
  sx_exists :: "docker \<Rightarrow> bool"
  sx_start :: "docker \<Rightarrow> bool \<times> docker"
  sx_stop :: "docker \<Rightarrow> bool \<times> docker"
  sx_recreate :: "docker \<Rightarrow> bool \<times> docker"

definition MISSING :: string where "MISSING = ''<missing>''"

definition labelled :: "string \<Rightarrow> string option \<Rightarrow> string" where
  "labelled label content = label @ [NUL] @ (case content of Some c \<Rightarrow> c | None \<Rightarrow> MISSING)"

text \<open>The file that a stored path leads to; an empty path and a missing file have no content.\<close>

definition located :: "start_ctx \<Rightarrow> file_map \<Rightarrow> string \<Rightarrow> string option" where
  "located x f path = (if path = [] then None else Option.bind (sx_locate x path) f)"

definition HELPER :: string where "HELPER = ''lwa_static_wsgi.py''"

definition config_stream :: "string option \<Rightarrow> string option \<Rightarrow> string option \<Rightarrow> string option \<Rightarrow> string" where
  "config_stream compose dockerfile env helper =
     labelled ''compose'' compose @ labelled ''dockerfile'' dockerfile @ labelled ''env'' env
     @ (if helper = None then [] else labelled ''static-wsgi'' helper)"

definition build_config_stream :: "string option \<Rightarrow> string option \<Rightarrow> string list \<Rightarrow> string" where
  "build_config_stream dockerfile helper system_deps =
     (let deps = filter (\<lambda>d. d \<noteq> []) (map strip system_deps) in
      labelled ''dockerfile'' dockerfile
      @ (if helper = None then [] else labelled ''static-wsgi'' helper)
      @ (if deps = [] then [] else ''systemDeps'' @ [NUL] @ concat (map (\<lambda>d. d @ [NUL]) deps)))"

definition runtime_config_stream ::
  "(string \<Rightarrow> string) \<Rightarrow> string option \<Rightarrow> string option \<Rightarrow> string option \<Rightarrow> string" where
  "runtime_config_stream strip_build compose env env_local =
     labelled ''compose'' (map_option strip_build compose) @ labelled ''env'' env @ labelled ''env-local'' env_local"

definition RUNTIME_CONFIG_HASH_VERSION :: int where "RUNTIME_CONFIG_HASH_VERSION = 3"

definition source_fingerprint :: "start_ctx \<Rightarrow> string option \<Rightarrow> string" where
  "source_fingerprint x app_path =
     (if \<not> truthy app_path then []
      else (case sx_source x (the app_path) of
          Some (Folder es) \<Rightarrow> sx_hash x (tree_stream [] (Folder es))
        | _ \<Rightarrow> []))"

definition plan_fingerprint :: "start_ctx \<Rightarrow> json \<Rightarrow> string" where
  "plan_fingerprint x plan = (if json_true plan then sx_hash x (sx_dumps x (canonical plan)) else [])"

definition compute_deployment_fingerprints ::
  "start_ctx \<Rightarrow> file_map \<Rightarrow> manifest \<Rightarrow> fingerprints" where
  "compute_deployment_fingerprints x f m =
     (let c = m_container m;
          compose = Option.bind c (\<lambda>c. located x f (c_composePath c));
          dockerfile = Option.bind c (\<lambda>c. located x f (c_dockerfilePath c));
          helper = Option.bind c (\<lambda>c. if c_dockerfilePath c = [] then None else f HELPER);
          env = Option.bind c (\<lambda>_. f ''.env'');
          env_local = Option.bind c (\<lambda>_. f ENV_LOCAL) in
      [(''sourceHash'', JStr (source_fingerprint x (m_appPath m))),
       (''planHash'', JStr (plan_fingerprint x (sx_plan x m))),
       (''configHash'', JStr (sx_hash x (config_stream compose dockerfile env helper))),
       (''buildConfigHash'', JStr (sx_hash x (build_config_stream dockerfile helper (m_systemDeps m)))),
       (''runtimeConfigHash'', JStr (sx_hash x (if c = None
          then labelled ''compose'' None @ labelled ''env'' None
          else runtime_config_stream (sx_runtime_compose x) compose env env_local))),
       (''runtimeConfigHashVersion'', JInt RUNTIME_CONFIG_HASH_VERSION),
       (''imageId'', JStr (case Option.bind c c_imageId of None \<Rightarrow> [] | Some i \<Rightarrow> i))])"

section \<open>Comparing fingerprints\<close>

datatype start_choice = Light_start | Runtime_recreate | Full_rebuild

definition fp_get :: "fingerprints \<Rightarrow> string \<Rightarrow> json" where
  "fp_get f k = (case map_of f k of None \<Rightarrow> JStr [] | Some v \<Rightarrow> v)"

definition COMPARED :: "string list" where
  "COMPARED = [''sourceHash'', ''planHash'', ''buildConfigHash'', ''runtimeConfigHash'', ''configHash'', ''imageId'']"

definition BUILD_KEYS :: "string list" where
  "BUILD_KEYS = [''sourceHash'', ''planHash'', ''buildConfigHash'', ''imageId'']"

definition new_format :: "fingerprints \<Rightarrow> bool" where
  "new_format f \<longleftrightarrow> map_of f ''buildConfigHash'' \<noteq> None \<or> map_of f ''runtimeConfigHash'' \<noteq> None"

definition changed_fields :: "fingerprints \<Rightarrow> fingerprints \<Rightarrow> string list" where
  "changed_fields stored current = filter (\<lambda>k. \<not> (new_format stored \<and> k = ''configHash'')
     \<and> fp_get stored k \<noteq> fp_get current k) COMPARED"

definition pinned :: "fingerprints option \<Rightarrow> bool" where
  "pinned stored \<longleftrightarrow> (case Option.bind stored (\<lambda>f. map_of f ''rollbackBuildId'') of None \<Rightarrow> False | Some v \<Rightarrow> json_true v)"

definition fingerprint_change_action ::
  "fingerprints option \<Rightarrow> fingerprints \<Rightarrow> start_choice \<times> string list" where
  "fingerprint_change_action stored current =
     (case stored of
        None \<Rightarrow> (Light_start, [])
      | Some f \<Rightarrow>
          if f = [] \<or> pinned stored then (Light_start, [])
          else (let changed = changed_fields f current; build = (\<exists>k \<in> set BUILD_KEYS. k \<in> set changed) in
            if changed = [] then (Light_start, [])
            else if \<not> new_format f
            then (if ''configHash'' \<in> set changed then (Full_rebuild, changed)
                  else (if build then Full_rebuild else Runtime_recreate, changed))
            else if build then (Full_rebuild, changed)
            else (Runtime_recreate, changed)))"

section \<open>Convergence of the generated files\<close>

record converge_result =
  cv_rendered :: bool
  cv_manual_overwritten :: bool
  cv_baseline_advanced :: bool

definition config_hash :: "start_ctx \<Rightarrow> file_map \<Rightarrow> string" where
  "config_hash x f = sx_hash x (config_stream (f ''compose.yaml'') (f ''Dockerfile'') (f ''.env'') (f HELPER))"

definition stored_config_hash :: "manifest \<Rightarrow> string option" where
  "stored_config_hash m = (case Option.bind (m_deploymentFingerprints m) (\<lambda>f. map_of f ''configHash'') of
     Some (JStr h) \<Rightarrow> if h = [] then None else Some h | _ \<Rightarrow> None)"

text \<open>A generator that refuses leaves what was written before it.\<close>

definition render_all :: "start_ctx \<Rightarrow> manifest \<Rightarrow> int \<Rightarrow> file_map \<Rightarrow> bool \<times> file_map" where
  "render_all x m port f =
     (case dx_dockerfile (sx_dx x) m f of
        None \<Rightarrow> (False, f)
      | Some f1 \<Rightarrow>
          (case dx_compose (sx_dx x) m port f1 of None \<Rightarrow> (False, f1) | Some f2 \<Rightarrow> (True, f2)))"

definition converge_generated_artifacts ::
  "start_ctx \<Rightarrow> manifest \<Rightarrow> file_map \<Rightarrow> (deploy_exn + converge_result) \<times> file_map" where
  "converge_generated_artifacts x m f =
     (case Option.bind (m_container m) c_hostPort of
        None \<Rightarrow> (Inr \<lparr>cv_rendered = False, cv_manual_overwritten = False, cv_baseline_advanced = False\<rparr>, f)
      | Some port \<Rightarrow>
          (let before = config_hash x f; stored = stored_config_hash m in
           case render_all x m port f of
             (False, f1) \<Rightarrow> (Inl (X_error ''render''), f1)
           | (True, f1) \<Rightarrow>
               (let changed = before \<noteq> config_hash x f1 in
                (Inr \<lparr>cv_rendered = True,
                   cv_manual_overwritten = (stored \<noteq> None \<and> Some before \<noteq> stored \<and> changed),
                   cv_baseline_advanced = (stored \<noteq> None \<and> Some before = stored \<and> changed)\<rparr>, f1))))"

section \<open>The decision\<close>

text \<open>\<open>cd_mem\<close> is the manifest of the caller. The snapshot comes first: it is what a recreate that fails
  goes back to.\<close>

definition advance_baseline :: "fingerprints \<Rightarrow> fingerprints \<Rightarrow> fingerprints" where
  "advance_baseline stored current = filter (\<lambda>(k, _). k \<noteq> ''configHash'') stored @ [(''configHash'', fp_get current ''configHash'')]"

definition deployed_action ::
  "start_ctx \<Rightarrow> cd \<Rightarrow> (deploy_exn + start_choice \<times> string list) \<times> cd" where
  "deployed_action x s =
     (let m = cd_mem s; stored = m_deploymentFingerprints m in
      if pinned stored then (Inr (Light_start, []), s)
      else (case snapshot_generated (dx_snapshot_fails (sx_dx x)) (cd_dir s) of
          (Inl _, d) \<Rightarrow> (Inl (X_error ''snapshot''), s\<lparr>cd_dir := d\<rparr>)
        | (Inr _, d) \<Rightarrow>
            if ad_files d ''compose.yaml'' = None \<or> ad_files d ''Dockerfile'' = None
            then (Inr (Full_rebuild, [''generatedArtifacts'']), s\<lparr>cd_dir := d\<rparr>)
            else (case converge_generated_artifacts x m (ad_files d) of
                (Inl e, f) \<Rightarrow> (Inl e, put_files f (s\<lparr>cd_dir := d\<rparr>))
              | (Inr cv, f) \<Rightarrow>
                  (let s1 = put_files f (s\<lparr>cd_dir := d\<rparr>);
                       s2 = (if cv_manual_overwritten cv then write_reg (add_event (Some (cd_id s)) ''lifecycle_stage''
                              ''manual edits overwritten'' (dx_op_source (sx_dx x)) (dx_now (sx_dx x))) s1 else s1);
                       current = compute_deployment_fingerprints x f m;
                       (action, changed) = fingerprint_change_action stored current in
                   if \<not> cv_rendered cv then (Inr (Full_rebuild, [''hostPort'']), s2)
                   else if action = Full_rebuild then (Inr (action, changed), restore_for_txn s2)
                   else if action = Light_start \<and> stored \<noteq> None \<and> stored \<noteq> Some [] \<and> cv_baseline_advanced cv
                   then (case save_manifest (sx_dx x) W_baseline (set_mem (\<lambda>m. m\<lparr>m_deploymentFingerprints :=
                            Some (advance_baseline (the stored) current)\<rparr>) s2) of
                       (Inl e, s3) \<Rightarrow> (Inl e, s3) | (Inr _, s3) \<Rightarrow> (Inr (action, changed), s3))
                   else (Inr (action, changed), s2)))))"

end
