(* ===== verification/Container_Start.thy ===== *)
theory Container_Start
  imports Start_Decision
begin

text \<open>
  Models the light start of a deployed container, its recreation with new runtime configuration, and
  stopping (\<open>start_container\<close>, \<open>recreate_container_runtime\<close>, \<open>stop_container\<close> and \<open>stop_instance\<close> of
  \<^verbatim>\<open>hosting.py\<close>). The state is that of the deployment; the instance lock is held. Reading the
  mounts of the container is a parameter here, its queries are in Docker\_Query; the network entry
  and the summary of the verification are not in the manifest model.
\<close>

section \<open>Bringing the container up\<close>

datatype start_action = By_start | By_up | By_rebuild

definition attempt_docker :: "string \<Rightarrow> (docker \<Rightarrow> bool \<times> docker) \<Rightarrow> stage" where
  "attempt_docker name f s = (case f (cd_docker s) of
     (False, dk) \<Rightarrow> (Inl (X_error name), s\<lparr>cd_docker := dk\<rparr>)
   | (True, dk) \<Rightarrow> (Inr (), s\<lparr>cd_docker := dk\<rparr>))"

definition strict_rescue :: "start_ctx \<Rightarrow> stage" where
  "strict_rescue x s = (if sx_strict_rescue_ok x (cd_docker s) then (Inr (), s) else (Inl (X_error ''rescue''), s))"

definition stop_always :: "start_ctx \<Rightarrow> stage" where
  "stop_always x = attempt_docker ''stop'' (stop_or_abort (dx_running (sx_dx x)) (dx_down (sx_dx x)) False)"

definition stop_running :: "start_ctx \<Rightarrow> stage" where
  "stop_running x = attempt_docker ''stop'' (stop_or_abort (dx_running (sx_dx x)) (sx_stop x) True)"

definition can_recreate_container :: "start_ctx \<Rightarrow> cd \<Rightarrow> bool" where
  "can_recreate_container x s \<longleftrightarrow> ad_files (cd_dir s) ''compose.yaml'' \<noteq> None
     \<and> ad_files (cd_dir s) ''.env'' \<noteq> None \<and> truthy (dx_image_id (sx_dx x) (cd_docker s))"

definition renew_container :: "start_ctx \<Rightarrow> stage list" where
  "renew_container x = [clear_container_identity (sx_dx x), attempt_docker ''up'' (dx_up (sx_dx x))]"

definition with_action :: "start_action \<Rightarrow> stage \<Rightarrow> cd \<Rightarrow> (deploy_exn + start_action) \<times> cd" where
  "with_action a f s = (case f s of (Inl e, s') \<Rightarrow> (Inl e, s') | (Inr _, s') \<Rightarrow> (Inr a, s'))"

definition bring_up :: "start_ctx \<Rightarrow> cd \<Rightarrow> (deploy_exn + start_action) \<times> cd" where
  "bring_up x s =
     (case sx_drift x (cd_docker s) of
        None \<Rightarrow> (Inl (X_error ''mounts''), s)
      | Some True \<Rightarrow> with_action By_up (run_stages ([strict_rescue x, stop_always x] @ renew_container x)) s
      | Some False \<Rightarrow>
          (case dx_running (sx_dx x) (cd_docker s) of
             None \<Rightarrow> (Inl (X_error ''running''), s)
           | Some True \<Rightarrow> (Inr By_start, s)
           | Some False \<Rightarrow>
               if sx_exists x (cd_docker s) then with_action By_start (attempt_docker ''start'' (sx_start x)) s
               else if can_recreate_container x s then with_action By_up (run_stages (renew_container x)) s
               else (Inr By_rebuild, s)))"

section \<open>Recording the start\<close>

definition new_port :: "start_ctx \<Rightarrow> stage" where
  "new_port x s = (case ensure_container_port (sx_dx x) (cd_id s) False (cd_reg s) of
     (Inl _, r) \<Rightarrow> (Inl (X_error ''port''), s\<lparr>cd_reg := r\<rparr>)
   | (Inr (p, fresh), r) \<Rightarrow> (Inr (), set_mem (upd_container (\<lambda>k. k\<lparr>c_hostPort := Some p\<rparr>))
       (s\<lparr>cd_reg := r, cd_port := p, cd_fresh := fresh\<rparr>)))"

definition registered_port :: "start_ctx \<Rightarrow> stage" where
  "registered_port x s =
     (case Option.bind (m_container (cd_mem s)) c_hostPort of
        Some p \<Rightarrow> if p \<noteq> 0 then (Inr (), s\<lparr>cd_port := p, cd_fresh := False\<rparr>) else new_port x s
      | None \<Rightarrow> new_port x s)"

definition hosting_operation :: "start_ctx \<Rightarrow> string \<Rightarrow> json" where
  "hosting_operation x reason = JObj [(''kind'', JStr ''deploy''), (''status'', JStr ''failed''),
     (''buildId'', JNull), (''finishedAt'', JStr (dx_now (sx_dx x))), (''error'', JStr (take 500 reason)),
     (''source'', JStr ''hosting'')]"

text \<open>After \<open>up\<close> the new identity must be seen; after a light start the old one stays if it is not.\<close>

definition observe_started :: "start_ctx \<Rightarrow> start_action \<Rightarrow> stage" where
  "observe_started x a s =
     (let dx = sx_dx x; cid = dx_container_id dx (cd_docker s); iid = dx_image_id dx (cd_docker s) in
      if a = By_up
      then (if \<not> truthy cid
            then (Inl (X_error ''no container id''), mark_failed_with dx (hosting_operation x ''no container id'')
                ''no container id'' (down_quietly dx s))
            else (Inr (), set_mem (upd_container (\<lambda>k. k\<lparr>c_containerId := cid, c_imageId := iid\<rparr>)) s))
      else (Inr (), set_mem (upd_container (\<lambda>k. k\<lparr>c_containerId := or_else cid (c_containerId k),
             c_imageId := or_else iid (c_imageId k)\<rparr>)) s))"

definition enter_verifying :: "start_ctx \<Rightarrow> stage" where
  "enter_verifying x s =
     (let dx = sx_dx x; i = cd_id s; now = dx_now dx;
          s1 = set_mem (\<lambda>m. touch now (refresh_paths (dx_paths dx) (m\<lparr>m_status := VERIFYING,
            m_desiredState := DESIRED_RUNNING, m_lastError := None\<rparr>))) s in
      after (save_manifest dx W_verifying) (\<lambda>s2.
        (let s3 = write_reg (upsert_from_manifest (cd_mem s2) None None) s2;
             s4 = write_reg (update_status i ''verifying'' (no_update\<lparr>su_desired_state := Some ''running''\<rparr>) now) s3 in
         (Inr (), write_reg (record_started i now now) s4))) s1)"

definition record_final :: "start_ctx \<Rightarrow> stage" where
  "record_final x s =
     (let dx = sx_dx x; i = cd_id s; now = dx_now dx in
      after (save_manifest dx W_final) (\<lambda>s1.
        (let m = cd_mem s1;
             s2 = write_reg (update_status i (status_value (m_status m)) (no_update\<lparr>
               su_desired_state := Some ''running'', su_last_error := m_lastError m,
               su_clear_last_error := (m_lastError m = None)\<rparr>) now) s1 in
         (Inr (), write_reg (add_event (Some i) ''start'' ''started'' None now) s2))) s)"

text \<open>The mandatory probes decide between running and failed; the call returns in both cases.\<close>

definition conclude_start :: "start_ctx \<Rightarrow> stage" where
  "conclude_start x s =
     (let dx = sx_dx x; i = cd_id s; now = dx_now dx in
      case dx_verify dx (cd_docker s) of
        None \<Rightarrow> (Inl (X_error ''verification''), s)
      | Some v \<Rightarrow>
          record_final x (set_mem (touch now)
            (if ve_failed v
             then write_reg (add_event (Some i) ''lifecycle_stage'' ''probes failed'' None now)
               (set_mem (\<lambda>m. m\<lparr>m_status := FAILED, m_lastError := Some ''probes failed''\<rparr>) s)
             else if ve_degraded v
             then write_reg (add_event (Some i) ''lifecycle_stage'' ''warnings'' None now)
               (set_mem (\<lambda>m. m\<lparr>m_status := RUNNING\<rparr>) s)
             else write_reg (record_health_check i now now) (set_mem (\<lambda>m. m\<lparr>m_status := RUNNING\<rparr>) s))))"

definition is_container :: "manifest \<Rightarrow> bool" where
  "is_container m \<longleftrightarrow> m_runtime m = DOCKER_COMPOSE \<and> m_container m \<noteq> None"

definition start_container :: "start_ctx \<Rightarrow> stage" where
  "start_container x s =
     (let s0 = s\<lparr>cd_mem := cd_disk s\<rparr> in
      if \<not> is_container (cd_disk s) then (Inl (X_error ''not a container''), s0)
      else if \<not> dx_available (sx_dx x) then (Inl (X_error ''docker''), s0)
      else (case bring_up x s0 of
          (Inl e, s1) \<Rightarrow> (Inl e, s1)
        | (Inr By_rebuild, s1) \<Rightarrow> host_container (sx_dx x) s1
        | (Inr a, s1) \<Rightarrow>
            run_stages [registered_port x, observe_started x a, enter_verifying x, conclude_start x] s1))"

section \<open>Recreating the container\<close>

text \<open>\<open>_recreate_restore_previous\<close>: the image did not change, so the old files are enough.\<close>

definition bring_back_files :: "deploy_ctx \<Rightarrow> int option \<Rightarrow> app_dir \<Rightarrow> docker
    \<Rightarrow> bool \<times> string list \<times> app_dir \<times> docker" where
  "bring_back_files x port d dk =
     (let (ok, dk1) = dx_down x dk; notes = (if ok then [] else [''down'']) in
      case restore_generated d of
        (False, d1) \<Rightarrow> (False, notes @ [''no snapshot''], d1, dk1)
      | (True, d1) \<Rightarrow>
          if port = None \<or> port = Some 0 then (False, notes @ [''no port''], d1, dk1)
          else (let (env_ok, d2) = restore_last_good_env d1;
                    notes2 = notes @ (if env_ok then [] else [''no environment record'']) in
            case dx_up x dk1 of
              (False, dk2) \<Rightarrow> (False, notes2 @ [''up''], d2, dk2)
            | (True, dk2) \<Rightarrow>
                (if dx_http_ok x dk2 then (True, notes2, d2, dk2) else (False, notes2 @ [''probe''], d2, dk2))))"

definition recreate_json :: "start_ctx \<Rightarrow> string \<Rightarrow> string list \<Rightarrow> json" where
  "recreate_json x reason notes = JObj [(''kind'', JStr ''recreate''), (''status'', JStr ''failed''),
     (''finishedAt'', JStr (dx_now (sx_dx x))), (''error'', JStr (take 500 reason)),
     (''source'', JStr ''recreate_container_runtime''), (''rollback'', JStr ''restored''),
     (''rollbackNotes'', JArr (map JStr notes))]"

definition recreate_failed_rollback :: "start_ctx \<Rightarrow> string \<Rightarrow> cd \<Rightarrow> cd" where
  "recreate_failed_rollback x reason s =
     (let dx = sx_dx x;
          s1 = set_mem (upd_container (\<lambda>k. k\<lparr>c_containerId := None, c_imageId := None\<rparr>)) (down_quietly dx s);
          s2 = mark_failed_with dx (hosting_operation x reason) reason s1 in
      write_reg (add_event (Some (cd_id s)) ''lifecycle_stage'' reason None (dx_now dx)) s2)"

definition recreate_restore_previous :: "start_ctx \<Rightarrow> string \<Rightarrow> stage" where
  "recreate_restore_previous x reason s =
     (let dx = sx_dx x; i = cd_id s; now = dx_now dx;
          (restored, notes, d, dk) = bring_back_files dx (Option.bind (m_container (cd_mem s)) c_hostPort)
            (cd_dir s) (cd_docker s);
          s1 = s\<lparr>cd_dir := d, cd_docker := dk\<rparr>;
          operation = recreate_json x reason notes in
      if \<not> restored then (Inl (X_error reason), recreate_failed_rollback x reason s1)
      else (let s2 = to_disk (set_mem (\<lambda>m. touch now ((upd_container (\<lambda>k. k\<lparr>
                 c_containerId := dx_container_id dx dk, c_imageId := dx_image_id dx dk\<rparr>) m)
                 \<lparr>m_status := RUNNING, m_desiredState := DESIRED_RUNNING, m_lastError := None,
                   m_lastOperation := Some operation\<rparr>)) s1);
                s3 = write_reg (upsert_from_manifest (cd_mem s2) None None) s2;
                s4 = write_reg (update_status i ''running'' (no_update\<lparr>su_desired_state := Some ''running''\<rparr>) now) s3;
                s5 = write_reg (update_last_operation i (Some operation) now) s4;
                s6 = write_reg (update_last_error i (Some (take 500 reason)) now) s5 in
            (Inl (X_restored reason), write_reg (add_event (Some i) ''lifecycle_stage'' ''restored'' None now) s6)))"

definition observe_recreated :: "start_ctx \<Rightarrow> stage" where
  "observe_recreated x s =
     (let cid = dx_container_id (sx_dx x) (cd_docker s); iid = dx_image_id (sx_dx x) (cd_docker s) in
      (Inr (), set_mem (upd_container (\<lambda>k. k\<lparr>c_containerId := or_else cid (c_containerId k),
         c_imageId := or_else iid (c_imageId k)\<rparr>)) s))"

definition conclude_recreate :: "start_ctx \<Rightarrow> stage" where
  "conclude_recreate x s =
     (let dx = sx_dx x; now = dx_now dx in
      case dx_verify dx (cd_docker s) of
        None \<Rightarrow> (Inl (X_error ''verification''), s)
      | Some v \<Rightarrow>
          if ve_failed v then recreate_restore_previous x ''probes failed'' (release_fresh s)
          else record_final x ((set_mem (\<lambda>m. touch now (m\<lparr>m_status := RUNNING, m_desiredState := DESIRED_RUNNING,
                 m_lastError := None,
                 m_deploymentFingerprints := Some (compute_deployment_fingerprints x (ad_files (cd_dir s)) m)\<rparr>)) s)
               \<lparr>cd_dir := save_last_good_env (cd_dir s)\<rparr>))"

definition recreate_stages :: "start_ctx \<Rightarrow> stage list" where
  "recreate_stages x = [rescue_data (sx_dx x), stop_running x, clear_container_identity (sx_dx x)]"

definition recreate_container_runtime :: "start_ctx \<Rightarrow> stage" where
  "recreate_container_runtime x s =
     (let dx = sx_dx x; s0 = s\<lparr>cd_mem := cd_disk s\<rparr> in
      if \<not> is_container (cd_disk s) then (Inl (X_error ''not a container''), s0)
      else if \<not> dx_available dx then (Inl (X_error ''docker''), s0)
      else (case ensure_env_rollback_ready (dx_env_hash dx) True (cd_dir s0) of
          (Inl _, d) \<Rightarrow> (Inl (X_error ''environment''), restore_for_txn (s0\<lparr>cd_dir := d\<rparr>))
        | (Inr _, d) \<Rightarrow>
            (let s1 = s0\<lparr>cd_dir := d\<rparr> in
             if \<not> can_recreate_container x s1 then host_container dx s1
             else (case run_stages (recreate_stages x) s1 of
                 (Inl e, s2) \<Rightarrow> (Inl e, s2)
               | (Inr _, s2) \<Rightarrow>
                   (case attempt_docker ''up'' (sx_recreate x) s2 of
                      (Inl _, s3) \<Rightarrow> recreate_restore_previous x ''up'' s3
                    | (Inr _, s3) \<Rightarrow>
                        run_stages [registered_port x, observe_recreated x, conclude_recreate x] s3)))))"

section \<open>Stopping\<close>

text \<open>What is still pending is not marked as stopped: only the intention is recorded.\<close>

definition record_stop :: "start_ctx \<Rightarrow> status \<Rightarrow> (manifest \<Rightarrow> manifest) \<Rightarrow> stage" where
  "record_stop x st f s =
     (let dx = sx_dx x; i = cd_id s; now = dx_now dx;
          s1 = set_mem (\<lambda>m. touch now (f (m\<lparr>m_status := st, m_desiredState := DESIRED_STOPPED\<rparr>))) s in
      after (save_manifest dx W_final) (\<lambda>s2.
        (let s3 = write_reg (upsert_from_manifest (cd_mem s2) None None) s2 in
         (Inr (), write_reg (update_status i (status_value st)
            (no_update\<lparr>su_desired_state := Some ''stopped''\<rparr>) now) s3))) s1)"

definition stop_event :: "start_ctx \<Rightarrow> string \<Rightarrow> stage" where
  "stop_event x msg s = (Inr (), write_reg (add_event (Some (cd_id s)) ''stop'' msg None (dx_now (sx_dx x))) s)"

definition stop_container :: "start_ctx \<Rightarrow> stage" where
  "stop_container x s =
     (let s0 = s\<lparr>cd_mem := cd_disk s\<rparr>; m = cd_disk s in
      if m_runtime m \<noteq> DOCKER_COMPOSE then (Inl (X_error ''not a container''), s0)
      else if m_status m = PENDING then run_stages [record_stop x PENDING id, stop_event x ''pending''] s0
      else run_stages [attempt_docker ''stop'' (sx_stop x), record_stop x STOPPED id] s0)"

text \<open>The gateway's own files are outside of this state.\<close>

definition disable_site :: "manifest \<Rightarrow> manifest" where
  "disable_site m = m\<lparr>m_static := map_option (\<lambda>c. c\<lparr>s_enabled := False\<rparr>) (m_static m)\<rparr>"

definition stop_instance :: "start_ctx \<Rightarrow> stage" where
  "stop_instance x s =
     (let s0 = s\<lparr>cd_mem := cd_disk s\<rparr>; m = cd_disk s in
      case m_runtime m of
        DOCKER_COMPOSE \<Rightarrow> stop_container x s0
      | SHARED_STATIC \<Rightarrow> run_stages
          [record_stop x (if m_status m = PENDING then PENDING else STOPPED) disable_site,
           (\<lambda>s1. (Inr (), write_reg (set_static_enabled (cd_id s1) False) s1)), stop_event x ''static''] s0)"

end
