(* ===== verification/Start_Facts.thy ===== *)
theory Start_Facts
  imports Container_Start Container_Deploy_Facts Status_Facts
begin

text \<open>
  Facts about starting a deployed container: which fingerprints lead to which kind of start, what the
  decision leaves on disk, and what a start, a recreation and a stop guarantee.
\<close>

section \<open>Comparing fingerprints\<close>

definition differs :: "fingerprints \<Rightarrow> fingerprints \<Rightarrow> string \<Rightarrow> bool" where
  "differs f g k \<longleftrightarrow> fp_get f k \<noteq> fp_get g k"

text \<open>The configuration hash takes no part in the comparison once the split hashes are there.\<close>

lemma in_changed:
  "k \<in> set BUILD_KEYS \<Longrightarrow> k \<in> set (changed_fields f g) \<longleftrightarrow> differs f g k"
  by (auto simp: changed_fields_def COMPARED_def BUILD_KEYS_def differs_def)

lemma nothing_changed:
  assumes "new_format f"
  shows "changed_fields f g = [] \<longleftrightarrow> \<not> (\<exists>k \<in> set BUILD_KEYS. differs f g k) \<and> \<not> differs f g ''runtimeConfigHash''"
  using assms by (simp add: changed_fields_def COMPARED_def BUILD_KEYS_def differs_def)

lemma fingerprint_action_cases:
  assumes "f \<noteq> []" "\<not> pinned (Some f)" "new_format f"
  shows "fst (fingerprint_change_action (Some f) g) =
    (if \<exists>k \<in> set BUILD_KEYS. differs f g k then Full_rebuild
     else if differs f g ''runtimeConfigHash'' then Runtime_recreate else Light_start)"
proof -
  have "(\<exists>k \<in> set BUILD_KEYS. k \<in> set (changed_fields f g)) \<longleftrightarrow> (\<exists>k \<in> set BUILD_KEYS. differs f g k)"
    by (intro bex_cong refl in_changed)
  then show ?thesis
    using assms nothing_changed [OF assms(3), of g] by (simp only: fingerprint_change_action_def Let_def) simp
qed

lemma fingerprint_keys:
  "map_of (compute_deployment_fingerprints x f m) ''buildConfigHash'' \<noteq> None"
  "fp_get (compute_deployment_fingerprints x f m) ''buildConfigHash'' = JStr (sx_hash x (build_config_stream
     (Option.bind (m_container m) (\<lambda>c. located x f (c_dockerfilePath c)))
     (Option.bind (m_container m) (\<lambda>c. if c_dockerfilePath c = [] then None else f HELPER)) (m_systemDeps m)))"
  by (simp_all add: compute_deployment_fingerprints_def Let_def fp_get_def)

text \<open>A fingerprint without the split hashes, as earlier releases stored it, always leads to a
  complete rebuild, even if every field that it has agrees with the current one: the missing build
  hash is compared as the empty text, and the current one is a digest.\<close>

theorem legacy_fingerprint_rebuilds:
  assumes "f \<noteq> []" "\<not> pinned (Some f)" "\<not> new_format f" "\<forall>t. sx_hash x t \<noteq> []"
  shows "fst (fingerprint_change_action (Some f) (compute_deployment_fingerprints x files m)) = Full_rebuild"
proof -
  let ?g = "compute_deployment_fingerprints x files m"
  have "fp_get f ''buildConfigHash'' = JStr []" using assms(3) by (simp add: new_format_def fp_get_def)
  moreover obtain h where "fp_get ?g ''buildConfigHash'' = JStr (sx_hash x h)"
    using fingerprint_keys(2) [of x files m] by (rule that)
  ultimately have "differs f ?g ''buildConfigHash''" using assms(4) by (simp only: differs_def json.inject) metis
  moreover have "''buildConfigHash'' \<in> set BUILD_KEYS" by (simp add: BUILD_KEYS_def)
  ultimately have c: "''buildConfigHash'' \<in> set (changed_fields f ?g)" by (simp only: in_changed)
  then have "\<exists>k \<in> set BUILD_KEYS. k \<in> set (changed_fields f ?g)" "changed_fields f ?g \<noteq> []"
    using \<open>''buildConfigHash'' \<in> set BUILD_KEYS\<close> by (blast, metis empty_iff empty_set)
  with assms(1-3) show ?thesis by (simp only: fingerprint_change_action_def Let_def) simp
qed

section \<open>The decision\<close>

lemma put_files_fields [simp]:
  "cd_dir (put_files f s) = (cd_dir s)\<lparr>ad_files := f\<rparr>" "cd_docker (put_files f s) = cd_docker s"
  "cd_mem (put_files f s) = cd_mem s" "cd_disk (put_files f s) = cd_disk s" "cd_reg (put_files f s) = cd_reg s"
  by (simp_all add: put_files_def)

text \<open>The whole decision after the snapshot, as one equation.\<close>

lemma deployed_action_run:
  assumes "deployed_action x s = (Inr (choice, fs), s')" "\<not> pinned (m_deploymentFingerprints (cd_mem s))"
  obtains (missing) "choice = Full_rebuild" "ad_files (cd_dir s') = ad_files (cd_dir s)"
      "ad_prev (cd_dir s') = Some (save_files ALL_GENERATED_FILES (ad_files (cd_dir s)))" "cd_docker s' = cd_docker s"
    | (decided) f cv where
      "converge_generated_artifacts x (cd_mem s) (ad_files (cd_dir s)) = (Inr cv, f)"
      "(choice, fs) = (if cv_rendered cv then fingerprint_change_action (m_deploymentFingerprints (cd_mem s))
          (compute_deployment_fingerprints x f (cd_mem s)) else (Full_rebuild, [''hostPort'']))"
      "ad_prev (cd_dir s') = Some (save_files ALL_GENERATED_FILES (ad_files (cd_dir s)))"
      "cd_docker s' = cd_docker s"
      "ad_files (cd_dir s') = (if choice = Full_rebuild \<and> cv_rendered cv
          then copy_back ALL_GENERATED_FILES (save_files ALL_GENERATED_FILES (ad_files (cd_dir s))) f else f)"
proof -
  let ?d = "(cd_dir s)\<lparr>ad_prev := Some (save_files ALL_GENERATED_FILES (ad_files (cd_dir s)))\<rparr>"
  have snap: "\<not> dx_snapshot_fails (sx_dx x)" using assms
    by (auto simp: deployed_action_def Let_def snapshot_generated_def)
  show thesis
  proof (cases "ad_files (cd_dir s) ''compose.yaml'' = None \<or> ad_files (cd_dir s) ''Dockerfile'' = None")
    case True
    with assms snap have "choice = Full_rebuild" "s' = s\<lparr>cd_dir := ?d\<rparr>"
      by (auto simp: deployed_action_def Let_def snapshot_generated_def)
    then show thesis by (intro missing) simp_all
  next
    case False
    obtain r f where c: "converge_generated_artifacts x (cd_mem s) (ad_files (cd_dir s)) = (r, f)" by fastforce
    with assms snap False obtain cv where cv: "r = Inr cv"
      by (cases r) (auto simp: deployed_action_def Let_def snapshot_generated_def)
    obtain action changed where a: "fingerprint_change_action (m_deploymentFingerprints (cd_mem s))
        (compute_deployment_fingerprints x f (cd_mem s)) = (action, changed)" by fastforce
    show thesis
      using assms snap False c cv a
      by (intro decided [of cv f])
        (auto simp: deployed_action_def Let_def snapshot_generated_def restore_for_txn_def restore_generated_def
          save_manifest_def set_mem_def split: if_splits)
  qed
qed

lemma converge_outcome:
  assumes "converge_generated_artifacts x m f = (Inr cv, f')"
  shows "if cv_rendered cv then \<exists>port. Option.bind (m_container m) c_hostPort = Some port \<and> render_all x m port f = (True, f')
    else f' = f"
  using assms by (auto simp: converge_generated_artifacts_def Let_def split: option.splits prod.splits bool.splits)

lemma restored_files: "n \<in> set ALL_GENERATED_FILES
    \<Longrightarrow> copy_back ALL_GENERATED_FILES (save_files ALL_GENERATED_FILES f) g n = f n"
  by (simp add: copy_back_at save_files_at)

text \<open>C11: what the decision about a deployed container means. It first saves the generated files.
  A complete rebuild finds the files as they were. Otherwise the files are what the manifest renders
  to, their fingerprints agree with the stored ones on the source, the plan, the build configuration
  and the image, and the start is light exactly if the runtime configuration agrees too.\<close>

theorem decision_outcome:
  assumes "deployed_action x s = (Inr (choice, fs), s')"
    and "m_deploymentFingerprints (cd_mem s) = Some f" "f \<noteq> []" "\<not> pinned (Some f)" "new_format f"
  shows "ad_prev (cd_dir s') = Some (save_files ALL_GENERATED_FILES (ad_files (cd_dir s))) \<and> cd_docker s' = cd_docker s \<and>
    (if choice = Full_rebuild
     then \<forall>n \<in> set ALL_GENERATED_FILES. ad_files (cd_dir s') n = ad_files (cd_dir s) n
     else (let current = compute_deployment_fingerprints x (ad_files (cd_dir s')) (cd_mem s) in
       (\<exists>port. Option.bind (m_container (cd_mem s)) c_hostPort = Some port
          \<and> render_all x (cd_mem s) port (ad_files (cd_dir s)) = (True, ad_files (cd_dir s')))
       \<and> \<not> (\<exists>k \<in> set BUILD_KEYS. differs f current k)
       \<and> (choice = Light_start \<longleftrightarrow> \<not> differs f current ''runtimeConfigHash'')))"
proof -
  have "\<not> pinned (m_deploymentFingerprints (cd_mem s))" using assms by simp
  from assms(1) this show ?thesis
  proof (cases rule: deployed_action_run)
    case missing
    then show ?thesis by simp
  next
    case (decided g cv)
    note act = fingerprint_action_cases [OF assms(3-5)] and conv = converge_outcome [OF decided(1)]
    show ?thesis
    proof (cases "choice = Full_rebuild")
      case True
      have "ad_files (cd_dir s') n = ad_files (cd_dir s) n" if "n \<in> set ALL_GENERATED_FILES" for n
        using decided(5) True conv that by (auto simp: restored_files split: if_splits)
      with True decided(3,4) show ?thesis by simp
    next
      case False
      let ?g = "compute_deployment_fingerprints x g (cd_mem s)"
      have r: "cv_rendered cv" using False decided(2) by (auto split: if_splits)
      then have "choice = fst (fingerprint_change_action (Some f) ?g)"
        using decided(2) assms(2) by (metis fst_conv)
      with False have "\<not> (\<exists>k \<in> set BUILD_KEYS. differs f ?g k)" "choice = Light_start \<longleftrightarrow> \<not> differs f ?g ''runtimeConfigHash''"
        unfolding act by (auto split: if_splits)
      moreover have "ad_files (cd_dir s') = g" using decided(5) False by simp
      ultimately show ?thesis using False conv r decided(3,4) unfolding Let_def by simp
    qed
  qed
qed

section \<open>A recreation\<close>

text \<open>A recreation that is given up before the old container is touched keeps the newly rendered
  files on disk. The next decision takes its snapshot of them, so that the configuration of the
  container that is still running is in no snapshot any more.\<close>

theorem aborted_recreate_loses_snapshot:
  assumes "deployed_action x s = (Inr (Runtime_recreate, fs), s1)"
    and "is_container (cd_disk s1)" "dx_available (sx_dx x)" "good_recorded (cd_dir s1)" "can_recreate_container x s1"
    and "\<not> dx_rescue_ok (sx_dx x) (cd_docker s1) \<or> dx_running (sx_dx x) (cd_docker s1) = None"
    and "deployed_action y (s2\<lparr>cd_mem := cd_disk s2\<rparr>) = (Inr r, s3)" "\<not> pinned (m_deploymentFingerprints (cd_disk s2))"
    and "snd (recreate_container_runtime x s1) = s2"
  shows "(\<exists>e. fst (recreate_container_runtime x s1) = Inl e) \<and> cd_disk s2 = cd_disk s1 \<and> cd_docker s2 = cd_docker s1
    \<and> ad_files (cd_dir s2) = ad_files (cd_dir s1)
    \<and> ad_prev (cd_dir s3) = Some (save_files ALL_GENERATED_FILES (ad_files (cd_dir s1)))"
proof -
  let ?s = "s1\<lparr>cd_mem := cd_disk s1\<rparr>"
  have "ensure_env_rollback_ready (dx_env_hash (sx_dx x)) True (cd_dir ?s) = (Inr (), cd_dir ?s)"
    using assms(4) by (simp add: ensure_env_rollback_ready_def)
  moreover have "can_recreate_container x ?s" using assms(5) by (simp add: can_recreate_container_def)
  moreover have "\<exists>e. run_stages (recreate_stages x) ?s = (Inl e, ?s)"
    using assms(6) by (auto simp: recreate_stages_def after_def rescue_data_def stop_running_def attempt_docker_def
        stop_or_abort_def)
  ultimately have g: "\<exists>e. recreate_container_runtime x s1 = (Inl e, ?s)"
    using assms(2,3) by (auto simp: recreate_container_runtime_def Let_def)
  with assms(9) have s2: "s2 = ?s" by auto
  obtain c fs2 where r: "r = (c, fs2)" by fastforce
  have "\<not> pinned (m_deploymentFingerprints (cd_mem (s2\<lparr>cd_mem := cd_disk s2\<rparr>)))" using assms(8) by simp
  from assms(7) [unfolded r] this have "ad_prev (cd_dir s3) = Some (save_files ALL_GENERATED_FILES (ad_files (cd_dir s2)))"
    by (cases rule: deployed_action_run) simp_all
  with g s2 show ?thesis by auto
qed

text \<open>A stop that fails leaves the container as it was.\<close>

definition stop_ok :: "start_ctx \<Rightarrow> bool" where
  "stop_ok x \<longleftrightarrow> (\<forall>dk. \<not> fst (sx_stop x dk) \<longrightarrow> dk_running (snd (sx_stop x dk)) = dk_running dk)"

lemma prefix_outcome:
  assumes "stop_ok x" "run_stages (recreate_stages x) s = (r, s')"
  shows "cd_dir s' = cd_dir s \<and> (case r of
      Inl e \<Rightarrow> cd_disk s' = cd_disk s \<and> (dk_running (cd_docker s') = dk_running (cd_docker s) \<or> e = X_error ''save'')
    | Inr _ \<Rightarrow> True)"
proof -
  let ?stop = "stop_or_abort (dx_running (sx_dx x)) (sx_stop x) True (cd_docker s)"
  have "\<not> fst ?stop \<Longrightarrow> dk_running (snd ?stop) = dk_running (cd_docker s)"
    using assms(1) by (auto simp: stop_or_abort_def stop_ok_def split: option.splits if_splits)
  then show ?thesis
    using assms(2) by (cases ?stop; cases "fst ?stop")
      (auto simp: recreate_stages_def after_def rescue_data_def stop_running_def attempt_docker_def
        clear_container_identity_def save_manifest_def set_mem_def split: if_splits)
qed

definition went_back :: "start_ctx \<Rightarrow> cd \<Rightarrow> deploy_exn \<Rightarrow> cd \<Rightarrow> bool" where
  "went_back x s e s' \<longleftrightarrow>
     (\<exists>reason. e = X_restored reason) \<and> m_status (cd_disk s') = RUNNING \<and> dx_http_ok (sx_dx x) (cd_docker s')
       \<and> (\<exists>snap. ad_prev (cd_dir s) = Some snap \<and> (\<forall>n \<in> set ALL_GENERATED_FILES. ad_files (cd_dir s') n = snap n))
     \<or> (\<exists>reason. e = X_error reason) \<and> m_status (cd_disk s') = FAILED
       \<and> Option.bind (m_container (cd_disk s')) c_containerId = None"

lemma bring_back_files_restored:
  assumes "bring_back_files x port d dk = (True, ns, d', dk')"
  shows "dx_http_ok x dk' \<and> (\<exists>snap. ad_prev d = Some snap \<and> (\<forall>n \<in> set ALL_GENERATED_FILES. ad_files d' n = snap n))"
proof -
  have "ENV_LOCAL \<notin> set ALL_GENERATED_FILES"
    by (simp add: ENV_LOCAL_def ALL_GENERATED_FILES_def GENERATED_FILES_def OPTIONAL_GENERATED_FILES_def)
  with assms show ?thesis
    by (auto simp: bring_back_files_def Let_def restore_generated_def restore_last_good_env_def copy_back_at
        split: prod.splits bool.splits option.splits if_splits)
qed

lemma mark_failed_with_disk [simp]:
  "m_status (cd_disk (mark_failed_with x op reason s)) = FAILED"
  "m_container (cd_disk (mark_failed_with x op reason s)) = m_container (cd_mem s)"
  by (simp_all add: mark_failed_with_def Let_def to_disk_def set_mem_def touch_def)

lemma upd_container_at [simp]: "m_container (upd_container f m) = map_option f (m_container m)"
  by (simp add: upd_container_def)

lemma restore_previous_outcome:
  assumes "recreate_restore_previous x reason t = (r, s')" "ad_prev (cd_dir t) = ad_prev (cd_dir s)"
  shows "\<exists>e. r = Inl e \<and> went_back x s e s'"
proof -
  obtain restored ns d dk where b: "bring_back_files (sx_dx x) (Option.bind (m_container (cd_mem t)) c_hostPort)
      (cd_dir t) (cd_docker t) = (restored, ns, d, dk)" by (metis prod_cases4)
  show ?thesis
  proof (cases restored)
    case True
    with b have b2: "bring_back_files (sx_dx x) (Option.bind (m_container (cd_mem t)) c_hostPort)
      (cd_dir t) (cd_docker t) = (True, ns, d, dk)" by simp
    from bring_back_files_restored [OF b2] have "dx_http_ok (sx_dx x) dk \<and>
      (\<exists>snap. ad_prev (cd_dir t) = Some snap \<and> (\<forall>n \<in> set ALL_GENERATED_FILES. ad_files d n = snap n))" .
    with assms b True show ?thesis
      by (auto simp: recreate_restore_previous_def Let_def went_back_def to_disk_def set_mem_def touch_def)
  next
    case False
    have "Option.bind (m_container (cd_disk (recreate_failed_rollback x reason u))) c_containerId = None"
      "m_status (cd_disk (recreate_failed_rollback x reason u)) = FAILED" for u
      by (simp_all add: recreate_failed_rollback_def Let_def set_mem_def down_quietly_def bind_map_option comp_def)
    with assms b False show ?thesis
      by (auto simp: recreate_restore_previous_def Let_def went_back_def)
  qed
qed

lemma registered_port_keeps:
  assumes "registered_port x s = (r, s')"
  shows "cd_dir s' = cd_dir s \<and> cd_docker s' = cd_docker s \<and> cd_disk s' = cd_disk s
    \<and> (case r of Inl e \<Rightarrow> e = X_error ''port'' | Inr _ \<Rightarrow> True)"
  using assms by (auto simp: registered_port_def new_port_def set_mem_def
      split: option.splits if_splits prod.splits sum.splits)

lemma record_final_outcome:
  assumes "record_final x s = (r, s')"
  shows "cd_dir s' = cd_dir s \<and> cd_docker s' = cd_docker s \<and> cd_mem s' = cd_mem s
    \<and> (case r of Inl e \<Rightarrow> e = X_error ''save'' | Inr _ \<Rightarrow> cd_disk s' = cd_mem s)"
  using assms by (auto simp: record_final_def Let_def after_def save_manifest_def split: if_splits)

lemma cd_dir_release [simp]:
  "cd_dir (release_fresh s) = cd_dir s" "cd_docker (release_fresh s) = cd_docker s" "cd_mem (release_fresh s) = cd_mem s"
  by (simp_all add: release_fresh_def)

text \<open>Once the old container is gone, the errors of the steps that record the new one.\<close>

definition recording_error :: "deploy_exn \<Rightarrow> bool" where
  "recording_error e \<longleftrightarrow> e \<in> {X_error ''port'', X_error ''verification'', X_error ''save''}"

lemma conclude_recreate_outcome:
  assumes "conclude_recreate x t = (r, s')" "ad_prev (cd_dir t) = ad_prev (cd_dir s)"
  shows "case r of
      Inr _ \<Rightarrow> m_status (cd_disk s') = RUNNING
        \<and> (\<exists>v. dx_verify (sx_dx x) (cd_docker s') = Some v \<and> \<not> ve_failed v)
    | Inl e \<Rightarrow> recording_error e \<or> went_back x s e s'"
proof (cases "dx_verify (sx_dx x) (cd_docker t)")
  case None
  with assms show ?thesis by (auto simp: conclude_recreate_def Let_def recording_error_def)
next
  case (Some v)
  show ?thesis
  proof (cases "ve_failed v")
    case True
    with assms Some have "recreate_restore_previous x ''probes failed'' (release_fresh t) = (r, s')"
      by (simp add: conclude_recreate_def Let_def)
    from restore_previous_outcome [OF this, of s] assms(2) show ?thesis by auto
  next
    case False
    with assms Some show ?thesis
      by (auto simp: conclude_recreate_def Let_def set_mem_def touch_def recording_error_def
          dest!: record_final_outcome split: sum.splits)
  qed
qed


section \<open>The registry after a recreation\<close>

lemma containers_release [simp]: "containers (release_instance i r) = containers r"
  by (simp add: release_instance_def release_instance_ports_def)

lemma record_final_row:
  assumes "record_final x s = (Inr (), s')"
  shows "containers (cd_reg s') = containers (cd_reg s)"
  using assms by (auto simp: record_final_def Let_def after_def save_manifest_def split: if_splits)

text \<open>A recreation that returns leaves the row of the container in the registry as it was, although
  it gave the manifest the identity of the new container, or none if the new container was not seen:
  unlike a start and a deployment it writes neither the container nor insists on its identity.\<close>

theorem recreate_leaves_registry_row:
  assumes "recreate_container_runtime x s = (Inr (), s')"
    and "is_container (cd_disk s)" "good_recorded (cd_dir s)" "can_recreate_container x s"
    and "Option.bind (m_container (cd_disk s)) c_hostPort = Some p" "p \<noteq> 0"
  shows "containers (cd_reg s') = containers (cd_reg s) \<and> m_status (cd_disk s') = RUNNING
    \<and> Option.bind (m_container (cd_disk s')) c_containerId = or_else (dx_container_id (sx_dx x) (cd_docker s')) None"
proof -
  let ?s = "s\<lparr>cd_mem := cd_disk s\<rparr>"
  obtain k where k: "m_container (cd_disk s) = Some k" "c_hostPort k = Some p" using assms(5) by (cases "m_container (cd_disk s)") auto
  have "ensure_env_rollback_ready (dx_env_hash (sx_dx x)) True (cd_dir s) = (Inr (), cd_dir s)"
    using assms(3) by (simp add: ensure_env_rollback_ready_def)
  moreover have "can_recreate_container x ?s" using assms(4) by (simp add: can_recreate_container_def)
  ultimately obtain t u where t: "run_stages (recreate_stages x) ?s = (Inr (), t)"
    and u: "attempt_docker ''up'' (sx_recreate x) t = (Inr (), u)"
    and w: "run_stages [registered_port x, observe_recreated x, conclude_recreate x] u = (Inr (), s')"
    using assms(1,2) restore_previous_outcome [of x "''up''"]
    by (fastforce simp: recreate_container_runtime_def Let_def split: if_splits prod.splits sum.splits)
  have t1: "cd_reg t = cd_reg s" "m_container (cd_mem t) = Some (k\<lparr>c_containerId := None, c_imageId := None\<rparr>)"
    using t k by (auto simp: recreate_stages_def after_def rescue_data_def stop_running_def attempt_docker_def touch_def
        clear_container_identity_def save_manifest_def set_mem_def split: if_splits prod.splits sum.splits bool.splits)
  have u1: "cd_reg u = cd_reg t" "cd_mem u = cd_mem t"
    using u by (auto simp: attempt_docker_def split: prod.splits bool.splits)
  define w1 where "w1 = snd (observe_recreated x (u\<lparr>cd_port := p, cd_fresh := False\<rparr>))"
  have "registered_port x u = (Inr (), u\<lparr>cd_port := p, cd_fresh := False\<rparr>)"
    using u1 t1 k(2) assms(6) by (simp add: registered_port_def)
  with w have c: "conclude_recreate x w1 = (Inr (), s')"
    by (auto simp: after_def observe_recreated_def Let_def w1_def split: prod.splits sum.splits)
  have w1: "cd_reg w1 = cd_reg u" "Option.bind (m_container (cd_mem w1)) c_containerId = or_else (dx_container_id (sx_dx x) (cd_docker w1)) None"
    using t1 u1 by (simp_all add: w1_def observe_recreated_def Let_def set_mem_def)
  obtain v where v: "dx_verify (sx_dx x) (cd_docker w1) = Some v" "\<not> ve_failed v"
    using c restore_previous_outcome [of x "''probes failed''" "release_fresh w1"]
    by (fastforce simp: conclude_recreate_def Let_def split: option.splits if_splits)
  define w2 where "w2 = (set_mem (\<lambda>m. touch (dx_now (sx_dx x)) (m\<lparr>m_status := RUNNING, m_desiredState := DESIRED_RUNNING,
      m_lastError := None, m_deploymentFingerprints := Some (compute_deployment_fingerprints x (ad_files (cd_dir w1)) m)\<rparr>)) w1)
      \<lparr>cd_dir := save_last_good_env (cd_dir w1)\<rparr>"
  have f: "record_final x w2 = (Inr (), s')" using c v by (simp add: conclude_recreate_def Let_def w2_def)
  have "cd_reg w2 = cd_reg w1" "m_container (cd_mem w2) = m_container (cd_mem w1)" "m_status (cd_mem w2) = RUNNING"
    "cd_docker w2 = cd_docker w1" by (simp_all add: w2_def set_mem_def touch_def)
  with record_final_row [OF f] record_final_outcome [OF f] w1 u1 t1 show ?thesis by simp
qed

section \<open>Starting\<close>

lemma get_instance_upsert: "get_instance (m_id m) (commit (upsert_from_manifest m a z r) r) \<noteq> None"
proof -
  let ?r1 = "r\<lparr>instances := upsert_row i_id merge_instance (instance_row m a z) (instances r)\<rparr>"
  have "known_instance ?r1 (m_id m)"
    by (subst known_upsert) (simp_all add: merge_instance_def instance_row_def)
  then show ?thesis
    by (auto simp: upsert_from_manifest_def Let_def known_instance_def get_instance_def put_container_def put_static_def
        del_static_rows_def del_container_rows_def split: option.splits)
qed

lemma registry_status_times [simp]:
  "registry_status j (commit (record_started i t t' r) r) = registry_status j r"
  "registry_status j (commit (record_health_check i t t' r) r) = registry_status j r"
  by (auto simp: registry_status_def record_started_def record_health_check_def get_upd_instance option.map_comp comp_def)

lemma registry_status_get: "registry_status i r \<noteq> None \<longleftrightarrow> get_instance i r \<noteq> None"
  by (simp add: registry_status_def)

lemma mem_id_simps [simp]:
  "m_id (upd_container f m) = m_id m" "m_id (touch t m) = m_id m" "m_id (refresh_paths p m) = m_id m"
  "cd_id (write_reg g s) = cd_id s" "cd_id (set_mem h s) = m_id (h (cd_mem s))"
  by (simp_all add: upd_container_def touch_def refresh_paths_def cd_id_def set_mem_def)

lemma verifying_outcome:
  assumes "enter_verifying x s = (Inr (), s')"
  shows "cd_docker s' = cd_docker s \<and> m_desiredState (cd_mem s') = DESIRED_RUNNING \<and> m_lastError (cd_mem s') = None
    \<and> cd_id s' = cd_id s \<and> registry_status (cd_id s') (cd_reg s') = Some ''verifying''
    \<and> Option.bind (m_container (cd_mem s')) c_containerId = Option.bind (m_container (cd_mem s)) c_containerId
    \<and> Option.bind (m_container (cd_mem s')) c_hostPort = Option.bind (m_container (cd_mem s)) c_hostPort"
proof -
  define s1 where "s1 = set_mem (\<lambda>m. touch (dx_now (sx_dx x)) (refresh_paths (dx_paths (sx_dx x)) (m\<lparr>m_status := VERIFYING,
      m_desiredState := DESIRED_RUNNING, m_lastError := None\<rparr>))) s"
  have s': "cd_reg s' = commit (record_started (cd_id s) (dx_now (sx_dx x)) (dx_now (sx_dx x))
      (commit (update_status (cd_id s) ''verifying'' (no_update\<lparr>su_desired_state := Some ''running''\<rparr>) (dx_now (sx_dx x))
         (commit (upsert_from_manifest (cd_mem s1) None None (cd_reg s)) (cd_reg s)))
         (commit (upsert_from_manifest (cd_mem s1) None None (cd_reg s)) (cd_reg s))))
      (commit (update_status (cd_id s) ''verifying'' (no_update\<lparr>su_desired_state := Some ''running''\<rparr>) (dx_now (sx_dx x))
         (commit (upsert_from_manifest (cd_mem s1) None None (cd_reg s)) (cd_reg s)))
         (commit (upsert_from_manifest (cd_mem s1) None None (cd_reg s)) (cd_reg s)))"
    "cd_mem s' = cd_mem s1" "cd_docker s' = cd_docker s"
    using assms by (auto simp: enter_verifying_def Let_def after_def save_manifest_def s1_def set_mem_def split: if_splits)
  have "m_id (cd_mem s1) = cd_id s" by (simp add: s1_def set_mem_def cd_id_def)
  with get_instance_upsert [of "cd_mem s1" None None "cd_reg s"]
  have "get_instance (cd_id s) (commit (upsert_from_manifest (cd_mem s1) None None (cd_reg s)) (cd_reg s)) \<noteq> None" by simp
  then have "registry_status (cd_id s) (cd_reg s') = Some ''verifying''" by (auto simp: s'(1))
  moreover have "cd_id s' = cd_id s" using s'(2) by (simp add: cd_id_def s1_def set_mem_def)
  moreover have "Option.bind (m_container (cd_mem s1)) c_containerId = Option.bind (m_container (cd_mem s)) c_containerId"
    "Option.bind (m_container (cd_mem s1)) c_hostPort = Option.bind (m_container (cd_mem s)) c_hostPort"
    by (simp_all add: s1_def set_mem_def touch_def refresh_paths_def bind_map_option comp_def)
  moreover have "m_desiredState (cd_mem s1) = DESIRED_RUNNING" "m_lastError (cd_mem s1) = None"
    by (simp_all add: s1_def set_mem_def touch_def refresh_paths_def)
  ultimately show ?thesis using s'(2,3) by simp
qed

lemma conclude_outcome:
  assumes "conclude_start x s = (Inr (), s')" "registry_status (cd_id s) (cd_reg s) \<noteq> None"
  shows "\<exists>v. dx_verify (sx_dx x) (cd_docker s) = Some v \<and> cd_docker s' = cd_docker s \<and> cd_disk s' = cd_mem s'
    \<and> m_status (cd_mem s') = (if ve_failed v then FAILED else RUNNING)
    \<and> m_desiredState (cd_mem s') = m_desiredState (cd_mem s) \<and> m_container (cd_mem s') = m_container (cd_mem s)
    \<and> registry_status (cd_id s) (cd_reg s') = Some (status_value (m_status (cd_mem s')))"
proof -
  obtain v where v: "dx_verify (sx_dx x) (cd_docker s) = Some v"
    using assms(1) by (auto simp: conclude_start_def Let_def split: option.splits)
  obtain t where t: "record_final x t = (Inr (), s')" "cd_docker t = cd_docker s"
    "m_status (cd_mem t) = (if ve_failed v then FAILED else RUNNING)" "m_desiredState (cd_mem t) = m_desiredState (cd_mem s)"
    "m_container (cd_mem t) = m_container (cd_mem s)" "cd_id t = cd_id s" "registry_status (cd_id t) (cd_reg t) \<noteq> None"
    using assms v by (cases "ve_failed v"; cases "ve_degraded v")
      (auto simp: conclude_start_def Let_def set_mem_def touch_def cd_id_def)
  have "registry_status (cd_id t) (cd_reg s') = Some (status_value (m_status (cd_mem t)))"
    using t(1,7) by (auto simp: record_final_def Let_def after_def save_manifest_def cd_id_def registry_status_def split: if_splits)
  with t v record_final_outcome [OF t(1)] show ?thesis by auto
qed

text \<open>C34: a light start that returns has recorded the instance as running or failed, exactly as the
  probes of its container say, with the same status in the manifest and in the registry and the
  intention to run. A container that was brought up anew has the identity that was then observed.\<close>

theorem light_start_outcome:
  assumes "start_container x s = (Inr (), s')"
    and "bring_up x (s\<lparr>cd_mem := cd_disk s\<rparr>) = (Inr a, s1)" "a \<noteq> By_rebuild"
  shows "\<exists>v. dx_verify (sx_dx x) (cd_docker s1) = Some v \<and> cd_docker s' = cd_docker s1 \<and> cd_disk s' = cd_mem s'
    \<and> m_status (cd_disk s') = (if ve_failed v then FAILED else RUNNING) \<and> m_desiredState (cd_disk s') = DESIRED_RUNNING
    \<and> registry_status (cd_id s') (cd_reg s') = Some (status_value (m_status (cd_disk s')))
    \<and> (a = By_up \<longrightarrow> truthy (dx_container_id (sx_dx x) (cd_docker s1))
        \<and> (m_container (cd_mem s1) \<noteq> None \<longrightarrow>
            Option.bind (m_container (cd_disk s')) c_containerId = dx_container_id (sx_dx x) (cd_docker s1)))"
proof -
  have run: "run_stages [registered_port x, observe_started x a, enter_verifying x, conclude_start x] s1 = (Inr (), s')"
    using assms by (cases a) (auto simp: start_container_def Let_def split: if_splits)
  then obtain s2 s3 s4 where s2: "registered_port x s1 = (Inr (), s2)" and s3: "observe_started x a s2 = (Inr (), s3)"
    and s4: "enter_verifying x s3 = (Inr (), s4)" and s5: "conclude_start x s4 = (Inr (), s')"
    by (auto simp: after_def split: prod.splits sum.splits)
  have d2: "cd_docker s2 = cd_docker s1" "m_container (cd_mem s1) \<noteq> None \<Longrightarrow> m_container (cd_mem s2) \<noteq> None"
    using s2 registered_port_keeps [OF s2]
    by (auto simp: registered_port_def new_port_def set_mem_def split: option.splits if_splits prod.splits sum.splits)
  have d3: "cd_docker s3 = cd_docker s2" "a = By_up \<Longrightarrow> truthy (dx_container_id (sx_dx x) (cd_docker s2))
      \<and> (m_container (cd_mem s2) \<noteq> None \<longrightarrow>
        Option.bind (m_container (cd_mem s3)) c_containerId = dx_container_id (sx_dx x) (cd_docker s2))"
    using s3 by (auto simp: observe_started_def Let_def set_mem_def split: if_splits)
  note v4 = verifying_outcome [OF s4]
  then have "registry_status (cd_id s4) (cd_reg s4) \<noteq> None" by (metis option.distinct(1))
  from conclude_outcome [OF s5 this] obtain v where v: "dx_verify (sx_dx x) (cd_docker s4) = Some v"
    "cd_docker s' = cd_docker s4" "cd_disk s' = cd_mem s'" "m_status (cd_mem s') = (if ve_failed v then FAILED else RUNNING)"
    "m_desiredState (cd_mem s') = m_desiredState (cd_mem s4)" "m_container (cd_mem s') = m_container (cd_mem s4)"
    "registry_status (cd_id s4) (cd_reg s') = Some (status_value (m_status (cd_mem s')))" by blast
  have "cd_id s' = cd_id s4"
    using s5 by (auto simp: conclude_start_def Let_def record_final_def after_def save_manifest_def set_mem_def
        cd_id_def touch_def split: option.splits if_splits)
  with v v4 d2 d3 show ?thesis by auto
qed

text \<open>Data in the container is not risked for a start. If the mounts cannot be read, or if they
  have drifted and the strict rescue of the data fails, the start raises and changes nothing.\<close>

theorem drift_without_rescue:
  assumes "sx_drift x (cd_docker s) = None
      \<or> sx_drift x (cd_docker s) = Some True \<and> \<not> sx_strict_rescue_ok x (cd_docker s)"
  shows "\<exists>e. start_container x s = (Inl e, s\<lparr>cd_mem := cd_disk s\<rparr>)"
  using assms by (auto simp: start_container_def bring_up_def with_action_def after_def strict_rescue_def Let_def)

section \<open>Stopping\<close>

lemma ports_kept [simp]:
  "ports (commit (add_event j k msg src t r) r) = ports r"
  "ports (commit (upsert_from_manifest mf a z r) r) = ports r"
  "ports (commit (update_status i st u t r) r) = ports r"
  "ports (commit (set_static_enabled i b r) r) = ports r"
  by (simp_all add: commit_def add_event_def upsert_from_manifest_def dao_instance_defs Let_def set_static_enabled_def
      put_container_def put_static_def del_static_rows_def del_container_rows_def split: option.split)

lemma registry_status_enabled [simp]:
  "registry_status j (commit (set_static_enabled i b r) r) = registry_status j r"
  by (simp add: registry_status_def set_static_enabled_def get_instance_def)

lemma record_stop_outcome:
  assumes "record_stop x st f s = (r, s')" "\<And>m. m_status (f m) = m_status m" "\<And>m. m_desiredState (f m) = m_desiredState m"
    and "\<And>m. m_id (f m) = m_id m"
  shows "cd_docker s' = cd_docker s \<and> cd_id s' = cd_id s \<and> ports (cd_reg s') = ports (cd_reg s) \<and> (case r of
      Inl e \<Rightarrow> cd_disk s' = cd_disk s \<and> cd_reg s' = cd_reg s
    | Inr _ \<Rightarrow> m_status (cd_disk s') = st \<and> m_desiredState (cd_disk s') = DESIRED_STOPPED
        \<and> registry_status (cd_id s) (cd_reg s') = Some (status_value st))"
proof -
  define m where "m = touch (dx_now (sx_dx x)) (f ((cd_mem s)\<lparr>m_status := st, m_desiredState := DESIRED_STOPPED\<rparr>))"
  have m: "m_status m = st" "m_desiredState m = DESIRED_STOPPED" "m_id m = cd_id s"
    using assms(2-4) by (simp_all add: m_def touch_def cd_id_def)
  have "get_instance (cd_id s) (commit (upsert_from_manifest m None None (cd_reg s)) (cd_reg s)) \<noteq> None"
    using get_instance_upsert [of m None None "cd_reg s"] m(3) by simp
  then show ?thesis
    using assms(1) m by (auto simp: record_stop_def Let_def after_def save_manifest_def set_mem_def cd_id_def m_def
        split: if_splits)
qed

text \<open>Stopping an instance. If it returns, the intention to stop is recorded; what was pending stays
  pending, and anything else is stopped, a container only after Docker stopped it. If it raises, the
  manifest and the status in the registry are as before. The port stays registered in every case.\<close>

theorem stop_outcome:
  assumes "stop_instance x s = (r, s')"
  shows "ports (cd_reg s') = ports (cd_reg s) \<and> (case r of
      Inl e \<Rightarrow> cd_disk s' = cd_disk s \<and> registry_status j (cd_reg s') = registry_status j (cd_reg s)
    | Inr _ \<Rightarrow> m_desiredState (cd_disk s') = DESIRED_STOPPED
        \<and> registry_status (m_id (cd_disk s)) (cd_reg s') = Some (status_value (m_status (cd_disk s')))
        \<and> (if m_status (cd_disk s) = PENDING then m_status (cd_disk s') = PENDING \<and> cd_docker s' = cd_docker s
           else m_status (cd_disk s') = STOPPED
             \<and> (m_runtime (cd_disk s) = DOCKER_COMPOSE \<longrightarrow> fst (sx_stop x (cd_docker s)))))"
proof -
  let ?s = "s\<lparr>cd_mem := cd_disk s\<rparr>"
  let ?st = "if m_status (cd_disk s) = PENDING then PENDING else STOPPED"
  have frame: "m_status (disable_site m) = m_status m" "m_desiredState (disable_site m) = m_desiredState m"
    "m_id (disable_site m) = m_id m" for m by (simp_all add: disable_site_def)
  have id: "cd_id ?s = m_id (cd_disk s)" by (simp add: cd_id_def)
  show ?thesis
  proof (cases "m_runtime (cd_disk s)")
    case SHARED_STATIC
    obtain q t where t: "record_stop x ?st disable_site ?s = (q, t)" by fastforce
    note out = record_stop_outcome [OF t frame]
    show ?thesis
      using assms SHARED_STATIC t out id
      by (cases q) (auto simp: stop_instance_def Let_def after_def stop_event_def)
  next
    case DOCKER_COMPOSE
    show ?thesis
    proof (cases "m_status (cd_disk s) = PENDING")
      case True
      obtain q t where t: "record_stop x PENDING id ?s = (q, t)" by fastforce
      note out = record_stop_outcome [OF t]
      show ?thesis
        using assms DOCKER_COMPOSE True t out id
        by (cases q) (auto simp: stop_instance_def stop_container_def Let_def after_def stop_event_def)
    next
      case False
      obtain ok dk where dk: "sx_stop x (cd_docker s) = (ok, dk)" by fastforce
      let ?t = "?s\<lparr>cd_docker := dk\<rparr>"
      obtain q t where t: "record_stop x STOPPED id ?t = (q, t)" by fastforce
      note out = record_stop_outcome [OF t]
      have "cd_id ?t = m_id (cd_disk s)" by (simp add: cd_id_def)
      then show ?thesis
        using assms DOCKER_COMPOSE False dk t out
        by (cases ok; cases q) (auto simp: stop_instance_def stop_container_def Let_def after_def attempt_docker_def)
    qed
  qed
qed

section \<open>Witnesses\<close>

definition stored_fingerprints :: fingerprints where
  "stored_fingerprints = [(''sourceHash'', JStr []), (''planHash'', JStr []), (''buildConfigHash'', JStr ''h''),
     (''runtimeConfigHash'', JStr ''old''), (''imageId'', JStr ''img1'')]"

definition sample_sx :: start_ctx where
  "sample_sx = \<lparr>sx_dx = sample_dx, sx_hash = (\<lambda>_. ''h''), sx_dumps = (\<lambda>_. []), sx_runtime_compose = (\<lambda>c. c),
     sx_locate = Some, sx_source = (\<lambda>_. None), sx_plan = (\<lambda>_. JNull), sx_drift = (\<lambda>_. Some False),
     sx_strict_rescue_ok = (\<lambda>_. False), sx_exists = (\<lambda>d. dk_running d \<noteq> None), sx_start = (\<lambda>d. (True, d)),
     sx_stop = (\<lambda>d. (True, d\<lparr>dk_running := None\<rparr>)), sx_recreate = (\<lambda>d. (True, d\<lparr>dk_running := Some ''img1''\<rparr>))\<rparr>"

definition healthy_sx :: start_ctx where
  "healthy_sx = sample_sx\<lparr>sx_dx := sample_dx\<lparr>dx_verify :=
     (\<lambda>_. Some \<lparr>ve_failed = False, ve_degraded = False, ve_liveness = True\<rparr>)\<rparr>\<rparr>"

definition start_cd :: cd where
  "start_cd = (let m = (cd_disk sample_cd)\<lparr>m_deploymentFingerprints := Some stored_fingerprints\<rparr> in
     sample_cd\<lparr>cd_mem := m, cd_disk := m\<rparr>)"

lemma start_cd_facts:
  "cd_dir start_cd = sample_dir" "cd_docker start_cd = sample_docker" "cd_mem start_cd = cd_disk start_cd"
  "m_deploymentFingerprints (cd_disk start_cd) = Some stored_fingerprints"
  "m_container (cd_disk start_cd) = Some sample_live" "m_runtime (cd_disk start_cd) = DOCKER_COMPOSE"
  "is_container (cd_disk start_cd)" "good_recorded (cd_dir start_cd)" "cd_reg start_cd = sample_reg"
  by (simp_all add: start_cd_def Let_def sample_cd_facts is_container_def good_recorded_def sample_dir_def)

lemma start_cd_recreate: "can_recreate_container sample_sx start_cd" "can_recreate_container healthy_sx start_cd"
  by (simp_all add: can_recreate_container_def start_cd_facts sample_dir_def sample_sx_def healthy_sx_def sample_dx_def
      sample_docker_def truthy_def)

lemma touch_container [simp]: "m_container (touch t m) = m_container m"
  by (simp add: touch_def)

lemmas healthy_start_defs = Let_def recreate_stages_def after_def rescue_data_def stop_running_def attempt_docker_def
  stop_or_abort_def clear_container_identity_def save_manifest_def registered_port_def observe_recreated_def
  observe_started_def enter_verifying_def conclude_start_def conclude_recreate_def record_final_def set_mem_def

lemma sample_answers:
  "sx_dx sample_sx = sample_dx" "dx_available sample_dx" "dx_write_fails sample_dx = (\<lambda>_. False)"
  "dx_verify sample_dx d = Some \<lparr>ve_failed = True, ve_degraded = False, ve_liveness = True\<rparr>"
  "dx_available (sx_dx healthy_sx)" "dx_write_fails (sx_dx healthy_sx) = (\<lambda>_. False)" "dx_rescue_ok (sx_dx healthy_sx) d"
  "dx_verify (sx_dx healthy_sx) d = Some \<lparr>ve_failed = False, ve_degraded = False, ve_liveness = True\<rparr>"
  "dx_running (sx_dx healthy_sx) d = Some (dk_running d \<noteq> None)" "sx_stop healthy_sx d = (True, d\<lparr>dk_running := None\<rparr>)"
  "sx_recreate healthy_sx d = (True, d\<lparr>dk_running := Some ''img1''\<rparr>)"
  "c_hostPort sample_live = Some 18001" "dk_running sample_docker = Some ''img1''"
  by (simp_all add: sample_sx_def healthy_sx_def sample_dx_def sample_docker_def sample_live_def sample_container_def)

theorem legacy_fingerprint_rebuilds_witness:
  "fst (fingerprint_change_action (Some [(''configHash'', JStr ''h'')])
     (compute_deployment_fingerprints sample_sx (ad_files sample_dir) (cd_disk start_cd))) = Full_rebuild"
  by (rule legacy_fingerprint_rebuilds) (simp_all add: pinned_def new_format_def sample_sx_def)

lemma stored_format: "stored_fingerprints \<noteq> []" "\<not> pinned (Some stored_fingerprints)" "new_format stored_fingerprints"
  by (simp_all add: stored_fingerprints_def pinned_def new_format_def)

lemma sample_decision:
  "map_sum (\<lambda>_. ()) fst (fst (deployed_action sample_sx start_cd)) = Inr Runtime_recreate"
  by code_simp

lemma sample_decided: obtains fs s1 where "deployed_action sample_sx start_cd = (Inr (Runtime_recreate, fs), s1)"
  using sample_decision by (cases "deployed_action sample_sx start_cd"; cases "fst (deployed_action sample_sx start_cd)") auto

theorem decision_outcome_witness:
  "\<exists>fs s'. deployed_action sample_sx start_cd = (Inr (Runtime_recreate, fs), s')
     \<and> ad_prev (cd_dir s') = Some (save_files ALL_GENERATED_FILES (ad_files sample_dir))"
proof (rule sample_decided)
  fix fs s1 assume d: "deployed_action sample_sx start_cd = (Inr (Runtime_recreate, fs), s1)"
  have "m_deploymentFingerprints (cd_mem start_cd) = Some stored_fingerprints" by (simp add: start_cd_facts)
  from decision_outcome [OF d this stored_format] d show ?thesis by (auto simp: start_cd_facts)
qed

text \<open>The rescue fails here, so that the recreation is given up.\<close>

definition unrescued_sx :: start_ctx where
  "unrescued_sx = sample_sx\<lparr>sx_dx := sample_dx\<lparr>dx_rescue_ok := (\<lambda>_. False)\<rparr>\<rparr>"

lemma unrescued_decision: "map_sum (\<lambda>_. ()) fst (fst (deployed_action unrescued_sx start_cd)) = Inr Runtime_recreate"
  by code_simp

definition given_up :: cd where
  "given_up = snd (recreate_container_runtime unrescued_sx (snd (deployed_action unrescued_sx start_cd)))"

lemma second_decision:
  "map_sum (\<lambda>_. ()) fst (fst (deployed_action sample_sx (given_up\<lparr>cd_mem := cd_disk given_up\<rparr>))) = Inr Runtime_recreate"
  "\<not> pinned (m_deploymentFingerprints (cd_disk given_up))"
  "is_container (cd_disk (snd (deployed_action unrescued_sx start_cd)))"
  "good_recorded (cd_dir (snd (deployed_action unrescued_sx start_cd)))"
  "can_recreate_container unrescued_sx (snd (deployed_action unrescued_sx start_cd))"
  by code_simp+

theorem aborted_recreate_loses_snapshot_witness:
  "ad_files (cd_dir start_cd) ''compose.yaml'' = Some ''now'' \<and>
   (\<exists>s3. snd (deployed_action sample_sx (given_up\<lparr>cd_mem := cd_disk given_up\<rparr>)) = s3
     \<and> ad_prev (cd_dir s3) = Some (save_files ALL_GENERATED_FILES (ad_files (cd_dir (snd (deployed_action unrescued_sx start_cd))))))"
proof -
  obtain r1 s1 where d: "deployed_action unrescued_sx start_cd = (r1, s1)" by fastforce
  then obtain fs where r1: "r1 = Inr (Runtime_recreate, fs)" using unrescued_decision by (cases r1) auto
  obtain r2 s3 where e: "deployed_action sample_sx (given_up\<lparr>cd_mem := cd_disk given_up\<rparr>) = (r2, s3)" by fastforce
  then obtain q where r2: "r2 = Inr q" using second_decision(1) by (cases r2) auto
  have ok: "dx_available (sx_dx unrescued_sx)" "\<not> dx_rescue_ok (sx_dx unrescued_sx) (cd_docker s1)
      \<or> dx_running (sx_dx unrescued_sx) (cd_docker s1) = None"
    by (simp_all add: unrescued_sx_def sample_dx_def)
  have c: "is_container (cd_disk s1)" "good_recorded (cd_dir s1)" "can_recreate_container unrescued_sx s1"
    using second_decision(3-5) by (simp_all add: d)
  have "snd (recreate_container_runtime unrescued_sx s1) = given_up" by (simp add: given_up_def d)
  from aborted_recreate_loses_snapshot [OF d [unfolded r1] c(1) ok(1) c(2,3) ok(2) e [unfolded r2] second_decision(2) this]
  have "ad_prev (cd_dir s3) = Some (save_files ALL_GENERATED_FILES (ad_files (cd_dir s1)))" by blast
  then show ?thesis using d e by (simp add: start_cd_facts sample_dir_def)
qed


theorem recreate_leaves_registry_row_witness:
  "containers (cd_reg (snd (recreate_container_runtime healthy_sx start_cd))) = containers sample_reg"
proof -
  have "fst (recreate_container_runtime healthy_sx start_cd) = Inr ()"
    using start_cd_recreate(2) start_cd_facts(8)
    by (auto simp: recreate_container_runtime_def ensure_env_rollback_ready_def start_cd_facts can_recreate_container_def
        healthy_start_defs sample_answers)
  then have "recreate_container_runtime healthy_sx start_cd = (Inr (), snd (recreate_container_runtime healthy_sx start_cd))"
    by (simp add: prod_eq_iff)
  moreover have "Option.bind (m_container (cd_disk start_cd)) c_hostPort = Some 18001"
    by (simp add: start_cd_facts sample_live_def sample_container_def)
  ultimately show ?thesis
    using recreate_leaves_registry_row [of healthy_sx start_cd _ 18001] start_cd_facts start_cd_recreate(2) by simp
qed

theorem light_start_outcome_witness:
  "\<exists>s'. start_container sample_sx start_cd = (Inr (), s') \<and> m_status (cd_disk s') = FAILED
     \<and> registry_status (cd_id s') (cd_reg s') = Some ''failed''"
proof -
  have b: "bring_up sample_sx (start_cd\<lparr>cd_mem := cd_disk start_cd\<rparr>) = (Inr By_start, start_cd\<lparr>cd_mem := cd_disk start_cd\<rparr>)"
    by (simp add: bring_up_def sample_sx_def sample_dx_def start_cd_facts sample_docker_def)
  have "fst (start_container sample_sx start_cd) = Inr ()"
    by (simp add: start_container_def b start_cd_facts healthy_start_defs sample_answers)
  then have s: "start_container sample_sx start_cd = (Inr (), snd (start_container sample_sx start_cd))" by (simp add: prod_eq_iff)
  from light_start_outcome [OF s b] s show ?thesis by (auto simp: sample_sx_def sample_dx_def)
qed

theorem drift_without_rescue_witness:
  "\<exists>e. start_container (sample_sx\<lparr>sx_drift := \<lambda>_. Some True\<rparr>) start_cd = (Inl e, start_cd\<lparr>cd_mem := cd_disk start_cd\<rparr>)"
  by (rule drift_without_rescue) (simp add: sample_sx_def)

theorem stop_outcome_witness:
  "ports (cd_reg (snd (stop_instance sample_sx start_cd))) = ports sample_reg"
  using stop_outcome [OF surjective_pairing, of sample_sx start_cd] by (simp add: start_cd_facts)

end
