(* ===== verification/Candidates.thy ===== *)
theory Candidates
  imports Lwa_Text Plan_Models
begin

text \<open>
  Models \<^verbatim>\<open>candidate_generator.py\<close>: the flat candidates that the evidence of a project gives, the
  deployment plans they are merged into, and the health probes found in the sources. The
  toolchain's install command, the search for a server of the standard library, the state of a
  lock file, the existence of directories and the routes read from the sources are parameters.
\<close>

section \<open>Text\<close>

text \<open>\<open>str.split()\<close>: the words between white space.\<close>

fun words_of :: "string \<Rightarrow> string \<Rightarrow> string list" where
  "words_of acc [] = (if acc = [] then [] else [rev acc])"
| "words_of acc (c # cs) =
     (if is_ws c then (if acc = [] then words_of [] cs else rev acc # words_of [] cs)
      else words_of (c # acc) cs)"

abbreviation SP :: char where "SP \<equiv> CHR '' ''"

text \<open>\<open>shlex.split\<close> in POSIX mode without comments; an open quotation or escape is an error.\<close>

datatype lexing = Between | In_word | Escaped | Quoted char | Quoted_escape

definition shlex_ws :: "char \<Rightarrow> bool" where
  "shlex_ws c \<longleftrightarrow> c \<in> {SP, CHR 0x09, CHR 0x0D, CHR 0x0A}"

abbreviation BACKSLASH :: char where "BACKSLASH \<equiv> CHR 0x5C"
abbreviation DQUOTE :: char where "DQUOTE \<equiv> CHR 0x22"
abbreviation SQUOTE :: char where "SQUOTE \<equiv> CHR 0x27"

fun shlex :: "lexing \<Rightarrow> string \<Rightarrow> string \<Rightarrow> string list option" where
  "shlex Between t [] = Some []"
| "shlex In_word t [] = Some [rev t]"
| "shlex _ t [] = None"
| "shlex Between t (c # cs) =
     (if shlex_ws c then shlex Between [] cs
      else if c = BACKSLASH then shlex Escaped [] cs
      else if c = DQUOTE \<or> c = SQUOTE then shlex (Quoted c) [] cs
      else shlex In_word [c] cs)"
| "shlex In_word t (c # cs) =
     (if shlex_ws c then map_option (Cons (rev t)) (shlex Between [] cs)
      else if c = BACKSLASH then shlex Escaped t cs
      else if c = DQUOTE \<or> c = SQUOTE then shlex (Quoted c) t cs
      else shlex In_word (c # t) cs)"
| "shlex Escaped t (c # cs) = shlex In_word (c # t) cs"
| "shlex (Quoted q) t (c # cs) =
     (if c = q then shlex In_word t cs
      else if c = BACKSLASH \<and> q = DQUOTE then shlex Quoted_escape t cs
      else shlex (Quoted q) (c # t) cs)"
| "shlex Quoted_escape t (c # cs) =
     shlex (Quoted DQUOTE) (if c = BACKSLASH \<or> c = DQUOTE then c # t else c # BACKSLASH # t) cs"

definition shlex_split :: "string \<Rightarrow> string list option" where
  "shlex_split s = shlex Between [] s"

definition has_shell_operators :: "string \<Rightarrow> bool" where
  "has_shell_operators cmd \<longleftrightarrow> list_ex (\<lambda>p. contains p cmd)
     [''&&'', ''||'', '';'', ''$('', [CHR 0x60], ''('', '')'']"

section \<open>Frameworks\<close>

definition PYTHON_WEB :: "string list" where
  "PYTHON_WEB = [''flask'', ''fastapi'', ''uvicorn'', ''gunicorn'', ''django'', ''streamlit'', ''gradio'',
     ''starlette'', ''sanic'', ''tornado'']"

definition NODE_FRONTEND :: "string list" where
  "NODE_FRONTEND = [''vite'', ''react'', ''react-dom'', ''vue'', ''@vitejs/plugin-react'', ''svelte'',
     ''preact'', ''astro'']"

definition NODE_BACKEND :: "string list" where
  "NODE_BACKEND = [''express'', ''fastify'', ''koa'', ''@nestjs/core'', ''next'', ''nuxt'',
     ''@hono/node-server'', ''polka'', ''restana'', ''@astrojs/node'']"

definition PYTHON_PORT :: "(string \<times> int) list" where
  "PYTHON_PORT = [(''flask'', 5000), (''fastapi'', 8000), (''uvicorn'', 8000), (''gunicorn'', 8000),
     (''django'', 8000), (''streamlit'', 8501), (''gradio'', 7860), (''starlette'', 8000),
     (''sanic'', 8000), (''tornado'', 8888)]"

definition PYTHON_PRIORITY :: "string list" where
  "PYTHON_PRIORITY = [''fastapi'', ''flask'', ''django'', ''streamlit'', ''gradio'', ''uvicorn'',
     ''gunicorn'', ''starlette'', ''sanic'', ''tornado'']"

definition among :: "string list \<Rightarrow> string list \<Rightarrow> string list" where
  "among known deps = filter (\<lambda>d. d \<in> set known) deps"

definition is_node_backend_start_script :: "string option \<Rightarrow> bool" where
  "is_node_backend_start_script script =
     (let normalized = join_on SP (words_of [] (to_lower (case script of None \<Rightarrow> [] | Some s \<Rightarrow> s))) in
      normalized \<noteq> []
      \<and> \<not> list_ex (\<lambda>p. normalized = p \<or> starts_with (p @ '' '') normalized)
          [''vite'', ''vite preview'', ''react-scripts start'', ''webpack serve'', ''next dev'', ''nuxt dev'']
      \<and> list_ex (\<lambda>p. starts_with p normalized)
          [''node '', ''tsx '', ''ts-node '', ''nest start'', ''next start'', ''nuxt start''])"

text \<open>Every known framework has a priority, so the last case never applies.\<close>

definition pick_framework :: "string list \<Rightarrow> string" where
  "pick_framework fws = (case find (\<lambda>fw. fw \<in> set fws) PYTHON_PRIORITY of Some fw \<Rightarrow> fw | None \<Rightarrow> hd fws)"

definition python_start_command :: "string \<Rightarrow> string option \<Rightarrow> string" where
  "python_start_command framework subdir =
     (if framework \<in> {''fastapi'', ''uvicorn'', ''starlette'', ''sanic''}
      then ''uvicorn '' @ (case subdir of None \<Rightarrow> [] | Some d \<Rightarrow> d @ ''.'') @ ''app.main:app --host 0.0.0.0 --port 8000''
      else if framework = ''flask'' then ''flask run --host 0.0.0.0 --port 5000''
      else if framework = ''django'' then ''python manage.py runserver 0.0.0.0:8000''
      else if framework = ''streamlit'' then ''streamlit run app.py --server.port 8501''
      else if framework = ''gunicorn'' then ''gunicorn app.main:app -b 0.0.0.0:8000''
      else ''python app.py'')"

definition uses_sqlite :: "string list \<Rightarrow> bool" where
  "uses_sqlite deps \<longleftrightarrow>
     list_ex (\<lambda>d. d \<in> {''sqlite3'', ''sqlalchemy'', ''peewee'', ''tortoise-orm'', ''aiosqlite''}) deps"

section \<open>Candidates\<close>

record composed_route =
  rt_method :: string
  rt_path :: string
  rt_route :: string
  rt_confidence :: string

record gen_ctx =
  gx_install :: "string option \<Rightarrow> string"
  gx_node_http :: "(string \<times> int option) option"
  gx_python_http :: "string option"
  gx_uv_lock_empty :: bool
  gx_backend_dir :: bool
  gx_scan_root :: "string option \<Rightarrow> bool"
  gx_routes :: "candidate \<Rightarrow> composed_route list"
  gx_django_routes :: "string option \<Rightarrow> string list"

definition in_container :: "string \<Rightarrow> string \<Rightarrow> string \<Rightarrow> entry_config \<Rightarrow> int \<Rightarrow> string option \<Rightarrow> candidate" where
  "in_container kind form profile entry port subdir = \<lparr>ca_kind = kind, ca_runtime = ''docker_compose'',
     ca_servingMode = ''container'', ca_form = form, ca_resourceProfile = profile, ca_entry = entry,
     ca_internalPort = Some port, ca_sourceSubdir = subdir, ca_confidenceTier = ''primary''\<rparr>"

definition on_gateway :: "string \<Rightarrow> string \<Rightarrow> entry_config \<Rightarrow> string option \<Rightarrow> string \<Rightarrow> candidate" where
  "on_gateway kind form entry subdir tier = \<lparr>ca_kind = kind, ca_runtime = ''shared_static'',
     ca_servingMode = ''shared_static'', ca_form = form, ca_resourceProfile = ''tiny'', ca_entry = entry,
     ca_internalPort = None, ca_sourceSubdir = subdir, ca_confidenceTier = tier\<rparr>"

definition make_python_candidate :: "string option \<Rightarrow> string list \<Rightarrow> string list \<Rightarrow> candidate" where
  "make_python_candidate subdir deps frameworks =
     (let fw = pick_framework frameworks in
      in_container ''python'' (if uses_sqlite deps then ''fullstack-sqlite'' else ''backend-container'') ''small''
        (no_entry\<lparr>e_install := Some ''pip install -r requirements.txt'',
                  e_start := Some (python_start_command fw subdir)\<rparr>)
        (case map_of PYTHON_PORT fw of Some p \<Rightarrow> p | None \<Rightarrow> 8000) subdir)"

definition make_node_candidate ::
  "gen_ctx \<Rightarrow> string option \<Rightarrow> (string \<times> string) list \<Rightarrow> string list \<Rightarrow> candidate" where
  "make_node_candidate g subdir scripts backend_deps =
     in_container ''node'' ''backend-container''
       (if list_ex (\<lambda>d. d = ''next'' \<or> d = ''nuxt'') backend_deps then ''medium'' else ''small'')
       \<lparr>e_install = Some (gx_install g subdir),
        e_build = (if map_of scripts ''build'' \<noteq> None then Some ''npm run build'' else None),
        e_start = Some (if map_of scripts ''start'' \<noteq> None then ''npm run start'' else ''node server.js''),
        e_buildOutputDir = None\<rparr>
       (if ''next'' \<in> set backend_deps then 3000 else 8080) subdir"

definition make_frontend_candidate :: "gen_ctx \<Rightarrow> string option \<Rightarrow> string \<Rightarrow> candidate" where
  "make_frontend_candidate g subdir tier = on_gateway ''node'' ''frontend-static''
     \<lparr>e_install = Some (gx_install g subdir), e_build = Some ''npm run build'', e_start = None,
      e_buildOutputDir = map_option (\<lambda>d. d @ ''/dist'') subdir\<rparr> subdir tier"

definition has_primary_backend :: "candidate list \<Rightarrow> bool" where
  "has_primary_backend cs \<longleftrightarrow> list_ex (\<lambda>c. ca_kind c \<in> {''python'', ''node''}
     \<and> ca_runtime c = ''docker_compose'' \<and> ca_confidenceTier c = ''primary'') cs"

definition python_install :: "gen_ctx \<Rightarrow> string list \<Rightarrow> string option" where
  "python_install g files =
     (if \<not> list_ex (\<lambda>n. n \<in> set files)
            [''requirements.txt'', ''requirements-prod.txt'', ''pyproject.toml'', ''pipfile'', ''uv.lock''] then None
      else Some
       (if ''uv.lock'' \<in> set files \<and> \<not> gx_uv_lock_empty g then ''uv sync''
        else if ''requirements-prod.txt'' \<in> set files then ''pip install -r requirements-prod.txt''
        else if ''requirements.txt'' \<in> set files then ''pip install -r requirements.txt''
        else if ''pyproject.toml'' \<in> set files then ''pip install .''
        else if ''pipfile'' \<in> set files then ''pip install pipenv && pipenv install --system --skip-lock''
        else ''pip install -r requirements.txt''))"

text \<open>\<open>_append_stdlib_http_candidate\<close>: a server without a framework.\<close>

definition stdlib_http_candidate :: "gen_ctx \<Rightarrow> evidence \<Rightarrow> candidate list" where
  "stdlib_http_candidate g e =
     (let html = ev_hasIndexHtml e \<or> ev_hasHtml e;
          form = (if ev_sqliteFiles e \<noteq> [] then ''fullstack-sqlite'' else ''backend-container'') in
      if ev_hasPackageJson e
      then (if among NODE_FRONTEND (ev_nodeDeps e) \<noteq> [] \<or> html then []
            else (case gx_node_http g of
                None \<Rightarrow> []
              | Some (file, port) \<Rightarrow> [in_container ''node'' form ''tiny''
                  \<lparr>e_install = (if ev_nodeDeps e = [] then None else Some (gx_install g None)),
                   e_build = (if map_of (ev_nodeScripts e) ''build'' \<noteq> None then Some ''npm run build'' else None),
                   e_start = Some (''node '' @ file), e_buildOutputDir = None\<rparr>
                  (case port of None \<Rightarrow> 3000 | Some p \<Rightarrow> if p = 0 then 3000 else p) None]))
      else if html \<and> python_install g (ev_rootFiles e) = None then []
      else (case gx_python_http g of
          None \<Rightarrow> []
        | Some file \<Rightarrow> [in_container ''python'' form ''tiny''
            (no_entry\<lparr>e_install := python_install g (ev_rootFiles e), e_start := Some (''python '' @ file)\<rparr>)
            8000 None]))"

definition python_subdir_candidates :: "evidence \<Rightarrow> candidate list" where
  "python_subdir_candidates e = concat (map (\<lambda>s. let fws = among PYTHON_WEB (sg_pythonDeps s) in
     if fws = [] then [] else [make_python_candidate (Some (sg_path s)) (sg_pythonDeps s) fws]) (ev_subdirSignals e))"

definition python_root_candidates :: "evidence \<Rightarrow> candidate list \<Rightarrow> candidate list" where
  "python_root_candidates e cs =
     (let fws = among PYTHON_WEB (ev_pythonDeps e) in
      if (fws \<noteq> [] \<and> \<not> ev_hasPackageJson e
          \<or> fws \<noteq> [] \<and> \<not> list_ex (\<lambda>s. among PYTHON_WEB (sg_pythonDeps s) \<noteq> []) (ev_subdirSignals e))
         \<and> \<not> list_ex (\<lambda>c. ca_kind c = ''python'' \<and> ca_sourceSubdir c \<noteq> None) cs
      then [make_python_candidate None (ev_pythonDeps e) fws] else [])"

definition node_subdir_candidates :: "gen_ctx \<Rightarrow> evidence \<Rightarrow> candidate list" where
  "node_subdir_candidates g e = concat (map (\<lambda>s. let deps = among NODE_BACKEND (sg_nodeDeps s) in
     if sg_hasPackageJson s
        \<and> (deps \<noteq> [] \<or> is_node_backend_start_script (map_of (sg_nodeScripts s) ''start''))
     then [make_node_candidate g (Some (sg_path s)) (sg_nodeScripts s) deps] else []) (ev_subdirSignals e))"

definition node_root_candidates :: "gen_ctx \<Rightarrow> evidence \<Rightarrow> candidate list \<Rightarrow> candidate list" where
  "node_root_candidates g e cs =
     (let deps = among NODE_BACKEND (ev_nodeDeps e) in
      if ev_hasPackageJson e \<and> deps \<noteq> [] \<and> \<not> list_ex (\<lambda>c. ca_kind c = ''node'') cs
      then [make_node_candidate g None (ev_nodeScripts e) deps] else [])"

definition frontend_subdir_candidates :: "gen_ctx \<Rightarrow> evidence \<Rightarrow> string \<Rightarrow> candidate list" where
  "frontend_subdir_candidates g e tier = concat (map (\<lambda>s.
     if among NODE_FRONTEND (sg_nodeDeps s) \<noteq> [] \<and> map_of (sg_nodeScripts s) ''build'' \<noteq> None
     then [make_frontend_candidate g (Some (sg_path s)) tier] else []) (ev_subdirSignals e))"

definition frontend_root_candidates :: "gen_ctx \<Rightarrow> evidence \<Rightarrow> string \<Rightarrow> candidate list \<Rightarrow> candidate list" where
  "frontend_root_candidates g e tier cs =
     (if ev_hasPackageJson e \<and> among NODE_FRONTEND (ev_nodeDeps e) \<noteq> []
         \<and> map_of (ev_nodeScripts e) ''build'' \<noteq> None
         \<and> \<not> list_ex (\<lambda>c. ca_kind c = ''node'' \<and> ca_confidenceTier c = ''primary'') cs
      then [make_frontend_candidate g None tier] else [])"

definition static_candidates :: "evidence \<Rightarrow> candidate list \<Rightarrow> candidate list" where
  "static_candidates e cs =
     (if ev_hasIndexHtml e \<or> ev_hasHtml e
      then [on_gateway ''static'' ''static'' no_entry None (if cs = [] then ''primary'' else ''fallback'')] else [])"

definition tier_order :: "string \<Rightarrow> nat" where
  "tier_order t = (if t = ''primary'' then 0 else if t = ''alternate'' then 1 else if t = ''fallback'' then 2 else 99)"

definition backend_candidates :: "gen_ctx \<Rightarrow> evidence \<Rightarrow> candidate list" where
  "backend_candidates g e =
     (let c1 = python_subdir_candidates e;
          c2 = c1 @ python_root_candidates e c1;
          c3 = c2 @ node_subdir_candidates g e;
          c4 = c3 @ node_root_candidates g e c3 in
      c4 @ (if has_primary_backend c4 then [] else stdlib_http_candidate g e))"

definition generate_candidates :: "gen_ctx \<Rightarrow> evidence \<Rightarrow> candidate list" where
  "generate_candidates g e =
     (let backs = backend_candidates g e;
          tier = (if list_ex (\<lambda>c. ca_kind c \<in> {''python'', ''node''} \<and> ca_confidenceTier c = ''primary'') backs
                  then ''alternate'' else ''primary'');
          c1 = backs @ frontend_subdir_candidates g e tier;
          c2 = c1 @ frontend_root_candidates g e tier c1;
          c3 = c2 @ static_candidates e c2 in
      sort_key (\<lambda>c. tier_order (ca_confidenceTier c)) c3)"

section \<open>Health probes\<close>

definition HEALTH_WORDS :: "string list" where
  "HEALTH_WORDS = [''health'', ''healthz'', ''healthcheck'', ''health-check'', ''health_check'', ''ping'',
     ''ready'', ''readiness'', ''livez'', ''liveness'']"

definition is_name_char :: "char \<Rightarrow> bool" where
  "is_name_char c \<longleftrightarrow> is_lower c \<or> is_digit c \<or> c = CHR ''_''"

text \<open>\<open>_HEALTH_PATH_RE\<close> on one part of the path: a word, or a name, a dash or underscore, and a word.\<close>

definition health_part :: "string \<Rightarrow> bool" where
  "health_part s \<longleftrightarrow> list_ex (\<lambda>w. s = w \<or> ends_with w s \<and>
     (let p = removesuffix w s in length p \<ge> 2 \<and> last p \<in> {CHR ''-'', CHR ''_''} \<and> list_all is_name_char (butlast p)))
     HEALTH_WORDS"

definition health_path :: "string \<Rightarrow> bool" where
  "health_path route \<longleftrightarrow> list_ex health_part (split_on (CHR ''/'') (to_lower route))"

fun distinct_routes :: "(string \<times> string) list \<Rightarrow> composed_route list \<Rightarrow> composed_route list" where
  "distinct_routes seen [] = []"
| "distinct_routes seen (r # rs) =
     (if \<not> health_path (rt_route r) \<or> (rt_method r, rt_path r) \<in> set seen then distinct_routes seen rs
      else r # distinct_routes ((rt_method r, rt_path r) # seen) rs)"

definition discovered :: "string \<Rightarrow> string \<Rightarrow> string \<Rightarrow> probe_spec" where
  "discovered method path confidence = \<lparr>pr_path = path, pr_method = method, pr_expectedStatus = 200,
     pr_isMandatory = False, pr_source = ''discovered'', pr_confidence = confidence\<rparr>"

fun extra_probes :: "(string \<times> string) list \<Rightarrow> string list \<Rightarrow> probe_spec list" where
  "extra_probes seen [] = []"
| "extra_probes seen (p # ps) =
     (if (''GET'', p) \<in> set seen then extra_probes seen ps
      else discovered ''GET'' p ''medium'' # extra_probes ((''GET'', p) # seen) ps)"

definition django_health_paths :: "string list \<Rightarrow> string list" where
  "django_health_paths routes = map (\<lambda>r. if starts_with ''/'' r then r else CHR ''/'' # r)
     (filter (\<lambda>r. CHR 0x7B \<notin> set r \<and> CHR ''<'' \<notin> set r \<and> health_path r) routes)"

definition discover_health_probes :: "gen_ctx \<Rightarrow> candidate \<Rightarrow> probe_spec list" where
  "discover_health_probes g backend =
     (if \<not> gx_scan_root g (ca_sourceSubdir backend) then []
      else (let found = sort_key rt_path (sort_key rt_method (distinct_routes [] (gx_routes g backend)));
                django = (if ca_kind backend = ''python''
                          then django_health_paths (gx_django_routes g (ca_sourceSubdir backend)) else []) in
        map (\<lambda>r. discovered (rt_method r) (rt_path r) (rt_confidence r)) found
        @ extra_probes (map (\<lambda>r. (rt_method r, rt_path r)) found) django))"

section \<open>Plans\<close>

definition workdir_of :: "string option \<Rightarrow> string" where
  "workdir_of subdir = (if truthy subdir then ''/app/'' @ the subdir else ''/app'')"

definition plain_component :: "candidate \<Rightarrow> string \<Rightarrow> component" where
  "plain_component c role = \<lparr>co_componentId = ca_kind c @ ''-'' @ role, co_role = role,
     co_sourceSubdir = ca_sourceSubdir c, co_buildCommand = None, co_startCommand = None,
     co_buildOutputDir = None, co_artifactTarget = None, co_internalPort = ca_internalPort c\<rparr>"

text \<open>\<open>None\<close> is the \<open>ValueError\<close> of a start command with an open quotation.\<close>

definition start_spec :: "candidate \<Rightarrow> command_spec option option" where
  "start_spec c =
     (if \<not> truthy (e_start (ca_entry c)) then Some None
      else (let s = the (e_start (ca_entry c)); dir = workdir_of (ca_sourceSubdir c) in
        if has_shell_operators s then Some (Some \<lparr>cs_argv = None, cs_shell = Some s, cs_workdir = dir\<rparr>)
        else map_option (\<lambda>a. Some \<lparr>cs_argv = Some a, cs_shell = None, cs_workdir = dir\<rparr>) (shlex_split s)))"

definition candidate_to_component :: "candidate \<Rightarrow> string \<Rightarrow> component option" where
  "candidate_to_component c role =
     (let e = ca_entry c in
      case start_spec c of
        None \<Rightarrow> None
      | Some start \<Rightarrow> Some ((plain_component c role)\<lparr>co_startCommand := start,
          co_buildCommand := (if truthy (e_build e)
            then Some \<lparr>cs_argv = None, cs_shell = e_build e, cs_workdir = workdir_of (ca_sourceSubdir c)\<rparr> else None),
          co_buildOutputDir := (if truthy (e_buildOutputDir e) then e_buildOutputDir e else None)\<rparr>))"

text \<open>\<open>frontend_artifact_dest\<close> of \<^verbatim>\<open>paths.py\<close> with the prefix that the plan passes, relative to \<open>/app/\<close>.\<close>

definition artifact_target :: "gen_ctx \<Rightarrow> candidate \<Rightarrow> string" where
  "artifact_target g backend =
     (if \<not> truthy (ca_sourceSubdir backend) \<and> gx_backend_dir g then ''backend/static'' else ''static'')"

definition guessed_probe :: "string \<Rightarrow> probe_spec" where
  "guessed_probe path = \<lparr>pr_path = path, pr_method = ''GET'', pr_expectedStatus = 200,
     pr_isMandatory = False, pr_source = ''guessed'', pr_confidence = ''high''\<rparr>"

definition backend_contract :: "gen_ctx \<Rightarrow> evidence \<Rightarrow> candidate \<Rightarrow> bool \<Rightarrow> capability_contract" where
  "backend_contract g e backend ui =
     (let sqlite = ca_form backend = ''fullstack-sqlite'';
          signal = find (\<lambda>s. Some (sg_path s) = ca_sourceSubdir backend) (ev_subdirSignals e);
          found = discover_health_probes g backend in
      \<lparr>cc_servesUi = ui, cc_servesApi = True, cc_requiresDatabase = (sqlite \<or> ev_sqliteFiles e \<noteq> []),
       cc_requiresMigrations = (sqlite \<and> (ev_hasAlembicIni e
         \<or> (case signal of None \<Rightarrow> False | Some s \<Rightarrow> sg_hasAlembicIni s))),
       cc_requiredProbes = (if found = [] then [guessed_probe ''/health''] else found)\<rparr>)"

definition subdir_label :: "candidate \<Rightarrow> string" where
  "subdir_label c = (if truthy (ca_sourceSubdir c) then the (ca_sourceSubdir c) else ''root'')"

definition backend_plan :: "gen_ctx \<Rightarrow> evidence \<Rightarrow> candidate list \<Rightarrow> candidate \<Rightarrow> plan option" where
  "backend_plan g e frontends backend =
     (let together = filter (\<lambda>f. ca_confidenceTier f = ''alternate'') frontends; ui = together \<noteq> [] in
      case (candidate_to_component backend ''runtime'', parse_all (\<lambda>f. candidate_to_component f ''build'') together) of
        (Some run, Some builds) \<Rightarrow> Some \<lparr>
          pl_planId = ''plan-'' @ (if ui then ''fullstack'' else ''backend'') @ ''-'' @ subdir_label backend,
          pl_components = run # map (\<lambda>b. b\<lparr>co_artifactTarget := Some (artifact_target g backend)\<rparr>) builds,
          pl_capabilityContract = Some (backend_contract g e backend ui),
          pl_confidenceTier = ''primary''\<rparr>
      | _ \<Rightarrow> None)"

definition single_plan :: "string \<Rightarrow> string \<Rightarrow> string \<Rightarrow> probe_spec list \<Rightarrow> candidate \<Rightarrow> plan option" where
  "single_plan name role tier probes c = map_option (\<lambda>k. \<lparr>pl_planId = name, pl_components = [k],
     pl_capabilityContract = Some (no_contract\<lparr>cc_servesUi := True, cc_requiredProbes := probes\<rparr>),
     pl_confidenceTier = tier\<rparr>) (candidate_to_component c role)"

definition is_backend :: "candidate \<Rightarrow> bool" where
  "is_backend c \<longleftrightarrow> ca_kind c \<in> {''python'', ''node''} \<and> ca_runtime c = ''docker_compose''
     \<and> ca_confidenceTier c = ''primary''"

definition is_frontend :: "candidate \<Rightarrow> bool" where
  "is_frontend c \<longleftrightarrow> ca_kind c = ''node'' \<and> ca_runtime c = ''shared_static'' \<and> ca_form c = ''frontend-static''"

definition plan_order :: "string \<Rightarrow> nat" where
  "plan_order t = (if t = ''diagnostic'' then 3 else tier_order t)"

definition generate_plans :: "gen_ctx \<Rightarrow> evidence \<Rightarrow> plan list option" where
  "generate_plans g e =
     (let cs = generate_candidates g e; backs = filter is_backend cs; fronts = filter is_frontend cs;
          statics = filter (\<lambda>c. ca_kind c = ''static'') cs;
          first = (\<lambda>c. ca_confidenceTier c = ''primary'') in
      map_option (sort_key (\<lambda>p. plan_order (pl_confidenceTier p)))
        (if backs \<noteq> []
         then parse_all id (map (backend_plan g e fronts) backs
                @ map (single_plan ''plan-static-diagnostic'' ''runtime'' ''diagnostic'' []) (take 1 statics))
         else parse_all id
           (map (\<lambda>c. single_plan (''plan-frontend-'' @ subdir_label c) ''build-and-runtime'' ''primary'' [guessed_probe ''/''] c)
              (filter first fronts)
            @ map (single_plan ''plan-static'' ''runtime'' ''primary'' [guessed_probe ''/'']) (filter first statics))))"

end
