(* ===== verification/Fallback.thy ===== *)
theory Fallback
  imports Start_Decision Candidates
begin

text \<open>
  Models the first deployment with its fallback plans (\<^verbatim>\<open>lifecycle.py\<close>, Gate C): the snapshot of an
  attempt and its rollback, the comparison of capabilities, and \<open>_try_host_with_fallback\<close>. The
  state is that of the deployment. One attempt is the build queue's run of the host function; both
  are parameters here, and the manifest of the caller is out of their reach. The wording of the
  report and the hash of a plan are parameters as well.
\<close>

section \<open>Fallback plans\<close>

text \<open>What the manifest keeps as a fallback: a plan with its components, or a flat candidate.\<close>

datatype fallback_entry = Plan_entry plan | Flat_entry candidate

text \<open>The dictionary that is applied to the manifest; an empty \<open>entry\<close> is \<open>None\<close>.\<close>

record candidate_dict =
  cq_kind :: string
  cq_runtime :: string
  cq_servingMode :: string
  cq_entry :: "entry_config option"
  cq_sourceSubdir :: "string option"
  cq_form :: string

definition get_fallback_plans :: "manifest \<Rightarrow> fallback_entry list" where
  "get_fallback_plans m =
     (if m_deploymentPlans m \<noteq> []
      then map Plan_entry (filter (\<lambda>p. pl_confidenceTier p \<in> {''alternate'', ''fallback''}) (m_deploymentPlans m))
      else map Flat_entry (m_deploymentCandidates m))"

text \<open>\<open>str.replace(p, "")\<close>; \<open>k\<close> counts what is left of an occurrence.\<close>

fun erase :: "string \<Rightarrow> nat \<Rightarrow> string \<Rightarrow> string" where
  "erase p k [] = []"
| "erase p k (c # cs) =
     (if k > 0 then erase p (k - 1) cs
      else if p \<noteq> [] \<and> starts_with p (c # cs) then erase p (length p - 1) cs
      else c # erase p 0 cs)"

definition runtime_component :: "plan \<Rightarrow> component option" where
  "runtime_component p =
     (case find (\<lambda>c. co_role c \<in> {''runtime'', ''build-and-runtime''}) (pl_components p) of
        Some c \<Rightarrow> Some c
      | None \<Rightarrow> (case pl_components p of [] \<Rightarrow> None | c # _ \<Rightarrow> Some c))"

definition command_text :: "command_spec option \<Rightarrow> string option" where
  "command_text cmd =
     (case cmd of None \<Rightarrow> None
      | Some c \<Rightarrow> if truthy (cs_shell c) then cs_shell c
          else (case cs_argv c of None \<Rightarrow> None | Some a \<Rightarrow> if a = [] then None else Some (join_on SP a)))"

definition kind_of_component :: "string \<Rightarrow> string" where
  "kind_of_component cid =
     (if starts_with ''python'' cid then ''python'' else if starts_with ''node'' cid then ''node''
      else if starts_with ''static'' cid then ''static'' else ''python'')"

definition plan_to_candidate_dict :: "plan \<Rightarrow> candidate_dict" where
  "plan_to_candidate_dict p =
     (let c = runtime_component p;
          kind = kind_of_component (case c of None \<Rightarrow> [] | Some c \<Rightarrow> co_componentId c);
          start = command_text (Option.bind c co_startCommand);
          build = command_text (Option.bind c co_buildCommand);
          out = (let d = Option.bind c co_buildOutputDir in if truthy d then d else None) in
      \<lparr>cq_kind = kind,
       cq_runtime = (if kind = ''static'' then ''shared-static'' else ''docker-compose''),
       cq_servingMode = (if kind = ''static'' then ''shared-static'' else ''container''),
       cq_entry = (if start = None \<and> build = None \<and> out = None then None
         else Some \<lparr>e_install = None, e_build = build, e_start = start, e_buildOutputDir = out\<rparr>),
       cq_sourceSubdir = Option.bind c co_sourceSubdir,
       cq_form = erase ''plan-'' 0 (pl_planId p)\<rparr>)"

definition flat_dict :: "candidate \<Rightarrow> candidate_dict" where
  "flat_dict c = \<lparr>cq_kind = ca_kind c, cq_runtime = ca_runtime c, cq_servingMode = ca_servingMode c,
     cq_entry = Some (ca_entry c), cq_sourceSubdir = ca_sourceSubdir c, cq_form = ca_form c\<rparr>"

definition entry_dict :: "fallback_entry \<Rightarrow> candidate_dict" where
  "entry_dict f = (case f of Plan_entry p \<Rightarrow> plan_to_candidate_dict p | Flat_entry c \<Rightarrow> flat_dict c)"

definition entry_tier :: "fallback_entry \<Rightarrow> string" where
  "entry_tier f = (case f of Plan_entry p \<Rightarrow> pl_confidenceTier p | Flat_entry c \<Rightarrow> ca_confidenceTier c)"

section \<open>Capabilities\<close>

datatype family = Backend | Frontend | Static_site

definition family_by_serving :: "string \<Rightarrow> string \<Rightarrow> family" where
  "family_by_serving kind serving =
     (if serving = ''container'' \<and> kind \<in> {''python'', ''node''} then Backend
      else if kind = ''node'' \<and> serving = ''shared_static'' then Frontend else Static_site)"

definition candidate_capability_family :: "manifest \<Rightarrow> family" where
  "candidate_capability_family m =
     family_by_serving (to_lower (kind_value (m_kind m))) (to_lower (serving_value (m_servingMode m)))"

definition dict_capability_family :: "candidate_dict \<Rightarrow> family" where
  "dict_capability_family d =
     (let kind = to_lower (cq_kind d); form = to_lower (cq_form d) in
      if kind \<in> {''python'', ''node''} \<and> form \<in> {''backend-container'', ''fullstack-sqlite''} then Backend
      else if form = ''frontend-static'' then Frontend
      else family_by_serving kind (to_lower (cq_servingMode d)))"

definition capabilities_equivalent :: "family \<Rightarrow> family \<Rightarrow> bool" where
  "capabilities_equivalent primary c = (if primary = Backend then c = Backend else c \<in> {Static_site, Frontend})"

definition plan_capability_contract :: "fallback_entry \<Rightarrow> capability_contract option" where
  "plan_capability_contract f = (case f of Plan_entry p \<Rightarrow> pl_capabilityContract p | Flat_entry _ \<Rightarrow> None)"

definition manifest_capability_contract :: "manifest \<Rightarrow> capability_contract option" where
  "manifest_capability_contract m =
     (case m_capabilityContract m of Some c \<Rightarrow> Some c
      | None \<Rightarrow> (case m_deploymentPlans m of [] \<Rightarrow> None | p # _ \<Rightarrow> pl_capabilityContract p))"

definition contracts_equivalent :: "capability_contract option \<Rightarrow> capability_contract option \<Rightarrow> bool" where
  "contracts_equivalent a b =
     (case (a, b) of (Some a, Some b) \<Rightarrow> cc_servesApi a = cc_servesApi b
        \<and> cc_requiresDatabase a = cc_requiresDatabase b \<and> cc_requiresMigrations a = cc_requiresMigrations b
        \<and> cc_servesUi a = cc_servesUi b
      | _ \<Rightarrow> False)"

definition may_replace :: "manifest \<Rightarrow> fallback_entry \<Rightarrow> bool" where
  "may_replace m f =
     (case manifest_capability_contract m of
        Some c \<Rightarrow> contracts_equivalent (Some c) (plan_capability_contract f)
      | None \<Rightarrow> capabilities_equivalent (candidate_capability_family m) (dict_capability_family (entry_dict f)))"

section \<open>Failures\<close>

datatype failure_class = F_hosting | F_docker | F_lifecycle | F_other

record failure =
  fa_class :: failure_class
  fa_text :: string
  fa_auto_recoverable :: bool

definition infer_failure_layer :: "string \<Rightarrow> string" where
  "infer_failure_layer msg =
     (let t = to_lower msg; has = (\<lambda>w. contains w t) in
      if has ''build'' \<or> has ''dockerfile'' then ''build''
      else if has ''health'' \<or> has ''probe'' \<or> has ''wait'' then ''health''
      else if has ''up'' \<and> has ''compose'' then ''start''
      else if has ''port'' then ''start''
      else ''build'')"

record rollback_result =
  rr_succeeded :: bool
  rr_items :: "string list"
  rr_residuals :: "string list"
  rr_safe :: bool

record diagnosis =
  dg_index :: nat
  dg_tier :: string
  dg_layer :: string
  dg_reason :: string
  dg_rollback :: rollback_result

datatype fb_error = E_failed failure | E_confirm "(nat \<times> fallback_entry) list" | E_all_failed nat

section \<open>One attempt\<close>

definition ATTEMPT_FILES :: "string list" where
  "ATTEMPT_FILES = [''Dockerfile'', ''compose.yaml'', ''.env'', ''lwa_static_wsgi.py'', ''alias.conf'']"

record fb_ctx =
  fx_dx :: deploy_ctx
  fx_queue :: "nat \<Rightarrow> cd \<Rightarrow> failure option"
  fx_host :: "nat \<Rightarrow> cd \<Rightarrow> (failure + manifest) \<times> cd"
  fx_plan_hash :: "plan \<Rightarrow> string"
  fx_report :: "diagnosis list \<Rightarrow> string \<Rightarrow> string"
  fx_unreadable :: "string \<Rightarrow> bool"
  fx_file_fails :: "string \<Rightarrow> bool"
  fx_save_fails :: bool
  fx_apply_fails :: bool
  fx_load_fails :: bool

record snapshot =
  sn_planId :: "string option"
  sn_kind :: kind
  sn_runtime :: runtime
  sn_servingMode :: serving_mode
  sn_entry :: entry_config
  sn_sourceSubdir :: "string option"
  sn_container :: "container_config option"
  sn_contract :: "capability_contract option"
  sn_files :: file_map
  sn_ports :: "int list"

definition snapshot_attempt :: "fb_ctx \<Rightarrow> cd \<Rightarrow> snapshot" where
  "snapshot_attempt x s =
     (let m = cd_mem s in
      \<lparr>sn_planId = m_selectedPlanId m, sn_kind = m_kind m, sn_runtime = m_runtime m,
       sn_servingMode = m_servingMode m, sn_entry = m_entry m, sn_sourceSubdir = m_sourceSubdir m,
       sn_container = m_container m, sn_contract = m_capabilityContract m,
       sn_files = (\<lambda>n. if fx_unreadable x n then None else save_files ATTEMPT_FILES (ad_files (cd_dir s)) n),
       sn_ports = instance_ports (cd_id s) (cd_reg s)\<rparr>)"

text \<open>\<open>_restore_from_snapshot\<close>: a file that is not in the snapshot is removed. A field of the manifest
  is set only where the snapshot has a value.\<close>

fun restore_attempt_files ::
  "fb_ctx \<Rightarrow> file_map \<Rightarrow> string list \<Rightarrow> file_map \<Rightarrow> string list \<times> string list \<times> file_map" where
  "restore_attempt_files x snap [] f = ([], [], f)"
| "restore_attempt_files x snap (n # ns) f =
     (let (put, residual, f1) = (case snap n of
          Some c \<Rightarrow> if fx_file_fails x n then ([], [n], f) else ([n], [], f(n \<mapsto> c))
        | None \<Rightarrow> if f n = None then ([], [], f)
            else if fx_file_fails x n then ([], [n], f) else ([n @ '':removed''], [], f(n := None)));
        (ds, rs, f2) = restore_attempt_files x snap ns f1 in
      (put @ ds, residual @ rs, f2))"

definition restore_fields :: "string \<Rightarrow> snapshot \<Rightarrow> manifest \<Rightarrow> manifest" where
  "restore_fields now sn m = touch now (m\<lparr>
     m_selectedPlanId := (if truthy (sn_planId sn) then sn_planId sn else m_selectedPlanId m),
     m_kind := sn_kind sn, m_runtime := sn_runtime sn, m_servingMode := sn_servingMode sn,
     m_entry := sn_entry sn,
     m_sourceSubdir := (case sn_sourceSubdir sn of None \<Rightarrow> m_sourceSubdir m | Some d \<Rightarrow> Some d),
     m_container := (case sn_container sn of None \<Rightarrow> m_container m | Some c \<Rightarrow> Some c),
     m_capabilityContract := (case sn_contract sn of None \<Rightarrow> m_capabilityContract m | Some c \<Rightarrow> Some c)\<rparr>)"

definition restore_from_snapshot :: "fb_ctx \<Rightarrow> snapshot \<Rightarrow> cd \<Rightarrow> string list \<times> string list \<times> cd" where
  "restore_from_snapshot x sn s =
     (let (ds, rs, f) = restore_attempt_files x (sn_files sn) ATTEMPT_FILES (ad_files (cd_dir s));
          s1 = set_mem (restore_fields (dx_now (fx_dx x)) sn) (put_files f s) in
      if fx_save_fails x then (ds, rs @ [''manifest''], s1)
      else (ds @ [''manifest''], rs, to_disk s1))"

text \<open>The container of the attempt goes down when it is seen running; a failed query is ignored.\<close>

definition rollback_container :: "fb_ctx \<Rightarrow> cd \<Rightarrow> bool \<times> string list \<times> string list \<times> cd" where
  "rollback_container x s =
     (case dx_running (fx_dx x) (cd_docker s) of
        Some True \<Rightarrow> (case dx_down (fx_dx x) (cd_docker s) of
            (True, dk) \<Rightarrow> (True, [''container''], [], s\<lparr>cd_docker := dk\<rparr>)
          | (False, dk) \<Rightarrow> (True, [], [''container''], s\<lparr>cd_docker := dk\<rparr>))
      | _ \<Rightarrow> (False, [], [], s))"

definition release_new_ports :: "int list \<Rightarrow> string \<Rightarrow> reg \<Rightarrow> int list \<times> reg" where
  "release_new_ports before i r =
     (let fresh = filter (\<lambda>p. p \<notin> set before) (instance_ports i r) in (fresh, fold release fresh r))"

definition has_active_resources :: "fb_ctx \<Rightarrow> cd \<Rightarrow> bool" where
  "has_active_resources x s \<longleftrightarrow> dx_running (fx_dx x) (cd_docker s) = Some True"

definition rollback_attempt :: "fb_ctx \<Rightarrow> snapshot \<Rightarrow> bool \<Rightarrow> cd \<Rightarrow> rollback_result \<times> cd" where
  "rollback_attempt x sn auto_recoverable s =
     (let (was_running, items, residuals, s1) = rollback_container x s;
          (ports, r) = release_new_ports (sn_ports sn) (cd_id s1) (cd_reg s1);
          (ds, rs, s2) = restore_from_snapshot x sn (s1\<lparr>cd_reg := r\<rparr>);
          rolled = items @ map (\<lambda>_. ''port'') ports @ ds;
          left = residuals @ rs;
          ok = (rolled \<noteq> [] \<or> \<not> has_active_resources x s2) \<and> left = [];
          migrations = (case m_capabilityContract (cd_mem s2) of None \<Rightarrow> False | Some c \<Rightarrow> cc_requiresMigrations c) in
      (\<lparr>rr_succeeded = ok, rr_items = rolled, rr_residuals = left,
        rr_safe = (ok \<and> (\<not> was_running \<or> \<not> migrations) \<and> auto_recoverable)\<rparr>, s2))"

section \<open>Applying a fallback\<close>

definition lifecycle_event :: "fb_ctx \<Rightarrow> string \<Rightarrow> cd \<Rightarrow> cd" where
  "lifecycle_event x msg s =
     write_reg (add_event (Some (cd_id s)) ''lifecycle_stage'' msg None (dx_now (fx_dx x))) s"

definition parse_kind :: "string \<Rightarrow> kind option" where
  "parse_kind t = (if t = ''static'' then Some KIND_STATIC else if t = ''node'' then Some KIND_NODE
     else if t = ''python'' then Some KIND_PYTHON else None)"

text \<open>The runtime is accepted with a dash and with an underscore.\<close>

definition parse_runtime :: "string \<Rightarrow> runtime option" where
  "parse_runtime t =
     (let t' = map (\<lambda>c. if c = CHR ''_'' then CHR ''-'' else c) t in
      if t' = ''shared-static'' then Some SHARED_STATIC
      else if t' = ''docker-compose'' then Some DOCKER_COMPOSE else None)"

definition apply_dict :: "string \<Rightarrow> candidate_dict \<Rightarrow> manifest \<Rightarrow> manifest" where
  "apply_dict now d m =
     (let m1 = (case parse_kind (cq_kind d) of None \<Rightarrow> m | Some k \<Rightarrow> m\<lparr>m_kind := k\<rparr>);
          m2 = (case parse_runtime (cq_runtime d) of None \<Rightarrow> m1
            | Some rt \<Rightarrow> m1\<lparr>m_runtime := rt, m_servingMode :=
                (if rt = SHARED_STATIC then SERVE_SHARED_STATIC else SERVE_CONTAINER)\<rparr>);
          m3 = (case cq_entry d of None \<Rightarrow> m2 | Some e \<Rightarrow> m2\<lparr>m_entry := e\<rparr>) in
      touch now (m3\<lparr>m_sourceSubdir := cq_sourceSubdir d\<rparr>))"

definition select_plan :: "fb_ctx \<Rightarrow> fallback_entry \<Rightarrow> cd \<Rightarrow> cd" where
  "select_plan x f s =
     (case f of
        Flat_entry _ \<Rightarrow> s
      | Plan_entry p \<Rightarrow>
          (let s1 = (if pl_planId p = [] then s
                     else lifecycle_event x ''plan selected'' (set_mem (\<lambda>m. m\<lparr>m_selectedPlanId := Some (pl_planId p),
                       m_selectedPlanHash := Some (fx_plan_hash x p)\<rparr>) s)) in
           case pl_capabilityContract p of None \<Rightarrow> s1
           | Some c \<Rightarrow> set_mem (\<lambda>m. m\<lparr>m_capabilityContract := Some c\<rparr>) s1))"

definition apply_entry :: "fb_ctx \<Rightarrow> fallback_entry \<Rightarrow> cd \<Rightarrow> cd" where
  "apply_entry x f s = set_mem (apply_dict (dx_now (fx_dx x)) (entry_dict f)) (select_plan x f s)"

text \<open>The host function works on its own copy of the manifest; the caller gets the one it returns.\<close>

definition run_host :: "fb_ctx \<Rightarrow> nat \<Rightarrow> cd \<Rightarrow> (failure + unit) \<times> cd" where
  "run_host x n s = (case fx_host x n s of
     (Inl f, s') \<Rightarrow> (Inl f, s'\<lparr>cd_mem := cd_mem s\<rparr>)
   | (Inr m, s') \<Rightarrow> (Inr (), s'\<lparr>cd_mem := m\<rparr>))"

definition attempt_top :: "fb_ctx \<Rightarrow> cd \<Rightarrow> (failure + unit) \<times> cd" where
  "attempt_top x s = (case fx_queue x 0 s of Some f \<Rightarrow> (Inl f, s) | None \<Rightarrow> run_host x 0 s)"

definition save_failure :: failure where
  "save_failure = \<lparr>fa_class = F_other, fa_text = ''save'', fa_auto_recoverable = True\<rparr>"

definition attempt_fallback :: "fb_ctx \<Rightarrow> nat \<Rightarrow> fallback_entry \<Rightarrow> cd \<Rightarrow> (failure + unit) \<times> cd" where
  "attempt_fallback x n f s =
     (case fx_queue x n s of
        Some e \<Rightarrow> (Inl e, s)
      | None \<Rightarrow>
          (let s1 = apply_entry x f s in
           if fx_apply_fails x then (Inl save_failure, s1) else run_host x n (to_disk s1)))"

section \<open>The order of attempts\<close>

definition MAX_FALLBACK_CANDIDATES :: nat where "MAX_FALLBACK_CANDIDATES = 3"

definition FALLBACK_CONFIRM :: string where "FALLBACK_CONFIRM = ''confirm''"
definition FALLBACK_DISABLED :: string where "FALLBACK_DISABLED = ''disabled''"

definition write_diagnosis :: "fb_ctx \<Rightarrow> diagnosis list \<Rightarrow> string \<Rightarrow> cd \<Rightarrow> cd" where
  "write_diagnosis x ds advice s =
     (let i = cd_id s; now = dx_now (fx_dx x); msg = take 2000 (fx_report x ds advice);
          s1 = (if fx_load_fails x then s
                else s\<lparr>cd_disk := touch now ((cd_disk s)\<lparr>m_lastError := Some msg, m_status := FAILED\<rparr>)\<rparr>);
          s2 = write_reg (update_status i ''failed'' (no_update\<lparr>su_last_error := Some (take 500 msg)\<rparr>) now) s1 in
      write_reg (add_event (Some i) ''diagnosis'' ''all failed'' None now) s2)"

definition diagnose :: "nat \<Rightarrow> string \<Rightarrow> failure \<Rightarrow> rollback_result \<Rightarrow> diagnosis" where
  "diagnose index tier f rb = \<lparr>dg_index = index, dg_tier = tier, dg_layer = infer_failure_layer (fa_text f),
     dg_reason = take 500 (fa_text f), dg_rollback = rb\<rparr>"

fun try_candidates ::
  "fb_ctx \<Rightarrow> nat \<Rightarrow> (nat \<times> fallback_entry) list \<Rightarrow> diagnosis list \<Rightarrow> cd \<Rightarrow> (fb_error + unit) \<times> cd" where
  "try_candidates x n [] ds s = (Inl (E_all_failed (length ds)), write_diagnosis x ds ''all candidates failed'' s)"
| "try_candidates x n ((i, f) # fs) ds s =
     (let s1 = lifecycle_event x ''fallback'' s; sn = snapshot_attempt x s1 in
      case attempt_fallback x n f s1 of
        (Inr _, s2) \<Rightarrow> (Inr (), s2)
      | (Inl e, s2) \<Rightarrow>
          if fa_class e = F_lifecycle then (Inl (E_failed e), s2)
          else (let (rb, s3) = rollback_attempt x sn (fa_auto_recoverable e) s2 in
            try_candidates x (Suc n) fs (ds @ [diagnose (Suc i) (entry_tier f) e rb]) s3))"

definition after_failure :: "fb_ctx \<Rightarrow> string \<Rightarrow> failure \<Rightarrow> rollback_result \<Rightarrow> cd \<Rightarrow> (fb_error + unit) \<times> cd" where
  "after_failure x policy e rb s =
     (let m = cd_mem s; fallbacks = get_fallback_plans m; first = diagnose 0 ''primary'' e rb;
          give_up = (\<lambda>advice s. (Inl (E_failed e), write_diagnosis x [first] advice s)) in
      if fallbacks = [] then give_up ''no fallback'' s
      else if policy = FALLBACK_DISABLED then give_up ''disabled'' s
      else if m_runtime m = SHARED_STATIC then (Inl (E_failed e), s)
      else (let fits = filter (\<lambda>(i, f). may_replace m f) (zip [0..<length fallbacks] fallbacks);
                s1 = (if length fits < length fallbacks then lifecycle_event x ''skipped'' s else s) in
        if fits = [] then give_up ''none equivalent'' s1
        else if \<not> rr_succeeded rb then give_up ''rollback incomplete'' s1
        else if policy = FALLBACK_CONFIRM
        then (Inl (E_confirm (take MAX_FALLBACK_CANDIDATES (map (\<lambda>(i, f). (Suc i, f)) fits))), s1)
        else if \<not> rr_safe rb then give_up ''rollback unsafe'' s1
        else try_candidates x 1 (take MAX_FALLBACK_CANDIDATES fits) [first] s1))"

definition is_deployed_container :: "manifest \<Rightarrow> bool" where
  "is_deployed_container m \<longleftrightarrow> m_runtime m = DOCKER_COMPOSE
     \<and> (case m_container m of None \<Rightarrow> False | Some c \<Rightarrow> truthy (c_containerId c))"

definition env_failure :: failure where
  "env_failure = \<lparr>fa_class = F_hosting, fa_text = ''environment'', fa_auto_recoverable = True\<rparr>"

definition try_host_with_fallback :: "fb_ctx \<Rightarrow> string \<Rightarrow> cd \<Rightarrow> (fb_error + unit) \<times> cd" where
  "try_host_with_fallback x policy s =
     (let existing = is_deployed_container (cd_mem s) in
      case (if existing then ensure_env_rollback_ready (dx_env_hash (fx_dx x)) False (cd_dir s) else (Inr (), cd_dir s)) of
        (Inl _, d) \<Rightarrow> (Inl (E_failed env_failure), s\<lparr>cd_dir := d\<rparr>)
      | (Inr _, d) \<Rightarrow>
          (let s0 = s\<lparr>cd_dir := d\<rparr>; sn = snapshot_attempt x s0 in
           case attempt_top x s0 of
             (Inr _, s1) \<Rightarrow> (Inr (), s1)
           | (Inl e, s1) \<Rightarrow>
               if fa_class e \<notin> {F_hosting, F_docker} \<or> existing then (Inl (E_failed e), s1)
               else (let (rb, s2) = rollback_attempt x sn (fa_auto_recoverable e) s1 in
                 after_failure x policy e rb s2)))"

section \<open>The container's host function\<close>

text \<open>\<open>host_instance\<close> of a container. What the raised error says about side effects is a parameter.\<close>

definition failure_of :: "(string \<Rightarrow> bool) \<Rightarrow> deploy_exn \<Rightarrow> failure" where
  "failure_of auto e = (case e of
     X_cancelled \<Rightarrow> \<lparr>fa_class = F_lifecycle, fa_text = ''cancelled'', fa_auto_recoverable = True\<rparr>
   | X_error reason \<Rightarrow> \<lparr>fa_class = F_hosting, fa_text = reason, fa_auto_recoverable = auto reason\<rparr>
   | X_restored reason \<Rightarrow> \<lparr>fa_class = F_hosting, fa_text = reason, fa_auto_recoverable = auto reason\<rparr>
   | X_residual reason _ \<Rightarrow> \<lparr>fa_class = F_hosting, fa_text = reason, fa_auto_recoverable = auto reason\<rparr>)"

definition container_host :: "deploy_ctx \<Rightarrow> (string \<Rightarrow> bool) \<Rightarrow> cd \<Rightarrow> (failure + manifest) \<times> cd" where
  "container_host dx auto s = (case host_container dx s of
     (Inl e, s') \<Rightarrow> (Inl (failure_of auto e), s')
   | (Inr _, s') \<Rightarrow> (Inr (cd_mem s'), s'))"

definition container_ctx :: "(string \<Rightarrow> bool) \<Rightarrow> fb_ctx \<Rightarrow> fb_ctx" where
  "container_ctx auto x = x\<lparr>fx_host := (\<lambda>_. container_host (fx_dx x) auto)\<rparr>"

end
