(* ===== verification/Candidate_Facts.thy ===== *)
theory Candidate_Facts
  imports Fallback
begin

text \<open>
  What the plans of a project guarantee: a back end is never planned as a static site, the probes are
  optional evidence, and which candidates survive the way through a plan and back.
\<close>

section \<open>Candidates\<close>

lemma in_container_fields [simp]:
  "ca_kind (in_container k f pr e p d) = k" "ca_runtime (in_container k f pr e p d) = ''docker_compose''"
  "ca_confidenceTier (in_container k f pr e p d) = ''primary''" "ca_entry (in_container k f pr e p d) = e"
  "ca_sourceSubdir (in_container k f pr e p d) = d" "ca_form (in_container k f pr e p d) = f"
  by (simp_all add: in_container_def)

lemma on_gateway_fields [simp]:
  "ca_kind (on_gateway k f e d t) = k" "ca_runtime (on_gateway k f e d t) = ''shared_static''"
  "ca_confidenceTier (on_gateway k f e d t) = t" "ca_entry (on_gateway k f e d t) = e"
  "ca_sourceSubdir (on_gateway k f e d t) = d" "ca_form (on_gateway k f e d t) = f"
  by (simp_all add: on_gateway_def)

lemma in_container_backend [simp]: "is_backend (in_container k f pr e p d) \<longleftrightarrow> k = ''python'' \<or> k = ''node''"
  by (simp add: is_backend_def)

lemma python_backend [simp]: "is_backend (make_python_candidate d deps fws)"
  by (simp add: make_python_candidate_def Let_def)

lemma node_backend [simp]: "is_backend (make_node_candidate g d sc deps)"
  by (simp add: make_node_candidate_def)

lemma stdlib_made:
  assumes "c \<in> set (stdlib_http_candidate g e)"
  shows "\<exists>k f pr en p. c = in_container k f pr en p None \<and> (k = ''python'' \<or> k = ''node'')
    \<and> truthy (e_start en) \<and> e_build en \<noteq> Some [] \<and> e_buildOutputDir en = None"
  using assms unfolding stdlib_http_candidate_def Let_def no_entry_def
  by (simp only: split: if_splits option.splits prod.splits) (fastforce simp del: map_of_eq_None_iff)+

lemma stdlib_backend: "c \<in> set (stdlib_http_candidate g e) \<Longrightarrow> is_backend c"
  by (drule stdlib_made) (elim exE conjE, simp only: in_container_backend)

lemma backend_candidates_backend: "c \<in> set (backend_candidates g e) \<Longrightarrow> is_backend c"
  by (auto simp: backend_candidates_def Let_def python_subdir_candidates_def python_root_candidates_def
      node_subdir_candidates_def node_root_candidates_def stdlib_backend split: if_splits)

lemma on_gateway_not_backend [simp]: "\<not> is_backend (on_gateway k f e d t)"
  by (simp add: is_backend_def)

lemma frontend_not_backend [simp]: "\<not> is_backend (make_frontend_candidate g d t)"
  by (simp add: make_frontend_candidate_def)

text \<open>The front ends and the static site of a project, whose tiers follow from the back ends.\<close>

lemma front_tier:
  "c \<in> set (frontend_subdir_candidates g e t @ frontend_root_candidates g e t cs)
   \<Longrightarrow> \<exists>d. c = make_frontend_candidate g d t"
  by (auto simp: frontend_subdir_candidates_def frontend_root_candidates_def split: if_splits)

lemma primary_backend_iff:
  "list_ex (\<lambda>c. ca_kind c \<in> {''python'', ''node''} \<and> ca_confidenceTier c = ''primary'') (backend_candidates g e)
   \<longleftrightarrow> backend_candidates g e \<noteq> []"
  using backend_candidates_backend [of _ g e]
  by (cases "backend_candidates g e") (simp_all add: is_backend_def)

lemma set_generate_candidates:
  "set (generate_candidates g e) =
     (let t = (if backend_candidates g e \<noteq> [] then ''alternate'' else ''primary'');
          c1 = backend_candidates g e @ frontend_subdir_candidates g e t;
          c2 = c1 @ frontend_root_candidates g e t c1 in set c2 \<union> set (static_candidates e c2))"
  unfolding generate_candidates_def primary_backend_iff Let_def by (simp add: Un_assoc)

lemma static_candidate:
  assumes "c \<in> set (static_candidates e cs)"
  shows "\<exists>t. c = on_gateway ''static'' ''static'' no_entry None t"
proof -
  have "c = on_gateway ''static'' ''static'' no_entry None (if cs = [] then ''primary'' else ''fallback'')"
    using assms unfolding static_candidates_def by (cases "ev_hasIndexHtml e \<or> ev_hasHtml e") simp_all
  then show ?thesis ..
qed

lemma candidate_cases:
  assumes "c \<in> set (generate_candidates g e)"
  obtains (backend) "c \<in> set (backend_candidates g e)"
    | (front) d where "c = make_frontend_candidate g d
        (if backend_candidates g e \<noteq> [] then ''alternate'' else ''primary'')"
    | (static) t where "c = on_gateway ''static'' ''static'' no_entry None t"
proof -
  let ?t = "if backend_candidates g e \<noteq> [] then ''alternate'' else ''primary''"
  from assms obtain cs cs' where "c \<in> set (backend_candidates g e)
      \<or> c \<in> set (frontend_subdir_candidates g e ?t @ frontend_root_candidates g e ?t cs)
      \<or> c \<in> set (static_candidates e cs')"
    unfolding set_generate_candidates Let_def set_append Un_iff by blast
  then consider (1) "c \<in> set (backend_candidates g e)"
    | (2) "\<exists>d. c = make_frontend_candidate g d ?t" | (3) "\<exists>t. c = on_gateway ''static'' ''static'' no_entry None t"
    using front_tier static_candidate by blast
  then show thesis
  proof cases
    case 1
    then show thesis by (rule backend)
  next
    case 2
    then obtain d where "c = make_frontend_candidate g d ?t" ..
    then show thesis by (rule front)
  next
    case 3
    then obtain t where "c = on_gateway ''static'' ''static'' no_entry None t" ..
    then show thesis by (rule static)
  qed
qed

lemma backends_of_candidates:
  "c \<in> set (generate_candidates g e) \<and> is_backend c \<longleftrightarrow> c \<in> set (backend_candidates g e)"
proof (intro iffI conjI)
  assume c: "c \<in> set (generate_candidates g e) \<and> is_backend c"
  from conjunct1 [OF c] show "c \<in> set (backend_candidates g e)"
  proof (cases rule: candidate_cases)
    case (front d)
    then have False using c frontend_not_backend by metis
    then show ?thesis ..
  next
    case (static t)
    then have False using c on_gateway_not_backend by metis
    then show ?thesis ..
  qed
next
  assume "c \<in> set (backend_candidates g e)"
  then show "c \<in> set (generate_candidates g e)" unfolding set_generate_candidates Let_def by simp
next
  assume "c \<in> set (backend_candidates g e)"
  then show "is_backend c" by (rule backend_candidates_backend)
qed

lemma no_backends_iff: "filter is_backend (generate_candidates g e) = [] \<longleftrightarrow> backend_candidates g e = []"
proof -
  have "set (filter is_backend (generate_candidates g e)) = set (backend_candidates g e)"
    using backends_of_candidates by auto
  then show ?thesis by (metis set_empty)
qed

section \<open>Plans\<close>

lemma parse_all_id: "parse_all id xs = Some ys \<longleftrightarrow> xs = map Some ys"
proof (induction xs arbitrary: ys)
  case (Cons x xs)
  then show ?case by (cases ys; cases x) auto
qed auto

lemma backend_plan_SomeD:
  assumes "backend_plan g e fronts b = Some p"
  shows "\<exists>run. candidate_to_component b ''runtime'' = Some run \<and> hd (pl_components p) = run
      \<and> pl_components p \<noteq> [] \<and> pl_confidenceTier p = ''primary''
      \<and> pl_capabilityContract p = Some (backend_contract g e b (filter (\<lambda>f. ca_confidenceTier f = ''alternate'') fronts \<noteq> []))"
  using assms by (auto simp: backend_plan_def Let_def split: option.splits)

lemma single_plan_SomeD:
  assumes "single_plan name role tier probes c = Some p"
  shows "pl_confidenceTier p = tier \<and> pl_planId p = name
      \<and> pl_capabilityContract p = Some (no_contract\<lparr>cc_servesUi := True, cc_requiredProbes := probes\<rparr>)
      \<and> (\<exists>k. candidate_to_component c role = Some k \<and> pl_components p = [k])"
  using assms by (auto simp: single_plan_def)

definition serves_api :: "plan \<Rightarrow> bool" where
  "serves_api p \<longleftrightarrow> (case pl_capabilityContract p of None \<Rightarrow> False | Some c \<Rightarrow> cc_servesApi c)"

text \<open>Where the plans come from.\<close>

definition single_made :: "plan \<Rightarrow> string \<Rightarrow> probe_spec list \<Rightarrow> bool" where
  "single_made p tier probes \<longleftrightarrow> (\<exists>name role c. single_plan name role tier probes c = Some p)"

lemma plans_with_backend:
  assumes "generate_plans g e = Some ps" "backend_candidates g e \<noteq> []"
  obtains qs where "ps = sort_key (\<lambda>p. plan_order (pl_confidenceTier p)) qs"
    "map (backend_plan g e (filter is_frontend (generate_candidates g e))) (filter is_backend (generate_candidates g e))
      @ map (single_plan ''plan-static-diagnostic'' ''runtime'' ''diagnostic'' [])
          (take 1 (filter (\<lambda>c. ca_kind c = ''static'') (generate_candidates g e))) = map Some qs"
  using assms by (auto simp: generate_plans_def Let_def no_backends_iff parse_all_id)

lemma made_with_backend:
  assumes "generate_plans g e = Some ps" "backend_candidates g e \<noteq> []" "p \<in> set ps"
  shows "(\<exists>b \<in> set (backend_candidates g e). \<exists>fronts. backend_plan g e fronts b = Some p) \<or> single_made p ''diagnostic'' []"
proof -
  let ?cs = "generate_candidates g e"
  from plans_with_backend [OF assms(1,2)] obtain qs where qs: "ps = sort_key (\<lambda>p. plan_order (pl_confidenceTier p)) qs"
    "map (backend_plan g e (filter is_frontend ?cs)) (filter is_backend ?cs)
      @ map (single_plan ''plan-static-diagnostic'' ''runtime'' ''diagnostic'' []) (take 1 (filter (\<lambda>c. ca_kind c = ''static'') ?cs))
     = map Some qs" .
  from assms(3) qs(1) have "Some p \<in> set (map Some qs)" by simp
  then consider b where "b \<in> set (filter is_backend ?cs)" "backend_plan g e (filter is_frontend ?cs) b = Some p"
    | c where "single_plan ''plan-static-diagnostic'' ''runtime'' ''diagnostic'' [] c = Some p"
    unfolding qs(2) [symmetric] by (auto dest: sym)
  then show ?thesis
  proof cases
    case (1 b)
    then show ?thesis using backends_of_candidates by auto
  next
    case 2
    then show ?thesis unfolding single_made_def by blast
  qed
qed

lemma made_without_backend:
  assumes "generate_plans g e = Some ps" "backend_candidates g e = []" "p \<in> set ps"
  shows "single_made p ''primary'' [guessed_probe ''/'']"
proof -
  let ?cs = "generate_candidates g e" and ?first = "\<lambda>c. ca_confidenceTier c = ''primary''"
  from assms(1,2) obtain qs where qs: "ps = sort_key (\<lambda>p. plan_order (pl_confidenceTier p)) qs"
    "map (\<lambda>c. single_plan (''plan-frontend-'' @ subdir_label c) ''build-and-runtime'' ''primary'' [guessed_probe ''/''] c)
         (filter ?first (filter is_frontend ?cs))
      @ map (single_plan ''plan-static'' ''runtime'' ''primary'' [guessed_probe ''/''])
         (filter ?first (filter (\<lambda>c. ca_kind c = ''static'') ?cs)) = map Some qs"
    by (auto simp: generate_plans_def Let_def no_backends_iff parse_all_id)
  from assms(3) qs(1) have "Some p \<in> set (map Some qs)" by simp
  then obtain name role c where "single_plan name role ''primary'' [guessed_probe ''/''] c = Some p"
    unfolding qs(2) [symmetric] by (auto dest: sym)
  then show ?thesis unfolding single_made_def by blast
qed

lemma plan_made:
  assumes "generate_plans g e = Some ps" "p \<in> set ps"
  shows "(\<exists>b fronts. backend_plan g e fronts b = Some p) \<or> (\<exists>tier probes. single_made p tier probes
    \<and> (probes = [] \<or> probes = [guessed_probe ''/'']))"
  using made_with_backend [OF assms(1) _ assms(2)] made_without_backend [OF assms(1) _ assms(2)] by blast

lemma plan_with_backend:
  assumes "generate_plans g e = Some ps" "backend_candidates g e \<noteq> []" "p \<in> set ps"
  shows "pl_confidenceTier p = ''primary'' \<and> serves_api p \<or> pl_confidenceTier p = ''diagnostic'' \<and> \<not> serves_api p"
  using made_with_backend [OF assms] backend_plan_SomeD single_plan_SomeD
  by (fastforce simp: single_made_def serves_api_def backend_contract_def no_contract_def Let_def)

lemma plan_without_backend:
  assumes "generate_plans g e = Some ps" "backend_candidates g e = []" "p \<in> set ps"
  shows "pl_confidenceTier p = ''primary'' \<and> \<not> serves_api p"
  using made_without_backend [OF assms] single_plan_SomeD
  by (fastforce simp: single_made_def serves_api_def no_contract_def)

lemma selected_plan:
  assumes "generate_plans g e = Some ps" "backend_candidates g e \<noteq> []"
  shows "ps \<noteq> [] \<and> serves_api (hd ps)"
proof -
  let ?cs = "generate_candidates g e" and ?o = "\<lambda>p. plan_order (pl_confidenceTier p)"
  obtain b where b: "b \<in> set (filter is_backend ?cs)"
    using assms(2) no_backends_iff [of g e] by (metis list.set_sel(1))
  from plans_with_backend [OF assms] obtain qs where qs: "ps = sort_key ?o qs"
    "map (backend_plan g e (filter is_frontend ?cs)) (filter is_backend ?cs)
      @ map (single_plan ''plan-static-diagnostic'' ''runtime'' ''diagnostic'' []) (take 1 (filter (\<lambda>c. ca_kind c = ''static'') ?cs))
     = map Some qs" .
  have "backend_plan g e (filter is_frontend ?cs) b \<in> set (map Some qs)"
    unfolding qs(2) [symmetric] using b by simp
  then obtain p where p: "p \<in> set qs" "backend_plan g e (filter is_frontend ?cs) b = Some p" by auto
  then have in_ps: "p \<in> set ps" by (simp add: qs(1))
  then have ne: "ps \<noteq> []" by auto
  have "pl_confidenceTier p = ''primary''" using backend_plan_SomeD [OF p(2)] by blast
  then have "?o p = 0" by (simp add: plan_order_def tier_order_def)
  moreover have "?o (hd ps) \<le> ?o p"
    using in_ps ne sorted_sort_key [of ?o qs] unfolding qs(1) [symmetric] by (cases ps) auto
  ultimately have "pl_confidenceTier (hd ps) \<noteq> ''diagnostic''" by (auto simp: plan_order_def)
  with plan_with_backend [OF assms hd_in_set [OF ne]] have "serves_api (hd ps)" by blast
  with ne show ?thesis by blast
qed

text \<open>C25: For a project with a back end, the plan that is selected serves the API, and every plan that
  does not is only a diagnostic hint: a back end never becomes a static site.
\<close>

theorem backend_never_static:
  assumes "generate_plans g e = Some ps" "backend_candidates g e \<noteq> []"
  shows "ps \<noteq> [] \<and> serves_api (hd ps) \<and> (\<forall>p \<in> set ps. \<not> serves_api p \<longrightarrow> pl_confidenceTier p = ''diagnostic'')"
  using selected_plan [OF assms] plan_with_backend [OF assms] by blast

text \<open>C26: No plan that the generator makes can be a fallback: they are primary or diagnostic. An imported
  instance with plans therefore has no fallback, whatever flat candidates it keeps.
\<close>

theorem generated_plans_have_no_fallback:
  assumes "generate_plans g e = Some (m_deploymentPlans m)" "m_deploymentPlans m \<noteq> []"
  shows "get_fallback_plans m = []"
proof -
  have "pl_confidenceTier p \<notin> {''alternate'', ''fallback''}" if "p \<in> set (m_deploymentPlans m)" for p
    using plan_with_backend [OF assms(1) _ that] plan_without_backend [OF assms(1) _ that]
    by (cases "backend_candidates g e = []") auto
  then show ?thesis using assms(2) by (simp add: get_fallback_plans_def)
qed

section \<open>From a candidate to a plan and back\<close>

definition plain_char :: "char \<Rightarrow> bool" where
  "plain_char c \<longleftrightarrow> \<not> shlex_ws c \<and> c \<noteq> BACKSLASH \<and> c \<noteq> DQUOTE \<and> c \<noteq> SQUOTE"

definition plain_word :: "string \<Rightarrow> bool" where
  "plain_word w \<longleftrightarrow> w \<noteq> [] \<and> list_all plain_char w"

lemma shlex_in_word:
  "list_all plain_char w \<Longrightarrow> shlex In_word t w = Some [rev t @ w]"
  "list_all plain_char w \<Longrightarrow> shlex In_word t (w @ SP # cs) = map_option (Cons (rev t @ w)) (shlex Between [] cs)"
  by (induction w arbitrary: t) (auto simp: plain_char_def shlex_ws_def)

lemma shlex_plain: "list_all plain_word ws \<Longrightarrow> shlex Between [] (join_on SP ws) = Some ws"
proof (induction ws)
  case (Cons w ws)
  then obtain c w' where w: "w = c # w'" "plain_char c" "list_all plain_char w'"
    by (auto simp: plain_word_def neq_Nil_conv)
  then show ?case
    using Cons by (cases ws) (auto simp: shlex_in_word plain_char_def)
qed simp

text \<open>What a back end's candidate looks like: a start command, at most one build command, no build directory.\<close>

definition container_shaped :: "candidate \<Rightarrow> bool" where
  "container_shaped c \<longleftrightarrow> ca_runtime c = ''docker_compose'' \<and> ca_servingMode c = ''container''
     \<and> truthy (e_start (ca_entry c)) \<and> e_build (ca_entry c) \<noteq> Some [] \<and> e_buildOutputDir (ca_entry c) = None"

lemma in_container_shaped [simp]: "container_shaped (in_container k f pr en p d) \<longleftrightarrow>
    truthy (e_start en) \<and> e_build en \<noteq> Some [] \<and> e_buildOutputDir en = None"
  by (simp add: container_shaped_def in_container_def)

lemma python_start_nonempty [simp]: "python_start_command fw d \<noteq> []"
  by (simp add: python_start_command_def)

lemma python_shaped [simp]: "container_shaped (make_python_candidate d deps fws)"
  by (simp add: make_python_candidate_def Let_def no_entry_def)

lemma node_shaped [simp]: "container_shaped (make_node_candidate g d sc deps)"
  by (simp add: make_node_candidate_def)

lemma stdlib_shaped: "c \<in> set (stdlib_http_candidate g e) \<Longrightarrow> container_shaped c"
  by (drule stdlib_made) (elim exE conjE, simp)

lemma backend_shaped: "c \<in> set (backend_candidates g e) \<Longrightarrow> container_shaped c"
  by (auto simp: backend_candidates_def Let_def python_subdir_candidates_def python_root_candidates_def
      node_subdir_candidates_def node_root_candidates_def stdlib_shaped split: if_splits)

lemma starts_with_kind: "k \<in> {''python'', ''node'', ''static''} \<Longrightarrow> kind_of_component (k @ ''-'' @ role) = k"
  by (auto simp: kind_of_component_def starts_with_def)

lemma runtime_first: "pl_components p = c # cs \<Longrightarrow> co_role c \<in> {''runtime'', ''build-and-runtime''}
    \<Longrightarrow> runtime_component p = Some c"
  by (simp add: runtime_component_def)

lemma component_fields:
  assumes "candidate_to_component c role = Some k"
  shows "co_componentId k = ca_kind c @ ''-'' @ role \<and> co_role k = role \<and> co_sourceSubdir k = ca_sourceSubdir c
    \<and> command_text (co_buildCommand k) = (if truthy (e_build (ca_entry c)) then e_build (ca_entry c) else None)
    \<and> co_buildOutputDir k = (if truthy (e_buildOutputDir (ca_entry c)) then e_buildOutputDir (ca_entry c) else None)
    \<and> start_spec c = Some (co_startCommand k)"
  using assms by (auto simp: candidate_to_component_def Let_def plain_component_def command_text_def split: option.splits if_splits)

lemma start_spec_text:
  assumes "e_start (ca_entry c) = Some s" "s \<noteq> []" "start_spec c = Some cmd"
    "has_shell_operators s \<or> s = join_on SP ws \<and> list_all plain_word ws"
  shows "command_text cmd = Some s"
proof (cases "has_shell_operators s")
  case True
  with assms show ?thesis by (auto simp: start_spec_def Let_def command_text_def)
next
  case False
  with assms have "s = join_on SP ws" "list_all plain_word ws" by auto
  with False assms(1-3) shlex_plain [of ws] show ?thesis
    by (auto simp: start_spec_def Let_def command_text_def shlex_split_def)
qed

text \<open>C27: A back end's candidate comes back from its plan with its kind, its source directory, its build
  and start command; the install command is not in the plan. The start command survives when it
  needs a shell or has no quotation: the words of any other command are joined without their quotes.
\<close>

theorem backend_round_trip:
  assumes "b \<in> set (backend_candidates g e)" "backend_plan g e fronts b = Some p"
    "e_start (ca_entry b) = Some s" "has_shell_operators s \<or> s = join_on SP ws \<and> list_all plain_word ws"
  shows "plan_to_candidate_dict p = (flat_dict b)\<lparr>cq_runtime := ''docker-compose'',
    cq_entry := Some ((ca_entry b)\<lparr>e_install := None\<rparr>), cq_form := erase ''plan-'' 0 (pl_planId p)\<rparr>"
proof -
  from backend_shaped [OF assms(1)] have b: "ca_servingMode b = ''container''" "s \<noteq> []"
    "e_build (ca_entry b) \<noteq> Some []" "e_buildOutputDir (ca_entry b) = None"
    using assms(3) by (auto simp: container_shaped_def)
  have kind: "ca_kind b \<in> {''python'', ''node''}"
    using backend_candidates_backend [OF assms(1)] by (simp add: is_backend_def)
  obtain run where run: "candidate_to_component b ''runtime'' = Some run" "hd (pl_components p) = run" "pl_components p \<noteq> []"
    using backend_plan_SomeD [OF assms(2)] by blast
  note f = component_fields [OF run(1)]
  have start: "command_text (co_startCommand run) = Some s"
    using start_spec_text [OF assms(3) b(2) _ assms(4)] f by simp
  have k: "kind_of_component (co_componentId run) = ca_kind b"
    using kind starts_with_kind [of "ca_kind b" "''runtime''"] f by fastforce
  have ns: "ca_kind b \<noteq> ''static''" using kind by auto
  have r: "runtime_component p = Some run"
    using runtime_first [of p run "tl (pl_components p)"] run(2,3) f by (cases "pl_components p") simp_all
  have build: "command_text (co_buildCommand run) = e_build (ca_entry b)"
    using f b(3) by (cases "e_build (ca_entry b)") auto
  have out: "co_buildOutputDir run = None" using f b(4) by (metis truthy_simps(1))
  show ?thesis
    unfolding plan_to_candidate_dict_def r Let_def flat_dict_def
    using f start k ns build out b assms(3) by simp
qed

text \<open>The plan of a front end that is built for the gateway comes back as a container: the kind
  \<open>node\<close> alone decides the runtime.
\<close>

theorem frontend_plan_becomes_container:
  assumes "single_plan name ''build-and-runtime'' tier probes (make_frontend_candidate g d t) = Some p"
  shows "cq_kind (plan_to_candidate_dict p) = ''node'' \<and> cq_runtime (plan_to_candidate_dict p) = ''docker-compose''
    \<and> parse_runtime (ca_runtime (make_frontend_candidate g d t)) = Some SHARED_STATIC"
proof -
  obtain k where k: "candidate_to_component (make_frontend_candidate g d t) ''build-and-runtime'' = Some k"
    "pl_components p = [k]"
    using single_plan_SomeD [OF assms] by blast
  have kind: "kind_of_component (co_componentId k) = ''node''"
    using component_fields [OF k(1)] by (simp add: make_frontend_candidate_def kind_of_component_def starts_with_def)
  have "runtime_component p = Some k" using runtime_first [OF k(2)] component_fields [OF k(1)] by simp
  with kind show ?thesis
    by (simp add: plan_to_candidate_dict_def Let_def make_frontend_candidate_def parse_runtime_def)
qed

section \<open>Probes\<close>

abbreviation probe_key :: "probe_spec \<Rightarrow> string \<times> string" where
  "probe_key p \<equiv> (pr_method p, pr_path p)"

definition route_key :: "composed_route \<Rightarrow> string \<times> string" where
  "route_key r = (rt_method r, rt_path r)"

lemma distinct_routes_fresh: "r \<in> set (distinct_routes seen rs) \<Longrightarrow> route_key r \<notin> set seen"
proof (induction seen rs rule: distinct_routes.induct)
  case (2 seen x xs)
  show ?case
  proof (cases "\<not> health_path (rt_route x) \<or> route_key x \<in> set seen")
    case True
    with 2 show ?thesis by (simp add: route_key_def)
  next
    case False
    then show ?thesis using 2(2) 2(3) by (auto simp: route_key_def)
  qed
qed simp

lemma distinct_routes_keys: "distinct (map route_key (distinct_routes seen rs))"
proof (induction seen rs rule: distinct_routes.induct)
  case (2 seen x xs)
  show ?case
  proof (cases "\<not> health_path (rt_route x) \<or> route_key x \<in> set seen")
    case True
    with 2 show ?thesis by (simp add: route_key_def)
  next
    case False
    have "route_key x \<notin> route_key ` set (distinct_routes (route_key x # seen) xs)"
      using distinct_routes_fresh [of _ "route_key x # seen" xs] by fastforce
    with False 2 show ?thesis by (simp add: route_key_def)
  qed
qed simp

lemma extra_probes_fresh: "p \<in> set (extra_probes seen ps) \<Longrightarrow> probe_key p \<notin> set seen"
proof (induction seen ps rule: extra_probes.induct)
  case (2 seen x xs)
  then show ?case by (cases "(''GET'', x) \<in> set seen") (auto simp: discovered_def)
qed simp

lemma extra_probes_keys: "distinct (map probe_key (extra_probes seen ps))"
proof (induction seen ps rule: extra_probes.induct)
  case (2 seen x xs)
  have "(''GET'', x) \<notin> probe_key ` set (extra_probes ((''GET'', x) # seen) xs)"
    using extra_probes_fresh [of _ "(''GET'', x) # seen" xs] by fastforce
  with 2 show ?case by (cases "(''GET'', x) \<in> set seen") (simp_all add: discovered_def)
qed simp

definition evidence_only :: "probe_spec \<Rightarrow> bool" where
  "evidence_only p \<longleftrightarrow> \<not> pr_isMandatory p \<and> pr_source p \<in> {''discovered'', ''guessed''}"

lemma evidence_probes [simp]: "evidence_only (discovered m p c)" "evidence_only (guessed_probe p)"
  by (simp_all add: evidence_only_def discovered_def guessed_probe_def)

lemma extra_probes_evidence: "p \<in> set (extra_probes seen ps) \<Longrightarrow> evidence_only p"
  by (induction seen ps rule: extra_probes.induct) (auto split: if_splits)

lemma in_set_map_iff: "y \<in> set (map f xs) \<longleftrightarrow> (\<exists>x. x \<in> set xs \<and> y = f x)"
  by auto

lemma distinct_map_sort: "distinct (map f (sort_key k xs)) = distinct (map f xs)"
  by (metis distinct_map distinct_sort set_sort)

lemma discovered_probes:
  "distinct (map probe_key (discover_health_probes g b)) \<and> (\<forall>p \<in> set (discover_health_probes g b). evidence_only p)"
proof (cases "gx_scan_root g (ca_sourceSubdir b)")
  case True
  let ?found = "sort_key rt_path (sort_key rt_method (distinct_routes [] (gx_routes g b)))"
  let ?routes = "map (\<lambda>r. discovered (rt_method r) (rt_path r) (rt_confidence r)) ?found"
  obtain ex where e: "discover_health_probes g b = ?routes @ extra_probes (map route_key ?found) ex"
    using True by (auto simp: discover_health_probes_def Let_def route_key_def [abs_def])
  have keys: "map probe_key ?routes = map route_key ?found"
    by (simp add: discovered_def route_key_def)
  have "distinct (map route_key ?found)" by (simp only: distinct_map_sort distinct_routes_keys)
  moreover have "set (map route_key ?found) \<inter> set (map probe_key (extra_probes (map route_key ?found) ex)) = {}"
  proof (intro equals0I)
    fix k assume k: "k \<in> set (map route_key ?found) \<inter> set (map probe_key (extra_probes (map route_key ?found) ex))"
    from IntD2 [OF k] obtain p where p: "p \<in> set (extra_probes (map route_key ?found) ex)" "k = probe_key p"
      unfolding in_set_map_iff by blast
    from extra_probes_fresh [OF p(1)] IntD1 [OF k] show False unfolding p(2) by (rule notE)
  qed
  ultimately have "distinct (map probe_key (discover_health_probes g b))"
    unfolding e map_append distinct_append keys using extra_probes_keys by blast
  moreover have "evidence_only p" if "p \<in> set (discover_health_probes g b)" for p
    using that unfolding e set_append by (auto dest: extra_probes_evidence)
  ultimately show ?thesis by blast
qed (simp add: discover_health_probes_def)

text \<open>The probes of a plan are evidence, never a condition of success, and no endpoint is probed
  twice.
\<close>

theorem plan_probes_optional:
  assumes "generate_plans g e = Some ps" "p \<in> set ps" "pl_capabilityContract p = Some c"
  shows "distinct (map probe_key (cc_requiredProbes c)) \<and> (\<forall>pr \<in> set (cc_requiredProbes c). evidence_only pr)"
proof -
  have backend: "distinct (map probe_key (cc_requiredProbes (backend_contract g e b ui)))
      \<and> (\<forall>pr \<in> set (cc_requiredProbes (backend_contract g e b ui)). evidence_only pr)" for b ui
    using discovered_probes [of g b] by (simp add: backend_contract_def Let_def)
  have single: "distinct (map probe_key (cc_requiredProbes c)) \<and> (\<forall>pr \<in> set (cc_requiredProbes c). evidence_only pr)"
    if "single_plan name role tier probes k = Some p" "probes = [] \<or> probes = [guessed_probe ''/'']" for name role tier probes k
    using single_plan_SomeD [OF that(1)] that(2) assms(3) by (auto simp: no_contract_def)
  from plan_made [OF assms(1,2)] consider b fronts where "backend_plan g e fronts b = Some p"
    | tier probes where "single_made p tier probes" "probes = [] \<or> probes = [guessed_probe ''/'']"
    by blast
  then show ?thesis
  proof cases
    case (1 b fronts)
    then obtain ui where "c = backend_contract g e b ui" using backend_plan_SomeD [OF 1] assms(3) by auto
    with backend show ?thesis by simp
  next
    case (2 tier probes)
    then show ?thesis using single unfolding single_made_def by blast
  qed
qed

section \<open>A project with a back end and a front end\<close>

definition sample_gen :: gen_ctx where
  "sample_gen = \<lparr>gx_install = (\<lambda>_. ''npm ci''), gx_node_http = None, gx_python_http = None,
     gx_uv_lock_empty = False, gx_backend_dir = False, gx_scan_root = (\<lambda>_. True), gx_routes = (\<lambda>_. []),
     gx_django_routes = (\<lambda>_. [])\<rparr>"

definition sample_evidence :: evidence where
  "sample_evidence = \<lparr>ev_rootFiles = [], ev_subdirSignals = [\<lparr>sg_path = ''api'', sg_hasPackageJson = False,
       sg_hasAlembicIni = False, sg_pythonDeps = [''flask''], sg_nodeDeps = [], sg_nodeScripts = []\<rparr>],
     ev_pythonDeps = [], ev_nodeDeps = [], ev_nodeScripts = [], ev_hasAlembicIni = False,
     ev_hasIndexHtml = True, ev_hasHtml = True, ev_hasPackageJson = False, ev_sqliteFiles = []\<rparr>"

definition sample_backend :: candidate where
  "sample_backend = make_python_candidate (Some ''api'') [''flask''] [''flask'']"

lemma sample_candidates:
  "generate_candidates sample_gen sample_evidence =
     [sample_backend, on_gateway ''static'' ''static'' no_entry None ''fallback'']"
  by code_simp

lemma sample_component: "candidate_to_component sample_backend ''runtime'' \<noteq> None"
  by code_simp

lemma sample_plans: "generate_plans sample_gen sample_evidence \<noteq> None"
  by code_simp

lemma sample_backends: "backend_candidates sample_gen sample_evidence = [sample_backend]"
  by code_simp

lemma sample_backend_plan: "backend_plan sample_gen sample_evidence [] sample_backend \<noteq> None"
  by code_simp

lemma sample_frontend_plan:
  "single_plan ''plan-frontend-root'' ''build-and-runtime'' ''primary'' [] (make_frontend_candidate sample_gen None ''primary'') \<noteq> None"
  by code_simp

lemma sample_backend_nonempty:
  "generate_plans sample_gen sample_evidence = Some ps \<Longrightarrow> ps \<noteq> [] \<and> serves_api (hd ps)"
  using selected_plan [of sample_gen sample_evidence ps] sample_backends by simp

lemma backend_never_static_witness:
  "\<exists>ps. generate_plans sample_gen sample_evidence = Some ps \<and> serves_api (hd ps)"
  using backend_never_static [of sample_gen sample_evidence] sample_plans sample_backends by auto

lemma generated_plans_have_no_fallback_witness:
  "\<exists>ps. generate_plans sample_gen sample_evidence = Some ps
     \<and> get_fallback_plans (sample_manifest\<lparr>m_deploymentPlans := ps, m_deploymentCandidates := [sample_backend]\<rparr>) = []"
proof -
  obtain ps where ps: "generate_plans sample_gen sample_evidence = Some ps" using sample_plans by auto
  have "ps \<noteq> []" using sample_backend_nonempty [OF ps] by simp
  with ps generated_plans_have_no_fallback
      [of sample_gen sample_evidence "sample_manifest\<lparr>m_deploymentPlans := ps, m_deploymentCandidates := [sample_backend]\<rparr>"]
  show ?thesis by simp
qed

lemma backend_round_trip_witness:
  "\<exists>p. backend_plan sample_gen sample_evidence [] sample_backend = Some p
     \<and> plan_to_candidate_dict p = (flat_dict sample_backend)\<lparr>cq_runtime := ''docker-compose'',
         cq_entry := Some ((ca_entry sample_backend)\<lparr>e_install := None\<rparr>), cq_form := erase ''plan-'' 0 (pl_planId p)\<rparr>"
proof -
  have start: "e_start (ca_entry sample_backend) = Some ''flask run --host 0.0.0.0 --port 5000''" by code_simp
  have words: "''flask run --host 0.0.0.0 --port 5000'' =
      join_on SP [''flask'', ''run'', ''--host'', ''0.0.0.0'', ''--port'', ''5000'']" by simp
  have plain: "list_all plain_word [''flask'', ''run'', ''--host'', ''0.0.0.0'', ''--port'', ''5000'']" by code_simp
  show ?thesis
    using sample_backend_plan sample_backends backend_round_trip
      [of sample_backend sample_gen sample_evidence "[]" _ "''flask run --host 0.0.0.0 --port 5000''"
        "[''flask'', ''run'', ''--host'', ''0.0.0.0'', ''--port'', ''5000'']", OF _ _ start disjI2 [OF conjI [OF words plain]]]
    by fastforce
qed

lemma frontend_plan_becomes_container_witness:
  "\<exists>p. single_plan ''plan-frontend-root'' ''build-and-runtime'' ''primary'' [] (make_frontend_candidate sample_gen None ''primary'') = Some p
     \<and> cq_runtime (plan_to_candidate_dict p) = ''docker-compose''"
  using sample_frontend_plan frontend_plan_becomes_container by blast

lemma plan_probes_optional_witness:
  "\<exists>ps c. generate_plans sample_gen sample_evidence = Some ps \<and> pl_capabilityContract (hd ps) = Some c
     \<and> (\<forall>pr \<in> set (cc_requiredProbes c). evidence_only pr)"
proof -
  obtain ps where ps: "generate_plans sample_gen sample_evidence = Some ps" using sample_plans by auto
  have hd: "hd ps \<in> set ps" "pl_capabilityContract (hd ps) \<noteq> None"
    using sample_backend_nonempty [OF ps] by (auto simp: serves_api_def split: option.splits)
  with plan_probes_optional [OF ps hd(1)] ps show ?thesis by fastforce
qed

end
