(* ===== verification/Lifecycle.thy ===== *)
theory Lifecycle
  imports Fallback Container_Start Reconcile_Circuit
begin

text \<open>
  Models the lifecycle operations of \<^verbatim>\<open>lifecycle.py\<close> that a command, the agent worker and the
  background loop call: start, restart, recover, rebuild and stop, from the check of the revision
  under the instance lock to the alias of the started instance. The state is that of the deployment.
  Parameters: the user's host build, the host function of the other runtimes, the gateway (its
  backend, the text of an alias fragment, the live check of an alias and its restoration), the
  fingerprints of source directories, and what other processes do before the lock is taken.
\<close>

section \<open>Context\<close>

datatype lc_error =
    L_revision_conflict
  | L_pending
  | L_host_build_pending
  | L_hooks
  | L_deploy deploy_exn
  | L_fallback fb_error
  | L_host failure
  | L_save
  | L_alias
  | L_registry reg_error

datatype save_point = P_circuit | P_armed | P_finish | P_end

datatype staleness = Source_lost | Source_changed | Remote_ahead

record lc_ctx =
  lx_fb :: fb_ctx
  lx_sx :: start_ctx
  lx_auto :: "string \<Rightarrow> bool"
  lx_meanwhile :: "cd \<Rightarrow> cd"
  lx_host_build :: "cd \<Rightarrow> (failure + unit) \<times> cd"
  lx_hooks_found :: "manifest \<Rightarrow> bool"
  lx_save_fails :: "save_point \<Rightarrow> bool"
  lx_is_dir :: "string \<Rightarrow> bool"
  lx_source_hash :: "string \<Rightarrow> string"
  lx_remote_commit :: "manifest \<Rightarrow> string option"
  lx_caddy :: bool
  lx_alias_conf :: "string \<Rightarrow> int \<Rightarrow> string option"
  lx_verify_alias :: "bool \<Rightarrow> bool \<Rightarrow> cd \<Rightarrow> bool \<times> cd"
  lx_restore_alias :: "cd \<Rightarrow> cd"

type_synonym lc_stage = "cd \<Rightarrow> (lc_error + unit) \<times> cd"

definition lx_dx :: "lc_ctx \<Rightarrow> deploy_ctx" where "lx_dx x = sx_dx (lx_sx x)"

definition fallback_ctx :: "lc_ctx \<Rightarrow> fb_ctx" where "fallback_ctx x = (lx_fb x)\<lparr>fx_dx := lx_dx x\<rparr>"

definition followed_by :: "lc_stage \<Rightarrow> lc_stage \<Rightarrow> lc_stage" where
  "followed_by f g s = (case f s of (Inl e, s') \<Rightarrow> (Inl e, s') | (Inr _, s') \<Rightarrow> g s')"

definition raising :: "('e \<Rightarrow> lc_error) \<Rightarrow> (cd \<Rightarrow> ('e + unit) \<times> cd) \<Rightarrow> lc_stage" where
  "raising wrap f s = (case f s of (Inl e, s') \<Rightarrow> (Inl (wrap e), s') | (Inr _, s') \<Rightarrow> (Inr (), s'))"

definition note_event :: "lc_ctx \<Rightarrow> string \<Rightarrow> string \<Rightarrow> cd \<Rightarrow> cd" where
  "note_event x kind msg s = write_reg (add_event (Some (cd_id s)) kind msg None (dx_now (lx_dx x))) s"

definition save_quietly :: "lc_ctx \<Rightarrow> save_point \<Rightarrow> cd \<Rightarrow> cd" where
  "save_quietly x p s = (if lx_save_fails x p then s else to_disk s)"

section \<open>Guards\<close>

text \<open>\<open>_ensure_revision_locked\<close>.\<close>

definition revision_ok :: "string \<Rightarrow> int option \<Rightarrow> reg \<Rightarrow> bool" where
  "revision_ok i expected r \<longleftrightarrow> (case expected of None \<Rightarrow> True | Some n \<Rightarrow> get_revision i r = Some n)"

definition configured_host_build :: "manifest \<Rightarrow> string option" where
  "configured_host_build m =
     (let command = strip (case or_else (m_hostBuild m) (m_preSync m) of None \<Rightarrow> [] | Some c \<Rightarrow> c) in
      if command = [] then None else Some command)"

definition has_pending_host_build :: "manifest \<Rightarrow> bool" where
  "has_pending_host_build m \<longleftrightarrow> m_runtime m = DOCKER_COMPOSE \<and> m_hostBuildPending m \<and> configured_host_build m \<noteq> None"

text \<open>Under the lock: the revision, then the manifest from the disk, then its status.\<close>

definition locked :: "int option \<Rightarrow> lc_stage \<Rightarrow> lc_stage" where
  "locked expected body s =
     (if \<not> revision_ok (m_id (cd_disk s)) expected (cd_reg s) then (Inl L_revision_conflict, s)
      else body (s\<lparr>cd_mem := cd_disk s\<rparr>))"

definition refuse_pending_start :: "lc_stage \<Rightarrow> lc_stage" where
  "refuse_pending_start body s = (if m_status (cd_mem s) = PENDING then (Inl L_pending, s) else body s)"

definition clear_circuit_saved :: "lc_ctx \<Rightarrow> save_point \<Rightarrow> cd \<Rightarrow> cd" where
  "clear_circuit_saved x p s = save_quietly x p (set_mem clear_circuit s)"

section \<open>Aliases\<close>

definition current_alias :: "manifest \<Rightarrow> string option" where
  "current_alias m =
     (case m_static m of
        Some c \<Rightarrow> if s_routeMode c = ROUTE_NAME \<and> truthy (s_routeHost c) then s_routeHost c
          else (case m_container m of None \<Rightarrow> None
            | Some k \<Rightarrow> if c_routeMode k = ROUTE_NAME \<and> truthy (c_routeHost k) then c_routeHost k else None)
      | None \<Rightarrow> (case m_container m of None \<Rightarrow> None
            | Some k \<Rightarrow> if c_routeMode k = ROUTE_NAME \<and> truthy (c_routeHost k) then c_routeHost k else None))"

definition resolve_host_port :: "manifest \<Rightarrow> int option" where
  "resolve_host_port m =
     (let a = Option.bind (m_static m) s_hostPort; b = Option.bind (m_container m) c_hostPort in
      if a \<noteq> None \<and> (a \<noteq> Some 0 \<or> b = None) then a else b)"

definition ALIAS_CONF :: string where "ALIAS_CONF = ''alias.conf''"

text \<open>\<open>_sync_alias_port\<close>: a fragment that mentions the port is kept. A failure is only logged.\<close>

definition mentions_port :: "string \<Rightarrow> int \<Rightarrow> bool" where
  "mentions_port t p \<longleftrightarrow> contains (''127.0.0.1:'' @ dec_int p) t"

definition sync_alias_port :: "lc_ctx \<Rightarrow> cd \<Rightarrow> cd" where
  "sync_alias_port x s =
     (if \<not> lx_caddy x then s
      else (case (current_alias (cd_mem s), resolve_host_port (cd_mem s)) of
          (Some a, Some p) \<Rightarrow>
            (if (case ad_files (cd_dir s) ALIAS_CONF of None \<Rightarrow> False | Some t \<Rightarrow> mentions_port t p) then s
             else (case lx_alias_conf x a p of None \<Rightarrow> s
               | Some t \<Rightarrow> put_files ((ad_files (cd_dir s))(ALIAS_CONF \<mapsto> t)) s))
        | _ \<Rightarrow> s))"

definition verify_alias :: "lc_ctx \<Rightarrow> bool \<Rightarrow> bool \<Rightarrow> lc_stage" where
  "verify_alias x skip preexisting s = (case lx_verify_alias x skip preexisting s of
     (False, s') \<Rightarrow> (Inl L_alias, s') | (True, s') \<Rightarrow> (Inr (), s'))"

text \<open>The end of a start and of a rebuild.\<close>

definition finish_alias :: "lc_ctx \<Rightarrow> bool \<Rightarrow> lc_stage" where
  "finish_alias x skip s =
     (let preexisting = ad_files (cd_dir s) ALIAS_CONF \<noteq> None in
      followed_by (verify_alias x skip preexisting) (\<lambda>s'. (Inr (), clear_circuit_saved x P_end s')) (sync_alias_port x s))"

section \<open>Start\<close>

text \<open>The host function with the user's host build before it; the mark goes only when both worked.\<close>

definition finish_host_build :: "lc_ctx \<Rightarrow> manifest \<Rightarrow> cd \<Rightarrow> (failure + manifest) \<times> cd" where
  "finish_host_build x m s =
     (if \<not> m_hostBuildPending m then (Inr m, s)
      else if lx_save_fails x P_finish then (Inl save_failure, s)
      else (Inr (m\<lparr>m_hostBuildPending := False\<rparr>), s\<lparr>cd_disk := m\<lparr>m_hostBuildPending := False\<rparr>\<rparr>))"

definition host_call :: "lc_ctx \<Rightarrow> bool \<Rightarrow> nat \<Rightarrow> cd \<Rightarrow> (failure + manifest) \<times> cd" where
  "host_call x build n s =
     (if \<not> build then fx_host (lx_fb x) n s
      else (case lx_host_build x s of
          (Inl f, s1) \<Rightarrow> (Inl f, s1)
        | (Inr _, s1) \<Rightarrow>
            (case fx_host (lx_fb x) n s1 of (Inl f, s2) \<Rightarrow> (Inl f, s2) | (Inr m, s2) \<Rightarrow> finish_host_build x m s2)))"

definition host_first :: "lc_ctx \<Rightarrow> string \<Rightarrow> bool \<Rightarrow> lc_stage" where
  "host_first x policy build =
     raising L_fallback (try_host_with_fallback ((fallback_ctx x)\<lparr>fx_host := host_call x build\<rparr>) policy)"

definition start_deployed :: "lc_ctx \<Rightarrow> string \<Rightarrow> lc_stage" where
  "start_deployed x policy s =
     (case deployed_action (lx_sx x) s of
        (Inl e, s1) \<Rightarrow> (Inl (L_deploy e), s1)
      | (Inr (Full_rebuild, _), s1) \<Rightarrow> host_first x policy False (note_event x ''lifecycle_stage'' ''rebuild'' s1)
      | (Inr (Runtime_recreate, _), s1) \<Rightarrow>
          raising L_deploy (recreate_container_runtime (lx_sx x)) (note_event x ''lifecycle_stage'' ''recreate'' s1)
      | (Inr (Light_start, _), s1) \<Rightarrow> raising L_deploy (start_container (lx_sx x)) s1)"

definition start_body :: "lc_ctx \<Rightarrow> string \<Rightarrow> bool \<Rightarrow> bool \<Rightarrow> lc_stage" where
  "start_body x policy from_reconcile ignore_guard s =
     (let build = has_pending_host_build (cd_mem s) in
      if build \<and> from_reconcile then (Inl L_host_build_pending, s)
      else (let s1 = (if from_reconcile then s else clear_circuit_saved x P_circuit s) in
        followed_by
          (if is_deployed_container (cd_mem s1) \<and> \<not> build then start_deployed x policy else host_first x policy build)
          (finish_alias x ignore_guard) s1))"

definition restoring_alias :: "lc_ctx \<Rightarrow> lc_stage \<Rightarrow> lc_stage" where
  "restoring_alias x f = followed_by f (\<lambda>s. (Inr (), lx_restore_alias x s))"

definition start_instance :: "lc_ctx \<Rightarrow> string \<Rightarrow> bool \<Rightarrow> int option \<Rightarrow> bool \<Rightarrow> lc_stage" where
  "start_instance x policy from_reconcile expected ignore_guard =
     restoring_alias x (locked expected (refuse_pending_start (start_body x policy from_reconcile ignore_guard)))"

section \<open>Restart and recover\<close>

definition host_now :: "lc_ctx \<Rightarrow> lc_stage" where
  "host_now x = raising L_host (run_host (lx_fb x) 0)"

definition stop_then_start :: "lc_ctx \<Rightarrow> stage" where
  "stop_then_start x = run_stages [stop_running (lx_sx x), start_container (lx_sx x)]"

definition restart_dispatch :: "lc_ctx \<Rightarrow> lc_stage" where
  "restart_dispatch x s =
     (if \<not> is_deployed_container (cd_mem s) then host_now x s
      else (case deployed_action (lx_sx x) s of
          (Inl e, s1) \<Rightarrow> (Inl (L_deploy e), s1)
        | (Inr (Full_rebuild, _), s1) \<Rightarrow> host_now x s1
        | (Inr (Runtime_recreate, _), s1) \<Rightarrow> raising L_deploy (recreate_container_runtime (lx_sx x)) s1
        | (Inr (Light_start, _), s1) \<Rightarrow> raising L_deploy (stop_then_start x) s1))"

definition restart_locked :: "lc_ctx \<Rightarrow> bool \<Rightarrow> lc_stage" where
  "restart_locked x ignore_guard = refuse_pending_start (\<lambda>s.
     if has_pending_host_build (cd_mem s) then (Inl L_host_build_pending, s)
     else followed_by (restart_dispatch x) (\<lambda>s1. verify_alias x ignore_guard True (sync_alias_port x s1))
            (clear_circuit_saved x P_circuit s))"

definition restart_instance :: "lc_ctx \<Rightarrow> int option \<Rightarrow> bool \<Rightarrow> lc_stage" where
  "restart_instance x expected ignore_guard = locked expected (restart_locked x ignore_guard)"

text \<open>Waking the gateway before is outside of this state; its failure does not matter.\<close>

definition recover_instance :: "lc_ctx \<Rightarrow> int option \<Rightarrow> lc_stage" where
  "recover_instance x expected = locked expected (restart_locked x False)"

definition stop_instance_op :: "lc_ctx \<Rightarrow> int option \<Rightarrow> lc_stage" where
  "stop_instance_op x expected = locked expected (raising L_deploy (stop_instance (lx_sx x)))"

section \<open>Stale sources\<close>

definition check_folder_source_staleness :: "lc_ctx \<Rightarrow> manifest \<Rightarrow> staleness option" where
  "check_folder_source_staleness x m =
     (if \<not> truthy (m_sourceDirPath m) then None
      else (let dir = the (m_sourceDirPath m);
                stale = (if truthy (m_sourceSyncHash m) then Some (lx_source_hash x dir) \<noteq> m_sourceSyncHash m
                  else truthy (m_appPath m) \<and> lx_source_hash x dir \<noteq> lx_source_hash x (the (m_appPath m))) in
        if \<not> lx_is_dir x dir then Some Source_lost else if stale then Some Source_changed else None))"

definition check_git_source_staleness :: "lc_ctx \<Rightarrow> manifest \<Rightarrow> staleness option" where
  "check_git_source_staleness x m =
     (if truthy (m_sourceGitUrl m) \<and> truthy (m_sourceGitRef m) \<and> truthy (m_sourceGitRefKind m)
         \<and> truthy (m_sourceGitCommit m)
      then (case lx_remote_commit x m of None \<Rightarrow> None
        | Some oid \<Rightarrow> if to_lower oid \<noteq> to_lower (the (m_sourceGitCommit m)) then Some Remote_ahead else None)
      else None)"

definition check_source_staleness :: "lc_ctx \<Rightarrow> manifest \<Rightarrow> staleness option" where
  "check_source_staleness x m =
     (if m_sourceKind m = ''folder'' then check_folder_source_staleness x m
      else if m_sourceKind m = ''git'' then check_git_source_staleness x m else None)"

section \<open>Rebuild\<close>

definition refuse_destructive_hooks :: "lc_ctx \<Rightarrow> bool \<Rightarrow> lc_stage" where
  "refuse_destructive_hooks x force s =
     (if m_runtime (cd_mem s) \<noteq> DOCKER_COMPOSE \<or> \<not> lx_hooks_found x (cd_mem s) then (Inr (), s)
      else (let s1 = note_event x ''build_hooks'' ''destructive hooks'' s in
        if force then (Inr (), s1) else (Inl L_hooks, s1)))"

definition host_build_armed :: "bool option \<Rightarrow> manifest \<Rightarrow> bool" where
  "host_build_armed host_build m \<longleftrightarrow> m_runtime m = DOCKER_COMPOSE
     \<and> (host_build = Some True \<or> host_build = None \<and> m_hostBuildPending m) \<and> configured_host_build m \<noteq> None"

text \<open>The mark is on disk before the user's command runs.\<close>

definition arm_host_build :: "lc_ctx \<Rightarrow> bool \<Rightarrow> lc_stage" where
  "arm_host_build x armed s =
     (if \<not> armed \<or> m_hostBuildPending (cd_mem s) then (Inr (), s)
      else (let s1 = set_mem (\<lambda>m. m\<lparr>m_hostBuildPending := True\<rparr>) s in
        if lx_save_fails x P_armed then (Inl L_save, s1) else (Inr (), to_disk s1)))"

definition rebuild_host :: "lc_ctx \<Rightarrow> bool \<Rightarrow> cd \<Rightarrow> (failure + manifest) \<times> cd" where
  "rebuild_host x armed s =
     (if m_runtime (cd_mem s) \<noteq> DOCKER_COMPOSE then fx_host (lx_fb x) 0 s
      else (case (if armed then lx_host_build x s else (Inr (), s)) of
          (Inl f, s1) \<Rightarrow> (Inl f, s1)
        | (Inr _, s1) \<Rightarrow> container_host (lx_dx x) (lx_auto x) s1))"

definition run_rebuild :: "lc_ctx \<Rightarrow> bool \<Rightarrow> lc_stage" where
  "run_rebuild x armed s =
     (case fx_queue (lx_fb x) 0 s of
        Some f \<Rightarrow> (Inl (L_host f), s)
      | None \<Rightarrow>
          (case rebuild_host x armed s of
             (Inl f, s1) \<Rightarrow> (Inl (L_host f), s1\<lparr>cd_mem := cd_mem s\<rparr>)
           | (Inr m, s1) \<Rightarrow>
               if \<not> armed then (Inr (), s1\<lparr>cd_mem := m\<rparr>)
               else (case finish_host_build x m s1 of
                   (Inl _, s2) \<Rightarrow> (Inl L_save, s2\<lparr>cd_mem := m\<lparr>m_hostBuildPending := False\<rparr>\<rparr>)
                 | (Inr m', s2) \<Rightarrow> (Inr (), s2\<lparr>cd_mem := m'\<rparr>))))"

definition warn_stale :: "lc_ctx \<Rightarrow> cd \<Rightarrow> cd" where
  "warn_stale x s = (if check_source_staleness x (cd_mem s) = None then s else note_event x ''source_stale'' ''stale'' s)"

text \<open>Everything up to the check of the revision at the end.\<close>

definition rebuild_work :: "lc_ctx \<Rightarrow> bool \<Rightarrow> bool \<Rightarrow> bool option \<Rightarrow> lc_stage" where
  "rebuild_work x ignore_guard force host_build = refuse_pending_start (\<lambda>s.
     let s1 = warn_stale x (clear_circuit_saved x P_circuit s) in
     followed_by (refuse_destructive_hooks x force) (\<lambda>s2.
       let armed = host_build_armed host_build (cd_mem s2) in
       followed_by (arm_host_build x armed) (followed_by (run_rebuild x armed) (finish_alias x ignore_guard)) s2) s1)"

definition claim_revision :: "lc_ctx \<Rightarrow> string \<Rightarrow> int option \<Rightarrow> lc_stage" where
  "claim_revision x i observed s =
     (case observed of
        None \<Rightarrow> (Inr (), s)
      | Some n \<Rightarrow>
          (case cas_increment_revision i n (dx_now (lx_dx x)) (cd_reg s) of
             Inr (_, r) \<Rightarrow> (Inr (), s\<lparr>cd_reg := r\<rparr>)
           | Inl (Revision_conflict _ _) \<Rightarrow> (Inl L_revision_conflict, s)
           | Inl e \<Rightarrow> (Inl (L_registry e), s)))"

text \<open>The revision that the end expects is read before the lock is taken.\<close>

definition rebuild_instance :: "lc_ctx \<Rightarrow> int option \<Rightarrow> bool \<Rightarrow> bool \<Rightarrow> bool option \<Rightarrow> lc_stage" where
  "rebuild_instance x expected ignore_guard force host_build s =
     (let i = m_id (cd_disk s); observed = get_revision i (cd_reg s) in
      restoring_alias x (locked expected
        (followed_by (rebuild_work x ignore_guard force host_build) (claim_revision x i observed))) (lx_meanwhile x s))"

end
