(* ===== verification/Fallback_Facts.thy ===== *)
theory Fallback_Facts
  imports Fallback Container_Deploy_Facts
begin

text \<open>
  What the first deployment with its fallbacks guarantees: the host function keeps what the manifest
  says about the deployment, a rollback returns to the snapshot, and an automatic fallback keeps the
  capabilities, comes only after a safe rollback, and is tried at most three times.
\<close>

section \<open>What a deployment keeps of the manifest\<close>

record deployment_shape =
  sh_id :: string
  sh_kind :: kind
  sh_runtime :: runtime
  sh_servingMode :: serving_mode
  sh_entry :: entry_config
  sh_sourceSubdir :: "string option"
  sh_planId :: "string option"
  sh_planHash :: "string option"
  sh_contract :: "capability_contract option"
  sh_plans :: "plan list"
  sh_candidates :: "candidate list"
  sh_hostBuildPending :: bool

definition shape :: "manifest \<Rightarrow> deployment_shape" where
  "shape m = \<lparr>sh_id = m_id m, sh_kind = m_kind m, sh_runtime = m_runtime m, sh_servingMode = m_servingMode m,
     sh_entry = m_entry m, sh_sourceSubdir = m_sourceSubdir m, sh_planId = m_selectedPlanId m,
     sh_planHash = m_selectedPlanHash m, sh_contract = m_capabilityContract m, sh_plans = m_deploymentPlans m,
     sh_candidates = m_deploymentCandidates m,
     sh_hostBuildPending = m_hostBuildPending m\<rparr>"

definition shaped :: "deployment_shape \<Rightarrow> cd \<Rightarrow> bool" where
  "shaped S s \<longleftrightarrow> shape (cd_mem s) = S \<and> shape (cd_disk s) = S"

definition keeps_shape :: "stage \<Rightarrow> bool" where
  "keeps_shape f \<longleftrightarrow> (\<forall>S s r s'. shaped S s \<longrightarrow> f s = (r, s') \<longrightarrow> shaped S s')"

lemma keeps_shapeI: "(\<And>S s r s'. shaped S s \<Longrightarrow> f s = (r, s') \<Longrightarrow> shaped S s') \<Longrightarrow> keeps_shape f"
  by (auto simp: keeps_shape_def)

lemma keeps_shapeD: "keeps_shape f \<Longrightarrow> shaped S s \<Longrightarrow> f s = (r, s') \<Longrightarrow> shaped S s'"
  by (auto simp: keeps_shape_def)

lemma keeps_after: "keeps_shape f \<Longrightarrow> keeps_shape g \<Longrightarrow> keeps_shape (after f g)"
  by (rule keeps_shapeI) (auto simp: after_def dest: keeps_shapeD split: prod.splits sum.splits)

lemma keeps_shape_stages: "(\<And>f. f \<in> set fs \<Longrightarrow> keeps_shape f) \<Longrightarrow> keeps_shape (run_stages fs)"
proof (induction fs)
  case Nil
  show ?case by (rule keeps_shapeI) simp
next
  case (Cons f fs)
  then have "keeps_shape (after f (run_stages fs))" by (intro keeps_after) simp_all
  then show ?case by (simp add: keeps_shape_def)
qed

lemma shape_updates [simp]:
  "shape (touch t m) = shape m" "shape (upd_container f m) = shape m" "shape (refresh_paths p m) = shape m"
  "shape (m\<lparr>m_status := st\<rparr>) = shape m" "shape (m\<lparr>m_lastError := er\<rparr>) = shape m"
  "shape (m\<lparr>m_lastOperation := op\<rparr>) = shape m" "shape (m\<lparr>m_desiredState := ds\<rparr>) = shape m"
  "shape (m\<lparr>m_deploymentFingerprints := fp\<rparr>) = shape m"
  by (simp_all add: shape_def touch_def upd_container_def refresh_paths_def)

lemma shaped_updates [simp]:
  "shaped S (write_reg f s) = shaped S s" "shaped S (s\<lparr>cd_reg := r\<rparr>) = shaped S s"
  "shaped S (s\<lparr>cd_docker := dk\<rparr>) = shaped S s" "shaped S (s\<lparr>cd_dir := d\<rparr>) = shaped S s"
  "shaped S (s\<lparr>cd_port := p\<rparr>) = shaped S s" "shaped S (s\<lparr>cd_fresh := b\<rparr>) = shaped S s"
  "shaped S (s\<lparr>cd_build := n\<rparr>) = shaped S s" "shaped S (s\<lparr>cd_kind := k\<rparr>) = shaped S s"
  "shaped S (s\<lparr>cd_txn := b\<rparr>) = shaped S s" "shaped S (s\<lparr>cd_old_stopped := b\<rparr>) = shaped S s"
  "shaped S (s\<lparr>cd_stop_aborted := b\<rparr>) = shaped S s" "shaped S (s\<lparr>cd_up_completed := b\<rparr>) = shaped S s"
  "shaped S (s\<lparr>cd_settled := b\<rparr>) = shaped S s" "shaped S (s\<lparr>cd_verified := v\<rparr>) = shaped S s"
  "shaped S (put_files fl s) = shaped S s"
  by (simp_all add: shaped_def put_files_def)

lemma shaped_mem: "(\<And>m. shape (f m) = shape m) \<Longrightarrow> shaped S (set_mem f s) = shaped S s"
  by (simp add: shaped_def set_mem_def)

lemma shaped_mem_at: "shape m = shape (cd_mem s) \<Longrightarrow> shaped S (s\<lparr>cd_mem := m\<rparr>) = shaped S s"
  by (simp add: shaped_def)

lemma shaped_disk: "shaped S s \<Longrightarrow> shaped S (to_disk s)"
  by (simp add: shaped_def to_disk_def)

lemma shaped_steps [simp]:
  "shaped S (release_fresh s) = shaped S s" "shaped S (restore_for_txn s) = shaped S s"
  "shaped S (down_quietly x s) = shaped S s" "shaped S (revoke_archive x s) = shaped S s"
  "shaped S (finish_if_running x st s) = shaped S s" "shaped S (gc_after_deploy x s) = shaped S s"
  by (simp_all add: release_fresh_def restore_for_txn_def down_quietly_def revoke_archive_def
      finish_if_running_def gc_after_deploy_def Let_def split: option.split list.split)

lemma shaped_save: "shaped S s \<Longrightarrow> save_manifest x p s = (r, s') \<Longrightarrow> shaped S s'"
  by (auto simp: save_manifest_def shaped_def split: if_splits)

lemma shaped_mark_failed: "shaped S s \<Longrightarrow> shaped S (mark_failed x reason s)"
  by (simp add: mark_failed_def mark_failed_with_def Let_def shaped_disk shaped_mem)

lemma shaped_fold: "shaped S (fold (\<lambda>a. write_reg (f a)) as s) = shaped S s"
  by (induction as arbitrary: s) simp_all

lemma shaped_liveness: "shaped S s \<Longrightarrow> shaped S (liveness_failed_rollback x reason s)"
  unfolding liveness_failed_rollback_def Let_def
  by (simp add: shaped_fold shaped_disk shaped_mem split: option.split bool.split prod.split)

lemma keeps_compensate: "keeps_shape (compensate_build_first x reason)"
proof (rule keeps_shapeI)
  fix S s r s'
  assume s: "shaped S s" "compensate_build_first x reason s = (r, s')"
  show "shaped S s'"
  proof (cases "m_container (cd_mem s)")
    case None
    with s show ?thesis by (simp add: compensate_build_first_def)
  next
    case (Some c)
    obtain ok ns d dk where b: "bring_back x c (cd_dir s) (cd_docker s) = (ok, ns, d, dk)" by (metis prod_cases4)
    show ?thesis using s Some b
      by (cases ok) (auto simp: compensate_build_first_def Let_def shaped_disk shaped_mem shaped_mark_failed)
  qed
qed

lemma keeps_basic:
  "keeps_shape (record_stage x name)" "keeps_shape (save_manifest x p)" "keeps_shape (rescue_data x)"
  "keeps_shape (stop_old x)" "keeps_shape (clear_container_identity x)" "keeps_shape (render_dockerfile x)"
  "keeps_shape (choose_port x)" "keeps_shape (render_compose x)" "keeps_shape (runtime_build x)"
  "keeps_shape (runtime_up x)" "keeps_shape mark_stopped"
proof -
  show "keeps_shape (record_stage x name)" by (rule keeps_shapeI) (auto simp: record_stage_def)
  show "keeps_shape (save_manifest x p)" by (rule keeps_shapeI) (rule shaped_save)
  show "keeps_shape (rescue_data x)" by (rule keeps_shapeI) (auto simp: rescue_data_def split: if_splits)
  show "keeps_shape (stop_old x)"
    by (rule keeps_shapeI) (auto simp: stop_old_def split: prod.splits bool.splits)
  show "keeps_shape (clear_container_identity x)"
    by (rule keeps_shapeI) (auto simp: clear_container_identity_def shaped_mem_at dest!: shaped_save [rotated])
  show "keeps_shape (render_dockerfile x)" "keeps_shape (render_compose x)"
    by (rule keeps_shapeI, auto simp: render_dockerfile_def render_compose_def split: option.splits)+
  show "keeps_shape (choose_port x)"
    by (rule keeps_shapeI) (auto simp: choose_port_def split: prod.splits sum.splits)
  show "keeps_shape (runtime_build x)"
    by (rule keeps_shapeI) (auto simp: runtime_build_def Let_def split: prod.splits build_answer.splits)
  show "keeps_shape (runtime_up x)"
    by (rule keeps_shapeI) (auto simp: runtime_up_def split: prod.splits bool.splits)
  show "keeps_shape mark_stopped" by (rule keeps_shapeI) (auto simp: mark_stopped_def)
qed

lemma keeps_prepare: "keeps_shape (prepare_previous_container x)"
proof (rule keeps_shapeI)
  fix S s r s'
  assume s: "shaped S s" "prepare_previous_container x s = (r, s')"
  show "shaped S s'"
  proof (cases "cd_txn s")
    case True
    with s show ?thesis by (auto simp: prepare_previous_container_def split: prod.splits sum.splits)
  next
    case False
    have "keeps_shape (run_stages [rescue_data x, stop_old x, clear_container_identity x])"
      by (rule keeps_shape_stages) (auto simp: keeps_basic)
    with s False show ?thesis by (simp add: prepare_previous_container_def keeps_shapeD)
  qed
qed

lemma keeps_swap: "keeps_shape (swap_in_new_container x)"
proof (rule keeps_shapeI)
  fix S s r s'
  assume s: "shaped S s" "swap_in_new_container x s = (r, s')"
  have "keeps_shape (run_stages ((if cd_txn s then [rescue_data x, stop_old x, mark_stopped, clear_container_identity x] else [])
      @ [record_stage x ''compose_up_start'', runtime_up x, record_stage x ''compose_up_done'']))"
    by (rule keeps_shape_stages) (auto simp: keeps_basic split: if_splits)
  with s show "shaped S s'" unfolding swap_in_new_container_def by (blast dest: keeps_shapeD)
qed

lemma keeps_settle:
  assumes "\<And>S s. shaped S s \<Longrightarrow> shaped S (g s)"
  shows "keeps_shape (settle_failed x reason g)"
  by (rule keeps_shapeI)
     (auto simp: settle_failed_def Let_def assms dest: keeps_shapeD [OF keeps_compensate, rotated] split: if_splits)

lemma keeps_observe: "keeps_shape (observe_new_container x)"
proof (rule keeps_shapeI)
  fix S s r s'
  assume s: "shaped S s" "observe_new_container x s = (r, s')"
  have k: "keeps_shape (settle_failed x ''no container id''
      (\<lambda>s. mark_failed x ''no container id'' (release_fresh (down_quietly x s))))"
    by (rule keeps_settle) (simp add: shaped_mark_failed)
  show "shaped S s'" using s keeps_shapeD [OF k]
    by (auto simp: observe_new_container_def shaped_mem split: option.splits)
qed

lemma keeps_commit: "keeps_shape (commit_verifying_state x)"
  by (rule keeps_shapeI)
     (auto simp: commit_verifying_state_def Let_def after_def shaped_mem split: prod.splits sum.splits
       dest!: shaped_save [rotated])

lemma keeps_verify: "keeps_shape (verify_container_deployment x)"
proof (rule keeps_shapeI)
  fix S s r s'
  assume s: "shaped S s" "verify_container_deployment x s = (r, s')"
  have k: "keeps_shape (settle_failed x ''probes failed'' (liveness_failed_rollback x ''probes failed''))"
    by (rule keeps_settle) (rule shaped_liveness)
  show "shaped S s'" using s keeps_shapeD [OF k]
    by (auto simp: verify_container_deployment_def split: option.splits if_splits)
qed

lemma shaped_finalize [simp]:
  "shaped S (finalize_build_artifacts x s) = shaped S s" "shaped S (record_deployed x s) = shaped S s"
  "shaped S (final_manifest x s) = shaped S s"
  by (simp_all add: finalize_build_artifacts_def record_deployed_def final_manifest_def Let_def shaped_mem
      split: prod.split sum.split option.split)

lemma keeps_finalize: "keeps_shape (finalize_container_deploy x)"
  by (rule keeps_shapeI)
     (auto simp: finalize_container_deploy_def Let_def after_def split: prod.splits sum.splits if_splits
       dest!: shaped_save [rotated])

lemma keeps_render: "keeps_shape (render_container_artifacts x)"
  unfolding render_container_artifacts_def by (rule keeps_shape_stages) (auto simp: keeps_basic)

lemma keeps_build: "keeps_shape (build_container_image x)"
  unfolding build_container_image_def by (rule keeps_shape_stages) (auto simp: keeps_basic)

lemma keeps_deploy_stages: "keeps_shape (run_stages (deploy_stages x))"
proof (rule keeps_shape_stages)
  have i: "keeps_shape (\<lambda>s. if dx_identity_ok x then (Inr (), s) else (Inl (X_error ''identity''), s))"
    by (rule keeps_shapeI) (auto split: if_splits)
  fix f assume "f \<in> set (deploy_stages x)"
  then show "keeps_shape f"
    using i keeps_basic(1) keeps_prepare keeps_render keeps_build keeps_swap keeps_observe keeps_commit
      keeps_verify keeps_finalize
    by (auto simp: deploy_stages_def)
qed

lemma shaped_cancelled: "shaped S s \<Longrightarrow> shaped S (handle_cancelled x s)"
  by (simp add: handle_cancelled_def Let_def shaped_disk shaped_mem)

lemma shaped_failed: "shaped S s \<Longrightarrow> handle_failed x reason s = (e, s') \<Longrightarrow> shaped S s'"
  by (auto simp: handle_failed_def Let_def shaped_mark_failed dest!: keeps_shapeD [OF keeps_compensate, rotated]
      split: if_splits prod.splits sum.splits)

lemma keeps_run_deploy: "keeps_shape (run_deploy_stages x)"
  by (rule keeps_shapeI)
     (auto simp: run_deploy_stages_def dest!: keeps_shapeD [OF keeps_deploy_stages, rotated] shaped_failed [rotated]
       intro: shaped_cancelled split: prod.splits sum.splits deploy_exn.splits if_splits)

lemma keeps_begin: "keeps_shape (begin_container_deploy x)"
  by (rule keeps_shapeI)
     (auto simp: begin_container_deploy_def Let_def split: option.splits sum.splits prod.splits if_splits)

lemma host_container_shape:
  assumes "host_container x s = (r, s')"
  shows "shape (cd_disk s') = shape (cd_disk s) \<and> shape (cd_mem s') = shape (cd_disk s)"
proof -
  let ?S = "shape (cd_disk s)" and ?s = "s\<lparr>cd_mem := cd_disk s\<rparr>"
  have s0: "shaped ?S ?s" by (simp add: shaped_def)
  have k: "keeps_shape (after (begin_container_deploy x) (run_deploy_stages x))"
    by (intro keeps_after keeps_begin keeps_run_deploy)
  have s1: "shaped ?S (?s\<lparr>cd_dir := d\<rparr>)" for d by (simp add: shaped_def)
  have "shaped ?S s'"
    using assms s0 keeps_shapeD [OF k s0] keeps_shapeD [OF k s1] unfolding host_container_def Let_def
    by (auto split: if_splits prod.splits sum.splits)
  then show ?thesis by (simp add: shaped_def)
qed

section \<open>The interface to the host function\<close>

text \<open>What the fallback relies on: hosting changes neither the form of the instance nor its contract.\<close>

locale fallback_hosts =
  fixes x :: fb_ctx
  assumes host_shape: "fx_host x n s = (r, s') \<Longrightarrow>
    shape (cd_disk s') = shape (cd_disk s) \<and> (\<forall>m. r = Inr m \<longrightarrow> shape m = shape (cd_disk s))"
begin

lemma run_host_shape:
  "run_host x n s = (Inr (), s') \<Longrightarrow> shape (cd_mem s') = shape (cd_disk s)"
  using host_shape [of n s] by (auto simp: run_host_def split: prod.splits sum.splits)

lemma run_host_failed:
  "run_host x n s = (Inl e, s') \<Longrightarrow> cd_mem s' = cd_mem s \<and> shape (cd_disk s') = shape (cd_disk s)"
  using host_shape [of n s] by (auto simp: run_host_def split: prod.splits sum.splits)

lemma attempt_fallback_shape:
  "attempt_fallback x n f s = (Inr (), s') \<Longrightarrow> shape (cd_mem s') = shape (cd_mem (apply_entry x f s))"
  by (auto simp: attempt_fallback_def Let_def to_disk_def dest: run_host_shape split: option.splits if_splits)

lemma top_failed:
  "attempt_top x s = (Inl e, s') \<Longrightarrow> cd_mem s' = cd_mem s \<and> shape (cd_disk s') = shape (cd_disk s)"
  by (auto simp: attempt_top_def dest: run_host_failed split: option.splits)

end

interpretation container: fallback_hosts "container_ctx auto x"
proof
  fix n s r s'
  assume "fx_host (container_ctx auto x) n s = (r, s')"
  then show "shape (cd_disk s') = shape (cd_disk s) \<and> (\<forall>m. r = Inr m \<longrightarrow> shape m = shape (cd_disk s))"
    using host_container_shape [of "fx_dx x" s]
    by (auto simp: container_ctx_def container_host_def split: prod.splits sum.splits)
qed

section \<open>Capabilities\<close>

definition same_needs :: "capability_contract \<Rightarrow> capability_contract option \<Rightarrow> bool" where
  "same_needs c d \<longleftrightarrow> (\<exists>c'. d = Some c' \<and> required_capabilities c' = required_capabilities c)"

lemma required_capabilities_eq:
  "required_capabilities a = required_capabilities b \<longleftrightarrow> cc_servesUi a = cc_servesUi b \<and> cc_servesApi a = cc_servesApi b
     \<and> cc_requiresDatabase a = cc_requiresDatabase b \<and> cc_requiresMigrations a = cc_requiresMigrations b"
  by (auto simp: required_capabilities_def)

lemma contracts_equivalentD:
  assumes "contracts_equivalent (Some c) (plan_capability_contract f)"
  shows "\<exists>p c'. f = Plan_entry p \<and> pl_capabilityContract p = Some c' \<and> required_capabilities c' = required_capabilities c"
  using assms by (cases f) (auto simp: contracts_equivalent_def plan_capability_contract_def required_capabilities_eq
      split: option.splits)

lemma lifecycle_event_fields [simp]:
  "cd_mem (lifecycle_event x msg s) = cd_mem s" "cd_disk (lifecycle_event x msg s) = cd_disk s"
  "cd_dir (lifecycle_event x msg s) = cd_dir s" "cd_docker (lifecycle_event x msg s) = cd_docker s"
  by (simp_all add: lifecycle_event_def)

lemma apply_dict_keeps [simp]:
  "m_capabilityContract (apply_dict now d m) = m_capabilityContract m" "m_id (apply_dict now d m) = m_id m"
  "m_selectedPlanId (apply_dict now d m) = m_selectedPlanId m" "m_selectedPlanHash (apply_dict now d m) = m_selectedPlanHash m"
  "m_container (apply_dict now d m) = m_container m" "m_status (apply_dict now d m) = m_status m"
  "m_sourceSubdir (apply_dict now d m) = cq_sourceSubdir d"
  by (simp_all add: apply_dict_def Let_def touch_def split: option.split)

lemma apply_entry_contract:
  "f = Plan_entry p \<Longrightarrow> pl_capabilityContract p = Some c \<Longrightarrow> m_capabilityContract (cd_mem (apply_entry x f s)) = Some c"
  by (simp add: apply_entry_def select_plan_def Let_def set_mem_def)

context fallback_hosts begin

lemma try_candidates_contract:
  assumes "try_candidates x n fs ds s = (Inr (), s')"
    "\<forall>(i, f) \<in> set fs. contracts_equivalent (Some c) (plan_capability_contract f)"
  shows "same_needs c (m_capabilityContract (cd_mem s'))"
  using assms
proof (induction fs arbitrary: n ds s)
  case (Cons p fs)
  obtain i f where p: "p = (i, f)" by fastforce
  let ?s1 = "lifecycle_event x ''fallback'' s"
  obtain r s2 where a: "attempt_fallback x n f ?s1 = (r, s2)" by fastforce
  show ?case
  proof (cases r)
    case (Inl e)
    obtain rb s3 where rb: "rollback_attempt x (snapshot_attempt x ?s1) (fa_auto_recoverable e) s2 = (rb, s3)" by fastforce
    have "try_candidates x (Suc n) fs (ds @ [diagnose (Suc i) (entry_tier f) e rb]) s3 = (Inr (), s')"
      using Cons.prems(1) p a Inl rb by (simp add: Let_def split: if_splits)
    then show ?thesis using Cons.IH Cons.prems(2) by simp
  next
    case (Inr u)
    obtain q c' where q: "f = Plan_entry q" "pl_capabilityContract q = Some c'"
      "required_capabilities c' = required_capabilities c"
      using contracts_equivalentD [of c f] Cons.prems(2) p by auto
    have "s' = s2" using Cons.prems(1) p a Inr by (simp add: Let_def)
    then have "shape (cd_mem s') = shape (cd_mem (apply_entry x f ?s1))"
      using a Inr attempt_fallback_shape by simp
    then have "m_capabilityContract (cd_mem s') = Some c'"
      using apply_entry_contract [OF q(1,2)] by (simp add: shape_def)
    then show ?thesis using q(3) by (simp add: same_needs_def)
  qed
qed simp

end

section \<open>Rollback\<close>

lemma restore_files_at:
  "restore_attempt_files x snap ns f = (ds, rs, f') \<Longrightarrow> distinct ns \<Longrightarrow>
     (\<forall>k. k \<in> set ns \<longrightarrow> k \<notin> set rs \<longrightarrow> f' k = snap k) \<and> (\<forall>k. k \<notin> set ns \<longrightarrow> f' k = f k) \<and> set rs \<subseteq> set ns
     \<and> (\<forall>k \<in> set rs. fx_file_fails x k)"
proof (induction ns arbitrary: f ds rs f')
  case (Cons n ns)
  define step where "step = (case snap n of
      Some c \<Rightarrow> if fx_file_fails x n then ([], [n], f) else ([n], [], f(n \<mapsto> c))
    | None \<Rightarrow> if f n = None then ([], [], f)
        else if fx_file_fails x n then ([], [n], f) else ([n @ '':removed''], [], f(n := None)))"
  obtain d1 r1 f1 where st: "step = (d1, r1, f1)" by (metis prod_cases3)
  obtain ds2 rs2 f2 where r: "restore_attempt_files x snap ns f1 = (ds2, rs2, f2)" by (metis prod_cases3)
  have eq: "rs = r1 @ rs2" "f' = f2" using Cons.prems(1) st r by (simp_all add: step_def)
  have f1: "\<forall>k. k \<noteq> n \<longrightarrow> f1 k = f k" "r1 = [] \<longrightarrow> f1 n = snap n" "r1 = [] \<or> r1 = [n] \<and> fx_file_fails x n"
    using st by (auto simp: step_def split: option.splits if_splits)
  with Cons.IH [OF r] Cons.prems(2) show ?case unfolding eq by auto
qed simp

lemma ATTEMPT_FILES_distinct: "distinct ATTEMPT_FILES"
  by (simp add: ATTEMPT_FILES_def)

lemma ports_release: "set (instance_ports i (release p r)) = set (instance_ports i r) - {p}"
  by (auto simp: instance_ports_def release_def release_port_def)

lemma ports_fold_release: "set (instance_ports i (fold release ps r)) = set (instance_ports i r) - set ps"
  by (induction ps arbitrary: r) (auto simp: ports_release)

lemma rollback_parts:
  assumes "rollback_attempt x sn auto s = (rb, s')"
  obtains was items residuals s1 ds rs where
    "rollback_container x s = (was, items, residuals, s1)"
    "restore_from_snapshot x sn (s1\<lparr>cd_reg := snd (release_new_ports (sn_ports sn) (cd_id s1) (cd_reg s1))\<rparr>) = (ds, rs, s')"
    "rr_residuals rb = residuals @ rs" "rr_succeeded rb \<Longrightarrow> residuals @ rs = []"
    "rr_safe rb \<longleftrightarrow> rr_succeeded rb \<and> (\<not> was \<or> \<not> (case m_capabilityContract (cd_mem s') of None \<Rightarrow> False
        | Some c \<Rightarrow> cc_requiresMigrations c)) \<and> auto"
  using assms that unfolding rollback_attempt_def Let_def by (fastforce split: prod.splits)

lemma rollback_container_run:
  assumes "rollback_container x s = (was, items, residuals, s1)"
  shows "(was \<longleftrightarrow> dx_running (fx_dx x) (cd_docker s) = Some True)
    \<and> (residuals = [] \<longrightarrow> was \<longrightarrow> fst (dx_down (fx_dx x) (cd_docker s)))
    \<and> s1 = s\<lparr>cd_docker := (if was then snd (dx_down (fx_dx x) (cd_docker s)) else cd_docker s)\<rparr>"
  using assms by (auto simp: rollback_container_def split: option.splits bool.splits prod.splits)

lemma restore_outcome:
  assumes "restore_from_snapshot x sn s = (ds, rs, s')"
  shows "cd_mem s' = restore_fields (dx_now (fx_dx x)) sn (cd_mem s)"
    "cd_docker s' = cd_docker s" "cd_reg s' = cd_reg s"
    "''manifest'' \<notin> set rs \<Longrightarrow> cd_disk s' = cd_mem s'"
    "fx_save_fails x \<Longrightarrow> cd_disk s' = cd_disk s"
    "n \<in> set ATTEMPT_FILES \<Longrightarrow> n \<notin> set rs \<Longrightarrow> ad_files (cd_dir s') n = sn_files sn n"
    "n \<notin> set ATTEMPT_FILES \<Longrightarrow> ad_files (cd_dir s') n = ad_files (cd_dir s) n"
    "k \<in> set rs \<Longrightarrow> k = ''manifest'' \<and> fx_save_fails x \<or> fx_file_fails x k"
proof -
  obtain ds0 rs0 f where r: "restore_attempt_files x (sn_files sn) ATTEMPT_FILES (ad_files (cd_dir s)) = (ds0, rs0, f)"
    by (metis prod_cases3)
  note a = restore_files_at [OF r ATTEMPT_FILES_distinct]
  have s': "s' = (let s1 = set_mem (restore_fields (dx_now (fx_dx x)) sn) (put_files f s) in
        if fx_save_fails x then s1 else to_disk s1)" "rs = (if fx_save_fails x then rs0 @ [''manifest''] else rs0)"
    using assms r by (auto simp: restore_from_snapshot_def Let_def split: if_splits)
  show "cd_mem s' = restore_fields (dx_now (fx_dx x)) sn (cd_mem s)" "cd_docker s' = cd_docker s" "cd_reg s' = cd_reg s"
    "''manifest'' \<notin> set rs \<Longrightarrow> cd_disk s' = cd_mem s'" "fx_save_fails x \<Longrightarrow> cd_disk s' = cd_disk s"
    unfolding s' by (auto simp: Let_def set_mem_def put_files_def to_disk_def split: if_splits)
  show "n \<in> set ATTEMPT_FILES \<Longrightarrow> n \<notin> set rs \<Longrightarrow> ad_files (cd_dir s') n = sn_files sn n"
    "n \<notin> set ATTEMPT_FILES \<Longrightarrow> ad_files (cd_dir s') n = ad_files (cd_dir s) n"
    "k \<in> set rs \<Longrightarrow> k = ''manifest'' \<and> fx_save_fails x \<or> fx_file_fails x k"
    using a unfolding s' by (auto simp: Let_def set_mem_def put_files_def to_disk_def split: if_splits)
qed

lemma snapshot_fields [simp]:
  "sn_kind (snapshot_attempt x s) = m_kind (cd_mem s)" "sn_runtime (snapshot_attempt x s) = m_runtime (cd_mem s)"
  "sn_servingMode (snapshot_attempt x s) = m_servingMode (cd_mem s)" "sn_entry (snapshot_attempt x s) = m_entry (cd_mem s)"
  "sn_sourceSubdir (snapshot_attempt x s) = m_sourceSubdir (cd_mem s)" "sn_container (snapshot_attempt x s) = m_container (cd_mem s)"
  "sn_contract (snapshot_attempt x s) = m_capabilityContract (cd_mem s)" "sn_planId (snapshot_attempt x s) = m_selectedPlanId (cd_mem s)"
  "sn_ports (snapshot_attempt x s) = instance_ports (cd_id s) (cd_reg s)"
  "sn_files (snapshot_attempt x s) n = (if fx_unreadable x n then None else save_files ATTEMPT_FILES (ad_files (cd_dir s)) n)"
  by (simp_all add: snapshot_attempt_def Let_def)

lemma rollback_ports:
  assumes "rollback_attempt x sn auto s = (rb, s')"
  shows "set (instance_ports (cd_id s) (cd_reg s')) = set (instance_ports (cd_id s) (cd_reg s)) \<inter> set (sn_ports sn)"
proof -
  from rollback_parts [OF assms] obtain was items residuals s1 ds rs where
    c: "rollback_container x s = (was, items, residuals, s1)" and
    r: "restore_from_snapshot x sn (s1\<lparr>cd_reg := snd (release_new_ports (sn_ports sn) (cd_id s1) (cd_reg s1))\<rparr>) = (ds, rs, s')" .
  have "cd_id s1 = cd_id s" "cd_reg s1 = cd_reg s" using rollback_container_run [OF c] by (auto simp: cd_id_def)
  then show ?thesis using restore_outcome(3) [OF r]
    by (auto simp: release_new_ports_def Let_def ports_fold_release)
qed

lemma rollback_mem:
  assumes "rollback_attempt x sn auto s = (rb, s')"
  shows "cd_mem s' = restore_fields (dx_now (fx_dx x)) sn (cd_mem s)"
proof -
  from rollback_parts [OF assms] obtain was items residuals s1 ds rs where
    c: "rollback_container x s = (was, items, residuals, s1)" and
    r: "restore_from_snapshot x sn (s1\<lparr>cd_reg := snd (release_new_ports (sn_ports sn) (cd_id s1) (cd_reg s1))\<rparr>) = (ds, rs, s')" .
  show ?thesis using restore_outcome(1) [OF r] rollback_container_run [OF c] by auto
qed

lemma rollback_mem_status: "rollback_attempt x sn auto s = (rb, s') \<Longrightarrow> m_status (cd_mem s') = m_status (cd_mem s)"
  by (simp add: rollback_mem restore_fields_def touch_def)


text \<open>What a failed fallback leaves in the manifest although its rollback succeeds: the hash of its
  plan, beside the identifier of the old one, and its source directory when there was none before.
\<close>

theorem failed_fallback_leaves_traces:
  assumes "attempt_fallback x n (Plan_entry p) s = (Inl e, s1)" "fx_queue x n s = None" "pl_planId p \<noteq> []"
    "rollback_attempt x (snapshot_attempt x s) auto s1 = (rb, s2)" "rr_residuals rb = []"
    "truthy (m_selectedPlanId (cd_mem s))" "m_sourceSubdir (cd_mem s) = None"
  shows "m_selectedPlanId (cd_disk s2) = m_selectedPlanId (cd_mem s)
    \<and> m_selectedPlanHash (cd_disk s2) = Some (fx_plan_hash x p)
    \<and> m_sourceSubdir (cd_disk s2) = cq_sourceSubdir (plan_to_candidate_dict p)
    \<and> m_kind (cd_disk s2) = m_kind (cd_mem s) \<and> m_entry (cd_disk s2) = m_entry (cd_mem s)"
proof -
  let ?sn = "snapshot_attempt x s"
  have mem: "cd_mem s1 = cd_mem (apply_entry x (Plan_entry p) s)"
    using assms(1,2) by (auto simp: attempt_fallback_def run_host_def Let_def to_disk_def split: if_splits prod.splits sum.splits)
  have applied: "m_selectedPlanHash (cd_mem s1) = Some (fx_plan_hash x p)"
    "m_sourceSubdir (cd_mem s1) = cq_sourceSubdir (plan_to_candidate_dict p)"
    unfolding mem using assms(3) by (auto simp: apply_entry_def select_plan_def Let_def set_mem_def entry_dict_def split: option.split)
  from rollback_parts [OF assms(4)] obtain was items residuals t ds rs where p:
    "rollback_container x s1 = (was, items, residuals, t)"
    "restore_from_snapshot x ?sn (t\<lparr>cd_reg := snd (release_new_ports (sn_ports ?sn) (cd_id t) (cd_reg t))\<rparr>) = (ds, rs, s2)"
    "rr_residuals rb = residuals @ rs" .
  have t: "cd_mem t = cd_mem s1" using rollback_container_run [OF p(1)] by auto
  have "cd_disk s2 = restore_fields (dx_now (fx_dx x)) ?sn (cd_mem s1)"
    using restore_outcome(1,4) [OF p(2)] p(3) assms(5) t by simp
  with applied assms(6,7) show ?thesis by (simp add: restore_fields_def touch_def)
qed

text \<open>A generated file that cannot be read when the snapshot is taken is deleted by the rollback.
\<close>

theorem unreadable_file_is_deleted:
  assumes "rollback_attempt x (snapshot_attempt x s0) auto s = (rb, s')" "n \<in> set ATTEMPT_FILES"
    "fx_unreadable x n" "\<not> fx_file_fails x n"
  shows "ad_files (cd_dir s') n = None"
proof -
  let ?sn = "snapshot_attempt x s0"
  from rollback_parts [OF assms(1)] obtain was items residuals s1 ds rs where p:
    "restore_from_snapshot x ?sn (s1\<lparr>cd_reg := snd (release_new_ports (sn_ports ?sn) (cd_id s1) (cd_reg s1))\<rparr>) = (ds, rs, s')" .
  have "n \<noteq> ''manifest''" using assms(2) by (auto simp: ATTEMPT_FILES_def)
  then have "n \<notin> set rs" using restore_outcome(8) [OF p] assms(4) by blast
  then show ?thesis using restore_outcome(6) [OF p assms(2)] assms(3) by simp
qed

section \<open>The decision\<close>

lemma write_diagnosis_fields [simp]:
  "cd_mem (write_diagnosis x ds a s) = cd_mem s" "cd_docker (write_diagnosis x ds a s) = cd_docker s"
  "cd_dir (write_diagnosis x ds a s) = cd_dir s"
  "m_status (cd_disk (write_diagnosis x ds a s)) = (if fx_load_fails x then m_status (cd_disk s) else FAILED)"
  by (simp_all add: write_diagnosis_def Let_def touch_def)

text \<open>What a first deployment does after its host function failed.\<close>

lemma try_host_cases:
  assumes "try_host_with_fallback x policy s = (r, s')" "\<not> is_deployed_container (cd_mem s)"
  obtains (hosted) "attempt_top x s = (Inr (), s')" "r = Inr ()"
    | (raised) e where "attempt_top x s = (Inl e, s')" "fa_class e \<notin> {F_hosting, F_docker}" "r = Inl (E_failed e)"
    | (failed) e s1 rb s2 where "attempt_top x s = (Inl e, s1)" "fa_class e \<in> {F_hosting, F_docker}"
        "rollback_attempt x (snapshot_attempt x s) (fa_auto_recoverable e) s1 = (rb, s2)"
        "after_failure x policy e rb s2 = (r, s')"
proof -
  obtain q s1 where a: "attempt_top x s = (q, s1)" by fastforce
  have s0: "s\<lparr>cd_dir := cd_dir s\<rparr> = s" by simp
  show thesis
  proof (cases q)
    case (Inr u)
    with a assms that(1) show thesis by (simp add: try_host_with_fallback_def Let_def s0)
  next
    case (Inl e)
    obtain rb s2 where b: "rollback_attempt x (snapshot_attempt x s) (fa_auto_recoverable e) s1 = (rb, s2)" by fastforce
    show thesis
    proof (cases "fa_class e \<in> {F_hosting, F_docker}")
      case True
      with a Inl b assms have "after_failure x policy e rb s2 = (r, s')"
        by (auto simp: try_host_with_fallback_def Let_def s0)
      with that(3) a Inl b True show thesis by blast
    next
      case False
      with a Inl assms that(2) show thesis by (auto simp: try_host_with_fallback_def Let_def s0)
    qed
  qed
qed

definition fitting :: "manifest \<Rightarrow> (nat \<times> fallback_entry) list" where
  "fitting m = filter (\<lambda>(i, f). may_replace m f) (zip [0..<length (get_fallback_plans m)] (get_fallback_plans m))"

lemma fitting_may_replace: "(i, f) \<in> set (fitting m) \<Longrightarrow> may_replace m f \<and> f \<in> set (get_fallback_plans m)"
  by (auto simp: fitting_def dest: set_zip_rightD)

lemma after_failure_cases:
  assumes "after_failure x policy e rb s = (r, s')"
  obtains (raised) t advice where "r = Inl (E_failed e)" "t = s \<or> t = lifecycle_event x ''skipped'' s"
        "s' = s \<or> s' = write_diagnosis x [diagnose 0 ''primary'' e rb] advice t"
    | (confirm) cs where "r = Inl (E_confirm cs)" "policy = FALLBACK_CONFIRM" "rr_succeeded rb"
        "cs = take MAX_FALLBACK_CANDIDATES (map (\<lambda>(i, f). (Suc i, f)) (fitting (cd_mem s)))" "cs \<noteq> []"
        "s' = s \<or> s' = lifecycle_event x ''skipped'' s"
    | (automatic) s1 where "policy \<noteq> FALLBACK_CONFIRM" "policy \<noteq> FALLBACK_DISABLED" "rr_safe rb" "fitting (cd_mem s) \<noteq> []"
        "s1 = s \<or> s1 = lifecycle_event x ''skipped'' s"
        "try_candidates x 1 (take MAX_FALLBACK_CANDIDATES (fitting (cd_mem s))) [diagnose 0 ''primary'' e rb] s1 = (r, s')"
proof -
  have max: "MAX_FALLBACK_CANDIDATES \<noteq> 0" by (simp add: MAX_FALLBACK_CANDIDATES_def)
  show thesis
    using assms that unfolding after_failure_def Let_def fitting_def [symmetric]
    by (auto simp: max split: if_splits)
qed

lemma try_candidates_error:
  "try_candidates x n fs ds s = (Inl err, s') \<Longrightarrow>
     (\<exists>e. err = E_failed e \<and> fa_class e = F_lifecycle)
     \<or> err = E_all_failed (length ds + length fs) \<and> (fx_load_fails x \<or> m_status (cd_disk s') = FAILED)"
proof (induction fs arbitrary: n ds s)
  case (Cons p fs)
  obtain i f where p: "p = (i, f)" by fastforce
  let ?s1 = "lifecycle_event x ''fallback'' s"
  obtain r s2 where a: "attempt_fallback x n f ?s1 = (r, s2)" by fastforce
  obtain e where e: "r = Inl e" using Cons.prems p a by (cases r) (simp_all add: Let_def)
  obtain rb s3 where rb: "rollback_attempt x (snapshot_attempt x ?s1) (fa_auto_recoverable e) s2 = (rb, s3)" by fastforce
  show ?case
  proof (cases "fa_class e = F_lifecycle")
    case True
    with Cons.prems p a e show ?thesis by (auto simp: Let_def)
  next
    case False
    have "try_candidates x (Suc n) fs (ds @ [diagnose (Suc i) (entry_tier f) e rb]) s3 = (Inl err, s')"
      using Cons.prems p a e rb False by (simp add: Let_def)
    from Cons.IH [OF this] show ?thesis by simp
  qed
qed auto


context fallback_hosts begin

lemma success_keeps_capabilities:
  assumes "try_host_with_fallback x policy s = (Inr (), s')" "\<not> is_deployed_container (cd_mem s)"
    "shape (cd_disk s) = shape (cd_mem s)" "m_capabilityContract (cd_mem s) = Some c"
  shows "same_needs c (m_capabilityContract (cd_mem s'))"
  using assms(1,2)
proof (cases rule: try_host_cases)
  case hosted
  then have "shape (cd_mem s') = shape (cd_disk s)"
    by (auto simp: attempt_top_def dest: run_host_shape split: option.splits)
  with assms(3,4) have "m_capabilityContract (cd_mem s') = Some c" by (simp add: shape_def)
  then show ?thesis by (simp add: same_needs_def)
next
  case (failed e s1 rb s2)
  have "m_capabilityContract (cd_mem s2) = Some c"
    using rollback_mem [OF failed(3)] assms(4) by (simp add: restore_fields_def touch_def)
  then have fit: "contracts_equivalent (Some c) (plan_capability_contract f)" if "may_replace (cd_mem s2) f" for f
    using that by (simp add: may_replace_def manifest_capability_contract_def)
  from failed(4) show ?thesis
  proof (cases rule: after_failure_cases)
    case (automatic t)
    have "\<forall>(i, f) \<in> set (take MAX_FALLBACK_CANDIDATES (fitting (cd_mem s2))). contracts_equivalent (Some c) (plan_capability_contract f)"
      using fit fitting_may_replace by (auto dest!: in_set_takeD)
    from try_candidates_contract [OF automatic(6) this] show ?thesis .
  qed simp_all
qed simp_all

end

text \<open>C2: A deployment that succeeds, at once or after fallbacks, has exactly the capabilities that the
  contract of the instance requires: no fallback trades the API, the database, the migrations or
  the user interface for a success.
\<close>

theorem fallback_keeps_capabilities:
  assumes "fallback_hosts x" "try_host_with_fallback x policy s = (Inr (), s')" "\<not> is_deployed_container (cd_mem s)"
    "cd_disk s = cd_mem s" "m_capabilityContract (cd_mem s) = Some c"
  shows "\<exists>c'. m_capabilityContract (cd_mem s') = Some c' \<and> required_capabilities c' = required_capabilities c"
  using fallback_hosts.success_keeps_capabilities [OF assms(1-3) _ assms(5)] assms(4) by (simp add: same_needs_def)

text \<open>The host function of the containers is one of those.\<close>

lemma container_keeps_capabilities:
  assumes "try_host_with_fallback (container_ctx auto x) policy s = (Inr (), s')" "\<not> is_deployed_container (cd_mem s)"
    "cd_disk s = cd_mem s" "m_capabilityContract (cd_mem s) = Some c"
  shows "same_needs c (m_capabilityContract (cd_mem s'))"
  using container.success_keeps_capabilities [OF assms(1,2) _ assms(4)] assms(3) by simp


text \<open>An instance that is already deployed is left to the rebuild: when its host function fails, the
  state is the one the function left, apart from the caller's own manifest; there is no second
  rollback and no fallback.
\<close>

theorem deployed_instance_has_no_fallback:
  assumes "is_deployed_container (cd_mem s)"
    "ensure_env_rollback_ready (dx_env_hash (fx_dx x)) False (cd_dir s) = (Inr (), d)"
    "fx_queue x 0 (s\<lparr>cd_dir := d\<rparr>) = None" "fx_host x 0 (s\<lparr>cd_dir := d\<rparr>) = (Inl e, s1)"
  shows "try_host_with_fallback x policy s = (Inl (E_failed e), s1\<lparr>cd_mem := cd_mem s\<rparr>)"
  using assms by (simp add: try_host_with_fallback_def Let_def attempt_top_def run_host_def)

section \<open>A first deployment with one fallback\<close>

definition sample_contract :: capability_contract where
  "sample_contract = no_contract\<lparr>cc_servesApi := True, cc_requiresMigrations := True\<rparr>"

definition sample_alternate :: plan where
  "sample_alternate = \<lparr>pl_planId = ''plan-backend-api'', pl_components = [\<lparr>co_componentId = ''node-runtime'',
       co_role = ''runtime'', co_sourceSubdir = Some ''api'', co_buildCommand = None,
       co_startCommand = Some \<lparr>cs_argv = Some [''node'', ''server.js''], cs_shell = None, cs_workdir = ''/app/api''\<rparr>,
       co_buildOutputDir = None, co_artifactTarget = None, co_internalPort = None\<rparr>],
     pl_capabilityContract = Some sample_contract, pl_confidenceTier = ''alternate''\<rparr>"

definition sample_new :: manifest where
  "sample_new = sample_api\<lparr>m_status := STOPPED, m_selectedPlanId := Some ''plan-backend-root'', m_sourceSubdir := None,
     m_capabilityContract := Some sample_contract, m_deploymentPlans := [sample_alternate]\<rparr>"

definition sample_first :: cd where
  "sample_first = sample_cd\<lparr>cd_mem := sample_new, cd_disk := sample_new, cd_reg := empty_reg,
     cd_docker := sample_docker\<lparr>dk_running := None\<rparr>\<rparr>"

definition build_failure :: failure where
  "build_failure = \<lparr>fa_class = F_docker, fa_text = ''build failed'', fa_auto_recoverable = True\<rparr>"

text \<open>The host function fails in the attempts that are listed.\<close>

definition sample_fx :: "nat list \<Rightarrow> fb_ctx" where
  "sample_fx failing = \<lparr>fx_dx = sample_dx, fx_queue = (\<lambda>_ _. None),
     fx_host = (\<lambda>n s. if n \<in> set failing then (Inl build_failure, s) else (Inr (cd_disk s), s)),
     fx_plan_hash = (\<lambda>_. ''hash''), fx_report = (\<lambda>_ advice. advice), fx_unreadable = (\<lambda>n. n = ''alias.conf''),
     fx_file_fails = (\<lambda>_. False), fx_save_fails = False, fx_apply_fails = False, fx_load_fails = False\<rparr>"

lemma sample_hosts: "fallback_hosts (sample_fx failing)"
  by unfold_locales (auto simp: sample_fx_def split: if_splits)

lemma sample_first_facts:
  "\<not> is_deployed_container (cd_mem sample_first)" "cd_disk sample_first = cd_mem sample_first"
  "m_capabilityContract (cd_mem sample_first) = Some sample_contract"
  by (simp_all add: sample_first_def sample_new_def is_deployed_container_def sample_api_def sample_container_def)

lemma sample_fallback_succeeds: "fst (try_host_with_fallback (sample_fx [0]) ''auto-equivalent'' sample_first) = Inr ()"
  by code_simp

lemma fallback_keeps_capabilities_witness:
  "\<exists>s' c'. try_host_with_fallback (sample_fx [0]) ''auto-equivalent'' sample_first = (Inr (), s')
     \<and> m_capabilityContract (cd_mem s') = Some c' \<and> required_capabilities c' = required_capabilities sample_contract"
proof -
  obtain s' where t: "try_host_with_fallback (sample_fx [0]) ''auto-equivalent'' sample_first = (Inr (), s')"
    using sample_fallback_succeeds by (metis prod.collapse)
  with fallback_keeps_capabilities [OF sample_hosts t sample_first_facts] show ?thesis by blast
qed

definition sample_attempted :: cd where
  "sample_attempted = sample_first\<lparr>cd_docker := sample_docker,
     cd_dir := sample_dir\<lparr>ad_files := [''Dockerfile'' \<mapsto> ''FROM attempt'', ''alias.conf'' \<mapsto> ''route'']\<rparr>\<rparr>"

lemma sample_rollback: "rr_residuals (fst (rollback_attempt (sample_fx []) (snapshot_attempt (sample_fx []) sample_first) True sample_attempted)) = []"
  by code_simp


lemma unreadable_file_is_deleted_witness:
  "ad_files (cd_dir sample_attempted) ''alias.conf'' = Some ''route''
   \<and> ad_files (cd_dir (snd (rollback_attempt (sample_fx []) (snapshot_attempt (sample_fx []) sample_attempted) True sample_attempted)))
       ''alias.conf'' = None"
proof -
  have n: "''alias.conf'' \<in> set ATTEMPT_FILES" "fx_unreadable (sample_fx []) ''alias.conf''"
    "\<not> fx_file_fails (sample_fx []) ''alias.conf''"
    by (simp_all add: ATTEMPT_FILES_def sample_fx_def)
  from unreadable_file_is_deleted [OF surjective_pairing n] show ?thesis by (simp add: sample_attempted_def)
qed

lemma sample_second_attempt:
  "fst (attempt_fallback (sample_fx [1]) 1 (Plan_entry sample_alternate) sample_first) = Inl build_failure"
  "rr_residuals (fst (rollback_attempt (sample_fx [1]) (snapshot_attempt (sample_fx [1]) sample_first) True
     (snd (attempt_fallback (sample_fx [1]) 1 (Plan_entry sample_alternate) sample_first)))) = []"
  by code_simp+

lemma failed_fallback_leaves_traces_witness:
  "\<exists>s1 rb s2. attempt_fallback (sample_fx [1]) 1 (Plan_entry sample_alternate) sample_first = (Inl build_failure, s1)
     \<and> rollback_attempt (sample_fx [1]) (snapshot_attempt (sample_fx [1]) sample_first) True s1 = (rb, s2)
     \<and> rr_residuals rb = [] \<and> m_selectedPlanId (cd_disk s2) = Some ''plan-backend-root''
     \<and> m_selectedPlanHash (cd_disk s2) = Some ''hash'' \<and> m_sourceSubdir (cd_disk s2) = Some ''api''"
proof -
  obtain s1 where a: "attempt_fallback (sample_fx [1]) 1 (Plan_entry sample_alternate) sample_first = (Inl build_failure, s1)"
    using sample_second_attempt(1) by (metis prod.collapse)
  obtain rb s2 where b: "rollback_attempt (sample_fx [1]) (snapshot_attempt (sample_fx [1]) sample_first) True s1 = (rb, s2)"
    by fastforce
  have r: "rr_residuals rb = []" using sample_second_attempt(2) a b by simp
  have m: "fx_queue (sample_fx [1]) 1 sample_first = None" "pl_planId sample_alternate \<noteq> []"
    "truthy (m_selectedPlanId (cd_mem sample_first))" "m_sourceSubdir (cd_mem sample_first) = None"
    by (simp_all add: sample_fx_def sample_alternate_def sample_first_def sample_new_def)
  have sub: "cq_sourceSubdir (plan_to_candidate_dict sample_alternate) = Some ''api''" by code_simp
  from failed_fallback_leaves_traces [OF a m(1,2) b r m(3,4)] a b r sub show ?thesis
    by (auto simp: sample_first_def sample_new_def sample_fx_def)
qed



lemma deployed_instance_has_no_fallback_witness:
  "\<exists>d. try_host_with_fallback (sample_fx [0]) ''auto-equivalent'' sample_cd = (Inl (E_failed build_failure), sample_cd\<lparr>cd_dir := d\<rparr>)"
proof -
  have dep: "is_deployed_container (cd_mem sample_cd)"
    by (simp add: is_deployed_container_def sample_cd_def Let_def sample_live_def sample_api_def sample_container_def)
  have env: "ensure_env_rollback_ready (dx_env_hash (fx_dx (sample_fx [0]))) False (cd_dir sample_cd) = (Inr (), sample_dir)"
    by (simp add: ensure_env_rollback_ready_def good_recorded_def sample_cd_def Let_def sample_dir_def)
  from deployed_instance_has_no_fallback [OF dep env, of build_failure "sample_cd\<lparr>cd_dir := sample_dir\<rparr>" "''auto-equivalent''"]
  show ?thesis by (auto simp: sample_fx_def)
qed

end
