(* ===== verification/Lifecycle_Facts.thy ===== *)
theory Lifecycle_Facts
  imports Lifecycle Fallback_Facts Start_Facts
begin

text \<open>
  What the lifecycle operations guarantee: a stale request changes nothing, an unrecognised instance
  is not started, the user's commands run only when the user asks, a version that a rollback pinned
  is not rebuilt, and how a rebuild settles the retry mark and the revision.
\<close>

section \<open>Requests that are refused\<close>

lemma followed_by_Inl: "f s = (Inl e, s') \<Longrightarrow> followed_by f g s = (Inl e, s')"
  by (simp add: followed_by_def)

lemma followed_by_Inr: "f s = (Inr u, s') \<Longrightarrow> followed_by f g s = g s'"
  by (simp add: followed_by_def)

lemma followed_by_InrD:
  "followed_by f g s = (Inr u, s') \<Longrightarrow> \<exists>t. f s = (Inr (), t) \<and> g t = (Inr u, s')"
  by (auto simp: followed_by_def split: prod.splits sum.splits)

lemma locked_refused: "\<not> revision_ok (m_id (cd_disk s)) expected (cd_reg s) \<Longrightarrow> locked expected body s = (Inl L_revision_conflict, s)"
  by (simp add: locked_def)

lemma locked_runs: "revision_ok (m_id (cd_disk s)) expected (cd_reg s) \<Longrightarrow> locked expected body s = body (s\<lparr>cd_mem := cd_disk s\<rparr>)"
  by (simp add: locked_def)

lemmas operation_defs = start_instance_def restart_instance_def recover_instance_def stop_instance_op_def
  rebuild_instance_def restoring_alias_def

text \<open>C7: An operation that was accepted for another revision than the one found under the lock is
  refused and changes nothing; a rebuild leaves the state that it found when it got the lock.
\<close>

theorem stale_request_changes_nothing:
  assumes "get_revision (m_id (cd_disk s)) (cd_reg s) \<noteq> Some n"
  shows "start_instance x policy reconcile (Some n) skip s = (Inl L_revision_conflict, s)
    \<and> restart_instance x (Some n) skip s = (Inl L_revision_conflict, s)
    \<and> recover_instance x (Some n) s = (Inl L_revision_conflict, s)
    \<and> stop_instance_op x (Some n) s = (Inl L_revision_conflict, s)
    \<and> (\<forall>s0. lx_meanwhile x s0 = s \<longrightarrow> rebuild_instance x (Some n) skip force hb s0 = (Inl L_revision_conflict, s))"
  using assms by (simp add: operation_defs Let_def locked_refused revision_ok_def followed_by_Inl)

text \<open>An instance whose form is not confirmed is refused by start, restart, recover and rebuild before
  anything is written.
\<close>

theorem unconfirmed_instance_not_started:
  assumes "m_status (cd_disk s) = PENDING" "revision_ok (m_id (cd_disk s)) expected (cd_reg s)"
  shows "start_instance x policy reconcile expected skip s = (Inl L_pending, s\<lparr>cd_mem := cd_disk s\<rparr>)
    \<and> restart_instance x expected skip s = (Inl L_pending, s\<lparr>cd_mem := cd_disk s\<rparr>)
    \<and> recover_instance x expected s = (Inl L_pending, s\<lparr>cd_mem := cd_disk s\<rparr>)
    \<and> (\<forall>s0. lx_meanwhile x s0 = s \<longrightarrow> rebuild_instance x expected skip force hb s0 = (Inl L_pending, s\<lparr>cd_mem := cd_disk s\<rparr>))"
  using assms by (simp add: operation_defs Let_def locked_runs refuse_pending_start_def restart_locked_def
      rebuild_work_def followed_by_Inl)

section \<open>Host commands\<close>

lemma host_call_no_build [simp]: "host_call x False n = fx_host (lx_fb x) n"
  by (rule ext) (simp add: host_call_def)

lemma no_build_ctx [simp]: "(fallback_ctx x)\<lparr>fx_host := \<lambda>n. fx_host (lx_fb x) n\<rparr> = fallback_ctx x"
  by (simp add: fallback_ctx_def)

lemma host_first_no_build: "host_first x policy False = raising L_fallback (try_host_with_fallback (fallback_ctx x) policy)"
  by (simp add: host_first_def host_call_no_build [abs_def] fallback_ctx_def)

lemma host_build_unused [simp]:
  "lx_dx (x\<lparr>lx_host_build := h\<rparr>) = lx_dx x" "fallback_ctx (x\<lparr>lx_host_build := h\<rparr>) = fallback_ctx x"
  "note_event (x\<lparr>lx_host_build := h\<rparr>) = note_event x" "save_quietly (x\<lparr>lx_host_build := h\<rparr>) = save_quietly x"
  "clear_circuit_saved (x\<lparr>lx_host_build := h\<rparr>) = clear_circuit_saved x"
  "sync_alias_port (x\<lparr>lx_host_build := h\<rparr>) = sync_alias_port x" "verify_alias (x\<lparr>lx_host_build := h\<rparr>) = verify_alias x"
  "host_now (x\<lparr>lx_host_build := h\<rparr>) = host_now x"
  "stop_then_start (x\<lparr>lx_host_build := h\<rparr>) = stop_then_start x"
  by (simp_all add: fun_eq_iff lx_dx_def fallback_ctx_def note_event_def save_quietly_def clear_circuit_saved_def
      sync_alias_port_def verify_alias_def host_now_def stop_then_start_def
      cong: if_cong option.case_cong)

lemma dispatch_unused [simp]:
  "finish_alias (x\<lparr>lx_host_build := h\<rparr>) = finish_alias x"
  "start_deployed (x\<lparr>lx_host_build := h\<rparr>) = start_deployed x"
  "restart_dispatch (x\<lparr>lx_host_build := h\<rparr>) = restart_dispatch x"
  by (simp_all add: fun_eq_iff finish_alias_def start_deployed_def restart_dispatch_def host_first_no_build
      split: sum.split prod.split start_choice.split)

text \<open>C28: The automatic recovery, a restart and a recover never run the user's host build: what that
  command would do has no influence on them.
\<close>

theorem recovery_runs_no_host_command:
  "start_instance (x\<lparr>lx_host_build := h\<rparr>) policy True expected skip s = start_instance x policy True expected skip s
   \<and> restart_instance (x\<lparr>lx_host_build := h\<rparr>) expected skip s = restart_instance x expected skip s
   \<and> recover_instance (x\<lparr>lx_host_build := h\<rparr>) expected s = recover_instance x expected s"
proof -
  have "start_body (x\<lparr>lx_host_build := h\<rparr>) policy True skip = start_body x policy True skip"
    by (rule ext) (simp add: start_body_def Let_def host_first_no_build)
  moreover have "restart_locked (x\<lparr>lx_host_build := h\<rparr>) k = restart_locked x k" for k
    by (simp add: restart_locked_def cong: if_cong)
  ultimately show ?thesis by (simp add: operation_defs)
qed

section \<open>Which route is taken\<close>

lemma clear_saved_fields [simp]:
  "cd_mem (clear_circuit_saved x p s) = clear_circuit (cd_mem s)" "cd_reg (clear_circuit_saved x p s) = cd_reg s"
  "cd_dir (clear_circuit_saved x p s) = cd_dir s" "cd_docker (clear_circuit_saved x p s) = cd_docker s"
  by (simp_all add: clear_circuit_saved_def save_quietly_def set_mem_def to_disk_def)

lemma clear_circuit_keeps [simp]:
  "m_container (clear_circuit m) = m_container m" "m_runtime (clear_circuit m) = m_runtime m"
  "m_status (clear_circuit m) = m_status m" "m_id (clear_circuit m) = m_id m"
  "m_deploymentFingerprints (clear_circuit m) = m_deploymentFingerprints m"
  "m_hostBuildPending (clear_circuit m) = m_hostBuildPending m" "is_deployed_container (clear_circuit m) = is_deployed_container m"
  "has_pending_host_build (clear_circuit m) = has_pending_host_build m"
  by (simp_all add: clear_circuit_def is_deployed_container_def has_pending_host_build_def configured_host_build_def)

text \<open>A version that a rollback pinned is neither rebuilt nor recreated by a start or a restart: a
  deployed container goes the light way, whatever its files and fingerprints say by now.
\<close>

theorem pinned_version_starts_light:
  assumes "is_deployed_container (cd_disk s)" "pinned (m_deploymentFingerprints (cd_disk s))"
    "\<not> has_pending_host_build (cd_disk s)" "m_status (cd_disk s) \<noteq> PENDING"
    "revision_ok (m_id (cd_disk s)) expected (cd_reg s)"
  shows "start_instance x policy False expected skip s =
      restoring_alias x (followed_by (raising L_deploy (start_container (lx_sx x))) (finish_alias x skip))
        (clear_circuit_saved x P_circuit (s\<lparr>cd_mem := cd_disk s\<rparr>))
    \<and> restart_instance x expected skip s =
      followed_by (raising L_deploy (stop_then_start x)) (\<lambda>s1. verify_alias x skip True (sync_alias_port x s1))
        (clear_circuit_saved x P_circuit (s\<lparr>cd_mem := cd_disk s\<rparr>))"
proof -
  let ?s = "clear_circuit_saved x P_circuit (s\<lparr>cd_mem := cd_disk s\<rparr>)"
  have d: "deployed_action (lx_sx x) ?s = (Inr (Light_start, []), ?s)"
    using assms(2) by (simp add: deployed_action_def Let_def)
  have a: "start_deployed x policy ?s = raising L_deploy (start_container (lx_sx x)) ?s"
    by (simp add: start_deployed_def d)
  have b: "restart_dispatch x ?s = raising L_deploy (stop_then_start x) ?s"
    using assms(1) by (simp add: restart_dispatch_def d)
  have "start_body x policy False skip (s\<lparr>cd_mem := cd_disk s\<rparr>)
      = followed_by (raising L_deploy (start_container (lx_sx x))) (finish_alias x skip) ?s"
    using assms(1,3) a by (simp add: start_body_def Let_def followed_by_def)
  moreover have "restart_locked x skip (s\<lparr>cd_mem := cd_disk s\<rparr>)
      = followed_by (raising L_deploy (stop_then_start x)) (\<lambda>s1. verify_alias x skip True (sync_alias_port x s1)) ?s"
    using assms(3,4) b by (simp add: restart_locked_def refuse_pending_start_def followed_by_def)
  ultimately show ?thesis using assms(4,5)
    by (simp add: operation_defs locked_runs refuse_pending_start_def followed_by_def)
qed

text \<open>A restart whose stop fails is aborted: the error is reported and nothing follows the failed
  stop. The container is not started again, and manifest, files and registry are as the decision
  about the route left them.
\<close>

theorem failed_stop_aborts_restart:
  assumes "is_deployed_container (cd_disk s)" "\<not> has_pending_host_build (cd_disk s)" "m_status (cd_disk s) \<noteq> PENDING"
    "revision_ok (m_id (cd_disk s)) expected (cd_reg s)"
    "deployed_action (lx_sx x) (clear_circuit_saved x P_circuit (s\<lparr>cd_mem := cd_disk s\<rparr>)) = (Inr (Light_start, changed), s1)"
    "stop_or_abort (dx_running (lx_dx x)) (sx_stop (lx_sx x)) True (cd_docker s1) = (False, dk)"
  shows "restart_instance x expected skip s = (Inl (L_deploy (X_error ''stop'')), s1\<lparr>cd_docker := dk\<rparr>)"
proof -
  let ?s = "clear_circuit_saved x P_circuit (s\<lparr>cd_mem := cd_disk s\<rparr>)"
  have "raising L_deploy (stop_then_start x) s1 = (Inl (L_deploy (X_error ''stop'')), s1\<lparr>cd_docker := dk\<rparr>)"
    using assms(6) by (simp add: raising_def stop_then_start_def after_def stop_running_def attempt_docker_def lx_dx_def)
  then have "restart_dispatch x ?s = (Inl (L_deploy (X_error ''stop'')), s1\<lparr>cd_docker := dk\<rparr>)"
    using assms(1,5) by (simp add: restart_dispatch_def)
  with assms(2-4) show ?thesis
    by (simp add: restart_instance_def locked_runs restart_locked_def refuse_pending_start_def followed_by_def)
qed

section \<open>What a success leaves\<close>

lemma finish_alias_success:
  assumes "finish_alias x skip s = (Inr u, t)"
  shows "consecutiveReconcileFailures (cd_mem t) = 0 \<and> \<not> reconcileCircuitManual (cd_mem t)
    \<and> reconcileNextRetryAt (cd_mem t) = None \<and> (\<not> lx_save_fails x P_end \<longrightarrow> cd_disk t = cd_mem t)"
proof -
  from assms obtain s1 where "t = clear_circuit_saved x P_end s1"
    by (auto simp: finish_alias_def Let_def dest!: followed_by_InrD)
  then show ?thesis by (auto simp: clear_circuit_def clear_circuit_saved_def save_quietly_def to_disk_def set_mem_def)
qed

lemma start_success:
  assumes "start_instance x policy reconcile expected skip s = (Inr u, s')"
  shows "\<exists>t t'. finish_alias x skip t = (Inr (), t') \<and> s' = lx_restore_alias x t'"
proof -
  from assms obtain t' where t: "locked expected (refuse_pending_start (start_body x policy reconcile skip)) s = (Inr (), t')"
    "s' = lx_restore_alias x t'"
    by (auto simp: start_instance_def restoring_alias_def dest!: followed_by_InrD)
  then show ?thesis
    by (auto simp: locked_def refuse_pending_start_def start_body_def Let_def dest!: followed_by_InrD split: if_splits)
qed

text \<open>A start that succeeds, on every route and for the automatic recovery too, ends with the circuit
  of the automatic recovery closed: no failures are counted, no retry is scheduled, nothing is left
  to be done by hand, in memory and, when the last write works, on disk.
\<close>

theorem successful_start_closes_circuit:
  assumes "start_instance x policy reconcile expected skip s = (Inr u, s')"
  shows "\<exists>t. s' = lx_restore_alias x t \<and> \<not> is_blocked now (cd_mem t) \<and> consecutiveReconcileFailures (cd_mem t) = 0
    \<and> status_note now (cd_mem t) = None \<and> (\<not> lx_save_fails x P_end \<longrightarrow> cd_disk t = cd_mem t)"
proof -
  from start_success [OF assms] obtain t t' where "finish_alias x skip t = (Inr (), t')" "s' = lx_restore_alias x t'" by blast
  with finish_alias_success show ?thesis
    by (fastforce simp: is_blocked_def status_note_def)
qed

section \<open>The retry mark of a host build\<close>

lemma container_host_shape:
  "container_host dx auto s = (r, s') \<Longrightarrow> shape (cd_disk s') = shape (cd_disk s) \<and> (\<forall>m. r = Inr m \<longrightarrow> shape m = shape (cd_disk s))"
  using host_container_shape [of dx s] by (auto simp: container_host_def split: prod.splits sum.splits)

lemma shape_pending: "shape m = shape m' \<Longrightarrow> m_hostBuildPending m = m_hostBuildPending m'"
  by (simp add: shape_def)

lemma run_rebuild_mark:
  assumes "run_rebuild x True s = (r, s')" "m_hostBuildPending (cd_disk s)" "m_runtime (cd_mem s) = DOCKER_COMPOSE"
    "\<And>t q t'. lx_host_build x t = (q, t') \<Longrightarrow> shape (cd_disk t') = shape (cd_disk t)"
  shows "m_hostBuildPending (cd_disk s') \<longleftrightarrow> r \<noteq> Inr ()"
proof (cases "fx_queue (lx_fb x) 0 s")
  case (Some f)
  with assms(1,2) show ?thesis by (auto simp: run_rebuild_def)
next
  case None
  obtain q s1 where b: "lx_host_build x s = (q, s1)" by fastforce
  have p1: "m_hostBuildPending (cd_disk s1)" using assms(2) shape_pending [OF assms(4) [OF b]] by simp
  show ?thesis
  proof (cases q)
    case (Inl f)
    with None b p1 assms(1,3) show ?thesis by (auto simp: run_rebuild_def rebuild_host_def)
  next
    case (Inr u)
    obtain h s2 where h: "container_host (lx_dx x) (lx_auto x) s1 = (h, s2)" by fastforce
    have p2: "m_hostBuildPending (cd_disk s2)" "\<And>m. h = Inr m \<Longrightarrow> m_hostBuildPending m"
      using p1 container_host_shape [OF h] shape_pending by metis+
    show ?thesis
      using None b Inr h p2 assms(1,3)
      by (cases h) (auto simp: run_rebuild_def rebuild_host_def finish_host_build_def split: if_splits)
  qed
qed


section \<open>The revision at the end of a rebuild\<close>

text \<open>A rebuild expects at its end the revision that it read before it had the lock. When that still
  holds, the revision grows by one. When another operation came in between, the rebuild that has just
  succeeded is reported as a conflict, although nobody interfered while it held the lock.
\<close>

theorem rebuild_revision_outcome:
  assumes "get_revision i (cd_reg s) = Some n" "i = m_id (cd_disk s)"
    "revision_ok (m_id (cd_disk (lx_meanwhile x s))) expected (cd_reg (lx_meanwhile x s))"
    "rebuild_work x skip force hb ((lx_meanwhile x s)\<lparr>cd_mem := cd_disk (lx_meanwhile x s)\<rparr>) = (Inr (), t)"
    "reg_ok (cd_reg t)" "get_revision i (cd_reg t) = Some k"
  shows "if k = n
    then \<exists>r. rebuild_instance x expected skip force hb s = (Inr (), lx_restore_alias x (t\<lparr>cd_reg := r\<rparr>))
           \<and> get_revision i r = Some (n + 1)
    else rebuild_instance x expected skip force hb s = (Inl L_revision_conflict, t)"
proof -
  obtain row where row: "get_instance i (cd_reg t) = Some row" "i_revision row = k"
    using assms(6) by (auto simp: get_revision_def)
  let ?now = "dx_now (lx_dx x)"
  let ?r = "upd_instance i (\<lambda>x. x\<lparr>i_revision := i_revision x + 1, i_updated_at := ?now\<rparr>) (cd_reg t)"
  have c: "claim_revision x i (Some n) t = (if k = n then (Inr (), t\<lparr>cd_reg := ?r\<rparr>) else (Inl L_revision_conflict, t))"
    using row by (simp add: claim_revision_def cas_increment_cases [OF assms(5)])
  have b: "locked expected (followed_by (rebuild_work x skip force hb) (claim_revision x i (Some n))) (lx_meanwhile x s)
      = claim_revision x i (Some n) t"
    using assms(3,4) by (simp add: locked_runs followed_by_def)
  have "get_revision i ?r = Some (k + 1)" using revision_upd [OF row(1), of i] row(2) by simp
  then show ?thesis
    using assms(1,2) b c by (auto simp: rebuild_instance_def Let_def restoring_alias_def followed_by_def)
qed

section \<open>Ports in alias fragments\<close>

lemma contains_starts: "starts_with p s \<Longrightarrow> contains p s"
  by (cases s) (auto simp: starts_with_def)

lemma contains_append: "contains p (a @ p @ b)"
proof (induction a)
  case Nil
  show ?case by (simp add: contains_starts)
qed simp

text \<open>The fragment of an alias is taken for current when the digits of the new port only begin those
  of the port that it names: after a change from 18001 to 1800 it keeps pointing to 18001.
\<close>

theorem alias_port_prefix_is_kept:
  assumes "resolve_host_port (cd_mem s) = Some p" "dec_int q = dec_int p @ more_digits"
    "ad_files (cd_dir s) ALIAS_CONF = Some (before @ ''127.0.0.1:'' @ dec_int q @ rest)"
  shows "sync_alias_port x s = s"
proof -
  have "mentions_port (before @ ''127.0.0.1:'' @ dec_int q @ rest) p"
    using contains_append [of "''127.0.0.1:'' @ dec_int p" before "more_digits @ rest"]
    by (simp add: mentions_port_def assms(2))
  then show ?thesis using assms(1,3) by (auto simp: sync_alias_port_def split: option.split)
qed

section \<open>Witnesses\<close>

definition sample_lx :: lc_ctx where
  "sample_lx = \<lparr>lx_fb = sample_fx [], lx_sx = sample_sx, lx_auto = (\<lambda>_. True), lx_meanwhile = (\<lambda>s. s),
     lx_host_build = (\<lambda>s. (Inl build_failure, s)), lx_hooks_found = (\<lambda>_. False), lx_save_fails = (\<lambda>_. False),
     lx_is_dir = (\<lambda>_. True), lx_source_hash = (\<lambda>_. ''h''), lx_remote_commit = (\<lambda>_. None), lx_caddy = True,
     lx_alias_conf = (\<lambda>_ _. None), lx_verify_alias = (\<lambda>_ _ s. (True, s)), lx_restore_alias = (\<lambda>s. s)\<rparr>"

definition with_manifest :: "manifest \<Rightarrow> cd" where
  "with_manifest m = sample_cd\<lparr>cd_mem := m, cd_disk := m\<rparr>"

lemma with_manifest_simps [simp]:
  "cd_disk (with_manifest m) = m" "cd_mem (with_manifest m) = m" "cd_reg (with_manifest m) = sample_reg"
  by (simp_all add: with_manifest_def sample_cd_def Let_def)

lemma sample_revision: "get_revision ''my-site'' sample_reg = Some 1"
  by code_simp

lemma sample_disk_id [simp]: "m_id (cd_disk sample_cd) = ''my-site''" "cd_reg sample_cd = sample_reg"
  by (simp_all add: sample_cd_def Let_def sample_api_def sample_manifest_def)

theorem stale_request_changes_nothing_witness:
  "start_instance sample_lx ''auto-equivalent'' False (Some 7) False sample_cd = (Inl L_revision_conflict, sample_cd)"
  using stale_request_changes_nothing [of sample_cd 7 sample_lx] by (simp add: sample_revision)

theorem unconfirmed_instance_not_started_witness:
  "fst (recover_instance sample_lx (Some 1) (with_manifest (sample_api\<lparr>m_status := PENDING\<rparr>))) = Inl L_pending"
  using unconfirmed_instance_not_started [of "with_manifest (sample_api\<lparr>m_status := PENDING\<rparr>)" "Some 1" sample_lx]
  by (simp add: revision_ok_def sample_revision sample_api_def sample_manifest_def)

definition pinned_cd :: cd where
  "pinned_cd = with_manifest ((cd_disk sample_cd)\<lparr>m_deploymentFingerprints := Some [(''rollbackBuildId'', JInt 1)]\<rparr>)"

lemma pinned_cd_facts:
  "is_deployed_container (cd_disk pinned_cd)" "pinned (m_deploymentFingerprints (cd_disk pinned_cd))"
  "\<not> has_pending_host_build (cd_disk pinned_cd)" "m_status (cd_disk pinned_cd) \<noteq> PENDING"
  by code_simp+

theorem pinned_version_starts_light_witness:
  "\<exists>f t. restart_instance sample_lx None False pinned_cd = followed_by (raising L_deploy (stop_then_start sample_lx)) f t"
  using pinned_version_starts_light [OF pinned_cd_facts, of None sample_lx] by (auto simp: revision_ok_def)

theorem failed_stop_aborts_restart_witness:
  "fst (restart_instance (sample_lx\<lparr>lx_sx := sample_sx\<lparr>sx_stop := \<lambda>d. (False, d)\<rparr>\<rparr>) None False pinned_cd) = Inl (L_deploy (X_error ''stop''))"
proof -
  let ?x = "sample_lx\<lparr>lx_sx := sample_sx\<lparr>sx_stop := \<lambda>d. (False, d)\<rparr>\<rparr>"
  let ?s = "clear_circuit_saved ?x P_circuit (pinned_cd\<lparr>cd_mem := cd_disk pinned_cd\<rparr>)"
  have "deployed_action (lx_sx ?x) ?s = (Inr (Light_start, []), ?s)"
    using pinned_cd_facts(2) by (simp add: deployed_action_def Let_def)
  moreover have "\<not> fst (stop_or_abort (dx_running (lx_dx ?x)) (sx_stop (lx_sx ?x)) True (cd_docker ?s))"
    by code_simp
  then obtain dk where "stop_or_abort (dx_running (lx_dx ?x)) (sx_stop (lx_sx ?x)) True (cd_docker ?s) = (False, dk)"
    by (metis (full_types) prod.collapse)
  ultimately show ?thesis
    using failed_stop_aborts_restart [OF pinned_cd_facts(1,3,4), of None ?x] by (simp add: revision_ok_def)
qed

lemma sample_start: "fst (start_instance sample_lx ''auto-equivalent'' True None False sample_first) = Inr ()"
  by code_simp

theorem successful_start_closes_circuit_witness:
  "\<exists>t. snd (start_instance sample_lx ''auto-equivalent'' True None False sample_first) = t \<and> \<not> is_blocked 0 (cd_mem t)"
  using successful_start_closes_circuit [of sample_lx "''auto-equivalent''" True None False sample_first "()" _ 0] sample_start
  by (cases "start_instance sample_lx ''auto-equivalent'' True None False sample_first") (simp add: sample_lx_def)


definition busy_lx :: lc_ctx where
  "busy_lx = sample_lx\<lparr>lx_meanwhile := (\<lambda>s. s\<lparr>cd_reg := upd_instance ''my-site'' (\<lambda>row. row\<lparr>i_revision := 2\<rparr>) (cd_reg s)\<rparr>)\<rparr>"

definition static_cd :: cd where
  "static_cd = with_manifest (sample_manifest\<lparr>m_status := RUNNING\<rparr>)"

definition busy_work :: "(lc_error + unit) \<times> cd" where
  "busy_work = rebuild_work busy_lx False False None ((lx_meanwhile busy_lx static_cd)\<lparr>cd_mem := cd_disk (lx_meanwhile busy_lx static_cd)\<rparr>)"

lemma busy_work_facts:
  "fst busy_work = Inr ()"
  "cd_reg (snd busy_work) = upd_instance ''my-site'' (\<lambda>row. row\<lparr>i_revision := 2\<rparr>) sample_reg"
  by (simp_all add: busy_work_def rebuild_work_def refuse_pending_start_def static_cd_def with_manifest_def
      sample_manifest_def sample_cd_def Let_def busy_lx_def sample_lx_def warn_stale_def check_source_staleness_def
      clear_circuit_def clear_circuit_saved_def save_quietly_def set_mem_def to_disk_def followed_by_def
      refuse_destructive_hooks_def host_build_armed_def arm_host_build_def run_rebuild_def rebuild_host_def
      sample_fx_def finish_alias_def sync_alias_port_def current_alias_def verify_alias_def)

lemma busy_revision: "get_revision ''my-site'' (cd_reg (snd busy_work)) = Some 2"
proof -
  obtain row where "get_instance ''my-site'' sample_reg = Some row"
    using sample_revision by (auto simp: get_revision_def)
  then show ?thesis by (simp add: busy_work_facts(2) get_revision_def get_upd_instance)
qed

theorem rebuild_revision_outcome_witness:
  "rebuild_instance busy_lx None False False None static_cd = (Inl L_revision_conflict, snd busy_work)"
proof -
  have ok: "reg_ok (cd_reg (snd busy_work))"
    unfolding busy_work_facts(2) by (rule reg_ok_upd_instance [OF reg_ok_sample]) simp_all
  have w: "rebuild_work busy_lx False False None ((lx_meanwhile busy_lx static_cd)\<lparr>cd_mem := cd_disk (lx_meanwhile busy_lx static_cd)\<rparr>)
      = (Inr (), snd busy_work)"
    using busy_work_facts(1) by (metis busy_work_def prod.collapse)
  have i: "''my-site'' = m_id (cd_disk static_cd)" by (simp add: static_cd_def sample_manifest_def)
  have r: "get_revision ''my-site'' (cd_reg static_cd) = Some 1" by (simp add: static_cd_def sample_revision)
  show ?thesis
    using rebuild_revision_outcome [OF r i _ w ok busy_revision, of None] by (simp add: revision_ok_def)
qed

definition moved_cd :: cd where
  "moved_cd = (let m = sample_api\<lparr>m_container := Some (sample_container\<lparr>c_hostPort := Some 1800\<rparr>)\<rparr> in
     put_files [ALIAS_CONF \<mapsto> ''reverse_proxy 127.0.0.1:18001 '' @ ''end''] (sample_cd\<lparr>cd_mem := m\<rparr>))"

theorem alias_port_prefix_is_kept_witness: "sync_alias_port sample_lx moved_cd = moved_cd"
proof (rule alias_port_prefix_is_kept)
  show "resolve_host_port (cd_mem moved_cd) = Some 1800"
    by (simp add: moved_cd_def Let_def put_files_def resolve_host_port_def sample_api_def sample_manifest_def)
  show d: "dec_int 18001 = dec_int 1800 @ ''1''" by (simp add: dec_int_def dec.simps) code_simp
  show "ad_files (cd_dir moved_cd) ALIAS_CONF = Some (''reverse_proxy '' @ ''127.0.0.1:'' @ dec_int 18001 @ '' end'')"
    by (simp add: moved_cd_def Let_def put_files_def dec_int_def dec.simps) code_simp
qed

end
