(* ===== verification/Instance_Lock.thy ===== *)
theory Instance_Lock
  imports Lwa_Numbers Logs
begin

text \<open>
  Models the lock of an instance (\<^verbatim>\<open>lifecycle.py\<close> and \<^verbatim>\<open>file_lock.py\<close>): a reentrant lock for the
  threads of a process, then an exclusive file lock between processes, whose file names the process
  that holds it. The calls of \<^verbatim>\<open>instance_lock\<close> are a machine whose events are the steps between which
  other threads and processes can run. The file is never removed, so there is one file. An error of
  the operating system before the body runs is the event \<open>Abort\<close>, the end of a process is \<open>Die\<close>.
  Times are milliseconds, the texts of times are those that the code writes.
\<close>

section \<open>The text of the lock file\<close>

definition time_text :: "nat \<Rightarrow> string" where
  "time_text ms = dec (ms div 1000) @ ''.'' @ dec (ms mod 1000 div 100) @ dec (ms mod 1000 div 10 mod 10)
     @ dec (ms mod 1000 mod 10)"

definition lock_text :: "string \<Rightarrow> nat \<Rightarrow> string" where
  "lock_text line ms = line @ [LF] @ time_text ms @ [LF]"

definition read_digits :: "string \<Rightarrow> nat option" where
  "read_digits s = (if s \<noteq> [] \<and> list_all is_digit s then Some (digits_val s) else None)"

text \<open>\<open>float(text)\<close> on seconds with three digits after the point, in milliseconds.\<close>

definition read_time :: "string \<Rightarrow> nat option" where
  "read_time s =
     (let t = strip s; b = after_sep CHR ''.'' t in
      case (read_digits (before_sep CHR ''.'' t), read_digits b) of
        (Some n, Some f) \<Rightarrow> if length b = 3 then Some (1000 * n + f) else None
      | _ \<Rightarrow> None)"

text \<open>\<open>_read_lock_payload\<close>: each attempt reads the file once, which may fail.\<close>

fun read_attempts :: "int \<Rightarrow> string option list \<Rightarrow> int \<times> nat" where
  "read_attempts p [] = (p, 0)"
| "read_attempts p (None # rs) = read_attempts p rs"
| "read_attempts p (Some t # rs) =
     (case splitlines (strip t) of
        [] \<Rightarrow> read_attempts p rs
      | l # ls \<Rightarrow>
          (case py_int l of
             None \<Rightarrow> read_attempts p rs
           | Some q \<Rightarrow>
               (case ls of
                  [] \<Rightarrow> read_attempts q rs
                | l2 # _ \<Rightarrow> (case read_time l2 of None \<Rightarrow> read_attempts q rs | Some ms \<Rightarrow> (q, ms)))))"

definition read_lock_payload :: "string option list \<Rightarrow> int \<times> nat" where
  "read_lock_payload = read_attempts 0"

text \<open>A write at the start of the file, and what a reader can find while the payload is written.\<close>

definition overwrite :: "string \<Rightarrow> string \<Rightarrow> string" where
  "overwrite w t = w @ drop (length w) t"

definition payload_or_zero :: "string \<Rightarrow> string" where
  "payload_or_zero w = (if w = [] then ''0'' @ [LF] else w)"

definition payload_writes :: "string \<Rightarrow> string \<Rightarrow> string list" where
  "payload_writes w t = [overwrite (payload_or_zero w) t, payload_or_zero w]"

definition write_lock_payload :: "string \<Rightarrow> string \<Rightarrow> string" where
  "write_lock_payload w t = last (payload_writes w t)"

text \<open>\<open>_touch_lock_heartbeat\<close> keeps the first line.\<close>

definition touch_lock :: "int \<Rightarrow> nat \<Rightarrow> string \<Rightarrow> string" where
  "touch_lock own ms t =
     write_lock_payload (lock_text (case splitlines (strip t) of [] \<Rightarrow> dec_int own | l # _ \<Rightarrow> l) ms) t"

section \<open>What is said about the holder\<close>

definition STALE_LOCK_MS :: nat where "STALE_LOCK_MS = 1800000"

record lock_view =
  lv_reads :: "string option list"
  lv_mtime :: "nat option"
  lv_now :: nat
  lv_alive :: "int \<Rightarrow> bool"

text \<open>\<open>_pid_alive\<close>: no process has an identifier below one.\<close>

definition pid_alive :: "lock_view \<Rightarrow> int \<Rightarrow> bool" where
  "pid_alive v p \<longleftrightarrow> p > 0 \<and> lv_alive v p"

text \<open>The time of the last sign of life: the text of the file, or the time of its last change.\<close>

definition beat_time :: "lock_view \<Rightarrow> nat option" where
  "beat_time v = (let ms = snd (read_lock_payload (lv_reads v)) in if ms = 0 then lv_mtime v else Some ms)"

datatype lock_message = Busy_generic | Holder_gone int | In_progress int nat | Stalled int nat

definition lock_timeout_message :: "lock_view \<Rightarrow> lock_message" where
  "lock_timeout_message v =
     (let p = fst (read_lock_payload (lv_reads v)) in
      case beat_time v of
        None \<Rightarrow> Busy_generic
      | Some ms \<Rightarrow>
          if p = 0 then Busy_generic
          else if \<not> pid_alive v p then Holder_gone p
          else if lv_now v - ms \<le> STALE_LOCK_MS then In_progress p (lv_now v - ms)
          else Stalled p (lv_now v - ms))"

definition lock_is_stale :: "lock_view \<Rightarrow> bool" where
  "lock_is_stale v =
     (let p = fst (read_lock_payload (lv_reads v)) in
      if p \<noteq> 0 \<and> pid_alive v p
      then (case beat_time v of None \<Rightarrow> True | Some ms \<Rightarrow> lv_now v - ms > STALE_LOCK_MS)
      else True)"

section \<open>Taking the lock\<close>

record lock_call =
  ca_pid :: nat
  ca_tid :: nat
  ca_nr :: nat

datatype phase =
    Outside | Opened | Measured bool | Lockable | Locked | Holding | Leaving | Left | Refused | Gone

fun inner :: "phase \<Rightarrow> bool" where
  "inner Outside = False" | "inner Left = False" | "inner Refused = False" | "inner Gone = False"
| "inner _ = True"

text \<open>
  The reentrant lock of each process with its depth, the calls that each thread is in (the innermost
  first), the holder of the file lock, the text of the file and the phase of each call.
\<close>

record lk =
  lk_thread :: "nat \<Rightarrow> (nat \<times> nat) option"
  lk_calls :: "nat \<Rightarrow> nat \<Rightarrow> lock_call list"
  lk_owner :: "lock_call option"
  lk_text :: string
  lk_phase :: "lock_call \<Rightarrow> phase"
  lk_now :: nat

datatype lock_event =
    Enter lock_call | Thread_timeout lock_call | Measure lock_call | Prepare lock_call | Take lock_call | Retry lock_call | Give_up lock_call
  | Abort lock_call | Announce lock_call | Beat lock_call | Unlock lock_call | Leave lock_call | Tick nat | Die nat

definition may_enter :: "lk \<Rightarrow> lock_call \<Rightarrow> bool" where
  "may_enter s c = (case lk_thread s (ca_pid c) of None \<Rightarrow> True | Some (t, _) \<Rightarrow> t = ca_tid c)"

definition enter :: "lock_call \<Rightarrow> lk \<Rightarrow> lk" where
  "enter c s = s\<lparr>
     lk_thread := (lk_thread s)(ca_pid c := Some (ca_tid c,
       Suc (case lk_thread s (ca_pid c) of None \<Rightarrow> 0 | Some (_, n) \<Rightarrow> n))),
     lk_calls := (lk_calls s)(ca_pid c := (lk_calls s (ca_pid c))(ca_tid c := c # lk_calls s (ca_pid c) (ca_tid c))),
     lk_phase := (lk_phase s)(c := Opened)\<rparr>"

text \<open>The end of a call: the file is closed, which gives up its lock, and the thread lock is released.\<close>

definition end_call :: "lock_call \<Rightarrow> phase \<Rightarrow> lk \<Rightarrow> lk" where
  "end_call c p s = s\<lparr>
     lk_thread := (lk_thread s)(ca_pid c := (case lk_thread s (ca_pid c) of
         Some (t, Suc (Suc n)) \<Rightarrow> Some (t, Suc n) | _ \<Rightarrow> None)),
     lk_calls := (lk_calls s)(ca_pid c := (lk_calls s (ca_pid c))(ca_tid c := tl (lk_calls s (ca_pid c) (ca_tid c)))),
     lk_owner := (if lk_owner s = Some c then None else lk_owner s),
     lk_phase := (lk_phase s)(c := p)\<rparr>"

definition innermost :: "lk \<Rightarrow> lock_call \<Rightarrow> bool" where
  "innermost s c \<longleftrightarrow> (case lk_calls s (ca_pid c) (ca_tid c) of [] \<Rightarrow> False | d # _ \<Rightarrow> d = c)"

definition at :: "lk \<Rightarrow> lock_call \<Rightarrow> phase \<Rightarrow> bool" where
  "at s c p \<longleftrightarrow> innermost s c \<and> lk_phase s c = p"

definition move :: "lock_call \<Rightarrow> phase \<Rightarrow> lk \<Rightarrow> lk" where
  "move c p s = s\<lparr>lk_phase := (lk_phase s)(c := p)\<rparr>"

definition guarded :: "bool \<Rightarrow> lk \<Rightarrow> lk option" where
  "guarded b s = (if b then Some s else None)"

fun lock_next :: "lock_event \<Rightarrow> lk \<Rightarrow> lk option" where
  "lock_next (Enter c) s = guarded (lk_phase s c = Outside \<and> may_enter s c) (enter c s)"
| "lock_next (Thread_timeout c) s = guarded (lk_phase s c = Outside \<and> \<not> may_enter s c) (move c Refused s)"
| "lock_next (Measure c) s = guarded (at s c Opened) (move c (Measured (lk_text s = [])) s)"
| "lock_next (Prepare c) s =
     guarded (at s c (Measured True) \<or> at s c (Measured False))
       (move c Lockable (if lk_phase s c = Measured True then s\<lparr>lk_text := overwrite [LF] (lk_text s)\<rparr> else s))"
| "lock_next (Take c) s = guarded (at s c Lockable \<and> lk_owner s = None) (move c Locked (s\<lparr>lk_owner := Some c\<rparr>))"
| "lock_next (Retry c) s = guarded (at s c Lockable \<and> lk_owner s \<noteq> None) (move c Opened s)"
| "lock_next (Give_up c) s = guarded (at s c Lockable \<and> lk_owner s \<noteq> None) (end_call c Refused s)"
| "lock_next (Abort c) s =
     guarded (at s c Opened \<or> at s c (Measured True) \<or> at s c (Measured False) \<or> at s c Lockable \<or> at s c Locked)
       (end_call c Refused s)"
| "lock_next (Announce c) s =
     guarded (at s c Locked)
       (move c Holding (s\<lparr>lk_text := write_lock_payload (lock_text (dec_int (int (ca_pid c))) (lk_now s)) (lk_text s)\<rparr>))"
| "lock_next (Beat c) s =
     guarded (lk_phase s c = Holding \<or> lk_phase s c = Leaving \<or> lk_phase s c = Left)
       (s\<lparr>lk_text := touch_lock (int (ca_pid c)) (lk_now s) (lk_text s)\<rparr>)"
| "lock_next (Unlock c) s = guarded (at s c Holding) (move c Leaving (s\<lparr>lk_owner := None\<rparr>))"
| "lock_next (Leave c) s = guarded (at s c Leaving) (end_call c Left s)"
| "lock_next (Tick n) s = Some (s\<lparr>lk_now := lk_now s + n\<rparr>)"
| "lock_next (Die p) s = Some (s\<lparr>
     lk_thread := (lk_thread s)(p := None), lk_calls := (lk_calls s)(p := \<lambda>_. []),
     lk_owner := (case lk_owner s of None \<Rightarrow> None | Some c \<Rightarrow> if ca_pid c = p then None else Some c),
     lk_phase := (\<lambda>c. if ca_pid c = p then Gone else lk_phase s c)\<rparr>)"

definition lock_start :: "string \<Rightarrow> lk" where
  "lock_start t = \<lparr>lk_thread = (\<lambda>_. None), lk_calls = (\<lambda>_ _. []), lk_owner = None, lk_text = t,
     lk_phase = (\<lambda>_. Outside), lk_now = 0\<rparr>"

fun lock_run :: "lock_event list \<Rightarrow> lk \<Rightarrow> lk option" where
  "lock_run [] s = Some s"
| "lock_run (e # es) s = Option.bind (lock_next e s) (lock_run es)"

inductive lock_steps :: "lk \<Rightarrow> lk \<Rightarrow> bool" where
  Stay: "lock_steps s s"
| Move: "lock_steps s t \<Longrightarrow> lock_next e t = Some u \<Longrightarrow> lock_steps s u"

end
