(* ===== verification/Lock_Facts.thy ===== *)
theory Lock_Facts
  imports Instance_Lock
begin

text \<open>
  The guarantees of the instance lock: at most one call in its body, threads and processes taken
  together; what its file says about the holder; and when the waiting call is told to wait.
\<close>

section \<open>The invariant\<close>

definition calls_ok :: "lk \<Rightarrow> bool" where
  "calls_ok s \<longleftrightarrow> (\<forall>p t c. c \<in> set (lk_calls s p t) \<longleftrightarrow> ca_pid c = p \<and> ca_tid c = t \<and> inner (lk_phase s c))
     \<and> (\<forall>p t. distinct (lk_calls s p t))"

definition thread_ok :: "(nat \<times> nat) option \<Rightarrow> (nat \<Rightarrow> lock_call list) \<Rightarrow> bool" where
  "thread_ok l calls \<longleftrightarrow> (case l of
       None \<Rightarrow> \<forall>t. calls t = []
     | Some (t, n) \<Rightarrow> 0 < n \<and> length (calls t) = n \<and> (\<forall>t'. t' \<noteq> t \<longrightarrow> calls t' = []))"

definition threads_ok :: "lk \<Rightarrow> bool" where
  "threads_ok s \<longleftrightarrow> (\<forall>p. thread_ok (lk_thread s p) (lk_calls s p))"

definition owner_ok :: "lk \<Rightarrow> bool" where
  "owner_ok s \<longleftrightarrow> (\<forall>c. lk_owner s = Some c \<longleftrightarrow> lk_phase s c = Locked \<or> lk_phase s c = Holding)"

definition lk_ok :: "lk \<Rightarrow> bool" where
  "lk_ok s \<longleftrightarrow> calls_ok s \<and> threads_ok s \<and> owner_ok s"

lemma lk_ok_start: "lk_ok (lock_start t)"
  by (simp add: lk_ok_def calls_ok_def threads_ok_def thread_ok_def owner_ok_def lock_start_def)

lemma guarded_Some [simp]: "guarded b s = Some t \<longleftrightarrow> b \<and> t = s"
  by (auto simp: guarded_def)

lemma innermostE:
  assumes "innermost s c"
  obtains cs where "lk_calls s (ca_pid c) (ca_tid c) = c # cs"
  using assms by (auto simp: innermost_def split: list.splits)

lemma move_ok:
  assumes "calls_ok s" "threads_ok s" "inner (lk_phase s c) = inner p"
  shows "calls_ok (move c p s)" "threads_ok (move c p s)"
  using assms by (auto simp: move_def calls_ok_def threads_ok_def)

lemma calls_enter:
  assumes "calls_ok s" "lk_phase s c = Outside"
  shows "calls_ok (enter c s)"
  using assms by (fastforce simp: enter_def calls_ok_def)

lemma threads_enter:
  assumes "threads_ok s" "may_enter s c"
  shows "threads_ok (enter c s)"
  unfolding threads_ok_def
proof
  fix p
  have "thread_ok (lk_thread s p) (lk_calls s p)" using assms(1) by (simp add: threads_ok_def)
  with assms(2) show "thread_ok (lk_thread (enter c s) p) (lk_calls (enter c s) p)"
    by (auto simp: thread_ok_def enter_def may_enter_def split: option.splits prod.splits)
qed

lemma calls_finish:
  assumes "calls_ok s" "innermost s c" "\<not> inner p"
  shows "calls_ok (end_call c p s)"
proof -
  from assms(2) obtain cs where cs: "lk_calls s (ca_pid c) (ca_tid c) = c # cs" by (rule innermostE)
  then have "c \<notin> set cs" using assms(1) by (metis calls_ok_def distinct.simps(2))
  with assms(1,3) cs show ?thesis
    by (auto simp: end_call_def calls_ok_def) (metis distinct.simps(2) list.set_intros(2) set_ConsD)+
qed

lemma thread_ok_Cons:
  assumes "thread_ok l calls" "calls t = c # cs"
  shows "l = Some (t, Suc (length cs)) \<and> (\<forall>t'. t' \<noteq> t \<longrightarrow> calls t' = [])"
proof (cases l)
  case (Some x)
  obtain u n where x: "x = (u, n)" by fastforce
  have "u = t"
  proof (rule ccontr)
    assume "u \<noteq> t"
    with assms Some x show False by (simp add: thread_ok_def)
  qed
  with assms Some x show ?thesis by (auto simp: thread_ok_def)
qed (use assms in \<open>simp add: thread_ok_def\<close>)

lemma threads_finish:
  assumes "threads_ok s" "innermost s c"
  shows "threads_ok (end_call c p s)"
proof -
  from assms(2) obtain cs where cs: "lk_calls s (ca_pid c) (ca_tid c) = c # cs" by (rule innermostE)
  have ok: "thread_ok (lk_thread s q) (lk_calls s q)" for q using assms(1) by (simp add: threads_ok_def)
  have "lk_thread s (ca_pid c) = Some (ca_tid c, Suc (length cs))" "\<And>t. t \<noteq> ca_tid c \<Longrightarrow> lk_calls s (ca_pid c) t = []"
    using thread_ok_Cons [OF ok cs] by auto
  then have "thread_ok (lk_thread (end_call c p s) (ca_pid c)) (lk_calls (end_call c p s) (ca_pid c))"
    using cs by (cases cs) (auto simp: thread_ok_def end_call_def)
  moreover have "thread_ok (lk_thread (end_call c p s) q) (lk_calls (end_call c p s) q)" if "q \<noteq> ca_pid c" for q
    using that ok [of q] by (simp add: end_call_def)
  ultimately show ?thesis unfolding threads_ok_def by metis
qed

lemma finish_owner:
  assumes "owner_ok s" "p \<noteq> Locked" "p \<noteq> Holding"
  shows "owner_ok (end_call c p s)"
proof (cases "lk_owner s = Some c")
  case True
  then have "lk_phase s d = Locked \<or> lk_phase s d = Holding \<longleftrightarrow> d = c" for d
    using assms(1) by (metis option.inject owner_ok_def)
  with True assms(2,3) show ?thesis by (auto simp: end_call_def owner_ok_def)
next
  case False
  with assms show ?thesis by (auto simp: end_call_def owner_ok_def)
qed

lemma finish_ok:
  "lk_ok s \<Longrightarrow> innermost s c \<Longrightarrow> \<not> inner p \<Longrightarrow> lk_ok (end_call c p s)"
  by (auto simp: lk_ok_def intro!: calls_finish threads_finish finish_owner)

lemma text_ok [simp]:
  "lk_ok (s\<lparr>lk_text := t\<rparr>) = lk_ok s" "lk_ok (s\<lparr>lk_now := n\<rparr>) = lk_ok s"
  by (simp_all add: lk_ok_def calls_ok_def threads_ok_def owner_ok_def)

lemma move_lk_ok:
  assumes "lk_ok s" "inner (lk_phase s c) = inner p"
    "(lk_phase s c = Locked \<or> lk_phase s c = Holding) = (p = Locked \<or> p = Holding)"
  shows "lk_ok (move c p s)"
  using assms move_ok [of s c p] by (auto simp: lk_ok_def owner_ok_def move_def)

lemma die_ok:
  assumes "lk_ok s" "lock_next (Die p) s = Some s'"
  shows "lk_ok s'"
proof -
  have s': "lk_thread s' = (lk_thread s)(p := None)" "lk_calls s' = (lk_calls s)(p := \<lambda>_. [])"
    "lk_phase s' = (\<lambda>c. if ca_pid c = p then Gone else lk_phase s c)"
    "lk_owner s' = (case lk_owner s of None \<Rightarrow> None | Some c \<Rightarrow> if ca_pid c = p then None else Some c)"
    using assms(2) by auto
  have "calls_ok s'" using assms(1) by (simp add: s' lk_ok_def calls_ok_def)
  moreover have "threads_ok s'" using assms(1) by (simp add: s' lk_ok_def threads_ok_def thread_ok_def)
  moreover have "owner_ok s'"
    unfolding owner_ok_def
  proof
    fix c
    have "lk_owner s = Some c \<longleftrightarrow> lk_phase s c = Locked \<or> lk_phase s c = Holding"
      using assms(1) by (simp add: lk_ok_def owner_ok_def)
    then show "lk_owner s' = Some c \<longleftrightarrow> lk_phase s' c = Locked \<or> lk_phase s' c = Holding"
      by (cases "lk_owner s") (auto simp: s')
  qed
  ultimately show ?thesis by (simp add: lk_ok_def)
qed

lemma owner_move:
  assumes "lk_ok s" "lk_owner s = None" "lk_phase s c = Lockable"
  shows "lk_ok (move c Locked (s\<lparr>lk_owner := Some c\<rparr>))"
  using assms by (auto simp: lk_ok_def calls_ok_def threads_ok_def owner_ok_def move_def)

lemma owner_drop:
  assumes "lk_ok s" "lk_phase s c = Holding"
  shows "lk_ok (move c Leaving (s\<lparr>lk_owner := None\<rparr>))"
proof -
  have "lk_owner s = Some c" using assms by (simp add: lk_ok_def owner_ok_def)
  with assms show ?thesis by (auto simp: lk_ok_def calls_ok_def threads_ok_def owner_ok_def move_def)
qed

lemma lock_next_ok:
  assumes "lk_ok s" "lock_next e s = Some s'"
  shows "lk_ok s'"
proof (cases e)
  case (Enter c)
  have "owner_ok (enter c s)" using assms Enter by (auto simp: lk_ok_def owner_ok_def enter_def)
  with assms Enter show ?thesis by (auto simp: lk_ok_def intro: calls_enter threads_enter)
next
  case (Die p)
  with assms die_ok show ?thesis by blast
next
  case (Take c)
  with assms show ?thesis by (auto simp: at_def intro: owner_move)
next
  case (Unlock c)
  with assms show ?thesis by (auto simp: at_def intro: owner_drop)
next
  case (Announce c)
  with assms show ?thesis by (auto simp: at_def intro!: move_lk_ok)
next
  case (Prepare c)
  with assms show ?thesis by (auto simp: at_def intro!: move_lk_ok)
qed (use assms in \<open>auto simp: at_def intro!: move_lk_ok finish_ok\<close>)

lemma lock_steps_ok: "lock_steps s s' \<Longrightarrow> lk_ok s \<Longrightarrow> lk_ok s'"
  by (induction rule: lock_steps.induct) (auto intro: lock_next_ok)

lemma lock_run_steps: "lock_run es s = Some t \<Longrightarrow> lock_steps s t"
proof -
  have "lock_run es u = Some t \<Longrightarrow> lock_steps s u \<Longrightarrow> lock_steps s t" for u
    by (induction es arbitrary: u) (auto split: bind_splits intro: lock_steps.intros)
  then show "lock_run es s = Some t \<Longrightarrow> lock_steps s t" using Stay by blast
qed

text \<open>C3: Whatever threads and processes do, at most one call at a time is in its body, and the calls of
  one process that got past the thread lock all belong to one thread.
\<close>

theorem one_holder:
  assumes "lock_steps (lock_start t) s"
  shows "(lk_phase s c = Holding \<and> lk_phase s d = Holding \<longrightarrow> c = d)
    \<and> (inner (lk_phase s c) \<and> inner (lk_phase s d) \<and> ca_pid c = ca_pid d \<longrightarrow> ca_tid c = ca_tid d)"
proof -
  have ok: "lk_ok s" using lock_steps_ok [OF assms lk_ok_start] .
  have o: "lk_phase s x = Holding \<Longrightarrow> lk_owner s = Some x" for x
    using ok by (simp add: lk_ok_def owner_ok_def)
  have n: "inner (lk_phase s x) \<Longrightarrow> lk_calls s (ca_pid x) (ca_tid x) \<noteq> []" for x
    using ok by (metis calls_ok_def empty_iff empty_set lk_ok_def)
  have th: "thread_ok (lk_thread s (ca_pid c)) (lk_calls s (ca_pid c))"
    using ok by (simp add: lk_ok_def threads_ok_def)
  have "ca_tid c = ca_tid d" if "inner (lk_phase s c)" "inner (lk_phase s d)" "ca_pid c = ca_pid d"
    using n [of c] n [of d] th that by (auto simp: thread_ok_def split: option.splits prod.splits) metis
  then show ?thesis using o [of c] o [of d] by auto
qed

section \<open>Nested calls\<close>

text \<open>
  A thread that calls the lock again inside the body: the thread lock lets it pass, the file lock does
  not. The call is the innermost one of its thread and its caller holds the lock.
\<close>

fun waiting :: "phase \<Rightarrow> bool" where
  "waiting Opened = True" | "waiting (Measured _) = True" | "waiting Lockable = True" | "waiting _ = False"

definition waits_inside :: "lock_call \<Rightarrow> lock_call \<Rightarrow> lk \<Rightarrow> bool" where
  "waits_inside c d s \<longleftrightarrow> lk_phase s c = Holding \<and> waiting (lk_phase s d)
     \<and> (\<exists>ds rest. lk_calls s (ca_pid c) (ca_tid c) = ds @ d # rest \<and> c \<in> set rest)"

definition turned_away :: "lock_call \<Rightarrow> lk \<Rightarrow> bool" where
  "turned_away d s \<longleftrightarrow> lk_phase s d = Refused \<or> lk_phase s d = Gone"

lemma turned_away_stays:
  "lock_next e s = Some s' \<Longrightarrow> turned_away d s \<Longrightarrow> turned_away d s'"
  by (cases e) (auto simp: turned_away_def at_def move_def end_call_def enter_def split: if_splits)

lemma only_innermost_moves:
  assumes "lock_next e s = Some s'" "lk_phase s' x \<noteq> lk_phase s x" "inner (lk_phase s x)"
  shows "innermost s x \<or> lk_phase s' x = Gone"
  using assms
  by (cases e) (auto simp: at_def move_def end_call_def enter_def split: if_splits)

lemma waiting_moves:
  assumes "lock_next e s = Some s'" "waiting (lk_phase s d)" "lk_owner s \<noteq> None"
  shows "waiting (lk_phase s' d) \<or> turned_away d s'"
  using assms
  by (cases e) (auto simp: turned_away_def at_def move_def end_call_def enter_def split: if_splits)

lemma calls_change:
  assumes "lock_next e s = Some s'"
  shows "lk_calls s' p t = lk_calls s p t \<or> (\<exists>x. lk_calls s' p t = x # lk_calls s p t)
    \<or> (\<exists>x. lk_calls s p t = x # lk_calls s' p t \<and> innermost s x \<and> \<not> inner (lk_phase s' x)) \<or> e = Die p"
  using assms
  by (cases e) (auto simp: at_def move_def end_call_def enter_def innermost_def split: list.splits if_splits)

lemma nested_step:
  assumes "lk_ok s" "waits_inside c d s" "lock_next e s = Some s'"
  shows "waits_inside c d s' \<or> turned_away d s'"
proof (cases "e = Die (ca_pid c)")
  case True
  have "d \<in> set (lk_calls s (ca_pid c) (ca_tid c))" using assms(2) by (auto simp: waits_inside_def)
  then have "ca_pid d = ca_pid c" using assms(1) by (simp add: lk_ok_def calls_ok_def)
  with True assms(3) show ?thesis by (auto simp: turned_away_def)
next
  case False
  from assms(2) obtain ds rest where calls: "lk_calls s (ca_pid c) (ca_tid c) = ds @ d # rest" "c \<in> set rest"
    and c: "lk_phase s c = Holding" and d: "waiting (lk_phase s d)" by (auto simp: waits_inside_def)
  have "distinct (ds @ d # rest)" using assms(1) calls(1) by (metis calls_ok_def lk_ok_def)
  then have not_c: "\<not> innermost s c" using calls by (cases ds) (auto simp: innermost_def)
  have own: "lk_owner s \<noteq> None" using assms(1) c by (auto simp: lk_ok_def owner_ok_def)
  have c': "lk_phase s' c = Holding"
  proof (rule ccontr)
    assume "\<not> ?thesis"
    with only_innermost_moves [OF assms(3), of c] c not_c have "lk_phase s' c = Gone" by auto
    with assms(3) c False show False
      by (cases e) (auto simp: at_def move_def end_call_def enter_def split: if_splits)
  qed
  show ?thesis
  proof (cases "turned_away d s'")
    case away: False
    with waiting_moves [OF assms(3) d own] have d': "waiting (lk_phase s' d)" by blast
    then have "inner (lk_phase s' d)" by (cases "lk_phase s' d") auto
    with calls_change [OF assms(3), of "ca_pid c" "ca_tid c"] False calls
    have "\<exists>ds' rest'. lk_calls s' (ca_pid c) (ca_tid c) = ds' @ d # rest' \<and> c \<in> set rest'"
      by (cases ds) (auto, (metis append_Cons append_Nil)+)
    with c' d' show ?thesis by (auto simp: waits_inside_def)
  qed simp
qed

text \<open>The thread lock is reentrant, the whole is not: a call inside the body of another call of the
  same thread never gets the lock. As long as the process lives it waits, or it was turned away.
\<close>

theorem nested_call_never_holds:
  assumes "lock_steps (lock_start t) s" "waits_inside c d s" "lock_steps s s'"
  shows "lk_phase s' d \<noteq> Holding \<and> (waits_inside c d s' \<or> turned_away d s')"
proof -
  have ok: "lk_ok s" using lock_steps_ok [OF assms(1) lk_ok_start] .
  have "waits_inside c d s' \<or> turned_away d s'"
    using assms(3,2) ok
  proof (induction rule: lock_steps.induct)
    case (Move s u e v)
    then have "lk_ok u" using lock_steps_ok by blast
    with Move nested_step turned_away_stays show ?case by blast
  qed blast
  then show ?thesis by (auto simp: waits_inside_def turned_away_def)
qed

section \<open>What the file says\<close>

lemma splitlines_line: "list_all (\<lambda>x. \<not> is_break x) w \<Longrightarrow> splitlines (w @ LF # s) = w # splitlines s"
proof (induction w)
  case Nil
  show ?case by (cases s) simp_all
next
  case (Cons c w)
  then have "c \<noteq> CR" using breaks(2) by auto
  obtain x xs where x: "w @ LF # s = x # xs" by (cases w) auto
  with Cons \<open>c \<noteq> CR\<close> have "splitlines (c # x # xs) = cons_line c (w # splitlines s)" by simp
  with x show ?case by (simp add: cons_line_def)
qed

lemma digit_no_break: "is_digit c \<Longrightarrow> \<not> is_break c"
  by (auto simp: is_digit_def is_break_def Let_def)

lemma splitlines_single: "w \<noteq> [] \<Longrightarrow> list_all (\<lambda>x. \<not> is_break x) w \<Longrightarrow> splitlines w = [w]"
proof (induction w)
  case (Cons c w)
  show ?case
  proof (cases w)
    case (Cons d v)
    with Cons.prems have "c \<noteq> CR" using breaks(2) by auto
    with Cons Cons.prems Cons.IH show ?thesis by (simp add: cons_line_def)
  qed (use Cons.prems in simp)
qed simp

lemma rstrip_keep: "u \<noteq> [] \<Longrightarrow> \<not> is_ws (last u) \<Longrightarrow> rstrip (u @ v) = u @ rstrip v"
  by (cases u rule: rev_cases) (auto simp: rstrip_def dropWhile_append)

lemma rstrip_break: "rstrip (LF # v) = [] \<or> (\<exists>r. rstrip (LF # v) = LF # r)"
  by (auto simp: rstrip_def dropWhile_append) (metis rev_rev_ident)

lemma lstrip_keep: "u \<noteq> [] \<Longrightarrow> \<not> is_ws (hd u) \<Longrightarrow> lstrip (u @ v) = u @ v"
  by (cases u) (auto simp: lstrip_def)

lemma strip_keep:
  assumes "u \<noteq> []" "\<not> is_ws (hd u)" "\<not> is_ws (last u)"
  shows "strip (u @ v) = u @ rstrip v"
  using assms rstrip_keep [of u v] lstrip_keep [of u v] lstrip_keep [of u "rstrip v"] by (simp add: strip_def)

lemma lf_ws: "is_ws LF"
  by code_simp

lemma digits_line:
  assumes "list_all is_digit w" "w \<noteq> []"
  shows "py_int w = Some (int (digits_val w))" "list_all (\<lambda>x. \<not> is_break x) w" "\<not> is_ws (hd w)" "\<not> is_ws (last w)"
proof -
  have "CHR ''_'' \<notin> set w" "CHR ''-'' \<notin> set w" "CHR ''+'' \<notin> set w"
    using assms(1) by (auto simp: list_all_iff is_digit_def)
  moreover have "py_digits w = Some (digits_val w)"
    using assms \<open>CHR ''_'' \<notin> set w\<close> by (simp add: py_digits_def split_on_no_sep)
  ultimately show "py_int w = Some (int (digits_val w))"
    using assms strip_digits [OF assms(1)] by (cases w) (auto simp: py_int_def)
  show "list_all (\<lambda>x. \<not> is_break x) w" using assms(1) digit_no_break by (auto simp: list_all_iff)
  show "\<not> is_ws (hd w)" "\<not> is_ws (last w)"
    using assms digit_not_ws by (auto simp: list_all_iff)
qed

lemma dec_digit: "n < 10 \<Longrightarrow> dec n = [char_of (48 + n)]"
  by (simp add: dec.simps)

lemma three_digits:
  assumes "a < 10" "b < 10" "c < 10"
  shows "length (dec a @ dec b @ dec c) = 3" "list_all is_digit (dec a @ dec b @ dec c)"
    "digits_val (dec a @ dec b @ dec c) = 100 * a + 10 * b + c"
proof -
  show "length (dec a @ dec b @ dec c) = 3" "list_all is_digit (dec a @ dec b @ dec c)"
    using assms by (simp_all add: dec_digit)
  have "digits_val ((([] @ [char_of (48 + a)]) @ [char_of (48 + b)]) @ [char_of (48 + c)]) = 100 * a + 10 * b + c"
    using assms unfolding digits_val_snoc by (simp add: digits_val_def)
  with assms show "digits_val (dec a @ dec b @ dec c) = 100 * a + 10 * b + c" by (simp add: dec_digit)
qed

lemma time_text_shape:
  "time_text ms \<noteq> []" "\<not> is_ws (hd (time_text ms))" "\<not> is_ws (last (time_text ms))"
  "list_all (\<lambda>x. \<not> is_break x) (time_text ms)"
proof -
  have d: "list_all (\<lambda>x. \<not> is_break x) (dec n)" for n using digits_line(2) dec_digits by simp
  have "\<not> is_break CHR ''.''" by code_simp
  then show "list_all (\<lambda>x. \<not> is_break x) (time_text ms)" using d by (simp add: time_text_def)
  show "time_text ms \<noteq> []" by (simp add: time_text_def)
  show "\<not> is_ws (hd (time_text ms))" "\<not> is_ws (last (time_text ms))"
    using digits_line(3,4) dec_digits by (simp_all add: time_text_def)
qed

lemma after_sep_append: "c \<notin> set w \<Longrightarrow> after_sep c (w @ c # s) = s"
  by (induction w) (auto simp: after_sep_def)

lemma read_time_parts:
  assumes "strip t = t" "before_sep CHR ''.'' t = a" "after_sep CHR ''.'' t = b" "list_all is_digit a" "a \<noteq> []"
    "list_all is_digit b" "length b = 3"
  shows "read_time t = Some (1000 * digits_val a + digits_val b)"
proof -
  have "b \<noteq> []" using assms(7) by auto
  with assms show ?thesis by (simp add: read_time_def Let_def read_digits_def)
qed

lemma read_time_text [simp]: "read_time (time_text ms) = Some ms"
proof -
  let ?a = "ms div 1000" and ?f = "ms mod 1000"
  let ?b = "dec (?f div 100) @ dec (?f div 10 mod 10) @ dec (?f mod 10)"
  have s: "strip (time_text ms) = time_text ms"
    using strip_keep [OF time_text_shape(1-3), of ms "[]"] by (simp add: rstrip_def)
  have dot: "CHR ''.'' \<notin> set (dec ?a)" by (rule dec_no_sep) code_simp
  have small: "?f div 100 < 10" "?f div 10 mod 10 < 10" "?f mod 10 < 10" by auto
  have "?f div 100 = ?f div 10 div 10" by (simp add: div_mult2_eq [symmetric])
  then have "100 * (?f div 100) + 10 * (?f div 10 mod 10) = 10 * (?f div 10)"
    using mult_div_mod_eq [of 10 "?f div 10"] by linarith
  then have sum: "100 * (?f div 100) + 10 * (?f div 10 mod 10) + ?f mod 10 = ?f"
    using mult_div_mod_eq [of 10 "?f"] by linarith
  have b: "length ?b = 3" "list_all is_digit ?b" "digits_val ?b = ?f"
    using three_digits [OF small] sum by simp_all
  have "before_sep CHR ''.'' (time_text ms) = dec ?a" "after_sep CHR ''.'' (time_text ms) = ?b"
    using dot by (simp_all add: time_text_def after_sep_append)
  from read_time_parts [OF s this(1,2) dec_digits dec_nonempty b(2,1)] b(3)
  show ?thesis by (simp only: digits_val_dec mult_div_mod_eq)
qed

lemma read_lock_text:
  assumes "list_all is_digit w" "w \<noteq> []"
  shows "read_lock_payload [Some (lock_text w ms @ rest)] = (int (digits_val w), ms)"
proof -
  let ?u = "w @ LF # time_text ms"
  have "strip (?u @ LF # rest) = ?u @ rstrip (LF # rest)"
    using digits_line [OF assms] time_text_shape assms(2) by (intro strip_keep) simp_all
  moreover have "splitlines ((w @ LF # time_text ms) @ rstrip (LF # rest)) = w # splitlines (time_text ms @ rstrip (LF # rest))"
    using splitlines_line [OF digits_line(2) [OF assms], of "time_text ms @ rstrip (LF # rest)"] by simp
  moreover have "\<exists>ls. splitlines (time_text ms @ rstrip (LF # rest)) = time_text ms # ls"
    using rstrip_break [of rest] splitlines_single [OF time_text_shape(1,4)] splitlines_line [OF time_text_shape(4)] by auto
  ultimately show ?thesis
    using digits_line(1) [OF assms] by (auto simp: read_lock_payload_def lock_text_def)
qed

lemma lock_text_nonempty [simp]: "lock_text w ms \<noteq> []"
  by (simp add: lock_text_def)

lemma write_lock_text [simp]: "write_lock_payload (lock_text w ms) t = lock_text w ms"
  by (simp add: write_lock_payload_def payload_writes_def payload_or_zero_def)

text \<open>Whenever the file is read while its holder writes, the reader finds the holder and the time of
  the write: the old text is covered before the file is cut.
\<close>

theorem torn_payload_readable:
  assumes "seen \<in> set (payload_writes (lock_text (dec p) ms) old)"
  shows "read_lock_payload [Some seen] = (int p, ms)"
  using assms read_lock_text [OF dec_digits [of p] dec_nonempty, of ms] read_lock_text [OF dec_digits [of p] dec_nonempty, of ms "[]"]
  by (auto simp: payload_writes_def payload_or_zero_def overwrite_def)

section \<open>Whom the file names\<close>

lemma first_line_lock_text:
  assumes "list_all is_digit w" "w \<noteq> []"
  shows "\<exists>ls. splitlines (strip (lock_text w ms)) = w # ls"
proof -
  have "read_lock_payload [Some (lock_text w ms @ [])] = (int (digits_val w), ms)" using read_lock_text [OF assms] .
  let ?u = "w @ LF # time_text ms"
  have "strip (?u @ LF # []) = ?u @ rstrip (LF # [])"
    using digits_line [OF assms] time_text_shape assms(2) by (intro strip_keep) simp_all
  moreover have "rstrip [LF] = []" using lf_ws by (simp add: rstrip_def)
  ultimately have "strip (lock_text w ms) = w @ LF # time_text ms" by (simp add: lock_text_def)
  then show ?thesis using splitlines_line [OF digits_line(2) [OF assms]] by auto
qed

lemma touch_keeps_line:
  assumes "list_all is_digit w" "w \<noteq> []"
  shows "touch_lock own now (lock_text w ms) = lock_text w now"
  using first_line_lock_text [OF assms, of ms] by (auto simp: touch_lock_def)

lemma touch_nonempty: "touch_lock own now t \<noteq> []"
  by (simp add: touch_lock_def)

text \<open>With a file that is not empty nobody writes a placeholder.\<close>

definition text_ok :: "lk \<Rightarrow> bool" where
  "text_ok s \<longleftrightarrow> lk_text s \<noteq> [] \<and> (\<forall>c. lk_phase s c \<noteq> Measured True)
     \<and> (\<forall>c. lk_phase s c = Holding \<longrightarrow> (\<exists>ms. lk_text s = lock_text (dec (ca_pid c)) ms))"

lemma text_ok_phase:
  assumes "text_ok s" "p \<noteq> Measured True" "p \<noteq> Holding"
  shows "text_ok (move c p s)" "text_ok (end_call c p s)" "p = Opened \<Longrightarrow> text_ok (enter c s)"
  using assms by (simp_all add: text_ok_def move_def end_call_def enter_def)

lemma text_ok_unused [simp]:
  "text_ok (s\<lparr>lk_owner := x\<rparr>) = text_ok s" "text_ok (s\<lparr>lk_now := n\<rparr>) = text_ok s"
  by (simp_all add: text_ok_def)

lemma text_ok_beat:
  assumes "text_ok s"
  shows "text_ok (s\<lparr>lk_text := touch_lock own now (lk_text s)\<rparr>)"
proof -
  have "\<exists>ms. touch_lock own now (lk_text s) = lock_text (dec (ca_pid c)) ms" if h: "lk_phase s c = Holding" for c
  proof -
    obtain ms where "lk_text s = lock_text (dec (ca_pid c)) ms" using assms h by (auto simp: text_ok_def)
    then show ?thesis using touch_keeps_line [OF dec_digits dec_nonempty] by auto
  qed
  with assms show ?thesis by (simp add: text_ok_def touch_nonempty)
qed

lemma text_ok_announce:
  assumes "lk_ok s" "text_ok s" "lk_phase s c = Locked"
  shows "text_ok (move c Holding (s\<lparr>lk_text := lock_text (dec (ca_pid c)) ms\<rparr>))"
proof -
  have own: "lk_owner s = Some c" using assms(1,3) by (simp add: lk_ok_def owner_ok_def)
  have "lk_phase s d \<noteq> Holding" if "d \<noteq> c" for d
    using assms(1) own that by (metis lk_ok_def option.inject owner_ok_def)
  with assms(2) show ?thesis by (auto simp: text_ok_def move_def)
qed

lemma text_ok_step:
  assumes "lk_ok s" "text_ok s" "lock_next e s = Some s'"
  shows "text_ok s'"
proof (cases e)
  case (Announce c)
  with assms show ?thesis by (auto simp: at_def dec_int_def intro: text_ok_announce)
next
  case (Beat c)
  with assms show ?thesis by (auto intro: text_ok_beat)
next
  case (Prepare c)
  have "lk_phase s c \<noteq> Measured True" using assms(2) by (simp add: text_ok_def)
  with Prepare assms show ?thesis by (auto intro: text_ok_phase)
next
  case (Measure c)
  have "lk_text s \<noteq> []" using assms(2) by (simp add: text_ok_def)
  with Measure assms show ?thesis by (auto intro: text_ok_phase)
next
  case (Die p)
  with assms show ?thesis by (auto simp: text_ok_def split: if_splits)
qed (use assms in \<open>auto intro: text_ok_phase\<close>)


lemma digits_val_Cons: "digits_val (c # s) = digit_val c * 10 ^ length s + digits_val s"
  by (induction s rule: rev_induct) (simp_all add: digits_val_def algebra_simps)

lemma tail_smaller:
  assumes "10 \<le> p"
  shows "digits_val (tl (dec p)) < p" "tl (dec p) \<noteq> []" "list_all is_digit (tl (dec p))"
proof -
  obtain c w where cw: "dec p = c # w" by (cases "dec p") simp_all
  have p: "digit_val c * 10 ^ length w + digits_val w = p"
    using digits_val_dec [of p] cw by (simp add: digits_val_Cons)
  have "is_digit c" "list_all is_digit w" using dec_digits [of p] cw by simp_all
  moreover have "c \<noteq> CHR ''0''" using hd_dec [of p] cw assms by auto
  moreover have "(of_char c :: nat) \<noteq> of_char CHR ''0''" using \<open>c \<noteq> CHR ''0''\<close> unfolding of_char_eq_iff .
  ultimately have "0 < digit_val c" by (auto simp: is_digit_def digit_val_def Let_def)
  then have "0 < digit_val c * 10 ^ length w" by simp
  with p have "digits_val w < p" by linarith
  with cw show "digits_val (tl (dec p)) < p" by simp
  show "list_all is_digit (tl (dec p))" using cw \<open>list_all is_digit w\<close> by simp
  show "tl (dec p) \<noteq> []" using assms by (subst dec.simps) (auto simp: neq_Nil_conv dec_nonempty dest: sym)
qed

definition first_call :: "nat \<Rightarrow> lock_call" where
  "first_call p = \<lparr>ca_pid = p, ca_tid = 0, ca_nr = 0\<rparr>"

definition placeholder_race :: "nat \<Rightarrow> nat \<Rightarrow> lock_event list" where
  "placeholder_race q p = (let a = first_call q; b = first_call p in
     [Enter a, Measure a, Enter b, Measure b, Prepare b, Take b, Announce b, Prepare a, Beat b])"

lemma placeholder_race_runs:
  assumes "q \<noteq> p"
  shows "\<exists>s. lock_run (placeholder_race q p) (lock_start []) = Some s \<and> lk_phase s (first_call p) = Holding
    \<and> lk_text s = touch_lock (int p) 0 (overwrite [LF] (lock_text (dec p) 0))"
  using assms
  by (simp add: placeholder_race_def Let_def guarded_def at_def innermost_def enter_def move_def may_enter_def
      lock_start_def first_call_def dec_int_def)

text \<open>C17: While the file is still empty this fails: a process that found it empty can write its placeholder
  over the first digit of the process that has got the lock meanwhile. The file then names another
  process than the holder, and the heartbeats of the holder repeat the wrong number.
\<close>

theorem placeholder_hides_holder:
  assumes "10 \<le> p" "q \<noteq> p"
  shows "\<exists>s. lock_run (placeholder_race q p) (lock_start []) = Some s \<and> lk_phase s (first_call p) = Holding
    \<and> fst (read_lock_payload [Some (lk_text s)]) = int (digits_val (tl (dec p))) \<and> digits_val (tl (dec p)) < p"
proof -
  let ?w = "tl (dec p)"
  have w: "list_all is_digit ?w" "?w \<noteq> []" "digits_val ?w < p" using tail_smaller [OF assms(1)] by auto
  have "overwrite [LF] (lock_text (dec p) 0) = LF # lock_text ?w 0"
    by (cases "dec p") (simp_all add: overwrite_def lock_text_def)
  moreover have "strip (LF # lock_text ?w 0) = strip (lock_text ?w 0)"
    using lf_ws by (simp add: strip_def lstrip_def)
  ultimately have "touch_lock (int p) 0 (overwrite [LF] (lock_text (dec p) 0)) = lock_text ?w 0"
    using first_line_lock_text [OF w(1,2), of 0] by (auto simp: touch_lock_def)
  with placeholder_race_runs [OF assms(2)] read_lock_text [OF w(1,2), of 0 "[]"] w(3) show ?thesis by auto
qed

section \<open>What a waiting call is told\<close>

text \<open>The message to a call that waited in vain agrees with the observation of staleness: it asks to
  wait exactly when the lock is not stale. That the holder hangs is said only of a living process
  whose last sign of life is older than the limit, that it has ended only of a dead one.
\<close>

theorem message_agrees_with_staleness:
  "((\<exists>p age. lock_timeout_message v = In_progress p age) \<longleftrightarrow> \<not> lock_is_stale v)
   \<and> (\<forall>p age. lock_timeout_message v = Stalled p age \<longrightarrow> pid_alive v p \<and> age > STALE_LOCK_MS)
   \<and> (\<forall>p. lock_timeout_message v = Holder_gone p \<longrightarrow> \<not> pid_alive v p)"
  by (auto simp: lock_timeout_message_def lock_is_stale_def pid_alive_def Let_def split: option.splits if_splits)

section \<open>Witnesses\<close>

definition sample_call :: "nat \<Rightarrow> lock_call" where
  "sample_call n = \<lparr>ca_pid = 3, ca_tid = 1, ca_nr = n\<rparr>"

definition hold_events :: "lock_event list" where
  "hold_events = (let c = sample_call 0 in [Enter c, Measure c, Prepare c, Take c, Announce c])"

definition nest_events :: "lock_event list" where
  "nest_events = hold_events @ [Enter (sample_call 1)]"

lemma sample_runs:
  "\<exists>s. lock_run hold_events (lock_start ''0'') = Some s \<and> lk_phase s (sample_call 0) = Holding"
  "\<exists>s. lock_run nest_events (lock_start ''0'') = Some s \<and> waits_inside (sample_call 0) (sample_call 1) s"
  by (simp_all add: nest_events_def hold_events_def Let_def guarded_def at_def innermost_def enter_def move_def
      may_enter_def lock_start_def sample_call_def waits_inside_def) (rule exI [of _ "[]"], simp)

theorem one_holder_witness:
  "\<exists>s. lock_steps (lock_start ''0'') s \<and> lk_phase s (sample_call 0) = Holding
     \<and> (lk_phase s (sample_call 1) = Holding \<longrightarrow> sample_call 0 = sample_call 1)"
  using sample_runs(1) lock_run_steps one_holder by blast

theorem nested_call_never_holds_witness:
  "\<exists>s. lock_steps (lock_start ''0'') s \<and> lk_phase s (sample_call 1) \<noteq> Holding \<and> lk_phase s (sample_call 0) = Holding"
proof -
  obtain s where s: "lock_steps (lock_start ''0'') s" "waits_inside (sample_call 0) (sample_call 1) s"
    using sample_runs(2) lock_run_steps by blast
  from nested_call_never_holds [OF s Stay] s show ?thesis by (auto simp: waits_inside_def)
qed

theorem torn_payload_readable_witness:
  "read_lock_payload [Some (lock_text (dec 7) 5 @ [LF])] = (7, 5)"
  by (rule torn_payload_readable [of _ 7 5 "lock_text (dec 7) 5 @ [LF]", simplified])
    (simp add: payload_writes_def payload_or_zero_def overwrite_def)


theorem placeholder_hides_holder_witness:
  "\<exists>s :: lk. lk_phase s (first_call 12345) = Holding \<and> fst (read_lock_payload [Some (lk_text s)]) < 12345"
proof -
  have large: "10 \<le> (12345 :: nat)" "7 \<noteq> (12345 :: nat)" by simp_all
  obtain s :: lk where "lk_phase s (first_call 12345) = Holding"
    "fst (read_lock_payload [Some (lk_text s)]) = int (digits_val (tl (dec 12345)))" "digits_val (tl (dec 12345)) < 12345"
    using placeholder_hides_holder [OF large] by blast
  then show ?thesis by (intro exI [of _ s]) linarith
qed

theorem message_agrees_with_staleness_witness:
  "lock_is_stale \<lparr>lv_reads = [], lv_mtime = None, lv_now = 0, lv_alive = (\<lambda>_. True)\<rparr>"
  using message_agrees_with_staleness [of "\<lparr>lv_reads = [], lv_mtime = None, lv_now = 0, lv_alive = (\<lambda>_. True)\<rparr>"]
  by (auto simp: lock_timeout_message_def beat_time_def read_lock_payload_def Let_def)

end
