(* ===== verification/Removal.thy ===== *)
theory Removal
  imports Lifecycle
begin

text \<open>
  Models the removal of instances of \<^verbatim>\<open>lifecycle.py\<close>: \<open>remove_instance\<close> with its guards, stages and
  events, and the cleaning of redundant instances, which come from the same archive. The state has
  the registry, the directory of every instance and the counters of its page views. Parameters: the
  gateway's clean-up, the removal of images and of directory trees, and the fingerprint of an
  archive. Two fields of the manifest that only this component reads stand beside it.
\<close>

section \<open>State\<close>

record app =
  ap_manifest :: "manifest option"
  ap_acknowledged :: bool
  ap_base_from_alias :: bool
  ap_zip :: "string option"
  ap_files :: app_dir
  ap_docker :: docker
  ap_data :: bool
  ap_present :: bool

record world =
  wd_reg :: reg
  wd_app :: "string \<Rightarrow> app"
  wd_views :: "string \<Rightarrow> bool"

text \<open>A deletion that fails may have deleted a part.\<close>

datatype tree_answer = Tree_gone | Tree_error app | Tree_left app

record rm_ctx =
  rx_sx :: start_ctx
  rx_disable :: "string \<Rightarrow> app_dir \<Rightarrow> bool \<times> app_dir"
  rx_cleanup :: "string \<Rightarrow> app_dir \<Rightarrow> bool \<times> app_dir"
  rx_untag :: "string \<Rightarrow> docker \<Rightarrow> docker"
  rx_views_fail :: bool
  rx_outside :: "string \<Rightarrow> bool"
  rx_rmtree :: "string \<Rightarrow> app \<Rightarrow> tree_answer"

datatype reason =
    Unreadable | Active | Acknowledged | Has_alias | Has_build_env | Has_build_hooks | Has_system_deps
  | Has_pre_start | Not_redundant

datatype rm_error = R_redundant "reason list" | R_data_nonempty | R_outside | R_rmtree

definition rx_dx :: "rm_ctx \<Rightarrow> deploy_ctx" where "rx_dx x = sx_dx (rx_sx x)"

definition set_app :: "string \<Rightarrow> app \<Rightarrow> world \<Rightarrow> world" where
  "set_app i a w = w\<lparr>wd_app := (wd_app w)(i := a)\<rparr>"

definition upd_reg :: "(reg \<Rightarrow> reg_error + 'a \<times> reg) \<Rightarrow> world \<Rightarrow> world" where
  "upd_reg f w = w\<lparr>wd_reg := commit (f (wd_reg w)) (wd_reg w)\<rparr>"

section \<open>Redundant instances\<close>

definition QUIET_STATES :: "string list" where
  "QUIET_STATES = [''stopped'', ''pending'', ''failed'', ''cancelled'']"

definition redundant_state_reasons :: "world \<Rightarrow> string \<Rightarrow> reason list" where
  "redundant_state_reasons w i =
     (let row_state = (case get_instance i (wd_reg w) of None \<Rightarrow> ''unknown''
            | Some r \<Rightarrow> if i_status r = [] then ''unknown'' else i_status r) in
      case ap_manifest (wd_app w i) of
        None \<Rightarrow> [Unreadable]
      | Some m \<Rightarrow>
          if m_desiredState m = DESIRED_RUNNING
             \<or> \<not> (row_state \<in> set QUIET_STATES \<and> status_value (m_status m) \<in> set QUIET_STATES) then [Active]
          else if ap_acknowledged (wd_app w i) then [Acknowledged] else [])"

definition redundant_config_loss_reasons :: "world \<Rightarrow> string \<Rightarrow> reason list" where
  "redundant_config_loss_reasons w i =
     (case ap_manifest (wd_app w i) of
        None \<Rightarrow> []
      | Some m \<Rightarrow>
          (if current_alias m \<noteq> None then [Has_alias] else [])
          @ (if (case m_buildEnv m of None \<Rightarrow> False | Some e \<Rightarrow> e \<noteq> []) \<or> ap_base_from_alias (wd_app w i)
             then [Has_build_env] else [])
          @ (if m_buildHooks m \<noteq> [] then [Has_build_hooks] else [])
          @ (if m_systemDeps m \<noteq> [] then [Has_system_deps] else [])
          @ (if truthy (m_preStart m) then [Has_pre_start] else []))"

text \<open>The groups of one archive, in the order of their first member, without that member.\<close>

definition zip_of :: "world \<Rightarrow> inst_row \<Rightarrow> string option" where
  "zip_of w r = ap_zip (wd_app w (i_id r))"

definition same_zip :: "world \<Rightarrow> string \<Rightarrow> inst_row list" where
  "same_zip w fp = filter (\<lambda>r. zip_of w r = Some fp) (list_instances (wd_reg w))"

definition archive_fingerprints :: "world \<Rightarrow> string list" where
  "archive_fingerprints w = rev (remdups (rev (List.map_filter (zip_of w) (list_instances (wd_reg w)))))"

record redundant =
  rd_id :: string
  rd_keeper :: string
  rd_skip :: "reason list"
  rd_loss :: "reason list"

definition redundant_of :: "world \<Rightarrow> string \<Rightarrow> (string \<times> redundant) list" where
  "redundant_of w fp =
     (case same_zip w fp of
        [] \<Rightarrow> []
      | keeper # others \<Rightarrow>
          map (\<lambda>r. (i_created_at r, \<lparr>rd_id = i_id r, rd_keeper = i_id keeper,
                 rd_skip = redundant_state_reasons w (i_id r), rd_loss = redundant_config_loss_reasons w (i_id r)\<rparr>))
            (filter (\<lambda>r. \<not> (ap_manifest (wd_app w (i_id r)) \<noteq> None \<and> ap_acknowledged (wd_app w (i_id r)))) others))"

definition list_redundant_instances :: "world \<Rightarrow> redundant list" where
  "list_redundant_instances w = map snd (sort_key fst (concat (map (redundant_of w) (archive_fingerprints w))))"

definition still_redundant :: "world \<Rightarrow> string \<Rightarrow> string option \<Rightarrow> bool" where
  "still_redundant w i witness =
     (let listed = i \<in> set (map rd_id (list_redundant_instances w)) in
      case witness of
        None \<Rightarrow> listed
      | Some k \<Rightarrow>
          if k = i then False
          else if ap_zip (wd_app w i) = None then False
          else if ap_zip (wd_app w k) = ap_zip (wd_app w i) \<and> get_instance k (wd_reg w) \<noteq> None then True
          else listed)"

section \<open>Removing an instance\<close>

definition bool_text :: "bool \<Rightarrow> string" where
  "bool_text b = (if b then ''true'' else ''false'')"

definition stage_text :: "string \<Rightarrow> string \<Rightarrow> string \<Rightarrow> bool \<Rightarrow> bool \<Rightarrow> string \<Rightarrow> string" where
  "stage_text i st result purge force detail =
     ''remove stage='' @ st @ '' instance='' @ i @ '' purge='' @ bool_text purge @ '' force='' @ bool_text force
     @ '' result='' @ result @ (if detail = [] then [] else '' detail='' @ detail)"

record rm_call =
  rc_id :: string
  rc_purge :: bool
  rc_force :: bool

definition log_stage :: "rm_ctx \<Rightarrow> rm_call \<Rightarrow> string \<Rightarrow> string \<Rightarrow> string \<Rightarrow> world \<Rightarrow> world" where
  "log_stage x c st result detail = upd_reg (add_event None ''remove_stage''
     (stage_text (rc_id c) st result (rc_purge c) (rc_force c) detail) None (dx_now (rx_dx x)))"

definition deployment_of :: "world \<Rightarrow> string \<Rightarrow> manifest \<Rightarrow> cd" where
  "deployment_of w i m = (let a = wd_app w i in
     \<lparr>cd_dir = ap_files a, cd_docker = ap_docker a, cd_reg = wd_reg w, cd_mem = m, cd_disk = m, cd_build = 0,
      cd_kind = [], cd_txn = False, cd_port = 0, cd_fresh = False, cd_old_stopped = False, cd_stop_aborted = False,
      cd_up_completed = False, cd_settled = False,
      cd_verified = \<lparr>ve_failed = False, ve_degraded = False, ve_liveness = False\<rparr>\<rparr>)"

definition stop_step :: "rm_ctx \<Rightarrow> rm_call \<Rightarrow> manifest \<Rightarrow> world \<Rightarrow> world" where
  "stop_step x c m w =
     (let i = rc_id c; (r, s) = stop_instance (rx_sx x) (deployment_of w i m);
          w1 = set_app i ((wd_app w i)\<lparr>ap_manifest := Some (cd_disk s), ap_files := cd_dir s, ap_docker := cd_docker s\<rparr>)
                 (w\<lparr>wd_reg := cd_reg s\<rparr>) in
      case r of Inr _ \<Rightarrow> log_stage x c ''stop'' ''ok'' [] w1 | Inl _ \<Rightarrow> log_stage x c ''stop'' ''warn'' ''error'' w1)"

definition down_step :: "rm_ctx \<Rightarrow> rm_call \<Rightarrow> string \<Rightarrow> world \<Rightarrow> world" where
  "down_step x c detail w =
     (let i = rc_id c; a = wd_app w i; (ok, dk) = dx_down (rx_dx x) (ap_docker a);
          w1 = set_app i (a\<lparr>ap_docker := dk\<rparr>) w in
      if ok then log_stage x c ''compose_down'' ''ok'' detail w1 else log_stage x c ''compose_down'' ''warn'' ''error'' w1)"

definition untag_step :: "rm_ctx \<Rightarrow> rm_call \<Rightarrow> string list \<Rightarrow> world \<Rightarrow> world" where
  "untag_step x c refs w =
     (if \<not> rc_purge c then w
      else (let a = wd_app w (rc_id c) in set_app (rc_id c) (a\<lparr>ap_docker := fold (rx_untag x) refs (ap_docker a)\<rparr>) w))"

definition gateway_step :: "(string \<Rightarrow> app_dir \<Rightarrow> bool \<times> app_dir) \<Rightarrow> string \<Rightarrow> world \<Rightarrow> bool \<times> world" where
  "gateway_step f i w = (let a = wd_app w i; (ok, d) = f i (ap_files a) in (ok, set_app i (a\<lparr>ap_files := d\<rparr>) w))"

text \<open>The image that the manifest names is tried once more after the registered ones.\<close>

definition image_refs :: "string \<Rightarrow> manifest option \<Rightarrow> world \<Rightarrow> string list" where
  "image_refs i m w = iter_instance_image_refs i m (wd_reg w)
     @ (case Option.bind m m_container of None \<Rightarrow> []
        | Some k \<Rightarrow> (case or_else (c_imageId k) (c_image k) of None \<Rightarrow> [] | Some r \<Rightarrow> if r = [] then [] else [r]))"

definition release_known :: "rm_ctx \<Rightarrow> rm_call \<Rightarrow> manifest \<Rightarrow> world \<Rightarrow> world" where
  "release_known x c m w =
     (let w1 = stop_step x c m w in
      if m_runtime m \<noteq> DOCKER_COMPOSE then log_stage x c ''compose_down'' ''skip'' ''not docker-compose'' w1
      else (let w2 = down_step x c [] w1 in untag_step x c (image_refs (rc_id c) (Some m) w2) w2))"

text \<open>Without a readable manifest the runtime in the registry decides.\<close>

definition release_unknown :: "rm_ctx \<Rightarrow> rm_call \<Rightarrow> string option \<Rightarrow> world \<Rightarrow> world" where
  "release_unknown x c runtime w =
     (if runtime = Some ''docker-compose''
      then (let w1 = down_step x c ''registry fallback'' w in
        log_stage x c ''stop'' ''skip'' ''no manifest; compose down used''
          (untag_step x c (image_refs (rc_id c) None w1) w1))
      else if runtime = Some ''shared-static''
      then (let (ok, w1) = gateway_step (rx_disable x) (rc_id c) w in
        log_stage x c ''compose_down'' ''skip'' ''shared-static''
          (log_stage x c ''stop'' (if ok then ''ok'' else ''warn'') ''registry fallback'' w1))
      else log_stage x c ''compose_down'' ''skip'' ''no manifest or runtime''
             (log_stage x c ''stop'' ''skip'' ''no manifest or runtime'' w))"

definition alias_step :: "rm_ctx \<Rightarrow> rm_call \<Rightarrow> world \<Rightarrow> world" where
  "alias_step x c w =
     (let had = ad_files (ap_files (wd_app w (rc_id c))) ALIAS_CONF \<noteq> None;
          (ok, w1) = gateway_step (rx_cleanup x) (rc_id c) w in
      if \<not> ok then log_stage x c ''alias_cleanup'' ''warn'' ''error'' w1
      else if had then log_stage x c ''alias_cleanup'' ''ok'' [] w1
      else log_stage x c ''alias_cleanup'' ''skip'' ''no alias'' w1)"

definition forget_step :: "rm_ctx \<Rightarrow> rm_call \<Rightarrow> world \<Rightarrow> world" where
  "forget_step x c w =
     (let w1 = log_stage x c ''registry_delete'' ''ok'' [] (upd_reg (delete_instance (rc_id c)) w) in
      if rx_views_fail x then log_stage x c ''pageviews_clear'' ''warn'' ''error'' w1
      else log_stage x c ''pageviews_clear'' ''ok'' [] (w1\<lparr>wd_views := (wd_views w1)(rc_id c := False)\<rparr>))"

definition without_directory :: "app \<Rightarrow> app" where
  "without_directory a = a\<lparr>ap_present := False, ap_manifest := None, ap_zip := None, ap_data := False,
     ap_files := \<lparr>ad_files = (\<lambda>_. None), ad_prev = None, ad_env_good = None, ad_builds = (\<lambda>_. None)\<rparr>\<rparr>"

definition purge_step :: "rm_ctx \<Rightarrow> rm_call \<Rightarrow> world \<Rightarrow> (rm_error + unit) \<times> world" where
  "purge_step x c w =
     (let i = rc_id c; a = wd_app w i in
      if \<not> rc_purge c then (Inr (), log_stage x c ''purge_tree'' ''skip'' ''purge=false'' w)
      else if \<not> ap_present a then (Inr (), log_stage x c ''purge_tree'' ''ok'' [] w)
      else if rx_outside x i then (Inl R_outside, log_stage x c ''purge_tree'' ''fail'' ''path outside apps/'' w)
      else (case rx_rmtree x i a of
          Tree_error a' \<Rightarrow> (Inl R_rmtree, log_stage x c ''purge_tree'' ''fail'' ''error'' (set_app i a' w))
        | Tree_left a' \<Rightarrow> (Inl R_rmtree,
            log_stage x c ''purge_tree'' ''fail'' ''directory still exists after rmtree'' (set_app i a' w))
        | Tree_gone \<Rightarrow> (Inr (), log_stage x c ''purge_tree'' ''ok'' [] (set_app i (without_directory a) w))))"

definition redundancy_reasons :: "world \<Rightarrow> string \<Rightarrow> bool \<Rightarrow> string option \<Rightarrow> reason list" where
  "redundancy_reasons w i allow_loss witness =
     redundant_state_reasons w i @ (if allow_loss then [] else redundant_config_loss_reasons w i)
     @ (if still_redundant w i witness then [] else [Not_redundant])"

definition remove_steps :: "rm_ctx \<Rightarrow> rm_call \<Rightarrow> world \<Rightarrow> (rm_error + unit) \<times> world" where
  "remove_steps x c w =
     (let i = rc_id c; runtime = map_option i_runtime (get_instance i (wd_reg w));
          w1 = log_stage x c ''begin'' ''ok'' []
                 (upd_reg (add_event None ''remove'' (''remove '' @ i) None (dx_now (rx_dx x))) w);
          w2 = (case ap_manifest (wd_app w i) of Some m \<Rightarrow> release_known x c m w1 | None \<Rightarrow> release_unknown x c runtime w1) in
      case purge_step x c (forget_step x c (alias_step x c w2)) of
        (Inl e, w3) \<Rightarrow> (Inl e, w3)
      | (Inr _, w3) \<Rightarrow>
          (Inr (), log_stage x c ''done'' ''ok'' (if rc_purge c then ''with_disk'' else ''registry_only'') w3))"

text \<open>\<open>redundant\<close> is \<open>None\<close> for an ordinary removal, else the permission to lose settings and the keeper.\<close>

definition remove_instance ::
  "rm_ctx \<Rightarrow> rm_call \<Rightarrow> (bool \<times> string option) option \<Rightarrow> world \<Rightarrow> (rm_error + unit) \<times> world" where
  "remove_instance x c redundant_only w =
     (let reasons = (case redundant_only of None \<Rightarrow> []
            | Some (allow_loss, witness) \<Rightarrow> redundancy_reasons w (rc_id c) allow_loss witness) in
      if reasons \<noteq> [] then (Inl (R_redundant reasons), w)
      else if rc_purge c \<and> ap_data (wd_app w (rc_id c)) \<and> \<not> rc_force c
      then (Inl R_data_nonempty, log_stage x c ''data_guard'' ''fail'' ''data_nonempty'' w)
      else remove_steps x c w)"

section \<open>Removing what is redundant\<close>

text \<open>A target that is skipped gets reasons; a removal that fails is skipped without any here.\<close>

fun remove_targets ::
  "rm_ctx \<Rightarrow> bool \<Rightarrow> bool \<Rightarrow> bool \<Rightarrow> redundant list \<Rightarrow> world \<Rightarrow> string list \<times> (string \<times> reason list) list \<times> world" where
  "remove_targets x purge force loss [] w = ([], [], w)"
| "remove_targets x purge force loss (d # ds) w =
     (let i = rd_id d; reasons = rd_skip d @ (if loss then [] else rd_loss d) in
      if reasons \<noteq> []
      then (let (rem, skip, w') = remove_targets x purge force loss ds w in (rem, (i, reasons) # skip, w'))
      else (case remove_instance x \<lparr>rc_id = i, rc_purge = purge, rc_force = force\<rparr> (Some (loss, Some (rd_keeper d))) w of
          (Inr _, w1) \<Rightarrow> (let (rem, skip, w') = remove_targets x purge force loss ds w1 in (i # rem, skip, w'))
        | (Inl e, w1) \<Rightarrow> (let (rem, skip, w') = remove_targets x purge force loss ds w1 in
            (rem, (i, (case e of R_redundant rs \<Rightarrow> rs | _ \<Rightarrow> [])) # skip, w'))))"

definition remove_redundant :: "rm_ctx \<Rightarrow> bool \<Rightarrow> bool \<Rightarrow> bool \<Rightarrow> world \<Rightarrow> string list \<times> (string \<times> reason list) list \<times> world" where
  "remove_redundant x purge force loss w = remove_targets x purge force loss (list_redundant_instances w) w"

end
