(* ===== verification/Removal_Facts.thy ===== *)
theory Removal_Facts
  imports Removal Registry_Facts Start_Facts Candidate_Facts
begin

text \<open>
  What removals guarantee: other instances are not touched, the registry forgets the instance, data is
  kept without an explicit permission, and cleaning redundant instances keeps one of each archive.
\<close>

section \<open>One instance only\<close>

definition apart :: "string \<Rightarrow> world \<Rightarrow> world \<Rightarrow> bool" where
  "apart i w w' \<longleftrightarrow> (\<forall>j. j \<noteq> i \<longrightarrow> rows_of j (wd_reg w') = rows_of j (wd_reg w) \<and> wd_app w' j = wd_app w j)"

lemma apart_refl [simp]: "apart i w w"
  by (simp add: apart_def)

lemma apart_trans: "apart i u v \<Longrightarrow> apart i v w \<Longrightarrow> apart i u w"
  by (simp add: apart_def)

lemma apart_set_app [simp]: "apart i u (set_app i a w) = apart i u w"
  by (auto simp: apart_def set_app_def)

lemma wd_set_app [simp]:
  "wd_reg (set_app i a w) = wd_reg w" "wd_app (set_app i a w) i = a"
  "j \<noteq> i \<Longrightarrow> wd_app (set_app i a w) j = wd_app w j" "wd_views (set_app i a w) = wd_views w"
  by (simp_all add: set_app_def)

lemma rows_orphan_event [simp]: "rows_of j (commit (add_event None kind msg src now r) r) = rows_of j r"
  by (simp add: add_event_def Let_def rows_of_def get_instance_def get_container_def get_static_site_def
      instance_ports_def get_resources_def)

lemma log_stage_simps [simp]:
  "rows_of j (wd_reg (log_stage x c st res d w)) = rows_of j (wd_reg w)"
  "wd_app (log_stage x c st res d w) = wd_app w" "apart i u (log_stage x c st res d w) = apart i u w"
  by (simp_all add: log_stage_def upd_reg_def apart_def)

lemma rows_event [simp]: "j \<noteq> i \<Longrightarrow> rows_of j (commit (add_event (Some i) kind msg src now r) r) = rows_of j r"
  by (auto simp: add_event_def Let_def rows_of_def get_instance_def get_container_def get_static_site_def
      instance_ports_def get_resources_def)

lemma rows_update_status [simp]: "j \<noteq> i \<Longrightarrow> rows_of j (commit (update_status i st u now r) r) = rows_of j r"
  by (simp add: update_status_def rows_of_def get_upd_instance)
    (simp add: upd_instance_def get_container_def get_static_site_def instance_ports_def get_resources_def)

lemma rows_static_enabled [simp]:
  assumes "j \<noteq> i"
  shows "rows_of j (commit (set_static_enabled i b r) r) = rows_of j r"
proof -
  have "map_option (\<lambda>x. if t_instance_id x = i then x\<lparr>t_enabled := b\<rparr> else x)
      (find_by t_instance_id j (static_sites r)) = find_by t_instance_id j (static_sites r)"
    using assms by (cases "find_by t_instance_id j (static_sites r)") (auto dest: find_by_SomeD)
  then show ?thesis
    by (simp add: set_static_enabled_def rows_of_def get_instance_def get_container_def get_static_site_def
      instance_ports_def get_resources_def find_by_upd_where)
qed

lemma rows_upsert [simp]:
  assumes "j \<noteq> m_id m"
  shows "rows_of j (commit (upsert_from_manifest m a z r) r) = rows_of j r"
  using assms
  by (auto simp: upsert_from_manifest_def Let_def rows_of_def get_instance_def get_container_def get_static_site_def
      instance_ports_def get_resources_def put_container_def put_static_def del_static_rows_def del_container_rows_def
      find_by_upsert find_by_del_key instance_row_def merge_instance_def container_row_def static_row_def
      split: option.splits)

definition local_to :: "string \<Rightarrow> stage \<Rightarrow> bool" where
  "local_to i f \<longleftrightarrow> (\<forall>s r s'. f s = (r, s') \<longrightarrow> cd_id s = i \<longrightarrow>
     cd_id s' = i \<and> (\<forall>j. j \<noteq> i \<longrightarrow> rows_of j (cd_reg s') = rows_of j (cd_reg s)))"

lemma local_toD:
  assumes "local_to i f" "f s = (r, s')" "cd_id s = i"
  shows "cd_id s' = i" "j \<noteq> i \<Longrightarrow> rows_of j (cd_reg s') = rows_of j (cd_reg s)"
  using assms unfolding local_to_def by blast+

lemma local_after:
  assumes f: "local_to i f" and g: "local_to i g"
  shows "local_to i (after f g)"
  unfolding local_to_def
proof (intro allI impI)
  fix s r s' assume run: "after f g s = (r, s')" and i: "cd_id s = i"
  obtain q s1 where 1: "f s = (q, s1)" by (cases "f s")
  note f1 = local_toD [OF f 1 i]
  show "cd_id s' = i \<and> (\<forall>j. j \<noteq> i \<longrightarrow> rows_of j (cd_reg s') = rows_of j (cd_reg s))"
  proof (cases q)
    case (Inl e) then show ?thesis using run 1 f1 by (simp add: after_def)
  next
    case (Inr u)
    then have "g s1 = (r, s')" using run 1 by (simp add: after_def)
    from local_toD [OF g this f1(1)] f1 show ?thesis by simp
  qed
qed

lemma local_stages: "(\<And>f. f \<in> set fs \<Longrightarrow> local_to i f) \<Longrightarrow> local_to i (run_stages fs)"
proof (induction fs)
  case Nil then show ?case by (simp add: local_to_def)
next
  case (Cons f fs)
  have "run_stages (f # fs) = after f (run_stages fs)" by (rule ext) simp
  moreover have "local_to i (run_stages fs)" by (rule Cons.IH) (simp add: Cons.prems)
  ultimately show ?case using local_after [OF Cons.prems [of f]] by simp
qed

lemma local_record_stop:
  assumes "\<And>m. m_id (f m) = m_id m"
  shows "local_to i (record_stop x st f)"
  unfolding local_to_def
proof (intro allI impI)
  fix s r s' assume run: "record_stop x st f s = (r, s')" and i: "cd_id s = i"
  show "cd_id s' = i \<and> (\<forall>j. j \<noteq> i \<longrightarrow> rows_of j (cd_reg s') = rows_of j (cd_reg s))"
    using run i assms
    by (simp add: record_stop_def Let_def after_def save_manifest_def set_mem_def cd_id_def touch_def write_reg_def
        split: if_splits; clarsimp)
qed

lemma local_stop_event: "local_to i (stop_event x msg)"
  by (simp add: local_to_def stop_event_def write_reg_def cd_id_def)

lemma local_attempt: "local_to i (attempt_docker n f)"
  by (auto simp: local_to_def attempt_docker_def cd_id_def split: prod.splits bool.splits)

lemma local_static: "local_to i (\<lambda>s. (Inr (), write_reg (set_static_enabled (cd_id s) False) s))"
  by (simp add: local_to_def write_reg_def cd_id_def)

lemma stop_local:
  assumes "stop_instance x s = (r, s')" "m_id (cd_disk s) = i" "j \<noteq> i"
  shows "rows_of j (cd_reg s') = rows_of j (cd_reg s)"
proof -
  have l: "local_to i (run_stages [record_stop x st disable_site,
      (\<lambda>s1. (Inr (), write_reg (set_static_enabled (cd_id s1) False) s1)), stop_event x msg])"
    "local_to i (run_stages [record_stop x PENDING id, stop_event x msg])"
    "local_to i (run_stages [attempt_docker nm g, record_stop x STOPPED id])" for st msg nm g
    using local_record_stop [of disable_site] local_record_stop [of id] local_stop_event local_attempt local_static
    by (auto intro!: local_stages simp: disable_site_def)
  have id: "cd_id (s\<lparr>cd_mem := cd_disk s\<rparr>) = i" using assms(2) by (simp add: cd_id_def)
  show ?thesis
    using assms(1,3) l id unfolding local_to_def stop_instance_def stop_container_def Let_def
    by (fastforce split: runtime.splits if_splits)
qed


section \<open>The steps of a removal\<close>

text \<open>What every step before the deletion of the directory keeps of the directory.\<close>

definition same_place :: "string \<Rightarrow> world \<Rightarrow> world \<Rightarrow> bool" where
  "same_place i w w' \<longleftrightarrow> apart i w w' \<and> ap_present (wd_app w' i) = ap_present (wd_app w i)
     \<and> ap_data (wd_app w' i) = ap_data (wd_app w i) \<and> wd_views w' = wd_views w"

lemma same_place_refl [simp]: "same_place i w w"
  by (simp add: same_place_def)

lemma same_place_trans: "same_place i u v \<Longrightarrow> same_place i v w \<Longrightarrow> same_place i u w"
  by (auto simp: same_place_def intro: apart_trans)

lemma same_place_event [simp]: "same_place i u (upd_reg (add_event None k t s n) w) = same_place i u w"
  by (simp add: same_place_def upd_reg_def apart_def)

lemma same_place_log [simp]: "same_place i u (log_stage x c st res d w) = same_place i u w"
  by (simp add: log_stage_def)

lemma same_place_set_app [simp]:
  "ap_present a = ap_present (wd_app w i) \<Longrightarrow> ap_data a = ap_data (wd_app w i)
   \<Longrightarrow> same_place i u (set_app i a w) = same_place i u w"
  by (simp add: same_place_def)

lemma stop_step_place:
  assumes "m_id m = rc_id c"
  shows "same_place (rc_id c) w (stop_step x c m w)"
proof -
  obtain r s where run: "stop_instance (rx_sx x) (deployment_of w (rc_id c) m) = (r, s)" by (cases "stop_instance (rx_sx x) (deployment_of w (rc_id c) m)")
  have "rows_of j (cd_reg s) = rows_of j (wd_reg w)" if "j \<noteq> rc_id c" for j
    using stop_local [OF run _ that] assms by (simp add: deployment_of_def Let_def)
  then have "same_place (rc_id c) w (w\<lparr>wd_reg := cd_reg s\<rparr>)"
    by (simp add: same_place_def apart_def)
  then show ?thesis
    by (simp add: stop_step_def Let_def run split: sum.split)
qed

lemma down_step_place [simp]: "same_place (rc_id c) u (down_step x c d w) = same_place (rc_id c) u w"
  by (simp add: down_step_def Let_def split: prod.split)

lemma untag_step_place [simp]: "same_place (rc_id c) u (untag_step x c refs w) = same_place (rc_id c) u w"
  by (simp add: untag_step_def Let_def)

lemma gateway_step_place: "gateway_step f i w = (ok, w1) \<Longrightarrow> same_place i w w1"
  by (auto simp: gateway_step_def Let_def split: prod.splits)

lemma release_known_place:
  "m_id m = rc_id c \<Longrightarrow> same_place (rc_id c) w (release_known x c m w)"
  by (simp add: release_known_def Let_def stop_step_place)

lemma release_unknown_place: "same_place (rc_id c) w (release_unknown x c rt w)"
  by (auto simp: release_unknown_def Let_def dest: gateway_step_place split: prod.split)

lemma alias_step_place: "same_place (rc_id c) w (alias_step x c w)"
  by (auto simp: alias_step_def Let_def dest: gateway_step_place split: prod.split)

abbreviation "no_rows \<equiv> (None, None, None, [], [], [], None)"

lemma delete_rows:
  "rows_of j (commit (delete_instance i r) r) = (if j = i then no_rows else rows_of j r)"
proof -
  have "delete_instance i r = Inr ((), snd (projr (delete_instance i r)))" by (simp add: delete_instance_def Let_def)
  from delete_instance_cascade [OF this] this show ?thesis by (metis commit_simps(2))
qed

lemma forget_step_place:
  "apart (rc_id c) w (forget_step x c w)" "rows_of (rc_id c) (wd_reg (forget_step x c w)) = no_rows"
  "wd_app (forget_step x c w) = wd_app w"
  "wd_views (forget_step x c w) = (if rx_views_fail x then wd_views w else (wd_views w)(rc_id c := False))"
  by (simp_all add: forget_step_def Let_def apart_def upd_reg_def log_stage_def rows_orphan_event delete_rows)

lemma log_stage_views [simp]: "wd_views (log_stage x c st res d w) = wd_views w"
  by (simp add: log_stage_def upd_reg_def)

lemma purge_step_place:
  assumes "purge_step x c w = (r, w')"
  shows "apart (rc_id c) w w'" "rows_of (rc_id c) (wd_reg w') = rows_of (rc_id c) (wd_reg w)"
    "wd_views w' = wd_views w" "r \<noteq> Inl R_data_nonempty" "r \<noteq> Inl (R_redundant rs)"
    "r = Inr () \<Longrightarrow> ap_present (wd_app w' (rc_id c)) = (ap_present (wd_app w (rc_id c)) \<and> \<not> rc_purge c)"
    "\<not> rc_purge c \<Longrightarrow> wd_app w' = wd_app w" "\<not> rc_purge c \<Longrightarrow> r = Inr ()"
    "r = Inl R_outside \<Longrightarrow> wd_app w' = wd_app w"
  using assms
  by (auto simp: purge_step_def Let_def without_directory_def apart_def split: if_splits tree_answer.splits)

text \<open>The steps before the registry forgets the instance.\<close>

lemma released_place:
  assumes "\<And>m. ap_manifest (wd_app w (rc_id c)) = Some m \<Longrightarrow> m_id m = rc_id c"
  shows "same_place (rc_id c) w (alias_step x c (case ap_manifest (wd_app w (rc_id c)) of
      Some m \<Rightarrow> release_known x c m (log_stage x c ''begin'' ''ok'' [] (upd_reg (add_event None k t None n) w))
    | None \<Rightarrow> release_unknown x c rt (log_stage x c ''begin'' ''ok'' [] (upd_reg (add_event None k t None n) w))))"
    (is "same_place _ _ (alias_step _ _ (case _ of Some m \<Rightarrow> ?known m ?w | None \<Rightarrow> ?unknown ?w))")
proof -
  have 1: "same_place (rc_id c) w ?w" by simp
  have 2: "same_place (rc_id c) ?w (case ap_manifest (wd_app w (rc_id c)) of Some m \<Rightarrow> ?known m ?w | None \<Rightarrow> ?unknown ?w)"
    using release_known_place release_unknown_place assms by (simp split: option.split)
  show ?thesis by (rule same_place_trans [OF same_place_trans [OF 1 2] alias_step_place])
qed

lemma remove_steps_outcome:
  assumes run: "remove_steps x c w = (r, w')"
    and ids: "\<And>m. ap_manifest (wd_app w (rc_id c)) = Some m \<Longrightarrow> m_id m = rc_id c"
  shows "apart (rc_id c) w w'" "rows_of (rc_id c) (wd_reg w') = no_rows"
    "r = Inr () \<Longrightarrow> ap_present (wd_app w' (rc_id c)) = (ap_present (wd_app w (rc_id c)) \<and> \<not> rc_purge c)"
    "wd_views w' (rc_id c) \<Longrightarrow> rx_views_fail x" "r \<noteq> Inl R_data_nonempty" "r \<noteq> Inl (R_redundant rs)"
    "\<not> rc_purge c \<Longrightarrow> r = Inr () \<and> ap_data (wd_app w' (rc_id c)) = ap_data (wd_app w (rc_id c))"
proof -
  let ?i = "rc_id c"
  let ?w0 = "upd_reg (add_event None ''remove'' (''remove '' @ ?i) None (dx_now (rx_dx x))) w"
  define A where "A = alias_step x c (case ap_manifest (wd_app w ?i) of
      Some m \<Rightarrow> release_known x c m (log_stage x c ''begin'' ''ok'' [] ?w0)
    | None \<Rightarrow> release_unknown x c (map_option i_runtime (get_instance ?i (wd_reg w))) (log_stage x c ''begin'' ''ok'' [] ?w0))"
  have A: "same_place ?i w A" unfolding A_def using ids by (rule released_place)
  obtain q w3 where P: "purge_step x c (forget_step x c A) = (q, w3)" by (cases "purge_step x c (forget_step x c A)")
  have rw: "r = q \<and> (w' = w3 \<or> (\<exists>d. w' = log_stage x c ''done'' ''ok'' d w3))"
    using run unfolding remove_steps_def Let_def A_def [symmetric] P by (cases q) auto
  then have w': "rows_of j (wd_reg w') = rows_of j (wd_reg w3)" "wd_app w' = wd_app w3" "wd_views w' = wd_views w3" for j
    by auto
  note P = purge_step_place [OF P]
  note F = forget_step_place [where c = c and x = x and w = A]
  have "apart ?i w w3" using A F P(1) by (metis same_place_def apart_trans)
  then show "apart ?i w w'" by (simp add: apart_def w')
  show "rows_of ?i (wd_reg w') = no_rows" using P(2) F(2) by (simp add: w')
  show "r = Inr () \<Longrightarrow> ap_present (wd_app w' ?i) = (ap_present (wd_app w ?i) \<and> \<not> rc_purge c)"
    using P(6) A F(3) rw by (simp add: w' same_place_def)
  show "wd_views w' ?i \<Longrightarrow> rx_views_fail x" using P(3) F(4) by (simp add: w' split: if_splits)
  show "r \<noteq> Inl R_data_nonempty" "r \<noteq> Inl (R_redundant rs)" using P(4,5) rw by auto
  show "\<not> rc_purge c \<Longrightarrow> r = Inr () \<and> ap_data (wd_app w' ?i) = ap_data (wd_app w ?i)"
    using P(7,8) A F(3) rw by (simp add: w' same_place_def)
qed

lemma remove_instance_cases:
  assumes "remove_instance x c red w = (r, w')"
  shows "(\<exists>rs. r = Inl (R_redundant rs) \<and> rs \<noteq> [] \<and> red \<noteq> None \<and> w' = w)
    \<or> r = Inl R_data_nonempty \<and> rc_purge c \<and> \<not> rc_force c \<and> w' = log_stage x c ''data_guard'' ''fail'' ''data_nonempty'' w
    \<or> remove_steps x c w = (r, w') \<and> \<not> (rc_purge c \<and> ap_data (wd_app w (rc_id c)) \<and> \<not> rc_force c)"
proof (cases "case red of None \<Rightarrow> [] | Some (loss, k) \<Rightarrow> redundancy_reasons w (rc_id c) loss k")
  case Nil
  then show ?thesis using assms unfolding remove_instance_def Let_def
    by (cases "rc_purge c \<and> ap_data (wd_app w (rc_id c)) \<and> \<not> rc_force c") simp_all
next
  case (Cons a rs)
  then have "red \<noteq> None" by (cases red) simp_all
  moreover have "r = Inl (R_redundant (a # rs)) \<and> w' = w"
    using assms Cons unfolding remove_instance_def Let_def by simp
  ultimately show ?thesis by blast
qed

lemma remove_instance_frame:
  assumes "remove_instance x c red w = (r, w')" "\<And>m. ap_manifest (wd_app w (rc_id c)) = Some m \<Longrightarrow> m_id m = rc_id c"
  shows "apart (rc_id c) w w'" "r = Inr () \<Longrightarrow> rows_of (rc_id c) (wd_reg w') = no_rows"
  using remove_instance_cases [OF assms(1)] remove_steps_outcome(1,2) [OF _ assms(2)] by auto


section \<open>Redundant instances\<close>

definition ids_match :: "world \<Rightarrow> string list \<Rightarrow> bool" where
  "ids_match w is \<longleftrightarrow> (\<forall>i \<in> set is. case ap_manifest (wd_app w i) of None \<Rightarrow> True | Some m \<Rightarrow> m_id m = i)"

lemma ids_matchD: "ids_match w is \<Longrightarrow> i \<in> set is \<Longrightarrow> ap_manifest (wd_app w i) = Some m \<Longrightarrow> m_id m = i"
  by (fastforce simp: ids_match_def)

lemma ids_match_apart: "apart i w w' \<Longrightarrow> i \<notin> set is \<Longrightarrow> ids_match w is \<Longrightarrow> ids_match w' is"
  by (auto simp: ids_match_def apart_def)

definition removable :: "bool \<Rightarrow> redundant \<Rightarrow> bool" where
  "removable loss d \<longleftrightarrow> rd_skip d = [] \<and> (loss \<or> rd_loss d = [])"

text \<open>What a removal of targets changes: only targets without reasons to skip them.\<close>

lemma remove_targets_outcome:
  assumes "remove_targets x purge force loss ds w = (rem, skip, w')"
    and "distinct (map rd_id ds)" "ids_match w (map rd_id ds)"
  shows "set rem \<union> fst ` set skip = rd_id ` set ds"
    and "j \<notin> set (map rd_id (filter (removable loss) ds))
      \<Longrightarrow> rows_of j (wd_reg w') = rows_of j (wd_reg w) \<and> wd_app w' j = wd_app w j"
    and "i \<in> set rem \<Longrightarrow> rows_of i (wd_reg w') = no_rows
      \<and> (\<exists>d \<in> set ds. rd_id d = i \<and> removable loss d)"
proof -
  have "set rem \<union> fst ` set skip = rd_id ` set ds
    \<and> (\<forall>j. j \<notin> set (map rd_id (filter (removable loss) ds))
        \<longrightarrow> rows_of j (wd_reg w') = rows_of j (wd_reg w) \<and> wd_app w' j = wd_app w j)
    \<and> (\<forall>i \<in> set rem. rows_of i (wd_reg w') = no_rows
        \<and> (\<exists>d \<in> set ds. rd_id d = i \<and> removable loss d))"
    using assms
  proof (induction x purge force loss ds w arbitrary: rem skip w' rule: remove_targets.induct)
    case (1 x purge force loss w) then show ?case by simp
  next
    case (2 x purge force loss d ds w)
    let ?reasons = "rd_skip d @ (if loss then [] else rd_loss d)"
    have ds: "distinct (map rd_id ds)" "rd_id d \<notin> set (map rd_id ds)" "ids_match w (map rd_id ds)"
      using "2.prems"(2,3) by (simp_all add: ids_match_def)
    show ?case
    proof (cases "?reasons = []")
      case False
      then obtain skip' where run: "remove_targets x purge force loss ds w = (rem, skip', w')" "skip = (rd_id d, ?reasons) # skip'"
        using "2.prems"(1) by (auto simp: Let_def split: prod.splits)
      have no: "\<not> removable loss d" using False by (auto simp: removable_def)
      from "2.IH"(1) [OF refl refl False run(1) ds(1,3)] run(2) no show ?thesis by auto
    next
      case True
      then have yes: "removable loss d" by (auto simp: removable_def split: if_splits)
      let ?c = "\<lparr>rc_id = rd_id d, rc_purge = purge, rc_force = force\<rparr>"
      obtain q w1 where rm: "remove_instance x ?c (Some (loss, Some (rd_keeper d))) w = (q, w1)"
        by (cases "remove_instance x ?c (Some (loss, Some (rd_keeper d))) w")
      have m: "m_id m = rd_id d" if "ap_manifest (wd_app w (rd_id d)) = Some m" for m
        using "2.prems"(3) that by (auto simp: ids_match_def)
      note fr = remove_instance_frame [OF rm, unfolded rm_call.simps, OF m]
      have ids: "ids_match w1 (map rd_id ds)" by (rule ids_match_apart [OF fr(1) ds(2,3)])
      show ?thesis
      proof (cases q)
        case (Inl e)
        obtain rs skip' where run: "remove_targets x purge force loss ds w1 = (rem, skip', w')" "skip = (rd_id d, rs) # skip'"
          using "2.prems"(1) True rm Inl by (auto simp: Let_def split: prod.splits)
        from "2.IH"(2) [OF refl refl _ rm [symmetric] Inl run(1) ds(1) ids] True run(2) yes fr(1)
        show ?thesis by (auto simp: apart_def)
      next
        case (Inr u)
        obtain rem' where run: "remove_targets x purge force loss ds w1 = (rem', skip, w')" "rem = rd_id d # rem'"
          using "2.prems"(1) True rm Inr by (auto simp: Let_def split: prod.splits)
        from "2.IH"(3) [OF refl refl _ rm [symmetric] Inr run(1) ds(1) ids] True
        have IH: "set rem' \<union> fst ` set skip = rd_id ` set ds"
          "\<forall>j. j \<notin> set (map rd_id (filter (removable loss) ds)) \<longrightarrow> rows_of j (wd_reg w') = rows_of j (wd_reg w1) \<and> wd_app w' j = wd_app w1 j"
          "\<forall>i \<in> set rem'. rows_of i (wd_reg w') = no_rows \<and> (\<exists>d \<in> set ds. rd_id d = i \<and> removable loss d)"
          by simp_all
        have "rows_of (rd_id d) (wd_reg w') = no_rows"
          using IH(2) [rule_format, of "rd_id d"] ds(2) fr(2) Inr by auto
        with IH run(2) yes fr(1) show ?thesis by (auto simp: apart_def)
      qed
    qed
  qed
  then show "set rem \<union> fst ` set skip = rd_id ` set ds"
    and "j \<notin> set (map rd_id (filter (removable loss) ds))
      \<Longrightarrow> rows_of j (wd_reg w') = rows_of j (wd_reg w) \<and> wd_app w' j = wd_app w j"
    and "i \<in> set rem \<Longrightarrow> rows_of i (wd_reg w') = no_rows
      \<and> (\<exists>d \<in> set ds. rd_id d = i \<and> removable loss d)"
    by blast+
qed

lemma fingerprints_distinct: "distinct (archive_fingerprints w)"
  by (simp add: archive_fingerprints_def)

lemma same_zip_mem: "r \<in> set (same_zip w fp) \<Longrightarrow> ap_zip (wd_app w (i_id r)) = Some fp"
  by (simp add: same_zip_def zip_of_def)

lemma same_zip_distinct: "reg_ok (wd_reg w) \<Longrightarrow> distinct (map i_id (same_zip w fp))"
  by (simp add: same_zip_def distinct_map_filter list_instances_def distinct_map_sort reg_ok_def pk_ok_def)

lemma redundant_of_mem:
  assumes "td \<in> set (redundant_of w fp)"
  obtains keeper others r where "same_zip w fp = keeper # others" "r \<in> set others" "rd_id (snd td) = i_id r"
    "rd_keeper (snd td) = i_id keeper" "rd_skip (snd td) = redundant_state_reasons w (i_id r)"
    "rd_loss (snd td) = redundant_config_loss_reasons w (i_id r)"
proof (cases "same_zip w fp")
  case Nil then show ?thesis using assms by (simp add: redundant_of_def)
next
  case (Cons k others) then show ?thesis using assms that [OF Cons] by (auto simp: redundant_of_def)
qed

lemma redundant_of_zip: "td \<in> set (redundant_of w fp) \<Longrightarrow> ap_zip (wd_app w (rd_id (snd td))) = Some fp"
  by (erule redundant_of_mem) (simp add: same_zip_mem)

lemma redundant_ids_distinct:
  assumes "reg_ok (wd_reg w)"
  shows "distinct (map rd_id (list_redundant_instances w))"
proof -
  have one: "distinct (map (rd_id \<circ> snd) (redundant_of w fp))" for fp
    using same_zip_distinct [OF assms, of fp]
    by (auto simp: redundant_of_def comp_def distinct_map_filter split: list.split)
  have "distinct (map (rd_id \<circ> snd) (concat (map (redundant_of w) fps)))" if "distinct fps" for fps
    using that
  proof (induction fps)
    case (Cons fp fps)
    have "(rd_id \<circ> snd) ` set (redundant_of w fp) \<inter> (rd_id \<circ> snd) ` set (concat (map (redundant_of w) fps)) = {}"
      using Cons.prems by (fastforce dest: redundant_of_zip)
    then show ?case using Cons one [of fp] by (simp add: comp_def)
  qed simp
  from this [OF fingerprints_distinct, of w] have "distinct (map (rd_id \<circ> snd) (sort_key fst (concat (map (redundant_of w) (archive_fingerprints w)))))"
    by (simp add: distinct_map_sort)
  then show ?thesis by (simp add: list_redundant_instances_def)
qed

lemma listed_redundant:
  assumes "d \<in> set (list_redundant_instances w)"
  obtains fp keeper others r where "same_zip w fp = keeper # others" "r \<in> set others" "rd_id d = i_id r"
    "rd_keeper d = i_id keeper" "rd_skip d = redundant_state_reasons w (rd_id d)"
    "rd_loss d = redundant_config_loss_reasons w (rd_id d)"
proof -
  from assms obtain td fp where "td \<in> set (redundant_of w fp)" "d = snd td"
    by (auto simp: list_redundant_instances_def)
  then show thesis using that by (elim redundant_of_mem) simp
qed

lemma keeper_not_listed:
  assumes "reg_ok (wd_reg w)" "same_zip w fp = keeper # others"
  shows "i_id keeper \<notin> rd_id ` set (list_redundant_instances w)"
proof
  assume "i_id keeper \<in> rd_id ` set (list_redundant_instances w)"
  then obtain d where d: "d \<in> set (list_redundant_instances w)" "rd_id d = i_id keeper" by auto
  from d(1) obtain fp' k others' r where r: "same_zip w fp' = k # others'" "r \<in> set others'" "rd_id d = i_id r"
    by (rule listed_redundant)
  have "fp' = fp" using same_zip_mem [of r w fp'] same_zip_mem [of keeper w fp] r d(2) assms(2) by simp
  then show False using same_zip_distinct [OF assms(1), of fp] assms(2) r d(2) by auto
qed

text \<open>C6: Cleaning redundant instances keeps one of each archive: of the instances that come from the
  same archive the oldest is not touched, neither its rows nor its directory. Removed are only younger
  ones that were quiet, not meant to run and not marked as kept on purpose, and without settings of
  their own unless losing those was allowed. Every target is either removed or reported as skipped, and
  an instance that is running, wanted or unreadable is not changed in any way.\<close>

theorem redundant_keeps_one:
  assumes ok: "reg_ok (wd_reg w)" and ids: "ids_match w (map i_id (instances (wd_reg w)))"
    and run: "remove_redundant x purge force loss w = (rem, skip, w')"
  shows "(same_zip w fp = keeper # others \<longrightarrow>
        rows_of (i_id keeper) (wd_reg w') = rows_of (i_id keeper) (wd_reg w) \<and> wd_app w' (i_id keeper) = wd_app w (i_id keeper))
    \<and> (\<forall>i \<in> set rem. rows_of i (wd_reg w') = no_rows \<and> redundant_state_reasons w i = []
        \<and> (loss \<or> redundant_config_loss_reasons w i = [])
        \<and> (\<exists>fp k others. same_zip w fp = k # others \<and> i \<in> i_id ` set others))
    \<and> set rem \<union> fst ` set skip = rd_id ` set (list_redundant_instances w)
    \<and> (redundant_state_reasons w j \<noteq> [] \<longrightarrow>
        rows_of j (wd_reg w') = rows_of j (wd_reg w) \<and> wd_app w' j = wd_app w j)"
proof -
  let ?ds = "list_redundant_instances w"
  have "rd_id d \<in> i_id ` set (instances (wd_reg w))" if d: "d \<in> set ?ds" for d
  proof -
    obtain fp k others r where "same_zip w fp = k # others" "r \<in> set others" "rd_id d = i_id r"
      using d by (rule listed_redundant)
    then have "r \<in> set (same_zip w fp)" "rd_id d = i_id r" by simp_all
    then show ?thesis by (simp add: same_zip_def list_instances_def)
  qed
  then have m: "ids_match w (map rd_id ?ds)" using ids unfolding ids_match_def by fastforce
  note out = remove_targets_outcome [OF run [unfolded remove_redundant_def] redundant_ids_distinct [OF ok] m]
  have keeper: "rows_of (i_id keeper) (wd_reg w') = rows_of (i_id keeper) (wd_reg w) \<and> wd_app w' (i_id keeper) = wd_app w (i_id keeper)"
    if "same_zip w fp = keeper # others"
    using keeper_not_listed [OF ok that] by (intro out(2)) auto
  have removed: "rows_of i (wd_reg w') = no_rows \<and> redundant_state_reasons w i = []
      \<and> (loss \<or> redundant_config_loss_reasons w i = []) \<and> (\<exists>fp k others. same_zip w fp = k # others \<and> i \<in> i_id ` set others)"
    if i: "i \<in> set rem" for i
  proof -
    obtain d where d: "d \<in> set ?ds" "rd_id d = i" "removable loss d" "rows_of i (wd_reg w') = no_rows"
      using out(3) [OF i] by blast
    from d(1) obtain fp k others r where "same_zip w fp = k # others" "r \<in> set others" "rd_id d = i_id r"
      "rd_skip d = redundant_state_reasons w (rd_id d)" "rd_loss d = redundant_config_loss_reasons w (rd_id d)"
      by (rule listed_redundant)
    with d(2-4) show ?thesis by (auto simp: removable_def)
  qed
  have quiet: "rows_of j (wd_reg w') = rows_of j (wd_reg w) \<and> wd_app w' j = wd_app w j"
    if "redundant_state_reasons w j \<noteq> []"
    using that by (intro out(2)) (auto simp: removable_def elim: listed_redundant)
  show ?thesis using keeper removed out(1) quiet by blast
qed

section \<open>Examples\<close>

definition sample_site :: "string \<Rightarrow> manifest" where
  "sample_site i = sample_manifest\<lparr>m_id := i, m_status := STOPPED\<rparr>"

definition sample_app :: "string \<Rightarrow> app" where
  "sample_app i = \<lparr>ap_manifest = Some (sample_site i), ap_acknowledged = False, ap_base_from_alias = False,
     ap_zip = Some ''abc'', ap_files = sample_dir, ap_docker = sample_docker, ap_data = False, ap_present = True\<rparr>"

text \<open>Two instances of one archive.\<close>

definition sample_world :: world where
  "sample_world = \<lparr>wd_reg = fold run_cmd
     [Upsert_manifest (sample_site ''a'') None None, Upsert_manifest (sample_site ''b'') None None] empty_reg,
     wd_app = sample_app, wd_views = (\<lambda>_. True)\<rparr>"

definition sample_rx :: rm_ctx where
  "sample_rx = \<lparr>rx_sx = sample_sx, rx_disable = (\<lambda>_ d. (True, d)), rx_cleanup = (\<lambda>_ d. (True, d)),
     rx_untag = (\<lambda>_ d. d), rx_views_fail = False, rx_outside = (\<lambda>_. False), rx_rmtree = (\<lambda>_ _. Tree_gone)\<rparr>"

lemma sample_app_manifest [simp]:
  "ap_manifest (wd_app sample_world i) = Some (sample_site i)" "m_id (sample_site i) = i"
  by (simp_all add: sample_world_def sample_app_def sample_site_def)


lemma sample_redundant:
  "map rd_id (list_redundant_instances sample_world) = [''b'']"
  "map i_id (same_zip sample_world ''abc'') = [''a'', ''b'']"
  by (code_simp, code_simp)

theorem redundant_keeps_one_witness:
  "\<exists>rem skip w'. remove_redundant sample_rx True False False sample_world = (rem, skip, w')
    \<and> set rem \<union> fst ` set skip = {''b''} \<and> rows_of ''a'' (wd_reg w') = rows_of ''a'' (wd_reg sample_world)
    \<and> wd_app w' ''a'' = sample_app ''a''"
proof -
  obtain rem skip w' where run: "remove_redundant sample_rx True False False sample_world = (rem, skip, w')"
    by (cases "remove_redundant sample_rx True False False sample_world")
  obtain k os where k: "same_zip sample_world ''abc'' = k # os" "i_id k = ''a''"
    using sample_redundant(2) by (cases "same_zip sample_world ''abc''") auto
  have ok: "reg_ok (wd_reg sample_world)"
    unfolding sample_world_def world.simps by (rule reg_ok_fold [OF reg_ok_empty])
  have ids: "ids_match sample_world (map i_id (instances (wd_reg sample_world)))"
    by (simp add: ids_match_def)
  have "rd_id ` set (list_redundant_instances sample_world) = {''b''}"
    using arg_cong [OF sample_redundant(1), of set] by simp
  with redundant_keeps_one [OF ok ids run, of "''abc''" k os "''b''"] k
  have "set rem \<union> fst ` set skip = {''b''}" "rows_of ''a'' (wd_reg w') = rows_of ''a'' (wd_reg sample_world)"
    "wd_app w' ''a'' = wd_app sample_world ''a''" by simp_all
  then show ?thesis using run by (auto simp: sample_world_def)
qed

end
