(* ===== verification/Security_Audit.thy ===== *)
theory Security_Audit
  imports Lwa_Text Logs Paths
begin

text \<open>
  Models the audits of \<^verbatim>\<open>security.py\<close> for Compose files, Dockerfiles and the binding of the manager. A
  finding is its level and its code, the messages are left out. The YAML parser and the text of a
  list or mapping where a text is expected are parameters; numbers are integers. Regular expressions are written as
  functions on texts; letters and white space are those of Latin-1, the case of ASCII letters is folded.
\<close>

section \<open>Findings\<close>

datatype level = Critical | Warn | Info

type_synonym finding = "level \<times> string"

definition has_critical :: "finding list \<Rightarrow> bool" where
  "has_critical fs \<longleftrightarrow> list_ex (\<lambda>f. fst f = Critical) fs"

definition assert_no_critical :: "finding list \<Rightarrow> string list + unit" where
  "assert_no_critical fs = (if has_critical fs then Inl (map snd (filter (\<lambda>f. fst f = Critical) fs)) else Inr ())"

section \<open>Paths\<close>

text \<open>\<open>posixpath.normpath\<close>: exactly two leading slashes are kept, more are one.\<close>

fun norm_parts :: "bool \<Rightarrow> string list \<Rightarrow> string list \<Rightarrow> string list" where
  "norm_parts rooted acc [] = rev acc"
| "norm_parts rooted acc (p # ps) =
     (if p = [] \<or> p = ''.'' then norm_parts rooted acc ps
      else if p \<noteq> ''..'' \<or> (\<not> rooted \<and> acc = []) \<or> (acc \<noteq> [] \<and> hd acc = ''..'') then norm_parts rooted (p # acc) ps
      else norm_parts rooted (tl acc) ps)"

abbreviation SLASH :: char where "SLASH \<equiv> CHR ''/''"

definition leading_slashes :: "string \<Rightarrow> string" where
  "leading_slashes s =
     (if \<not> starts_with ''/'' s then [] else if starts_with ''//'' s \<and> \<not> starts_with ''///'' s then ''//'' else ''/'')"

definition normpath :: "string \<Rightarrow> string" where
  "normpath s =
     (let r = leading_slashes s @ join_on SLASH (norm_parts (starts_with ''/'' s) [] (split_on SLASH s)) in
      if r = [] then ''.'' else r)"

definition skip_slash :: "string \<Rightarrow> string" where "skip_slash s = dropWhile (\<lambda>c. c = SLASH) s"
definition trim_slash :: "string \<Rightarrow> string" where "trim_slash s = rev (dropWhile (\<lambda>c. c = SLASH) (rev s))"

definition is_below :: "string \<Rightarrow> string \<Rightarrow> bool" where
  "is_below p d \<longleftrightarrow> p = d \<or> starts_with (trim_slash d @ ''/'') p"

section \<open>Constants\<close>

definition DOCKER_SOCKET_PATHS :: "string list" where
  "DOCKER_SOCKET_PATHS = [''/var/run/docker.sock'', ''/run/docker.sock'', ''/var/run/docker'']"

definition HOST_SENSITIVE_DIRS :: "string list" where
  "HOST_SENSITIVE_DIRS = [''/'', ''/etc'', ''/var'', ''/usr'', ''/root'', ''/home'', ''/boot'', ''/proc'', ''/sys'',
     ''/dev'', ''/opt'', ''/srv'', ''/var/lib/docker'']"

definition WINDOWS_HOST_SENSITIVE_DIRS :: "string list" where
  "WINDOWS_HOST_SENSITIVE_DIRS = [''c:/'', ''c:/windows'', ''c:/users'', ''c:/program files'', ''c:/programdata'']"

definition SENSITIVE_HOME_FRAGMENTS :: "string list" where
  "SENSITIVE_HOME_FRAGMENTS = [''.ssh'', ''.aws'', ''.gnupg'', ''.docker'', ''.kube'', ''.config'', ''.netrc'',
     ''.npmrc'', ''.pypirc'', ''.env'']"

definition DEFAULT_ALLOWED_HOST_MOUNTS :: "string list" where
  "DEFAULT_ALLOWED_HOST_MOUNTS = [''./data'', ''../data'', ''./data/'', ''../data/'']"

definition INSTANCE_DATA_ROOTS :: "string list" where "INSTANCE_DATA_ROOTS = [''../data'', ''data'']"

definition DANGEROUS_CAPS :: "string list" where
  "DANGEROUS_CAPS = [''SYS_ADMIN'', ''NET_ADMIN'', ''SYS_PTRACE'', ''SYS_MODULE'', ''DAC_READ_SEARCH'', ''DAC_OVERRIDE'', ''ALL'']"

section \<open>Compose files\<close>

record audit_ctx =
  au_yaml :: "string \<Rightarrow> json option"
  au_repr :: "json \<Rightarrow> string"
  au_allowed :: "string list"

fun py_true :: "json \<Rightarrow> bool" where
  "py_true JNull = False"
| "py_true (JBool b) = b"
| "py_true (JInt n) = (n \<noteq> 0)"
| "py_true (JStr s) = (s \<noteq> [])"
| "py_true (JArr xs) = (xs \<noteq> [])"
| "py_true (JObj ms) = (ms \<noteq> [])"

fun py_str :: "audit_ctx \<Rightarrow> json \<Rightarrow> string" where
  "py_str a JNull = ''None''"
| "py_str a (JBool b) = (if b then ''True'' else ''False'')"
| "py_str a (JInt n) = dec_int n"
| "py_str a (JStr s) = s"
| "py_str a j = au_repr a j"

text \<open>\<open>svc.get(key, default)\<close>\<close>

definition get_or :: "(string \<times> json) list \<Rightarrow> string \<Rightarrow> json \<Rightarrow> json" where
  "get_or ms k d = (case map_of ms k of None \<Rightarrow> d | Some v \<Rightarrow> v)"

definition is_letter :: "char \<Rightarrow> bool" where
  "is_letter c \<longleftrightarrow> is_upper c \<or> is_lower c \<or> (let n = of_char c :: nat in
     192 \<le> n \<and> n \<noteq> 215 \<and> n \<noteq> 247 \<or> n \<in> {170, 181, 186})"

definition is_windows_abs_path :: "string \<Rightarrow> bool" where
  "is_windows_abs_path s \<longleftrightarrow> (case s of d # c # x # _ \<Rightarrow> c = CHR '':'' \<and> is_letter d \<and> x = SLASH | _ \<Rightarrow> False)"

definition split_volume_source :: "string \<Rightarrow> string option" where
  "split_volume_source v =
     (if is_windows_abs_path (normalize_sep v)
      then Some (take 2 v @ takeWhile (\<lambda>c. c \<noteq> CHR '':'') (drop 2 v))
      else if CHR '':'' \<in> set v then Some (takeWhile (\<lambda>c. c \<noteq> CHR '':'') v) else None)"

definition is_instance_data_mount :: "string \<Rightarrow> string list \<Rightarrow> bool" where
  "is_instance_data_mount src allowed \<longleftrightarrow> src \<in> set allowed \<or>
     (let n = normpath (normalize_sep src) in
      n \<in> set allowed \<or> list_ex (\<lambda>root. n = root \<or> starts_with (root @ ''/'') n) INSTANCE_DATA_ROOTS)"

definition critical_mount :: "finding list" where "critical_mount = [(Critical, ''host_sensitive_mount'')]"
definition unexpected_mount :: "finding list" where "unexpected_mount = [(Warn, ''unexpected_host_mount'')]"

definition has_fragment :: "string \<Rightarrow> bool" where
  "has_fragment lower \<longleftrightarrow> list_ex (\<lambda>f. contains f lower) SENSITIVE_HOME_FRAGMENTS"

definition unexpandable :: "string \<Rightarrow> bool" where
  "unexpandable src \<longleftrightarrow> starts_with ''~'' src \<or> starts_with ''$'' src
     \<or> (\<not> starts_with ''/'' src \<and> \<not> is_windows_abs_path (normalize_sep src) \<and> (CHR ''$'' \<in> set src \<or> CHR ''~'' \<in> set src))"

text \<open>The absolute form that is judged: normalised, with one leading slash.\<close>

definition judged_path :: "string \<Rightarrow> string" where
  "judged_path src = SLASH # skip_slash (normpath (normalize_sep src))"

definition home_root :: "string \<Rightarrow> string option" where
  "home_root p = find (\<lambda>h. starts_with h p) [''/home/'', ''/Users/'']"

definition audit_absolute :: "string \<Rightarrow> finding list" where
  "audit_absolute src =
     (let p = judged_path src; lower = to_lower (normalize_sep src) in
      if trim_slash p = ''/home'' \<or> trim_slash p = ''/Users'' then critical_mount
      else (case home_root p of
          Some h \<Rightarrow> if SLASH \<notin> set (trim_slash (drop (length h) p)) then critical_mount
            else if has_fragment lower then critical_mount else []
        | None \<Rightarrow> if list_ex (\<lambda>d. if d = ''/'' then p = ''/'' else is_below p d) HOST_SENSITIVE_DIRS
            then critical_mount else []))"

definition audit_windows :: "string \<Rightarrow> finding list" where
  "audit_windows src =
     (if list_ex (is_below (to_lower (normalize_sep src))) WINDOWS_HOST_SENSITIVE_DIRS then critical_mount
      else unexpected_mount)"

text \<open>What is left of a path after the parents that it starts with; \<open>n\<close> bounds the parents.\<close>

fun escaped_tail :: "nat \<Rightarrow> string \<Rightarrow> string" where
  "escaped_tail 0 s = s"
| "escaped_tail (Suc n) s = (if starts_with ''../'' s then escaped_tail n (drop 3 s) else s)"

definition audit_relative :: "audit_ctx \<Rightarrow> string \<Rightarrow> finding list" where
  "audit_relative a src =
     (let n = normpath (normalize_sep src); tail = escaped_tail (length n) n;
          plain = (if is_instance_data_mount src (au_allowed a) then [] else unexpected_mount) in
      if starts_with ''../'' n
      then (if tail = [] \<or> tail = ''.'' \<or> tail = ''..'' then critical_mount
        else if list_ex (\<lambda>d. d \<noteq> ''/'' \<and> is_below (SLASH # tail) d) HOST_SENSITIVE_DIRS then critical_mount
        else plain)
      else plain)"

definition audit_source :: "audit_ctx \<Rightarrow> string \<Rightarrow> finding list" where
  "audit_source a src =
     (let norm = normalize_sep src in
      if src = [] then []
      else if list_ex (\<lambda>k. norm = k \<or> starts_with (k @ ''/'') norm) DOCKER_SOCKET_PATHS
      then [(Critical, ''docker_socket_mount'')]
      else if unexpandable src then (if has_fragment (to_lower norm) then critical_mount else unexpected_mount)
      else if starts_with ''/'' src then audit_absolute src
      else if is_windows_abs_path norm then audit_windows src
      else if starts_with ''.'' src then audit_relative a src
      else [])"

text \<open>The source of a bind mount, from a list entry or from the value of a mapping whose key is the target.\<close>

definition volume_source :: "audit_ctx \<Rightarrow> bool \<Rightarrow> json \<Rightarrow> string option" where
  "volume_source a keyed v =
     (case v of
        JStr s \<Rightarrow> if keyed then Some s else split_volume_source s
      | JObj ms \<Rightarrow>
          if to_lower (py_str a (get_or ms ''type'' (JStr []))) = ''bind''
          then (let s = get_or ms ''source'' (JStr []) in if py_true s then Some (py_str a s) else None)
          else None
      | _ \<Rightarrow> None)"

definition audit_volume :: "audit_ctx \<Rightarrow> bool \<Rightarrow> json \<Rightarrow> finding list" where
  "audit_volume a keyed v = (case volume_source a keyed v of None \<Rightarrow> [] | Some src \<Rightarrow> audit_source a src)"

definition audit_service :: "audit_ctx \<Rightarrow> (string \<times> json) list \<Rightarrow> finding list" where
  "audit_service a svc =
     (if py_true (get_or svc ''privileged'' JNull) then [(Critical, ''privileged'')] else [])
     @ (case get_or svc ''cap_add'' JNull of
          JArr caps \<Rightarrow> map (\<lambda>_. (Warn, ''dangerous_capability''))
            (filter (\<lambda>c. to_upper (py_str a c) \<in> set DANGEROUS_CAPS) caps)
        | _ \<Rightarrow> [])
     @ (if to_lower (py_str a (get_or svc ''network_mode'' (JStr []))) = ''host'' then [(Warn, ''host_network'')] else [])
     @ (case get_or svc ''volumes'' JNull of
          JArr vs \<Rightarrow> concat (map (audit_volume a False) vs)
        | JObj ms \<Rightarrow> concat (map (\<lambda>(_, v). audit_volume a True v) ms)
        | _ \<Rightarrow> [])
     @ (if to_lower (strip (py_str a (get_or svc ''user'' (JStr [])))) \<in> {''root'', ''0''} then [(Warn, ''root_user'')] else [])"

definition audit_compose :: "audit_ctx \<Rightarrow> string \<Rightarrow> finding list" where
  "audit_compose a source =
     (case au_yaml a source of
        Some (JObj doc) \<Rightarrow>
          (case get_or doc ''services'' JNull of
             JObj svcs \<Rightarrow> concat (map (\<lambda>(_, s). case s of JObj m \<Rightarrow> audit_service a m | _ \<Rightarrow> []) svcs)
           | j \<Rightarrow> if py_true j then [(Critical, ''invalid_yaml'')] else [])
      | _ \<Rightarrow> [(Critical, ''invalid_yaml'')])"

section \<open>Dockerfiles\<close>

text \<open>A backslash with white space that contains a line feed is one blank.\<close>

function join_lines :: "string \<Rightarrow> string" where
  "join_lines [] = []"
| "join_lines (c # cs) =
     (if c = CHR 0x5C \<and> LF \<in> set (takeWhile is_ws cs) then CHR '' '' # join_lines (dropWhile is_ws cs)
      else c # join_lines cs)"
  by pat_completeness auto
termination
  by (relation "measure length") (auto simp: le_imp_less_Suc length_dropWhile_le)

definition logical_lines :: "string \<Rightarrow> string list" where
  "logical_lines t = splitlines (join_lines t)"

definition is_word :: "char \<Rightarrow> bool" where
  "is_word c \<longleftrightarrow> is_letter c \<or> is_digit c \<or> c = CHR ''_''
     \<or> (of_char c :: nat) \<in> {178, 179, 185, 188, 189, 190}"

definition at_boundary :: "string \<Rightarrow> bool" where
  "at_boundary rest \<longleftrightarrow> (case rest of [] \<Rightarrow> True | c # _ \<Rightarrow> \<not> is_word c)"

definition skip_prefix :: "string list \<Rightarrow> string \<Rightarrow> string" where
  "skip_prefix ps s = (case find (\<lambda>p. starts_with p s) ps of None \<Rightarrow> s | Some p \<Rightarrow> drop (length p) s)"

text \<open>After \<open>python\<close> a version is digits, and the dot after them is already a boundary.\<close>

definition starts_interpreter :: "string \<Rightarrow> bool" where
  "starts_interpreter s \<longleftrightarrow>
     (let t = skip_prefix [''/usr/bin/'', ''/bin/''] s in
      list_ex (\<lambda>name. starts_with name t \<and> at_boundary (drop (length name) t)) [''sh'', ''bash'', ''node'', ''perl'', ''ruby'']
      \<or> starts_with ''python'' t \<and> at_boundary (dropWhile is_digit (drop 6 t)))"

definition skip_exec :: "string \<Rightarrow> string" where
  "skip_exec s =
     (if starts_with ''exec'' s \<and> (case drop 4 s of [] \<Rightarrow> False | c # _ \<Rightarrow> is_ws c) then lstrip (drop 4 s) else s)"

text \<open>From behind the downloader: no separator up to the first one, then the interpreter.\<close>

definition chain_separators :: "char set" where
  "chain_separators = {CHR ''|'', CHR '';'', CHR ''&'', LF, CR}"

definition chain_after :: "string \<Rightarrow> bool" where
  "chain_after s \<longleftrightarrow>
     (let t = dropWhile (\<lambda>c. c \<notin> chain_separators) s;
          u = (if starts_with ''||'' t \<or> starts_with ''&&'' t then Some (drop 2 t)
               else if starts_with ''|'' t \<or> starts_with '';'' t then Some (drop 1 t) else None) in
      case u of None \<Rightarrow> False
      | Some v \<Rightarrow> let w = lstrip v in starts_interpreter w \<or> starts_interpreter (skip_exec w))"

fun chain_search :: "bool \<Rightarrow> string \<Rightarrow> bool" where
  "chain_search after_word [] = False"
| "chain_search after_word (c # cs) =
     (\<not> after_word \<and> list_ex (\<lambda>tool. starts_with tool (c # cs) \<and> at_boundary (drop 4 (c # cs)) \<and> chain_after (drop 4 (c # cs)))
          [''curl'', ''wget'']
      \<or> chain_search (is_word c) cs)"

definition has_download_chain :: "string \<Rightarrow> bool" where
  "has_download_chain line = chain_search False (to_lower line)"

definition audit_line :: "string \<Rightarrow> finding list" where
  "audit_line line =
     (let upper = to_upper line in
      if starts_with ''USER '' upper
      then (if to_lower (strip (drop 5 line)) \<in> {''root'', ''0''} then [(Warn, ''root_user'')] else [])
      else if starts_with ''ADD '' upper \<and> (contains ''HTTP://'' upper \<or> contains ''HTTPS://'' upper)
      then [(Critical, ''add_remote_url'')]
      else if starts_with ''RUN '' upper \<and> has_download_chain line then [(Critical, ''pipe_to_shell'')] else [])"

definition instructions :: "string \<Rightarrow> string list" where
  "instructions t = filter (\<lambda>l. l \<noteq> [] \<and> \<not> starts_with ''#'' l) (map strip (logical_lines t))"

definition audit_dockerfile :: "string \<Rightarrow> finding list" where
  "audit_dockerfile t =
     concat (map audit_line (instructions t))
     @ (if list_ex (\<lambda>l. starts_with ''USER '' (to_upper l)) (instructions t) then [] else [(Info, ''no_user'')])"

section \<open>The manager's address\<close>

definition validate_manager_binding :: "string \<Rightarrow> bool \<Rightarrow> finding list" where
  "validate_manager_binding host has_token =
     (if host \<in> {''127.0.0.1'', ''localhost'', ''::1''} then []
      else if has_token then [(Info, ''lan_bind'')] else [(Critical, ''lan_bind_no_token'')])"

end
