(* ===== verification/Zip_Audit.thy ===== *)
theory Zip_Audit
  imports Security_Audit
begin

text \<open>
  Models the import of archives: what is stripped and audited by name (\<^verbatim>\<open>security.py\<close>) and
  \<open>safe_extract\<close> with its limits (\<^verbatim>\<open>zip_processor.py\<close>). An archive is the list of its members.
  What writing a member raises, the search for links in the extracted tree and the decoding of a file
  are parameters. The paths are those of POSIX, where only the slash separates; \<open>resolve\<close> follows the
  names from the fresh directory, which holds no links yet.
\<close>

section \<open>Members\<close>

record member =
  zm_name :: string
  zm_mode :: nat
  zm_size :: nat
  zm_packed :: nat

definition is_dir_member :: "member \<Rightarrow> bool" where
  "is_dir_member m \<longleftrightarrow> ends_with ''/'' (zm_name m)"

text \<open>\<open>S_ISLNK\<close> on the mode bits.\<close>

definition is_symlink_mode :: "nat \<Rightarrow> bool" where
  "is_symlink_mode mode \<longleftrightarrow> mode mod 65536 div 4096 = 10"

section \<open>What is stripped\<close>

definition STRIPPABLE_SEGMENTS :: "string list" where
  "STRIPPABLE_SEGMENTS = [''node_modules'', ''__pycache__'', ''.pytest_cache'', ''.mypy_cache'', ''.ruff_cache'',
     ''.venv'', ''venv'', ''.git'', ''__MACOSX'', ''.tox'', ''.cache'', ''.eggs'', ''.idea'', ''.vscode'', ''.next'',
     ''.nuxt'', ''.turbo'', ''.gradle'', ''build/dependencies'']"

definition STRIPPABLE_FILES :: "string list" where
  "STRIPPABLE_FILES = [''.DS_Store'', ''Thumbs.db'', ''yarn-error.log'']"

definition name_parts :: "string \<Rightarrow> string list" where
  "name_parts name = filter (\<lambda>p. p \<noteq> []) (split_on SLASH (normalize_sep name))"

text \<open>\<open>seen\<close> are the segments before, joined they are the prefix of a rule with a slash.\<close>

fun segment_rule :: "string list \<Rightarrow> string list \<Rightarrow> string option" where
  "segment_rule seen [] = None"
| "segment_rule seen [p] = None"
| "segment_rule seen (p # ps) =
     (if p \<in> set STRIPPABLE_SEGMENTS then Some p
      else if join_on SLASH (seen @ [p]) \<in> set STRIPPABLE_SEGMENTS then Some (join_on SLASH (seen @ [p]))
      else segment_rule (seen @ [p]) ps)"

definition strip_rule_for :: "string \<Rightarrow> string option" where
  "strip_rule_for name =
     (let parts = name_parts name in
      if parts = [] then None
      else (case segment_rule [] parts of
          Some r \<Rightarrow> Some r
        | None \<Rightarrow> if last parts \<in> set STRIPPABLE_SEGMENTS \<or> last parts \<in> set STRIPPABLE_FILES then Some (last parts)
            else if starts_with ''._'' (last parts) then Some ''._*'' else None))"

record sanitized =
  zs_keep :: "nat list"
  zs_stripped :: "string list"
  zs_symlinks :: nat
  zs_categories :: "string \<Rightarrow> nat"

text \<open>The modes come from the same members, so they are never too short.\<close>

definition sanitize_zip_members :: "(string \<times> nat) list \<Rightarrow> sanitized" where
  "sanitize_zip_members ms =
     (let out = filter (\<lambda>m. strip_rule_for (fst m) \<noteq> None) ms in
      \<lparr>zs_keep = filter (\<lambda>i. strip_rule_for (fst (ms ! i)) = None) [0..<length ms],
       zs_stripped = map fst out,
       zs_symlinks = length (filter (\<lambda>m. is_symlink_mode (snd m)) out),
       zs_categories = (\<lambda>r. length (filter (\<lambda>m. strip_rule_for (fst m) = Some r) ms))\<rparr>)"

section \<open>The audit of names\<close>

fun climbs_out :: "nat \<Rightarrow> string list \<Rightarrow> bool" where
  "climbs_out depth [] = False"
| "climbs_out depth (p # ps) =
     (if p = ''..'' then depth = 0 \<or> climbs_out (depth - 1) ps
      else if p = ''.'' \<or> p = [] then climbs_out depth ps
      else climbs_out (Suc depth) ps)"

definition audit_member :: "string \<times> nat \<Rightarrow> finding list" where
  "audit_member m =
     (let norm = normalize_sep (fst m) in
      if is_symlink_mode (snd m) then [(Critical, ''zip_symlink'')]
      else if starts_with ''/'' norm then [(Critical, ''zip_absolute_path'')]
      else if has_drive norm then [(Critical, ''zip_drive_letter'')]
      else if climbs_out 0 (split_on SLASH norm) then [(Critical, ''zip_slip'')] else [])"

definition audit_zip_members :: "(string \<times> nat) list \<Rightarrow> finding list" where
  "audit_zip_members ms = concat (map audit_member ms)"

section \<open>Limits\<close>

definition MAX_ZIP_MEMBERS :: nat where "MAX_ZIP_MEMBERS = 50000"
definition MAX_UNCOMPRESSED_BYTES :: nat where "MAX_UNCOMPRESSED_BYTES = 2147483648"
definition MAX_SINGLE_MEMBER_BYTES :: nat where "MAX_SINGLE_MEMBER_BYTES = 536870912"
definition MAX_COMPRESSION_RATIO :: nat where "MAX_COMPRESSION_RATIO = 100"
definition MIN_RATIO_CHECK_BYTES :: nat where "MIN_RATIO_CHECK_BYTES = 1048576"

datatype zip_error =
    Z_missing | Z_suffix | Z_not_zip | Z_unreadable | Z_damaged string
  | Z_members | Z_member_size string | Z_ratio string | Z_total | Z_audit "string list" | Z_slip string
  | Z_extract | Z_link

fun bomb_scan :: "nat \<Rightarrow> member list \<Rightarrow> zip_error option" where
  "bomb_scan acc [] = None"
| "bomb_scan acc (m # ms) =
     (if is_dir_member m then bomb_scan acc ms
      else if zm_size m > MAX_SINGLE_MEMBER_BYTES then Some (Z_member_size (zm_name m))
      else if zm_packed m > 0 \<and> zm_size m \<ge> MIN_RATIO_CHECK_BYTES \<and> zm_size m > zm_packed m * MAX_COMPRESSION_RATIO
      then Some (Z_ratio (zm_name m))
      else if acc + zm_size m > MAX_UNCOMPRESSED_BYTES then Some Z_total
      else bomb_scan (acc + zm_size m) ms)"

definition assert_zip_bomb_safe :: "member list \<Rightarrow> zip_error option" where
  "assert_zip_bomb_safe ms = (if length ms > MAX_ZIP_MEMBERS then Some Z_members else bomb_scan 0 ms)"

section \<open>Credentials in settings of package managers\<close>

definition CONTENT_FILTERED_FILES :: "string list" where
  "CONTENT_FILTERED_FILES = [''.npmrc'', ''.yarnrc'', ''.yarnrc.yml'']"

definition is_content_filtered_file :: "string \<Rightarrow> bool" where
  "is_content_filtered_file name \<longleftrightarrow> last (split_on SLASH (normalize_sep name)) \<in> set CONTENT_FILTERED_FILES"

text \<open>Python's \<open>splitlines(keepends=True)\<close>.\<close>

definition push_char :: "char \<Rightarrow> string list \<Rightarrow> string list" where
  "push_char c ls = (case ls of [] \<Rightarrow> [[c]] | w # ws \<Rightarrow> (c # w) # ws)"

fun lines_with_ends :: "string \<Rightarrow> string list" where
  "lines_with_ends [] = []"
| "lines_with_ends [c] = [[c]]"
| "lines_with_ends (c # d # s) =
     (if c = CR \<and> d = LF then [c, d] # lines_with_ends s
      else if is_break c then [c] # lines_with_ends (d # s)
      else push_char c (lines_with_ends (d # s)))"

definition skip_quote :: "string \<Rightarrow> string" where
  "skip_quote s = (case s of c # t \<Rightarrow> if c = CHR 0x22 \<or> c = CHR 0x27 then t else s | [] \<Rightarrow> s)"

definition then_one_of :: "string \<Rightarrow> string \<Rightarrow> bool" where
  "then_one_of seps s \<longleftrightarrow> (case lstrip s of c # _ \<Rightarrow> c \<in> set seps | [] \<Rightarrow> False)"

text \<open>\<open>$\<close> matches at the end and before a last line feed. Each optional quote may also be left out.\<close>

definition at_end :: "string \<Rightarrow> bool" where
  "at_end s \<longleftrightarrow> s = [] \<or> s = [LF]"

definition quoted_sep :: "string \<Rightarrow> string \<Rightarrow> bool" where
  "quoted_sep seps s \<longleftrightarrow> then_one_of seps (skip_quote s) \<or> then_one_of seps s"

definition after_auth :: "string \<Rightarrow> bool" where
  "after_auth s \<longleftrightarrow> quoted_sep ''=:'' s \<or> at_end (skip_quote s) \<or> at_end s"

definition auth_word :: "char \<Rightarrow> bool" where
  "auth_word c \<longleftrightarrow> is_lower c \<or> is_digit c"

definition auth_here :: "char option \<Rightarrow> string \<Rightarrow> bool" where
  "auth_here before s \<longleftrightarrow>
     (case before of None \<Rightarrow> True | Some c \<Rightarrow> \<not> auth_word c \<and> c \<noteq> CHR ''_'')
       \<and> (starts_with ''_auth'' s \<and> (after_auth (drop 5 s) \<or> starts_with ''_authtoken'' s \<and> after_auth (drop 10 s)))
     \<or> starts_with ''_password'' s \<and> quoted_sep ''=:'' (drop 9 s)
     \<or> (case before of None \<Rightarrow> True | Some c \<Rightarrow> \<not> auth_word c) \<and> starts_with ''token'' s \<and> quoted_sep ''='' (drop 5 s)
     \<or> starts_with ''npmauthtoken'' s \<and> quoted_sep '':'' (drop 12 s)
     \<or> starts_with ''npmauthident'' s \<and> quoted_sep '':'' (drop 12 s)"

fun auth_search :: "char option \<Rightarrow> string \<Rightarrow> bool" where
  "auth_search before [] = False"
| "auth_search before (c # cs) = (auth_here before (c # cs) \<or> auth_search (Some c) cs)"

definition is_auth_line :: "string \<Rightarrow> bool" where
  "is_auth_line line = auth_search None (to_lower line)"

definition filter_config_auth_lines :: "string \<Rightarrow> string \<times> (nat \<times> string) list" where
  "filter_config_auth_lines t =
     (let ls = lines_with_ends t in
      (concat (filter (\<lambda>l. \<not> is_auth_line l) ls),
       map (\<lambda>(n, l). (n, rev (dropWhile (\<lambda>c. c = CR \<or> c = LF) (rev l))))
         (filter (\<lambda>(n, l). is_auth_line l) (zip [1..<Suc (length ls)] ls))))"

section \<open>Extraction\<close>

text \<open>
  \<open>resolve\<close> of the joined path: an absolute name replaces the directory, and a path that has left the
  directory comes back only when it spells the directory's own parts.
\<close>

definition stays_inside :: "string list \<Rightarrow> string \<Rightarrow> bool" where
  "stays_inside dir name \<longleftrightarrow>
     (let start = (if starts_with ''/'' name then [] else dir);
          full = norm_parts True (rev start) (split_on SLASH name) in
      take (length dir) full = dir)"

text \<open>Where \<open>ZipFile.extract\<close> writes a member: empty parts and dots are left out.\<close>

definition place :: "string \<Rightarrow> string list" where
  "place name = filter (\<lambda>p. p \<noteq> [] \<and> p \<noteq> ''.'' \<and> p \<noteq> ''..'') (split_on SLASH name)"

record tree_ctx =
  tx_dir :: "string list"
  tx_extract_fails :: "member \<Rightarrow> bool"
  tx_links :: "member list \<Rightarrow> bool"
  tx_content :: "member \<Rightarrow> string option"
  tx_existing :: "string \<Rightarrow> bool"

datatype extracted = As_is | Filtered string "nat list" | Undecodable

definition content_step :: "tree_ctx \<Rightarrow> member \<Rightarrow> extracted" where
  "content_step x m =
     (if is_dir_member m \<or> \<not> is_content_filtered_file (last (place (zm_name m))) then As_is
      else (case tx_content x m of
          None \<Rightarrow> Undecodable
        | Some t \<Rightarrow> let (kept, removed) = filter_config_auth_lines t in
            if removed = [] then As_is else Filtered kept (map fst removed)))"

text \<open>A single directory at the top is left out; what the target has already is not replaced.\<close>

definition single_root :: "member list \<Rightarrow> bool" where
  "single_root ms \<longleftrightarrow>
     (case remdups (map hd (filter (\<lambda>p. p \<noteq> []) (map (place \<circ> zm_name) ms))) of
        [_] \<Rightarrow> list_ex (\<lambda>m. 1 < length (place (zm_name m)) \<or> place (zm_name m) \<noteq> [] \<and> is_dir_member m) ms
      | _ \<Rightarrow> False)"

definition placed :: "tree_ctx \<Rightarrow> member list \<Rightarrow> (string list \<times> member \<times> extracted) list" where
  "placed x ms =
     (let drop_root = (if single_root ms then tl else id) in
      filter (\<lambda>(path, _, e). path \<noteq> [] \<and> \<not> tx_existing x (hd path) \<and> e \<noteq> Undecodable)
        (map (\<lambda>m. (drop_root (place (zm_name m)), m, content_step x m)) ms))"

definition names_modes :: "member list \<Rightarrow> (string \<times> nat) list" where
  "names_modes ms = map (\<lambda>m. (zm_name m, zm_mode m)) ms"

definition kept_members :: "member list \<Rightarrow> member list" where
  "kept_members ms = map (\<lambda>i. ms ! i) (zs_keep (sanitize_zip_members (names_modes ms)))"

definition safe_extract :: "tree_ctx \<Rightarrow> member list \<Rightarrow> zip_error + (string list \<times> member \<times> extracted) list" where
  "safe_extract x ms =
     (case assert_zip_bomb_safe ms of
        Some e \<Rightarrow> Inl e
      | None \<Rightarrow>
          (let keep = kept_members ms in
           case assert_zip_bomb_safe keep of
             Some e \<Rightarrow> Inl e
           | None \<Rightarrow>
               (let fs = audit_zip_members (names_modes keep) in
                if has_critical fs then Inl (Z_audit (map snd (filter (\<lambda>f. fst f = Critical) fs)))
                else (case find (\<lambda>m. \<not> stays_inside (tx_dir x) (zm_name m)) keep of
                    Some m \<Rightarrow> Inl (Z_slip (zm_name m))
                  | None \<Rightarrow>
                      if list_ex (\<lambda>m. tx_extract_fails x m \<or> place (zm_name m) = [] \<and> \<not> is_dir_member m) keep
                      then Inl Z_extract
                      else if tx_links x keep then Inl Z_link
                      else Inr (placed x keep)))))"

section \<open>The check before an import\<close>

record zip_file =
  zf_exists :: bool
  zf_suffix :: string
  zf_is_zip :: bool
  zf_members :: "member list option"
  zf_bad :: "string option"

definition validate_zip :: "zip_file \<Rightarrow> zip_error option" where
  "validate_zip z =
     (if \<not> zf_exists z then Some Z_missing
      else if to_lower (zf_suffix z) \<noteq> ''.zip'' then Some Z_suffix
      else if \<not> zf_is_zip z then Some Z_not_zip
      else (case zf_members z of
          None \<Rightarrow> Some Z_unreadable
        | Some ms \<Rightarrow> (case assert_zip_bomb_safe ms of
            Some e \<Rightarrow> Some e
          | None \<Rightarrow> map_option Z_damaged (zf_bad z))))"

end
