(* ===== verification/Audit_Facts.thy ===== *)
theory Audit_Facts
  imports Security_Audit Zip_Audit
begin

text \<open>
  What the audits and the extraction guarantee: an accepted Compose file has no privileged service and
  mounts no system directory and no home, a download that is handed to an interpreter is found also
  across continued lines, and an extracted archive stays inside of its directory and its limits.
\<close>

section \<open>Absolute paths\<close>

text \<open>The reference for lexical resolution: one step per part.\<close>

fun resolve :: "string list \<Rightarrow> string list \<Rightarrow> string list" where
  "resolve acc [] = rev acc"
| "resolve acc (p # ps) =
     (if p = [] \<or> p = ''.'' then resolve acc ps else if p = ''..'' then resolve (tl acc) ps else resolve (p # acc) ps)"

definition components :: "string \<Rightarrow> string list" where
  "components src = resolve [] (split_on SLASH (normalize_sep src))"

lemma norm_parts_rooted: "''..'' \<notin> set acc \<Longrightarrow> norm_parts True acc ps = resolve acc ps"
proof (induction ps arbitrary: acc)
  case (Cons p ps)
  have "''..'' \<notin> set (tl acc)" using Cons.prems by (cases acc) simp_all
  moreover have "acc = [] \<or> hd acc \<noteq> ''..''" using Cons.prems by (cases acc) auto
  ultimately show ?case using Cons by auto
qed simp

lemma set_tl: "p \<in> set (tl acc) \<Longrightarrow> p \<in> set acc"
  by (cases acc) simp_all

lemma resolve_set: "p \<in> set (resolve acc ps) \<Longrightarrow> p \<in> set acc \<or> p \<in> set ps \<and> p \<noteq> [] \<and> p \<noteq> ''.'' \<and> p \<noteq> ''..''"
proof (induction acc ps rule: resolve.induct)
  case (2 acc q ps)
  then show ?case by (auto split: if_splits dest: set_tl)
qed simp

definition plain_parts :: "string list \<Rightarrow> bool" where
  "plain_parts ps \<longleftrightarrow> (\<forall>p \<in> set ps. p \<noteq> [] \<and> SLASH \<notin> set p)"

lemma components_parts: "p \<in> set (components src) \<Longrightarrow> p \<noteq> [] \<and> p \<noteq> ''.'' \<and> p \<noteq> ''..'' \<and> SLASH \<notin> set p"
  unfolding components_def by (drule resolve_set) (auto dest: split_on_parts)

lemma plain_components: "plain_parts (components src)"
  using components_parts by (auto simp: plain_parts_def)

lemma skip_slash_join:
  assumes "plain_parts ps"
  shows "skip_slash (join_on SLASH ps) = join_on SLASH ps"
proof (cases "join_on SLASH ps")
  case (Cons c cs)
  then obtain p qs where ps: "ps = p # qs" by (cases ps) auto
  with assms Cons have "c \<noteq> SLASH" by (cases p; cases qs) (auto simp: plain_parts_def)
  then show ?thesis by (simp add: Cons skip_slash_def)
qed (simp add: skip_slash_def)

lemma judged_components:
  assumes "starts_with ''/'' src"
  shows "judged_path src = SLASH # join_on SLASH (components src)"
proof -
  let ?n = "normalize_sep src" and ?j = "join_on SLASH (components src)"
  have n: "starts_with ''/'' ?n" using assms by (cases src) (simp_all add: normalize_sep_def starts_with_iff)
  have "leading_slashes ?n \<in> {''/'', ''//''}" using n by (simp add: leading_slashes_def)
  moreover have "normpath ?n = leading_slashes ?n @ ?j"
    using n calculation by (auto simp: normpath_def Let_def norm_parts_rooted components_def)
  ultimately have "skip_slash (normpath ?n) = skip_slash ?j" by (auto simp: skip_slash_def)
  also have "\<dots> = ?j" by (rule skip_slash_join) (rule plain_components)
  finally show ?thesis by (simp add: judged_path_def)
qed

lemma components_Cons:
  assumes "components src = d # rest"
  shows "d \<noteq> []" "SLASH \<notin> set d" "\<And>p. p \<in> set rest \<Longrightarrow> p \<noteq> [] \<and> SLASH \<notin> set p"
  using components_parts [of _ src] assms by auto

lemma prefix_dir:
  assumes "SLASH \<notin> set d" "SLASH \<notin> set n"
  shows "starts_with (n @ [SLASH]) (d @ SLASH # t) \<longleftrightarrow> n = d"
proof
  assume "starts_with (n @ [SLASH]) (d @ SLASH # t)"
  then obtain u where "d @ SLASH # t = n @ SLASH # u" by (auto simp: starts_with_iff)
  then have "split_on SLASH (d @ SLASH # t) = split_on SLASH (n @ SLASH # u)" by simp
  then show "n = d" using assms by simp
qed (simp add: starts_with_iff)

lemma prefix_file: "SLASH \<notin> set d \<Longrightarrow> \<not> starts_with (n @ [SLASH]) d"
  by (auto simp: starts_with_iff)

lemma trim_slash_id: "s = [] \<or> last s \<noteq> SLASH \<Longrightarrow> trim_slash s = s"
  by (cases "rev s") (auto simp: trim_slash_def)

lemma last_join:
  assumes "plain_parts ps" "ps \<noteq> []"
  shows "join_on SLASH ps \<noteq> []" "last (join_on SLASH ps) \<noteq> SLASH"
proof -
  have "join_on SLASH ps \<noteq> [] \<and> last (join_on SLASH ps) \<noteq> SLASH"
    using assms
  proof (induction SLASH ps rule: join_on.induct)
    case (2 w)
    then have "w \<noteq> []" "SLASH \<notin> set w" by (simp_all add: plain_parts_def)
    then show ?case using last_in_set [of w] by (metis join_on.simps(2))
  next
    case (3 w v ws) then show ?case by (simp add: plain_parts_def)
  qed simp
  then show "join_on SLASH ps \<noteq> []" "last (join_on SLASH ps) \<noteq> SLASH" by simp_all
qed

lemma rstrip_join:
  assumes "plain_parts ps"
  shows "trim_slash (join_on SLASH ps) = join_on SLASH ps"
proof (cases "ps = []")
  case False then show ?thesis using last_join [OF assms] by (intro trim_slash_id) simp
qed (simp add: trim_slash_def)

lemma is_below_dir:
  assumes "SLASH \<notin> set n" "n \<noteq> []" "d \<noteq> []" "SLASH \<notin> set d"
  shows "is_below (SLASH # join_on SLASH (d # rest)) (SLASH # n) \<longleftrightarrow> n = d"
proof -
  have "last (SLASH # n) \<noteq> SLASH" using assms(1,2) last_in_set [of n] by (metis last_ConsR)
  then have r: "trim_slash (SLASH # n) = SLASH # n" by (simp add: trim_slash_id)
  have c: "starts_with (SLASH # n @ [SLASH]) (SLASH # s) = starts_with (n @ [SLASH]) s" for s
    by (simp add: starts_with_def)
  show ?thesis
  proof (cases rest)
    case Nil then show ?thesis using prefix_file [OF assms(4)] c r by (auto simp: is_below_def)
  next
    case (Cons e es)
    have "d @ SLASH # t \<noteq> n" for t using assms(1) by auto
    then show ?thesis using prefix_dir [OF assms(4,1)] by (simp add: is_below_def r c Cons)
  qed
qed

text \<open>What counts as sensitive, read off the components of the path.\<close>

definition SYSTEM_DIRS :: "string list" where
  "SYSTEM_DIRS = [''etc'', ''var'', ''usr'', ''root'', ''boot'', ''proc'', ''sys'', ''dev'', ''opt'', ''srv'']"

definition sensitive_place :: "string \<Rightarrow> bool" where
  "sensitive_place src \<longleftrightarrow> (case components src of [] \<Rightarrow> True
     | d # rest \<Rightarrow> d \<in> set SYSTEM_DIRS
        \<or> d \<in> {''home'', ''Users''} \<and> (length rest \<le> 1 \<or> has_fragment (to_lower (normalize_sep src))))"

lemma docker_below_var: "is_below p ''/var/lib/docker'' \<Longrightarrow> is_below p ''/var''"
  by (auto simp: is_below_def trim_slash_def starts_with_iff)

lemma audit_absolute_exact:
  assumes "starts_with ''/'' src"
  shows "audit_absolute src = (if sensitive_place src then critical_mount else [])"
proof (cases "components src")
  case Nil
  then show ?thesis
    by (simp add: audit_absolute_def judged_components [OF assms] sensitive_place_def home_root_def
        trim_slash_def starts_with_def HOST_SENSITIVE_DIRS_def)
next
  case (Cons d rest)
  note d = components_Cons [OF Cons]
  have p: "judged_path src = SLASH # join_on SLASH (d # rest)" by (simp add: judged_components [OF assms] Cons)
  have all: "plain_parts (d # rest)" using d by (auto simp: plain_parts_def)
  have r: "trim_slash (SLASH # join_on SLASH (d # rest)) = SLASH # join_on SLASH (d # rest)"
    using last_join [OF all] by (intro trim_slash_id) simp
  have sys: "list_ex (\<lambda>e. if e = ''/'' then judged_path src = ''/'' else is_below (judged_path src) e) HOST_SENSITIVE_DIRS
      \<longleftrightarrow> d \<in> set SYSTEM_DIRS \<or> d = ''home''"
    using is_below_dir [OF _ _ d(1,2), of _ rest] docker_below_var [of "judged_path src"] last_join(1) [OF all]
    by (auto simp: HOST_SENSITIVE_DIRS_def SYSTEM_DIRS_def p)
  have home: "home_root (judged_path src) = (if d = ''home'' \<and> rest \<noteq> [] then Some ''/home/''
      else if d = ''Users'' \<and> rest \<noteq> [] then Some ''/Users/'' else None)"
    using prefix_dir [OF d(2), of "''home''"] prefix_dir [OF d(2), of "''Users''"]
      prefix_file [OF d(2), of "''home''"] prefix_file [OF d(2), of "''Users''"]
    by (cases rest) (auto simp: home_root_def p starts_with_def)
  have slash: "SLASH \<in> set (tl (judged_path src))" if "rest \<noteq> []"
    using that by (cases rest) (simp_all add: p)
  then have whole: "trim_slash (judged_path src) = SLASH # n \<longleftrightarrow> d = n \<and> rest = []" if "SLASH \<notin> set n" for n
    using that r by (cases rest) (auto simp: p)
  have tail: "trim_slash (drop (Suc (Suc (length d))) (judged_path src)) = join_on SLASH rest" if "rest \<noteq> []"
    using rstrip_join [of rest] that all by (cases rest) (simp_all add: p plain_parts_def)
  have deep: "SLASH \<notin> set (join_on SLASH rest) \<longleftrightarrow> length rest \<le> 1"
    using d(3) by (cases rest; cases "tl rest") auto
  have quiet: "d \<notin> set SYSTEM_DIRS" if "d = ''home'' \<or> d = ''Users''"
    using that by (auto simp: SYSTEM_DIRS_def)
  consider "rest = []" | "rest \<noteq> []" "d = ''home''" | "rest \<noteq> []" "d = ''Users''"
    | "rest \<noteq> []" "d \<noteq> ''home''" "d \<noteq> ''Users''" by blast
  then show ?thesis
  proof cases
    case 1 then show ?thesis using sys quiet home whole [of "''home''"] whole [of "''Users''"]
      by (simp add: audit_absolute_def Let_def sensitive_place_def Cons)
  next
    case 2 then show ?thesis using home whole [of "''home''"] whole [of "''Users''"] tail deep quiet
      by (simp add: audit_absolute_def Let_def sensitive_place_def Cons)
  next
    case 3 then show ?thesis using home whole [of "''home''"] whole [of "''Users''"] tail deep quiet
      by (simp add: audit_absolute_def Let_def sensitive_place_def Cons)
  next
    case 4 then show ?thesis using sys home whole [of "''home''"] whole [of "''Users''"]
      by (simp add: audit_absolute_def Let_def sensitive_place_def Cons)
  qed
qed

section \<open>Relative paths\<close>

definition relative_parts :: "string \<Rightarrow> string list" where
  "relative_parts src = norm_parts False [] (split_on SLASH (normalize_sep src))"

lemma norm_parts_set: "p \<in> set (norm_parts r acc ps) \<Longrightarrow> p \<in> set acc \<or> p \<in> set ps \<and> p \<noteq> []"
  by (induction r acc ps rule: norm_parts.induct) (auto split: if_splits dest: set_tl)

lemma relative_plain: "plain_parts (relative_parts src)"
  by (auto simp: plain_parts_def relative_parts_def dest!: norm_parts_set dest: split_on_parts)

abbreviation DOTS :: string where "DOTS \<equiv> ''..''"

lemma dots_prefix:
  assumes "plain_parts (p # ps)"
  shows "starts_with ''../'' (join_on SLASH (p # ps)) \<longleftrightarrow> p = DOTS \<and> ps \<noteq> []"
  using assms prefix_dir [of p DOTS] prefix_file [of p DOTS]
  by (cases ps) (auto simp: plain_parts_def)

lemma length_join: "plain_parts ps \<Longrightarrow> length ps \<le> length (join_on SLASH ps)"
proof (induction SLASH ps rule: join_on.induct)
  case (2 w) then show ?case by (cases w) (simp_all add: plain_parts_def)
next
  case (3 w v ws) then show ?case by (simp add: plain_parts_def)
qed simp

lemma escaped_tail_join:
  assumes "plain_parts qs" "DOTS \<notin> set qs" "0 < k \<or> qs \<noteq> []" "k \<le> n"
  shows "escaped_tail n (join_on SLASH (replicate k DOTS @ qs)) = (if qs = [] then DOTS else join_on SLASH qs)"
  using assms(3,4)
proof (induction k arbitrary: n)
  case 0
  then obtain q qs' where qs: "qs = q # qs'" by (cases qs) auto
  then have "\<not> starts_with ''../'' (join_on SLASH qs)" using dots_prefix [of q qs'] assms(1,2) by auto
  then show ?case using qs by (cases n) simp_all
next
  case (Suc k)
  then obtain m where n: "n = Suc m" "k \<le> m" by (cases n) auto
  show ?case
  proof (cases "replicate k DOTS @ qs")
    case Nil
    then have "k = 0" "qs = []" by simp_all
    then show ?thesis using n by (simp add: starts_with_def)
  next
    case (Cons a as)
    then have "0 < k \<or> qs \<noteq> []" by (cases k) auto
    then have "escaped_tail m (join_on SLASH (a # as)) = (if qs = [] then DOTS else join_on SLASH qs)"
      using Suc.IH [OF _ n(2)] Cons by simp
    then show ?thesis using n by (simp add: Cons starts_with_def)
  qed
qed

text \<open>What a mount that climbs out of its directory may reach, seen from the root.\<close>

definition climbs_to_system :: "string \<Rightarrow> bool" where
  "climbs_to_system src \<longleftrightarrow> (\<exists>k qs. relative_parts src = replicate k DOTS @ qs \<and> DOTS \<notin> set qs
     \<and> (if qs = [] then 2 \<le> k else 1 \<le> k \<and> (hd qs \<in> set SYSTEM_DIRS \<or> hd qs = ''home'')))"

lemma climbing_is_critical:
  assumes "starts_with ''.'' src" "climbs_to_system src"
  shows "audit_relative a src = critical_mount"
proof -
  obtain k qs where k: "relative_parts src = replicate k DOTS @ qs" "DOTS \<notin> set qs"
    and far: "if qs = [] then 2 \<le> k else 1 \<le> k \<and> (hd qs \<in> set SYSTEM_DIRS \<or> hd qs = ''home'')"
    using assms(2) by (auto simp: climbs_to_system_def)
  have "1 \<le> k" using far by (auto split: if_splits)
  then obtain j where j: "k = Suc j" by (cases k) auto
  have plain: "plain_parts (replicate k DOTS @ qs)" using relative_plain [of src] k(1) by simp
  then have qs: "plain_parts qs" by (simp add: plain_parts_def)
  have rooted: "\<not> starts_with ''/'' (normalize_sep src)"
    using assms(1) by (auto simp: starts_with_iff normalize_sep_def)
  let ?n = "join_on SLASH (replicate k DOTS @ qs)"
  have n: "normpath (normalize_sep src) = ?n"
    using rooted last_join(1) [OF plain] k(1) j
    by (simp add: normpath_def leading_slashes_def relative_parts_def)
  have up: "starts_with ''../'' ?n"
    using dots_prefix [of DOTS "replicate j DOTS @ qs"] plain far by (auto simp: j split: if_splits)
  have kn: "k \<le> length ?n" using length_join [OF plain] by simp
  have t: "escaped_tail (length ?n) ?n = (if qs = [] then DOTS else join_on SLASH qs)"
    by (rule escaped_tail_join [OF qs k(2) _ kn]) (simp add: j)
  show ?thesis
  proof (cases qs)
    case Nil then show ?thesis using up t by (simp add: audit_relative_def Let_def n)
  next
    case (Cons q rest)
    have q: "q \<noteq> []" "SLASH \<notin> set q" using qs Cons by (simp_all add: plain_parts_def)
    have "list_ex (\<lambda>d. d \<noteq> ''/'' \<and> is_below (SLASH # join_on SLASH (q # rest)) d) HOST_SENSITIVE_DIRS"
      using is_below_dir [OF _ _ q, of _ rest] far Cons
      by (auto simp: HOST_SENSITIVE_DIRS_def SYSTEM_DIRS_def)
    then show ?thesis using up t Cons by (simp add: audit_relative_def Let_def n)
  qed
qed

section \<open>Compose files\<close>

lemma has_critical_append [simp]: "has_critical (xs @ ys) \<longleftrightarrow> has_critical xs \<or> has_critical ys"
  by (simp add: has_critical_def)

lemma has_critical_concat: "has_critical (concat (map f xs)) \<longleftrightarrow> (\<exists>x \<in> set xs. has_critical (f x))"
  by (auto simp: has_critical_def list_ex_iff)

lemma has_critical_mount [simp]:
  "has_critical critical_mount" "\<not> has_critical unexpected_mount" "\<not> has_critical []"
  by (simp_all add: has_critical_def critical_mount_def unexpected_mount_def)

text \<open>Where a mount that raises no critical finding may not lead.\<close>

definition contained_mount :: "string \<Rightarrow> bool" where
  "contained_mount src \<longleftrightarrow>
     (starts_with ''/'' src \<longrightarrow> \<not> sensitive_place src)
     \<and> (starts_with ''.'' src \<and> \<not> unexpandable src \<longrightarrow> \<not> climbs_to_system src)
     \<and> (unexpandable src \<longrightarrow> \<not> has_fragment (to_lower (normalize_sep src)))
     \<and> (is_windows_abs_path (normalize_sep src) \<and> \<not> unexpandable src \<longrightarrow> \<not> starts_with ''c:/'' (to_lower (normalize_sep src)))
     \<and> (\<forall>k \<in> set DOCKER_SOCKET_PATHS. normalize_sep src \<noteq> k \<and> \<not> starts_with (k @ ''/'') (normalize_sep src))"

lemma windows_drive:
  assumes "starts_with ''c:/'' (to_lower (normalize_sep src))"
  shows "audit_windows src = critical_mount"
  using assms by (simp add: audit_windows_def WINDOWS_HOST_SENSITIVE_DIRS_def is_below_def trim_slash_def)

lemma accepted_source:
  assumes "\<not> has_critical (audit_source a src)"
  shows "src = [] \<or> contained_mount src"
proof (cases "src = []")
  case False
  let ?n = "normalize_sep src"
  have sock: "\<not> list_ex (\<lambda>k. ?n = k \<or> starts_with (k @ ''/'') ?n) DOCKER_SOCKET_PATHS"
    using assms False by (auto simp: audit_source_def has_critical_def)
  have abs: "\<not> unexpandable src" if "starts_with ''/'' src" using that by (auto simp: unexpandable_def starts_with_iff)
  have win: "\<not> starts_with ''/'' src" if "is_windows_abs_path ?n"
    using that by (auto simp: is_windows_abs_path_def starts_with_iff normalize_sep_def is_letter_def is_upper_def
        is_lower_def Let_def split: list.splits)
  have dot: "\<not> starts_with ''/'' src \<and> \<not> is_windows_abs_path ?n" if "starts_with ''.'' src"
    using that by (auto simp: is_windows_abs_path_def starts_with_iff normalize_sep_def is_letter_def is_upper_def
        is_lower_def Let_def split: list.splits)
  have s: "audit_source a src =
     (if unexpandable src then (if has_fragment (to_lower ?n) then critical_mount else unexpected_mount)
      else if starts_with ''/'' src then audit_absolute src
      else if is_windows_abs_path ?n then audit_windows src
      else if starts_with ''.'' src then audit_relative a src else [])"
    using sock False by (simp add: audit_source_def Let_def)
  have 1: "starts_with ''/'' src \<longrightarrow> \<not> sensitive_place src"
    using assms abs audit_absolute_exact [of src] by (auto simp: s)
  have 2: "starts_with ''.'' src \<and> \<not> unexpandable src \<longrightarrow> \<not> climbs_to_system src"
    using assms dot climbing_is_critical [of src a] by (auto simp: s)
  have 3: "unexpandable src \<longrightarrow> \<not> has_fragment (to_lower ?n)"
    using assms by (auto simp: s)
  have 4: "is_windows_abs_path ?n \<and> \<not> unexpandable src \<longrightarrow> \<not> starts_with ''c:/'' (to_lower ?n)"
    using assms win windows_drive [of src] by (auto simp: s)
  show ?thesis using 1 2 3 4 sock by (auto simp: contained_mount_def list_ex_iff)
qed simp

text \<open>The sources of the bind mounts of a service.\<close>

definition mount_sources :: "audit_ctx \<Rightarrow> (string \<times> json) list \<Rightarrow> string list" where
  "mount_sources a svc =
     (case get_or svc ''volumes'' JNull of
        JArr vs \<Rightarrow> List.map_filter (volume_source a False) vs
      | JObj ms \<Rightarrow> List.map_filter (\<lambda>m. volume_source a True (snd m)) ms
      | _ \<Rightarrow> [])"

lemma accepted_service:
  assumes "\<not> has_critical (audit_service a svc)"
  shows "\<not> py_true (get_or svc ''privileged'' JNull)"
    and "src \<in> set (mount_sources a svc) \<Longrightarrow> src \<noteq> [] \<Longrightarrow> contained_mount src"
proof -
  show "\<not> py_true (get_or svc ''privileged'' JNull)"
    using assms by (auto simp: audit_service_def has_critical_def split: if_splits)
  assume src: "src \<in> set (mount_sources a svc)" "src \<noteq> []"
  have "\<not> has_critical (case get_or svc ''volumes'' JNull of
          JArr vs \<Rightarrow> concat (map (audit_volume a False) vs)
        | JObj ms \<Rightarrow> concat (map (\<lambda>(_, v). audit_volume a True v) ms)
        | _ \<Rightarrow> [])"
    using assms by (simp add: audit_service_def)
  then have "\<not> has_critical (audit_source a src)"
    using src by (fastforce simp: mount_sources_def audit_volume_def has_critical_concat List.map_filter_def
        split: json.splits option.splits)
  from accepted_source [OF this] src(2) show "contained_mount src" by simp
qed


section \<open>Dockerfiles\<close>

lemma chain_search_found:
  assumes "tool \<in> {''curl'', ''wget''}" "at_boundary rest" "chain_after rest"
    and "if pre = [] then \<not> b else \<not> is_word (last pre)"
  shows "chain_search b (pre @ tool @ rest)"
  using assms(4)
proof (induction pre arbitrary: b)
  case Nil
  then show ?case using assms(1-3) by (auto simp: starts_with_def)
next
  case (Cons c cs)
  then have "if cs = [] then \<not> is_word c else \<not> is_word (last cs)" by (simp split: if_splits)
  from Cons.IH [OF this] show ?case by simp
qed

lemma lstrip_blanks: "list_all is_ws ws \<Longrightarrow> s = [] \<or> \<not> is_ws (hd s) \<Longrightarrow> lstrip (ws @ s) = s"
  by (induction ws) (cases s; simp add: lstrip_def)+

lemma starts_steps:
  "starts_with [] s" "\<not> starts_with (c # p) []" "starts_with (c # p) (d # s) \<longleftrightarrow> c = d \<and> starts_with p s"
  by (auto simp: starts_with_def)

definition INTERPRETERS :: "string list" where
  "INTERPRETERS = [''sh'', ''bash'', ''node'', ''perl'', ''ruby'', ''python'', ''/bin/sh'', ''/bin/bash'', ''/usr/bin/python'']"

lemma interpreter_starts:
  assumes "i \<in> set INTERPRETERS" "at_boundary post"
  shows "starts_interpreter (i @ post)" "\<not> is_ws (hd (i @ post))"
proof -
  have "dropWhile is_digit post = post" if "post = [] \<or> \<not> is_word (hd post)"
    using that by (cases post) (auto simp: is_word_def)
  then have d: "at_boundary (dropWhile is_digit post)"
    using assms(2) by (cases post) (auto simp: at_boundary_def)
  have "i = ''sh'' \<or> i = ''bash'' \<or> i = ''node'' \<or> i = ''perl'' \<or> i = ''ruby'' \<or> i = ''python'' \<or> i = ''/bin/sh''
      \<or> i = ''/bin/bash'' \<or> i = ''/usr/bin/python''"
    using assms(1) by (simp add: INTERPRETERS_def)
  then show "starts_interpreter (i @ post)"
    using assms(2) d by (elim disjE) (simp_all add: starts_interpreter_def skip_prefix_def starts_steps)
  show "\<not> is_ws (hd (i @ post))"
    using assms(1) by (auto simp: INTERPRETERS_def is_ws_def)
qed

definition CHAIN_OPERATORS :: "string list" where
  "CHAIN_OPERATORS = [''|'', ''||'', ''&&'', '';'']"

lemma chain_after_operator:
  assumes "set args \<inter> chain_separators = {}" "opr \<in> set CHAIN_OPERATORS" "list_all is_ws ws"
    and "i \<in> set INTERPRETERS" "at_boundary post"
  shows "chain_after (args @ opr @ ws @ i @ post)"
proof -
  note start = interpreter_starts [OF assms(4,5)]
  have w: "lstrip (ws @ i @ post) = i @ post" using lstrip_blanks [OF assms(3), of "i @ post"] start(2) by simp
  have no: "\<not> starts_with ''|'' (ws @ i @ post)"
    using assms(3,4) by (cases ws) (auto simp: starts_with_def INTERPRETERS_def is_ws_def)
  have t: "dropWhile (\<lambda>c. c \<notin> chain_separators) (args @ opr @ ws @ i @ post) = opr @ ws @ i @ post"
    using assms(1,2) by (subst dropWhile_append2) (auto simp: CHAIN_OPERATORS_def chain_separators_def)
  show ?thesis
    using assms(2) start(1) w no
    by (auto simp: chain_after_def t CHAIN_OPERATORS_def starts_with_def)
qed


lemma join_lines_continued:
  assumes "list_all is_ws ws" "LF \<in> set ws" "u = [] \<or> \<not> is_ws (hd u)" "s = [] \<or> \<not> is_ws (last s)"
  shows "join_lines (s @ CHR 0x5C # ws @ u) = join_lines (s @ CHR '' '' # u)"
  using assms(4)
proof (induction s rule: length_induct)
  case (1 s)
  have u: "takeWhile is_ws (ws @ u) = ws" "dropWhile is_ws (ws @ u) = u"
    using assms(1,3) by (induction ws) (cases u; simp)+
  have bs: "\<not> is_ws CHR 0x5C" by (simp add: is_ws_def)
  show ?case
  proof (cases s)
    case Nil then show ?thesis using assms(2) u by simp
  next
    case (Cons c t)
    show ?thesis
    proof (cases "t = []")
      case True
      have sp: "takeWhile is_ws (CHR '' '' # u) = '' ''"
        using assms(3) by (cases u) (simp_all add: is_ws_def)
      have "join_lines (CHR 0x5C # ws @ u) = join_lines (CHR '' '' # u)" using assms(2) by (simp add: u)
      moreover have "LF \<noteq> CHR '' ''" by code_simp
      ultimately show ?thesis using Cons True bs sp by simp
    next
      case False
      then have l: "\<not> is_ws (last t)" using "1.prems" Cons by simp
      then have ex: "last t \<in> set t" using False by simp
      have tw: "takeWhile is_ws (t @ v) = takeWhile is_ws t" "dropWhile is_ws (t @ v) = dropWhile is_ws t @ v" for v
        using ex l by (auto intro: takeWhile_append1 dropWhile_append1)
      have "dropWhile is_ws t \<noteq> []" using ex l by auto
      then have "last (dropWhile is_ws t) = last t" by (metis last_appendR takeWhile_dropWhile_id)
      moreover have "length (dropWhile is_ws t) < length s" using Cons by (simp add: le_imp_less_Suc length_dropWhile_le)
      ultimately have "join_lines (dropWhile is_ws t @ CHR 0x5C # ws @ u) = join_lines (dropWhile is_ws t @ CHR '' '' # u)"
        using "1.IH" l by simp
      moreover have "join_lines (t @ CHR 0x5C # ws @ u) = join_lines (t @ CHR '' '' # u)"
        using "1.IH" l Cons by simp
      ultimately show ?thesis using Cons tw by simp
    qed
  qed
qed


text \<open>Spellings that Docker accepts and the audit does not see: an instruction that is separated from
  its arguments by a tab, and a download whose quoted address holds an ampersand.\<close>

theorem unseen_spellings:
  "audit_line (''RUN'' @ CHR 0x09 # s) = [] \<and> audit_line (''ADD'' @ CHR 0x09 # s) = []
   \<and> audit_line (''RUN curl '' @ CHR 0x22 # ''http://h/i?a=1&b=2'' @ CHR 0x22 # '' | sh'') = []"
proof (intro conjI)
  show "audit_line (''RUN'' @ CHR 0x09 # s) = []" "audit_line (''ADD'' @ CHR 0x09 # s) = []"
    by (simp_all add: audit_line_def Let_def to_upper_def starts_steps is_lower_def)
  show "audit_line (''RUN curl '' @ CHR 0x22 # ''http://h/i?a=1&b=2'' @ CHR 0x22 # '' | sh'') = []"
    by code_simp
qed

section \<open>Examples\<close>

definition sample_service :: "(string \<times> json) list" where
  "sample_service = [(''volumes'', JArr [JStr ''../data:/app/data'', JStr ''/mnt//x/../media:/media''])]"

definition sample_au :: audit_ctx where
  "sample_au = \<lparr>au_yaml = (\<lambda>_. Some (JObj [(''services'', JObj [(''app'', JObj sample_service)])])),
     au_repr = (\<lambda>_. []), au_allowed = DEFAULT_ALLOWED_HOST_MOUNTS\<rparr>"




end
