(* ===== verification/Zip_Facts.thy ===== *)
theory Zip_Facts
  imports Audit_Facts
begin

text \<open>
  What the extraction of an archive guarantees: where the members may land, what is never extracted, the
  limits on number and size, and that lines with credentials are taken out of the settings.
\<close>

section \<open>What is extracted\<close>

abbreviation BS :: char where "BS \<equiv> CHR 0x5C"

lemma split_normalized_hd:
  "(BS \<notin> set (hd (split_on SLASH s)) \<longrightarrow> hd (split_on SLASH (normalize_sep s)) = hd (split_on SLASH s))
   \<and> (\<forall>p \<in> set (tl (split_on SLASH s)). BS \<notin> set p \<longrightarrow> p \<in> set (tl (split_on SLASH (normalize_sep s))))"
proof (induction s)
  case (Cons x s)
  obtain w ws where w: "split_on SLASH s = w # ws" by (meson neq_Nil_conv split_on_nonempty)
  obtain v vs where v: "split_on SLASH (normalize_sep s) = v # vs" by (meson neq_Nil_conv split_on_nonempty)
  have n: "normalize_sep (x # s) = (if x = BS then SLASH else x) # normalize_sep s" by (simp add: normalize_sep_def)
  show ?case using Cons by (auto simp: n w v)
qed (simp add: normalize_sep_def)

lemma split_normalized:
  assumes "p \<in> set (split_on SLASH s)" "BS \<notin> set p"
  shows "p \<in> set (split_on SLASH (normalize_sep s))"
proof -
  obtain w ws where w: "split_on SLASH s = w # ws" by (meson neq_Nil_conv split_on_nonempty)
  obtain v vs where v: "split_on SLASH (normalize_sep s) = v # vs" by (meson neq_Nil_conv split_on_nonempty)
  show ?thesis using assms split_normalized_hd [of s] by (auto simp: w v)
qed

lemma segment_rule_None:
  "segment_rule seen ps = None \<Longrightarrow> p \<in> set (butlast ps) \<Longrightarrow> p \<notin> set STRIPPABLE_SEGMENTS"
  by (induction seen ps rule: segment_rule.induct) (auto split: if_splits)

lemma kept_parts:
  assumes "strip_rule_for name = None" "p \<in> set (name_parts name)"
  shows "p \<notin> set STRIPPABLE_SEGMENTS"
proof -
  have "name_parts name \<noteq> []" using assms(2) by auto
  then have "segment_rule [] (name_parts name) = None" "last (name_parts name) \<notin> set STRIPPABLE_SEGMENTS"
    and "p \<in> set (butlast (name_parts name)) \<or> p = last (name_parts name)"
    using assms by (auto simp: strip_rule_for_def Let_def split: option.splits if_splits)
      (metis append_butlast_last_id in_set_butlast_appendI list.set_intros(1) rotate1.simps(2) set_ConsD set_rotate1)
  then show ?thesis using segment_rule_None by blast
qed

lemma place_parts:
  assumes "p \<in> set (place name)"
  shows "p \<noteq> []" "p \<noteq> ''.''" "p \<noteq> ''..''" "SLASH \<notin> set p"
  using assms by (auto simp: place_def dest: split_on_parts)

lemma segments_no_bs: "p \<in> set STRIPPABLE_SEGMENTS \<Longrightarrow> BS \<notin> set p"
  by (auto simp: STRIPPABLE_SEGMENTS_def)

lemma place_kept:
  assumes "strip_rule_for name = None" "p \<in> set (place name)"
  shows "p \<notin> set STRIPPABLE_SEGMENTS"
proof
  assume p: "p \<in> set STRIPPABLE_SEGMENTS"
  have "p \<in> set (name_parts name)"
    using assms(2) split_normalized [of p name] segments_no_bs [OF p] by (auto simp: name_parts_def place_def)
  with kept_parts [OF assms(1)] p show False by blast
qed

lemma filter_indices: "map ((!) ms) (filter (\<lambda>i. P (ms ! i)) [0..<length ms]) = filter P ms"
  using filter_map [of P "(!) ms" "[0..<length ms]"] by (simp add: comp_def map_nth)

lemma kept_members_eq: "kept_members ms = filter (\<lambda>m. strip_rule_for (zm_name m) = None) ms"
proof -
  have "filter (\<lambda>i. strip_rule_for (fst (names_modes ms ! i)) = None) [0..<length ms]
      = filter (\<lambda>i. strip_rule_for (zm_name (ms ! i)) = None) [0..<length ms]"
    by (rule filter_cong) (simp_all add: names_modes_def)
  then have "kept_members ms = map ((!) ms) (filter (\<lambda>i. strip_rule_for (zm_name (ms ! i)) = None) [0..<length ms])"
    by (simp add: kept_members_def sanitize_zip_members_def) (simp add: names_modes_def)
  then show ?thesis using filter_indices [of ms "\<lambda>m. strip_rule_for (zm_name m) = None"] by simp
qed

lemma safe_extract_InrD:
  assumes "safe_extract x ms = Inr out"
  shows "out = placed x (kept_members ms)" "assert_zip_bomb_safe (kept_members ms) = None"
    "\<not> has_critical (audit_zip_members (names_modes (kept_members ms)))"
    "m \<in> set (kept_members ms) \<Longrightarrow> stays_inside (tx_dir x) (zm_name m)"
  using assms by (auto simp: safe_extract_def Let_def find_None_iff split: option.splits if_splits)

lemma audited_member:
  assumes "\<not> has_critical (audit_zip_members (names_modes ms))" "m \<in> set ms"
  shows "\<not> is_symlink_mode (zm_mode m)" "\<not> starts_with ''/'' (normalize_sep (zm_name m))"
    "\<not> has_drive (normalize_sep (zm_name m))" "\<not> climbs_out 0 (split_on SLASH (normalize_sep (zm_name m)))"
proof -
  have "\<not> has_critical (audit_member (zm_name m, zm_mode m))"
    using assms unfolding audit_zip_members_def has_critical_concat names_modes_def by auto
  then show "\<not> is_symlink_mode (zm_mode m)" "\<not> starts_with ''/'' (normalize_sep (zm_name m))"
    "\<not> has_drive (normalize_sep (zm_name m))" "\<not> climbs_out 0 (split_on SLASH (normalize_sep (zm_name m)))"
    by (auto simp: audit_member_def Let_def has_critical_def split: if_splits)
qed

lemma placed_mem:
  assumes "(path, m, e) \<in> set (placed x ms)"
  shows "m \<in> set ms" "path = place (zm_name m) \<or> path = tl (place (zm_name m))" "path \<noteq> []"
    "\<not> tx_existing x (hd path)" "e = content_step x m" "e \<noteq> Undecodable"
  using assms by (auto simp: placed_def Let_def split: if_splits)

definition clean_lines :: "string \<Rightarrow> bool" where
  "clean_lines t \<longleftrightarrow> (\<forall>l \<in> set (lines_with_ends t). \<not> is_auth_line l)"

lemma filter_config_lines:
  assumes "filter_config_auth_lines t = (kept, removed)"
  shows "kept = concat (filter (\<lambda>l. \<not> is_auth_line l) (lines_with_ends t))" "removed = [] \<Longrightarrow> clean_lines t"
proof -
  show "kept = concat (filter (\<lambda>l. \<not> is_auth_line l) (lines_with_ends t))"
    using assms by (auto simp: filter_config_auth_lines_def Let_def)
  assume "removed = []"
  then have none: "\<not> is_auth_line l" if "(n, l) \<in> set (zip [1..<Suc (length (lines_with_ends t))] (lines_with_ends t))" for n l
    using assms that by (auto simp: filter_config_auth_lines_def Let_def filter_empty_conv)
  show "clean_lines t" unfolding clean_lines_def
  proof
    fix l assume "l \<in> set (lines_with_ends t)"
    then obtain i where "i < length (lines_with_ends t)" "lines_with_ends t ! i = l" by (auto simp: in_set_conv_nth)
    then have "(Suc i, l) \<in> set (zip [1..<Suc (length (lines_with_ends t))] (lines_with_ends t))"
      by (auto simp: in_set_zip simp del: upt_Suc intro!: exI [of _ i])
    from none [OF this] show "\<not> is_auth_line l" .
  qed
qed

lemma content_outcome:
  assumes "is_content_filtered_file (last (place (zm_name m)))" "\<not> is_dir_member m" "content_step x m \<noteq> Undecodable"
  shows "\<exists>t. tx_content x m = Some t \<and> (case content_step x m of
      Filtered kept _ \<Rightarrow> kept = concat (filter (\<lambda>l. \<not> is_auth_line l) (lines_with_ends t)) | _ \<Rightarrow> clean_lines t)"
proof (cases "tx_content x m")
  case None then show ?thesis using assms by (simp add: content_step_def)
next
  case (Some t)
  obtain kept removed where f: "filter_config_auth_lines t = (kept, removed)" by (cases "filter_config_auth_lines t")
  show ?thesis using Some assms filter_config_lines [OF f] by (simp add: content_step_def f)
qed


section \<open>Limits\<close>

lemma bomb_scan_None:
  assumes "bomb_scan acc ms = None" "acc \<le> MAX_UNCOMPRESSED_BYTES"
  shows "acc + sum_list (map zm_size (filter (\<lambda>m. \<not> is_dir_member m) ms)) \<le> MAX_UNCOMPRESSED_BYTES"
    and "m \<in> set ms \<Longrightarrow> \<not> is_dir_member m \<Longrightarrow> zm_size m \<le> MAX_SINGLE_MEMBER_BYTES"
    and "m \<in> set ms \<Longrightarrow> \<not> is_dir_member m \<Longrightarrow> 0 < zm_packed m \<Longrightarrow> MIN_RATIO_CHECK_BYTES \<le> zm_size m
      \<Longrightarrow> zm_size m \<le> zm_packed m * MAX_COMPRESSION_RATIO"
  using assms by (induction acc ms rule: bomb_scan.induct) (auto split: if_splits)

text \<open>C38: An extraction that succeeds has written at most 50000 members with together at most two gigabytes,
  none larger than half a gigabyte, and none of a megabyte or more that was packed to less than a
  hundredth, by the sizes that the archive declares.\<close>

theorem extraction_bounded:
  assumes "safe_extract x ms = Inr out"
  shows "length out \<le> MAX_ZIP_MEMBERS
    \<and> sum_list (map (\<lambda>(_, m, _). if is_dir_member m then 0 else zm_size m) out) \<le> MAX_UNCOMPRESSED_BYTES
    \<and> (\<forall>(path, m, e) \<in> set out. is_dir_member m \<or> zm_size m \<le> MAX_SINGLE_MEMBER_BYTES
        \<and> (0 < zm_packed m \<and> MIN_RATIO_CHECK_BYTES \<le> zm_size m \<longrightarrow> zm_size m \<le> zm_packed m * MAX_COMPRESSION_RATIO))"
proof -
  let ?k = "kept_members ms" let ?size = "\<lambda>m. if is_dir_member m then 0 else zm_size m"
  note out = safe_extract_InrD [OF assms]
  have b: "length ?k \<le> MAX_ZIP_MEMBERS" "bomb_scan 0 ?k = None"
    using out(2) by (simp_all add: assert_zip_bomb_safe_def split: if_splits)
  note s = bomb_scan_None [OF b(2) le0]
  have f: "sum_list (map ?size ls) = sum_list (map zm_size (filter (\<lambda>m. \<not> is_dir_member m) ls))" for ls
    by (induction ls) auto
  have g: "sum_list (map (\<lambda>(_, m, _). ?size m) (filter P (map (\<lambda>m. (g m, m, h m)) ls))) \<le> sum_list (map ?size ls)" for P g h ls
    by (induction ls) auto
  have "length out \<le> length ?k" by (simp add: out(1) placed_def Let_def le_trans [OF length_filter_le])
  moreover have "sum_list (map (\<lambda>(_, m, _). ?size m) out) \<le> sum_list (map ?size ?k)"
    unfolding out(1) placed_def Let_def by (rule g)
  moreover have "\<forall>(path, m, e) \<in> set out. m \<in> set ?k" using placed_mem(1) by (auto simp: out(1))
  ultimately show ?thesis using b(1) s f [of ?k] by fastforce
qed

section \<open>Credentials\<close>

text \<open>The keys, what may not stand before them, and the separators behind them.\<close>

definition CREDENTIAL_KEYS :: "(string \<times> string \<times> string) list" where
  "CREDENTIAL_KEYS = [(''_auth'', ''word_'', ''=:''), (''_authtoken'', ''word_'', ''=:''), (''_password'', [], ''=:''),
     (''token'', ''word'', ''=''), (''npmauthtoken'', [], '':''), (''npmauthident'', [], '':'')]"

definition fits_before :: "string \<Rightarrow> char option \<Rightarrow> bool" where
  "fits_before kind before \<longleftrightarrow> kind = [] \<or> (case before of None \<Rightarrow> True
     | Some c \<Rightarrow> \<not> auth_word c \<and> (kind = ''word_'' \<longrightarrow> c \<noteq> CHR ''_''))"

definition last_char :: "string \<Rightarrow> char option" where
  "last_char s = (if s = [] then None else Some (last s))"

lemma then_one_ofI: "list_all is_ws blanks \<Longrightarrow> c \<in> set seps \<Longrightarrow> \<not> is_ws c \<Longrightarrow> then_one_of seps (blanks @ c # rest)"
  using lstrip_blanks [of blanks "c # rest"] by (simp add: then_one_of_def)

lemma quoted_sepI:
  assumes "q = [] \<or> q = [CHR 0x22] \<or> q = [CHR 0x27]" "list_all is_ws blanks" "c \<in> set seps" "\<not> is_ws c"
  shows "quoted_sep seps (q @ blanks @ c # rest)"
  using assms(1) then_one_ofI [OF assms(2-4)] by (auto simp: quoted_sep_def skip_quote_def)

lemma auth_search_append:
  assumes "s \<noteq> []" "auth_here (if pre = [] then before else Some (last pre)) s"
  shows "auth_search before (pre @ s)"
  using assms(2)
proof (induction pre arbitrary: before)
  case Nil then show ?case using assms(1) by (cases s) simp_all
next
  case (Cons c cs)
  have "auth_search (Some c) (cs @ s)" by (rule Cons.IH) (use Cons.prems in \<open>simp split: if_splits\<close>)
  then show ?case by simp
qed

lemma starts_with_self: "starts_with k (k @ s)" "drop (length k) (k @ s) = s"
  by simp_all

lemma auth_here_key:
  assumes "(key, kind, seps) \<in> set CREDENTIAL_KEYS" "fits_before kind before" "quoted_sep seps s"
  shows "auth_here before (key @ s)"
proof -
  have "(key, kind, seps) = (''_auth'', ''word_'', ''=:'') \<or> (key, kind, seps) = (''_authtoken'', ''word_'', ''=:'')
      \<or> (key, kind, seps) = (''_password'', [], ''=:'') \<or> (key, kind, seps) = (''token'', ''word'', ''='')
      \<or> (key, kind, seps) = (''npmauthtoken'', [], '':'') \<or> (key, kind, seps) = (''npmauthident'', [], '':'')"
    using assms(1) by (simp add: CREDENTIAL_KEYS_def)
  then show ?thesis using assms(2,3)
    by (elim disjE) (auto simp: auth_here_def fits_before_def after_auth_def starts_steps split: option.splits)
qed

text \<open>C37: A line that sets a credential is recognised, in any case, for each of the six keys, with the key in
  quotes or not, and with blanks before the separator; it does not come into the filtered text, which
  has exactly the other lines in their order. A line in the format of the first Yarn, where a quoted
  key is followed by a blank and the value, is not recognised.\<close>

theorem credentials_are_filtered:
  assumes "to_lower line = pre @ key @ quote @ blanks @ c # rest" "(key, kind, seps) \<in> set CREDENTIAL_KEYS"
    and "fits_before kind (last_char pre)" "quote = [] \<or> quote = [CHR 0x22] \<or> quote = [CHR 0x27]"
    and "list_all is_ws blanks" "c \<in> set seps"
  shows "is_auth_line line \<and> line \<notin> set (filter (\<lambda>l. \<not> is_auth_line l) (lines_with_ends t))
    \<and> fst (filter_config_auth_lines t) = concat (filter (\<lambda>l. \<not> is_auth_line l) (lines_with_ends t))
    \<and> \<not> is_auth_line (CHR 0x22 # ''//registry/:_authToken'' @ CHR 0x22 # '' '' @ CHR 0x22 # ''secret'' @ [CHR 0x22])"
proof -
  have "\<not> is_ws c" using assms(2,6) by (auto simp: CREDENTIAL_KEYS_def is_ws_def)
  then have "auth_here (last_char pre) (key @ quote @ blanks @ c # rest)"
    using assms by (intro auth_here_key [OF assms(2,3)] quoted_sepI)
  then have "is_auth_line line"
    unfolding is_auth_line_def assms(1) by (intro auth_search_append) (simp_all add: last_char_def)
  moreover have "\<not> is_auth_line (CHR 0x22 # ''//registry/:_authToken'' @ CHR 0x22 # '' '' @ CHR 0x22 # ''secret'' @ [CHR 0x22])"
    by code_simp
  moreover have "fst (filter_config_auth_lines t) = concat (filter (\<lambda>l. \<not> is_auth_line l) (lines_with_ends t))"
    using filter_config_lines(1) [of t] by (cases "filter_config_auth_lines t") simp
  ultimately show ?thesis by simp
qed

section \<open>Rules with a slash\<close>

lemma only_rule: "s \<in> set STRIPPABLE_SEGMENTS \<Longrightarrow> SLASH \<in> set s \<Longrightarrow> s = ''build/dependencies''"
  by (auto simp: STRIPPABLE_SEGMENTS_def)

text \<open>The rule for dependencies below a build directory applies only when the archive begins with that
  directory: under a top directory, which archives usually have, the same members are extracted.\<close>

theorem nested_dependencies_kept:
  assumes "root \<noteq> []" "SLASH \<notin> set root" "BS \<notin> set root" "root \<notin> set STRIPPABLE_SEGMENTS"
  shows "strip_rule_for ''build/dependencies/lib.jar'' = Some ''build/dependencies''
    \<and> strip_rule_for (root @ ''/build/dependencies/lib.jar'') = None"
proof -
  have parts: "name_parts (root @ ''/build/dependencies/lib.jar'') = [root, ''build'', ''dependencies'', ''lib.jar'']"
    using assms by (simp add: name_parts_def normalize_sep_id)
  have "rev (root @ ''/build'') \<noteq> rev ''build/dependencies''" "length (root @ ''/build/dependencies'') \<noteq> length ''build/dependencies''"
    using assms(1) by simp_all
  then have "root @ ''/build'' \<noteq> ''build/dependencies''" "root @ ''/build/dependencies'' \<noteq> ''build/dependencies''"
    by metis+
  with only_rule [of "root @ ''/build''"] only_rule [of "root @ ''/build/dependencies''"] have no: "root @ ''/build'' \<notin> set STRIPPABLE_SEGMENTS" "root @ ''/build/dependencies'' \<notin> set STRIPPABLE_SEGMENTS"
    by auto
  have one: "''build'' \<notin> set STRIPPABLE_SEGMENTS" "''dependencies'' \<notin> set STRIPPABLE_SEGMENTS"
    "''lib.jar'' \<notin> set STRIPPABLE_SEGMENTS" "''lib.jar'' \<notin> set STRIPPABLE_FILES"
    by code_simp+
  have "strip_rule_for (root @ ''/build/dependencies/lib.jar'') = None"
    using assms(4) no one by (simp add: strip_rule_for_def parts starts_steps)
  moreover have "strip_rule_for ''build/dependencies/lib.jar'' = Some ''build/dependencies''" by code_simp
  ultimately show ?thesis by simp
qed

section \<open>Examples\<close>

definition sample_member :: "string \<Rightarrow> member" where
  "sample_member name = \<lparr>zm_name = name, zm_mode = 0, zm_size = 10, zm_packed = 8\<rparr>"

definition sample_zip :: "member list" where
  "sample_zip = map sample_member [''site/index.html'', ''site/node_modules/x.js'', ''site/.npmrc'']"

definition sample_tx :: tree_ctx where
  "sample_tx = \<lparr>tx_dir = [''tmp'', ''import''], tx_extract_fails = (\<lambda>_. False), tx_links = (\<lambda>_. False),
     tx_content = (\<lambda>_. Some (''registry=r'' @ LF # ''token=secret'')), tx_existing = (\<lambda>_. False)\<rparr>"

lemma small_members_pass:
  assumes "length ns \<le> 3"
  shows "assert_zip_bomb_safe (map sample_member ns) = None"
proof -
  have "bomb_scan acc (map sample_member ns) = None" if "acc + 10 * length ns \<le> MAX_UNCOMPRESSED_BYTES" for acc
    using that
    by (induction ns arbitrary: acc) (auto simp: sample_member_def MAX_SINGLE_MEMBER_BYTES_def MIN_RATIO_CHECK_BYTES_def)
  from this [of 0] assms show ?thesis by (simp add: assert_zip_bomb_safe_def MAX_ZIP_MEMBERS_def MAX_UNCOMPRESSED_BYTES_def)
qed

lemma sample_kept: "kept_members sample_zip = map sample_member [''site/index.html'', ''site/.npmrc'']"
proof -
  have "strip_rule_for ''site/index.html'' = None" "strip_rule_for ''site/node_modules/x.js'' = Some ''node_modules''"
    "strip_rule_for ''site/.npmrc'' = None" by code_simp+
  then show ?thesis by (simp add: kept_members_eq sample_zip_def sample_member_def)
qed

lemma sample_extract:
  "\<exists>out. safe_extract sample_tx sample_zip = Inr out
    \<and> ([''index.html''], sample_member ''site/index.html'', As_is) \<in> set out"
proof -
  let ?k = "kept_members sample_zip"
  have bomb: "assert_zip_bomb_safe sample_zip = None" "assert_zip_bomb_safe ?k = None"
    unfolding sample_kept unfolding sample_zip_def by (rule small_members_pass, simp)+
  have names: "\<not> starts_with ''/'' (normalize_sep n) \<and> \<not> has_drive (normalize_sep n)
      \<and> \<not> climbs_out 0 (split_on SLASH (normalize_sep n)) \<and> stays_inside [''tmp'', ''import''] n \<and> place n \<noteq> []"
    if "n \<in> {''site/index.html'', ''site/.npmrc''}" for n
    using that by (elim insertE emptyE) (simp only:, code_simp)+
  have audit: "\<not> has_critical (audit_zip_members (names_modes ?k))"
    using names by (simp add: sample_kept audit_zip_members_def names_modes_def sample_member_def audit_member_def
        is_symlink_mode_def)
  have find: "find (\<lambda>m. \<not> stays_inside (tx_dir sample_tx) (zm_name m)) ?k = None"
    using names by (simp add: sample_kept sample_member_def sample_tx_def)
  have "safe_extract sample_tx sample_zip = Inr (placed sample_tx ?k)"
    using names by (simp add: safe_extract_def bomb audit find) (simp add: sample_kept sample_member_def sample_tx_def)
  moreover have "([''index.html''], sample_member ''site/index.html'', As_is) \<in> set (placed sample_tx ?k)"
    unfolding sample_kept by code_simp
  ultimately show ?thesis by blast
qed


theorem extraction_bounded_witness:
  "\<exists>out. safe_extract sample_tx sample_zip = Inr out \<and> out \<noteq> [] \<and> length out \<le> MAX_ZIP_MEMBERS"
proof -
  obtain out where out: "safe_extract sample_tx sample_zip = Inr out"
    "([''index.html''], sample_member ''site/index.html'', As_is) \<in> set out"
    using sample_extract by blast
  have "out \<noteq> []" using out(2) by (cases out) simp_all
  then show ?thesis using out(1) conjunct1 [OF extraction_bounded [OF out(1)]] by blast
qed

theorem credentials_are_filtered_witness:
  "is_auth_line (CHR 0x22 # ''//reg/:_authToken'' @ CHR 0x22 # '' = x'')
   \<and> fst (filter_config_auth_lines (''a=1'' @ LF # ''token=x'')) = ''a=1'' @ [LF]"
proof -
  let ?pre = "CHR 0x22 # ''//reg/:''"
  have 1: "to_lower (CHR 0x22 # ''//reg/:_authToken'' @ CHR 0x22 # '' = x'')
      = ?pre @ ''_authtoken'' @ [CHR 0x22] @ '' '' @ CHR ''='' # '' x''"
    "fits_before ''word_'' (last_char ?pre)" "list_all is_ws '' ''" by code_simp+
  have 2: "(''_authtoken'', ''word_'', ''=:'') \<in> set CREDENTIAL_KEYS" by (simp add: CREDENTIAL_KEYS_def)
  have 3: "filter (\<lambda>l. \<not> is_auth_line l) (lines_with_ends (''a=1'' @ LF # ''token=x'')) = [''a=1'' @ [LF]]"
    by code_simp
  have 4: "[CHR 0x22] = [] \<or> [CHR 0x22] = [CHR 0x22] \<or> [CHR 0x22] = [CHR 0x27]" "CHR ''='' \<in> set ''=:''" by simp_all
  note filtered = credentials_are_filtered [OF 1(1) 2 1(2) 4(1) 1(3) 4(2), of "''a=1'' @ LF # ''token=x''"]
  have "fst (filter_config_auth_lines (''a=1'' @ LF # ''token=x'')) = concat [''a=1'' @ [LF]]"
    using conjunct1 [OF conjunct2 [OF conjunct2 [OF filtered]]] unfolding 3 .
  with conjunct1 [OF filtered] show ?thesis by (simp only: concat.simps append_Nil2)
qed

theorem nested_dependencies_kept_witness:
  "strip_rule_for (''shop'' @ ''/build/dependencies/lib.jar'') = None"
proof -
  have "''shop'' \<noteq> []" "SLASH \<notin> set ''shop''" "BS \<notin> set ''shop''" "''shop'' \<notin> set STRIPPABLE_SEGMENTS"
    by code_simp+
  from nested_dependencies_kept [OF this] show ?thesis by blast
qed

end
