(* ===== verification/Spec2Isabelle.thy ===== *)
theory Spec2Isabelle
  imports Version_Requirements Paths Reconcile_Circuit Registry_Schema Registry_Facts Agent_Accept_Facts Agent_Worker_Facts Container_Deploy_Facts Status_Facts Start_Facts Candidate_Facts Lifecycle_Facts Lock_Facts Removal_Facts Zip_Facts
begin

text \<open>
  Verification development of local-webpage-access (\<^verbatim>\<open>lwa\<close>), a program that hosts small web projects
  on one machine. An instance is a directory with a manifest (\<^verbatim>\<open>local-web.json\<close>); it is served by a
  shared static gateway or by a Compose container. A SQLite registry holds what all processes share:
  instances, ports, builds, events and the operations of the agent API. File names below are
  relative to \<^verbatim>\<open>src/src/local_webpage_access/\<close>.

  \<^bold>\<open>How the parts work together.\<close> A command, the agent worker or the background loop calls a lifecycle
  operation under the lock of the instance. The operation decides from fingerprints what has to be
  done, renders files, builds an image under the gate that all processes share, swaps containers,
  probes the result, and records it in the manifest and in the registry. What goes wrong on the way
  is compensated from snapshots. Observation later compares what is recorded with what Docker and the
  gateway say.

  \<^bold>\<open>Theories.\<close>
  \<^item> Lwa\_Prelude, Lwa\_Text, Lwa\_Numbers: Python strings (code points below 256; Docker\_Query keeps the
    few words that are not ASCII as UTF-8 bytes), numerals, addresses, JSON values and tables of rows.
  \<^item> Lwa\_Interfaces: the locales \<open>status_machine\<close>, \<open>cas_store\<close>, \<open>port_store\<close> and \<open>snapshot_store\<close>. They
    are interpreted as \<open>build_status\<close> (Build\_Gate), \<open>reg_rev\<close> and \<open>reg_ops\<close> (Registry\_Tables,
    Registry\_Agent), \<open>reg_ports\<close> (Registry\_Tables), \<open>generated\<close> and \<open>env_local\<close> (Artifacts). The
    locale \<open>fallback_hosts\<close> of Fallback\_Facts says what a host function may touch; \<open>container\<close>
    interprets it on the modelled deployment.
  \<^item> Version\_Requirements (\<^verbatim>\<open>version_requirements.py\<close>), Paths (\<^verbatim>\<open>paths.py\<close>), Models\_Manifest
    (\<^verbatim>\<open>models.py\<close>), Config (\<^verbatim>\<open>config.py\<close>), Ports (\<^verbatim>\<open>ports.py\<close>), Logs (\<^verbatim>\<open>logs.py\<close>),
    Reconcile\_Circuit (\<^verbatim>\<open>reconcile_circuit.py\<close>): the validators, the port allocator, the reading of
    logs and the circuit breaker.
  \<^item> Registry\_Schema (\<^verbatim>\<open>registry/connection.py\<close>); Registry\_State, Registry\_Instances, Registry\_Tables,
    Registry\_Agent, Registry\_Invariant, Registry\_Facts (\<^verbatim>\<open>registry/dao.py\<close>): one list of rows per table,
    one definition per method; a method returns an error or a value with the new tables, and an error
    rolls back (\<open>commit\<close>).
  \<^item> Build\_Gate, Build\_Queue (\<^verbatim>\<open>build_queue.py\<close>): the slots and tasks in the shared database, and
    running and cancelling a build under them.
  \<^item> Agent\_Contracts, Agent\_Service, Agent\_Operations, Agent\_Accept\_Facts, Agent\_Worker,
    Agent\_Worker\_Facts (\<^verbatim>\<open>agent/\<close>): planning, accepting, executing, cancelling and recovering
    operations.
  \<^item> Artifacts (\<^verbatim>\<open>rebuild_txn.py\<close>, \<^verbatim>\<open>versions.py\<close>), Rollback (\<^verbatim>\<open>rollback.py\<close>), Container\_Deploy,
    Container\_Deploy\_Facts (\<open>host_container\<close> of \<^verbatim>\<open>hosting.py\<close>): snapshots, archived builds, the
    deployment as a list of stages over a state that keeps the manifest in memory apart from the one
    on disk, and its compensation.
  \<^item> Docker\_Query (\<^verbatim>\<open>docker_runtime.py\<close>), Status\_Observation, Status\_Facts (\<^verbatim>\<open>capability.py\<close>,
    \<^verbatim>\<open>lifecycle.py\<close>, \<^verbatim>\<open>status.py\<close>): the commands whose output says what runs, and what is recorded.
  \<^item> Start\_Decision, Container\_Start, Start\_Facts (\<^verbatim>\<open>lifecycle.py\<close>, \<^verbatim>\<open>generated_convergence.py\<close>,
    \<^verbatim>\<open>hosting.py\<close>): fingerprints, the decision how a deployed container starts, the light start, the
    recreation and the stop.
  \<^item> Plan\_Models, Candidates, Candidate\_Facts (\<^verbatim>\<open>models.py\<close>, \<^verbatim>\<open>candidate_generator.py\<close>): what the
    evidence of a project becomes: candidates, plans, contracts and probes.
  \<^item> Fallback, Fallback\_Facts (\<^verbatim>\<open>lifecycle.py\<close>): the first deployment with its attempts, their
    snapshots and rollbacks, and the comparison of capabilities.
  \<^item> Lifecycle, Lifecycle\_Facts (\<^verbatim>\<open>lifecycle.py\<close>, \<^verbatim>\<open>path_alias.py\<close>, \<^verbatim>\<open>host_build.py\<close>): start, restart,
    recover, rebuild and stop, which put the parts above together.
  \<^item> Instance\_Lock, Lock\_Facts (\<^verbatim>\<open>lifecycle.py\<close>, \<^verbatim>\<open>file_lock.py\<close>): the lock of an instance as a machine
    of calls in threads and processes, and the text of its file.
  \<^item> Removal, Removal\_Facts (\<^verbatim>\<open>lifecycle.py\<close>): removing an instance in stages, and cleaning those
    that come from the same archive. The state is the registry and the directory of every instance.
  \<^item> Security\_Audit, Audit\_Facts (\<^verbatim>\<open>security.py\<close>), Zip\_Audit, Zip\_Facts (\<^verbatim>\<open>security.py\<close>,
    \<^verbatim>\<open>zip_processor.py\<close>): the audits of Compose files and Dockerfiles and the extraction of archives.
    Regular expressions are functions on texts; paths are judged by their text, as in the code, and
    compared with their components in the facts.

  \<^bold>\<open>What the lemmas show.\<close>
  \<^item> Registry: every sequence of writes keeps the constraints of the schema; migrations converge from
    any version; racing increments of a revision have at most one winner; the oldest operation is
    claimed.
  \<^item> Builds: never more builds than the gate allows, the status of a task follows its table, a
    cancellation is honoured, a success is recorded.
  \<^item> Operations: a replay under a key changes nothing, the number of pending operations is bounded, an
    execution ends in a final status that is never left.
  \<^item> Containers: a rebuild succeeds verified or keeps the old version or says what is left; so do a
    rollback and a recreation; the decision about a start restores or renders the files as the
    fingerprints demand; what a light start and a stop record agrees with what happened.
  \<^item> Observation: an answer of Docker becomes the trusted state, a failure keeps it, and a
    synchronisation reports exactly what changed.
  \<^item> Plans and fallback: a back end never becomes a static site, a successful fallback has exactly the
    capabilities of the contract, a rollback returns to its snapshot, an unsafe one ends the attempts.
  \<^item> Lifecycle: a stale request changes nothing, the automatic recovery never runs the user's commands,
    the mark of a pending host build is cleared by a success only.
  \<^item> Lock: one call at a time is in its body, its file names it, a nested call never gets it.
  \<^item> Removal: the registry forgets the instance whatever fails, data goes only when forced, others are
    not touched; of each archive the oldest instance stays.
  \<^item> Security: an accepted Compose file mounts no system directory and no home, however the path is
    spelled; a download handed to an interpreter is found; an archive is extracted inside of the target
    and within the limits, without recognised credentials.
  \<^item> Where the code does not do what its comments say, the theorem states what it does: a failed status
    query counts as stopped, stale snapshots are restored, an aborted recreation loses the snapshot,
    old fingerprints always lead to a rebuild, the paging of logs loses a line, generated plans are
    never fallbacks, a placeholder can hide the holder of a lock,
    a tab or a quoted ampersand hides a download, the rule for nested dependencies works at the top only.

  \<^bold>\<open>Time, concurrency, fuel.\<close> Time stamps are passed in by the caller. What other processes do is a
  function applied at the points where the code gives up a lock or sleeps (\<open>x_env\<close> of the build queue,
  \<open>dx_port_env\<close> of the deployment, the calls of the worker); the theorems hold for every such
  function that keeps the invariant. Waiting for a build slot counts the polls that remain; reading
  a log backwards ends because each block shortens the rest; following the pages of a list is
  bounded by the number of rows. No definition can run out of fuel.

  \<^bold>\<open>Parameters.\<close> Docker, the probes over HTTP, the generators of files, YAML, \<^verbatim>\<open>json.loads\<close>, hashes, the
  gateway and the file system beyond the modelled directories are arguments of the definitions. What
  a theorem needs of them is a premise with a name (\<open>docker_ok\<close>, \<open>stop_ok\<close>), and each has a witness
  that instantiates it. Texts of errors that nothing reads are short labels; those that are
  classified are kept.

  \<^bold>\<open>Not modelled.\<close> The command line, the HTTP and MCP transports and the pages translate requests into
  these operations. Import (beyond the extraction of archives), scanning and the templates of Dockerfiles
  work on source trees and third-party formats; the evidence and the routes read from sources are
  parameters. The gateway, host integration, the services of the operating
  system and updates drive external programs. Of hosting, the static and
  front-end deployments are missing; of the manifest, the network entry. The gateway's part in a
  start (the text of an alias fragment, the live check) is a parameter.
\<close>

end
